(* ===== verification/Prelude.thy ===== *)
theory Prelude
  imports Complex_Main "HOL-Library.Word" "HOL-Library.AList"
begin

text \<open>
  What every component shares: the machine types and the bytes of a \<open>std::string\<close>, the parts
  of the C++ standard library the sources rely on (\<open>find\<close>, \<open>rfind\<close>, \<open>substr\<close>,
  \<open>std::to_string\<close>, \<open>std::stoull\<close>, \<open>std::unordered_map\<close>), exceptions as the left
  injection of a sum, the interface of a keyed table and the interface of an invariant of a
  transition system. Generic lemmas about them are declared for the simplifier here.
\<close>

unbundle bit_operations_syntax

named_theorems json_simps and umap_simps and text_simps and store_defs and router_defs

section \<open>Machine types and bytes\<close>

type_synonym int64 = "64 word"
type_synonym uint64 = "64 word"
type_synonym uint32 = "32 word"
type_synonym int32 = "32 word"
type_synonym uint16 = "16 word"

text \<open>\<open>static_cast<unsigned char>(c)\<close>, as a number below 256.\<close>

definition byte :: "char \<Rightarrow> nat" where
  "byte c = of_char c"

lemma byte_less: "byte c < 256"
  by (simp add: byte_def of_char_def)

lemma byte_inject [simp]: "byte c = byte d \<longleftrightarrow> c = d"
  by (simp add: byte_def)

lemma char_of_byte [simp]: "char_of (byte c) = c"
  by (simp add: byte_def)

lemma byte_char_of: "n < 256 \<Longrightarrow> byte (char_of n) = n"
  by (simp add: byte_def)

definition uint64_max :: nat where
  "uint64_max = 2 ^ 64 - 1"

definition int64_max :: int where
  "int64_max = 2 ^ 63 - 1"

definition int64_min :: int where
  "int64_min = - (2 ^ 63)"

section \<open>Exceptions\<close>

text \<open>A throwing computation returns \<open>Inl\<close> of the exception; \<open>bindE\<close> is sequencing.\<close>

definition bindE :: "'e + 'a \<Rightarrow> ('a \<Rightarrow> 'e + 'b) \<Rightarrow> 'e + 'b" where
  "bindE m f = (case m of Inl e \<Rightarrow> Inl e | Inr x \<Rightarrow> f x)"

lemma bindE_simps [simp]: "bindE (Inl e) f = Inl e" "bindE (Inr x) f = f x"
  by (simp_all add: bindE_def)

lemma bindE_Inr: "bindE m f = Inr y \<longleftrightarrow> (\<exists>x. m = Inr x \<and> f x = Inr y)"
  by (cases m) simp_all

section \<open>Searching in strings\<close>

text \<open>
  \<open>std::string::find(char)\<close> and \<open>rfind(char)\<close>: the index of the first and of the last
  occurrence, \<open>None\<close> for \<open>npos\<close>.
\<close>

primrec find_first_if :: "(char \<Rightarrow> bool) \<Rightarrow> string \<Rightarrow> nat option" where
  "find_first_if p [] = None"
| "find_first_if p (c # cs) = (if p c then Some 0 else map_option Suc (find_first_if p cs))"

definition find_char :: "char \<Rightarrow> string \<Rightarrow> nat option" where
  "find_char c s = find_first_if (\<lambda>d. d = c) s"

definition rfind_char :: "char \<Rightarrow> string \<Rightarrow> nat option" where
  "rfind_char c s =
     (case find_char c (rev s) of None \<Rightarrow> None | Some i \<Rightarrow> Some (length s - 1 - i))"

text \<open>\<open>find(needle)\<close> for a string needle.\<close>

fun find_str :: "string \<Rightarrow> string \<Rightarrow> nat option" where
  "find_str needle [] = (if needle = [] then Some 0 else None)"
| "find_str needle (c # cs) =
     (if take (length needle) (c # cs) = needle then Some 0
      else map_option Suc (find_str needle cs))"

text \<open>\<open>text.rfind(prefix, 0) == 0\<close>: the idiom for "starts with".\<close>

definition quote :: string where
  "quote = [CHR 0x27]"

definition starts_with :: "string \<Rightarrow> string \<Rightarrow> bool" where
  "starts_with text pre \<longleftrightarrow> take (length pre) text = pre"

lemma starts_with_append [simp]: "starts_with (pre @ s) pre"
  by (simp add: starts_with_def)

lemma find_first_if_None [text_simps]: "find_first_if p s = None \<longleftrightarrow> (\<forall>c \<in> set s. \<not> p c)"
  by (induction s) auto

lemma find_first_if_append_skip:
  "\<forall>c \<in> set s. \<not> p c \<Longrightarrow> find_first_if p (s @ t) = map_option ((+) (length s)) (find_first_if p t)"
  by (induction s) (cases "find_first_if p t"; simp)+

lemma find_first_if_Some:
  "find_first_if p s = Some i \<Longrightarrow>
     i < length s \<and> p (s ! i) \<and> (\<forall>c \<in> set (take i s). \<not> p c)"
  by (induction s arbitrary: i) (auto split: if_splits)

lemma find_char_None [text_simps]: "find_char c s = None \<longleftrightarrow> c \<notin> set s"
  by (auto simp: find_char_def find_first_if_None)

lemma find_char_split [text_simps]:
  "c \<notin> set s \<Longrightarrow> find_char c (s @ c # t) = Some (length s)"
  unfolding find_char_def by (subst find_first_if_append_skip) auto

lemma find_char_Some:
  "find_char c s = Some i \<Longrightarrow> i < length s \<and> s ! i = c \<and> c \<notin> set (take i s)"
  using find_first_if_Some [of "\<lambda>d. d = c" s i] by (auto simp: find_char_def)

lemma rfind_char_split [text_simps]:
  "c \<notin> set t \<Longrightarrow> rfind_char c (s @ c # t) = Some (length s)"
  by (simp add: rfind_char_def find_char_split)

section \<open>Decimal numbers\<close>

text \<open>\<open>std::to_string\<close> of an unsigned and of a signed integer.\<close>

fun to_string_nat :: "nat \<Rightarrow> string" where
  "to_string_nat n =
     (if n < 10 then [char_of (48 + n)] else to_string_nat (n div 10) @ [char_of (48 + n mod 10)])"

declare to_string_nat.simps [simp del]

text \<open>An equation for evaluation, with a table instead of \<open>char_of\<close>.\<close>

lemma digit_table: "n < 10 \<Longrightarrow> char_of (48 + n) = ''0123456789'' ! n"
proof -
  have "\<forall>n \<in> set [0..<10]. char_of (48 + n) = ''0123456789'' ! n" by code_simp
  then show "n < 10 \<Longrightarrow> char_of (48 + n) = ''0123456789'' ! n" by simp
qed

lemma to_string_nat_code [code]:
  "to_string_nat n =
     (if n < 10 then [''0123456789'' ! n] else to_string_nat (n div 10) @ [''0123456789'' ! (n mod 10)])"
  by (subst to_string_nat.simps) (simp add: digit_table)

definition to_string_int :: "int \<Rightarrow> string" where
  "to_string_int i = (if i < 0 then CHR ''-'' # to_string_nat (nat (- i)) else to_string_nat (nat i))"

definition is_digit :: "char \<Rightarrow> bool" where
  "is_digit c \<longleftrightarrow> 48 \<le> byte c \<and> byte c \<le> 57"

definition digit_value :: "char \<Rightarrow> nat" where
  "digit_value c = byte c - 48"

definition decimal_value :: "nat \<Rightarrow> string \<Rightarrow> nat" where
  "decimal_value acc s = foldl (\<lambda>a c. a * 10 + digit_value c) acc s"

lemma decimal_value_simps [simp]:
  "decimal_value acc [] = acc"
  "decimal_value acc (c # cs) = decimal_value (acc * 10 + digit_value c) cs"
  "decimal_value acc (s @ t) = decimal_value (decimal_value acc s) t"
  by (simp_all add: decimal_value_def)

lemma decimal_value_mono: "acc \<le> decimal_value acc s"
proof (induction s arbitrary: acc)
  case (Cons c cs)
  have "acc \<le> acc * 10 + digit_value c" by simp
  also have "\<dots> \<le> decimal_value (acc * 10 + digit_value c) cs" by (rule Cons.IH)
  finally show ?case by simp
qed simp

lemma digit_char: "n < 10 \<Longrightarrow> is_digit (char_of (48 + n)) \<and> digit_value (char_of (48 + n)) = n"
  by (simp add: is_digit_def digit_value_def byte_char_of)

lemma to_string_nat_digits [simp]: "c \<in> set (to_string_nat n) \<Longrightarrow> is_digit c"
proof (induction n rule: to_string_nat.induct)
  case (1 n)
  show ?case
  proof (cases "n < 10")
    case True
    with "1.prems" show ?thesis
      by (subst (asm) to_string_nat.simps) (simp add: digit_char)
  next
    case False
    with "1.prems" have "c \<in> set (to_string_nat (n div 10)) \<or> c = char_of (48 + n mod 10)"
      by (subst (asm) to_string_nat.simps) auto
    with "1.IH" False digit_char [of "n mod 10"] show ?thesis by auto
  qed
qed

lemma to_string_nat_value [simp]: "decimal_value 0 (to_string_nat n) = n"
proof (induction n rule: to_string_nat.induct)
  case (1 n)
  show ?case
  proof (cases "n < 10")
    case True
    then show ?thesis by (subst to_string_nat.simps) (simp add: digit_char)
  next
    case False
    with "1.IH" show ?thesis
      by (subst to_string_nat.simps) (simp add: digit_char)
  qed
qed

lemma to_string_nat_nonempty [simp]: "to_string_nat n \<noteq> []"
  by (subst to_string_nat.simps) simp

lemma to_string_nat_inject [simp]: "to_string_nat m = to_string_nat n \<longleftrightarrow> m = n"
  by (metis to_string_nat_value)

text \<open>
  \<open>std::stoull(text, &consumed)\<close>: white space is skipped, a sign is accepted (a minus sign
  negates modulo \<open>2 ^ 64\<close>), then the longest run of digits is read. No digits and a value
  that does not fit are exceptions. The result is the value and the number of bytes consumed.
\<close>

definition is_space :: "char \<Rightarrow> bool" where
  "is_space c \<longleftrightarrow> byte c = 32 \<or> (9 \<le> byte c \<and> byte c \<le> 13)"

definition stoull :: "string \<Rightarrow> (nat \<times> nat) option" where
  "stoull s =
     (let n_space = length (takeWhile is_space s);
          r = drop n_space s;
          signed = (r \<noteq> [] \<and> (hd r = CHR ''-'' \<or> hd r = CHR ''+''));
          negative = (r \<noteq> [] \<and> hd r = CHR ''-'');
          n_sign = (if signed then 1 else 0);
          digits = takeWhile is_digit (drop n_sign r);
          v = decimal_value 0 digits
      in if digits = [] \<or> v > uint64_max then None
         else Some (if negative then (2 ^ 64 - v) mod 2 ^ 64 else v, n_space + n_sign + length digits))"

lemma is_digit_not_space: "is_digit c \<Longrightarrow> \<not> is_space c"
  by (auto simp: is_digit_def is_space_def)

lemma is_digit_not_sign: "is_digit c \<Longrightarrow> c \<noteq> CHR ''-'' \<and> c \<noteq> CHR ''+''"
  by (auto simp: is_digit_def byte_def)

lemma stoull_digits:
  assumes "s \<noteq> []" and "\<forall>c \<in> set s. is_digit c" and "decimal_value 0 s \<le> uint64_max"
  shows "stoull s = Some (decimal_value 0 s, length s)"
proof -
  have hd: "is_digit (hd s)" using assms(1,2) by (cases s) auto
  have "takeWhile is_space s = []"
    using assms(1) hd is_digit_not_space by (cases s) auto
  moreover have "takeWhile is_digit s = s"
    using assms(2) by (simp only: takeWhile_eq_all_conv)
  moreover have "hd s \<noteq> CHR ''-''" "hd s \<noteq> CHR ''+''"
    using is_digit_not_sign [OF hd] by simp_all
  ultimately show ?thesis
    using assms(1,3) by (simp add: stoull_def Let_def del: takeWhile_eq_all_conv)
qed

lemma stoull_to_string_nat [simp]:
  "n \<le> uint64_max \<Longrightarrow> stoull (to_string_nat n) = Some (n, length (to_string_nat n))"
  by (simp add: stoull_digits)

section \<open>Hash maps\<close>

text \<open>
  A \<open>std::unordered_map\<close> is an association list with distinct keys; its order, like the
  iteration order of the hash map, carries no meaning. \<open>find\<close> is \<open>map_of\<close>,
  assignment through \<open>operator[]\<close> is \<open>AList.update\<close>, \<open>erase\<close> is \<open>AList.delete\<close>.
\<close>

type_synonym ('k, 'v) umap = "('k \<times> 'v) list"

abbreviation umap_put :: "'k \<Rightarrow> 'v \<Rightarrow> ('k, 'v) umap \<Rightarrow> ('k, 'v) umap" where
  "umap_put \<equiv> AList.update"

abbreviation umap_erase :: "'k \<Rightarrow> ('k, 'v) umap \<Rightarrow> ('k, 'v) umap" where
  "umap_erase \<equiv> AList.delete"

definition umap_wf :: "('k, 'v) umap \<Rightarrow> bool" where
  "umap_wf m \<longleftrightarrow> distinct (map fst m)"

lemma umap_wf_simps [umap_simps, simp]:
  "umap_wf []" "umap_wf m \<Longrightarrow> umap_wf (umap_put k v m)" "umap_wf m \<Longrightarrow> umap_wf (umap_erase k m)"
  by (simp_all add: umap_wf_def distinct_update distinct_delete)

lemma umap_put_apply [umap_simps]:
  "map_of (umap_put k v m) k' = (if k' = k then Some v else map_of m k')"
  by (simp add: update_conv')

lemma umap_erase_apply [umap_simps]:
  "map_of (umap_erase k m) k' = (if k' = k then None else map_of m k')"
  by (simp add: delete_conv')

lemma umap_put_fresh: "map_of m k = None \<Longrightarrow> umap_put k v m = m @ [(k, v)]"
  by (induction m) auto

lemma umap_put_length:
  "length (umap_put k v m) = (if map_of m k = None then Suc (length m) else length m)"
  by (induction m) auto

lemma umap_erase_absent: "map_of m k = None \<Longrightarrow> umap_erase k m = m"
  by (induction m) auto

lemma umap_erase_length_le: "length (umap_erase k m) \<le> length m"
  by (induction m) auto

lemma umap_erase_length:
  "umap_wf m \<Longrightarrow> map_of m k \<noteq> None \<Longrightarrow> Suc (length (umap_erase k m)) = length m"
proof (induction m)
  case (Cons kv m)
  then show ?case
    by (cases "fst kv = k") (auto simp: umap_wf_def umap_erase_absent map_of_eq_None_iff)
qed simp

lemma umap_in_set: "umap_wf m \<Longrightarrow> map_of m k = Some v \<longleftrightarrow> (k, v) \<in> set m"
  by (simp add: umap_wf_def)

section \<open>Interfaces\<close>

text \<open>
  A table keyed up to an equivalence: what a lookup returns after an insertion, for tables
  that satisfy an invariant. The clients' lemmas are proved once; the hash map, a JSON object
  and an HTTP header list are interpretations.
\<close>

locale keyed_table =
  fixes get :: "'t \<Rightarrow> 'k \<Rightarrow> 'v option"
    and put :: "'k \<Rightarrow> 'v \<Rightarrow> 't \<Rightarrow> 't"
    and same :: "'k \<Rightarrow> 'k \<Rightarrow> bool"
    and inv :: "'t \<Rightarrow> bool"
  assumes same_refl: "same k k"
    and same_sym: "same k k' \<Longrightarrow> same k' k"
    and same_trans: "same k k' \<Longrightarrow> same k' k'' \<Longrightarrow> same k k''"
    and inv_put: "inv t \<Longrightarrow> inv (put k v t)"
    and get_put: "inv t \<Longrightarrow> get (put k v t) k' = (if same k k' then Some v else get t k')"
begin

lemma get_put_same: "inv t \<Longrightarrow> get (put k v t) k = Some v"
  by (simp add: get_put same_refl)

lemma get_put_other: "inv t \<Longrightarrow> \<not> same k k' \<Longrightarrow> get (put k v t) k' = get t k'"
  by (simp add: get_put)

lemma last_put_wins: "inv t \<Longrightarrow> get (put k v (put k w t)) = get (put k v t)"
  by (auto simp: get_put inv_put)

lemma put_commute:
  assumes "\<not> same k k'" and "inv t"
  shows "get (put k v (put k' w t)) = get (put k' w (put k v t))"
proof
  fix x
  have "same k x \<Longrightarrow> same x k' \<Longrightarrow> False"
    using assms same_trans [of k x k'] by blast
  then have "\<not> (same k x \<and> same k' x)"
    using same_sym [of k' x] by blast
  then show "get (put k v (put k' w t)) x = get (put k' w (put k v t)) x"
    using assms(2) by (auto simp: get_put inv_put)
qed

end

locale erasable_table = keyed_table +
  fixes del :: "'k \<Rightarrow> 't \<Rightarrow> 't"
  assumes inv_del: "inv t \<Longrightarrow> inv (del k t)"
    and get_del: "inv t \<Longrightarrow> get (del k t) k' = (if same k k' then None else get t k')"
begin

lemma del_put: "inv t \<Longrightarrow> get (del k (put k v t)) = get (del k t)"
  by (auto simp: get_put get_del inv_put)

lemma put_del: "inv t \<Longrightarrow> get (put k v (del k t)) = get (put k v t)"
  by (auto simp: get_put get_del inv_del)

lemma inv_dels: "inv t \<Longrightarrow> inv (foldl (\<lambda>t k. del k t) t ks)"
  by (induction ks arbitrary: t) (auto simp: inv_del)

lemma get_dels:
  "inv t \<Longrightarrow> get (foldl (\<lambda>t k. del k t) t ks) k' =
     (if \<exists>k \<in> set ks. same k k' then None else get t k')"
  by (induction ks arbitrary: t) (auto simp: get_del inv_del)

end

interpretation umap: erasable_table map_of umap_put "(=)" umap_wf umap_erase
  by unfold_locales (auto simp: umap_simps)

text \<open>
  A transition system with an invariant: the start state satisfies it and every step keeps it,
  so every reachable state satisfies it.
\<close>

locale invariant_system =
  fixes start :: "'s \<Rightarrow> bool"
    and step :: "'s \<Rightarrow> 's \<Rightarrow> bool"
    and inv :: "'s \<Rightarrow> bool"
  assumes inv_start: "start s \<Longrightarrow> inv s"
    and inv_step: "step s t \<Longrightarrow> inv s \<Longrightarrow> inv t"
begin

lemma inv_steps: "step\<^sup>*\<^sup>* s t \<Longrightarrow> inv s \<Longrightarrow> inv t"
  by (induction rule: rtranclp_induct) (auto intro: inv_step)

lemma inv_reachable: "start s \<Longrightarrow> step\<^sup>*\<^sup>* s t \<Longrightarrow> inv t"
  by (rule inv_steps) (auto intro: inv_start)

end

end
