(* ===== verification/Json.thy ===== *)
theory Json
  imports Prelude
begin

text \<open>
  JSON values as the sources handle them (\<open>jsoncons::json\<close>, named \<open>JsonValue\<close> in
  include/mcp/jsonrpc/types.hpp): the six kinds of RFC 8259 value with the integer and the
  floating-point representation kept apart, and the accessors the sources call. Parsing and
  printing of JSON text belong to the third-party library and are parameters where they are
  used. An object is the list of its members, one per name; the library
  keeps them sorted, which the model does only where the code observes the order.
\<close>

section \<open>Doubles\<close>

text \<open>
  An IEEE 754 double is not a number, an infinity (\<open>True\<close> for the negative one) or a rational.
  The sources compare doubles, copy them and convert 64-bit integers to them, nothing else.
\<close>

datatype float64 = NaN | Infinity bool | Finite rat

fun float_le :: "float64 \<Rightarrow> float64 \<Rightarrow> bool" where
  "float_le NaN _ = False"
| "float_le _ NaN = False"
| "float_le (Infinity n) (Infinity m) = (n \<or> \<not> m)"
| "float_le (Infinity n) (Finite _) = n"
| "float_le (Finite _) (Infinity m) = (\<not> m)"
| "float_le (Finite a) (Finite b) = (a \<le> b)"

definition float_less :: "float64 \<Rightarrow> float64 \<Rightarrow> bool" where
  "float_less a b \<longleftrightarrow> a \<noteq> NaN \<and> b \<noteq> NaN \<and> \<not> float_le b a"

lemma float_le_trans: "float_le a b \<Longrightarrow> float_le b c \<Longrightarrow> float_le a c"
  by (cases a; cases b; cases c) auto

lemma float_less_trans: "float_less a b \<Longrightarrow> float_less b c \<Longrightarrow> float_less a c"
  by (cases a; cases b; cases c) (auto simp: float_less_def)

lemma float_not_le: "a \<noteq> NaN \<Longrightarrow> b \<noteq> NaN \<Longrightarrow> \<not> float_le a b \<longleftrightarrow> float_less b a"
  by (simp add: float_less_def)

lemma float_less_irrefl [simp]: "\<not> float_less a a"
  by (cases a) (auto simp: float_less_def)

text \<open>
  \<open>static_cast<double>\<close> of an integer: exact up to 53 significant bits, otherwise rounded to
  nearest with ties to even.
\<close>

fun bit_length :: "nat \<Rightarrow> nat" where
  "bit_length n = (if n = 0 then 0 else Suc (bit_length (n div 2)))"

declare bit_length.simps [simp del]

definition round53 :: "nat \<Rightarrow> nat" where
  "round53 n =
     (let e = bit_length n - 53; q = n div 2 ^ e; r = n mod 2 ^ e
      in (if 2 * r > 2 ^ e \<or> (2 * r = 2 ^ e \<and> odd q) then q + 1 else q) * 2 ^ e)"

definition float_of_int :: "int \<Rightarrow> float64" where
  "float_of_int i =
     Finite (if i < 0 then - of_nat (round53 (nat (- i))) else of_nat (round53 (nat i)))"

lemma bit_length_le: "n < 2 ^ k \<Longrightarrow> bit_length n \<le> k"
proof (induction k arbitrary: n)
  case 0
  then show ?case by (simp add: bit_length.simps)
next
  case (Suc k)
  then have "n div 2 < 2 ^ k" by auto
  with Suc.IH have "bit_length (n div 2) \<le> k" by blast
  then show ?case by (subst bit_length.simps) simp
qed

lemma round53_exact: "n < 2 ^ 53 \<Longrightarrow> round53 n = n"
  using bit_length_le [of n 53] by (simp add: round53_def)

lemma float_of_int_exact: "\<bar>i\<bar> < 2 ^ 53 \<Longrightarrow> float_of_int i = Finite (of_int i)"
  by (auto simp: float_of_int_def round53_exact)

section \<open>Values and accessors\<close>

datatype json =
    JNull
  | JBool bool
  | JInt int
  | JDouble float64
  | JString string
  | JArray "json list"
  | JObject "(string, json) umap"

definition is_null :: "json \<Rightarrow> bool" where
  "is_null j \<longleftrightarrow> j = JNull"

definition is_object :: "json \<Rightarrow> bool" where
  "is_object j = (case j of JObject _ \<Rightarrow> True | _ \<Rightarrow> False)"

definition is_array :: "json \<Rightarrow> bool" where
  "is_array j = (case j of JArray _ \<Rightarrow> True | _ \<Rightarrow> False)"

definition is_string :: "json \<Rightarrow> bool" where
  "is_string j = (case j of JString _ \<Rightarrow> True | _ \<Rightarrow> False)"

text \<open>An integer value has both kinds when it is in both ranges, as in the library.\<close>

definition is_int64 :: "json \<Rightarrow> bool" where
  "is_int64 j = (case j of JInt i \<Rightarrow> int64_min \<le> i \<and> i \<le> int64_max | _ \<Rightarrow> False)"

definition is_uint64 :: "json \<Rightarrow> bool" where
  "is_uint64 j = (case j of JInt i \<Rightarrow> 0 \<le> i \<and> i \<le> int uint64_max | _ \<Rightarrow> False)"

definition as_integer :: "json \<Rightarrow> int" where
  "as_integer j = (case j of JInt i \<Rightarrow> i | _ \<Rightarrow> 0)"

definition as_string :: "json \<Rightarrow> string" where
  "as_string j = (case j of JString s \<Rightarrow> s | _ \<Rightarrow> [])"

text \<open>
  Member lookup: \<open>contains(k)\<close> and \<open>at(k)\<close> in one, false and no value on anything but
  an object.
\<close>

definition jget :: "json \<Rightarrow> string \<Rightarrow> json option" where
  "jget j k = (case j of JObject ms \<Rightarrow> map_of ms k | _ \<Rightarrow> None)"

definition contains :: "json \<Rightarrow> string \<Rightarrow> bool" where
  "contains j k \<longleftrightarrow> jget j k \<noteq> None"

text \<open>Member assignment and \<open>erase\<close>; the sources apply them to objects only.\<close>

definition jput :: "string \<Rightarrow> json \<Rightarrow> json \<Rightarrow> json" where
  "jput k v j = (case j of JObject ms \<Rightarrow> JObject (umap_put k v ms) | _ \<Rightarrow> j)"

definition jdel :: "string \<Rightarrow> json \<Rightarrow> json" where
  "jdel k j = (case j of JObject ms \<Rightarrow> JObject (umap_erase k ms) | _ \<Rightarrow> j)"

text \<open>\<open>if (x.has_value()) object[k] = *x\<close>.\<close>

definition jput_opt :: "string \<Rightarrow> json option \<Rightarrow> json \<Rightarrow> json" where
  "jput_opt k v j = (case v of None \<Rightarrow> j | Some x \<Rightarrow> jput k x j)"

text \<open>The value of a member that is present and a string, the most common test of the sources.\<close>

definition get_string :: "json \<Rightarrow> string \<Rightarrow> string option" where
  "get_string j k = (case jget j k of Some (JString s) \<Rightarrow> Some s | _ \<Rightarrow> None)"

text \<open>The value of a member that is present and an object.\<close>

definition get_object :: "json \<Rightarrow> string \<Rightarrow> json option" where
  "get_object j k = (case jget j k of Some v \<Rightarrow> if is_object v then Some v else None | None \<Rightarrow> None)"

definition empty_object :: json where
  "empty_object = JObject []"

lemma kind_simps [json_simps, simp]:
  "is_null JNull" "\<not> is_null (JBool b)" "\<not> is_null (JInt i)" "\<not> is_null (JDouble d)"
  "\<not> is_null (JString s)" "\<not> is_null (JArray xs)" "\<not> is_null (JObject ms)"
  "\<not> is_object JNull" "\<not> is_object (JBool b)" "\<not> is_object (JInt i)" "\<not> is_object (JDouble d)"
  "\<not> is_object (JString s)" "\<not> is_object (JArray xs)" "is_object (JObject ms)"
  "\<not> is_array JNull" "\<not> is_array (JBool b)" "\<not> is_array (JInt i)" "\<not> is_array (JDouble d)"
  "\<not> is_array (JString s)" "is_array (JArray xs)" "\<not> is_array (JObject ms)"
  "\<not> is_string JNull" "\<not> is_string (JBool b)" "\<not> is_string (JInt i)" "\<not> is_string (JDouble d)"
  "is_string (JString s)" "\<not> is_string (JArray xs)" "\<not> is_string (JObject ms)"
  by (simp_all add: is_null_def is_object_def is_array_def is_string_def)

lemma is_object_iff: "is_object j \<longleftrightarrow> (\<exists>ms. j = JObject ms)"
  by (cases j) (auto simp: is_object_def)

lemma is_string_iff: "is_string j \<longleftrightarrow> (\<exists>s. j = JString s)"
  by (cases j) (auto simp: is_string_def)

lemma is_null_iff: "is_null j \<longleftrightarrow> j = JNull"
  by (simp add: is_null_def)

lemma as_string_simps [json_simps, simp]: "as_string (JString s) = s"
  by (simp add: as_string_def)

lemma is_object_put [json_simps, simp]:
  "is_object (jput k v j) = is_object j" "is_object (jdel k j) = is_object j"
  "is_object empty_object" "is_object (jput_opt k ov j) = is_object j"
  by (auto simp: jput_def jdel_def empty_object_def jput_opt_def split: json.splits option.splits)

lemma jget_put [json_simps, simp]:
  "is_object j \<Longrightarrow> jget (jput k v j) k' = (if k' = k then Some v else jget j k')"
  "jget (jdel k j) k' = (if k' = k then None else jget j k')"
  "jget empty_object k = None"
  by (auto simp: jget_def jput_def jdel_def is_object_iff empty_object_def umap_simps split: json.splits)

lemma jget_put_opt [json_simps, simp]:
  "is_object j \<Longrightarrow> jget (jput_opt k ov j) k' =
     (if k' = k then (case ov of None \<Rightarrow> jget j k | Some v \<Rightarrow> Some v) else jget j k')"
  by (auto simp: jput_opt_def split: option.splits)

definition orElse :: "'a option \<Rightarrow> 'a option \<Rightarrow> 'a option" where
  "orElse x y = (case x of None \<Rightarrow> y | Some v \<Rightarrow> Some v)"

lemma orElse_simps [simp]: "orElse x None = x" "orElse None y = y" "orElse (Some v) y = Some v"
  by (simp_all add: orElse_def split: option.split)

text \<open>The same equations with the members as a function.\<close>

lemma jget_fun:
  "is_object j \<Longrightarrow> jget (jput k v j) = (jget j)(k \<mapsto> v)"
  "jget (jdel k j) = (jget j)(k := None)"
  "is_object j \<Longrightarrow> jget (jput_opt k ov j) =
     (jget j)(k := orElse ov (jget j k))"
  by (auto simp: orElse_def split: option.splits)

lemma jget_Some_object: "jget j k = Some v \<Longrightarrow> is_object j"
  by (auto simp: jget_def is_object_def split: json.splits)

text \<open>A JSON object is a keyed table.\<close>

interpretation members: erasable_table jget jput "(=)" is_object jdel
  by unfold_locales auto

text \<open>Adding a fresh member and erasing it again gives the same list of members.\<close>

lemma jdel_absent [json_simps]: "jget j k = None \<Longrightarrow> jdel k j = j"
  by (auto simp: jget_def jdel_def umap_erase_absent split: json.splits)

lemma jdel_jput_same: "jdel k (jput k v j) = jdel k j"
  by (auto simp: jput_def jdel_def delete_update_same split: json.splits)

lemma jdel_jput_other: "k \<noteq> k' \<Longrightarrow> jdel k (jput k' v j) = jput k' v (jdel k j)"
  by (auto simp: jdel_def jput_def delete_update split: json.splits)

end
