(* ===== verification/Messages.thy ===== *)
theory Messages
  imports Json
begin

text \<open>
  JSON-RPC messages: the structures of include/mcp/jsonrpc, their validation and translation
  from and to JSON in src/jsonrpc/messages.cpp, and the error factories. A thrown
  \<open>MessageValidationError\<close> is \<open>Inl\<close> of its text. The JSON library's parser and printer and the
  schema validator are parameters.
\<close>

section \<open>Structures\<close>

definition kJsonRpcVersion :: string where
  "kJsonRpcVersion = ''2.0''"

datatype request_id = IntId int64 | StrId string

datatype json_rpc_error_code =
  kParseError | kInvalidRequest | kMethodNotFound | kInvalidParams | kInternalError
| kResourceNotFound | kUrlElicitationRequired

fun error_code_value :: "json_rpc_error_code \<Rightarrow> int" where
  "error_code_value kParseError = -32700"
| "error_code_value kInvalidRequest = -32600"
| "error_code_value kMethodNotFound = -32601"
| "error_code_value kInvalidParams = -32602"
| "error_code_value kInternalError = -32603"
| "error_code_value kResourceNotFound = -32002"
| "error_code_value kUrlElicitationRequired = -32042"

record json_rpc_error =
  err_code :: int32
  err_message :: string
  err_data :: "json option"

record request =
  rq_jsonrpc :: string
  rq_id :: request_id
  rq_method :: string
  rq_params :: "json option"
  rq_additional :: json

record notification =
  nt_jsonrpc :: string
  nt_method :: string
  nt_params :: "json option"
  nt_additional :: json

record success_response =
  sr_jsonrpc :: string
  sr_id :: request_id
  sr_result :: json
  sr_additional :: json

record error_response =
  er_jsonrpc :: string
  er_id :: "request_id option"
  er_has_unknown_id :: bool
  er_error :: json_rpc_error
  er_additional :: json

datatype response = RSuccess success_response | RError error_response

datatype message =
  MRequest request | MNotification notification | MSuccess success_response | MError error_response

fun message_of_response :: "response \<Rightarrow> message" where
  "message_of_response (RSuccess r) = MSuccess r"
| "message_of_response (RError r) = MError r"

text \<open>The context a transport attaches to a message (include/mcp/jsonrpc/request_context.hpp).\<close>

record request_context =
  rc_protocol_version :: string
  rc_session_id :: "string option"
  rc_auth_context :: "string option"

text \<open>The members' default initialisers.\<close>

definition new_request :: "request_id \<Rightarrow> string \<Rightarrow> json option \<Rightarrow> request" where
  "new_request i m p =
     \<lparr>rq_jsonrpc = kJsonRpcVersion, rq_id = i, rq_method = m, rq_params = p, rq_additional = empty_object\<rparr>"

definition new_notification :: "string \<Rightarrow> json option \<Rightarrow> notification" where
  "new_notification m p =
     \<lparr>nt_jsonrpc = kJsonRpcVersion, nt_method = m, nt_params = p, nt_additional = empty_object\<rparr>"

definition new_success :: "request_id \<Rightarrow> json \<Rightarrow> response" where
  "new_success i r =
     RSuccess \<lparr>sr_jsonrpc = kJsonRpcVersion, sr_id = i, sr_result = r, sr_additional = empty_object\<rparr>"

section \<open>Error factories\<close>

definition makeJsonRpcError :: "json_rpc_error_code \<Rightarrow> string \<Rightarrow> json option \<Rightarrow> json_rpc_error" where
  "makeJsonRpcError code msg d =
     \<lparr>err_code = word_of_int (error_code_value code), err_message = msg, err_data = d\<rparr>"

definition makeParseError :: "json option \<Rightarrow> string \<Rightarrow> json_rpc_error" where
  "makeParseError d msg = makeJsonRpcError kParseError msg d"

definition makeInvalidRequestError :: "json option \<Rightarrow> string \<Rightarrow> json_rpc_error" where
  "makeInvalidRequestError d msg = makeJsonRpcError kInvalidRequest msg d"

definition makeMethodNotFoundError :: "json option \<Rightarrow> string \<Rightarrow> json_rpc_error" where
  "makeMethodNotFoundError d msg = makeJsonRpcError kMethodNotFound msg d"

definition makeInvalidParamsError :: "json option \<Rightarrow> string \<Rightarrow> json_rpc_error" where
  "makeInvalidParamsError d msg = makeJsonRpcError kInvalidParams msg d"

definition makeInternalError :: "json option \<Rightarrow> string \<Rightarrow> json_rpc_error" where
  "makeInternalError d msg = makeJsonRpcError kInternalError msg d"

definition makeUrlElicitationRequiredError :: "json option \<Rightarrow> string \<Rightarrow> json_rpc_error" where
  "makeUrlElicitationRequiredError d msg = makeJsonRpcError kUrlElicitationRequired msg d"

definition makeErrorResponse :: "json_rpc_error \<Rightarrow> request_id option \<Rightarrow> error_response" where
  "makeErrorResponse e i =
     \<lparr>er_jsonrpc = kJsonRpcVersion, er_id = i, er_has_unknown_id = False, er_error = e,
      er_additional = empty_object\<rparr>"

definition makeUnknownIdErrorResponse :: "json_rpc_error \<Rightarrow> error_response" where
  "makeUnknownIdErrorResponse e =
     \<lparr>er_jsonrpc = kJsonRpcVersion, er_id = None, er_has_unknown_id = True, er_error = e,
      er_additional = empty_object\<rparr>"

text \<open>The response most handlers return on a failure.\<close>

definition error_reply :: "json_rpc_error \<Rightarrow> request_id \<Rightarrow> response" where
  "error_reply e i = RError (makeErrorResponse e (Some i))"

section \<open>Parsing\<close>

definition ensureMessageObject :: "json \<Rightarrow> string + unit" where
  "ensureMessageObject j =
     (if is_object j then Inr () else Inl ''JSON-RPC message must be a JSON object.'')"

definition ensureJsonRpcVersion :: "json \<Rightarrow> string + unit" where
  "ensureJsonRpcVersion j =
     (case jget j ''jsonrpc'' of
        None \<Rightarrow> Inl ''JSON-RPC message is missing required field 'jsonrpc'.''
      | Some v \<Rightarrow>
          if \<not> is_string v then Inl ''JSON-RPC field 'jsonrpc' must be a string.''
          else if as_string v \<noteq> kJsonRpcVersion
          then Inl ''JSON-RPC field 'jsonrpc' must be exactly '2.0'.''
          else Inr ())"

definition parseRequestId :: "json \<Rightarrow> string + request_id" where
  "parseRequestId v =
     (if is_string v then Inr (StrId (as_string v))
      else if is_int64 v then Inr (IntId (word_of_int (as_integer v)))
      else if is_uint64 v \<and> as_integer v \<le> int64_max then Inr (IntId (word_of_int (as_integer v)))
      else Inl ''JSON-RPC field 'id' must be a string or integer.'')"

definition int32_min :: int where "int32_min = - (2 ^ 31)"
definition int32_max :: int where "int32_max = 2 ^ 31 - 1"

definition parseErrorCode :: "json \<Rightarrow> string + int32" where
  "parseErrorCode v =
     (if is_int64 v then
        (if as_integer v < int32_min \<or> as_integer v > int32_max
         then Inl ''JSON-RPC error code is out of range for int32.''
         else Inr (word_of_int (as_integer v)))
      else if is_uint64 v then
        (if as_integer v \<le> int32_max then Inr (word_of_int (as_integer v))
         else Inl ''JSON-RPC error code is out of range for int32.'')
      else Inl ''JSON-RPC error field 'code' must be an integer.'')"

definition parseErrorObject :: "json \<Rightarrow> string + json_rpc_error" where
  "parseErrorObject v =
     (if \<not> is_object v then Inl ''JSON-RPC field 'error' must be an object.''
      else
        (case (jget v ''code'', jget v ''message'') of
           (Some codeValue, Some messageValue) \<Rightarrow>
             if \<not> is_string messageValue
             then Inl ''JSON-RPC error field 'message' must be a string.''
             else bindE (parseErrorCode codeValue) (\<lambda>code.
               Inr \<lparr>err_code = code, err_message = as_string messageValue, err_data = jget v ''data''\<rparr>)
         | _ \<Rightarrow> Inl ''JSON-RPC error object must include 'code' and 'message'.''))"

definition extractAdditionalProperties :: "json \<Rightarrow> string list \<Rightarrow> json" where
  "extractAdditionalProperties j known = foldl (\<lambda>a k. jdel k a) j known"

definition parseRequestMessage :: "json \<Rightarrow> string \<Rightarrow> json \<Rightarrow> string + request" where
  "parseRequestMessage j method idValue =
     (if is_null idValue then Inl ''JSON-RPC request 'id' must be non-null.''
      else bindE (parseRequestId idValue) (\<lambda>i.
        Inr \<lparr>rq_jsonrpc = kJsonRpcVersion, rq_id = i, rq_method = method,
             rq_params = jget j ''params'',
             rq_additional =
               extractAdditionalProperties j [''jsonrpc'', ''id'', ''method'', ''params'']\<rparr>))"

definition parseNotificationMessage :: "json \<Rightarrow> string \<Rightarrow> notification" where
  "parseNotificationMessage j method =
     \<lparr>nt_jsonrpc = kJsonRpcVersion, nt_method = method, nt_params = jget j ''params'',
      nt_additional = extractAdditionalProperties j [''jsonrpc'', ''method'', ''params'']\<rparr>"

text \<open>Called when the member \<open>method\<close> is present; its value is passed along.\<close>

definition parseRequestOrNotification :: "json \<Rightarrow> json \<Rightarrow> bool \<Rightarrow> bool \<Rightarrow> string + message" where
  "parseRequestOrNotification j methodValue hasResult hasError =
     (if hasResult \<or> hasError
      then Inl ''JSON-RPC request/notification must not include 'result' or 'error'.''
      else if \<not> is_string methodValue then Inl ''JSON-RPC field 'method' must be a string.''
      else
        (case jget j ''id'' of
           Some idValue \<Rightarrow>
             bindE (parseRequestMessage j (as_string methodValue) idValue) (\<lambda>r. Inr (MRequest r))
         | None \<Rightarrow> Inr (MNotification (parseNotificationMessage j (as_string methodValue)))))"

definition parseSuccessResponseMessage :: "json \<Rightarrow> json \<Rightarrow> string + success_response" where
  "parseSuccessResponseMessage j resultValue =
     (case jget j ''id'' of
        None \<Rightarrow> Inl ''JSON-RPC success response must include an 'id'.''
      | Some idValue \<Rightarrow>
          if is_null idValue then Inl ''JSON-RPC success response 'id' must be non-null.''
          else bindE (parseRequestId idValue) (\<lambda>i.
            Inr \<lparr>sr_jsonrpc = kJsonRpcVersion, sr_id = i, sr_result = resultValue,
                 sr_additional = extractAdditionalProperties j [''jsonrpc'', ''id'', ''result'']\<rparr>))"

definition parseErrorResponseMessage :: "json \<Rightarrow> json \<Rightarrow> string + error_response" where
  "parseErrorResponseMessage j errorValue =
     bindE (case jget j ''id'' of
              None \<Rightarrow> Inr (None, False)
            | Some idValue \<Rightarrow>
                if is_null idValue then Inr (None, True)
                else bindE (parseRequestId idValue) (\<lambda>i. Inr (Some i, False)))
       (\<lambda>(i, unknown). bindE (parseErrorObject errorValue) (\<lambda>e.
          Inr \<lparr>er_jsonrpc = kJsonRpcVersion, er_id = i, er_has_unknown_id = unknown, er_error = e,
               er_additional = extractAdditionalProperties j [''jsonrpc'', ''id'', ''error'']\<rparr>))"

definition parseResponseMessage :: "json \<Rightarrow> string + message" where
  "parseResponseMessage j =
     (if contains j ''params'' then Inl ''JSON-RPC response must not include 'params'.''
      else
        (case (jget j ''result'', jget j ''error'') of
           (Some resultValue, None) \<Rightarrow>
             bindE (parseSuccessResponseMessage j resultValue) (\<lambda>r. Inr (MSuccess r))
         | (None, Some errorValue) \<Rightarrow>
             bindE (parseErrorResponseMessage j errorValue) (\<lambda>r. Inr (MError r))
         | _ \<Rightarrow> Inl ''JSON-RPC response must include exactly one of 'result' or 'error'.''))"

text \<open>
  The schema validator (the pinned MCP schema run by a third-party library) accepts a message,
  rejects it with diagnostics, or throws.
\<close>

datatype schema_outcome = SchemaValid | SchemaInvalid string | SchemaThrows string

definition ensureMcpMethodMessageSchema :: "(json \<Rightarrow> schema_outcome) \<Rightarrow> json \<Rightarrow> string + unit" where
  "ensureMcpMethodMessageSchema schema j =
     (if \<not> contains j ''method'' then Inr ()
      else
        (case schema j of
           SchemaValid \<Rightarrow> Inr ()
         | SchemaInvalid d \<Rightarrow> Inl (''MCP schema validation failed: '' @ d)
         | SchemaThrows e \<Rightarrow> Inl (''Failed to validate MCP message against schema: '' @ e)))"

definition parseMessageJson :: "(json \<Rightarrow> schema_outcome) \<Rightarrow> json \<Rightarrow> string + message" where
  "parseMessageJson schema j =
     bindE (ensureMessageObject j) (\<lambda>_.
     bindE (ensureJsonRpcVersion j) (\<lambda>_.
     bindE (ensureMcpMethodMessageSchema schema j) (\<lambda>_.
       (case jget j ''method'' of
          Some methodValue \<Rightarrow>
            parseRequestOrNotification j methodValue (contains j ''result'') (contains j ''error'')
        | None \<Rightarrow> parseResponseMessage j))))"

text \<open>\<open>jsonParse\<close> is the library's parser: the text of its exception or the value.\<close>

definition parseMessage ::
  "(string \<Rightarrow> string + json) \<Rightarrow> (json \<Rightarrow> schema_outcome) \<Rightarrow> string \<Rightarrow> string + message" where
  "parseMessage jsonParse schema text =
     (case jsonParse text of
        Inl e \<Rightarrow> Inl (''Failed to parse JSON-RPC message: '' @ e)
      | Inr j \<Rightarrow> parseMessageJson schema j)"

section \<open>Serialising\<close>

fun requestIdToJson :: "request_id \<Rightarrow> json" where
  "requestIdToJson (IntId i) = JInt (sint i)"
| "requestIdToJson (StrId s) = JString s"

definition ensureAdditionalPropertiesObject :: "json \<Rightarrow> string \<Rightarrow> string + unit" where
  "ensureAdditionalPropertiesObject j ctx =
     (if is_object j then Inr () else Inl (ctx @ '' additionalProperties must be a JSON object.''))"

definition ensureJsonRpcVersionField :: "string \<Rightarrow> string + unit" where
  "ensureJsonRpcVersionField v =
     (if v \<noteq> kJsonRpcVersion then Inl ''JSON-RPC field 'jsonrpc' must be exactly '2.0'.'' else Inr ())"

definition errorToJson :: "json_rpc_error \<Rightarrow> json" where
  "errorToJson e =
     jput_opt ''data'' (err_data e)
       (jput ''message'' (JString (err_message e))
         (jput ''code'' (JInt (sint (err_code e))) empty_object))"

definition requestToJson :: "request \<Rightarrow> string + json" where
  "requestToJson r =
     bindE (ensureJsonRpcVersionField (rq_jsonrpc r)) (\<lambda>_.
     bindE (ensureAdditionalPropertiesObject (rq_additional r) ''Request'') (\<lambda>_.
       let j = jdel ''params'' (jdel ''method'' (jdel ''id'' (jdel ''jsonrpc'' (rq_additional r))));
           j = jput ''jsonrpc'' (JString (rq_jsonrpc r)) j;
           j = jput ''id'' (requestIdToJson (rq_id r)) j;
           j = jput ''method'' (JString (rq_method r)) j
       in Inr (jput_opt ''params'' (rq_params r) j)))"

definition notificationToJson :: "notification \<Rightarrow> string + json" where
  "notificationToJson n =
     bindE (ensureJsonRpcVersionField (nt_jsonrpc n)) (\<lambda>_.
     bindE (ensureAdditionalPropertiesObject (nt_additional n) ''Notification'') (\<lambda>_.
       let j = jdel ''id'' (jdel ''params'' (jdel ''method'' (jdel ''jsonrpc'' (nt_additional n))));
           j = jput ''jsonrpc'' (JString (nt_jsonrpc n)) j;
           j = jput ''method'' (JString (nt_method n)) j
       in Inr (jput_opt ''params'' (nt_params n) j)))"

definition successResponseToJson :: "success_response \<Rightarrow> string + json" where
  "successResponseToJson r =
     bindE (ensureJsonRpcVersionField (sr_jsonrpc r)) (\<lambda>_.
     bindE (ensureAdditionalPropertiesObject (sr_additional r) ''SuccessResponse'') (\<lambda>_.
       let j = jdel ''error'' (jdel ''result'' (jdel ''id'' (jdel ''jsonrpc'' (sr_additional r))));
           j = jput ''jsonrpc'' (JString (sr_jsonrpc r)) j;
           j = jput ''id'' (requestIdToJson (sr_id r)) j
       in Inr (jput ''result'' (sr_result r) j)))"

definition errorResponseToJson :: "error_response \<Rightarrow> string + json" where
  "errorResponseToJson r =
     bindE (ensureJsonRpcVersionField (er_jsonrpc r)) (\<lambda>_.
     bindE (ensureAdditionalPropertiesObject (er_additional r) ''ErrorResponse'') (\<lambda>_.
       if er_has_unknown_id r \<and> er_id r \<noteq> None
       then Inl ''ErrorResponse cannot set both a concrete 'id' and unknown-id state.''
       else
         let j = jdel ''error'' (jdel ''result'' (jdel ''id'' (jdel ''jsonrpc'' (er_additional r))));
             j = jput ''jsonrpc'' (JString (er_jsonrpc r)) j;
             j = (case er_id r of
                    Some i \<Rightarrow> jput ''id'' (requestIdToJson i) j
                  | None \<Rightarrow> if er_has_unknown_id r then jput ''id'' JNull j else j)
         in Inr (jput ''error'' (errorToJson (er_error r)) j)))"

fun toJson :: "message \<Rightarrow> string + json" where
  "toJson (MRequest r) = requestToJson r"
| "toJson (MNotification n) = notificationToJson n"
| "toJson (MSuccess r) = successResponseToJson r"
| "toJson (MError r) = errorResponseToJson r"

definition validateNoEmbeddedNewlines :: "string \<Rightarrow> string + unit" where
  "validateNoEmbeddedNewlines s =
     (if (\<exists>c \<in> set s. c = CHR 0x0A \<or> c = CHR 0x0D)
      then Inl ''Serialized JSON-RPC message contains embedded newlines.'' else Inr ())"

text \<open>\<open>dump\<close> is the library's printer.\<close>

definition serializeMessage :: "(json \<Rightarrow> string) \<Rightarrow> message \<Rightarrow> bool \<Rightarrow> string + string" where
  "serializeMessage dump m disallowEmbeddedNewlines =
     bindE (toJson m) (\<lambda>j.
       let s = dump j
       in if disallowEmbeddedNewlines then bindE (validateNoEmbeddedNewlines s) (\<lambda>_. Inr s) else Inr s)"

section \<open>Round trips\<close>

lemma int64_roundtrip [json_simps, simp]:
  "word_of_int (sint (w :: int64)) = w" "int64_min \<le> sint (w :: int64)" "sint (w :: int64) \<le> int64_max"
  using sint_ge [of w] sint_lt [of w] by (simp_all add: int64_min_def int64_max_def)

lemma sint_int64 [json_simps]:
  "int64_min \<le> i \<Longrightarrow> i \<le> int64_max \<Longrightarrow> sint (word_of_int i :: int64) = i"
  by (simp add: int64_min_def int64_max_def signed_of_int signed_take_bit_int_eq_self)

lemma int32_roundtrip [json_simps, simp]:
  "word_of_int (sint (w :: int32)) = w" "int32_min \<le> sint (w :: int32)" "sint (w :: int32) \<le> int32_max"
  using sint_ge [of w] sint_lt [of w] by (simp_all add: int32_min_def int32_max_def)

lemma int32_in_int64 [simp]:
  "int64_min \<le> sint (w :: int32)" "sint (w :: int32) \<le> int64_max"
  using sint_ge [of w] sint_lt [of w] by (simp_all add: int64_min_def int64_max_def)

lemma parseRequestId_requestIdToJson [json_simps]: "parseRequestId (requestIdToJson i) = Inr i"
  by (cases i) (simp_all add: parseRequestId_def is_int64_def as_integer_def)

lemma requestIdToJson_parseRequestId: "parseRequestId v = Inr i \<Longrightarrow> requestIdToJson i = v"
  by (cases v) (auto simp: parseRequestId_def is_int64_def is_uint64_def as_integer_def sint_int64
      int64_min_def split: if_splits)

lemma requestIdToJson_not_null [json_simps]: "\<not> is_null (requestIdToJson i)"
  by (cases i) simp_all

lemma parseErrorObject_errorToJson [json_simps]: "parseErrorObject (errorToJson e) = Inr e"
  by (simp add: parseErrorObject_def errorToJson_def parseErrorCode_def is_int64_def as_integer_def
      not_less split: option.split)

lemmas ensure_defs =
  ensureMessageObject_def ensureJsonRpcVersion_def ensureMcpMethodMessageSchema_def
  ensureAdditionalPropertiesObject_def ensureJsonRpcVersionField_def

lemmas extract_simps =
  extractAdditionalProperties_def jdel_jput_same jdel_jput_other jdel_absent

lemma jput_opt_None_Some [simp]: "jput_opt k None j = j" "jput_opt k (Some v) j = jput k v j"
  by (simp_all add: jput_opt_def)

text \<open>
  A message that the structures can carry without ambiguity: the version is the supported one,
  the additional properties are an object without a member the protocol reserves, and an error
  response does not have both an id and the unknown-id mark.
\<close>

definition reserved_members :: "string list" where
  "reserved_members = [''jsonrpc'', ''id'', ''method'', ''params'', ''result'', ''error'']"

definition no_reserved :: "json \<Rightarrow> bool" where
  "no_reserved j \<longleftrightarrow> is_object j \<and> (\<forall>k \<in> set reserved_members. jget j k = None)"

fun transmissible :: "message \<Rightarrow> bool" where
  "transmissible (MRequest r) = (rq_jsonrpc r = kJsonRpcVersion \<and> no_reserved (rq_additional r))"
| "transmissible (MNotification n) = (nt_jsonrpc n = kJsonRpcVersion \<and> no_reserved (nt_additional n))"
| "transmissible (MSuccess r) = (sr_jsonrpc r = kJsonRpcVersion \<and> no_reserved (sr_additional r))"
| "transmissible (MError r) = (er_jsonrpc r = kJsonRpcVersion \<and> no_reserved (er_additional r)
     \<and> \<not> (er_has_unknown_id r \<and> er_id r \<noteq> None))"

lemma no_reservedD [simp]:
  "no_reserved j \<Longrightarrow> is_object j"
  "no_reserved j \<Longrightarrow> jget j ''jsonrpc'' = None" "no_reserved j \<Longrightarrow> jget j ''id'' = None"
  "no_reserved j \<Longrightarrow> jget j ''method'' = None" "no_reserved j \<Longrightarrow> jget j ''params'' = None"
  "no_reserved j \<Longrightarrow> jget j ''result'' = None" "no_reserved j \<Longrightarrow> jget j ''error'' = None"
  by (simp_all add: no_reserved_def reserved_members_def)

lemma request_roundtrip:
  assumes "transmissible (MRequest r)" and "schema (the_json) = SchemaValid"
    and "toJson (MRequest r) = Inr the_json"
  shows "parseMessageJson schema the_json = Inr (MRequest r)"
  using assms
  by (cases "rq_params r") (auto simp: requestToJson_def ensure_defs parseMessageJson_def extract_simps
      parseRequestOrNotification_def parseRequestMessage_def contains_def Let_def
      parseRequestId_requestIdToJson requestIdToJson_not_null)

lemma notification_roundtrip:
  assumes "transmissible (MNotification n)" and "schema (the_json) = SchemaValid"
    and "toJson (MNotification n) = Inr the_json"
  shows "parseMessageJson schema the_json = Inr (MNotification n)"
  using assms
  by (cases "nt_params n") (auto simp: notificationToJson_def ensure_defs parseMessageJson_def extract_simps
      parseRequestOrNotification_def parseNotificationMessage_def contains_def Let_def)

lemma success_roundtrip:
  assumes "transmissible (MSuccess r)" and "toJson (MSuccess r) = Inr the_json"
  shows "parseMessageJson schema the_json = Inr (MSuccess r)"
  using assms
  by (auto simp: successResponseToJson_def ensure_defs parseMessageJson_def extract_simps
      parseResponseMessage_def parseSuccessResponseMessage_def contains_def Let_def
      parseRequestId_requestIdToJson requestIdToJson_not_null)

lemma error_roundtrip:
  assumes "transmissible (MError r)" and "toJson (MError r) = Inr the_json"
  shows "parseMessageJson schema the_json = Inr (MError r)"
  using assms
  by (cases "er_id r"; cases "er_has_unknown_id r")
    (auto simp: errorResponseToJson_def ensure_defs parseMessageJson_def extract_simps
      parseResponseMessage_def parseErrorResponseMessage_def contains_def Let_def
      parseRequestId_requestIdToJson requestIdToJson_not_null parseErrorObject_errorToJson)

lemma transmissible_toJson: "transmissible m \<Longrightarrow> \<exists>j. toJson m = Inr j"
  by (cases m) (auto simp: requestToJson_def notificationToJson_def successResponseToJson_def
      errorResponseToJson_def ensure_defs Let_def)

lemma toJson_roundtrip:
  assumes "transmissible m" and "toJson m = Inr j" and "schema j = SchemaValid"
  shows "parseMessageJson schema j = Inr m"
  using assms request_roundtrip notification_roundtrip success_roundtrip error_roundtrip
  by (cases m) blast+

text \<open>
  C36. Serialising a message and parsing the text gives the same message back, for every kind of
  message that carries no reserved member in its additional properties, provided the JSON
  library reads back what it printed and the schema validator accepts the message.
\<close>

theorem message_roundtrip:
  assumes "transmissible m"
    and "\<And>j. toJson m = Inr j \<Longrightarrow> jsonParse (dump j) = Inr j"
    and "\<And>j. toJson m = Inr j \<Longrightarrow> schema j = SchemaValid"
  shows "\<exists>s. serializeMessage dump m False = Inr s \<and> parseMessage jsonParse schema s = Inr m
     \<and> (\<forall>flag t. serializeMessage dump m flag = Inr t \<longrightarrow> t = s)"
proof -
  obtain j where j: "toJson m = Inr j"
    using transmissible_toJson [OF assms(1)] by blast
  have "parseMessageJson schema j = Inr m"
    using toJson_roundtrip [OF assms(1) j] assms(3) [OF j] by simp
  moreover have "\<forall>flag t. serializeMessage dump m flag = Inr t \<longrightarrow> t = dump j"
    by (auto simp: serializeMessage_def j Let_def bindE_Inr split: if_splits)
  ultimately show ?thesis
    by (intro exI [of _ "dump j"]) (simp add: serializeMessage_def j parseMessage_def assms(2))
qed

theorem message_roundtrip_witness:
  "\<exists>s. serializeMessage (\<lambda>_. ''{}'') (MRequest (new_request (IntId 7) ''ping'' None)) False = Inr s
     \<and> parseMessage (\<lambda>_. toJson (MRequest (new_request (IntId 7) ''ping'' None))) (\<lambda>_. SchemaValid) s
         = Inr (MRequest (new_request (IntId 7) ''ping'' None))
     \<and> (\<forall>flag t. serializeMessage (\<lambda>_. ''{}'') (MRequest (new_request (IntId 7) ''ping'' None)) flag
           = Inr t \<longrightarrow> t = s)"
  by (rule message_roundtrip) (simp_all add: new_request_def no_reserved_def reserved_members_def)

lemma members_extract:
  "jget (extractAdditionalProperties j ks) = foldl (\<lambda>f k. f(k := None)) (jget j) ks"
  unfolding extractAdditionalProperties_def
  by (induction ks arbitrary: j) (simp_all add: jget_fun)

lemma extract_members:
  "is_object j \<Longrightarrow> jget (extractAdditionalProperties j ks) k = (if k \<in> set ks then None else jget j k)"
  "is_object j \<Longrightarrow> is_object (extractAdditionalProperties j ks)"
  by (auto simp: extractAdditionalProperties_def members.get_dels members.inv_dels)

lemma parsed_ensures:
  assumes "parseMessageJson schema j = Inr m"
  shows "is_object j" and "jget j ''jsonrpc'' = Some (JString kJsonRpcVersion)"
  using assms by (auto simp: parseMessageJson_def bindE_Inr ensure_defs is_string_iff
      split: if_splits option.splits)

lemma parsed_method:
  assumes "parseMessageJson schema j = Inr m" and "jget j ''method'' = Some v"
  shows "parseRequestOrNotification j v (contains j ''result'') (contains j ''error'') = Inr m"
  using assms by (auto simp: parseMessageJson_def bindE_Inr)

lemma parsed_response:
  assumes "parseMessageJson schema j = Inr m" and "jget j ''method'' = None"
  shows "parseResponseMessage j = Inr m"
  using assms by (auto simp: parseMessageJson_def bindE_Inr)

text \<open>The members of a serialised message, one characteristic equation per kind.\<close>

lemma members_requestToJson:
  assumes "requestToJson r = Inr j"
  shows "jget j = (jget (rq_additional r))(''jsonrpc'' \<mapsto> JString (rq_jsonrpc r),
     ''id'' \<mapsto> requestIdToJson (rq_id r), ''method'' \<mapsto> JString (rq_method r), ''params'' := rq_params r)"
proof -
  have "is_object (rq_additional r)"
    using assms by (simp add: requestToJson_def ensure_defs split: if_splits)
  with assms show ?thesis
    by (simp add: requestToJson_def ensure_defs Let_def split: if_splits)
      (drule sym, simp add: jget_fun del: jget_put jget_put_opt)
qed

lemma members_notificationToJson:
  assumes "notificationToJson n = Inr j"
  shows "jget j = (jget (nt_additional n))(''id'' := None, ''jsonrpc'' \<mapsto> JString (nt_jsonrpc n),
     ''method'' \<mapsto> JString (nt_method n), ''params'' := nt_params n)"
proof -
  have "is_object (nt_additional n)"
    using assms by (simp add: notificationToJson_def ensure_defs split: if_splits)
  with assms show ?thesis
    by (simp add: notificationToJson_def ensure_defs Let_def split: if_splits)
      (drule sym, simp add: jget_fun del: jget_put jget_put_opt)
qed

lemma members_successResponseToJson:
  assumes "successResponseToJson r = Inr j"
  shows "jget j = (jget (sr_additional r))(''error'' := None, ''jsonrpc'' \<mapsto> JString (sr_jsonrpc r),
     ''id'' \<mapsto> requestIdToJson (sr_id r), ''result'' \<mapsto> sr_result r)"
proof -
  have "is_object (sr_additional r)"
    using assms by (simp add: successResponseToJson_def ensure_defs split: if_splits)
  with assms show ?thesis
    by (simp add: successResponseToJson_def ensure_defs Let_def split: if_splits)
      (drule sym, simp add: jget_fun del: jget_put jget_put_opt)
qed

lemma members_errorResponseToJson:
  assumes "errorResponseToJson r = Inr j"
  shows "jget j = (jget (er_additional r))(''result'' := None, ''jsonrpc'' \<mapsto> JString (er_jsonrpc r),
     ''id'' := (case er_id r of Some i \<Rightarrow> Some (requestIdToJson i)
        | None \<Rightarrow> if er_has_unknown_id r then Some JNull else None),
     ''error'' \<mapsto> errorToJson (er_error r))"
proof -
  have "is_object (er_additional r)"
    using assms by (simp add: errorResponseToJson_def ensure_defs split: if_splits)
  with assms show ?thesis
    by (cases "er_id r"; cases "er_has_unknown_id r";
        simp add: errorResponseToJson_def ensure_defs Let_def split: if_splits)
      (drule sym, simp add: jget_fun fun_upd_twist del: jget_put jget_put_opt)+
qed

lemma no_reserved_extract:
  assumes "is_object j"
    and "\<And>k. k \<in> set reserved_members \<Longrightarrow> k \<notin> set ks \<Longrightarrow> jget j k = None"
  shows "no_reserved (extractAdditionalProperties j ks)"
  using assms by (auto simp: no_reserved_def extract_members)

lemma lossless_request:
  assumes j: "is_object j" "jget j ''jsonrpc'' = Some (JString kJsonRpcVersion)"
    "jget j ''method'' = Some (JString meth)" "jget j ''id'' = Some idv"
    "jget j ''result'' = None" "jget j ''error'' = None"
    and p: "parseRequestMessage j meth idv = Inr r"
  shows "transmissible (MRequest r) \<and> (\<exists>j'. toJson (MRequest r) = Inr j' \<and> jget j' = jget j)"
proof -
  have r: "rq_jsonrpc r = kJsonRpcVersion" "rq_method r = meth" "rq_params r = jget j ''params''"
    "rq_additional r = extractAdditionalProperties j [''jsonrpc'', ''id'', ''method'', ''params'']"
    "requestIdToJson (rq_id r) = idv"
    using p by (auto simp: parseRequestMessage_def bindE_Inr requestIdToJson_parseRequestId split: if_splits)
  have t: "transmissible (MRequest r)"
    unfolding transmissible.simps r(4)
    by (intro conjI r(1) no_reserved_extract) (use j in \<open>auto simp: reserved_members_def\<close>)
  then obtain j' where j': "requestToJson r = Inr j'" using transmissible_toJson by fastforce
  have "jget j' = jget j"
    using j by (simp add: members_requestToJson [OF j'] r members_extract fun_upd_idem)
  with t j' show ?thesis by auto
qed

lemma lossless_notification:
  assumes j: "is_object j" "jget j ''jsonrpc'' = Some (JString kJsonRpcVersion)"
    "jget j ''method'' = Some (JString meth)" "jget j ''id'' = None"
    "jget j ''result'' = None" "jget j ''error'' = None"
  shows "transmissible (MNotification (parseNotificationMessage j meth)) \<and>
    (\<exists>j'. toJson (MNotification (parseNotificationMessage j meth)) = Inr j' \<and> jget j' = jget j)"
proof -
  let ?n = "parseNotificationMessage j meth"
  have n: "nt_jsonrpc ?n = kJsonRpcVersion" "nt_method ?n = meth" "nt_params ?n = jget j ''params''"
    "nt_additional ?n = extractAdditionalProperties j [''jsonrpc'', ''method'', ''params'']"
    by (auto simp: parseNotificationMessage_def)
  have t: "transmissible (MNotification ?n)"
    unfolding transmissible.simps n(4)
    by (intro conjI n(1) no_reserved_extract) (use j in \<open>auto simp: reserved_members_def\<close>)
  then obtain j' where j': "notificationToJson ?n = Inr j'" using transmissible_toJson by fastforce
  have "jget j' = jget j"
    using j by (simp add: members_notificationToJson [OF j'] n members_extract fun_upd_idem)
  with t j' show ?thesis by auto
qed

lemma lossless_success:
  assumes j: "is_object j" "jget j ''jsonrpc'' = Some (JString kJsonRpcVersion)"
    "jget j ''method'' = None" "jget j ''params'' = None"
    "jget j ''result'' = Some rv" "jget j ''error'' = None"
    and p: "parseSuccessResponseMessage j rv = Inr r"
  shows "transmissible (MSuccess r) \<and> (\<exists>j'. toJson (MSuccess r) = Inr j' \<and> jget j' = jget j)"
proof -
  have r: "sr_jsonrpc r = kJsonRpcVersion" "sr_result r = rv"
    "sr_additional r = extractAdditionalProperties j [''jsonrpc'', ''id'', ''result'']"
    "Some (requestIdToJson (sr_id r)) = jget j ''id''"
    using p by (auto simp: parseSuccessResponseMessage_def bindE_Inr requestIdToJson_parseRequestId
        split: if_splits option.splits)
  have t: "transmissible (MSuccess r)"
    unfolding transmissible.simps r(3)
    by (intro conjI r(1) no_reserved_extract) (use j in \<open>auto simp: reserved_members_def\<close>)
  then obtain j' where j': "successResponseToJson r = Inr j'" using transmissible_toJson by fastforce
  have "jget j' = jget j"
    using j r(4) by (simp add: members_successResponseToJson [OF j'] r(1-3) members_extract fun_upd_idem)
  with t j' show ?thesis by auto
qed

lemma lossless_error:
  assumes j: "is_object j" "jget j ''jsonrpc'' = Some (JString kJsonRpcVersion)"
    "jget j ''method'' = None" "jget j ''params'' = None"
    "jget j ''result'' = None" "jget j ''error'' = Some ev"
    and p: "parseErrorResponseMessage j ev = Inr r"
  shows "transmissible (MError r) \<and>
    (\<exists>j'. toJson (MError r) = Inr j' \<and> (\<forall>k. k \<noteq> ''error'' \<longrightarrow> jget j' k = jget j k))"
proof -
  have r: "er_jsonrpc r = kJsonRpcVersion"
    "er_additional r = extractAdditionalProperties j [''jsonrpc'', ''id'', ''error'']"
    "\<not> (er_has_unknown_id r \<and> er_id r \<noteq> None)"
    "jget j ''id'' = (case er_id r of Some i \<Rightarrow> Some (requestIdToJson i)
        | None \<Rightarrow> if er_has_unknown_id r then Some JNull else None)"
    using p by (auto simp: parseErrorResponseMessage_def bindE_Inr requestIdToJson_parseRequestId
        is_null_iff split: if_splits option.splits)
  have t: "transmissible (MError r)"
    unfolding transmissible.simps r(2)
    by (intro conjI r(1,3) no_reserved_extract) (use j in \<open>auto simp: reserved_members_def\<close>)
  then obtain j' where j': "errorResponseToJson r = Inr j'" using transmissible_toJson by fastforce
  have "jget j' = (jget j)(''error'' := jget j' ''error'')"
    using j r(4) by (simp add: members_errorResponseToJson [OF j'] r(1,2) members_extract fun_upd_idem)
  then have "jget j' k = jget j k" if "k \<noteq> ''error''" for k
    using that by (metis fun_upd_other)
  with t j' show ?thesis by auto
qed

lemma request_lossless:
  assumes "is_object j" and "jget j ''jsonrpc'' = Some (JString kJsonRpcVersion)"
    and "jget j ''method'' = Some v"
    and "parseRequestOrNotification j v (contains j ''result'') (contains j ''error'') = Inr m"
  shows "transmissible m \<and> (\<exists>j'. toJson m = Inr j' \<and> jget j' = jget j)"
proof -
  obtain meth where v: "v = JString meth" and none: "jget j ''result'' = None" "jget j ''error'' = None"
    using assms(4) by (auto simp: parseRequestOrNotification_def contains_def is_string_iff split: if_splits)
  show ?thesis
  proof (cases "jget j ''id''")
    case None
    then have "m = MNotification (parseNotificationMessage j meth)"
      using assms(4) none by (simp add: parseRequestOrNotification_def contains_def v)
    with lossless_notification assms none None v show ?thesis by blast
  next
    case (Some idv)
    then obtain r where "parseRequestMessage j meth idv = Inr r" "m = MRequest r"
      using assms(4) none by (auto simp: parseRequestOrNotification_def contains_def v bindE_Inr)
    with lossless_request assms none Some v show ?thesis by blast
  qed
qed

lemma response_lossless:
  assumes "is_object j" and "jget j ''jsonrpc'' = Some (JString kJsonRpcVersion)"
    and "jget j ''method'' = None" and p: "parseResponseMessage j = Inr m"
  shows "transmissible m \<and> (\<exists>j'. toJson m = Inr j' \<and> (\<forall>k. k \<noteq> ''error'' \<longrightarrow> jget j' k = jget j k))"
proof -
  have params: "jget j ''params'' = None"
    using p by (auto simp: parseResponseMessage_def contains_def split: if_splits)
  from p params consider
    (success) rv r where "jget j ''result'' = Some rv" "jget j ''error'' = None"
      "parseSuccessResponseMessage j rv = Inr r" "m = MSuccess r"
  | (error) ev r where "jget j ''result'' = None" "jget j ''error'' = Some ev"
      "parseErrorResponseMessage j ev = Inr r" "m = MError r"
    by (auto simp: parseResponseMessage_def contains_def bindE_Inr split: option.splits)
  then show ?thesis
  proof cases
    case success
    with lossless_success [OF assms(1-3) params] show ?thesis by metis
  next
    case error
    with lossless_error [OF assms(1-3) params] show ?thesis by blast
  qed
qed

text \<open>
  Parsing loses nothing: whatever JSON value is accepted, the message it becomes can be
  transmitted again and serialises to a value with the same members (only the inside of an
  \<open>error\<close> member is normalised to the three fields the structure has).
\<close>

theorem parse_lossless:
  assumes "parseMessageJson schema j = Inr m"
  shows "transmissible m \<and> (\<exists>j'. toJson m = Inr j' \<and> (\<forall>k. k \<noteq> ''error'' \<longrightarrow> jget j' k = jget j k))"
proof (cases "jget j ''method''")
  case None
  with parsed_ensures [OF assms] parsed_response [OF assms] show ?thesis
    by (intro response_lossless)
next
  case (Some v)
  with parsed_ensures [OF assms] parsed_method [OF assms] have
    "transmissible m \<and> (\<exists>j'. toJson m = Inr j' \<and> jget j' = jget j)"
    by (intro request_lossless)
  then show ?thesis by metis
qed

definition sample_error_json :: json where
  "sample_error_json =
     JObject [(''jsonrpc'', JString ''2.0''), (''id'', JNull), (''extra'', JBool True),
       (''error'', JObject [(''code'', JInt (-32700)), (''message'', JString ''Parse error'')])]"

theorem parse_lossless_witness:
  "\<exists>m. parseMessageJson (\<lambda>_. SchemaValid) sample_error_json = Inr m \<and> transmissible m"
proof -
  have "\<exists>m. parseMessageJson (\<lambda>_. SchemaValid) sample_error_json = Inr m"
    by (simp add: sample_error_json_def parseMessageJson_def ensure_defs jget_def kJsonRpcVersion_def
        parseResponseMessage_def contains_def parseErrorResponseMessage_def parseErrorObject_def
        parseErrorCode_def is_int64_def int64_min_def int64_max_def as_integer_def int32_min_def
        int32_max_def)
  then show ?thesis using parse_lossless by blast
qed

end
