(* ===== verification/Notifications.thy ===== *)
theory Notifications
  imports Messages
begin

text \<open>
  The progress and cancellation utilities, include/mcp/util/progress.hpp and
  include/mcp/util/cancellation.hpp: what the router reads out of requests, notifications and
  responses, and the messages it builds.
\<close>

section \<open>Progress\<close>

definition kProgressNotificationMethod :: string where
  "kProgressNotificationMethod = ''notifications/progress''"

text \<open>The structure of util/progress/progress_notification.hpp and jsonrpc/progress_update.hpp.\<close>

record progress_update =
  pu_token :: request_id
  pu_progress :: float64
  pu_total :: "float64 option"
  pu_message :: "string option"
  pu_additional :: json

definition jsonToRequestId :: "json \<Rightarrow> request_id option" where
  "jsonToRequestId v =
     (if is_string v then Some (StrId (as_string v))
      else if is_int64 v then Some (IntId (word_of_int (as_integer v)))
      else if is_uint64 v \<and> as_integer v \<le> int64_max then Some (IntId (word_of_int (as_integer v)))
      else None)"

definition jsonToNumber :: "json \<Rightarrow> float64 option" where
  "jsonToNumber v =
     (case v of JDouble d \<Rightarrow> Some d
      | _ \<Rightarrow> if is_int64 v then Some (float_of_int (as_integer v))
             else if is_uint64 v then Some (float_of_int (as_integer v))
             else None)"

definition extractProgressToken :: "request \<Rightarrow> request_id option" where
  "extractProgressToken r =
     (case rq_params r of
        None \<Rightarrow> None
      | Some p \<Rightarrow>
          (case get_object p ''_meta'' of
             None \<Rightarrow> None
           | Some meta \<Rightarrow>
               (case jget meta ''progressToken'' of None \<Rightarrow> None | Some t \<Rightarrow> jsonToRequestId t)))"

definition parseProgressNotification :: "notification \<Rightarrow> progress_update option" where
  "parseProgressNotification n =
     (case nt_params n of
        None \<Rightarrow> None
      | Some params \<Rightarrow>
          if nt_method n \<noteq> kProgressNotificationMethod \<or> \<not> is_object params then None
          else
            (case (jget params ''progressToken'', jget params ''progress'') of
               (Some tv, Some pv) \<Rightarrow>
                 (case (jsonToRequestId tv, jsonToNumber pv) of
                    (Some token, Some progress) \<Rightarrow>
                      Some \<lparr>pu_token = token, pu_progress = progress,
                            pu_total = (case jget params ''total'' of None \<Rightarrow> None | Some v \<Rightarrow> jsonToNumber v),
                            pu_message = get_string params ''message'',
                            pu_additional = jdel ''message'' (jdel ''total'' (jdel ''progress''
                              (jdel ''progressToken'' params)))\<rparr>
                  | _ \<Rightarrow> None)
             | _ \<Rightarrow> None))"

definition makeProgressNotification ::
  "request_id \<Rightarrow> float64 \<Rightarrow> float64 option \<Rightarrow> string option \<Rightarrow> notification" where
  "makeProgressNotification token progress tot msg =
     new_notification kProgressNotificationMethod
       (Some (jput_opt ''message'' (map_option JString msg)
         (jput_opt ''total'' (map_option JDouble tot)
           (jput ''progress'' (JDouble progress)
             (jput ''progressToken'' (requestIdToJson token) empty_object)))))"

section \<open>Cancellation\<close>

definition kCancelledNotificationMethod :: string where
  "kCancelledNotificationMethod = ''notifications/cancelled''"

definition kTasksCancelMethod :: string where
  "kTasksCancelMethod = ''tasks/cancel''"

record cancelled_notification =
  cn_request_id :: request_id
  cn_reason :: "string option"

definition parseCancelledNotification :: "notification \<Rightarrow> cancelled_notification option" where
  "parseCancelledNotification n =
     (case nt_params n of
        None \<Rightarrow> None
      | Some params \<Rightarrow>
          if nt_method n \<noteq> kCancelledNotificationMethod \<or> \<not> is_object params then None
          else
            (case jget params ''requestId'' of
               None \<Rightarrow> None
             | Some v \<Rightarrow>
                 (case jsonToRequestId v of
                    None \<Rightarrow> None
                  | Some i \<Rightarrow> Some \<lparr>cn_request_id = i, cn_reason = get_string params ''reason''\<rparr>)))"

definition makeCancelledNotification :: "request_id \<Rightarrow> string option \<Rightarrow> notification" where
  "makeCancelledNotification i reason =
     new_notification kCancelledNotificationMethod
       (Some (jput_opt ''reason'' (map_option JString reason)
         (jput ''requestId'' (requestIdToJson i) empty_object)))"

definition isTaskAugmentedRequest :: "request \<Rightarrow> bool" where
  "isTaskAugmentedRequest r =
     (case rq_params r of None \<Rightarrow> False | Some p \<Rightarrow> get_object p ''task'' \<noteq> None)"

definition extractTaskId :: "request \<Rightarrow> string option" where
  "extractTaskId r =
     (case rq_params r of
        None \<Rightarrow> None
      | Some p \<Rightarrow>
          (case get_string p ''taskId'' of
             None \<Rightarrow> None | Some t \<Rightarrow> if t = [] then None else Some t))"

fun extractCreateTaskResultTaskId :: "response \<Rightarrow> string option" where
  "extractCreateTaskResultTaskId (RError _) = None"
| "extractCreateTaskResultTaskId (RSuccess r) =
     (case get_object (sr_result r) ''task'' of
        None \<Rightarrow> None
      | Some t \<Rightarrow>
          (case get_string t ''taskId'' of
             None \<Rightarrow> None | Some i \<Rightarrow> if i = [] then None else Some i))"

definition makeTasksCancelRequest :: "request_id \<Rightarrow> string \<Rightarrow> request" where
  "makeTasksCancelRequest i taskId =
     new_request i kTasksCancelMethod (Some (jput ''taskId'' (JString taskId) empty_object))"

section \<open>Both ends of a notification agree\<close>

lemma jsonToRequestId_requestIdToJson [json_simps, simp]: "jsonToRequestId (requestIdToJson i) = Some i"
  by (cases i) (simp_all add: jsonToRequestId_def is_int64_def as_integer_def)

lemma get_string_put [json_simps, simp]:
  "is_object j \<Longrightarrow> get_string (jput k v j) k' =
     (if k' = k then (case v of JString s \<Rightarrow> Some s | _ \<Rightarrow> None) else get_string j k')"
  "is_object j \<Longrightarrow> get_string (jput_opt k (map_option JString ov) j) k' =
     (if k' = k then orElse ov (get_string j k) else get_string j k')"
  "get_string empty_object k = None"
  by (auto simp: get_string_def orElse_def split: option.splits)

lemma get_string_put_opt_other [json_simps, simp]:
  "is_object j \<Longrightarrow> k' \<noteq> k \<Longrightarrow> get_string (jput_opt k ov j) k' = get_string j k'"
  by (simp add: get_string_def)

lemma jdel_put_simps [json_simps]:
  "jdel k (jput k v j) = jdel k j" "jdel k (jput_opt k ov j) = jdel k j"
  "k \<noteq> k' \<Longrightarrow> jdel k (jput k' v j) = jput k' v (jdel k j)"
  "k \<noteq> k' \<Longrightarrow> jdel k (jput_opt k' ov j) = jput_opt k' ov (jdel k j)"
  "jdel k empty_object = empty_object"
  by (auto simp: jdel_jput_same jdel_jput_other jput_opt_def jdel_absent split: option.splits)

lemma parse_makeProgressNotification:
  "parseProgressNotification (makeProgressNotification token progress tot msg) =
     Some \<lparr>pu_token = token, pu_progress = progress, pu_total = tot, pu_message = msg,
           pu_additional = empty_object\<rparr>"
  by (cases tot; cases msg)
    (simp_all add: parseProgressNotification_def makeProgressNotification_def new_notification_def
      jsonToNumber_def jdel_put_simps)

lemma parse_makeCancelledNotification:
  "parseCancelledNotification (makeCancelledNotification i reason) =
     Some \<lparr>cn_request_id = i, cn_reason = reason\<rparr>"
  by (cases reason)
    (simp_all add: parseCancelledNotification_def makeCancelledNotification_def new_notification_def)

lemma parse_other:
  "parseCancelledNotification (makeProgressNotification token progress tot msg) = None"
  "parseProgressNotification (makeCancelledNotification token msg) = None"
  by (simp_all add: parseCancelledNotification_def makeProgressNotification_def new_notification_def
      parseProgressNotification_def makeCancelledNotification_def
      kProgressNotificationMethod_def kCancelledNotificationMethod_def)

lemmas notification_facts =
  parse_makeProgressNotification parse_makeCancelledNotification parse_other

text \<open>
  A progress notification and a cancellation notification built by one side are read back
  by the other side with every field intact, and neither is mistaken for the other.
\<close>

theorem notifications_roundtrip:
  "parseProgressNotification (makeProgressNotification token progress tot msg) =
     Some \<lparr>pu_token = token, pu_progress = progress, pu_total = tot, pu_message = msg,
           pu_additional = empty_object\<rparr>
   \<and> parseCancelledNotification (makeCancelledNotification token msg) =
     Some \<lparr>cn_request_id = token, cn_reason = msg\<rparr>
   \<and> parseCancelledNotification (makeProgressNotification token progress tot msg) = None
   \<and> parseProgressNotification (makeCancelledNotification token msg) = None"
  by (simp add: notification_facts)

end
