(* ===== verification/NestedTable.thy ===== *)
theory NestedTable
  imports Prelude
begin

text \<open>
  Two-level hash maps: a map per sender, found through the sender's key, as the router keeps for
  inbound requests, progress tokens and response promises. An inner map is created by the first
  assignment and removed again when its last entry is erased. Such a table is a keyed table
  over pairs of keys.
\<close>

type_synonym ('s, 'k, 'v) nested = "('s, ('k, 'v) umap) umap"

definition inner :: "('s, 'k, 'v) nested \<Rightarrow> 's \<Rightarrow> ('k, 'v) umap" where
  "inner m s = (case map_of m s of None \<Rightarrow> [] | Some t \<Rightarrow> t)"

definition find2 :: "('s, 'k, 'v) nested \<Rightarrow> 's \<Rightarrow> 'k \<Rightarrow> 'v option" where
  "find2 m s k = map_of (inner m s) k"

text \<open>\<open>m[s][k] = v\<close>.\<close>

definition put2 :: "'s \<Rightarrow> 'k \<Rightarrow> 'v \<Rightarrow> ('s, 'k, 'v) nested \<Rightarrow> ('s, 'k, 'v) nested" where
  "put2 s k v m = umap_put s (umap_put k v (inner m s)) m"

text \<open>\<open>m[s].erase(k)\<close> where the inner map stays behind, possibly empty.\<close>

definition erase_keep2 :: "'s \<Rightarrow> 'k \<Rightarrow> ('s, 'k, 'v) nested \<Rightarrow> ('s, 'k, 'v) nested" where
  "erase_keep2 s k m = umap_put s (umap_erase k (inner m s)) m"

text \<open>Find the sender, erase the key, and erase the sender when its map is empty.\<close>

definition erase2 :: "'s \<Rightarrow> 'k \<Rightarrow> ('s, 'k, 'v) nested \<Rightarrow> ('s, 'k, 'v) nested" where
  "erase2 s k m =
     (case map_of m s of
        None \<Rightarrow> m
      | Some t \<Rightarrow>
          let t' = umap_erase k t in if t' = [] then umap_erase s m else umap_put s t' m)"

definition nested_wf :: "('s, 'k, 'v) nested \<Rightarrow> bool" where
  "nested_wf m \<longleftrightarrow> umap_wf m \<and> (\<forall>t \<in> set (map snd m). umap_wf t)"

text \<open>The number of entries over all senders.\<close>

definition total_entries :: "('s, 'k, 'v) nested \<Rightarrow> nat" where
  "total_entries m = sum_list (map (\<lambda>e. length (snd e)) m)"

lemma nested_wf_inner: "nested_wf m \<Longrightarrow> umap_wf (inner m s)"
  by (force simp: nested_wf_def inner_def split: option.splits dest: map_of_SomeD)

lemma nested_wf_Nil [simp]: "nested_wf []"
  by (simp add: nested_wf_def)

lemma inner_Nil [simp]: "inner [] s = []"
  by (simp add: inner_def)

lemma inner_umap_put: "inner (umap_put s t m) s' = (if s' = s then t else inner m s')"
  by (simp add: inner_def umap_simps)

lemma inner_umap_erase: "inner (umap_erase s m) s' = (if s' = s then [] else inner m s')"
  by (simp add: inner_def umap_simps)

lemma inner_erase2: "inner (erase2 s k m) s' = (if s' = s then umap_erase k (inner m s) else inner m s')"
  by (simp add: erase2_def inner_umap_put inner_umap_erase Let_def split: option.split)
    (simp add: inner_def)

lemma find2_simps [umap_simps, simp]:
  "find2 [] s k = None"
  "find2 (put2 s k v m) s' k' = (if s' = s \<and> k' = k then Some v else find2 m s' k')"
  "find2 (erase_keep2 s k m) s' k' = (if s' = s \<and> k' = k then None else find2 m s' k')"
  "find2 (erase2 s k m) s' k' = (if s' = s \<and> k' = k then None else find2 m s' k')"
  by (simp_all add: find2_def put2_def erase_keep2_def inner_umap_put inner_erase2 umap_simps)

lemma set_umap_put: "set (umap_put s t m) \<subseteq> insert (s, t) (set m)"
  by (induction m) auto

lemma nested_wf_umap_put: "nested_wf m \<Longrightarrow> umap_wf t \<Longrightarrow> nested_wf (umap_put s t m)"
  using set_umap_put [of s t m] by (auto simp: nested_wf_def)

lemma set_umap_erase: "set (umap_erase s m) \<subseteq> set m"
  by (induction m) auto

lemma nested_wf_umap_erase: "nested_wf m \<Longrightarrow> nested_wf (umap_erase s m)"
  using set_umap_erase [of s m] by (auto simp: nested_wf_def)

lemma nested_wf_simps [umap_simps, simp]:
  "nested_wf m \<Longrightarrow> nested_wf (put2 s k v m)"
  "nested_wf m \<Longrightarrow> nested_wf (erase_keep2 s k m)"
  "nested_wf m \<Longrightarrow> nested_wf (erase2 s k m)"
  using nested_wf_inner [of m s]
  by (auto simp: put2_def erase_keep2_def erase2_def Let_def inner_def nested_wf_umap_put
      nested_wf_umap_erase split: option.splits)

interpretation nested: erasable_table "\<lambda>m (s, k). find2 m s k" "\<lambda>(s, k). put2 s k" "(=)" nested_wf
  "\<lambda>(s, k). erase2 s k"
  by unfold_locales (auto split: if_splits)

section \<open>Counting entries\<close>

lemma total_umap_put:
  "umap_wf m \<Longrightarrow> total_entries (umap_put s t m) + length (inner m s) = total_entries m + length t"
proof (induction m)
  case Nil
  then show ?case by (simp add: total_entries_def)
next
  case (Cons e m)
  show ?case
  proof (cases "fst e = s")
    case True
    then show ?thesis by (cases e) (simp add: total_entries_def inner_def)
  next
    case False
    from Cons have "total_entries (umap_put s t m) + length (inner m s) = total_entries m + length t"
      by (simp add: umap_wf_def)
    with False show ?thesis by (cases e) (simp add: total_entries_def inner_def)
  qed
qed

lemma total_umap_erase:
  "umap_wf m \<Longrightarrow> total_entries (umap_erase s m) + length (inner m s) = total_entries m"
proof (induction m)
  case Nil
  then show ?case by (simp add: total_entries_def)
next
  case (Cons e m)
  show ?case
  proof (cases "fst e = s")
    case True
    with Cons.prems have "map_of m s = None" by (cases e) (auto simp: umap_wf_def map_of_eq_None_iff)
    with True show ?thesis
      by (cases e) (simp add: total_entries_def inner_def umap_erase_absent)
  next
    case False
    from Cons have "total_entries (umap_erase s m) + length (inner m s) = total_entries m"
      by (simp add: umap_wf_def)
    with False show ?thesis by (cases e) (simp add: total_entries_def inner_def)
  qed
qed

lemma total_put2_fresh:
  assumes "nested_wf m" and "find2 m s k = None"
  shows "total_entries (put2 s k v m) = Suc (total_entries m)"
  using assms total_umap_put [of m s "umap_put k v (inner m s)"]
  by (simp add: put2_def nested_wf_def find2_def umap_put_length)

lemma total_put2_present:
  assumes "nested_wf m" and "find2 m s k \<noteq> None"
  shows "total_entries (put2 s k v m) = total_entries m"
  using assms total_umap_put [of m s "umap_put k v (inner m s)"]
  by (auto simp: put2_def nested_wf_def find2_def umap_put_length)

lemma total_erase_keep2_le:
  "nested_wf m \<Longrightarrow> total_entries (erase_keep2 s k m) \<le> total_entries m"
  using total_umap_put [of m s "umap_erase k (inner m s)"] umap_erase_length_le [of k "inner m s"]
  by (simp add: erase_keep2_def nested_wf_def)

lemma total_erase2_le:
  assumes "nested_wf m"
  shows "total_entries (erase2 s k m) \<le> total_entries m"
proof (cases "map_of m s")
  case None
  then show ?thesis by (simp add: erase2_def)
next
  case (Some t)
  then have "inner m s = t" by (simp add: inner_def)
  with assms Some show ?thesis
    using total_umap_put [of m s "umap_erase k t"] total_umap_erase [of m s]
      umap_erase_length_le [of k t]
    by (simp add: erase2_def nested_wf_def Let_def)
qed

lemma total_erase_keep2_put2_fresh:
  assumes "nested_wf m" and "find2 m s k = None"
  shows "total_entries (erase_keep2 s k (put2 s k v m)) = total_entries m"
proof -
  let ?t = "umap_put k v (inner m s)"
  have "length (umap_erase k ?t) = length (inner m s)"
    using assms by (simp add: find2_def delete_update_same umap_erase_absent)
  then show ?thesis
    using assms total_put2_fresh [OF assms, of v]
      total_umap_put [of "put2 s k v m" s "umap_erase k ?t"] umap_put_length [of k v "inner m s"]
    by (simp add: erase_keep2_def put2_def inner_umap_put nested_wf_def find2_def)
qed

end
