(* ===== verification/Router.thy ===== *)
theory Router
  imports Notifications NestedTable
begin

text \<open>
  The JSON-RPC router, src/jsonrpc/router.cpp and include/mcp/jsonrpc/router.hpp: the tables of
  inbound and outbound requests, the promises behind the futures it hands out, and every
  operation on them.

  A promise is a cell of \<open>promises\<close>, referred to by its index; a future is the same index.
  Callbacks of the user are opaque: a registered function is an identity (a number), what it
  does is an input of the operation that runs it, and \<open>events\<close> records the calls in order.
  The work that is under way outside the locks is kept as data, so that operations of other
  threads can come in between: handlers that run (\<open>handlerCalls\<close>), completion jobs waiting on
  a handler's future (\<open>completionJobs\<close>) and requests handed to the transport (\<open>sendCalls\<close>).
\<close>

section \<open>State\<close>

datatype MarkIgnoredResponseId = MarkNo | MarkYes

datatype InboundRequestActivationResult =
  kAccepted | kShuttingDown | kDuplicateProgressToken | kLimitExceeded

record in_flight_request =
  if_context :: request_context
  if_request :: request
  if_cancel_on_timeout :: bool
  if_progress_callback :: "nat option"
  if_progress_token :: "request_id option"
  if_task_augmented :: bool
  if_task_id :: "string option"
  if_last_observed :: "float64 option"
  if_promise :: nat
  if_timer :: bool

record inbound_request =
  ib_method :: string
  ib_task_augmented :: bool
  ib_progress_token :: "request_id option"
  ib_last_emitted :: "float64 option"
  ib_cancelled :: bool

text \<open>\<open>OutboundRequestOptions\<close>; the timeout is a signed count of milliseconds.\<close>

record outbound_options =
  oo_timeout :: int
  oo_cancel_on_timeout :: bool
  oo_on_progress :: "nat option"

datatype router_event =
  Sent request_context message
| ProgressCalled nat request_context progress_update
| HandlerCalled nat request_context request
| NotificationHandled nat request_context notification

text \<open>The sender returns normally (\<open>True\<close>) or throws.\<close>

type_synonym outbound_sender = "request_context \<Rightarrow> message \<Rightarrow> bool"

record router =
  outboundMessageSender :: "outbound_sender option"
  requestHandlers :: "(string, nat) umap"
  notificationHandlers :: "(string, nat) umap"
  seenRequestIdsBySender :: "string \<Rightarrow> request_id set"
  seenOutboundRequestIds :: "request_id set"
  inFlightRequests :: "(request_id, in_flight_request) umap"
  ignoredResponseIds :: "request_id set"
  pendingTaskCancellation :: "(request_id, request_context) umap"
  requestIdsByProgressToken :: "(request_id, request_id) umap"
  shuttingDown :: bool
  completionPool :: bool
  timeoutPool :: bool
  inboundRequestsBySender :: "(string, request_id, inbound_request) nested"
  inboundTokensBySender :: "(string, request_id, request_id) nested"
  inboundPromisesBySender :: "(string, request_id, nat) nested"
  maxConcurrentInFlightRequests :: nat
  promises :: "response option list"
  events :: "router_event list"
  handlerCalls :: "(request_context \<times> request \<times> nat) list"
  completionJobs :: "(request_context \<times> request_id \<times> nat) list"
  sendCalls :: "in_flight_request list"

definition new_router :: "nat \<Rightarrow> router" where
  "new_router limit =
     \<lparr>outboundMessageSender = None, requestHandlers = [], notificationHandlers = [],
      seenRequestIdsBySender = (\<lambda>_. {}), seenOutboundRequestIds = {}, inFlightRequests = [],
      ignoredResponseIds = {}, pendingTaskCancellation = [], requestIdsByProgressToken = [],
      shuttingDown = False, completionPool = True, timeoutPool = True,
      inboundRequestsBySender = [], inboundTokensBySender = [], inboundPromisesBySender = [],
      maxConcurrentInFlightRequests = limit, promises = [], events = [],
      handlerCalls = [], completionJobs = [], sendCalls = []\<rparr>"

section \<open>Promises and small helpers\<close>

definition new_promise :: "router \<Rightarrow> router \<times> nat" where
  "new_promise r = (r\<lparr>promises := promises r @ [None]\<rparr>, length (promises r))"

text \<open>\<open>makeReadyFuture\<close>: a future whose promise already has its value.\<close>

definition makeReadyFuture :: "response \<Rightarrow> router \<Rightarrow> router \<times> nat" where
  "makeReadyFuture v r = (r\<lparr>promises := promises r @ [Some v]\<rparr>, length (promises r))"

text \<open>A promise that already has a value keeps it; the exception is swallowed.\<close>

definition set_cell :: "nat \<Rightarrow> response \<Rightarrow> response option list \<Rightarrow> response option list" where
  "set_cell p v ps = (if p < length ps \<and> ps ! p = None then ps[p := Some v] else ps)"

definition setPromiseValueNoThrow :: "nat \<Rightarrow> response \<Rightarrow> router \<Rightarrow> router" where
  "setPromiseValueNoThrow p v r = r\<lparr>promises := set_cell p v (promises r)\<rparr>"

definition log_event :: "router_event \<Rightarrow> router \<Rightarrow> router" where
  "log_event e r = r\<lparr>events := events r @ [e]\<rparr>"

definition kDefaultSender :: string where
  "kDefaultSender = ''__default_sender__''"

definition senderKey :: "request_context \<Rightarrow> string" where
  "senderKey ctx = (case rc_session_id ctx of Some s \<Rightarrow> s | None \<Rightarrow> kDefaultSender)"

fun requestIdToString :: "request_id \<Rightarrow> string" where
  "requestIdToString (IntId i) = to_string_int (sint i)"
| "requestIdToString (StrId s) = s"

fun responseId :: "response \<Rightarrow> request_id option" where
  "responseId (RSuccess r) = Some (sr_id r)"
| "responseId (RError r) = er_id r"

definition makeInternalErrorResponse :: "request_id \<Rightarrow> string \<Rightarrow> response" where
  "makeInternalErrorResponse i msg = error_reply (makeInternalError None msg) i"

definition invalid_request_reply :: "string \<Rightarrow> request_id \<Rightarrow> response" where
  "invalid_request_reply msg i = error_reply (makeInvalidRequestError None msg) i"

definition dispatchOutboundMessage :: "request_context \<Rightarrow> message \<Rightarrow> router \<Rightarrow> router \<times> bool" where
  "dispatchOutboundMessage ctx m r =
     (case outboundMessageSender r of
        None \<Rightarrow> (r, False)
      | Some sender \<Rightarrow> if sender ctx m then (log_event (Sent ctx m) r, True) else (r, False))"

section \<open>Registration\<close>

definition setOutboundMessageSender :: "outbound_sender option \<Rightarrow> router \<Rightarrow> router" where
  "setOutboundMessageSender s r = r\<lparr>outboundMessageSender := s\<rparr>"

definition registerRequestHandler :: "string \<Rightarrow> nat \<Rightarrow> router \<Rightarrow> router" where
  "registerRequestHandler m h r = r\<lparr>requestHandlers := umap_put m h (requestHandlers r)\<rparr>"

definition registerNotificationHandler :: "string \<Rightarrow> nat \<Rightarrow> router \<Rightarrow> router" where
  "registerNotificationHandler m h r = r\<lparr>notificationHandlers := umap_put m h (notificationHandlers r)\<rparr>"

definition unregisterHandler :: "string \<Rightarrow> router \<Rightarrow> router \<times> bool" where
  "unregisterHandler m r =
     (r\<lparr>requestHandlers := umap_erase m (requestHandlers r),
        notificationHandlers := umap_erase m (notificationHandlers r)\<rparr>,
      map_of (requestHandlers r) m \<noteq> None \<or> map_of (notificationHandlers r) m \<noteq> None)"

section \<open>Inbound requests\<close>

text \<open>The state recorded for a request that becomes active.\<close>

definition new_inbound :: "request \<Rightarrow> inbound_request" where
  "new_inbound req =
     \<lparr>ib_method = rq_method req, ib_task_augmented = isTaskAugmentedRequest req,
      ib_progress_token = extractProgressToken req, ib_last_emitted = None, ib_cancelled = False\<rparr>"

text \<open>\<open>markInboundRequestActive\<close>, one critical section.\<close>

definition markInboundRequestActive ::
  "request_context \<Rightarrow> request \<Rightarrow> nat \<Rightarrow> router \<Rightarrow> router \<times> InboundRequestActivationResult" where
  "markInboundRequestActive ctx req promise r =
     (if shuttingDown r \<or> \<not> completionPool r then (r, kShuttingDown)
      else
        let sender = senderKey ctx in
        if total_entries (inboundRequestsBySender r) \<ge> maxConcurrentInFlightRequests r
        then (r, kLimitExceeded)
        else
          let state = new_inbound req;
              r1 = r\<lparr>inboundRequestsBySender := put2 sender (rq_id req) state (inboundRequestsBySender r)\<rparr>;
              accepted = (\<lambda>r. (r\<lparr>inboundPromisesBySender :=
                  put2 sender (rq_id req) promise (inboundPromisesBySender r)\<rparr>, kAccepted))
          in
          case ib_progress_token state of
            None \<Rightarrow> accepted r1
          | Some token \<Rightarrow>
              if find2 (inboundTokensBySender r1) sender token \<noteq> None
              then (r1\<lparr>inboundRequestsBySender :=
                      erase_keep2 sender (rq_id req) (inboundRequestsBySender r1)\<rparr>,
                    kDuplicateProgressToken)
              else accepted (r1\<lparr>inboundTokensBySender :=
                      put2 sender token (rq_id req) (inboundTokensBySender r1)\<rparr>))"

text \<open>\<open>completeInboundRequest\<close>, one critical section.\<close>

definition completeInboundRequest :: "request_context \<Rightarrow> request_id \<Rightarrow> router \<Rightarrow> router" where
  "completeInboundRequest ctx i r =
     (let sender = senderKey ctx;
          r1 = r\<lparr>inboundPromisesBySender := erase2 sender i (inboundPromisesBySender r)\<rparr>
      in
      case find2 (inboundRequestsBySender r1) sender i of
        None \<Rightarrow> r1
      | Some state \<Rightarrow>
          let r2 = (case ib_progress_token state of
                      None \<Rightarrow> r1
                    | Some token \<Rightarrow> r1\<lparr>inboundTokensBySender :=
                        erase2 sender token (inboundTokensBySender r1)\<rparr>)
          in r2\<lparr>inboundRequestsBySender := erase2 sender i (inboundRequestsBySender r2)\<rparr>)"

text \<open>
  The first half of \<open>dispatchRequest\<close>, up to the call of the handler: the duplicate check, the
  handler lookup and the activation. The result is the future and whether a handler now runs.
\<close>

definition dispatchRequest_begin :: "request_context \<Rightarrow> request \<Rightarrow> router \<Rightarrow> router \<times> nat \<times> nat option" where
  "dispatchRequest_begin ctx req r =
     (let sender = senderKey ctx;
          ready = (\<lambda>v r. let (r', f) = makeReadyFuture v r in (r', f, None))
      in
      if rq_id req \<in> seenRequestIdsBySender r sender
      then ready (invalid_request_reply ''Duplicate request id for sender within session.'' (rq_id req)) r
      else
        let r1 = r\<lparr>seenRequestIdsBySender := (seenRequestIdsBySender r)
                     (sender := insert (rq_id req) (seenRequestIdsBySender r sender))\<rparr>
        in
        case map_of (requestHandlers r1) (rq_method req) of
          None \<Rightarrow> ready (error_reply (makeMethodNotFoundError None ''Method not found'') (rq_id req)) r1
        | Some handler \<Rightarrow>
            let (r2, promise) = new_promise r1;
                (r3, activation) = markInboundRequestActive ctx req promise r2
            in
            case activation of
              kShuttingDown \<Rightarrow>
                ready (makeInternalErrorResponse (rq_id req) ''Router is shutting down.'')
                  (r1\<lparr>inboundRequestsBySender := inboundRequestsBySender r3\<rparr>)
            | kDuplicateProgressToken \<Rightarrow>
                ready (invalid_request_reply ''Duplicate progress token for active inbound request.'' (rq_id req))
                  (r1\<lparr>inboundRequestsBySender := inboundRequestsBySender r3\<rparr>)
            | kLimitExceeded \<Rightarrow>
                ready (invalid_request_reply
                        ''Exceeded configured max concurrent in-flight inbound requests.'' (rq_id req))
                  (r1\<lparr>inboundRequestsBySender := inboundRequestsBySender r3\<rparr>)
            | kAccepted \<Rightarrow>
                (log_event (HandlerCalled handler ctx req)
                   (r3\<lparr>handlerCalls := (ctx, req, promise) # handlerCalls r3\<rparr>),
                 promise, Some handler))"

text \<open>
  The second half, after the handler: it threw, or returned a future. Then the completion pool is
  looked at, and a completion job is posted to it, which may throw.
\<close>

datatype handler_outcome = HandlerThrows | PostThrows | Posted

definition dispatchRequest_end ::
  "request_context \<Rightarrow> request \<Rightarrow> nat \<Rightarrow> handler_outcome \<Rightarrow> router \<Rightarrow> router" where
  "dispatchRequest_end ctx req promise outcome r0 =
     (let r = r0\<lparr>handlerCalls := remove1 (ctx, req, promise) (handlerCalls r0)\<rparr>;
          fail = (\<lambda>msg. setPromiseValueNoThrow promise (makeInternalErrorResponse (rq_id req) msg)
                          (completeInboundRequest ctx (rq_id req) r))
      in
      case outcome of
        HandlerThrows \<Rightarrow> fail ''Request handler threw an exception.''
      | PostThrows \<Rightarrow>
          if \<not> completionPool r then fail ''Router is shutting down.''
          else fail ''Failed to post completion handler.''
      | Posted \<Rightarrow>
          if \<not> completionPool r then fail ''Router is shutting down.''
          else r\<lparr>completionJobs := (ctx, rq_id req, promise) # completionJobs r\<rparr>)"

text \<open>
  A completion job: the handler's future delivers a response or rethrows its exception
  (\<open>None\<close>).
\<close>

definition runCompletionJob ::
  "request_context \<Rightarrow> request_id \<Rightarrow> nat \<Rightarrow> response option \<Rightarrow> router \<Rightarrow> router" where
  "runCompletionJob ctx i promise result r0 =
     (let r = completeInboundRequest ctx i
                (r0\<lparr>completionJobs := remove1 (ctx, i, promise) (completionJobs r0)\<rparr>)
      in
      case result of
        Some v \<Rightarrow> setPromiseValueNoThrow promise v r
      | None \<Rightarrow> setPromiseValueNoThrow promise
                  (makeInternalErrorResponse i ''Request handler threw an exception.'') r)"

section \<open>Outbound requests\<close>

definition addInFlightRequest :: "in_flight_request \<Rightarrow> router \<Rightarrow> router \<times> response option" where
  "addInFlightRequest f r =
     (let i = rq_id (if_request f) in
      if length (inFlightRequests r) \<ge> maxConcurrentInFlightRequests r
      then (r, Some (invalid_request_reply
              ''Exceeded configured max concurrent in-flight outbound requests.'' i))
      else if i \<in> seenOutboundRequestIds r
      then (r, Some (invalid_request_reply ''Duplicate outbound request id within session.'' i))
      else if (case if_progress_token f of
                 None \<Rightarrow> False | Some t \<Rightarrow> map_of (requestIdsByProgressToken r) t \<noteq> None)
      then (r, Some (invalid_request_reply
              ''Duplicate progress token for active outbound request.'' i))
      else
        let r1 = r\<lparr>seenOutboundRequestIds := insert i (seenOutboundRequestIds r),
                   inFlightRequests := umap_put i f (inFlightRequests r)\<rparr>
        in (case if_progress_token f of
              None \<Rightarrow> r1
            | Some t \<Rightarrow> r1\<lparr>requestIdsByProgressToken := umap_put t i (requestIdsByProgressToken r1)\<rparr>,
            None))"

definition popInFlightRequest ::
  "request_id \<Rightarrow> MarkIgnoredResponseId \<Rightarrow> router \<Rightarrow> router \<times> in_flight_request option" where
  "popInFlightRequest i mark r =
     (case map_of (inFlightRequests r) i of
        None \<Rightarrow> (r, None)
      | Some f \<Rightarrow>
          let r1 = r\<lparr>inFlightRequests := umap_erase i (inFlightRequests r)\<rparr>;
              r2 = (if mark = MarkYes
                    then r1\<lparr>ignoredResponseIds := insert i (ignoredResponseIds r1)\<rparr> else r1);
              r3 = (case if_progress_token f of
                      None \<Rightarrow> r2
                    | Some t \<Rightarrow> r2\<lparr>requestIdsByProgressToken :=
                        umap_erase t (requestIdsByProgressToken r2)\<rparr>)
          in (r3, Some f))"

text \<open>Arming: the timer of a request that is still in flight.\<close>

definition armRequestTimeout :: "in_flight_request \<Rightarrow> int \<Rightarrow> router \<Rightarrow> router" where
  "armRequestTimeout f timeout r =
     (if timeout \<le> 0 \<or> \<not> timeoutPool r then r
      else
        (case map_of (inFlightRequests r) (rq_id (if_request f)) of
           None \<Rightarrow> r
         | Some g \<Rightarrow> r\<lparr>inFlightRequests :=
             umap_put (rq_id (if_request f)) (g\<lparr>if_timer := True\<rparr>) (inFlightRequests r)\<rparr>))"

text \<open>
  \<open>sendRequest\<close> up to the hand-over to the transport: the future, and the request when it went
  into flight. A request that is refused has its promise set at once.
\<close>

definition sendRequest_begin ::
  "request_context \<Rightarrow> request \<Rightarrow> outbound_options \<Rightarrow> router \<Rightarrow> router \<times> nat \<times> bool" where
  "sendRequest_begin ctx req opts r =
     (let (r1, promise) = new_promise r;
          f = \<lparr>if_context = ctx, if_request = req, if_cancel_on_timeout = oo_cancel_on_timeout opts,
               if_progress_callback = oo_on_progress opts,
               if_progress_token = extractProgressToken req,
               if_task_augmented = isTaskAugmentedRequest req, if_task_id = None,
               if_last_observed = None, if_promise = promise, if_timer = False\<rparr>;
          (r2, refused) = addInFlightRequest f r1
      in
      case refused of
        Some v \<Rightarrow> (setPromiseValueNoThrow promise v r2, promise, False)
      | None \<Rightarrow>
          let r3 = armRequestTimeout f (oo_timeout opts) r2
          in (r3\<lparr>sendCalls := f # sendCalls r3\<rparr>, promise, True))"

text \<open>The hand-over itself and what follows it.\<close>

definition sendRequest_end :: "in_flight_request \<Rightarrow> router \<Rightarrow> router" where
  "sendRequest_end f r0 =
     (let r = r0\<lparr>sendCalls := remove1 f (sendCalls r0)\<rparr>;
          (r1, sent) = dispatchOutboundMessage (if_context f) (MRequest (if_request f)) r
      in
      if sent then r1
      else
        let (r2, failed) = popInFlightRequest (rq_id (if_request f)) MarkNo r1
        in (case failed of
              None \<Rightarrow> r2
            | Some g \<Rightarrow> setPromiseValueNoThrow (if_promise g)
                (makeInternalErrorResponse (rq_id (if_request g)) ''Failed to send outbound request.'') r2))"

text \<open>\<open>sendRequest\<close> without anything in between.\<close>

definition sendRequest ::
  "request_context \<Rightarrow> request \<Rightarrow> outbound_options \<Rightarrow> router \<Rightarrow> router \<times> nat" where
  "sendRequest ctx req opts r =
     (let (r1, promise, flying) = sendRequest_begin ctx req opts r
      in (if flying then sendRequest_end (hd (sendCalls r1)) r1 else r1, promise))"

definition sendNotification :: "request_context \<Rightarrow> notification \<Rightarrow> router \<Rightarrow> router" where
  "sendNotification ctx n r = fst (dispatchOutboundMessage ctx (MNotification n) r)"

definition cancel_request_id :: "request_id \<Rightarrow> request_id" where
  "cancel_request_id i = StrId (''cancel:'' @ requestIdToString i)"

text \<open>
  \<open>handleRequestTimeout\<close> in its two critical parts: the request leaves the table and its id is
  marked; then the promise is failed and the peer is told.
\<close>

definition timeout_pop :: "request_id \<Rightarrow> router \<Rightarrow> router \<times> in_flight_request option" where
  "timeout_pop i r = popInFlightRequest i MarkYes r"

definition timeout_finish :: "request_id \<Rightarrow> in_flight_request \<Rightarrow> router \<Rightarrow> router" where
  "timeout_finish i f r =
     (let r1 = setPromiseValueNoThrow (if_promise f) (makeInternalErrorResponse i ''Request timed out.'') r
      in
      if \<not> if_cancel_on_timeout f \<or> rq_method (if_request f) = ''initialize'' then r1
      else if if_task_augmented f then
        (case if_task_id f of
           Some taskId \<Rightarrow> fst (dispatchOutboundMessage (if_context f)
             (MRequest (makeTasksCancelRequest (cancel_request_id i) taskId)) r1)
         | None \<Rightarrow> r1\<lparr>pendingTaskCancellation := umap_put i (if_context f) (pendingTaskCancellation r1)\<rparr>)
      else fst (dispatchOutboundMessage (if_context f)
             (MNotification (makeCancelledNotification i (Some ''Request timed out.''))) r1))"

definition handleRequestTimeout :: "request_id \<Rightarrow> router \<Rightarrow> router" where
  "handleRequestTimeout i r =
     (case timeout_pop i r of
        (r1, None) \<Rightarrow> r1
      | (r1, Some f) \<Rightarrow> timeout_finish i f r1)"

definition dispatchResponse :: "response \<Rightarrow> router \<Rightarrow> router \<times> bool" where
  "dispatchResponse resp r =
     (case responseId resp of
        None \<Rightarrow> (r, False)
      | Some i \<Rightarrow>
          (case popInFlightRequest i MarkNo r of
             (r1, Some f) \<Rightarrow> (setPromiseValueNoThrow (if_promise f) resp r1, True)
           | (r1, None) \<Rightarrow>
               let ignored = i \<in> ignoredResponseIds r1;
                   r2 = r1\<lparr>ignoredResponseIds := ignoredResponseIds r1 - {i}\<rparr>;
                   pending = (if ignored then map_of (pendingTaskCancellation r2) i else None);
                   r3 = (if pending \<noteq> None
                         then r2\<lparr>pendingTaskCancellation := umap_erase i (pendingTaskCancellation r2)\<rparr>
                         else r2)
               in
               (case (pending, extractCreateTaskResultTaskId resp) of
                  (Some ctx, Some taskId) \<Rightarrow>
                    fst (dispatchOutboundMessage ctx
                      (MRequest (makeTasksCancelRequest (cancel_request_id i) taskId)) r3)
                | _ \<Rightarrow> r3, False)))"

section \<open>Notifications and progress\<close>

text \<open>
  The progress part of \<open>dispatchNotification\<close>: the state of the request the token belongs to is
  advanced when the value grows, and its callback is to be run.
\<close>

definition observeProgress :: "progress_update \<Rightarrow> router \<Rightarrow> router \<times> nat option" where
  "observeProgress pu r =
     (case map_of (requestIdsByProgressToken r) (pu_token pu) of
        None \<Rightarrow> (r, None)
      | Some i \<Rightarrow>
          (case map_of (inFlightRequests r) i of
             None \<Rightarrow> (r, None)
           | Some f \<Rightarrow>
               if (case if_last_observed f of None \<Rightarrow> True | Some p \<Rightarrow> float_less p (pu_progress pu))
               then (r\<lparr>inFlightRequests :=
                       umap_put i (f\<lparr>if_last_observed := Some (pu_progress pu)\<rparr>) (inFlightRequests r)\<rparr>,
                     if_progress_callback f)
               else (r, None)))"

definition cancelInboundRequest :: "request_context \<Rightarrow> request_id \<Rightarrow> router \<Rightarrow> router" where
  "cancelInboundRequest ctx i r =
     (let sender = senderKey ctx in
      case find2 (inboundRequestsBySender r) sender i of
        None \<Rightarrow> r
      | Some state \<Rightarrow>
          if ib_method state \<noteq> ''initialize'' \<and> \<not> ib_task_augmented state
          then r\<lparr>inboundRequestsBySender :=
                 put2 sender i (state\<lparr>ib_cancelled := True\<rparr>) (inboundRequestsBySender r)\<rparr>
          else r)"

definition dispatchNotification :: "request_context \<Rightarrow> notification \<Rightarrow> router \<Rightarrow> router" where
  "dispatchNotification ctx n r =
     (let update = parseProgressNotification n;
          cancelled = parseCancelledNotification n;
          (r1, callback) = (case update of None \<Rightarrow> (r, None) | Some pu \<Rightarrow> observeProgress pu r);
          r2 = (case cancelled of None \<Rightarrow> r1 | Some c \<Rightarrow> cancelInboundRequest ctx (cn_request_id c) r1);
          handler = map_of (notificationHandlers r2) (nt_method n);
          r3 = (case (callback, update) of
                  (Some cb, Some pu) \<Rightarrow> log_event (ProgressCalled cb ctx pu) r2
                | _ \<Rightarrow> r2)
      in (case handler of None \<Rightarrow> r3 | Some h \<Rightarrow> log_event (NotificationHandled h ctx n) r3))"

definition emitProgress ::
  "request_context \<Rightarrow> request_id \<Rightarrow> float64 \<Rightarrow> float64 option \<Rightarrow> string option \<Rightarrow> router \<Rightarrow> router \<times> bool"
where
  "emitProgress ctx token progress tot msg r =
     (let sender = senderKey ctx in
      case find2 (inboundTokensBySender r) sender token of
        None \<Rightarrow> (r, False)
      | Some i \<Rightarrow>
          (case find2 (inboundRequestsBySender r) sender i of
             None \<Rightarrow> (r, False)
           | Some state \<Rightarrow>
               if ib_cancelled state then (r, False)
               else if (case ib_last_emitted state of None \<Rightarrow> False | Some p \<Rightarrow> float_le progress p)
               then (r, False)
               else dispatchOutboundMessage ctx
                      (MNotification (makeProgressNotification token progress tot msg))
                      (r\<lparr>inboundRequestsBySender :=
                         put2 sender i (state\<lparr>ib_last_emitted := Some progress\<rparr>)
                           (inboundRequestsBySender r)\<rparr>)))"

definition emitProgressFor ::
  "request_context \<Rightarrow> request \<Rightarrow> float64 \<Rightarrow> float64 option \<Rightarrow> string option \<Rightarrow> router \<Rightarrow> router \<times> bool"
where
  "emitProgressFor ctx req progress tot msg r =
     (case extractProgressToken req of
        None \<Rightarrow> (r, False)
      | Some token \<Rightarrow> emitProgress ctx token progress tot msg r)"

section \<open>Shutdown\<close>

text \<open>
  The destructor: the inbound tables are emptied under their lock, then the outbound tables
  under theirs, then every promise found there is failed.
\<close>

definition inbound_entries :: "(string, request_id, nat) nested \<Rightarrow> (request_id \<times> nat) list" where
  "inbound_entries m = concat (map snd m)"

definition failPromises :: "string \<Rightarrow> (request_id \<times> nat) list \<Rightarrow> router \<Rightarrow> router" where
  "failPromises msg ps r =
     foldl (\<lambda>r (i, p). setPromiseValueNoThrow p (makeInternalErrorResponse i msg) r) r ps"

definition destroyRouter :: "router \<Rightarrow> router" where
  "destroyRouter r =
     (let pendingInbound = inbound_entries (inboundPromisesBySender r);
          r1 = r\<lparr>shuttingDown := True, inboundPromisesBySender := [], inboundRequestsBySender := [],
                 inboundTokensBySender := []\<rparr>;
          inFlight = map (\<lambda>(_, f). (rq_id (if_request f), if_promise f)) (inFlightRequests r1);
          r2 = r1\<lparr>inFlightRequests := [], requestIdsByProgressToken := [],
                  pendingTaskCancellation := []\<rparr>;
          r3 = failPromises ''Router shutdown before response was received.'' inFlight r2;
          r4 = failPromises ''Router shutdown before request handler completed.'' pendingInbound r3
      in r4\<lparr>completionPool := False, timeoutPool := False\<rparr>)"

end
