(* ===== verification/RouterInv.thy ===== *)
theory RouterInv
  imports Router
begin

text \<open>
  The router as a transition system: one step per operation, with the handlers, the completion
  jobs and the hand-over to the transport as steps of their own, so that everything may come in
  between. The invariant says how the tables agree with each other and with the promises; the
  properties of the router follow from it.
\<close>

section \<open>Steps\<close>

inductive router_step :: "router \<Rightarrow> router \<Rightarrow> bool" where
  set_sender: "router_step r (setOutboundMessageSender s r)"
| register_request: "router_step r (registerRequestHandler m h r)"
| register_notification: "router_step r (registerNotificationHandler m h r)"
| unregister: "router_step r (fst (unregisterHandler m r))"
| dispatch_begin: "router_step r (fst (dispatchRequest_begin ctx req r))"
| dispatch_end: "(ctx, req, p) \<in> set (handlerCalls r) \<Longrightarrow>
     router_step r (dispatchRequest_end ctx req p outcome r)"
| complete: "(ctx, i, p) \<in> set (completionJobs r) \<Longrightarrow>
     router_step r (runCompletionJob ctx i p result r)"
| send_begin: "router_step r (fst (sendRequest_begin ctx req opts r))"
| send_end: "f \<in> set (sendCalls r) \<Longrightarrow> router_step r (sendRequest_end f r)"
| send_notification: "router_step r (sendNotification ctx n r)"
| timeout: "router_step r (handleRequestTimeout i r)"
| respond: "router_step r (fst (dispatchResponse resp r))"
| notification: "router_step r (dispatchNotification ctx n r)"
| emit: "router_step r (fst (emitProgress ctx token progress tot msg r))"
| destroy: "router_step r (destroyRouter r)"

definition router_start :: "router \<Rightarrow> bool" where
  "router_start r \<longleftrightarrow> (\<exists>limit. r = new_router limit)"

section \<open>Normal forms of the operations\<close>

text \<open>Each operation as one update of the record, so that the simplifier sees what it leaves alone.\<close>

lemma fst_dispatchOutboundMessage [router_defs]:
  "fst (dispatchOutboundMessage ctx m r) = r\<lparr>events := events r @
     (if snd (dispatchOutboundMessage ctx m r) then [Sent ctx m] else [])\<rparr>"
  by (simp add: dispatchOutboundMessage_def log_event_def split: option.split)

definition complete_tokens ::
  "string \<Rightarrow> request_id \<Rightarrow> (string, request_id, inbound_request) nested \<Rightarrow>
   (string, request_id, request_id) nested \<Rightarrow> (string, request_id, request_id) nested" where
  "complete_tokens s i reqs toks =
     (case find2 reqs s i of
        None \<Rightarrow> toks
      | Some st \<Rightarrow> (case ib_progress_token st of None \<Rightarrow> toks | Some t \<Rightarrow> erase2 s t toks))"

definition complete_requests ::
  "string \<Rightarrow> request_id \<Rightarrow> (string, request_id, inbound_request) nested \<Rightarrow>
   (string, request_id, inbound_request) nested" where
  "complete_requests s i reqs = (case find2 reqs s i of None \<Rightarrow> reqs | Some _ \<Rightarrow> erase2 s i reqs)"

lemma completeInboundRequest_eq [router_defs]:
  "completeInboundRequest ctx i r = r\<lparr>
     inboundRequestsBySender := complete_requests (senderKey ctx) i (inboundRequestsBySender r),
     inboundTokensBySender :=
       complete_tokens (senderKey ctx) i (inboundRequestsBySender r) (inboundTokensBySender r),
     inboundPromisesBySender := erase2 (senderKey ctx) i (inboundPromisesBySender r)\<rparr>"
  by (simp add: completeInboundRequest_def complete_requests_def complete_tokens_def Let_def
      split: option.split)

lemma find2_complete [simp]:
  "find2 (complete_requests s i m) s' i' = (if s' = s \<and> i' = i then None else find2 m s' i')"
  by (auto simp: complete_requests_def split: option.split)

lemma nested_wf_complete [simp]:
  "nested_wf m \<Longrightarrow> nested_wf (complete_requests s i m)"
  "nested_wf toks \<Longrightarrow> nested_wf (complete_tokens s i m toks)"
  by (auto simp: complete_requests_def complete_tokens_def split: option.split)

lemma total_complete_le: "nested_wf m \<Longrightarrow> total_entries (complete_requests s i m) \<le> total_entries m"
  by (auto simp: complete_requests_def total_erase2_le split: option.split)

lemma failPromises_eq [router_defs]:
  "failPromises msg ps r = r\<lparr>promises :=
     foldl (\<lambda>cs (i, p). set_cell p (makeInternalErrorResponse i msg) cs) (promises r) ps\<rparr>"
  unfolding failPromises_def
  by (induction ps arbitrary: r) (auto simp: setPromiseValueNoThrow_def split: prod.split)

section \<open>Promises are set once\<close>

lemma length_set_cell [simp]: "length (set_cell p v ps) = length ps"
  by (simp add: set_cell_def)

lemma set_cell_nth:
  "q < length ps \<Longrightarrow> set_cell p v ps ! q = (if q = p \<and> ps ! q = None then Some v else ps ! q)"
  by (auto simp: set_cell_def nth_list_update)

lemma foldl_set_cell_None:
  "foldl (\<lambda>cs (i, p). set_cell p (g i) cs) ps xs ! q = None \<Longrightarrow> q < length ps \<Longrightarrow>
     ps ! q = None \<and> q \<notin> snd ` set xs"
proof (induction xs arbitrary: ps)
  case (Cons x xs)
  obtain i p where x: "x = (i, p)" by (cases x)
  from Cons x have "set_cell p (g i) ps ! q = None \<and> q \<notin> snd ` set xs" by simp
  with Cons.prems x show ?case by (auto simp: set_cell_nth split: if_splits)
qed simp

lemma length_foldl_set_cell [simp]:
  "length (foldl (\<lambda>cs (i, p). set_cell p (g i) cs) ps xs) = length ps"
  by (induction xs arbitrary: ps) auto

lemma fst_markInboundRequestActive_promises [simp]:
  "promises (fst (markInboundRequestActive ctx req p r)) = promises r"
  by (auto simp: markInboundRequestActive_def Let_def split: option.split)

lemma addInFlightRequest_promises [simp]:
  "promises (fst (addInFlightRequest f r)) = promises r"
  by (auto simp: addInFlightRequest_def Let_def split: option.split)

lemma popInFlightRequest_promises [simp]:
  "promises (fst (popInFlightRequest i mark r)) = promises r"
  by (auto simp: popInFlightRequest_def Let_def split: option.split)

lemma armRequestTimeout_promises [simp]: "promises (armRequestTimeout f t r) = promises r"
  by (auto simp: armRequestTimeout_def split: option.split)

lemma observeProgress_promises [simp]: "promises (fst (observeProgress pu r)) = promises r"
  by (auto simp: observeProgress_def split: option.split)

lemma cancelInboundRequest_promises [simp]: "promises (cancelInboundRequest ctx i r) = promises r"
  by (auto simp: cancelInboundRequest_def Let_def split: option.split)

lemma timeout_finish_promises [simp]:
  "promises (timeout_finish i f r) =
     set_cell (if_promise f) (makeInternalErrorResponse i ''Request timed out.'') (promises r)"
  by (simp add: timeout_finish_def Let_def setPromiseValueNoThrow_def router_defs split: option.split)

text \<open>The outcomes of an activation.\<close>

lemma mark_cases:
  obtains
    (refused) res where "markInboundRequestActive ctx req p r = (r, res)" "res \<noteq> kAccepted"
  | (duplicate) t where "ib_progress_token (new_inbound req) = Some t"
      "find2 (inboundTokensBySender r) (senderKey ctx) t \<noteq> None"
      "markInboundRequestActive ctx req p r =
        (r\<lparr>inboundRequestsBySender := erase_keep2 (senderKey ctx) (rq_id req)
             (put2 (senderKey ctx) (rq_id req) (new_inbound req) (inboundRequestsBySender r))\<rparr>,
         kDuplicateProgressToken)"
  | (accepted) "total_entries (inboundRequestsBySender r) < maxConcurrentInFlightRequests r"
      "\<not> shuttingDown r"
      "case ib_progress_token (new_inbound req) of None \<Rightarrow> True
       | Some t \<Rightarrow> find2 (inboundTokensBySender r) (senderKey ctx) t = None"
      "markInboundRequestActive ctx req p r =
        (r\<lparr>inboundRequestsBySender :=
             put2 (senderKey ctx) (rq_id req) (new_inbound req) (inboundRequestsBySender r),
           inboundTokensBySender := (case ib_progress_token (new_inbound req) of
               None \<Rightarrow> inboundTokensBySender r
             | Some t \<Rightarrow> put2 (senderKey ctx) t (rq_id req) (inboundTokensBySender r)),
           inboundPromisesBySender := put2 (senderKey ctx) (rq_id req) p (inboundPromisesBySender r)\<rparr>,
         kAccepted)"
proof (cases "shuttingDown r \<or> \<not> completionPool r \<or>
    total_entries (inboundRequestsBySender r) \<ge> maxConcurrentInFlightRequests r")
  case True
  then show ?thesis
    by (intro refused [of "if shuttingDown r \<or> \<not> completionPool r then kShuttingDown else kLimitExceeded"])
      (auto simp: markInboundRequestActive_def Let_def)
next
  case False
  show ?thesis
  proof (cases "ib_progress_token (new_inbound req)")
    case None
    with False show ?thesis
      by (intro accepted) (auto simp: markInboundRequestActive_def Let_def)
  next
    case (Some t)
    show ?thesis
    proof (cases "find2 (inboundTokensBySender r) (senderKey ctx) t")
      case None
      with False Some show ?thesis
        by (intro accepted) (auto simp: markInboundRequestActive_def Let_def)
    next
      case token: (Some _)
      with False Some show ?thesis
        by (intro duplicate) (auto simp: markInboundRequestActive_def Let_def)
    qed
  qed
qed

text \<open>The outcomes of the first half of \<open>dispatchRequest\<close>.\<close>

definition mark_seen :: "request_context \<Rightarrow> request \<Rightarrow> router \<Rightarrow> string \<Rightarrow> request_id set" where
  "mark_seen ctx req r = (seenRequestIdsBySender r)
     (senderKey ctx := insert (rq_id req) (seenRequestIdsBySender r (senderKey ctx)))"

lemmas reply_defs = makeInternalErrorResponse_def invalid_request_reply_def

lemma dispatchRequest_begin_cases:
  obtains
    (duplicate) v where "rq_id req \<in> seenRequestIdsBySender r (senderKey ctx)"
      "dispatchRequest_begin ctx req r =
         (r\<lparr>promises := promises r @ [Some v]\<rparr>, length (promises r), None)"
      "v = invalid_request_reply ''Duplicate request id for sender within session.'' (rq_id req)"
  | (refused) v where "rq_id req \<notin> seenRequestIdsBySender r (senderKey ctx)"
      "dispatchRequest_begin ctx req r =
         (r\<lparr>promises := promises r @ [Some v], seenRequestIdsBySender := mark_seen ctx req r\<rparr>,
          length (promises r), None)" "\<exists>e. v = error_reply e (rq_id req)"
  | (duplicate_token) v where "rq_id req \<notin> seenRequestIdsBySender r (senderKey ctx)"
      "dispatchRequest_begin ctx req r =
         (r\<lparr>promises := promises r @ [Some v], seenRequestIdsBySender := mark_seen ctx req r,
            inboundRequestsBySender := erase_keep2 (senderKey ctx) (rq_id req)
              (put2 (senderKey ctx) (rq_id req) (new_inbound req) (inboundRequestsBySender r))\<rparr>,
          length (promises r), None)" "\<exists>e. v = error_reply e (rq_id req)"
  | (accepted) h where "rq_id req \<notin> seenRequestIdsBySender r (senderKey ctx)"
      "map_of (requestHandlers r) (rq_method req) = Some h"
      "total_entries (inboundRequestsBySender r) < maxConcurrentInFlightRequests r"
      "case ib_progress_token (new_inbound req) of None \<Rightarrow> True
       | Some t \<Rightarrow> find2 (inboundTokensBySender r) (senderKey ctx) t = None"
      "dispatchRequest_begin ctx req r =
         (r\<lparr>seenRequestIdsBySender := mark_seen ctx req r, promises := promises r @ [None],
            inboundRequestsBySender :=
              put2 (senderKey ctx) (rq_id req) (new_inbound req) (inboundRequestsBySender r),
            inboundTokensBySender := (case ib_progress_token (new_inbound req) of
                None \<Rightarrow> inboundTokensBySender r
              | Some t \<Rightarrow> put2 (senderKey ctx) t (rq_id req) (inboundTokensBySender r)),
            inboundPromisesBySender :=
              put2 (senderKey ctx) (rq_id req) (length (promises r)) (inboundPromisesBySender r),
            handlerCalls := (ctx, req, length (promises r)) # handlerCalls r,
            events := events r @ [HandlerCalled h ctx req]\<rparr>,
          length (promises r), Some h)"
proof (cases "rq_id req \<in> seenRequestIdsBySender r (senderKey ctx)")
  case True
  then show ?thesis
    by (intro duplicate) (simp_all add: dispatchRequest_begin_def makeReadyFuture_def Let_def)
next
  case new: False
  show ?thesis
  proof (cases "map_of (requestHandlers r) (rq_method req)")
    case None
    with new show ?thesis
      by (intro refused [of "error_reply (makeMethodNotFoundError None ''Method not found'') (rq_id req)"])
        (auto simp: dispatchRequest_begin_def makeReadyFuture_def mark_seen_def Let_def)
  next
    case handler: (Some h)
    define r2 where "r2 = r\<lparr>seenRequestIdsBySender := mark_seen ctx req r, promises := promises r @ [None]\<rparr>"
    have unfold: "dispatchRequest_begin ctx req r =
      (let r1 = r\<lparr>seenRequestIdsBySender := mark_seen ctx req r\<rparr>;
           (r3, activation) = markInboundRequestActive ctx req (length (promises r)) r2;
           ready = (\<lambda>v r. let (r', f) = makeReadyFuture v r in (r', f, None));
           r1' = r1\<lparr>inboundRequestsBySender := inboundRequestsBySender r3\<rparr> in
       case activation of
         kShuttingDown \<Rightarrow> ready (makeInternalErrorResponse (rq_id req) ''Router is shutting down.'') r1'
       | kDuplicateProgressToken \<Rightarrow> ready (invalid_request_reply
           ''Duplicate progress token for active inbound request.'' (rq_id req)) r1'
       | kLimitExceeded \<Rightarrow> ready (invalid_request_reply
           ''Exceeded configured max concurrent in-flight inbound requests.'' (rq_id req)) r1'
       | kAccepted \<Rightarrow> (log_event (HandlerCalled h ctx req)
           (r3\<lparr>handlerCalls := (ctx, req, length (promises r)) # handlerCalls r3\<rparr>),
           length (promises r), Some h))"
      using new handler
      by (simp add: dispatchRequest_begin_def new_promise_def r2_def mark_seen_def Let_def)
    show ?thesis
    proof (cases rule: mark_cases [of ctx req "length (promises r)" r2])
      case (refused res)
      with new show ?thesis
        by (intro that(2) [of "case res of
              kShuttingDown \<Rightarrow> makeInternalErrorResponse (rq_id req) ''Router is shutting down.''
            | kDuplicateProgressToken \<Rightarrow> invalid_request_reply
                ''Duplicate progress token for active inbound request.'' (rq_id req)
            | _ \<Rightarrow> invalid_request_reply
                ''Exceeded configured max concurrent in-flight inbound requests.'' (rq_id req)"])
          (cases res; auto simp: unfold makeReadyFuture_def r2_def Let_def reply_defs)+
    next
      case (duplicate t)
      with new show ?thesis
        by (intro duplicate_token [of "invalid_request_reply
              ''Duplicate progress token for active inbound request.'' (rq_id req)"]) (auto simp: unfold makeReadyFuture_def r2_def Let_def reply_defs)
    next
      case accepted
      with new handler show ?thesis
        by (intro that(4); cases "ib_progress_token (new_inbound req)")
          (simp_all add: unfold log_event_def r2_def Let_def)
    qed
  qed
qed

section \<open>Outcomes of the outbound operations\<close>

definition erase_token :: "request_id option \<Rightarrow> (request_id, request_id) umap \<Rightarrow> (request_id, request_id) umap" where
  "erase_token t toks = (case t of None \<Rightarrow> toks | Some x \<Rightarrow> umap_erase x toks)"

definition put_token ::
  "request_id option \<Rightarrow> request_id \<Rightarrow> (request_id, request_id) umap \<Rightarrow> (request_id, request_id) umap" where
  "put_token t i toks = (case t of None \<Rightarrow> toks | Some x \<Rightarrow> umap_put x i toks)"

lemma popInFlightRequest_eq:
  "popInFlightRequest i mark r =
     (case map_of (inFlightRequests r) i of
        None \<Rightarrow> (r, None)
      | Some f \<Rightarrow>
          (r\<lparr>inFlightRequests := umap_erase i (inFlightRequests r),
             ignoredResponseIds :=
               (if mark = MarkYes then insert i (ignoredResponseIds r) else ignoredResponseIds r),
             requestIdsByProgressToken := erase_token (if_progress_token f) (requestIdsByProgressToken r)\<rparr>,
           Some f))"
  by (simp add: popInFlightRequest_def erase_token_def Let_def split: option.split)

lemma sendRequest_begin_cases:
  obtains
    (refused) v where "sendRequest_begin ctx req opts r =
      (r\<lparr>promises := promises r @ [Some v]\<rparr>, length (promises r), False)"
      "\<exists>e. v = error_reply e (rq_id req)"
      "\<not> (length (inFlightRequests r) < maxConcurrentInFlightRequests r
         \<and> rq_id req \<notin> seenOutboundRequestIds r
         \<and> (case extractProgressToken req of None \<Rightarrow> True | Some t \<Rightarrow> map_of (requestIdsByProgressToken r) t = None))"
  | (flying) f where "length (inFlightRequests r) < maxConcurrentInFlightRequests r"
      "rq_id req \<notin> seenOutboundRequestIds r"
      "case if_progress_token f of None \<Rightarrow> True | Some t \<Rightarrow> map_of (requestIdsByProgressToken r) t = None"
      "if_context f = ctx" "if_request f = req" "if_promise f = length (promises r)"
      "if_progress_token f = extractProgressToken req" "if_last_observed f = None" "if_task_id f = None"
      "sendRequest_begin ctx req opts r =
        (r\<lparr>promises := promises r @ [None],
           seenOutboundRequestIds := insert (rq_id req) (seenOutboundRequestIds r),
           inFlightRequests := umap_put (rq_id req)
             (f\<lparr>if_timer := (0 < oo_timeout opts \<and> timeoutPool r)\<rparr>) (inFlightRequests r),
           requestIdsByProgressToken :=
             put_token (if_progress_token f) (rq_id req) (requestIdsByProgressToken r),
           sendCalls := f # sendCalls r\<rparr>, length (promises r), True)"
proof -
  let ?f = "\<lparr>if_context = ctx, if_request = req, if_cancel_on_timeout = oo_cancel_on_timeout opts,
     if_progress_callback = oo_on_progress opts, if_progress_token = extractProgressToken req,
     if_task_augmented = isTaskAugmentedRequest req, if_task_id = None, if_last_observed = None,
     if_promise = length (promises r), if_timer = False\<rparr>"
  let ?r1 = "r\<lparr>promises := promises r @ [None]\<rparr>"
  have cell: "set_cell (length (promises r)) v (promises r @ [None]) = promises r @ [Some v]" for v
    by (simp add: set_cell_def)
  show ?thesis
  proof (cases "snd (addInFlightRequest ?f ?r1)")
    case (Some v)
    then have add: "addInFlightRequest ?f ?r1 = (?r1, Some v)" and "\<exists>e. v = error_reply e (rq_id req)"
      "\<not> (length (inFlightRequests r) < maxConcurrentInFlightRequests r
         \<and> rq_id req \<notin> seenOutboundRequestIds r
         \<and> (case extractProgressToken req of None \<Rightarrow> True | Some t \<Rightarrow> map_of (requestIdsByProgressToken r) t = None))"
      by (auto simp: addInFlightRequest_def Let_def reply_defs split: if_splits option.splits)
    then show ?thesis
      by (intro refused [of v])
        (simp_all add: sendRequest_begin_def new_promise_def setPromiseValueNoThrow_def cell Let_def)
  next
    case None
    then have cond: "length (inFlightRequests r) < maxConcurrentInFlightRequests r"
      "rq_id req \<notin> seenOutboundRequestIds r"
      "case extractProgressToken req of None \<Rightarrow> True | Some t \<Rightarrow> map_of (requestIdsByProgressToken r) t = None"
      by (auto simp: addInFlightRequest_def Let_def split: if_splits option.splits)
    then have "addInFlightRequest ?f ?r1 =
      (?r1\<lparr>seenOutboundRequestIds := insert (rq_id req) (seenOutboundRequestIds r),
           inFlightRequests := umap_put (rq_id req) ?f (inFlightRequests r),
           requestIdsByProgressToken :=
             put_token (extractProgressToken req) (rq_id req) (requestIdsByProgressToken r)\<rparr>, None)"
      by (auto simp: addInFlightRequest_def put_token_def Let_def split: option.splits)
    then show ?thesis
      by (intro flying [of ?f] cond)
        (use cond in \<open>simp_all add: sendRequest_begin_def new_promise_def armRequestTimeout_def umap_simps
          Let_def update_Some_unfold\<close>)
  qed
qed

section \<open>The outbound tables\<close>

text \<open>
  In-flight requests are keyed by their own id, which has been used and is not marked as
  ignored, and none carries a task id (nothing in router.cpp assigns that field); the token table is exactly the tokens of the in-flight requests; the limit is
  respected; and a pending task cancellation waits for a response that is marked.
\<close>

definition out_ok ::
  "(request_id, in_flight_request) umap \<Rightarrow> (request_id, request_id) umap \<Rightarrow> request_id set \<Rightarrow>
   request_id set \<Rightarrow> (request_id, request_context) umap \<Rightarrow> nat \<Rightarrow> bool" where
  "out_ok F T S I P n \<longleftrightarrow>
     umap_wf F \<and> umap_wf T \<and> umap_wf P \<and> length F \<le> n \<and> I \<subseteq> S
   \<and> (\<forall>i f. map_of F i = Some f \<longrightarrow>
         rq_id (if_request f) = i \<and> if_task_id f = None \<and> i \<in> S \<and> i \<notin> I)
   \<and> (\<forall>t i. map_of T t = Some i \<longleftrightarrow> (\<exists>f. map_of F i = Some f \<and> if_progress_token f = Some t))
   \<and> (\<forall>i. map_of P i \<noteq> None \<longrightarrow> i \<in> I)"

definition outbound_inv :: "router \<Rightarrow> bool" where
  "outbound_inv r \<longleftrightarrow>
     out_ok (inFlightRequests r) (requestIdsByProgressToken r) (seenOutboundRequestIds r)
       (ignoredResponseIds r) (pendingTaskCancellation r) (maxConcurrentInFlightRequests r)"

lemma out_ok_token:
  "out_ok F T S I P n \<Longrightarrow> map_of F j = Some h \<Longrightarrow> if_progress_token h = Some t \<Longrightarrow> map_of T t = Some j"
  unfolding out_ok_def by blast

lemma out_ok_add:
  assumes "out_ok F T S I P n" and "length F < n" and "i \<notin> S" and "rq_id (if_request f) = i"
    and "if_task_id f = None"
    and "case if_progress_token f of None \<Rightarrow> True | Some t \<Rightarrow> map_of T t = None"
  shows "out_ok (umap_put i f F) (put_token (if_progress_token f) i T) (insert i S) I P n"
proof -
  have fresh: "map_of F i = None"
    using assms(1,3) by (cases "map_of F i") (auto simp: out_ok_def)
  have "i \<notin> I" using assms(1,3) by (auto simp: out_ok_def)
  show ?thesis
  proof (cases "if_progress_token f")
    case None
    with assms fresh \<open>i \<notin> I\<close> show ?thesis
      by (auto simp: out_ok_def put_token_def umap_simps umap_put_length)
  next
    case (Some t)
    with assms have noT: "if_progress_token h \<noteq> Some t" if "map_of F j = Some h" for j h
      using that out_ok_token [OF assms(1) that, of t] assms(6) Some by auto
    from Some assms fresh \<open>i \<notin> I\<close> show ?thesis
      by (auto simp: out_ok_def put_token_def umap_simps umap_put_length dest: noT)
  qed
qed

lemma out_ok_update:
  assumes "out_ok F T S I P n" and "map_of F i = Some f"
    and "if_request g = if_request f" and "if_progress_token g = if_progress_token f"
    and "if_task_id g = if_task_id f"
  shows "out_ok (umap_put i g F) T S I P n"
proof -
  have tokens: "map_of T t = Some j \<longleftrightarrow>
      (\<exists>h. map_of (umap_put i g F) j = Some h \<and> if_progress_token h = Some t)" for t j
    using assms by (auto simp: out_ok_def umap_simps)
  show ?thesis
    using assms unfolding out_ok_def tokens by (auto simp: umap_simps umap_put_length)
qed

lemma out_ok_pop:
  assumes ok: "out_ok F T S I P n" and F: "map_of F i = Some f"
  shows "out_ok (umap_erase i F) (erase_token (if_progress_token f) T) S I P n"
    and "out_ok (umap_erase i F) (erase_token (if_progress_token f) T) S (insert i I) P n"
proof -
  have tokens: "map_of (erase_token (if_progress_token f) T) t = Some j \<longleftrightarrow>
      (\<exists>h. map_of (umap_erase i F) j = Some h \<and> if_progress_token h = Some t)" for t j
  proof -
    have T: "map_of T x = Some k \<longleftrightarrow> (\<exists>h. map_of F k = Some h \<and> if_progress_token h = Some x)" for x k
      using ok by (auto simp: out_ok_def)
    show ?thesis
    proof (cases "if_progress_token f")
      case None
      with F T [of t j] T [of t i] show ?thesis by (auto simp: erase_token_def umap_simps)
    next
      case (Some a)
      with F T [of t j] T [of a i] show ?thesis by (auto simp: erase_token_def umap_simps)
    qed
  qed
  have wf: "umap_wf (erase_token (if_progress_token f) T)"
    using ok by (auto simp: out_ok_def erase_token_def split: option.split)
  have len: "length (umap_erase i F) \<le> n"
    using ok umap_erase_length_le [of i F] by (auto simp: out_ok_def)
  show "out_ok (umap_erase i F) (erase_token (if_progress_token f) T) S I P n"
    using ok wf len unfolding out_ok_def tokens by (auto simp: umap_simps)
  show "out_ok (umap_erase i F) (erase_token (if_progress_token f) T) S (insert i I) P n"
    using ok F wf len unfolding out_ok_def tokens by (auto simp: umap_simps)
qed

lemma out_ok_pending:
  "out_ok F T S I P n \<Longrightarrow> i \<in> I \<Longrightarrow> out_ok F T S I (umap_put i c P) n"
  by (auto simp: out_ok_def umap_simps)

lemma out_ok_unmark:
  "out_ok F T S I P n \<Longrightarrow> out_ok F T S (I - {i}) (umap_erase i P) n"
  by (auto simp: out_ok_def umap_simps)

lemma out_ok_unmark_plain:
  "out_ok F T S I P n \<Longrightarrow> map_of P i = None \<or> i \<notin> I \<Longrightarrow> out_ok F T S (I - {i}) P n"
  by (auto simp: out_ok_def)

lemma out_ok_shutdown: "out_ok F T S I P n \<Longrightarrow> out_ok [] [] S I [] n"
  by (auto simp: out_ok_def)

lemma outbound_pop:
  assumes "outbound_inv r" and "popInFlightRequest i mark r = (r', x)"
  shows "outbound_inv r'"
  using assms out_ok_pop by (auto simp: outbound_inv_def popInFlightRequest_eq split: option.splits)

lemma outbound_promise [simp]: "outbound_inv (setPromiseValueNoThrow p v r) = outbound_inv r"
  by (simp add: outbound_inv_def setPromiseValueNoThrow_def)

lemma outbound_dispatch [simp]: "outbound_inv (fst (dispatchOutboundMessage ctx m r)) = outbound_inv r"
  by (simp add: outbound_inv_def router_defs)

lemma outbound_complete [simp]: "outbound_inv (completeInboundRequest ctx i r) = outbound_inv r"
  by (simp add: outbound_inv_def router_defs)

lemma outbound_observe:
  "outbound_inv r \<Longrightarrow> outbound_inv (fst (observeProgress pu r))"
  by (auto simp: outbound_inv_def observeProgress_def intro: out_ok_update split: option.split)

lemma outbound_cancel [simp]: "outbound_inv (cancelInboundRequest ctx i r) = outbound_inv r"
  by (simp add: outbound_inv_def cancelInboundRequest_def Let_def split: option.split)

lemma outbound_send_begin:
  assumes "outbound_inv r"
  shows "outbound_inv (fst (sendRequest_begin ctx req opts r))"
proof (cases rule: sendRequest_begin_cases [of ctx req opts r])
  case (refused v)
  with assms show ?thesis by (simp add: outbound_inv_def)
next
  case (flying f)
  with assms out_ok_add [of _ _ _ _ _ _ "rq_id req" "f\<lparr>if_timer := (0 < oo_timeout opts \<and> timeoutPool r)\<rparr>"]
  show ?thesis by (simp add: outbound_inv_def)
qed

lemma outbound_send_end:
  assumes "outbound_inv r"
  shows "outbound_inv (sendRequest_end f r)"
proof -
  obtain r1 sent where d: "dispatchOutboundMessage (if_context f) (MRequest (if_request f))
      (r\<lparr>sendCalls := remove1 f (sendCalls r)\<rparr>) = (r1, sent)" by fastforce
  have "outbound_inv (r\<lparr>sendCalls := remove1 f (sendCalls r)\<rparr>)"
    using assms by (simp add: outbound_inv_def)
  then have r1: "outbound_inv r1"
    using outbound_dispatch d by (metis fst_conv)
  show ?thesis
    using r1 outbound_pop [OF r1, of "rq_id (if_request f)" MarkNo]
    by (auto simp: sendRequest_end_def Let_def d split: prod.split option.split)
qed

lemma outbound_timeout_finish:
  assumes "outbound_inv r" and "i \<in> ignoredResponseIds r"
  shows "outbound_inv (timeout_finish i f r)"
proof -
  have "outbound_inv (setPromiseValueNoThrow p v r\<lparr>pendingTaskCancellation :=
      umap_put i c (pendingTaskCancellation (setPromiseValueNoThrow p v r))\<rparr>)" for p v c
    using assms by (simp add: outbound_inv_def setPromiseValueNoThrow_def out_ok_pending)
  with assms show ?thesis
    by (simp add: timeout_finish_def Let_def split: option.split)
qed

lemma outbound_timeout: "outbound_inv r \<Longrightarrow> outbound_inv (handleRequestTimeout i r)"
  using outbound_pop [of r i MarkYes]
  by (auto simp: handleRequestTimeout_def timeout_pop_def popInFlightRequest_eq
      intro!: outbound_timeout_finish split: option.split)

lemma outbound_response:
  assumes "outbound_inv r"
  shows "outbound_inv (fst (dispatchResponse resp r))"
proof (cases "responseId resp")
  case None
  with assms show ?thesis by (simp add: dispatchResponse_def)
next
  case (Some i)
  show ?thesis
  proof (cases "map_of (inFlightRequests r) i")
    case f: (Some f)
    with assms outbound_pop [of r i MarkNo] Some show ?thesis
      by (auto simp: dispatchResponse_def popInFlightRequest_eq)
  next
    case None
    have unmark: "outbound_inv (r\<lparr>ignoredResponseIds := ignoredResponseIds r - {i},
        pendingTaskCancellation := umap_erase i (pendingTaskCancellation r)\<rparr>)"
      using assms by (simp add: outbound_inv_def out_ok_unmark)
    have plain: "i \<notin> ignoredResponseIds r \<or> map_of (pendingTaskCancellation r) i = None \<Longrightarrow>
        outbound_inv (r\<lparr>ignoredResponseIds := ignoredResponseIds r - {i}\<rparr>)"
      using assms by (auto simp: outbound_inv_def out_ok_unmark_plain)
    from None Some unmark plain show ?thesis
      by (auto simp: dispatchResponse_def popInFlightRequest_eq Let_def split: option.split)
  qed
qed

lemma outbound_notification:
  assumes "outbound_inv r"
  shows "outbound_inv (dispatchNotification ctx n r)"
proof -
  have log: "outbound_inv (log_event e q) = outbound_inv q" for e q
    by (simp add: log_event_def outbound_inv_def)
  have "outbound_inv (fst (case parseProgressNotification n of None \<Rightarrow> (r, None)
      | Some pu \<Rightarrow> observeProgress pu r))"
    using assms outbound_observe by (auto split: option.split)
  then show ?thesis
    by (auto simp: dispatchNotification_def Let_def log split: prod.split option.split)
qed

lemma outbound_step: "router_step r r' \<Longrightarrow> outbound_inv r \<Longrightarrow> outbound_inv r'"
proof (induction rule: router_step.induct)
  case (dispatch_begin r ctx req)
  then show ?case
    by (cases rule: dispatchRequest_begin_cases [of req r ctx]) (simp_all add: outbound_inv_def)
next
  case (dispatch_end ctx req p r outcome)
  then have "outbound_inv (r\<lparr>handlerCalls := h, completionJobs := j\<rparr>)" for h j
    by (simp add: outbound_inv_def)
  moreover from dispatch_end have "outbound_inv (r\<lparr>handlerCalls := h\<rparr>)" for h
    by (simp add: outbound_inv_def)
  ultimately show ?case
    by (auto simp: dispatchRequest_end_def Let_def split: handler_outcome.split)
next
  case (complete ctx i p r result)
  then have "outbound_inv (r\<lparr>completionJobs := j\<rparr>)" for j
    by (simp add: outbound_inv_def)
  then show ?case by (auto simp: runCompletionJob_def Let_def split: option.split)
next
  case (destroy r)
  then show ?case
    by (auto simp: outbound_inv_def destroyRouter_def router_defs Let_def out_ok_shutdown)
next
  case (emit r ctx token progress tot msg)
  have "outbound_inv (r\<lparr>inboundRequestsBySender := m\<rparr>)" for m
    using emit by (simp add: outbound_inv_def)
  with emit show ?case by (auto simp: emitProgress_def Let_def split: option.split)
qed (simp_all add: outbound_send_begin outbound_send_end outbound_timeout outbound_response
    outbound_notification sendNotification_def,
    simp_all add: outbound_inv_def setOutboundMessageSender_def registerRequestHandler_def
    registerNotificationHandler_def unregisterHandler_def)

end
