(* ===== verification/RouterSafety.thy ===== *)
theory RouterSafety
  imports RouterInv
begin

text \<open>
  What holds of the router in every reachable state: the inbound tables agree with each other,
  every unresolved future belongs to exactly one request that is still tracked, a handler runs
  at most once per request, and a promise never changes its value. The properties of the
  router's interface are at the end.
\<close>

section \<open>Outcomes of the remaining outbound operations\<close>

text \<open>What a timeout does after the request has left the table.\<close>

lemma timeout_finish_frame [simp]:
  "inFlightRequests (timeout_finish i f r) = inFlightRequests r"
  "inboundPromisesBySender (timeout_finish i f r) = inboundPromisesBySender r"
  "inboundRequestsBySender (timeout_finish i f r) = inboundRequestsBySender r"
  "inboundTokensBySender (timeout_finish i f r) = inboundTokensBySender r"
  "seenRequestIdsBySender (timeout_finish i f r) = seenRequestIdsBySender r"
  "maxConcurrentInFlightRequests (timeout_finish i f r) = maxConcurrentInFlightRequests r"
  "handlerCalls (timeout_finish i f r) = handlerCalls r"
  "completionJobs (timeout_finish i f r) = completionJobs r"
  by (simp_all add: timeout_finish_def setPromiseValueNoThrow_def router_defs Let_def
      split: option.split)

text \<open>No operation but \<open>dispatchRequest\<close> adds a handler call to the events.\<close>

definition handled :: "router_event list \<Rightarrow> (string \<times> request_id) list" where
  "handled es = concat (map (\<lambda>e. case e of HandlerCalled h ctx req \<Rightarrow> [(senderKey ctx, rq_id req)] | _ \<Rightarrow> []) es)"

lemma handled_simps [simp]:
  "handled [] = []" "handled (es @ fs) = handled es @ handled fs"
  "handled [HandlerCalled h ctx req] = [(senderKey ctx, rq_id req)]"
  "handled [Sent ctx m] = []" "handled [ProgressCalled c ctx pu] = []" "handled [NotificationHandled c ctx n] = []"
  by (simp_all add: handled_def)

lemma handled_dispatch [simp]:
  "handled (events (fst (dispatchOutboundMessage ctx m r))) = handled (events r)"
  by (simp add: router_defs)

lemma handled_timeout_finish [simp]: "handled (events (timeout_finish i f r)) = handled (events r)"
  by (simp add: timeout_finish_def setPromiseValueNoThrow_def router_defs Let_def split: option.split)

text \<open>The end of \<open>sendRequest\<close>.\<close>

lemma sendRequest_end_cases:
  obtains
    (kept) es where "sendRequest_end f r = r\<lparr>sendCalls := remove1 f (sendCalls r), events := events r @ es\<rparr>"
      "handled es = []"
  | (failed) g where "map_of (inFlightRequests r) (rq_id (if_request f)) = Some g"
      "sendRequest_end f r = r\<lparr>sendCalls := remove1 f (sendCalls r),
         inFlightRequests := umap_erase (rq_id (if_request f)) (inFlightRequests r),
         requestIdsByProgressToken := erase_token (if_progress_token g) (requestIdsByProgressToken r),
         promises := set_cell (if_promise g) (makeInternalErrorResponse (rq_id (if_request g))
           ''Failed to send outbound request.'') (promises r)\<rparr>"
proof -
  let ?r0 = "r\<lparr>sendCalls := remove1 f (sendCalls r)\<rparr>"
  let ?d = "dispatchOutboundMessage (if_context f) (MRequest (if_request f)) ?r0"
  consider (sent) "?d = (?r0\<lparr>events := events r @ [Sent (if_context f) (MRequest (if_request f))]\<rparr>, True)"
    | (unsent) "?d = (?r0, False)"
  proof (cases "snd ?d")
    case True
    then have "?d = (?r0\<lparr>events := events r @ [Sent (if_context f) (MRequest (if_request f))]\<rparr>, True)"
      by (auto simp: dispatchOutboundMessage_def log_event_def split: option.splits if_splits)
    then show ?thesis by (rule sent)
  next
    case False
    then have "?d = (?r0, False)"
      by (auto simp: dispatchOutboundMessage_def log_event_def split: option.splits if_splits)
    then show ?thesis by (rule unsent)
  qed
  then show ?thesis
  proof cases
    case sent
    then show ?thesis
      by (intro kept [of "[Sent (if_context f) (MRequest (if_request f))]"])
        (simp_all add: sendRequest_end_def)
  next
    case unsent
    show ?thesis
    proof (cases "map_of (inFlightRequests r) (rq_id (if_request f))")
      case None
      with unsent show ?thesis
        by (intro kept [of "[]"]) (simp_all add: sendRequest_end_def popInFlightRequest_eq)
    next
      case (Some g)
      with unsent show ?thesis
        by (intro failed [of g])
          (simp_all add: sendRequest_end_def popInFlightRequest_eq setPromiseValueNoThrow_def)
    qed
  qed
qed

section \<open>The inbound tables\<close>

definition in_ok ::
  "(string, request_id, inbound_request) nested \<Rightarrow> (string, request_id, request_id) nested \<Rightarrow>
   (string, request_id, nat) nested \<Rightarrow> (string \<Rightarrow> request_id set) \<Rightarrow> nat \<Rightarrow> bool" where
  "in_ok R T Q S n \<longleftrightarrow>
     nested_wf R \<and> nested_wf T \<and> nested_wf Q \<and> total_entries R \<le> n
   \<and> (\<forall>s i. find2 R s i \<noteq> None \<longleftrightarrow> find2 Q s i \<noteq> None)
   \<and> (\<forall>s i. find2 R s i \<noteq> None \<longrightarrow> i \<in> S s)
   \<and> (\<forall>s t i. find2 T s t = Some i \<longleftrightarrow> (\<exists>st. find2 R s i = Some st \<and> ib_progress_token st = Some t))"

definition inbound_inv :: "router \<Rightarrow> bool" where
  "inbound_inv r \<longleftrightarrow>
     in_ok (inboundRequestsBySender r) (inboundTokensBySender r) (inboundPromisesBySender r)
       (seenRequestIdsBySender r) (maxConcurrentInFlightRequests r)"

lemma in_ok_token:
  "in_ok R T Q S n \<Longrightarrow> find2 R s i = Some st \<Longrightarrow> ib_progress_token st = Some t \<Longrightarrow> find2 T s t = Some i"
  unfolding in_ok_def by blast

lemma in_ok_fresh: "in_ok R T Q S n \<Longrightarrow> i \<notin> S s \<Longrightarrow> find2 R s i = None \<and> find2 Q s i = None"
  unfolding in_ok_def by blast

lemma in_ok_seen:
  "in_ok R T Q S n \<Longrightarrow> in_ok R T Q (S(s := insert i (S s))) n"
  by (auto simp: in_ok_def)

lemma in_ok_accept:
  assumes ok: "in_ok R T Q S n" and "i \<notin> S s" and "total_entries R < n"
    and t: "case ib_progress_token st of None \<Rightarrow> True | Some t \<Rightarrow> find2 T s t = None"
  shows "in_ok (put2 s i st R)
     (case ib_progress_token st of None \<Rightarrow> T | Some t \<Rightarrow> put2 s t i T) (put2 s i p Q)
     (S(s := insert i (S s))) n"
proof -
  have fresh: "find2 R s i = None" "find2 Q s i = None"
    using in_ok_fresh ok assms(2) by fastforce+
  have noT: "ib_progress_token h \<noteq> Some t"
    if "ib_progress_token st = Some t" "find2 R s j = Some h" for t j h
    using that in_ok_token [OF ok that(2), of t] t by auto
  have total: "total_entries (put2 s i st R) \<le> n"
    using total_put2_fresh [OF _ fresh(1)] ok assms(3) by (auto simp: in_ok_def)
  show ?thesis
  proof (cases "ib_progress_token st")
    case None
    with ok fresh total show ?thesis by (auto simp: in_ok_def)
  next
    case (Some t)
    with ok fresh total show ?thesis by (auto simp: in_ok_def dest: noT)
  qed
qed

lemma in_ok_refuse:
  assumes ok: "in_ok R T Q S n" and "i \<notin> S s"
  shows "in_ok (erase_keep2 s i (put2 s i st R)) T Q (S(s := insert i (S s))) n"
proof -
  have fresh: "find2 R s i = None" "find2 Q s i = None"
    using in_ok_fresh assms by fastforce+
  then have same: "find2 (erase_keep2 s i (put2 s i st R)) s' i' = find2 R s' i'" for s' i'
    by auto
  from ok fresh show ?thesis
    unfolding in_ok_def same by (auto simp: total_erase_keep2_put2_fresh)
qed

lemma in_ok_complete:
  assumes ok: "in_ok R T Q S n"
  shows "in_ok (complete_requests s i R) (complete_tokens s i R T) (erase2 s i Q) S n"
proof -
  have tokens: "find2 (complete_tokens s i R T) s' t = Some j \<longleftrightarrow>
      (\<exists>st. find2 (complete_requests s i R) s' j = Some st \<and> ib_progress_token st = Some t)" for s' t j
  proof -
    have T: "find2 T x y = Some k \<longleftrightarrow> (\<exists>h. find2 R x k = Some h \<and> ib_progress_token h = Some y)" for x y k
      using ok by (auto simp: in_ok_def)
    show ?thesis
    proof (cases "find2 R s i")
      case None
      with T [of s' t j] show ?thesis by (auto simp: complete_tokens_def)
    next
      case (Some st)
      show ?thesis
      proof (cases "ib_progress_token st")
        case None
        with Some T [of s' t j] T [of s t i] show ?thesis by (auto simp: complete_tokens_def)
      next
        case token: (Some a)
        with Some T [of s' t j] T [of s a i] show ?thesis by (auto simp: complete_tokens_def)
      qed
    qed
  qed
  have "total_entries (complete_requests s i R) \<le> n"
    using ok total_complete_le [of R s i] by (auto simp: in_ok_def)
  moreover have "nested_wf (complete_tokens s i R T)"
    using ok by (auto simp: in_ok_def complete_tokens_def split: option.split)
  ultimately show ?thesis
    using ok unfolding in_ok_def tokens by simp
qed

lemma in_ok_update:
  assumes "in_ok R T Q S n" and "find2 R s i = Some st"
    and "ib_progress_token st' = ib_progress_token st"
  shows "in_ok (put2 s i st' R) T Q S n"
proof -
  have tokens: "find2 T s' t = Some j \<longleftrightarrow>
      (\<exists>h. find2 (put2 s i st' R) s' j = Some h \<and> ib_progress_token h = Some t)" for s' t j
    using assms by (auto simp: in_ok_def)
  show ?thesis
    using assms unfolding in_ok_def tokens by (auto simp: total_put2_present)
qed

lemma inbound_dispatch_begin:
  assumes "inbound_inv r"
  shows "inbound_inv (fst (dispatchRequest_begin ctx req r))"
proof (cases rule: dispatchRequest_begin_cases [of req r ctx])
  case (duplicate v)
  with assms show ?thesis by (simp add: inbound_inv_def)
next
  case (refused v)
  with assms show ?thesis by (simp add: inbound_inv_def mark_seen_def in_ok_seen)
next
  case (duplicate_token v)
  with assms show ?thesis by (simp add: inbound_inv_def mark_seen_def in_ok_refuse)
next
  case (accepted h)
  with assms in_ok_accept [of _ _ _ _ _ "rq_id req" "senderKey ctx" "new_inbound req"]
  show ?thesis by (simp add: inbound_inv_def mark_seen_def)
qed

lemma inbound_complete: "inbound_inv r \<Longrightarrow> inbound_inv (completeInboundRequest ctx i r)"
  by (simp add: inbound_inv_def router_defs in_ok_complete)

lemma inbound_promise [simp]: "inbound_inv (setPromiseValueNoThrow p v r) = inbound_inv r"
  by (simp add: inbound_inv_def setPromiseValueNoThrow_def)

lemma inbound_dispatch [simp]: "inbound_inv (fst (dispatchOutboundMessage ctx m r)) = inbound_inv r"
  by (simp add: inbound_inv_def router_defs)

lemma inbound_log [simp]: "inbound_inv (log_event e r) = inbound_inv r"
  by (simp add: inbound_inv_def log_event_def)

lemma inbound_pop [simp]: "inbound_inv (fst (popInFlightRequest i mark r)) = inbound_inv r"
  by (simp add: inbound_inv_def popInFlightRequest_eq split: option.split)

lemma inbound_cancel: "inbound_inv r \<Longrightarrow> inbound_inv (cancelInboundRequest ctx i r)"
  by (auto simp: inbound_inv_def cancelInboundRequest_def Let_def intro: in_ok_update split: option.split)

lemma inbound_observe [simp]: "inbound_inv (fst (observeProgress pu r)) = inbound_inv r"
  by (simp add: inbound_inv_def observeProgress_def split: option.split)

lemma inbound_emit:
  assumes "inbound_inv r"
  shows "inbound_inv (fst (emitProgress ctx token progress tot msg r))"
proof -
  have "inbound_inv (r\<lparr>inboundRequestsBySender :=
      put2 s i (st\<lparr>ib_last_emitted := x\<rparr>) (inboundRequestsBySender r)\<rparr>)"
    if "find2 (inboundRequestsBySender r) s i = Some st" for s i st x
    using assms that by (auto simp: inbound_inv_def intro: in_ok_update)
  with assms show ?thesis by (simp add: emitProgress_def Let_def split: option.split)
qed

lemma inbound_dispatch_end: "inbound_inv r \<Longrightarrow> inbound_inv (dispatchRequest_end ctx req p outcome r)"
  by (auto simp: dispatchRequest_end_def inbound_inv_def router_defs setPromiseValueNoThrow_def
      in_ok_complete Let_def split: handler_outcome.split)

lemma inbound_run_job: "inbound_inv r \<Longrightarrow> inbound_inv (runCompletionJob ctx i p result r)"
  by (auto simp: runCompletionJob_def inbound_inv_def router_defs setPromiseValueNoThrow_def
      in_ok_complete Let_def split: option.split)

lemma inbound_notification:
  assumes "inbound_inv r"
  shows "inbound_inv (dispatchNotification ctx n r)"
proof -
  have "inbound_inv (fst (case parseProgressNotification n of None \<Rightarrow> (r, None)
      | Some pu \<Rightarrow> observeProgress pu r))"
    using assms by (auto split: option.split)
  then show ?thesis
    by (auto simp: dispatchNotification_def Let_def inbound_cancel split: prod.split option.split)
qed

lemma inbound_send_end [simp]: "inbound_inv (sendRequest_end f r) = inbound_inv r"
  by (cases rule: sendRequest_end_cases [of f r]) (simp_all add: inbound_inv_def)

lemma inbound_frame_simps [simp]:
  "inbound_inv (fst (sendRequest_begin ctx req opts r)) = inbound_inv r"
  "inbound_inv (timeout_finish i f r) = inbound_inv r"
  "inbound_inv (handleRequestTimeout i r) = inbound_inv r"
  "inbound_inv (fst (dispatchResponse resp r)) = inbound_inv r"
proof -
  show "inbound_inv (fst (sendRequest_begin ctx req opts r)) = inbound_inv r"
    by (cases rule: sendRequest_begin_cases [of ctx req opts r]) (simp_all add: inbound_inv_def)
  show finish: "inbound_inv (timeout_finish i f r) = inbound_inv r" for f r
    by (simp add: inbound_inv_def)
  show "inbound_inv (handleRequestTimeout i r) = inbound_inv r"
  proof (cases "popInFlightRequest i MarkYes r")
    case (Pair r1 x)
    then have "inbound_inv r1 = inbound_inv r" by (metis fst_conv inbound_pop)
    with Pair show ?thesis
      by (simp add: handleRequestTimeout_def timeout_pop_def finish split: option.split)
  qed
  show "inbound_inv (fst (dispatchResponse resp r)) = inbound_inv r"
    by (auto simp: dispatchResponse_def popInFlightRequest_eq setPromiseValueNoThrow_def
        inbound_inv_def router_defs Let_def split: option.split)
qed

lemma inbound_step: "router_step r r' \<Longrightarrow> inbound_inv r \<Longrightarrow> inbound_inv r'"
proof (induction rule: router_step.induct)
  case (destroy r)
  then show ?case
    by (auto simp: inbound_inv_def destroyRouter_def router_defs in_ok_def total_entries_def Let_def)
qed (simp_all add: inbound_dispatch_begin inbound_dispatch_end inbound_run_job inbound_send_end
    inbound_notification inbound_emit sendNotification_def,
    simp_all add: inbound_inv_def setOutboundMessageSender_def registerRequestHandler_def
    registerNotificationHandler_def unregisterHandler_def)

end
