(* ===== verification/RouterPromises.thy ===== *)
theory RouterPromises
  imports RouterSafety
begin

text \<open>
  Promises and the requests that owe them a value. In every reachable state an unresolved
  promise belongs to exactly one request of the tables, a handler that still runs or waits knows
  its promise, and a request handler runs at most once for each request of a sender. Together
  with the invariants of the tables this is \<open>router_inv\<close>; the properties of the router that rest
  on it stand at the end.
\<close>

section \<open>Owners\<close>

datatype owner = Outgoing request_id | Incoming string request_id

fun owner_map ::
  "(request_id, in_flight_request) umap \<Rightarrow> (string, request_id, nat) nested \<Rightarrow> owner \<Rightarrow> nat option" where
  "owner_map F Q (Outgoing i) = map_option if_promise (map_of F i)"
| "owner_map F Q (Incoming s i) = find2 Q s i"

definition owner_promise :: "router \<Rightarrow> owner \<Rightarrow> nat option" where
  "owner_promise r = owner_map (inFlightRequests r) (inboundPromisesBySender r)"

lemma owner_map_updates:
  "owner_map (umap_put i f F) Q = (owner_map F Q)(Outgoing i := Some (if_promise f))"
  "owner_map (umap_erase i F) Q = (owner_map F Q)(Outgoing i := None)"
  "owner_map F (put2 s i p Q) = (owner_map F Q)(Incoming s i := Some p)"
  "nested_wf Q \<Longrightarrow> owner_map F (erase2 s i Q) = (owner_map F Q)(Incoming s i := None)"
  "owner_map [] [] = (\<lambda>_. None)"
proof -
  have eq: "W = W'" if "\<And>i. W (Outgoing i) = W' (Outgoing i)" "\<And>s i. W (Incoming s i) = W' (Incoming s i)"
    for W W' :: "owner \<Rightarrow> nat option"
    using that by (intro ext) (metis owner.exhaust)
  show "owner_map (umap_put i f F) Q = (owner_map F Q)(Outgoing i := Some (if_promise f))"
    by (rule eq) (simp_all add: umap_simps)
  show "owner_map (umap_erase i F) Q = (owner_map F Q)(Outgoing i := None)"
    by (rule eq) (simp_all add: umap_simps)
  show "owner_map F (put2 s i p Q) = (owner_map F Q)(Incoming s i := Some p)"
    by (rule eq) auto
  show "nested_wf Q \<Longrightarrow> owner_map F (erase2 s i Q) = (owner_map F Q)(Incoming s i := None)"
    by (rule eq) auto
  show "owner_map [] [] = (\<lambda>_. None)"
    by (rule eq) auto
qed

lemma owner_map_same:
  "map_of F i = Some f \<Longrightarrow> if_promise g = if_promise f \<Longrightarrow> owner_map (umap_put i g F) Q = owner_map F Q"
  by (auto simp: owner_map_updates fun_eq_iff)

definition unresolved :: "response option list \<Rightarrow> nat \<Rightarrow> bool" where
  "unresolved ps p \<longleftrightarrow> p < length ps \<and> ps ! p = None"

lemma unresolved_simps [simp]:
  "unresolved (ps @ [Some v]) p = unresolved ps p"
  "unresolved (ps @ [None]) p = (unresolved ps p \<or> p = length ps)"
  "unresolved (set_cell q v ps) p = (unresolved ps p \<and> p \<noteq> q)"
  by (auto simp: unresolved_def nth_append set_cell_nth split: if_splits)

lemma unresolved_less: "unresolved ps p \<Longrightarrow> p < length ps"
  by (simp add: unresolved_def)

definition cells_ok :: "response option list \<Rightarrow> (owner \<Rightarrow> nat option) \<Rightarrow> bool" where
  "cells_ok ps W \<longleftrightarrow>
     (\<forall>x p. W x = Some p \<longrightarrow> unresolved ps p)
   \<and> (\<forall>x y p. W x = Some p \<longrightarrow> W y = Some p \<longrightarrow> x = y)
   \<and> (\<forall>p. unresolved ps p \<longrightarrow> (\<exists>x. W x = Some p))"

lemma cells_okD:
  assumes "cells_ok ps W"
  shows "W x = Some p \<Longrightarrow> unresolved ps p" "W x = Some p \<Longrightarrow> W y = Some p \<Longrightarrow> x = y"
    "unresolved ps p \<Longrightarrow> \<exists>x. W x = Some p"
  using assms unfolding cells_ok_def by blast+

lemma cells_ok_ready: "cells_ok ps W \<Longrightarrow> cells_ok (ps @ [Some v]) W"
  by (simp add: cells_ok_def)

lemma cells_ok_new:
  assumes ok: "cells_ok ps W" and x: "W x = None"
  shows "cells_ok (ps @ [None]) (W(x := Some (length ps)))"
proof -
  have less: "p < length ps" if "W y = Some p" for y p
    using cells_okD(1) [OF ok that] by (rule unresolved_less)
  show ?thesis
    unfolding cells_ok_def
  proof (intro conjI allI impI)
    fix y p assume "(W(x := Some (length ps))) y = Some p"
    then show "unresolved (ps @ [None]) p" using cells_okD(1) [OF ok, of y p] by (simp split: if_splits)
  next
    fix y z p assume "(W(x := Some (length ps))) y = Some p" "(W(x := Some (length ps))) z = Some p"
    then show "y = z"
      using cells_okD(2) [OF ok, of y p z] less [of y p] less [of z p] by (simp split: if_splits)
  next
    fix p assume "unresolved (ps @ [None]) p"
    then show "\<exists>y. (W(x := Some (length ps))) y = Some p"
      using cells_okD(3) [OF ok, of p] x by (metis fun_upd_apply option.distinct(1) unresolved_simps(2))
  qed
qed

lemma cells_ok_resolve:
  assumes ok: "cells_ok ps W" and x: "W x = Some p \<or> W x = None \<and> \<not> unresolved ps p"
  shows "cells_ok (set_cell p v ps) (W(x := None))"
  unfolding cells_ok_def
proof (intro conjI allI impI)
  fix y q assume "(W(x := None)) y = Some q"
  then show "unresolved (set_cell p v ps) q"
    using cells_okD(1) [OF ok, of y q] cells_okD(2) [OF ok, of x q y] x by (auto split: if_splits)
next
  fix y z q assume "(W(x := None)) y = Some q" "(W(x := None)) z = Some q"
  then show "y = z" using cells_okD(2) [OF ok, of y q z] by (auto split: if_splits)
next
  fix q assume "unresolved (set_cell p v ps) q"
  then show "\<exists>y. (W(x := None)) y = Some q"
    using cells_okD(3) [OF ok, of q] x by (metis fun_upd_apply option.distinct(1) option.inject unresolved_simps(3))
qed

section \<open>Handlers and completion jobs\<close>

type_synonym job = "string \<times> request_id \<times> nat"

definition pending_jobs ::
  "(request_context \<times> request \<times> nat) list \<Rightarrow> (request_context \<times> request_id \<times> nat) list \<Rightarrow> job set" where
  "pending_jobs hs js = (\<lambda>(c, q, p). (senderKey c, rq_id q, p)) ` set hs \<union>
     (\<lambda>(c, i, p). (senderKey c, i, p)) ` set js"

definition jobs_ok ::
  "job set \<Rightarrow> response option list \<Rightarrow> (string, request_id, nat) nested \<Rightarrow> (string \<Rightarrow> request_id set) \<Rightarrow> bool"
where
  "jobs_ok X ps Q S \<longleftrightarrow> (\<forall>s i p. (s, i, p) \<in> X \<longrightarrow> i \<in> S s \<and> p < length ps
     \<and> (unresolved ps p \<longrightarrow> find2 Q s i = Some p) \<and> (\<forall>q. find2 Q s i = Some q \<longrightarrow> q = p))"

lemma jobs_okD:
  assumes "jobs_ok X ps Q S" and "(s, i, p) \<in> X"
  shows "i \<in> S s" "p < length ps" "unresolved ps p \<Longrightarrow> find2 Q s i = Some p"
    "find2 Q s i = Some q \<Longrightarrow> q = p"
  using assms unfolding jobs_ok_def by blast+

lemma jobs_okI:
  assumes "\<And>s i p. (s, i, p) \<in> X \<Longrightarrow> i \<in> S s"
    and "\<And>s i p. (s, i, p) \<in> X \<Longrightarrow> p < length ps"
    and "\<And>s i p. (s, i, p) \<in> X \<Longrightarrow> unresolved ps p \<Longrightarrow> find2 Q s i = Some p"
    and "\<And>s i p q. (s, i, p) \<in> X \<Longrightarrow> find2 Q s i = Some q \<Longrightarrow> q = p"
  shows "jobs_ok X ps Q S"
  using assms unfolding jobs_ok_def by blast

lemma jobs_ok_subset: "jobs_ok X ps Q S \<Longrightarrow> Y \<subseteq> X \<Longrightarrow> jobs_ok Y ps Q S"
  unfolding jobs_ok_def by blast

lemma jobs_ok_ready: "jobs_ok X ps Q S \<Longrightarrow> jobs_ok X (ps @ [Some v]) Q S"
  unfolding jobs_ok_def by (metis unresolved_simps(1) length_append less_Suc_eq
      length_append_singleton)

lemma jobs_ok_new: "jobs_ok X ps Q S \<Longrightarrow> jobs_ok X (ps @ [None]) Q S"
  unfolding jobs_ok_def by (metis unresolved_simps(2) less_Suc_eq less_irrefl length_append_singleton)

lemma jobs_ok_seen: "jobs_ok X ps Q S \<Longrightarrow> jobs_ok X ps Q (S(s := insert i (S s)))"
  unfolding jobs_ok_def by (metis fun_upd_apply insertI2)

lemma jobs_ok_resolve: "jobs_ok X ps Q S \<Longrightarrow> jobs_ok X (set_cell p v ps) Q S"
  unfolding jobs_ok_def by simp

lemma jobs_ok_accept:
  assumes ok: "jobs_ok X ps Q S" and i: "i \<notin> S s"
  shows "jobs_ok (insert (s, i, length ps) X) (ps @ [None]) (put2 s i (length ps) Q)
    (S(s := insert i (S s)))"
proof (rule jobs_okI)
  have new: "(s', i') \<noteq> (s, i)" if "(s', i', p) \<in> X" for s' i' p
    using jobs_okD(1) [OF ok that] i by blast
  fix s' i' p assume x: "(s', i', p) \<in> insert (s, i, length ps) X"
  show "i' \<in> (S(s := insert i (S s))) s'"
    using x jobs_okD(1) [OF ok] by (cases "s' = s") auto
  show "p < length (ps @ [None])"
    using x jobs_okD(2) [OF ok] by (auto simp: less_SucI)
  show "find2 (put2 s i (length ps) Q) s' i' = Some p" if "unresolved (ps @ [None]) p"
    using x that new jobs_okD(2,3) [OF ok, of s' i' p] by (cases "(s', i') = (s, i)") auto
  show "q = p" if "find2 (put2 s i (length ps) Q) s' i' = Some q" for q
    using x that new jobs_okD(4) [OF ok] by (cases "(s', i') = (s, i)") auto
qed

lemma jobs_ok_complete:
  assumes ok: "jobs_ok X ps Q S" and job: "(s, i, p) \<in> X" and wf: "nested_wf Q"
  shows "jobs_ok X (set_cell p v ps) (erase2 s i Q) S"
proof (rule jobs_okI)
  fix s' i' q assume x: "(s', i', q) \<in> X"
  show "i' \<in> S s'" using jobs_okD(1) [OF ok x] .
  show "q < length (set_cell p v ps)" using jobs_okD(2) [OF ok x] by simp
  show "find2 (erase2 s i Q) s' i' = Some q" if "unresolved (set_cell p v ps) q"
  proof -
    from that have q: "unresolved ps q" "q \<noteq> p" by auto
    from jobs_okD(3) [OF ok x q(1)] have f: "find2 Q s' i' = Some q" .
    have "(s', i') \<noteq> (s, i)" using jobs_okD(4) [OF ok job, of q] f q(2) by blast
    with f wf show ?thesis by simp
  qed
  show "q' = q" if "find2 (erase2 s i Q) s' i' = Some q'" for q'
    using that wf jobs_okD(4) [OF ok x, of q'] by (simp split: if_splits)
qed

lemma jobs_ok_owner:
  assumes "jobs_ok X ps Q S" and "(s, i, p) \<in> X"
  shows "find2 Q s i = Some p \<or> find2 Q s i = None \<and> \<not> unresolved ps p"
  using jobs_okD(3,4) [OF assms] by (cases "find2 Q s i") auto

section \<open>The invariant\<close>

definition promise_inv :: "router \<Rightarrow> bool" where
  "promise_inv r \<longleftrightarrow> cells_ok (promises r) (owner_promise r)
     \<and> jobs_ok (pending_jobs (handlerCalls r) (completionJobs r)) (promises r)
         (inboundPromisesBySender r) (seenRequestIdsBySender r)"

definition handled_inv :: "router \<Rightarrow> bool" where
  "handled_inv r \<longleftrightarrow> distinct (handled (events r))
     \<and> (\<forall>(s, i) \<in> set (handled (events r)). i \<in> seenRequestIdsBySender r s)"

definition router_inv :: "router \<Rightarrow> bool" where
  "router_inv r \<longleftrightarrow> outbound_inv r \<and> inbound_inv r \<and> promise_inv r \<and> handled_inv r"

lemma router_inv_parts:
  "router_inv r \<Longrightarrow> outbound_inv r" "router_inv r \<Longrightarrow> inbound_inv r"
  "router_inv r \<Longrightarrow> promise_inv r" "router_inv r \<Longrightarrow> handled_inv r"
  by (simp_all add: router_inv_def)

lemma inbound_promises_wf: "inbound_inv r \<Longrightarrow> nested_wf (inboundPromisesBySender r)"
  by (simp add: inbound_inv_def in_ok_def)

text \<open>The part of the state the promises depend on, so that other updates need no proof.\<close>

definition promise_ok ::
  "response option list \<Rightarrow> (request_id, in_flight_request) umap \<Rightarrow> (string, request_id, nat) nested \<Rightarrow>
   (string \<Rightarrow> request_id set) \<Rightarrow> job set \<Rightarrow> bool" where
  "promise_ok ps F Q S X \<longleftrightarrow> cells_ok ps (owner_map F Q) \<and> jobs_ok X ps Q S"

lemma promise_inv_eq:
  "promise_inv r = promise_ok (promises r) (inFlightRequests r) (inboundPromisesBySender r)
     (seenRequestIdsBySender r) (pending_jobs (handlerCalls r) (completionJobs r))"
  by (simp add: promise_inv_def promise_ok_def owner_promise_def)

lemma promise_ok_ready: "promise_ok ps F Q S X \<Longrightarrow> promise_ok (ps @ [Some v]) F Q S X"
  by (simp add: promise_ok_def cells_ok_ready jobs_ok_ready)

lemma promise_ok_seen: "promise_ok ps F Q S X \<Longrightarrow> promise_ok ps F Q (S(s := insert i (S s))) X"
  by (simp add: promise_ok_def jobs_ok_seen)

lemma promise_ok_subset: "promise_ok ps F Q S X \<Longrightarrow> Y \<subseteq> X \<Longrightarrow> promise_ok ps F Q S Y"
  by (auto simp: promise_ok_def intro: jobs_ok_subset)

lemma promise_ok_accept:
  assumes "promise_ok ps F Q S X" and "i \<notin> S s" and "find2 Q s i = None"
  shows "promise_ok (ps @ [None]) F (put2 s i (length ps) Q) (S(s := insert i (S s)))
    (insert (s, i, length ps) X)"
  using assms by (simp add: promise_ok_def owner_map_updates cells_ok_new jobs_ok_accept)

lemma promise_ok_fly:
  assumes "promise_ok ps F Q S X" and "map_of F i = None" and "if_promise f = length ps"
  shows "promise_ok (ps @ [None]) (umap_put i f F) Q S X"
  using assms by (simp add: promise_ok_def owner_map_updates cells_ok_new jobs_ok_new)

lemma promise_ok_pop:
  assumes "promise_ok ps F Q S X" and "map_of F i = Some f"
  shows "promise_ok (set_cell (if_promise f) v ps) (umap_erase i F) Q S X"
  using assms by (simp add: promise_ok_def owner_map_updates cells_ok_resolve jobs_ok_resolve)

lemma promise_ok_update:
  assumes "promise_ok ps F Q S X" and "map_of F i = Some f" and "if_promise g = if_promise f"
  shows "promise_ok ps (umap_put i g F) Q S X"
  using assms by (simp add: promise_ok_def owner_map_same)

lemma promise_ok_complete:
  assumes ok: "promise_ok ps F Q S X" and job: "(s, i, p) \<in> X" and wf: "nested_wf Q"
  shows "promise_ok (set_cell p v ps) F (erase2 s i Q) S X"
proof -
  from ok have parts: "cells_ok ps (owner_map F Q)" "jobs_ok X ps Q S" by (simp_all add: promise_ok_def)
  have "owner_map F Q (Incoming s i) = Some p
      \<or> owner_map F Q (Incoming s i) = None \<and> \<not> unresolved ps p"
    using jobs_ok_owner [OF parts(2) job] by simp
  with cells_ok_resolve [OF parts(1)] jobs_ok_complete [OF parts(2) job wf] wf show ?thesis
    by (simp add: promise_ok_def owner_map_updates)
qed

lemma pending_jobs_mono:
  "set hs \<subseteq> set hs' \<Longrightarrow> set js \<subseteq> set js' \<Longrightarrow> pending_jobs hs js \<subseteq> pending_jobs hs' js'"
  unfolding pending_jobs_def by blast

lemma pending_jobs_simps:
  "pending_jobs ((c, q, p) # hs) js = insert (senderKey c, rq_id q, p) (pending_jobs hs js)"
  "pending_jobs hs ((c, i, p) # js) = insert (senderKey c, i, p) (pending_jobs hs js)"
  "(c, q, p) \<in> set hs \<Longrightarrow> (senderKey c, rq_id q, p) \<in> pending_jobs hs js"
  "(c, i, p) \<in> set js \<Longrightarrow> (senderKey c, i, p) \<in> pending_jobs hs js"
  by (auto simp: pending_jobs_def intro: rev_image_eqI)

lemma pending_jobs_remove:
  "pending_jobs (remove1 x hs) js \<subseteq> pending_jobs hs js"
  "pending_jobs hs (remove1 y js) \<subseteq> pending_jobs hs js"
  by (simp_all add: pending_jobs_mono set_remove1_subset)

section \<open>Preservation\<close>

lemma promise_dispatch_begin:
  assumes inv: "router_inv r"
  shows "promise_inv (fst (dispatchRequest_begin ctx req r))"
proof -
  note ok = router_inv_parts [OF inv]
  from ok(3) have p: "promise_ok (promises r) (inFlightRequests r) (inboundPromisesBySender r)
     (seenRequestIdsBySender r) (pending_jobs (handlerCalls r) (completionJobs r))"
    by (simp add: promise_inv_eq)
  show ?thesis
  proof (cases rule: dispatchRequest_begin_cases [of req r ctx])
    case (accepted h)
    with ok(2) have "find2 (inboundPromisesBySender r) (senderKey ctx) (rq_id req) = None"
      by (auto simp: inbound_inv_def dest: in_ok_fresh)
    with accepted(1) promise_ok_accept [OF p] accepted(5) show ?thesis
      by (simp add: promise_inv_eq mark_seen_def pending_jobs_simps)
  qed (simp_all add: promise_inv_eq mark_seen_def p promise_ok_ready promise_ok_seen)
qed

lemma promise_dispatch_end:
  assumes inv: "router_inv r" and job: "(ctx, req, p) \<in> set (handlerCalls r)"
  shows "promise_inv (dispatchRequest_end ctx req p outcome r)"
proof -
  note ok = router_inv_parts [OF inv]
  let ?H = "remove1 (ctx, req, p) (handlerCalls r)"
  let ?X = "pending_jobs (handlerCalls r) (completionJobs r)"
  from ok(3) have pr: "promise_ok (promises r) (inFlightRequests r) (inboundPromisesBySender r)
     (seenRequestIdsBySender r) ?X"
    by (simp add: promise_inv_eq)
  have x: "(senderKey ctx, rq_id req, p) \<in> ?X" by (rule pending_jobs_simps(3) [OF job])
  have finished: "promise_ok (set_cell p v (promises r)) (inFlightRequests r)
      (erase2 (senderKey ctx) (rq_id req) (inboundPromisesBySender r)) (seenRequestIdsBySender r)
      (pending_jobs ?H (completionJobs r))" for v
    using promise_ok_complete [OF pr x inbound_promises_wf [OF ok(2)]] pending_jobs_remove(1)
    by (rule promise_ok_subset)
  have "pending_jobs ?H ((ctx, rq_id req, p) # completionJobs r) \<subseteq> ?X"
    using x pending_jobs_remove(1) [of "(ctx, req, p)"] by (simp add: pending_jobs_simps)
  with pr have posted: "promise_ok (promises r) (inFlightRequests r) (inboundPromisesBySender r)
     (seenRequestIdsBySender r) (pending_jobs ?H ((ctx, rq_id req, p) # completionJobs r))"
    by (rule promise_ok_subset)
  show ?thesis
    by (cases outcome)
      (simp_all add: dispatchRequest_end_def Let_def promise_inv_eq router_defs
        setPromiseValueNoThrow_def finished posted)
qed

lemma promise_run_job:
  assumes inv: "router_inv r" and job: "(ctx, i, p) \<in> set (completionJobs r)"
  shows "promise_inv (runCompletionJob ctx i p result r)"
proof -
  note ok = router_inv_parts [OF inv]
  from ok(3) have pr: "promise_ok (promises r) (inFlightRequests r) (inboundPromisesBySender r)
     (seenRequestIdsBySender r) (pending_jobs (handlerCalls r) (completionJobs r))"
    by (simp add: promise_inv_eq)
  have finished: "promise_ok (set_cell p v (promises r)) (inFlightRequests r)
      (erase2 (senderKey ctx) i (inboundPromisesBySender r)) (seenRequestIdsBySender r)
      (pending_jobs (handlerCalls r) (remove1 (ctx, i, p) (completionJobs r)))" for v
    using promise_ok_complete [OF pr pending_jobs_simps(4) [OF job] inbound_promises_wf [OF ok(2)]]
      pending_jobs_remove(2)
    by (rule promise_ok_subset)
  show ?thesis
    by (cases result)
      (simp_all add: runCompletionJob_def Let_def promise_inv_eq router_defs
        setPromiseValueNoThrow_def finished)
qed

lemma promise_send_begin:
  assumes inv: "router_inv r"
  shows "promise_inv (fst (sendRequest_begin ctx req opts r))"
proof -
  note ok = router_inv_parts [OF inv]
  from ok(3) have pr: "promise_ok (promises r) (inFlightRequests r) (inboundPromisesBySender r)
     (seenRequestIdsBySender r) (pending_jobs (handlerCalls r) (completionJobs r))"
    by (simp add: promise_inv_eq)
  show ?thesis
  proof (cases rule: sendRequest_begin_cases [of ctx req opts r])
    case (refused v)
    then show ?thesis by (simp add: promise_inv_eq promise_ok_ready pr)
  next
    case (flying f)
    from ok(1) flying(2) have "map_of (inFlightRequests r) (rq_id req) = None"
      by (cases "map_of (inFlightRequests r) (rq_id req)") (auto simp: outbound_inv_def out_ok_def)
    with promise_ok_fly [OF pr] flying(6,10) show ?thesis by (simp add: promise_inv_eq)
  qed
qed

lemma promise_send_end: "promise_inv r \<Longrightarrow> promise_inv (sendRequest_end f r)"
  by (cases rule: sendRequest_end_cases [of f r])
    (simp_all add: promise_inv_eq promise_ok_pop)

lemma promise_timeout: "promise_inv r \<Longrightarrow> promise_inv (handleRequestTimeout i r)"
  by (auto simp: handleRequestTimeout_def timeout_pop_def popInFlightRequest_eq promise_inv_eq
      promise_ok_pop timeout_finish_promises split: option.split)

lemma promise_response: "promise_inv r \<Longrightarrow> promise_inv (fst (dispatchResponse resp r))"
  by (auto simp: dispatchResponse_def popInFlightRequest_eq promise_inv_eq promise_ok_pop
      setPromiseValueNoThrow_def router_defs Let_def split: option.split)

lemma promise_observe: "promise_inv r \<Longrightarrow> promise_inv (fst (observeProgress pu r))"
  by (auto simp: observeProgress_def promise_inv_eq intro: promise_ok_update split: option.split)

lemma promise_frames [simp]:
  "promise_inv (cancelInboundRequest ctx i r) = promise_inv r"
  "promise_inv (log_event e r) = promise_inv r"
  "promise_inv (fst (dispatchOutboundMessage ctx m r)) = promise_inv r"
  "promise_inv (r\<lparr>inboundRequestsBySender := q\<rparr>) = promise_inv r"
  by (auto simp: promise_inv_eq cancelInboundRequest_def log_event_def router_defs Let_def
      split: option.split)

lemma promise_notification:
  assumes "promise_inv r"
  shows "promise_inv (dispatchNotification ctx n r)"
proof -
  have "promise_inv (fst (case parseProgressNotification n of None \<Rightarrow> (r, None)
      | Some pu \<Rightarrow> observeProgress pu r))"
    using assms promise_observe by (auto split: option.split)
  then show ?thesis
    by (auto simp: dispatchNotification_def Let_def split: prod.split option.split)
qed

lemma promise_emit: "promise_inv r \<Longrightarrow> promise_inv (fst (emitProgress ctx token progress tot msg r))"
  by (simp add: emitProgress_def Let_def split: option.split)

text \<open>The promises the destructor visits are those of the owners.\<close>

lemma inbound_entries_find2: "find2 Q s i = Some p \<Longrightarrow> p \<in> snd ` set (inbound_entries Q)"
proof -
  assume "find2 Q s i = Some p"
  then obtain m where "map_of Q s = Some m" "map_of m i = Some p"
    by (auto simp: find2_def inner_def split: option.splits)
  then have "(s, m) \<in> set Q" "(i, p) \<in> set m" by (simp_all add: map_of_SomeD)
  then have "(i, p) \<in> set (inbound_entries Q)"
    by (auto simp: inbound_entries_def intro!: bexI [of _ "(s, m)"])
  then show ?thesis by (rule rev_image_eqI) simp
qed

lemma destroyRouter_promises:
  "promises (destroyRouter r) =
     foldl (\<lambda>cs (i, p). set_cell p (makeInternalErrorResponse i
         ''Router shutdown before request handler completed.'') cs)
       (foldl (\<lambda>cs (i, p). set_cell p (makeInternalErrorResponse i
         ''Router shutdown before response was received.'') cs) (promises r)
         (map (\<lambda>(_, f). (rq_id (if_request f), if_promise f)) (inFlightRequests r)))
       (inbound_entries (inboundPromisesBySender r))"
  by (simp add: destroyRouter_def router_defs Let_def)

lemma destroy_resolves:
  assumes "promise_inv r"
  shows "\<not> unresolved (promises (destroyRouter r)) p"
proof
  assume "unresolved (promises (destroyRouter r)) p"
  then have p: "p < length (promises r)" and none: "promises (destroyRouter r) ! p = None"
    by (simp_all add: unresolved_def destroyRouter_promises)
  from foldl_set_cell_None [OF none [unfolded destroyRouter_promises]] p
  have notin: "p \<notin> snd ` set (inbound_entries (inboundPromisesBySender r))"
    and first: "foldl (\<lambda>cs (i, p). set_cell p (makeInternalErrorResponse i
         ''Router shutdown before response was received.'') cs) (promises r)
         (map (\<lambda>(_, f). (rq_id (if_request f), if_promise f)) (inFlightRequests r)) ! p = None"
    by simp_all
  from foldl_set_cell_None [OF first p]
  have "unresolved (promises r) p"
    and notout: "p \<notin> snd ` set (map (\<lambda>(_, f). (rq_id (if_request f), if_promise f)) (inFlightRequests r))"
    using p by (simp_all add: unresolved_def)
  with assms obtain x where x: "owner_promise r x = Some p"
    unfolding promise_inv_def by (blast dest: cells_okD(3))
  show False
  proof (cases x)
    case (Outgoing i)
    with x obtain f where f: "(i, f) \<in> set (inFlightRequests r)" "if_promise f = p"
      by (auto simp: owner_promise_def dest: map_of_SomeD)
    with notout show False by (force simp: image_iff)
  next
    case (Incoming s i)
    with x notin show False by (auto simp: owner_promise_def dest: inbound_entries_find2)
  qed
qed

lemma promise_destroy:
  assumes "promise_inv r"
  shows "promise_inv (destroyRouter r)"
proof -
  have len: "length (promises (destroyRouter r)) = length (promises r)"
    by (simp add: destroyRouter_promises)
  have frame: "inFlightRequests (destroyRouter r) = []" "inboundPromisesBySender (destroyRouter r) = []"
    "seenRequestIdsBySender (destroyRouter r) = seenRequestIdsBySender r"
    "handlerCalls (destroyRouter r) = handlerCalls r" "completionJobs (destroyRouter r) = completionJobs r"
    by (simp_all add: destroyRouter_def router_defs Let_def)
  have "cells_ok (promises (destroyRouter r)) (owner_map [] [])"
    using destroy_resolves [OF assms] by (simp add: cells_ok_def owner_map_updates)
  moreover have "jobs_ok (pending_jobs (handlerCalls r) (completionJobs r)) (promises (destroyRouter r)) []
      (seenRequestIdsBySender r)"
  proof (rule jobs_okI)
    fix s i p assume x: "(s, i, p) \<in> pending_jobs (handlerCalls r) (completionJobs r)"
    have jobs: "jobs_ok (pending_jobs (handlerCalls r) (completionJobs r)) (promises r)
        (inboundPromisesBySender r) (seenRequestIdsBySender r)"
      using assms by (simp add: promise_inv_def)
    from jobs_okD(1,2) [OF jobs x] show "i \<in> seenRequestIdsBySender r s"
      "p < length (promises (destroyRouter r))" by (simp_all add: len)
  qed (use destroy_resolves [OF assms] in \<open>simp_all add: find2_def inner_def\<close>)
  ultimately show ?thesis by (simp add: promise_inv_eq promise_ok_def frame)
qed

lemma promise_step: "router_step r r' \<Longrightarrow> router_inv r \<Longrightarrow> promise_inv r'"
proof (induction rule: router_step.induct)
  case (unregister r m)
  then show ?case by (simp add: router_inv_def promise_inv_eq unregisterHandler_def)
qed (simp_all add: promise_dispatch_begin promise_dispatch_end promise_run_job promise_send_begin
    promise_send_end promise_timeout promise_response promise_notification promise_emit
    promise_destroy sendNotification_def router_inv_parts,
    simp_all add: router_inv_def promise_inv_eq setOutboundMessageSender_def
    registerRequestHandler_def registerNotificationHandler_def)

text \<open>A handler call is recorded only for a request that was new to its sender.\<close>

lemma handled_frame:
  "handled (events r') = handled (events r) \<Longrightarrow> seenRequestIdsBySender r' = seenRequestIdsBySender r \<Longrightarrow>
   handled_inv r \<Longrightarrow> handled_inv r'"
  by (simp add: handled_inv_def)

lemma handled_seen:
  "handled_inv r \<Longrightarrow> seenRequestIdsBySender r' = mark_seen ctx req r \<Longrightarrow>
   handled (events r') = handled (events r) \<Longrightarrow> handled_inv r'"
  by (auto simp: handled_inv_def mark_seen_def)

lemma handled_dispatch_begin:
  assumes "handled_inv r"
  shows "handled_inv (fst (dispatchRequest_begin ctx req r))"
proof (cases rule: dispatchRequest_begin_cases [of req r ctx])
  case (accepted h)
  with assms show ?thesis by (auto simp: handled_inv_def mark_seen_def)
next
  case (duplicate v)
  with assms show ?thesis by (simp add: handled_inv_def)
qed (use assms in \<open>simp_all add: handled_seen\<close>)

lemma seen_frames [simp]:
  "seenRequestIdsBySender (fst (dispatchOutboundMessage ctx m r)) = seenRequestIdsBySender r"
  "seenRequestIdsBySender (completeInboundRequest ctx i r) = seenRequestIdsBySender r"
  "seenRequestIdsBySender (setPromiseValueNoThrow p v r) = seenRequestIdsBySender r"
  "seenRequestIdsBySender (cancelInboundRequest ctx i r) = seenRequestIdsBySender r"
  "seenRequestIdsBySender (fst (observeProgress pu r)) = seenRequestIdsBySender r"
  "seenRequestIdsBySender (log_event e r) = seenRequestIdsBySender r"
  by (auto simp: router_defs setPromiseValueNoThrow_def cancelInboundRequest_def
      observeProgress_def log_event_def Let_def split: option.split)

lemma handled_frames [simp]:
  "events (completeInboundRequest ctx i r) = events r"
  "events (setPromiseValueNoThrow p v r) = events r"
  "events (cancelInboundRequest ctx i r) = events r"
  "events (fst (observeProgress pu r)) = events r"
  "events (log_event e r) = events r @ [e]"
  by (auto simp: router_defs setPromiseValueNoThrow_def cancelInboundRequest_def
      observeProgress_def log_event_def Let_def split: option.split)

lemma handled_run:
  "handled_inv (dispatchRequest_end ctx req p outcome r) = handled_inv r"
  "handled_inv (runCompletionJob ctx i p result r) = handled_inv r"
  by (simp_all add: handled_inv_def dispatchRequest_end_def runCompletionJob_def Let_def
      split: handler_outcome.split option.split)

lemma handled_outbound:
  "handled_inv (fst (sendRequest_begin ctx req opts r)) = handled_inv r"
  "handled_inv (sendRequest_end f r) = handled_inv r"
  "handled_inv (handleRequestTimeout i r) = handled_inv r"
  "handled_inv (fst (dispatchResponse resp r)) = handled_inv r"
proof -
  show "handled_inv (fst (sendRequest_begin ctx req opts r)) = handled_inv r"
    by (cases rule: sendRequest_begin_cases [of ctx req opts r]) (simp_all add: handled_inv_def)
  show "handled_inv (sendRequest_end f r) = handled_inv r"
    by (cases rule: sendRequest_end_cases [of f r]) (simp_all add: handled_inv_def)
  show "handled_inv (handleRequestTimeout i r) = handled_inv r"
    by (simp add: handleRequestTimeout_def timeout_pop_def popInFlightRequest_eq handled_inv_def
        split: option.split)
  show "handled_inv (fst (dispatchResponse resp r)) = handled_inv r"
    by (simp add: dispatchResponse_def popInFlightRequest_eq handled_inv_def Let_def
        split: option.split)
qed

lemma handled_notification: "handled_inv (dispatchNotification ctx n r) = handled_inv r"
proof -
  have "handled_inv (fst (case parseProgressNotification n of None \<Rightarrow> (r, None)
      | Some pu \<Rightarrow> observeProgress pu r)) = handled_inv r"
    by (simp add: handled_inv_def split: option.split)
  then show ?thesis
    by (auto simp: dispatchNotification_def Let_def handled_inv_def split: prod.split option.split)
qed

lemma handled_step: "router_step r r' \<Longrightarrow> handled_inv r \<Longrightarrow> handled_inv r'"
proof (induction rule: router_step.induct)
  case (emit r ctx token progress tot msg)
  then show ?case by (simp add: emitProgress_def handled_inv_def Let_def split: option.split)
qed (simp_all add: handled_dispatch_begin handled_run handled_outbound handled_notification,
    simp_all add: handled_inv_def setOutboundMessageSender_def registerRequestHandler_def
    registerNotificationHandler_def unregisterHandler_def sendNotification_def destroyRouter_def
    failPromises_eq Let_def)

section \<open>Reachable states\<close>

lemma router_inv_start: "router_start r \<Longrightarrow> router_inv r"
  by (auto simp: router_start_def new_router_def router_inv_def outbound_inv_def out_ok_def
      inbound_inv_def in_ok_def promise_inv_eq promise_ok_def cells_ok_def unresolved_def
      owner_map_updates jobs_ok_def pending_jobs_def handled_inv_def total_entries_def
      find2_def inner_def nested_wf_def)

lemma router_inv_step: "router_inv r \<Longrightarrow> router_step r r' \<Longrightarrow> router_inv r'"
  using outbound_step inbound_step promise_step handled_step
  by (simp add: router_inv_def)

interpretation router: invariant_system router_start router_step router_inv
  by unfold_locales (auto intro: router_inv_start router_inv_step)

definition reachable_router :: "router \<Rightarrow> bool" where
  "reachable_router r \<longleftrightarrow> (\<exists>r0. router_start r0 \<and> router_step\<^sup>*\<^sup>* r0 r)"

lemma reachable_inv: "reachable_router r \<Longrightarrow> router_inv r"
  using router.inv_reachable by (auto simp: reachable_router_def)

end
