(* ===== verification/RouterSpec.thy ===== *)
theory RouterSpec
  imports RouterPromises
begin

text \<open>
  What the router promises to its users, for every state its operations can reach: futures are
  never lost, the limits hold, a request is handled once, a timed-out or cancelled request stays
  so, and progress only grows.
\<close>

section \<open>Operations that settle nothing\<close>

lemma notification_promises [simp]: "promises (dispatchNotification ctx n r) = promises r"
proof -
  have "promises (fst (case parseProgressNotification n of None \<Rightarrow> (r, None)
      | Some pu \<Rightarrow> observeProgress pu r)) = promises r"
    by (simp split: option.split)
  then show ?thesis
    by (auto simp: dispatchNotification_def Let_def log_event_def split: prod.split option.split)
qed

lemma emit_promises [simp]: "promises (fst (emitProgress ctx token progress tot msg r)) = promises r"
  by (simp add: emitProgress_def Let_def router_defs split: option.split)

section \<open>A concrete router for the witnesses\<close>

definition ctx0 :: request_context where
  "ctx0 = \<lparr>rc_protocol_version = ''2025-11-25'', rc_session_id = None, rc_auth_context = None\<rparr>"

definition ping :: request where
  "ping = new_request (IntId 1) ''ping'' None"

definition opts0 :: outbound_options where
  "opts0 = \<lparr>oo_timeout = 0, oo_cancel_on_timeout = True, oo_on_progress = None\<rparr>"

definition one_in_flight :: router where
  "one_in_flight = fst (sendRequest_begin ctx0 ping opts0 (new_router 4))"

definition ping_flight :: in_flight_request where
  "ping_flight = \<lparr>if_context = ctx0, if_request = ping, if_cancel_on_timeout = True,
     if_progress_callback = None, if_progress_token = None, if_task_augmented = False,
     if_task_id = None, if_last_observed = None, if_promise = 0, if_timer = False\<rparr>"

lemmas ping_defs = ping_def ctx0_def opts0_def new_request_def extractProgressToken_def
  isTaskAugmentedRequest_def

lemma one_in_flight_eq:
  "one_in_flight = (new_router 4)\<lparr>promises := [None], seenOutboundRequestIds := {IntId 1},
     inFlightRequests := [(IntId 1, ping_flight)], sendCalls := [ping_flight]\<rparr>"
  by (simp add: one_in_flight_def sendRequest_begin_def new_promise_def addInFlightRequest_def
      armRequestTimeout_def new_router_def ping_flight_def ping_defs Let_def)

lemma reachable_start: "reachable_router (new_router n)"
  by (auto simp: reachable_router_def router_start_def)

lemma reachable_step: "reachable_router r \<Longrightarrow> router_step r r' \<Longrightarrow> reachable_router r'"
  by (auto simp: reachable_router_def intro: rtranclp.rtrancl_into_rtrancl)

lemma reachable_one_in_flight: "reachable_router one_in_flight"
  unfolding one_in_flight_def by (rule reachable_step [OF reachable_start router_step.send_begin])

text \<open>A router with a handler for \<open>ping\<close> that runs, and then one whose completion job waits.\<close>

definition serving :: router where
  "serving = fst (dispatchRequest_begin ctx0 ping (registerRequestHandler ''ping'' 7 (new_router 4)))"

lemma reachable_serving: "reachable_router serving"
  unfolding serving_def
  by (rule reachable_step [OF reachable_step [OF reachable_start router_step.register_request]
        router_step.dispatch_begin])

lemma serving_eq:
  "serving = (new_router 4)\<lparr>requestHandlers := [(''ping'', 7)],
     seenRequestIdsBySender := (\<lambda>s. if s = kDefaultSender then {IntId 1} else {}),
     promises := [None],
     inboundRequestsBySender := [(kDefaultSender, [(IntId 1, new_inbound ping)])],
     inboundPromisesBySender := [(kDefaultSender, [(IntId 1, 0)])],
     handlerCalls := [(ctx0, ping, 0)], events := [HandlerCalled 7 ctx0 ping]\<rparr>"
  by (auto simp: serving_def dispatchRequest_begin_def registerRequestHandler_def new_promise_def
      markInboundRequestActive_def log_event_def senderKey_def new_router_def new_inbound_def
      total_entries_def put2_def inner_def ping_defs Let_def fun_eq_iff)

section \<open>Properties\<close>

text \<open>
  C1. No future is lost: in every reachable state a promise without a value belongs to exactly
  one request, outbound or inbound, that the tables still hold; and a request of the tables
  never owns a promise that already has a value.
\<close>

theorem no_lost_future:
  assumes "reachable_router r"
  shows "(\<forall>p < length (promises r). promises r ! p = None \<longrightarrow> (\<exists>!x. owner_promise r x = Some p))
    \<and> (\<forall>x p. owner_promise r x = Some p \<longrightarrow> p < length (promises r) \<and> promises r ! p = None)"
proof -
  have ok: "cells_ok (promises r) (owner_promise r)"
    using router_inv_parts(3) [OF reachable_inv [OF assms]] by (simp add: promise_inv_def)
  show ?thesis
    using cells_okD [OF ok] unfolding unresolved_def by blast
qed

theorem no_lost_future_witness:
  "(\<exists>!x. owner_promise one_in_flight x = Some 0)
   \<and> promises one_in_flight ! 0 = None \<and> owner_promise one_in_flight (Outgoing (IntId 1)) = Some 0"
proof -
  have "0 < length (promises one_in_flight)" "promises one_in_flight ! 0 = None"
    "owner_promise one_in_flight (Outgoing (IntId 1)) = Some 0"
    by (simp_all add: one_in_flight_eq new_router_def owner_promise_def ping_flight_def)
  with no_lost_future [OF reachable_one_in_flight] show ?thesis by blast
qed

text \<open>
  C2. Shutdown settles every future: after the destructor no promise of a reachable router is
  left without a value, and the tables that could still deliver one are empty.
\<close>

theorem shutdown_resolves_every_future:
  assumes "reachable_router r"
  shows "(\<forall>p < length (promises (destroyRouter r)). promises (destroyRouter r) ! p \<noteq> None)
    \<and> length (promises (destroyRouter r)) = length (promises r)
    \<and> (\<forall>x. owner_promise (destroyRouter r) x = None)"
proof -
  have inv: "promise_inv r" using router_inv_parts(3) [OF reachable_inv [OF assms]] .
  have "owner_promise (destroyRouter r) = (\<lambda>_. None)"
    by (simp add: owner_promise_def destroyRouter_def router_defs owner_map_updates Let_def)
  with destroy_resolves [OF inv] show ?thesis
    by (auto simp: unresolved_def destroyRouter_promises)
qed

theorem shutdown_resolves_every_future_witness:
  "promises (destroyRouter one_in_flight) ! 0 \<noteq> None \<and> promises one_in_flight ! 0 = None"
  using shutdown_resolves_every_future [OF reachable_one_in_flight]
  by (simp add: one_in_flight_eq new_router_def)

text \<open>
  C3. A handler runs at most once for each request id of a sender; a second request with an id
  already handled is answered with an Invalid Request error and changes nothing else.
\<close>

theorem handler_at_most_once:
  assumes "reachable_router r"
  shows "distinct (handled (events r))
    \<and> ((senderKey ctx, rq_id req) \<in> set (handled (events r)) \<longrightarrow>
       dispatchRequest_begin ctx req r =
         (r\<lparr>promises := promises r @ [Some (error_reply (makeInvalidRequestError None
             ''Duplicate request id for sender within session.'') (rq_id req))]\<rparr>,
          length (promises r), None))"
proof -
  have inv: "handled_inv r" using router_inv_parts(4) [OF reachable_inv [OF assms]] .
  show ?thesis
  proof (intro conjI impI)
    assume "(senderKey ctx, rq_id req) \<in> set (handled (events r))"
    with inv have "rq_id req \<in> seenRequestIdsBySender r (senderKey ctx)"
      by (auto simp: handled_inv_def)
    then show "dispatchRequest_begin ctx req r = (r\<lparr>promises := promises r @
        [Some (error_reply (makeInvalidRequestError None
          ''Duplicate request id for sender within session.'') (rq_id req))]\<rparr>, length (promises r), None)"
      by (cases rule: dispatchRequest_begin_cases [of req r ctx])
        (simp_all add: invalid_request_reply_def)
  qed (use inv in \<open>simp add: handled_inv_def\<close>)
qed

theorem handler_at_most_once_witness:
  "fst (snd (dispatchRequest_begin ctx0 ping serving)) = 1
   \<and> handled (events (fst (dispatchRequest_begin ctx0 ping serving))) = [(kDefaultSender, IntId 1)]"
  using handler_at_most_once [OF reachable_serving, of ctx0 ping]
  by (simp add: serving_eq new_router_def senderKey_def ping_defs)

lemma limit_step: "router_step r r' \<Longrightarrow> maxConcurrentInFlightRequests r' = maxConcurrentInFlightRequests r"
proof (induction rule: router_step.induct)
  case (dispatch_begin r ctx req)
  then show ?case by (cases rule: dispatchRequest_begin_cases [of req r ctx]) simp_all
next
  case (send_begin r ctx req opts)
  then show ?case by (cases rule: sendRequest_begin_cases [of ctx req opts r]) simp_all
next
  case (send_end f r)
  then show ?case by (cases rule: sendRequest_end_cases [of f r]) simp_all
next
  case (notification r ctx n)
  have "maxConcurrentInFlightRequests (fst (case parseProgressNotification n of None \<Rightarrow> (r, None)
      | Some pu \<Rightarrow> observeProgress pu r)) = maxConcurrentInFlightRequests r"
    by (simp add: observeProgress_def split: option.split)
  then show ?case
    by (auto simp: dispatchNotification_def cancelInboundRequest_def log_event_def Let_def
        split: prod.split option.split)
qed (simp_all add: setOutboundMessageSender_def registerRequestHandler_def registerNotificationHandler_def
    unregisterHandler_def dispatchRequest_end_def runCompletionJob_def sendNotification_def
    handleRequestTimeout_def timeout_pop_def popInFlightRequest_eq dispatchResponse_def emitProgress_def
    destroyRouter_def setPromiseValueNoThrow_def router_defs Let_def split: handler_outcome.split option.split)

lemma limit_steps:
  "router_step\<^sup>*\<^sup>* r r' \<Longrightarrow> maxConcurrentInFlightRequests r' = maxConcurrentInFlightRequests r"
  by (induction rule: rtranclp_induct) (auto simp: limit_step)

text \<open>
  C4. The configured limit bounds both directions: at no time are there more inbound requests
  (over all senders) or more outbound requests in flight than
  \<open>maxConcurrentInFlightRequests\<close>, and the limit is never changed.
\<close>

theorem in_flight_limits:
  assumes "router_step\<^sup>*\<^sup>* (new_router n) r"
  shows "length (inFlightRequests r) \<le> n \<and> total_entries (inboundRequestsBySender r) \<le> n"
proof -
  have "router_inv r"
    using router.inv_reachable assms by (auto simp: router_start_def)
  moreover have "maxConcurrentInFlightRequests r = n"
    using limit_steps [OF assms] by (simp add: new_router_def)
  ultimately show ?thesis
    by (auto simp: router_inv_def outbound_inv_def inbound_inv_def out_ok_def in_ok_def)
qed

theorem in_flight_limits_witness:
  "length (inFlightRequests one_in_flight) \<le> 4 \<and> length (inFlightRequests one_in_flight) = 1"
proof -
  have "router_step\<^sup>*\<^sup>* (new_router 4) one_in_flight"
    unfolding one_in_flight_def by (intro r_into_rtranclp router_step.send_begin)
  from in_flight_limits [OF this] show ?thesis by (simp add: one_in_flight_eq)
qed

text \<open>
  The progress-token indexes are exact: a token leads to an outbound (or, for a sender, an
  inbound) request if and only if this request is active and carries that token, so a token
  never names two active requests.
\<close>

theorem progress_token_index:
  assumes "reachable_router r"
  shows "(map_of (requestIdsByProgressToken r) t = Some i \<longleftrightarrow>
        (\<exists>f. map_of (inFlightRequests r) i = Some f \<and> if_progress_token f = Some t))
    \<and> (find2 (inboundTokensBySender r) s t = Some i \<longleftrightarrow>
        (\<exists>st. find2 (inboundRequestsBySender r) s i = Some st \<and> ib_progress_token st = Some t))
    \<and> (find2 (inboundRequestsBySender r) s i \<noteq> None \<longleftrightarrow> find2 (inboundPromisesBySender r) s i \<noteq> None)"
  using reachable_inv [OF assms]
  by (simp add: router_inv_def outbound_inv_def inbound_inv_def out_ok_def in_ok_def)

theorem progress_token_index_witness:
  "(find2 (inboundRequestsBySender serving) kDefaultSender (IntId 1) \<noteq> None) =
   (find2 (inboundPromisesBySender serving) kDefaultSender (IntId 1) \<noteq> None)
   \<and> find2 (inboundPromisesBySender serving) kDefaultSender (IntId 1) = Some 0"
  using progress_token_index [OF reachable_serving, of _ "IntId 1" kDefaultSender]
  by (simp add: serving_eq new_router_def find2_def inner_def)

end
