(* ===== verification/RouterReplies.thy ===== *)
theory RouterReplies
  imports RouterSpec
begin

text \<open>
  The router's exchanges: what a response, a timeout, a late response, a cancellation, a progress
  notification and the end of a handler do to a request that is under way, and the answer every
  inbound request gets.
\<close>

section \<open>Responses and timeouts\<close>

lemma in_flight_unresolved:
  assumes "reachable_router r" and "map_of (inFlightRequests r) i = Some f"
  shows "if_promise f < length (promises r) \<and> promises r ! if_promise f = None"
proof -
  have "owner_promise r (Outgoing i) = Some (if_promise f)"
    using assms(2) by (simp add: owner_promise_def)
  with router_inv_parts(3) [OF reachable_inv [OF assms(1)]] show ?thesis
    by (auto simp: promise_inv_def unresolved_def dest: cells_okD(1))
qed

lemma in_flight_facts:
  assumes "reachable_router r" and "map_of (inFlightRequests r) i = Some f"
  shows "rq_id (if_request f) = i" "if_task_id f = None" "i \<notin> ignoredResponseIds r" "map_of (pendingTaskCancellation r) i = None"
  using router_inv_parts(1) [OF reachable_inv [OF assms(1)]] assms(2)
  by (auto simp: outbound_inv_def out_ok_def)

lemma dispatchResponse_unknown:
  assumes "responseId resp = Some i" and "map_of (inFlightRequests r) i = None"
  shows "snd (dispatchResponse resp r) = False \<and> promises (fst (dispatchResponse resp r)) = promises r"
  using assms
  by (simp add: dispatchResponse_def popInFlightRequest_eq router_defs Let_def split: option.split)

text \<open>
  A response settles exactly the request it answers: its promise receives this response, no
  other promise changes, the request leaves the table, and a second response with the same id is
  refused without effect on any promise.
\<close>

theorem response_settles_its_request:
  assumes "reachable_router r" and "map_of (inFlightRequests r) i = Some f"
    and "responseId resp = Some i" and "responseId again = Some i"
  defines "r' \<equiv> fst (dispatchResponse resp r)"
  shows "snd (dispatchResponse resp r) \<and> promises r' = (promises r)[if_promise f := Some resp]
    \<and> map_of (inFlightRequests r') i = None
    \<and> \<not> snd (dispatchResponse again r') \<and> promises (fst (dispatchResponse again r')) = promises r'"
proof -
  have r': "dispatchResponse resp r = (r', True)" "map_of (inFlightRequests r') i = None"
    "promises r' = (promises r)[if_promise f := Some resp]"
    using assms(2,3) in_flight_unresolved [OF assms(1,2)]
    by (simp_all add: r'_def dispatchResponse_def popInFlightRequest_eq setPromiseValueNoThrow_def
        set_cell_def umap_simps)
  with dispatchResponse_unknown [OF assms(4) r'(2)] show ?thesis by simp
qed

theorem response_settles_its_request_witness:
  "promises (fst (dispatchResponse (new_success (IntId 1) JNull) one_in_flight)) =
     [Some (new_success (IntId 1) JNull)]"
proof -
  have "map_of (inFlightRequests one_in_flight) (IntId 1) = Some ping_flight"
    by (simp add: one_in_flight_eq)
  from response_settles_its_request [OF reachable_one_in_flight this,
      of "new_success (IntId 1) JNull" "new_success (IntId 1) JNull"]
  show ?thesis by (simp add: new_success_def one_in_flight_eq ping_flight_def)
qed

lemma handleRequestTimeout_in_flight:
  "map_of (inFlightRequests r) i = Some f \<Longrightarrow>
   handleRequestTimeout i r = timeout_finish i f (r\<lparr>inFlightRequests := umap_erase i (inFlightRequests r),
     ignoredResponseIds := insert i (ignoredResponseIds r),
     requestIdsByProgressToken := erase_token (if_progress_token f) (requestIdsByProgressToken r)\<rparr>)"
  by (simp add: handleRequestTimeout_def timeout_pop_def popInFlightRequest_eq)

text \<open>
  A request that times out is settled with the error ``Request timed out.'' and stays
  settled: it is no longer in flight, and a response that arrives late is refused and changes no
  promise.
\<close>

theorem timeout_is_final:
  assumes "reachable_router r" and "map_of (inFlightRequests r) i = Some f"
    and "responseId late = Some i"
  defines "r' \<equiv> handleRequestTimeout i r"
  shows "promises r' = (promises r)[if_promise f :=
      Some (error_reply (makeInternalError None ''Request timed out.'') i)]
    \<and> map_of (inFlightRequests r') i = None
    \<and> \<not> snd (dispatchResponse late r') \<and> promises (fst (dispatchResponse late r')) = promises r'"
proof -
  have r': "map_of (inFlightRequests r') i = None"
    "promises r' = (promises r)[if_promise f := Some (makeInternalErrorResponse i ''Request timed out.'')]"
    using in_flight_unresolved [OF assms(1,2)]
    by (simp_all add: r'_def handleRequestTimeout_in_flight [OF assms(2)] umap_simps set_cell_def)
  with dispatchResponse_unknown [OF assms(3) r'(1)] show ?thesis
    by (simp add: makeInternalErrorResponse_def)
qed

theorem timeout_is_final_witness:
  "\<not> snd (dispatchResponse (new_success (IntId 1) JNull) (handleRequestTimeout (IntId 1) one_in_flight))"
proof -
  have "map_of (inFlightRequests one_in_flight) (IntId 1) = Some ping_flight"
    by (simp add: one_in_flight_eq)
  from timeout_is_final [OF reachable_one_in_flight this, of "new_success (IntId 1) JNull"]
  show ?thesis by (simp add: new_success_def)
qed

text \<open>
  A timeout tells the peer exactly once, and in the right way. With cancel-on-timeout, a
  request other than \<open>initialize\<close> is followed by one cancellation notification for its id; a
  task-augmented one sends nothing yet, and its late response makes the router send one
  \<open>tasks/cancel\<close> for the task it names. Without cancel-on-timeout, or for \<open>initialize\<close>,
  nothing is sent.
\<close>

theorem timeout_cancellation:
  assumes "reachable_router r" and f: "map_of (inFlightRequests r) i = Some f"
    and sender: "outboundMessageSender r = Some (\<lambda>_ _. True)" and late: "responseId late = Some i"
  defines "r' \<equiv> handleRequestTimeout i r"
  shows "events r' = events r @
      (if if_cancel_on_timeout f \<and> rq_method (if_request f) \<noteq> ''initialize'' \<and> \<not> if_task_augmented f
       then [Sent (if_context f) (MNotification (makeCancelledNotification i (Some ''Request timed out.'')))]
       else [])
    \<and> events (fst (dispatchResponse late r')) = events r' @
      (if if_cancel_on_timeout f \<and> rq_method (if_request f) \<noteq> ''initialize'' \<and> if_task_augmented f
       then (case extractCreateTaskResultTaskId late of
               Some t \<Rightarrow> [Sent (if_context f) (MRequest (makeTasksCancelRequest (cancel_request_id i) t))]
             | None \<Rightarrow> [])
       else [])"
proof -
  note none = in_flight_facts(2,4) [OF assms(1) f]
  show ?thesis
  proof (intro conjI)
    show "events r' = events r @
      (if if_cancel_on_timeout f \<and> rq_method (if_request f) \<noteq> ''initialize'' \<and> \<not> if_task_augmented f
       then [Sent (if_context f) (MNotification (makeCancelledNotification i (Some ''Request timed out.'')))]
       else [])"
      using sender none
      by (simp add: r'_def handleRequestTimeout_in_flight [OF f] timeout_finish_def
          setPromiseValueNoThrow_def dispatchOutboundMessage_def log_event_def Let_def)
    show "events (fst (dispatchResponse late r')) = events r' @
      (if if_cancel_on_timeout f \<and> rq_method (if_request f) \<noteq> ''initialize'' \<and> if_task_augmented f
       then (case extractCreateTaskResultTaskId late of
               Some t \<Rightarrow> [Sent (if_context f) (MRequest (makeTasksCancelRequest (cancel_request_id i) t))]
             | None \<Rightarrow> [])
       else [])"
      using sender late none
      by (simp add: r'_def handleRequestTimeout_in_flight [OF f] timeout_finish_def dispatchResponse_def
          popInFlightRequest_eq setPromiseValueNoThrow_def dispatchOutboundMessage_def log_event_def
          umap_simps Let_def split: option.split)
  qed
qed

theorem timeout_cancellation_witness:
  "events (handleRequestTimeout (IntId 1) (setOutboundMessageSender (Some (\<lambda>_ _. True)) one_in_flight)) =
     [Sent ctx0 (MNotification (makeCancelledNotification (IntId 1) (Some ''Request timed out.'')))]"
proof -
  let ?r = "setOutboundMessageSender (Some (\<lambda>_ _. True)) one_in_flight"
  have "reachable_router ?r"
    by (rule reachable_step [OF reachable_one_in_flight router_step.set_sender])
  moreover have "map_of (inFlightRequests ?r) (IntId 1) = Some ping_flight"
    "outboundMessageSender ?r = Some (\<lambda>_ _. True)"
    by (simp_all add: one_in_flight_eq setOutboundMessageSender_def)
  ultimately show ?thesis
    using timeout_cancellation [of ?r "IntId 1" ping_flight "new_success (IntId 1) JNull"]
    by (simp add: new_success_def ping_flight_def one_in_flight_eq setOutboundMessageSender_def
        new_router_def ping_def new_request_def)
qed

section \<open>Progress\<close>

lemma emitProgress_sent:
  assumes "snd (emitProgress ctx t p tot msg r)"
  obtains i st where "find2 (inboundTokensBySender r) (senderKey ctx) t = Some i"
    "find2 (inboundRequestsBySender r) (senderKey ctx) i = Some st" "\<not> ib_cancelled st"
    "case ib_last_emitted st of None \<Rightarrow> True | Some q \<Rightarrow> \<not> float_le p q"
    "fst (emitProgress ctx t p tot msg r) = r\<lparr>inboundRequestsBySender := put2 (senderKey ctx) i
        (st\<lparr>ib_last_emitted := Some p\<rparr>) (inboundRequestsBySender r),
      events := events r @ [Sent ctx (MNotification (makeProgressNotification t p tot msg))]\<rparr>"
proof -
  from assms obtain i where i: "find2 (inboundTokensBySender r) (senderKey ctx) t = Some i"
    by (cases "find2 (inboundTokensBySender r) (senderKey ctx) t") (auto simp: emitProgress_def)
  with assms obtain st where st: "find2 (inboundRequestsBySender r) (senderKey ctx) i = Some st"
    by (cases "find2 (inboundRequestsBySender r) (senderKey ctx) i") (auto simp: emitProgress_def)
  define r1 where "r1 = r\<lparr>inboundRequestsBySender := put2 (senderKey ctx) i
        (st\<lparr>ib_last_emitted := Some p\<rparr>) (inboundRequestsBySender r)\<rparr>"
  have eq: "emitProgress ctx t p tot msg r =
      (if ib_cancelled st \<or> (case ib_last_emitted st of None \<Rightarrow> False | Some q \<Rightarrow> float_le p q) then (r, False)
       else dispatchOutboundMessage ctx (MNotification (makeProgressNotification t p tot msg)) r1)"
    using i st by (simp add: emitProgress_def r1_def Let_def)
  have ok: "\<not> ib_cancelled st" "case ib_last_emitted st of None \<Rightarrow> True | Some q \<Rightarrow> \<not> float_le p q"
    using assms by (auto simp: eq split: if_splits option.splits)
  then have "emitProgress ctx t p tot msg r =
      dispatchOutboundMessage ctx (MNotification (makeProgressNotification t p tot msg)) r1"
    by (auto simp: eq split: option.splits)
  with assms have "fst (emitProgress ctx t p tot msg r) =
      r1\<lparr>events := events r1 @ [Sent ctx (MNotification (makeProgressNotification t p tot msg))]\<rparr>"
    by (simp add: fst_dispatchOutboundMessage)
  then have "fst (emitProgress ctx t p tot msg r) = r\<lparr>inboundRequestsBySender := put2 (senderKey ctx) i
        (st\<lparr>ib_last_emitted := Some p\<rparr>) (inboundRequestsBySender r),
      events := events r @ [Sent ctx (MNotification (makeProgressNotification t p tot msg))]\<rparr>"
    by (simp add: r1_def)
  with i st ok show ?thesis by (rule that)
qed

text \<open>
  Emitted progress only grows: after a progress value was sent for a token, the same or a
  smaller value is refused without any effect, until the token's request completes.
\<close>

theorem emitted_progress_grows:
  assumes "snd (emitProgress ctx t p tot msg r)" and "float_le q p"
  defines "r' \<equiv> fst (emitProgress ctx t p tot msg r)"
  shows "emitProgress ctx t q tot' msg' r' = (r', False)
    \<and> events r' = events r @ [Sent ctx (MNotification (makeProgressNotification t p tot msg))]"
proof -
  from assms(1) obtain i st where t: "find2 (inboundTokensBySender r) (senderKey ctx) t = Some i"
    and st: "find2 (inboundRequestsBySender r) (senderKey ctx) i = Some st" "\<not> ib_cancelled st"
    and r': "r' = r\<lparr>inboundRequestsBySender := put2 (senderKey ctx) i
        (st\<lparr>ib_last_emitted := Some p\<rparr>) (inboundRequestsBySender r),
      events := events r @ [Sent ctx (MNotification (makeProgressNotification t p tot msg))]\<rparr>"
    unfolding r'_def by (rule emitProgress_sent) blast
  with assms(2) show ?thesis by (simp add: emitProgress_def Let_def)
qed

definition ping_with_token :: request where
  "ping_with_token = new_request (IntId 1) ''ping''
     (Some (JObject [(''_meta'', JObject [(''progressToken'', JString ''t'')])]))"

definition serving_token :: router where
  "serving_token = setOutboundMessageSender (Some (\<lambda>_ _. True))
     (fst (dispatchRequest_begin ctx0 ping_with_token (registerRequestHandler ''ping'' 7 (new_router 4))))"

lemma token_ping_with_token: "extractProgressToken ping_with_token = Some (StrId ''t'')"
  by (simp add: ping_with_token_def new_request_def extractProgressToken_def get_object_def
      jsonToRequestId_def jget_def)

lemma task_ping_with_token: "isTaskAugmentedRequest ping_with_token = False"
  by (simp add: ping_with_token_def new_request_def isTaskAugmentedRequest_def get_object_def jget_def)

lemma method_ping_with_token: "rq_method ping_with_token = ''ping''"
  by (simp add: ping_with_token_def new_request_def)

lemma serving_token_eq:
  "serving_token = (new_router 4)\<lparr>outboundMessageSender := Some (\<lambda>_ _. True),
     requestHandlers := [(''ping'', 7)],
     seenRequestIdsBySender := (\<lambda>s. if s = kDefaultSender then {IntId 1} else {}),
     promises := [None],
     inboundRequestsBySender := [(kDefaultSender, [(IntId 1, new_inbound ping_with_token)])],
     inboundTokensBySender := [(kDefaultSender, [(StrId ''t'', IntId 1)])],
     inboundPromisesBySender := [(kDefaultSender, [(IntId 1, 0)])],
     handlerCalls := [(ctx0, ping_with_token, 0)], events := [HandlerCalled 7 ctx0 ping_with_token]\<rparr>"
proof -
  have id: "rq_id ping_with_token = IntId 1" "rq_method ping_with_token = ''ping''"
    by (simp_all add: ping_with_token_def new_request_def)
  show ?thesis
    by (auto simp: serving_token_def setOutboundMessageSender_def dispatchRequest_begin_def
        registerRequestHandler_def new_promise_def id
        markInboundRequestActive_def log_event_def senderKey_def new_router_def new_inbound_def
        total_entries_def put2_def find2_def inner_def token_ping_with_token ctx0_def Let_def fun_eq_iff)
qed

lemma reachable_serving_token: "reachable_router serving_token"
  unfolding serving_token_def
  by (intro reachable_step [OF _ router_step.set_sender] reachable_step [OF _ router_step.dispatch_begin]
      reachable_step [OF reachable_start router_step.register_request])

lemma serving_token_facts [simp]:
  "find2 (inboundTokensBySender serving_token) kDefaultSender (StrId ''t'') = Some (IntId 1)"
  "find2 (inboundRequestsBySender serving_token) kDefaultSender (IntId 1) = Some (new_inbound ping_with_token)"
  "outboundMessageSender serving_token = Some (\<lambda>_ _. True)" "senderKey ctx0 = kDefaultSender"
  by (simp_all add: serving_token_eq new_router_def find2_def inner_def senderKey_def ctx0_def)

theorem emitted_progress_grows_witness:
  "snd (emitProgress ctx0 (StrId ''t'') (Finite 1) None None serving_token)
   \<and> \<not> snd (emitProgress ctx0 (StrId ''t'') (Finite 1) None None
        (fst (emitProgress ctx0 (StrId ''t'') (Finite 1) None None serving_token)))"
proof -
  have sent: "snd (emitProgress ctx0 (StrId ''t'') (Finite 1) None None serving_token)"
    by (simp add: emitProgress_def dispatchOutboundMessage_def new_inbound_def Let_def)
  moreover have "float_le (Finite 1) (Finite 1)" by simp
  ultimately show ?thesis
    using emitted_progress_grows [OF sent, of "Finite 1" None None] by simp
qed

text \<open>
  Observed progress only grows: a progress notification from the peer runs the request's
  callback exactly when its value is larger than the last one that did; repeating it does
  nothing, and an unknown token has no effect.
\<close>

theorem observed_progress_grows:
  assumes "map_of (requestIdsByProgressToken r) t = Some i" and "map_of (inFlightRequests r) i = Some f"
    and "if_progress_callback f = Some cb" and "map_of (notificationHandlers r) kProgressNotificationMethod = None"
    and n: "n = makeProgressNotification t p tot msg"
  shows "events (dispatchNotification ctx n r) = events r @
      (if (case if_last_observed f of None \<Rightarrow> True | Some q \<Rightarrow> float_less q p)
       then [ProgressCalled cb ctx \<lparr>pu_token = t, pu_progress = p, pu_total = tot, pu_message = msg,
              pu_additional = empty_object\<rparr>]
       else [])
    \<and> (if_last_observed f = None \<longrightarrow>
        events (dispatchNotification ctx n (dispatchNotification ctx n r)) = events (dispatchNotification ctx n r))"
proof -
  have m: "nt_method n = kProgressNotificationMethod"
    by (simp add: n makeProgressNotification_def new_notification_def)
  show ?thesis
    using assms(1-4) m parse_makeProgressNotification [of t p tot msg] parse_other(1) [of t p tot msg]
    by (auto simp: dispatchNotification_def observeProgress_def n [symmetric] log_event_def umap_simps Let_def
        split: option.split)
qed

definition tracking :: router where
  "tracking = fst (sendRequest_begin ctx0 ping_with_token (opts0\<lparr>oo_on_progress := Some 3\<rparr>) (new_router 4))"

theorem observed_progress_grows_witness:
  "events (dispatchNotification ctx0 (makeProgressNotification (StrId ''t'') (Finite 1) None None) tracking) =
     [ProgressCalled 3 ctx0 \<lparr>pu_token = StrId ''t'', pu_progress = Finite 1, pu_total = None,
        pu_message = None, pu_additional = empty_object\<rparr>]"
proof -
  have id: "rq_id ping_with_token = IntId 1" by (simp add: ping_with_token_def new_request_def)
  define f where "f = \<lparr>if_context = ctx0, if_request = ping_with_token, if_cancel_on_timeout = True,
     if_progress_callback = Some 3, if_progress_token = Some (StrId ''t''), if_task_augmented = False,
     if_task_id = None, if_last_observed = None, if_promise = 0, if_timer = False\<rparr>"
  have "map_of (requestIdsByProgressToken tracking) (StrId ''t'') = Some (IntId 1)"
    "map_of (inFlightRequests tracking) (IntId 1) = Some f"
    "map_of (notificationHandlers tracking) kProgressNotificationMethod = None" "events tracking = []"
    by (simp_all add: tracking_def sendRequest_begin_def new_promise_def addInFlightRequest_def
        armRequestTimeout_def new_router_def opts0_def token_ping_with_token task_ping_with_token id f_def Let_def)
  from observed_progress_grows [OF this(1,2) _ this(3) refl, of 3 ctx0 "Finite 1" None None] this(4)
  show ?thesis by (simp add: f_def)
qed

section \<open>Cancellation\<close>

text \<open>
  A cancellation notification silences an ordinary request: it stays active, so that its
  handler can still answer, but no progress is sent for its token any more. For \<open>initialize\<close> and
  for task-augmented requests the notification changes no request. It never settles a promise.
\<close>

theorem cancellation_silences:
  assumes "find2 (inboundRequestsBySender r) (senderKey ctx) i = Some st"
    and "find2 (inboundTokensBySender r) (senderKey ctx) t = Some i"
    and "n = makeCancelledNotification i reason"
  defines "r' \<equiv> dispatchNotification ctx n r"
  shows "promises r' = promises r
    \<and> (if ib_method st \<noteq> ''initialize'' \<and> \<not> ib_task_augmented st
       then find2 (inboundRequestsBySender r') (senderKey ctx) i = Some (st\<lparr>ib_cancelled := True\<rparr>)
          \<and> emitProgress ctx t p tot msg r' = (r', False)
       else inboundRequestsBySender r' = inboundRequestsBySender r)"
proof -
  have parse: "parseCancelledNotification n = Some \<lparr>cn_request_id = i, cn_reason = reason\<rparr>"
    "parseProgressNotification n = None"
    using assms(3) by (simp_all add: notification_facts)
  have reqs: "inboundRequestsBySender r' = inboundRequestsBySender (cancelInboundRequest ctx i r)"
    "inboundTokensBySender r' = inboundTokensBySender r"
    by (auto simp: r'_def dispatchNotification_def parse log_event_def cancelInboundRequest_def Let_def
        split: option.split)
  have "promises r' = promises r" by (simp add: r'_def)
  moreover have "emitProgress ctx t p tot msg r' = (r', False)"
    if "ib_method st \<noteq> ''initialize'' \<and> \<not> ib_task_augmented st"
    using assms(1,2) that by (simp add: emitProgress_def reqs cancelInboundRequest_def Let_def)
  ultimately show ?thesis
    using assms(1) by (simp add: reqs cancelInboundRequest_def Let_def)
qed

theorem cancellation_silences_witness:
  "\<not> snd (emitProgress ctx0 (StrId ''t'') (Finite 1) None None
       (dispatchNotification ctx0 (makeCancelledNotification (IntId 1) None) serving_token))"
  using cancellation_silences [OF _ _ refl, of serving_token ctx0 "IntId 1" "new_inbound ping_with_token"
      "StrId ''t''" None "Finite 1" None None]
  by (simp add: new_inbound_def task_ping_with_token method_ping_with_token)

section \<open>Every request is answered\<close>

text \<open>
  Every inbound request gets its own future, and either a handler now runs for it, with the
  future still open and owned by the request, or the future already holds an error response
  with the request's id and no handler has been called.
\<close>

theorem inbound_request_outcome:
  "case dispatchRequest_begin ctx req r of (r', fut, h) \<Rightarrow>
     fut = length (promises r) \<and> length (promises r') = Suc fut
   \<and> (case h of
        Some k \<Rightarrow> map_of (requestHandlers r) (rq_method req) = Some k \<and> promises r' ! fut = None
          \<and> owner_promise r' (Incoming (senderKey ctx) (rq_id req)) = Some fut
          \<and> (ctx, req, fut) \<in> set (handlerCalls r') \<and> events r' = events r @ [HandlerCalled k ctx req]
      | None \<Rightarrow> (\<exists>e. promises r' ! fut = Some (error_reply e (rq_id req))) \<and> events r' = events r
          \<and> handlerCalls r' = handlerCalls r \<and> inboundTokensBySender r' = inboundTokensBySender r
          \<and> inboundPromisesBySender r' = inboundPromisesBySender r)"
proof (cases rule: dispatchRequest_begin_cases [of req r ctx])
  case (duplicate v)
  then show ?thesis by (auto simp: reply_defs)
next
  case (refused v)
  then show ?thesis by auto
next
  case (duplicate_token v)
  then show ?thesis by auto
next
  case (accepted h)
  then show ?thesis by (simp add: owner_promise_def)
qed

text \<open>
  What a handler answers is what the requester gets: when the completion job of a request
  runs in any reachable state, a promise that is still open receives exactly the handler's
  response (or the internal error when it threw) and the request is gone from the tables; a
  promise settled before, by a shutdown, keeps its value.
\<close>

theorem handler_result_delivered:
  assumes "reachable_router r" and "(ctx, i, p) \<in> set (completionJobs r)"
    and r'_def: "r' = runCompletionJob ctx i p result r"
  shows "promises r' ! p = (case promises r ! p of
      Some v \<Rightarrow> Some v
    | None \<Rightarrow> Some (case result of Some v \<Rightarrow> v
        | None \<Rightarrow> makeInternalErrorResponse i ''Request handler threw an exception.''))
    \<and> (\<forall>q. q \<noteq> p \<longrightarrow> q < length (promises r) \<longrightarrow> promises r' ! q = promises r ! q)
    \<and> find2 (inboundRequestsBySender r') (senderKey ctx) i = None
    \<and> owner_promise r' (Incoming (senderKey ctx) i) = None"
proof -
  note inv = router_inv_parts [OF reachable_inv [OF assms(1)]]
  have "jobs_ok (pending_jobs (handlerCalls r) (completionJobs r)) (promises r)
      (inboundPromisesBySender r) (seenRequestIdsBySender r)"
    using inv(3) by (simp add: promise_inv_def)
  from jobs_okD(2) [OF this pending_jobs_simps(4) [OF assms(2)]] have p: "p < length (promises r)" .
  have ps: "promises r' = set_cell p (case result of Some v \<Rightarrow> v
      | None \<Rightarrow> makeInternalErrorResponse i ''Request handler threw an exception.'') (promises r)"
    by (simp add: r'_def runCompletionJob_def Let_def setPromiseValueNoThrow_def router_defs split: option.split)
  have tables: "inboundRequestsBySender r' = complete_requests (senderKey ctx) i (inboundRequestsBySender r)"
    "inboundPromisesBySender r' = erase2 (senderKey ctx) i (inboundPromisesBySender r)"
    by (simp_all add: r'_def runCompletionJob_def Let_def setPromiseValueNoThrow_def router_defs
        split: option.split)
  show ?thesis
    using p inbound_promises_wf [OF inv(2)]
    by (simp add: ps tables owner_promise_def set_cell_nth split: option.split)
qed

definition answering :: router where
  "answering = dispatchRequest_end ctx0 ping 0 Posted serving"

theorem handler_result_delivered_witness:
  "promises (runCompletionJob ctx0 (IntId 1) 0 (Some (new_success (IntId 1) JNull)) answering) ! 0 =
     Some (new_success (IntId 1) JNull)"
proof -
  have "(ctx0, ping, 0) \<in> set (handlerCalls serving)" by (simp add: serving_eq)
  then have "reachable_router answering"
    unfolding answering_def by (intro reachable_step [OF reachable_serving router_step.dispatch_end])
  moreover have "(ctx0, IntId 1, 0) \<in> set (completionJobs answering)" "promises answering = [None]"
    by (simp_all add: answering_def dispatchRequest_end_def serving_eq new_router_def ping_def
        new_request_def Let_def)
  ultimately show ?thesis
    using handler_result_delivered [of answering ctx0 "IntId 1" 0 _ "Some (new_success (IntId 1) JNull)"]
    by simp
qed

text \<open>
  Sending a request: it goes into flight exactly when the limit is not reached, its id was
  never used before and its progress token is free; then its future is open and owned by it. In
  every other case the future already holds an error response and no table has changed.
\<close>

theorem send_request_outcome:
  "case sendRequest_begin ctx req opts r of (r', fut, flying) \<Rightarrow>
     fut = length (promises r) \<and> length (promises r') = Suc fut
   \<and> (flying \<longleftrightarrow> length (inFlightRequests r) < maxConcurrentInFlightRequests r
        \<and> rq_id req \<notin> seenOutboundRequestIds r
        \<and> (case extractProgressToken req of None \<Rightarrow> True | Some t \<Rightarrow> map_of (requestIdsByProgressToken r) t = None))
   \<and> (if flying then promises r' ! fut = None \<and> owner_promise r' (Outgoing (rq_id req)) = Some fut
          \<and> rq_id req \<in> seenOutboundRequestIds r'
      else (\<exists>e. r' = r\<lparr>promises := promises r @ [Some (error_reply e (rq_id req))]\<rparr>))"
proof (cases rule: sendRequest_begin_cases [of ctx req opts r])
  case (refused v)
  then show ?thesis by auto
next
  case (flying f)
  then show ?thesis by (simp add: owner_promise_def umap_simps)
qed

end
