(* ===== verification/Codec.thy ===== *)
theory Codec
  imports Json
begin

text \<open>
  The initialize codec, src/detail/initialize_codec.cpp: icons, implementation metadata and the
  capabilities of clients and servers, each with its translation to JSON and the tolerant parser
  that drops what it does not understand. The structures are those of
  include/mcp/lifecycle/session. Two predicates say which capabilities the wire format can
  express; for these a parser gives back what the printer was given.
\<close>

section \<open>Structures\<close>

record icon =
  ic_src :: string
  ic_mimeType :: "string option"
  ic_sizes :: "string list option"
  ic_theme :: "string option"

record implementation =
  im_name :: string
  im_version :: string
  im_title :: "string option"
  im_description :: "string option"
  im_websiteUrl :: "string option"
  im_icons :: "icon list option"

text \<open>The constructor with its defaulted arguments.\<close>

definition new_implementation :: "string \<Rightarrow> string \<Rightarrow> implementation" where
  "new_implementation n v =
     \<lparr>im_name = n, im_version = v, im_title = None, im_description = None, im_websiteUrl = None,
      im_icons = None\<rparr>"

record roots_capability = roots_listChanged :: bool

record sampling_capability =
  sampling_context :: bool
  sampling_tools :: bool

record elicitation_capability =
  elicitation_form :: bool
  elicitation_url :: bool

record tasks_capability =
  tasks_list :: bool
  tasks_cancel :: bool
  tasks_samplingCreateMessage :: bool
  tasks_elicitationCreate :: bool
  tasks_toolsCall :: bool

record prompts_capability = prompts_listChanged :: bool

record resources_capability =
  resources_subscribe :: bool
  resources_listChanged :: bool

record tools_capability = tools_listChanged :: bool

record client_capabilities =
  cc_roots :: "roots_capability option"
  cc_sampling :: "sampling_capability option"
  cc_elicitation :: "elicitation_capability option"
  cc_tasks :: "tasks_capability option"
  cc_experimental :: "json option"

text \<open>The logging and completions capabilities are empty structures: presence is all.\<close>

record server_capabilities =
  sc_logging :: "unit option"
  sc_completions :: "unit option"
  sc_prompts :: "prompts_capability option"
  sc_resources :: "resources_capability option"
  sc_tools :: "tools_capability option"
  sc_tasks :: "tasks_capability option"
  sc_experimental :: "json option"

definition no_client_capabilities :: client_capabilities where
  "no_client_capabilities =
     \<lparr>cc_roots = None, cc_sampling = None, cc_elicitation = None, cc_tasks = None, cc_experimental = None\<rparr>"

definition no_server_capabilities :: server_capabilities where
  "no_server_capabilities =
     \<lparr>sc_logging = None, sc_completions = None, sc_prompts = None, sc_resources = None, sc_tools = None,
      sc_tasks = None, sc_experimental = None\<rparr>"

section \<open>Members of a given kind\<close>

definition get_array :: "json \<Rightarrow> string \<Rightarrow> json list option" where
  "get_array j k = (case jget j k of Some (JArray xs) \<Rightarrow> Some xs | _ \<Rightarrow> None)"

definition get_bool :: "json \<Rightarrow> string \<Rightarrow> bool option" where
  "get_bool j k = (case jget j k of Some (JBool b) \<Rightarrow> Some b | _ \<Rightarrow> None)"

definition has_object :: "json \<Rightarrow> string \<Rightarrow> bool" where
  "has_object j k \<longleftrightarrow> get_object j k \<noteq> None"

text \<open>The strings of an array, other elements dropped.\<close>

definition strings_of :: "json list \<Rightarrow> string list" where
  "strings_of xs = List.map_filter (\<lambda>v. case v of JString s \<Rightarrow> Some s | _ \<Rightarrow> None) xs"

text \<open>\<open>if (flag) object[k] = value\<close>.\<close>

definition jput_if :: "bool \<Rightarrow> string \<Rightarrow> json \<Rightarrow> json \<Rightarrow> json" where
  "jput_if b k v j = (if b then jput k v j else j)"

section \<open>Icons and implementations\<close>

definition parseIcon :: "json \<Rightarrow> icon option" where
  "parseIcon j =
     (case get_string j ''src'' of
        None \<Rightarrow> None
      | Some src \<Rightarrow> Some \<lparr>ic_src = src, ic_mimeType = get_string j ''mimeType'',
          ic_sizes = map_option strings_of (get_array j ''sizes''), ic_theme = get_string j ''theme''\<rparr>)"

definition iconToJson :: "icon \<Rightarrow> json" where
  "iconToJson i =
     jput_opt ''theme'' (map_option JString (ic_theme i))
       (jput_opt ''sizes'' (map_option (\<lambda>xs. JArray (map JString xs)) (ic_sizes i))
         (jput_opt ''mimeType'' (map_option JString (ic_mimeType i))
           (jput ''src'' (JString (ic_src i)) empty_object)))"

definition implementationToJson :: "implementation \<Rightarrow> json" where
  "implementationToJson i =
     jput_opt ''icons'' (map_option (\<lambda>xs. JArray (map iconToJson xs)) (im_icons i))
       (jput_opt ''websiteUrl'' (map_option JString (im_websiteUrl i))
         (jput_opt ''description'' (map_option JString (im_description i))
           (jput_opt ''title'' (map_option JString (im_title i))
             (jput ''version'' (JString (im_version i))
               (jput ''name'' (JString (im_name i)) empty_object)))))"

definition parseImplementation :: "json \<Rightarrow> string \<Rightarrow> string \<Rightarrow> implementation" where
  "parseImplementation j defaultName defaultVersion =
     (if \<not> is_object j then new_implementation defaultName defaultVersion
      else
        \<lparr>im_name = (case get_string j ''name'' of Some s \<Rightarrow> s | None \<Rightarrow> defaultName),
         im_version = (case get_string j ''version'' of Some s \<Rightarrow> s | None \<Rightarrow> defaultVersion),
         im_title = get_string j ''title'', im_description = get_string j ''description'',
         im_websiteUrl = get_string j ''websiteUrl'',
         im_icons = map_option (List.map_filter parseIcon) (get_array j ''icons'')\<rparr>)"

section \<open>Client capabilities\<close>

definition rootsToJson :: "roots_capability \<Rightarrow> json" where
  "rootsToJson c = jput ''listChanged'' (JBool (roots_listChanged c)) empty_object"

definition samplingToJson :: "sampling_capability \<Rightarrow> json" where
  "samplingToJson c =
     jput_if (sampling_tools c) ''tools'' empty_object
       (jput_if (sampling_context c) ''context'' empty_object empty_object)"

definition elicitationToJson :: "elicitation_capability \<Rightarrow> json" where
  "elicitationToJson c =
     jput_if (elicitation_url c) ''url'' empty_object
       (jput_if (elicitation_form c) ''form'' empty_object empty_object)"

definition clientTasksToJson :: "tasks_capability \<Rightarrow> json" where
  "clientTasksToJson c =
     (let base = jput_if (tasks_cancel c) ''cancel'' empty_object
                   (jput_if (tasks_list c) ''list'' empty_object empty_object);
          requests = jput_if (tasks_toolsCall c) ''tools'' (jput ''call'' empty_object empty_object)
            (jput_if (tasks_elicitationCreate c) ''elicitation'' (jput ''create'' empty_object empty_object)
              (jput_if (tasks_samplingCreateMessage c) ''sampling''
                (jput ''createMessage'' empty_object empty_object) empty_object))
      in jput_if (tasks_samplingCreateMessage c \<or> tasks_elicitationCreate c \<or> tasks_toolsCall c)
           ''requests'' requests base)"

definition clientCapabilitiesToJson :: "client_capabilities \<Rightarrow> json" where
  "clientCapabilitiesToJson c =
     jput_opt ''tasks'' (map_option clientTasksToJson (cc_tasks c))
       (jput_opt ''elicitation'' (map_option elicitationToJson (cc_elicitation c))
         (jput_opt ''sampling'' (map_option samplingToJson (cc_sampling c))
           (jput_opt ''roots'' (map_option rootsToJson (cc_roots c))
             (jput_opt ''experimental'' (cc_experimental c) empty_object))))"

definition parseRoots :: "json \<Rightarrow> roots_capability" where
  "parseRoots j = \<lparr>roots_listChanged = (case get_bool j ''listChanged'' of Some b \<Rightarrow> b | None \<Rightarrow> False)\<rparr>"

definition parseSampling :: "json \<Rightarrow> sampling_capability" where
  "parseSampling j = \<lparr>sampling_context = has_object j ''context'', sampling_tools = has_object j ''tools''\<rparr>"

text \<open>An empty elicitation object stands for form mode.\<close>

definition parseElicitation :: "json \<Rightarrow> elicitation_capability" where
  "parseElicitation j =
     (let form = has_object j ''form''; url = has_object j ''url'' in
      \<lparr>elicitation_form = form \<or> \<not> url \<and> j = empty_object, elicitation_url = url\<rparr>)"

definition requested :: "json \<Rightarrow> string \<Rightarrow> string \<Rightarrow> bool" where
  "requested requests grp operation =
     (case get_object requests grp of None \<Rightarrow> False | Some g \<Rightarrow> has_object g operation)"

definition parseClientTasks :: "json \<Rightarrow> tasks_capability" where
  "parseClientTasks j =
     (let requests = get_object j ''requests'';
          asks = (\<lambda>grp operation. case requests of None \<Rightarrow> False | Some r \<Rightarrow> requested r grp operation)
      in \<lparr>tasks_list = has_object j ''list'', tasks_cancel = has_object j ''cancel'',
          tasks_samplingCreateMessage = asks ''sampling'' ''createMessage'',
          tasks_elicitationCreate = asks ''elicitation'' ''create'', tasks_toolsCall = asks ''tools'' ''call''\<rparr>)"

definition parseClientCapabilities :: "json \<Rightarrow> client_capabilities" where
  "parseClientCapabilities j =
     (if \<not> is_object j then no_client_capabilities
      else
        \<lparr>cc_roots = map_option parseRoots (get_object j ''roots''),
         cc_sampling = map_option parseSampling (get_object j ''sampling''),
         cc_elicitation = map_option parseElicitation (get_object j ''elicitation''),
         cc_tasks = map_option parseClientTasks (get_object j ''tasks''),
         cc_experimental = get_object j ''experimental''\<rparr>)"

section \<open>Server capabilities\<close>

definition promptsToJson :: "prompts_capability \<Rightarrow> json" where
  "promptsToJson c = jput_if (prompts_listChanged c) ''listChanged'' (JBool True) empty_object"

definition resourcesToJson :: "resources_capability \<Rightarrow> json" where
  "resourcesToJson c =
     jput_if (resources_listChanged c) ''listChanged'' (JBool True)
       (jput_if (resources_subscribe c) ''subscribe'' (JBool True) empty_object)"

definition toolsToJson :: "tools_capability \<Rightarrow> json" where
  "toolsToJson c = jput_if (tools_listChanged c) ''listChanged'' (JBool True) empty_object"

definition serverTasksToJson :: "tasks_capability \<Rightarrow> json" where
  "serverTasksToJson c =
     jput_if (tasks_toolsCall c) ''requests''
       (jput ''tools'' (jput ''call'' empty_object empty_object) empty_object)
       (jput_if (tasks_cancel c) ''cancel'' empty_object
         (jput_if (tasks_list c) ''list'' empty_object empty_object))"

definition serverCapabilitiesToJson :: "server_capabilities \<Rightarrow> json" where
  "serverCapabilitiesToJson c =
     jput_opt ''tasks'' (map_option serverTasksToJson (sc_tasks c))
       (jput_opt ''tools'' (map_option toolsToJson (sc_tools c))
         (jput_opt ''resources'' (map_option resourcesToJson (sc_resources c))
           (jput_opt ''prompts'' (map_option promptsToJson (sc_prompts c))
             (jput_opt ''completions'' (map_option (\<lambda>_. empty_object) (sc_completions c))
               (jput_opt ''logging'' (map_option (\<lambda>_. empty_object) (sc_logging c))
                 (jput_opt ''experimental'' (sc_experimental c) empty_object))))))"

definition get_flag :: "json \<Rightarrow> string \<Rightarrow> bool" where
  "get_flag j k = (case get_bool j k of Some b \<Rightarrow> b | None \<Rightarrow> False)"

definition parseServerTasks :: "json \<Rightarrow> tasks_capability" where
  "parseServerTasks j =
     \<lparr>tasks_list = has_object j ''list'', tasks_cancel = has_object j ''cancel'',
      tasks_samplingCreateMessage = False, tasks_elicitationCreate = False,
      tasks_toolsCall = (case get_object j ''requests'' of None \<Rightarrow> False | Some r \<Rightarrow> requested r ''tools'' ''call'')\<rparr>"

definition parseServerCapabilities :: "json \<Rightarrow> server_capabilities" where
  "parseServerCapabilities j =
     (if \<not> is_object j then no_server_capabilities
      else
        \<lparr>sc_logging = map_option (\<lambda>_. ()) (get_object j ''logging''),
         sc_completions = map_option (\<lambda>_. ()) (get_object j ''completions''),
         sc_prompts = map_option (\<lambda>v. \<lparr>prompts_listChanged = get_flag v ''listChanged''\<rparr>)
           (get_object j ''prompts''),
         sc_resources = map_option (\<lambda>v. \<lparr>resources_subscribe = get_flag v ''subscribe'',
             resources_listChanged = get_flag v ''listChanged''\<rparr>) (get_object j ''resources''),
         sc_tools = map_option (\<lambda>v. \<lparr>tools_listChanged = get_flag v ''listChanged''\<rparr>)
           (get_object j ''tools''),
         sc_tasks = map_option parseServerTasks (get_object j ''tasks''),
         sc_experimental = get_object j ''experimental''\<rparr>)"

section \<open>Round trips\<close>

text \<open>
  What the wire format can express: experimental members are objects; an elicitation capability
  has a mode; a server's task capability says nothing of sampling and elicitation.
\<close>

definition experimental_ok :: "json option \<Rightarrow> bool" where
  "experimental_ok e \<longleftrightarrow> (case e of None \<Rightarrow> True | Some v \<Rightarrow> is_object v)"

definition client_expressible :: "client_capabilities \<Rightarrow> bool" where
  "client_expressible c \<longleftrightarrow> experimental_ok (cc_experimental c) \<and>
     (case cc_elicitation c of None \<Rightarrow> True | Some e \<Rightarrow> elicitation_form e \<or> elicitation_url e)"

definition server_expressible :: "server_capabilities \<Rightarrow> bool" where
  "server_expressible c \<longleftrightarrow> experimental_ok (sc_experimental c) \<and>
     (case sc_tasks c of None \<Rightarrow> True
      | Some t \<Rightarrow> \<not> tasks_samplingCreateMessage t \<and> \<not> tasks_elicitationCreate t)"

lemma jput_if_simps [json_simps, simp]:
  "is_object (jput_if b k v j) = is_object j"
  "is_object j \<Longrightarrow> jget (jput_if b k v j) k' = (if b \<and> k' = k then Some v else jget j k')"
  by (simp_all add: jput_if_def)

lemma get_kind_put [json_simps, simp]:
  "get_string empty_object k = None" "get_array empty_object k = None" "get_bool empty_object k = None"
  "get_object empty_object k = None" "\<not> has_object empty_object k"
  by (simp_all add: get_string_def get_array_def get_bool_def get_object_def has_object_def)

lemmas get_kind_defs = get_string_def get_array_def get_bool_def get_object_def has_object_def get_flag_def

lemma strings_of_map [simp]: "strings_of (map JString xs) = xs"
  by (induction xs) (simp_all add: strings_of_def List.map_filter_def)

lemma parseIcon_iconToJson [json_simps, simp]: "parseIcon (iconToJson i) = Some i"
  by (cases "ic_mimeType i"; cases "ic_sizes i"; cases "ic_theme i")
    (simp_all add: parseIcon_def iconToJson_def get_kind_defs)

lemma map_filter_parseIcon [simp]: "List.map_filter parseIcon (map iconToJson xs) = xs"
  by (induction xs) (simp_all add: List.map_filter_def)

lemma implementation_roundtrip:
  "parseImplementation (implementationToJson i) n v = i"
  by (cases "im_title i"; cases "im_description i"; cases "im_websiteUrl i"; cases "im_icons i")
    (simp_all add: parseImplementation_def implementationToJson_def get_kind_defs)

lemma is_object_parts [json_simps, simp]:
  "is_object (rootsToJson r)" "is_object (samplingToJson s)" "is_object (elicitationToJson e)"
  "is_object (clientTasksToJson t)" "is_object (promptsToJson p)" "is_object (resourcesToJson x)"
  "is_object (toolsToJson y)" "is_object (serverTasksToJson t)"
  by (simp_all add: rootsToJson_def samplingToJson_def elicitationToJson_def clientTasksToJson_def
      promptsToJson_def resourcesToJson_def toolsToJson_def serverTasksToJson_def Let_def)

lemma parse_client_parts:
  "parseRoots (rootsToJson r) = r"
  "parseSampling (samplingToJson s) = s"
  "elicitation_form e \<or> elicitation_url e \<Longrightarrow> parseElicitation (elicitationToJson e) = e"
  "parseClientTasks (clientTasksToJson t) = t"
proof -
  show "parseRoots (rootsToJson r) = r"
    by (simp add: parseRoots_def rootsToJson_def get_kind_defs)
  show "parseSampling (samplingToJson s) = s"
    by (simp add: parseSampling_def samplingToJson_def get_kind_defs)
  show "parseClientTasks (clientTasksToJson t) = t"
    by (simp add: parseClientTasks_def clientTasksToJson_def requested_def get_kind_defs Let_def)
  assume "elicitation_form e \<or> elicitation_url e"
  then have "has_object (elicitationToJson e) ''form'' \<or> has_object (elicitationToJson e) ''url''"
    by (auto simp: elicitationToJson_def get_kind_defs)
  moreover from this have "elicitationToJson e \<noteq> empty_object" by auto
  ultimately show "parseElicitation (elicitationToJson e) = e"
    by (simp add: parseElicitation_def elicitationToJson_def get_kind_defs Let_def)
qed

lemma parse_server_parts:
  "\<lparr>prompts_listChanged = get_flag (promptsToJson p) ''listChanged''\<rparr> = p"
  "\<lparr>resources_subscribe = get_flag (resourcesToJson r) ''subscribe'',
    resources_listChanged = get_flag (resourcesToJson r) ''listChanged''\<rparr> = r"
  "\<lparr>tools_listChanged = get_flag (toolsToJson t) ''listChanged''\<rparr> = t"
  "\<not> tasks_samplingCreateMessage k \<Longrightarrow> \<not> tasks_elicitationCreate k \<Longrightarrow>
     parseServerTasks (serverTasksToJson k) = k"
  by (simp_all add: promptsToJson_def resourcesToJson_def toolsToJson_def parseServerTasks_def
      serverTasksToJson_def requested_def get_kind_defs)

lemma client_capabilities_roundtrip:
  assumes "client_expressible c"
  shows "parseClientCapabilities (clientCapabilitiesToJson c) = c"
proof -
  have e: "map_option parseElicitation (get_object (clientCapabilitiesToJson c) ''elicitation'') = cc_elicitation c"
    using assms parse_client_parts(3)
    by (cases "cc_elicitation c")
      (simp_all add: client_expressible_def clientCapabilitiesToJson_def get_kind_defs)
  have x: "get_object (clientCapabilitiesToJson c) ''experimental'' = cc_experimental c"
    using assms
    by (cases "cc_experimental c")
      (simp_all add: client_expressible_def experimental_ok_def clientCapabilitiesToJson_def get_kind_defs)
  have parts: "map_option parseRoots (get_object (clientCapabilitiesToJson c) ''roots'') = cc_roots c"
    "map_option parseSampling (get_object (clientCapabilitiesToJson c) ''sampling'') = cc_sampling c"
    "map_option parseClientTasks (get_object (clientCapabilitiesToJson c) ''tasks'') = cc_tasks c"
    by (cases "cc_roots c"; cases "cc_sampling c"; cases "cc_tasks c";
        simp add: clientCapabilitiesToJson_def get_kind_defs parse_client_parts)+
  have "is_object (clientCapabilitiesToJson c)" by (simp add: clientCapabilitiesToJson_def)
  with e x parts show ?thesis by (simp add: parseClientCapabilities_def)
qed

lemma server_capabilities_roundtrip:
  assumes "server_expressible c"
  shows "parseServerCapabilities (serverCapabilitiesToJson c) = c"
proof -
  let ?j = "serverCapabilitiesToJson c"
  have x: "get_object ?j ''experimental'' = sc_experimental c"
    using assms
    by (cases "sc_experimental c")
      (simp_all add: server_expressible_def experimental_ok_def serverCapabilitiesToJson_def get_kind_defs)
  have t: "map_option parseServerTasks (get_object ?j ''tasks'') = sc_tasks c"
    using assms parse_server_parts(4)
    by (cases "sc_tasks c")
      (simp_all add: server_expressible_def serverCapabilitiesToJson_def get_kind_defs)
  have obj: "get_object ?j ''logging'' = map_option (\<lambda>_. empty_object) (sc_logging c)"
    "get_object ?j ''completions'' = map_option (\<lambda>_. empty_object) (sc_completions c)"
    "get_object ?j ''prompts'' = map_option promptsToJson (sc_prompts c)"
    "get_object ?j ''resources'' = map_option resourcesToJson (sc_resources c)"
    "get_object ?j ''tools'' = map_option toolsToJson (sc_tools c)"
    by (auto simp: serverCapabilitiesToJson_def get_object_def split: option.split)
  have "is_object ?j" by (simp add: serverCapabilitiesToJson_def)
  moreover have "map_option (\<lambda>_. ()) u = u" for u by (cases u) simp_all
  ultimately show ?thesis
    by (simp add: parseServerCapabilities_def obj x t option.map_comp comp_def parse_server_parts option.map_ident)
qed

text \<open>
  What one side declares in the handshake is what the other side reads: implementation
  metadata without restriction, client and server capabilities whenever the wire format can
  express them.
\<close>

theorem capabilities_roundtrip:
  "parseImplementation (implementationToJson i) n v = i
   \<and> (client_expressible cc \<longrightarrow> parseClientCapabilities (clientCapabilitiesToJson cc) = cc)
   \<and> (server_expressible sc \<longrightarrow> parseServerCapabilities (serverCapabilitiesToJson sc) = sc)"
  by (simp add: implementation_roundtrip client_capabilities_roundtrip server_capabilities_roundtrip)

definition sample_tasks :: tasks_capability where
  "sample_tasks = \<lparr>tasks_list = True, tasks_cancel = False, tasks_samplingCreateMessage = False,
     tasks_elicitationCreate = False, tasks_toolsCall = True\<rparr>"

definition sample_server :: server_capabilities where
  "sample_server = no_server_capabilities\<lparr>sc_logging := Some (),
     sc_tools := Some \<lparr>tools_listChanged = True\<rparr>, sc_tasks := Some sample_tasks\<rparr>"

definition sample_client :: client_capabilities where
  "sample_client = no_client_capabilities\<lparr>cc_elicitation := Some \<lparr>elicitation_form = False, elicitation_url = True\<rparr>\<rparr>"

theorem capabilities_roundtrip_witness:
  "parseServerCapabilities (serverCapabilitiesToJson sample_server) = sample_server
   \<and> parseClientCapabilities (clientCapabilitiesToJson sample_client) = sample_client"
proof -
  have "server_expressible sample_server" "client_expressible sample_client"
    by (simp_all add: server_expressible_def client_expressible_def experimental_ok_def sample_server_def
        sample_client_def sample_tasks_def no_server_capabilities_def no_client_capabilities_def)
  then show ?thesis
    using capabilities_roundtrip [of "new_implementation [] []" "[]" "[]" sample_client sample_server] by blast
qed

end
