(* ===== verification/Session.thy ===== *)
theory Session
  imports Codec Router "HOL-Library.List_Lexorder" "HOL-Library.Char_ord"
begin

text \<open>
  The session of src/lifecycle/session.cpp: the lifecycle state machine, the negotiation of the
  protocol version, and the gates other components ask before they handle or send a message.
  Every operation runs under the session's mutex, so it is one function on the state; a thrown
  exception is \<open>Inl\<close>, with the state as it was when it was thrown. The transport is an opaque
  callback that takes a message or throws; \<open>se_sent\<close> records what it took.
\<close>

section \<open>State\<close>

datatype SessionState = kCreated | kInitializing | kInitialized | kOperating | kStopping | kStopped

datatype SessionRole = kClient | kServer

record negotiated_parameters =
  np_protocolVersion :: string
  np_clientCapabilities :: client_capabilities
  np_serverCapabilities :: server_capabilities
  np_clientInfo :: implementation
  np_serverInfo :: implementation
  np_instructions :: "string option"

datatype session_error = LifecycleError string | TransportError

record session =
  se_supported :: "string list"
  se_router :: router
  se_transport :: "(message \<Rightarrow> bool) option"
  se_state :: SessionState
  se_role :: SessionRole
  se_negotiated :: "negotiated_parameters option"
  se_pendingClientCapabilities :: "client_capabilities option"
  se_pendingClientInfo :: "implementation option"
  se_serverCapabilities :: server_capabilities
  se_serverInfo :: implementation
  se_serverInstructions :: "string option"
  se_sent :: "message list"

type_synonym 'a session_result = "session \<times> (session_error + 'a)"

definition kSdkVersion :: string where "kSdkVersion = ''0.1.0''"
definition kLatestProtocolVersion :: string where "kLatestProtocolVersion = ''2025-11-25''"

definition defaultProtocolVersions :: "string list" where
  "defaultProtocolVersions = [kLatestProtocolVersion, ''2025-06-18'', ''2025-03-26'', ''2024-11-05'']"

definition kInitializeMethod :: string where "kInitializeMethod = ''initialize''"
definition kPingMethod :: string where "kPingMethod = ''ping''"
definition kLoggingSetLevelMethod :: string where "kLoggingSetLevelMethod = ''logging/setLevel''"
definition kNotificationInitialized :: string where "kNotificationInitialized = ''notifications/initialized''"
definition kNotificationMessage :: string where "kNotificationMessage = ''notifications/message''"
definition kDefaultClientName :: string where "kDefaultClientName = ''mcp-cpp-client''"
definition kDefaultServerName :: string where "kDefaultServerName = ''mcp-cpp-sdk''"

text \<open>The constructor; a session starts as a client until \<open>setRole\<close>.\<close>

definition new_session :: "string list \<Rightarrow> nat \<Rightarrow> session" where
  "new_session versions limit =
     \<lparr>se_supported = versions, se_router = new_router limit, se_transport = None, se_state = kCreated,
      se_role = kClient, se_negotiated = None, se_pendingClientCapabilities = None,
      se_pendingClientInfo = None, se_serverCapabilities = no_server_capabilities,
      se_serverInfo = new_implementation kDefaultServerName kSdkVersion, se_serverInstructions = None,
      se_sent = []\<rparr>"

section \<open>Version negotiation\<close>

definition isVersionSupported :: "string list \<Rightarrow> string \<Rightarrow> bool" where
  "isVersionSupported versions v \<longleftrightarrow> v \<in> set versions"

text \<open>\<open>std::max_element\<close>: the first element no other exceeds, strings ordered by their bytes.\<close>

fun max_element :: "string list \<Rightarrow> string option" where
  "max_element [] = None"
| "max_element (v # vs) = Some (foldl (\<lambda>m x. if m < x then x else m) v vs)"

definition selectServerProtocolVersion :: "string \<Rightarrow> string list \<Rightarrow> string option" where
  "selectServerProtocolVersion proposed supported =
     (if isVersionSupported supported proposed then Some proposed else max_element supported)"

fun joinedVersions :: "string list \<Rightarrow> string" where
  "joinedVersions [] = []"
| "joinedVersions [v] = v"
| "joinedVersions (v # w # vs) = v @ '', '' @ joinedVersions (w # vs)"

definition formatVersionList :: "string list \<Rightarrow> string" where
  "formatVersionList vs = ''['' @ joinedVersions vs @ '']''"

definition negotiationFailureData :: "string \<Rightarrow> string list \<Rightarrow> json" where
  "negotiationFailureData proposed supported =
     jput ''supported'' (JArray (map JString supported))
       (jput ''requested'' (JString proposed) empty_object)"


definition negotiationFailureMessage :: "string \<Rightarrow> string list \<Rightarrow> string" where
  "negotiationFailureMessage proposed supported =
     ''Protocol negotiation failed: requested '' @ quote @ proposed @ quote @ '', supported: '' @
     formatVersionList supported"

section \<open>Small operations\<close>

definition session_registerRequestHandler :: "string \<Rightarrow> nat \<Rightarrow> session \<Rightarrow> session" where
  "session_registerRequestHandler m h s = s\<lparr>se_router := registerRequestHandler m h (se_router s)\<rparr>"

definition session_registerNotificationHandler :: "string \<Rightarrow> nat \<Rightarrow> session \<Rightarrow> session" where
  "session_registerNotificationHandler m h s =
     s\<lparr>se_router := registerNotificationHandler m h (se_router s)\<rparr>"

definition attachTransport :: "(message \<Rightarrow> bool) option \<Rightarrow> session \<Rightarrow> session" where
  "attachTransport t s = s\<lparr>se_transport := t\<rparr>"

definition session_start :: "session \<Rightarrow> unit session_result" where
  "session_start s =
     (s, if se_state s \<noteq> kCreated then Inl (LifecycleError ''Session can only be started from Created state'')
         else Inr ())"

definition session_stop :: "session \<Rightarrow> session" where
  "session_stop s = (if se_state s = kStopped then s else s\<lparr>se_state := kStopped\<rparr>)"

definition setRole :: "SessionRole \<Rightarrow> session \<Rightarrow> session" where
  "setRole r s = s\<lparr>se_role := r\<rparr>"

definition negotiatedProtocolVersion :: "session \<Rightarrow> string option" where
  "negotiatedProtocolVersion s = map_option np_protocolVersion (se_negotiated s)"

definition configureServerInitialization ::
  "server_capabilities \<Rightarrow> implementation \<Rightarrow> string option \<Rightarrow> session \<Rightarrow> unit session_result" where
  "configureServerInitialization caps info instructions s =
     (if se_state s \<noteq> kCreated
      then (s, Inl (LifecycleError
        ''Server initialization configuration must be set before the session starts initialization''))
      else (s\<lparr>se_serverCapabilities := caps, se_serverInfo := info, se_serverInstructions := instructions\<rparr>,
            Inr ()))"

section \<open>Outbound requests and notifications\<close>

text \<open>\<open>if (!o.contains(k) || !o[k].is_...()) o[k] = v\<close> for strings and objects.\<close>

definition default_string :: "string \<Rightarrow> string \<Rightarrow> json \<Rightarrow> json" where
  "default_string k v j = (if get_string j k = None then jput k (JString v) j else j)"

definition default_object :: "string \<Rightarrow> json \<Rightarrow> json \<Rightarrow> json" where
  "default_object k v j = (if get_object j k = None then jput k v j else j)"

text \<open>The value of a member known to be present.\<close>

definition member :: "json \<Rightarrow> string \<Rightarrow> json" where
  "member j k = (case jget j k of Some v \<Rightarrow> v | None \<Rightarrow> JNull)"

definition ensureClientInitializeDefaults :: "json \<Rightarrow> string list \<Rightarrow> json" where
  "ensureClientInitializeDefaults params supported =
     (let p0 = (if is_object params then params else empty_object);
          p1 = default_string ''protocolVersion''
                 (case supported of v # _ \<Rightarrow> v | [] \<Rightarrow> kLatestProtocolVersion) p0;
          p2 = default_object ''capabilities'' empty_object p1;
          p3 = default_object ''clientInfo'' empty_object p2;
          info = default_string ''version'' kSdkVersion
                   (default_string ''name'' kDefaultClientName (member p3 ''clientInfo''))
      in jput ''clientInfo'' info p3)"

definition enforceOutboundRequestLifecycle :: "string \<Rightarrow> json \<Rightarrow> session \<Rightarrow> unit session_result" where
  "enforceOutboundRequestLifecycle method params s =
     (case se_role s of
        kClient \<Rightarrow>
          if se_state s = kCreated \<and> method \<noteq> kInitializeMethod
          then (s, Inl (LifecycleError ''Client must send 'initialize' as the first request''))
          else if se_state s = kInitializing \<and> method \<noteq> kPingMethod
          then (s, Inl (LifecycleError
            ''Client can only send 'ping' requests while waiting for initialize response''))
          else if se_state s = kInitialized
          then (s, Inl (LifecycleError ''Client must send 'notifications/initialized' before normal requests''))
          else if method = kInitializeMethod
          then
            if se_state s \<noteq> kCreated
            then (s, Inl (LifecycleError ''Client can only send 'initialize' from Created state''))
            else
              let p = ensureClientInitializeDefaults params (se_supported s) in
              (s\<lparr>se_pendingClientCapabilities := Some (parseClientCapabilities (member p ''capabilities'')),
                 se_pendingClientInfo :=
                   Some (parseImplementation (member p ''clientInfo'') kDefaultClientName kSdkVersion),
                 se_state := kInitializing\<rparr>, Inr ())
          else (s, Inr ())
      | kServer \<Rightarrow>
          if se_state s \<noteq> kOperating \<and> method \<noteq> kPingMethod
          then (s, Inl (LifecycleError
            (''Server cannot send feature requests before receiving 'notifications/initialized'' @ quote)))
          else (s, Inr ()))"

text \<open>\<open>sendRequest\<close> only enforces the lifecycle; its result is a placeholder error response.\<close>

definition placeholder_response :: response where
  "placeholder_response = RError \<lparr>er_jsonrpc = kJsonRpcVersion, er_id = None, er_has_unknown_id = False,
     er_error = \<lparr>err_code = 0, err_message = [], err_data = None\<rparr>, er_additional = empty_object\<rparr>"

definition session_sendRequest :: "string \<Rightarrow> json \<Rightarrow> session \<Rightarrow> response session_result" where
  "session_sendRequest method params s =
     (case enforceOutboundRequestLifecycle method params s of
        (s', Inl e) \<Rightarrow> (s', Inl e)
      | (s', Inr _) \<Rightarrow> (s', Inr placeholder_response))"

text \<open>The transport takes the message or throws.\<close>

definition transport_send :: "message \<Rightarrow> session \<Rightarrow> unit session_result" where
  "transport_send m s =
     (case se_transport s of
        None \<Rightarrow> (s, Inr ())
      | Some t \<Rightarrow> if t m then (s\<lparr>se_sent := se_sent s @ [m]\<rparr>, Inr ()) else (s, Inl TransportError))"

definition session_sendNotification :: "string \<Rightarrow> json option \<Rightarrow> session \<Rightarrow> unit session_result" where
  "session_sendNotification method params s =
     (let send = transport_send (MNotification (new_notification method params)) in
      case se_role s of
        kClient \<Rightarrow>
          if se_state s = kInitialized \<and> method \<noteq> kNotificationInitialized
          then (s, Inl (LifecycleError
            ''Client must send 'notifications/initialized' before other notifications''))
          else if method = kNotificationInitialized
          then
            if se_state s \<noteq> kInitialized
            then (s, Inl (LifecycleError
              ''Client cannot send 'notifications/initialized' before initialize completes''))
            else send (s\<lparr>se_state := kOperating\<rparr>)
          else send s
      | kServer \<Rightarrow>
          if se_state s \<noteq> kOperating \<and> \<not> (se_state s = kInitialized \<and> method = kNotificationMessage)
          then (s, Inl (LifecycleError ''Server cannot send notifications before initialization completes''))
          else send s)"

section \<open>The initialize handshake\<close>

definition handleInitializeRequest :: "request \<Rightarrow> session \<Rightarrow> session \<times> response" where
  "handleInitializeRequest req s =
     (let invalid_request = (\<lambda>msg. (s, error_reply (makeInvalidRequestError None msg) (rq_id req)));
          invalid_params = (\<lambda>d msg. (s, error_reply (makeInvalidParamsError d msg) (rq_id req)))
      in
      if se_role s \<noteq> kServer then invalid_request ''Only a server session can handle initialize requests''
      else if rq_method req \<noteq> kInitializeMethod then invalid_request ''Expected 'initialize' request''
      else if se_state s \<noteq> kCreated then invalid_request ''Initialize must be the first request''
      else
        case rq_params req of
          None \<Rightarrow> invalid_params None ''Missing initialize params object''
        | Some params \<Rightarrow>
            if \<not> is_object params then invalid_params None ''Missing initialize params object''
            else
              (case get_string params ''protocolVersion'' of
                 None \<Rightarrow> invalid_params None ''Missing or invalid protocolVersion''
               | Some proposed \<Rightarrow>
              (case get_object params ''capabilities'' of
                 None \<Rightarrow> invalid_params None ''Missing or invalid capabilities object''
               | Some capsJson \<Rightarrow>
              (case get_object params ''clientInfo'' of
                 None \<Rightarrow> invalid_params None ''Missing or invalid clientInfo object''
               | Some infoJson \<Rightarrow>
              (case selectServerProtocolVersion proposed (se_supported s) of
                 None \<Rightarrow> invalid_params (Some (negotiationFailureData proposed (se_supported s)))
                   (negotiationFailureMessage proposed (se_supported s))
               | Some version \<Rightarrow>
                   (s\<lparr>se_negotiated := Some
                        \<lparr>np_protocolVersion = version,
                         np_clientCapabilities = parseClientCapabilities capsJson,
                         np_serverCapabilities = se_serverCapabilities s,
                         np_clientInfo = parseImplementation infoJson kDefaultClientName kSdkVersion,
                         np_serverInfo = se_serverInfo s, np_instructions = se_serverInstructions s\<rparr>,
                      se_state := kInitialized\<rparr>,
                    new_success (rq_id req)
                      (jput_opt ''instructions'' (map_option JString (se_serverInstructions s))
                        (jput ''serverInfo'' (implementationToJson (se_serverInfo s))
                          (jput ''capabilities'' (serverCapabilitiesToJson (se_serverCapabilities s))
                            (jput ''protocolVersion'' (JString version) empty_object))))))))))"

definition handleInitializeResponse :: "response \<Rightarrow> session \<Rightarrow> unit session_result" where
  "handleInitializeResponse resp s =
     (let fail = (\<lambda>msg. (s\<lparr>se_state := kCreated\<rparr>, Inl (LifecycleError msg))) in
      if se_role s \<noteq> kClient
      then (s, Inl (LifecycleError ''Only a client session can handle initialize responses''))
      else if se_state s \<noteq> kInitializing
      then (s, Inl (LifecycleError ''Received initialize response while session is not initializing''))
      else
        case resp of
          RError e \<Rightarrow>
            fail (''Initialize failed'' @
              (if err_message (er_error e) = [] then [] else '': '' @ err_message (er_error e)))
        | RSuccess r \<Rightarrow>
            (case get_string (sr_result r) ''protocolVersion'' of
               None \<Rightarrow> fail (''Initialize response missing required 'protocolVersion'' @ quote)
             | Some version \<Rightarrow>
                 if \<not> isVersionSupported (se_supported s) version
                 then fail (''Server selected unsupported protocol version '' @ quote @ version @ quote @
                        ''. Client supports: ['' @ joinedVersions (se_supported s) @ '']'')
                 else
                   (case get_object (sr_result r) ''capabilities'' of
                      None \<Rightarrow> fail ''Initialize response missing required 'capabilities' object''
                    | Some capsJson \<Rightarrow>
                   (case get_object (sr_result r) ''serverInfo'' of
                      None \<Rightarrow> fail ''Initialize response missing required 'serverInfo' object''
                    | Some infoJson \<Rightarrow>
                        session_sendNotification kNotificationInitialized None
                          (s\<lparr>se_negotiated := Some
                               \<lparr>np_protocolVersion = version,
                                np_clientCapabilities = (case se_pendingClientCapabilities s of
                                    Some c \<Rightarrow> c | None \<Rightarrow> no_client_capabilities),
                                np_serverCapabilities = parseServerCapabilities capsJson,
                                np_clientInfo = (case se_pendingClientInfo s of
                                    Some i \<Rightarrow> i | None \<Rightarrow> new_implementation kDefaultClientName kSdkVersion),
                                np_serverInfo = parseImplementation infoJson kDefaultServerName kSdkVersion,
                                np_instructions = get_string (sr_result r) ''instructions''\<rparr>,
                             se_pendingClientCapabilities := None, se_pendingClientInfo := None,
                             se_state := kInitialized\<rparr>)))))"

definition handleInitializedNotification :: "session \<Rightarrow> session" where
  "handleInitializedNotification s =
     (if se_state s = kInitialized then s\<lparr>se_state := kOperating\<rparr> else s)"

section \<open>Gates\<close>

definition canHandleRequest :: "string \<Rightarrow> session \<Rightarrow> bool" where
  "canHandleRequest method s =
     (if se_role s = kServer \<and> se_state s \<noteq> kOperating
      then
        if method = kInitializeMethod then se_state s = kCreated
        else if method = kPingMethod then True
        else if method = kLoggingSetLevelMethod then se_state s = kInitialized
        else False
      else True)"

definition canSendRequest :: "string \<Rightarrow> session \<Rightarrow> bool" where
  "canSendRequest method s =
     (if se_role s = kClient \<and> se_state s = kCreated then method = kInitializeMethod
      else if se_role s = kClient \<and> se_state s = kInitializing then method = kPingMethod
      else if se_role s = kClient \<and> se_state s = kInitialized then False
      else if se_role s = kServer \<and> se_state s \<noteq> kOperating then method = kPingMethod
      else True)"

definition canSendNotification :: "string \<Rightarrow> session \<Rightarrow> bool" where
  "canSendNotification method s =
     (if se_role s = kClient \<and> method = kNotificationInitialized then se_state s = kInitialized
      else if se_role s = kClient \<and> se_state s = kInitialized then False
      else if se_role s = kServer \<and> method = kNotificationMessage
      then se_state s = kInitialized \<or> se_state s = kOperating
      else se_role s \<noteq> kServer \<or> se_state s = kOperating)"

definition client_hasCapability :: "client_capabilities \<Rightarrow> string \<Rightarrow> bool" where
  "client_hasCapability c capability \<longleftrightarrow>
     capability = ''roots'' \<and> cc_roots c \<noteq> None \<or> capability = ''sampling'' \<and> cc_sampling c \<noteq> None
   \<or> capability = ''elicitation'' \<and> cc_elicitation c \<noteq> None \<or> capability = ''tasks'' \<and> cc_tasks c \<noteq> None
   \<or> capability = ''experimental'' \<and> cc_experimental c \<noteq> None"

definition server_hasCapability :: "server_capabilities \<Rightarrow> string \<Rightarrow> bool" where
  "server_hasCapability c capability \<longleftrightarrow>
     capability = ''logging'' \<and> sc_logging c \<noteq> None \<or> capability = ''completions'' \<and> sc_completions c \<noteq> None
   \<or> capability = ''prompts'' \<and> sc_prompts c \<noteq> None \<or> capability = ''resources'' \<and> sc_resources c \<noteq> None
   \<or> capability = ''tools'' \<and> sc_tools c \<noteq> None \<or> capability = ''tasks'' \<and> sc_tasks c \<noteq> None
   \<or> capability = ''experimental'' \<and> sc_experimental c \<noteq> None"

definition checkCapability :: "string \<Rightarrow> session \<Rightarrow> bool" where
  "checkCapability capability s =
     (case se_negotiated s of
        None \<Rightarrow> False
      | Some n \<Rightarrow>
          (case se_role s of
             kServer \<Rightarrow> client_hasCapability (np_clientCapabilities n) capability
           | kClient \<Rightarrow> server_hasCapability (np_serverCapabilities n) capability))"

end
