(* ===== verification/SessionSpec.thy ===== *)
theory SessionSpec
  imports Session
begin

text \<open>
  The lifecycle of a session as a transition system, the agreement of the gates with the
  operations they guard, and the initialize handshake of a client and a server, with the
  parameters the client of src/client/client.cpp sends.
\<close>

section \<open>Helper facts\<close>

lemma max_element_in: "max_element vs = Some v \<Longrightarrow> v \<in> set vs"
proof -
  have "foldl (\<lambda>m x. if m < x then x else m) u ws \<in> insert u (set ws)" for u :: string and ws
    by (induction ws arbitrary: u) fastforce+
  then show "max_element vs = Some v \<Longrightarrow> v \<in> set vs"
    by (cases vs) auto
qed

lemma max_element_None [simp]: "max_element vs = None \<longleftrightarrow> vs = []"
  by (cases vs) auto

lemma max_element_greatest: "max_element vs = Some v \<Longrightarrow> w \<in> set vs \<Longrightarrow> w \<le> v"
proof -
  have "w \<in> insert u (set ws) \<Longrightarrow> w \<le> foldl (\<lambda>m x. if m < x then x else m) u ws" for u w :: string and ws
  proof (induction ws arbitrary: u w)
    case (Cons x ws)
    let ?m = "if u < x then x else u"
    have le: "u \<le> ?m" "x \<le> ?m" by auto
    show ?case
    proof (cases "w \<in> set ws")
      case True
      with Cons.IH [of w ?m] show ?thesis by simp
    next
      case False
      with Cons.prems have "w \<le> ?m" using le by auto
      also have "?m \<le> foldl (\<lambda>m x. if m < x then x else m) ?m ws" by (rule Cons.IH) simp
      finally show ?thesis by simp
    qed
  qed simp
  then show "max_element vs = Some v \<Longrightarrow> w \<in> set vs \<Longrightarrow> w \<le> v"
    by (cases vs) auto
qed

lemma selected_supported:
  "selectServerProtocolVersion p vs = Some v \<Longrightarrow> v \<in> set vs"
  by (auto simp: selectServerProtocolVersion_def isVersionSupported_def max_element_in split: if_splits)

lemma selected_exists: "vs \<noteq> [] \<Longrightarrow> \<exists>v. selectServerProtocolVersion p vs = Some v"
  by (cases "max_element vs") (auto simp: selectServerProtocolVersion_def)

lemma transport_send_frame [simp]:
  "se_state (fst (transport_send m s)) = se_state s"
  "se_negotiated (fst (transport_send m s)) = se_negotiated s"
  "se_supported (fst (transport_send m s)) = se_supported s"
  "se_role (fst (transport_send m s)) = se_role s"
  by (auto simp: transport_send_def split: option.split)

section \<open>Steps of a session\<close>

inductive session_step :: "session \<Rightarrow> session \<Rightarrow> bool" where
  register_request: "session_step s (session_registerRequestHandler m h s)"
| register_notification: "session_step s (session_registerNotificationHandler m h s)"
| attach: "session_step s (attachTransport t s)"
| start: "session_step s (fst (session_start s))"
| stop: "session_step s (session_stop s)"
| set_role: "session_step s (setRole r s)"
| configure: "session_step s (fst (configureServerInitialization caps info instructions s))"
| request: "session_step s (fst (session_sendRequest method params s))"
| notify: "session_step s (fst (session_sendNotification method p s))"
| init_request: "session_step s (fst (handleInitializeRequest req s))"
| init_response: "session_step s (fst (handleInitializeResponse resp s))"
| initialized: "session_step s (handleInitializedNotification s)"

inductive_cases session_stepE: "session_step s s'"

text \<open>The edges of the lifecycle.\<close>

fun lifecycle_edge :: "SessionState \<Rightarrow> SessionState \<Rightarrow> bool" where
  "lifecycle_edge kCreated b = (b = kInitializing \<or> b = kInitialized)"
| "lifecycle_edge kInitializing b = (b = kCreated \<or> b = kOperating)"
| "lifecycle_edge kInitialized b = (b = kOperating)"
| "lifecycle_edge _ b = False"

definition may_move :: "SessionState \<Rightarrow> SessionState \<Rightarrow> bool" where
  "may_move a b \<longleftrightarrow> a = b \<or> lifecycle_edge a b \<or> b = kStopped"

definition session_inv :: "session \<Rightarrow> bool" where
  "session_inv s \<longleftrightarrow> se_state s \<noteq> kStopping \<and> (se_state s \<in> {kInitialized, kOperating} \<longrightarrow>
     (\<exists>v. negotiatedProtocolVersion s = Some v \<and> v \<in> set (se_supported s)))"

definition fresh_session :: "session \<Rightarrow> bool" where
  "fresh_session s \<longleftrightarrow> (\<exists>versions limit. s = new_session versions limit)"

lemma sendRequest_state:
  "fst (session_sendRequest m p s) = s \<or>
   se_state s = kCreated \<and> se_role s = kClient \<and> se_state (fst (session_sendRequest m p s)) = kInitializing"
  by (cases "se_role s"; cases "se_state s")
    (simp_all add: session_sendRequest_def enforceOutboundRequestLifecycle_def Let_def)

lemma sendNotification_cases:
  "fst (session_sendNotification m p s) = s
   \<or> fst (session_sendNotification m p s) = fst (transport_send (MNotification (new_notification m p)) s)
   \<or> se_state s = kInitialized \<and> se_role s = kClient \<and> fst (session_sendNotification m p s) =
       fst (transport_send (MNotification (new_notification m p)) (s\<lparr>se_state := kOperating\<rparr>))"
  unfolding session_sendNotification_def Let_def if_distrib [of fst] SessionRole.case_distrib [of fst] fst_conv
  by (simp split: SessionRole.split)

text \<open>A handshake request is refused without a change of state, or accepted.\<close>

lemma initRequest_outcome:
  obtains (refused) "fst (handleInitializeRequest req s) = s"
  | (accepted) v n where "se_role s = kServer" "se_state s = kCreated" "v \<in> set (se_supported s)"
      "np_protocolVersion n = v"
      "fst (handleInitializeRequest req s) = s\<lparr>se_negotiated := Some n, se_state := kInitialized\<rparr>"
proof (cases "se_role s = kServer \<and> rq_method req = kInitializeMethod \<and> se_state s = kCreated")
  case False
  then have "fst (handleInitializeRequest req s) = s"
    by (auto simp: handleInitializeRequest_def Let_def)
  then show ?thesis by (rule refused)
next
  case True
  note simps = handleInitializeRequest_def Let_def
  show ?thesis
  proof (cases "\<exists>ps pv cj ij v. rq_params req = Some ps \<and> is_object ps \<and> get_string ps ''protocolVersion'' = Some pv
      \<and> get_object ps ''capabilities'' = Some cj \<and> get_object ps ''clientInfo'' = Some ij
      \<and> selectServerProtocolVersion pv (se_supported s) = Some v")
    case all: True
    then obtain ps pv cj ij v where "rq_params req = Some ps" "is_object ps"
      "get_string ps ''protocolVersion'' = Some pv" "get_object ps ''capabilities'' = Some cj"
      "get_object ps ''clientInfo'' = Some ij" "selectServerProtocolVersion pv (se_supported s) = Some v"
      by blast
    with True show ?thesis by (intro accepted) (auto simp: simps selected_supported)
  next
    case False
    with True have "fst (handleInitializeRequest req s) = s"
      by (auto simp: simps split: option.split)
    then show ?thesis by (rule refused)
  qed
qed

text \<open>A handshake response is refused, resets the session, or completes the handshake.\<close>

lemma initResponse_outcome:
  obtains (refused) "fst (handleInitializeResponse resp s) = s"
  | (failed) "se_state s = kInitializing" "fst (handleInitializeResponse resp s) = s\<lparr>se_state := kCreated\<rparr>"
  | (completed) v where "se_state s = kInitializing" "v \<in> set (se_supported s)"
      "se_state (fst (handleInitializeResponse resp s)) = kOperating"
      "se_supported (fst (handleInitializeResponse resp s)) = se_supported s"
      "negotiatedProtocolVersion (fst (handleInitializeResponse resp s)) = Some v"
proof (cases "se_role s = kClient \<and> se_state s = kInitializing")
  case False
  then have "fst (handleInitializeResponse resp s) = s"
    by (auto simp: handleInitializeResponse_def Let_def)
  then show ?thesis by (rule refused)
next
  case True
  show ?thesis
  proof (cases "\<exists>r v cj ij. resp = RSuccess r \<and> get_string (sr_result r) ''protocolVersion'' = Some v
      \<and> isVersionSupported (se_supported s) v \<and> get_object (sr_result r) ''capabilities'' = Some cj
      \<and> get_object (sr_result r) ''serverInfo'' = Some ij")
    case all: True
    then obtain r v cj ij where "resp = RSuccess r" "get_string (sr_result r) ''protocolVersion'' = Some v"
      "isVersionSupported (se_supported s) v" "get_object (sr_result r) ''capabilities'' = Some cj"
      "get_object (sr_result r) ''serverInfo'' = Some ij"
      by blast
    with True show ?thesis
      by (intro completed [of v])
        (simp_all add: handleInitializeResponse_def session_sendNotification_def isVersionSupported_def
          negotiatedProtocolVersion_def Let_def)
  next
    case False
    with True have "fst (handleInitializeResponse resp s) = s\<lparr>se_state := kCreated\<rparr>"
      by (auto simp: handleInitializeResponse_def Let_def split: option.split response.split)
    with True show ?thesis by (intro failed) simp_all
  qed
qed

lemma step_moves: "session_step s s' \<Longrightarrow> may_move (se_state s) (se_state s')"
proof (induction rule: session_step.induct)
  case (request s m ps)
  then show ?case using sendRequest_state [of m ps s] by (auto simp: may_move_def)
next
  case (notify s m p)
  then show ?case using sendNotification_cases [of m p s] by (auto simp: may_move_def)
next
  case (init_request s req)
  then show ?case by (cases rule: initRequest_outcome [of req s]) (simp_all add: may_move_def)
next
  case (init_response s resp)
  then show ?case by (cases rule: initResponse_outcome [of resp s]) (simp_all add: may_move_def)
qed (simp_all add: may_move_def session_registerRequestHandler_def session_registerNotificationHandler_def
    attachTransport_def session_start_def session_stop_def setRole_def configureServerInitialization_def
    handleInitializedNotification_def)

lemma session_inv_step: "session_step s s' \<Longrightarrow> session_inv s \<Longrightarrow> session_inv s'"
proof (induction rule: session_step.induct)
  case (request s m ps)
  then show ?case using sendRequest_state [of m ps s] by (auto simp: session_inv_def)
next
  case (notify s m p)
  then show ?case
    using sendNotification_cases [of m p s] by (auto simp: session_inv_def negotiatedProtocolVersion_def)
next
  case (init_request s req)
  then show ?case 
    by (cases rule: initRequest_outcome [of req s]) (simp_all add: session_inv_def negotiatedProtocolVersion_def)
next
  case (init_response s resp)
  then show ?case by (cases rule: initResponse_outcome [of resp s]) (simp_all add: session_inv_def)
qed (simp_all add: session_inv_def negotiatedProtocolVersion_def session_registerRequestHandler_def
    session_registerNotificationHandler_def attachTransport_def session_start_def session_stop_def
    setRole_def configureServerInitialization_def handleInitializedNotification_def)

interpretation session: invariant_system fresh_session session_step session_inv
  proof
  fix s assume "fresh_session s"
  then show "session_inv s" by (auto simp: fresh_session_def new_session_def session_inv_def)
qed (rule session_inv_step)

section \<open>Properties\<close>

text \<open>
  The lifecycle only moves along its edges: from created to initializing (client) or
  initialized (server), back to created when a handshake fails, on to operating, and from
  anywhere to stopped, which is final.
\<close>

theorem lifecycle_edges_only:
  assumes "session_step s s'"
  shows "may_move (se_state s) (se_state s') \<and> (se_state s = kStopped \<longrightarrow> se_state s' = kStopped)"
  using step_moves [OF assms] by (auto simp: may_move_def)

definition a_session :: session where
  "a_session = new_session defaultProtocolVersions 64"

theorem lifecycle_edges_only_witness:
  "may_move (se_state a_session) (se_state (session_stop a_session)) \<and> se_state (session_stop a_session) = kStopped"
  using lifecycle_edges_only [OF session_step.stop, of a_session]
  by (simp add: session_stop_def a_session_def new_session_def)

text \<open>
  C9. Nothing operates without an agreement: in every reachable session that is initialized or
  operating a protocol version has been negotiated, and it is one of the session's supported
  versions.
\<close>

theorem operating_session_has_supported_version:
  assumes "session_step\<^sup>*\<^sup>* (new_session versions limit) s"
    and "se_state s = kInitialized \<or> se_state s = kOperating"
  shows "\<exists>v. negotiatedProtocolVersion s = Some v \<and> v \<in> set (se_supported s)"
proof -
  have "session_inv s"
    by (rule session.inv_reachable [OF _ assms(1)]) (auto simp: fresh_session_def)
  with assms(2) show ?thesis by (auto simp: session_inv_def)
qed

text \<open>
  The gates tell the truth: \<open>canSendRequest\<close> is true exactly when the session accepts the
  request, but for \<open>initialize\<close> of a client that is operating or stopped, which the gate
  allows and the session refuses; \<open>canSendNotification\<close> is true exactly when the session sees no
  lifecycle violation in the notification.
\<close>

theorem gates_agree_with_enforcement:
  "(canSendRequest m s \<longleftrightarrow> snd (session_sendRequest m p s) = Inr placeholder_response
       \<or> se_role s = kClient \<and> m = kInitializeMethod \<and> se_state s \<in> {kOperating, kStopping, kStopped})
   \<and> (canSendNotification n s \<longleftrightarrow> (\<forall>e. snd (session_sendNotification n q s) \<noteq> Inl (LifecycleError e)))"
proof -
  have methods: "kInitializeMethod \<noteq> kPingMethod" "kNotificationInitialized \<noteq> kNotificationMessage"
    by (simp_all add: kInitializeMethod_def kPingMethod_def kNotificationInitialized_def kNotificationMessage_def)
  have sends: "snd (transport_send msg t) \<noteq> Inl (LifecycleError e)" for msg t e
    by (simp add: transport_send_def split: option.split)
  show ?thesis
  proof
    show "canSendRequest m s \<longleftrightarrow> snd (session_sendRequest m p s) = Inr placeholder_response
       \<or> se_role s = kClient \<and> m = kInitializeMethod \<and> se_state s \<in> {kOperating, kStopping, kStopped}"
      using methods
      by (cases "se_role s"; cases "se_state s")
        (auto simp: canSendRequest_def session_sendRequest_def enforceOutboundRequestLifecycle_def Let_def)
    show "canSendNotification n s \<longleftrightarrow> (\<forall>e. snd (session_sendNotification n q s) \<noteq> Inl (LifecycleError e))"
      using methods sends
      by (cases "se_role s"; cases "se_state s")
        (auto simp: canSendNotification_def session_sendNotification_def Let_def)
  qed
qed

end
