(* ===== verification/Handshake.thy ===== *)
theory Handshake
  imports SessionSpec
begin

text \<open>
  The initialize handshake of a client with a server: the parameters \<open>Client::sendRequest\<close> fills
  in (\<open>applyInitializeDefaults\<close> of src/client/client.cpp), the two sessions, and the order of
  calls that src/client/client.cpp and src/server/server.cpp make on them.
\<close>

section \<open>The client's parameters\<close>

record client_configuration =
  ci_protocolVersion :: "string option"
  ci_capabilities :: "client_capabilities option"
  ci_clientInfo :: "implementation option"

definition latestSupportedVersion :: "string list \<Rightarrow> string" where
  "latestSupportedVersion versions =
     (case max_element versions of None \<Rightarrow> kLatestProtocolVersion | Some v \<Rightarrow> v)"

definition applyInitializeDefaults :: "client_configuration \<Rightarrow> string list \<Rightarrow> json option \<Rightarrow> json" where
  "applyInitializeDefaults cfg supported given =
     (let p0 = (case given of Some p \<Rightarrow> if is_object p then p else empty_object | None \<Rightarrow> empty_object);
          p1 = default_string ''protocolVersion''
                 (case ci_protocolVersion cfg of Some v \<Rightarrow> v | None \<Rightarrow> latestSupportedVersion supported) p0;
          p2 = default_object ''capabilities''
                 (case ci_capabilities cfg of Some c \<Rightarrow> clientCapabilitiesToJson c | None \<Rightarrow> empty_object) p1
      in default_object ''clientInfo'' (implementationToJson
           (case ci_clientInfo cfg of Some i \<Rightarrow> i
            | None \<Rightarrow> new_implementation kDefaultClientName kSdkVersion)) p2)"

section \<open>The exchange\<close>

text \<open>
  The client sends \<open>initialize\<close>, the server answers, the client takes the answer (and sends
  \<open>notifications/initialized\<close> when it accepts), and the server takes that notification. The last
  component is what the client's handling of the answer returned or threw.
\<close>

definition run_handshake ::
  "client_configuration \<Rightarrow> request_id \<Rightarrow> session \<Rightarrow> session \<Rightarrow> session \<times> session \<times> (session_error + unit)" where
  "run_handshake cfg i client server =
     (let params = applyInitializeDefaults cfg (se_supported client) None in
      case session_sendRequest kInitializeMethod params client of
        (client1, Inl e) \<Rightarrow> (client1, server, Inl e)
      | (client1, Inr _) \<Rightarrow>
          let (server1, resp) = handleInitializeRequest (new_request i kInitializeMethod (Some params)) server;
              (client2, outcome) = handleInitializeResponse resp client1
          in (client2,
              case outcome of Inr _ \<Rightarrow> handleInitializedNotification server1 | Inl _ \<Rightarrow> server1,
              outcome))"

text \<open>The parties before the handshake.\<close>

definition ready_client :: "session \<Rightarrow> bool" where
  "ready_client s \<longleftrightarrow> se_role s = kClient \<and> se_state s = kCreated
     \<and> se_transport s = Some (\<lambda>_. True)"

definition ready_server :: "session \<Rightarrow> bool" where
  "ready_server s \<longleftrightarrow> se_role s = kServer \<and> se_state s = kCreated \<and> se_supported s \<noteq> []
     \<and> server_expressible (se_serverCapabilities s)"

section \<open>What each side reads\<close>

lemma default_simps [simp]:
  "is_object (default_string k v j) = is_object j" "is_object (default_object k w j) = is_object j"
  by (simp_all add: default_string_def default_object_def)

lemma apply_defaults_members:
  assumes p_def: "p = applyInitializeDefaults cfg vs None"
  shows "is_object p"
    "get_string p ''protocolVersion'' = Some (case ci_protocolVersion cfg of Some v \<Rightarrow> v | None \<Rightarrow> latestSupportedVersion vs)"
    "get_object p ''capabilities'' = Some (case ci_capabilities cfg of
        Some c \<Rightarrow> clientCapabilitiesToJson c | None \<Rightarrow> empty_object)"
    "get_object p ''clientInfo'' = Some (implementationToJson (case ci_clientInfo cfg of Some i \<Rightarrow> i
        | None \<Rightarrow> new_implementation kDefaultClientName kSdkVersion))"
  by (simp_all add: p_def applyInitializeDefaults_def default_string_def default_object_def get_kind_defs
      clientCapabilitiesToJson_def implementationToJson_def Let_def split: option.split)

text \<open>Complete parameters pass through the session's own defaults unchanged.\<close>

lemma ensure_defaults_complete:
  assumes "is_object p" and "get_string p ''protocolVersion'' = Some v" and "get_object p ''capabilities'' = Some c"
    and "get_object p ''clientInfo'' = Some (implementationToJson i)"
  shows "member (ensureClientInitializeDefaults p vs) ''capabilities'' = c"
    "member (ensureClientInitializeDefaults p vs) ''clientInfo'' = implementationToJson i"
proof -
  have m: "jget p ''capabilities'' = Some c" "jget p ''clientInfo'' = Some (implementationToJson i)"
    using assms(3,4) by (auto simp: get_object_def split: option.splits if_splits)
  have i: "get_string (implementationToJson i) ''name'' = Some (im_name i)"
    "get_string (implementationToJson i) ''version'' = Some (im_version i)"
    by (simp_all add: implementationToJson_def get_kind_defs)
  show "member (ensureClientInitializeDefaults p vs) ''capabilities'' = c"
    "member (ensureClientInitializeDefaults p vs) ''clientInfo'' = implementationToJson i"
    using assms m i
    by (simp_all add: ensureClientInitializeDefaults_def default_string_def default_object_def member_def
        Let_def)
qed

lemma implementation_default [simp]:
  "im_name (new_implementation n v) = n" "im_version (new_implementation n v) = v"
  by (simp_all add: new_implementation_def)

section \<open>The handshake agrees\<close>

text \<open>The terms both sides end up with.\<close>

definition agreed :: "client_configuration \<Rightarrow> session \<Rightarrow> string \<Rightarrow> negotiated_parameters" where
  "agreed cfg server version =
     \<lparr>np_protocolVersion = version,
      np_clientCapabilities = parseClientCapabilities (case ci_capabilities cfg of
          Some c \<Rightarrow> clientCapabilitiesToJson c | None \<Rightarrow> empty_object),
      np_serverCapabilities = se_serverCapabilities server,
      np_clientInfo = (case ci_clientInfo cfg of Some i \<Rightarrow> i
          | None \<Rightarrow> new_implementation kDefaultClientName kSdkVersion),
      np_serverInfo = se_serverInfo server, np_instructions = se_serverInstructions server\<rparr>"

lemma client_sends:
  assumes "ready_client client"
    and p_def: "p = applyInitializeDefaults cfg (se_supported client) None"
  shows "session_sendRequest kInitializeMethod p client =
    (client\<lparr>se_pendingClientCapabilities := Some (np_clientCapabilities (agreed cfg server v)),
       se_pendingClientInfo := Some (np_clientInfo (agreed cfg server v)), se_state := kInitializing\<rparr>,
     Inr placeholder_response)"
proof -
  note members = apply_defaults_members [OF p_def]
  note m = ensure_defaults_complete [OF members, of "se_supported client"]
  show ?thesis
    using assms(1)
    by (simp add: session_sendRequest_def enforceOutboundRequestLifecycle_def ready_client_def m agreed_def
        implementation_roundtrip Let_def)
qed

lemma server_answers:
  assumes "ready_server server"
    and v: "selectServerProtocolVersion (case ci_protocolVersion cfg of Some v \<Rightarrow> v
        | None \<Rightarrow> latestSupportedVersion vs) (se_supported server) = Some v"
    and p_def: "p = applyInitializeDefaults cfg vs None"
  shows "handleInitializeRequest (new_request i kInitializeMethod (Some p)) server =
    (server\<lparr>se_negotiated := Some (agreed cfg server v), se_state := kInitialized\<rparr>,
     new_success i (jput_opt ''instructions'' (map_option JString (se_serverInstructions server))
       (jput ''serverInfo'' (implementationToJson (se_serverInfo server))
         (jput ''capabilities'' (serverCapabilitiesToJson (se_serverCapabilities server))
           (jput ''protocolVersion'' (JString v) empty_object)))))"
  using assms(1) v apply_defaults_members [OF p_def]
  by (simp add: handleInitializeRequest_def ready_server_def new_request_def agreed_def
      implementation_roundtrip Let_def)

lemma answer_members:
  fixes server :: session and v :: string
  assumes "server_expressible (se_serverCapabilities server)"
    and r: "r = jput_opt ''instructions'' (map_option JString (se_serverInstructions server))
       (jput ''serverInfo'' (implementationToJson (se_serverInfo server))
         (jput ''capabilities'' (serverCapabilitiesToJson (se_serverCapabilities server))
           (jput ''protocolVersion'' (JString v) empty_object)))"
  shows "get_string r ''protocolVersion'' = Some v"
    "get_string r ''instructions'' = se_serverInstructions server"
    "get_object r ''capabilities'' = Some (serverCapabilitiesToJson (se_serverCapabilities server))"
    "get_object r ''serverInfo'' = Some (implementationToJson (se_serverInfo server))"
    "parseServerCapabilities (serverCapabilitiesToJson (se_serverCapabilities server)) = se_serverCapabilities server"
  using server_capabilities_roundtrip [OF assms(1)]
  by (simp_all add: r get_kind_defs serverCapabilitiesToJson_def implementationToJson_def split: option.split)

definition initialized_notification :: message where
  "initialized_notification = MNotification (new_notification kNotificationInitialized None)"

lemma client_takes:
  assumes "ready_client client" and "ready_server server"
    and "c = client\<lparr>se_pendingClientCapabilities := Some (np_clientCapabilities (agreed cfg server v)),
       se_pendingClientInfo := Some (np_clientInfo (agreed cfg server v)), se_state := kInitializing\<rparr>"
    and r: "r = jput_opt ''instructions'' (map_option JString (se_serverInstructions server))
       (jput ''serverInfo'' (implementationToJson (se_serverInfo server))
         (jput ''capabilities'' (serverCapabilitiesToJson (se_serverCapabilities server))
           (jput ''protocolVersion'' (JString v) empty_object)))"
  shows "v \<in> set (se_supported client) \<Longrightarrow> handleInitializeResponse (new_success i r) c =
      (client\<lparr>se_pendingClientCapabilities := None, se_pendingClientInfo := None, se_state := kOperating,
         se_negotiated := Some (agreed cfg server v), se_sent := se_sent client @ [initialized_notification]\<rparr>,
       Inr ())"
    and "v \<notin> set (se_supported client) \<Longrightarrow> \<exists>msg. handleInitializeResponse (new_success i r) c =
      (c\<lparr>se_state := kCreated\<rparr>, Inl (LifecycleError msg))"
proof -
  have ok: "server_expressible (se_serverCapabilities server)" using assms(2) by (simp add: ready_server_def)
  note m = answer_members [OF ok r]
  have role: "se_role c = kClient" "se_state c = kInitializing" "se_supported c = se_supported client"
    using assms(1,3) by (simp_all add: ready_client_def)
  show "v \<in> set (se_supported client) \<Longrightarrow> handleInitializeResponse (new_success i r) c =
      (client\<lparr>se_pendingClientCapabilities := None, se_pendingClientInfo := None, se_state := kOperating,
         se_negotiated := Some (agreed cfg server v), se_sent := se_sent client @ [initialized_notification]\<rparr>,
       Inr ())"
    using assms(1)
    by (simp add: assms(3) handleInitializeResponse_def new_success_def isVersionSupported_def m ready_client_def
        implementation_roundtrip session_sendNotification_def transport_send_def initialized_notification_def
        agreed_def Let_def)
  show "v \<notin> set (se_supported client) \<Longrightarrow> \<exists>msg. handleInitializeResponse (new_success i r) c =
      (c\<lparr>se_state := kCreated\<rparr>, Inl (LifecycleError msg))"
    using role by (simp add: handleInitializeResponse_def new_success_def isVersionSupported_def m Let_def)
qed

text \<open>
  C8. The handshake of a ready client and a ready server settles both. The server proposes the
  client's version if it supports it and its own greatest version otherwise. When the client
  supports that version, both sessions operate and hold the same negotiated parameters: the
  version, the capabilities and metadata each side configured, and the server's instructions.
  Otherwise the client is back in the created state with a lifecycle error and has agreed to
  nothing.
\<close>

theorem handshake_agrees:
  assumes "ready_client client" and "ready_server server"
  shows "\<exists>v. selectServerProtocolVersion (case ci_protocolVersion cfg of Some u \<Rightarrow> u
        | None \<Rightarrow> latestSupportedVersion (se_supported client)) (se_supported server) = Some v
    \<and> v \<in> set (se_supported server)
    \<and> (case run_handshake cfg i client server of (client', server', outcome) \<Rightarrow>
        if v \<in> set (se_supported client)
        then outcome = Inr () \<and> se_state client' = kOperating \<and> se_state server' = kOperating
          \<and> se_negotiated client' = Some (agreed cfg server v) \<and> se_negotiated server' = se_negotiated client'
          \<and> se_sent client' = se_sent client @ [initialized_notification]
        else (\<exists>msg. outcome = Inl (LifecycleError msg)) \<and> se_state client' = kCreated
          \<and> se_negotiated client' = se_negotiated client \<and> se_sent client' = se_sent client)"
proof -
  from assms(2) have "se_supported server \<noteq> []" by (simp add: ready_server_def)
  then obtain v where v: "selectServerProtocolVersion (case ci_protocolVersion cfg of Some u \<Rightarrow> u
        | None \<Rightarrow> latestSupportedVersion (se_supported client)) (se_supported server) = Some v"
    using selected_exists by blast
  note send = client_sends [OF assms(1) refl, of cfg server v]
    and answer = server_answers [OF assms(2) v refl, of i]
  show ?thesis
  proof (cases "v \<in> set (se_supported client)")
    case True
    note take = client_takes(1) [OF assms refl refl True]
    from v selected_supported [OF v] True show ?thesis
      by (simp add: run_handshake_def Let_def send answer take handleInitializedNotification_def)
  next
    case False
    from client_takes(2) [OF assms refl refl False] obtain msg where
      take: "handleInitializeResponse (new_success i (jput_opt ''instructions'' (map_option JString (se_serverInstructions server))
       (jput ''serverInfo'' (implementationToJson (se_serverInfo server))
         (jput ''capabilities'' (serverCapabilitiesToJson (se_serverCapabilities server))
           (jput ''protocolVersion'' (JString v) empty_object)))))
       (client\<lparr>se_pendingClientCapabilities := Some (np_clientCapabilities (agreed cfg server v)),
       se_pendingClientInfo := Some (np_clientInfo (agreed cfg server v)), se_state := kInitializing\<rparr>) =
       (client\<lparr>se_pendingClientCapabilities := Some (np_clientCapabilities (agreed cfg server v)),
       se_pendingClientInfo := Some (np_clientInfo (agreed cfg server v)), se_state := kCreated\<rparr>,
        Inl (LifecycleError msg))" by force
    from v selected_supported [OF v] False show ?thesis
      by (simp add: run_handshake_def Let_def send answer take)
  qed
qed

definition sample_pair :: "session \<times> session" where
  "sample_pair =
     (attachTransport (Some (\<lambda>_. True)) (new_session defaultProtocolVersions 64),
      setRole kServer (new_session [''2024-11-05'', ''2025-06-18''] 64))"

theorem handshake_agrees_witness:
  "case run_handshake \<lparr>ci_protocolVersion = None, ci_capabilities = None, ci_clientInfo = None\<rparr> (IntId 1)
      (fst sample_pair) (snd sample_pair) of (client', server', outcome) \<Rightarrow>
     se_state client' = kOperating \<and> se_state server' = kOperating
   \<and> negotiatedProtocolVersion client' = Some ''2025-06-18''"
proof -
  let ?cfg = "\<lparr>ci_protocolVersion = None, ci_capabilities = None, ci_clientInfo = None\<rparr>"
  have ready: "ready_client (fst sample_pair)" "ready_server (snd sample_pair)"
    by (simp_all add: ready_client_def ready_server_def sample_pair_def attachTransport_def setRole_def
        new_session_def server_expressible_def experimental_ok_def no_server_capabilities_def)
  have sel: "selectServerProtocolVersion (latestSupportedVersion (se_supported (fst sample_pair)))
      (se_supported (snd sample_pair)) = Some ''2025-06-18''"
    by (simp add: sample_pair_def attachTransport_def setRole_def new_session_def
        selectServerProtocolVersion_def isVersionSupported_def latestSupportedVersion_def
        defaultProtocolVersions_def kLatestProtocolVersion_def less_char_def)
  have "''2025-06-18'' \<in> set (se_supported (fst sample_pair))"
    by (simp add: sample_pair_def attachTransport_def new_session_def defaultProtocolVersions_def)
  with handshake_agrees [OF ready, of ?cfg "IntId 1"] sel show ?thesis
    by (auto simp: negotiatedProtocolVersion_def agreed_def split: prod.splits)
qed

text \<open>The negotiated version of a server that has answered.\<close>

definition answered_server :: session where
  "answered_server = fst (handleInitializeRequest (new_request (IntId 1) kInitializeMethod
     (Some (applyInitializeDefaults \<lparr>ci_protocolVersion = Some ''2025-06-18'', ci_capabilities = None,
        ci_clientInfo = None\<rparr> [] None))) (snd sample_pair))"

theorem operating_session_has_supported_version_witness:
  "se_state answered_server = kInitialized
   \<and> (\<exists>v. negotiatedProtocolVersion answered_server = Some v \<and> v \<in> set (se_supported answered_server))"
proof -
  have ready: "ready_server (snd sample_pair)"
    by (simp add: ready_server_def sample_pair_def setRole_def
        new_session_def server_expressible_def experimental_ok_def no_server_capabilities_def)
  have "selectServerProtocolVersion ''2025-06-18'' (se_supported (snd sample_pair)) = Some ''2025-06-18''"
    by (simp add: sample_pair_def setRole_def new_session_def selectServerProtocolVersion_def isVersionSupported_def)
  with server_answers [OF ready, where cfg = "\<lparr>ci_protocolVersion = Some ''2025-06-18'', ci_capabilities = None,
        ci_clientInfo = None\<rparr>" and vs = "[]" and v = "''2025-06-18''" and i = "IntId 1"]
  have state: "se_state answered_server = kInitialized" by (simp add: answered_server_def)
  have "session_step (new_session [''2024-11-05'', ''2025-06-18''] 64) (snd sample_pair)"
    unfolding sample_pair_def snd_conv by (rule session_step.set_role)
  moreover have "session_step (snd sample_pair) answered_server"
    unfolding answered_server_def by (rule session_step.init_request)
  ultimately have "session_step\<^sup>*\<^sup>* (new_session [''2024-11-05'', ''2025-06-18''] 64) answered_server"
    by (meson converse_rtranclp_into_rtranclp rtranclp.rtrancl_refl)
  from operating_session_has_supported_version [OF this] state show ?thesis by blast
qed

end
