(* ===== verification/Base64Url.thy ===== *)
theory Base64Url
  imports Prelude
begin

unbundle bit_operations_syntax

text \<open>
  Base64url without padding, include/mcp/detail/base64url.hpp, on the 32-bit words of the source:
  the encoder, the strict decoder (it refuses foreign characters and impossible lengths), and
  their agreement. Pagination cursors are made of this.
\<close>

section \<open>Alphabet and decode table\<close>

definition kBase64UrlAlphabet :: string where
  "kBase64UrlAlphabet = ''ABCDEFGHIJKLMNOPQRSTUVWXYZabcdefghijklmnopqrstuvwxyz0123456789-_''"

text \<open>The entry of a byte in the decode table, minus one for a foreign byte.\<close>

definition kDecodeTable :: "char \<Rightarrow> int" where
  "kDecodeTable c =
     (let b = of_char c :: int in
      if of_char (CHR ''A'') \<le> b \<and> b < of_char (CHR ''A'') + 26 then b - of_char (CHR ''A'')
      else if of_char (CHR ''a'') \<le> b \<and> b < of_char (CHR ''a'') + 26 then 26 + (b - of_char (CHR ''a''))
      else if of_char (CHR ''0'') \<le> b \<and> b < of_char (CHR ''0'') + 10 then 52 + (b - of_char (CHR ''0''))
      else if c = CHR ''-'' then 62
      else if c = CHR ''_'' then 63
      else - 1)"

definition kMask6Bits :: uint32 where "kMask6Bits = 0x3F"
definition kMask8Bits :: uint32 where "kMask8Bits = 0xFF"
definition kMask4Bits :: uint32 where "kMask4Bits = 0x0F"

section \<open>Encoder\<close>

definition byte_word :: "char \<Rightarrow> uint32" where
  "byte_word c = of_nat (of_char c)"

text \<open>\<open>static_cast<char>\<close> of a 32-bit value.\<close>

definition to_char :: "uint32 \<Rightarrow> char" where
  "to_char w = char_of (unat w)"

definition alphabet_char :: "uint32 \<Rightarrow> char" where
  "alphabet_char w = kBase64UrlAlphabet ! unat (w AND kMask6Bits)"

definition triple_of :: "char \<Rightarrow> char \<Rightarrow> char \<Rightarrow> uint32" where
  "triple_of a b c = push_bit 16 (byte_word a) OR push_bit 8 (byte_word b) OR byte_word c"

fun encodeBase64UrlNoPad :: "string \<Rightarrow> string" where
  "encodeBase64UrlNoPad [] = []"
| "encodeBase64UrlNoPad [a] =
     (let triple = push_bit 16 (byte_word a) in
      [alphabet_char (drop_bit 18 triple), alphabet_char (drop_bit 12 triple)])"
| "encodeBase64UrlNoPad [a, b] =
     (let triple = push_bit 16 (byte_word a) OR push_bit 8 (byte_word b) in
      [alphabet_char (drop_bit 18 triple), alphabet_char (drop_bit 12 triple),
       alphabet_char (drop_bit 6 triple)])"
| "encodeBase64UrlNoPad (a # b # c # rest) =
     (let triple = triple_of a b c in
      [alphabet_char (drop_bit 18 triple), alphabet_char (drop_bit 12 triple),
       alphabet_char (drop_bit 6 triple), alphabet_char triple]) @ encodeBase64UrlNoPad rest"

section \<open>Decoder\<close>

definition table_word :: "char \<Rightarrow> uint32" where
  "table_word c = word_of_int (kDecodeTable c)"

text \<open>The loop over groups of four and the remainder of two or three characters.\<close>

fun decode_groups :: "string \<Rightarrow> string" where
  "decode_groups (a # b # c # d # rest) =
     (let quad = push_bit 18 (table_word a) OR push_bit 12 (table_word b) OR push_bit 6 (table_word c)
                   OR table_word d in
      [to_char (drop_bit 16 quad AND kMask8Bits), to_char (drop_bit 8 quad AND kMask8Bits),
       to_char (quad AND kMask8Bits)]) @ decode_groups rest"
| "decode_groups [a, b, c] =
     (let val0 = table_word a; val1 = table_word b; val2 = table_word c in
      [to_char (push_bit 2 val0 OR drop_bit 4 val1),
       to_char (push_bit 4 (val1 AND kMask4Bits) OR drop_bit 2 val2)])"
| "decode_groups [a, b] =
     (let val0 = table_word a; val1 = table_word b in
      [to_char (push_bit 2 val0 OR drop_bit 4 val1)])"
| "decode_groups _ = []"

definition decodeBase64UrlNoPad :: "string \<Rightarrow> string option" where
  "decodeBase64UrlNoPad text =
     (if text = [] then Some []
      else if list_ex (\<lambda>c. kDecodeTable c < 0) text then None
      else if length text mod 4 = 1 then None
      else Some (decode_groups text))"

section \<open>Agreement\<close>

lemma masks: "kMask6Bits = mask 6" "kMask8Bits = mask 8" "kMask4Bits = mask 4"
  by (simp_all add: kMask6Bits_def kMask8Bits_def kMask4Bits_def mask_eq_exp_minus_1)

lemma alphabet_decode: "n < 64 \<Longrightarrow> kDecodeTable (kBase64UrlAlphabet ! n) = int n"
proof -
  have "\<forall>n \<in> set [0..<64]. kDecodeTable (kBase64UrlAlphabet ! n) = int n"
    by code_simp
  then show "n < 64 \<Longrightarrow> kDecodeTable (kBase64UrlAlphabet ! n) = int n" by simp
qed

lemma unat_mask6: "unat (w AND kMask6Bits) < 64"
  using take_bit_nat_less_exp [of 6 "unat w"]
  by (simp add: masks unsigned_take_bit_eq flip: take_bit_eq_mask)

lemma table_alphabet: "table_word (alphabet_char w) = w AND kMask6Bits"
  using unat_mask6 [of w] by (simp add: table_word_def alphabet_char_def alphabet_decode)

lemma alphabet_valid: "\<not> kDecodeTable (alphabet_char w) < 0"
  using unat_mask6 [of w] by (simp add: alphabet_char_def alphabet_decode)

lemma bit_byte_word: "bit (byte_word c) n \<Longrightarrow> n < 8"
proof -
  assume b: "bit (byte_word c) n"
  have "byte_word c = take_bit 8 (byte_word c)"
    by (simp add: byte_word_def take_bit_of_nat take_bit_nat_eq_self)
  with b show ?thesis by (metis bit_take_bit_iff)
qed

lemma to_char_byte_word: "to_char (byte_word c) = c"
proof -
  have "(of_char c :: nat) < 2 ^ LENGTH(32)"
    using less_trans [OF nat_of_char_less_256 [of c], of "2 ^ 32"] by simp
  then show ?thesis by (simp add: to_char_def byte_word_def unsigned_of_nat take_bit_nat_eq_self)
qed

text \<open>The bits of a group of three bytes; four groups of six make them up again.\<close>

lemma triple_bits:
  "n < 32 \<Longrightarrow> bit (triple_of a b c) n =
     (16 \<le> n \<and> bit (byte_word a) (n - 16) \<or> 8 \<le> n \<and> bit (byte_word b) (n - 8) \<or> bit (byte_word c) n)"
  by (simp add: triple_of_def bit_simps)

lemma triple_small: "bit (triple_of a b c) n \<Longrightarrow> n < 24"
  by (auto simp: triple_of_def bit_simps dest: bit_byte_word)

lemma regroup:
  fixes t :: uint32
  assumes "\<And>n. bit t n \<Longrightarrow> n < 24"
  shows "push_bit 18 (drop_bit 18 t AND mask 6) OR push_bit 12 (drop_bit 12 t AND mask 6)
      OR push_bit 6 (drop_bit 6 t AND mask 6) OR (t AND mask 6) = t"
proof (rule bit_word_eqI)
  fix n assume n: "n < LENGTH(32)"
  have "bit t n \<longrightarrow> n < 24" using assms by blast
  then show "bit (push_bit 18 (drop_bit 18 t AND mask 6) OR push_bit 12 (drop_bit 12 t AND mask 6)
      OR push_bit 6 (drop_bit 6 t AND mask 6) OR (t AND mask 6)) n = bit t n"
    using n by (cases "18 \<le> n"; cases "12 \<le> n"; cases "6 \<le> n") (auto simp: bit_simps)
qed

lemma triple_bytes:
  "to_char (drop_bit 16 (triple_of a b c) AND kMask8Bits) = a"
  "to_char (drop_bit 8 (triple_of a b c) AND kMask8Bits) = b"
  "to_char (triple_of a b c AND kMask8Bits) = c"
proof -
  have small: "bit (byte_word x) n \<Longrightarrow> n < 8" for x n by (rule bit_byte_word)
  have "drop_bit 16 (triple_of a b c) AND kMask8Bits = byte_word a"
    by (rule bit_word_eqI) (auto simp: masks triple_of_def bit_simps dest: small)
  moreover have "drop_bit 8 (triple_of a b c) AND kMask8Bits = byte_word b"
    by (rule bit_word_eqI) (auto simp: masks triple_of_def bit_simps dest: small)
  moreover have "triple_of a b c AND kMask8Bits = byte_word c"
    by (rule bit_word_eqI) (auto simp: masks triple_of_def bit_simps dest: small)
  ultimately show "to_char (drop_bit 16 (triple_of a b c) AND kMask8Bits) = a"
    "to_char (drop_bit 8 (triple_of a b c) AND kMask8Bits) = b"
    "to_char (triple_of a b c AND kMask8Bits) = c"
    by (simp_all add: to_char_byte_word)
qed

lemma tail_bytes:
  "push_bit 2 (drop_bit 18 (push_bit 16 (byte_word a) OR w) AND kMask6Bits)
     OR drop_bit 4 (drop_bit 12 (push_bit 16 (byte_word a) OR w) AND kMask6Bits) = byte_word a"
  if "\<And>n. bit w n \<Longrightarrow> n < 16"
proof (rule bit_word_eqI)
  fix n assume n: "n < LENGTH(32)"
  show "bit (push_bit 2 (drop_bit 18 (push_bit 16 (byte_word a) OR w) AND kMask6Bits)
     OR drop_bit 4 (drop_bit 12 (push_bit 16 (byte_word a) OR w) AND kMask6Bits)) n = bit (byte_word a) n"
  proof (cases "2 \<le> n")
    case True
    then obtain m where m: "n = m + 2" using le_Suc_ex by (metis add.commute)
    show ?thesis
      using n bit_byte_word [of a n] that [of "16 + n"] by (auto simp: m masks bit_simps)
  next
    case False
    then show ?thesis
      using n bit_byte_word [of a n] that [of "16 + n"] by (auto simp: masks bit_simps)
  qed
qed

lemma tail_bytes2:
  "push_bit 4 ((drop_bit 12 (push_bit 16 (byte_word a) OR push_bit 8 (byte_word b)) AND kMask6Bits) AND kMask4Bits)
     OR drop_bit 2 (drop_bit 6 (push_bit 16 (byte_word a) OR push_bit 8 (byte_word b)) AND kMask6Bits) = byte_word b"
proof (rule bit_word_eqI)
  fix n assume n: "n < LENGTH(32)"
  show "bit (push_bit 4 ((drop_bit 12 (push_bit 16 (byte_word a) OR push_bit 8 (byte_word b)) AND kMask6Bits) AND kMask4Bits)
     OR drop_bit 2 (drop_bit 6 (push_bit 16 (byte_word a) OR push_bit 8 (byte_word b)) AND kMask6Bits)) n =
     bit (byte_word b) n"
    using n bit_byte_word [of b n] by (auto simp: masks bit_simps)
qed

lemma encoded_valid: "list_ex (\<lambda>c. kDecodeTable c < 0) (encodeBase64UrlNoPad s) = False"
  by (induction s rule: encodeBase64UrlNoPad.induct) (simp_all add: Let_def alphabet_valid)

lemma encoded_length: "length (encodeBase64UrlNoPad s) mod 4 \<noteq> 1"
  by (induction s rule: encodeBase64UrlNoPad.induct) (simp_all add: Let_def)

lemma decode_encoded: "decode_groups (encodeBase64UrlNoPad s) = s"
proof (induction s rule: encodeBase64UrlNoPad.induct)
  case (2 a)
  show ?case
    using tail_bytes [of 0 a] by (simp add: Let_def table_alphabet to_char_byte_word)
next
  case (3 a b)
  have "bit (push_bit 8 (byte_word b)) n \<Longrightarrow> n < 16" for n
    using bit_byte_word [of b "n - 8"] by (auto simp: bit_simps)
  then show ?case
    using tail_bytes [of "push_bit 8 (byte_word b)" a] tail_bytes2 [of a b]
    by (simp add: Let_def table_alphabet to_char_byte_word)
next
  case (4 a b c rest)
  have "push_bit 18 (drop_bit 18 (triple_of a b c) AND kMask6Bits)
      OR push_bit 12 (drop_bit 12 (triple_of a b c) AND kMask6Bits)
      OR push_bit 6 (drop_bit 6 (triple_of a b c) AND kMask6Bits) OR (triple_of a b c AND kMask6Bits)
      = triple_of a b c"
    using regroup [OF triple_small] by (simp add: masks)
  with 4 show ?case by (simp add: Let_def table_alphabet triple_bytes)
qed simp

lemma decode_encode: "decodeBase64UrlNoPad (encodeBase64UrlNoPad s) = Some s"
proof -
  have "length (encodeBase64UrlNoPad s) mod 4 \<noteq> Suc 0"
    using encoded_length [of s] by simp
  moreover have "s = []" if "encodeBase64UrlNoPad s = []"
    using decode_encoded [of s] that by simp
  ultimately show ?thesis
    using decode_encoded [of s] encoded_valid [of s]
    by (cases "encodeBase64UrlNoPad s = []") (simp_all add: decodeBase64UrlNoPad_def)
qed

lemma encoded_alphabet: "list_all (\<lambda>c. c \<in> set kBase64UrlAlphabet) (encodeBase64UrlNoPad s)"
proof -
  have "length kBase64UrlAlphabet = 64" by (simp add: kBase64UrlAlphabet_def)
  then have "alphabet_char w \<in> set kBase64UrlAlphabet" for w
    using unat_mask6 [of w] by (simp add: alphabet_char_def)
  then show ?thesis
    by (induction s rule: encodeBase64UrlNoPad.induct) (simp_all add: Let_def)
qed

declare encodeBase64UrlNoPad.simps [simp del] decode_groups.simps [simp del]

lemma encode_empty [simp]: "encodeBase64UrlNoPad s = [] \<longleftrightarrow> s = []"
  using decode_encoded [of s] by (cases s) (auto simp: encodeBase64UrlNoPad.simps(1) decode_groups.simps)

text \<open>
  Decoding inverts encoding for every byte string, and the encoder emits only characters of
  the URL-safe alphabet.
\<close>

theorem base64url_roundtrip:
  "decodeBase64UrlNoPad (encodeBase64UrlNoPad s) = Some s
   \<and> list_all (\<lambda>c. c \<in> set kBase64UrlAlphabet) (encodeBase64UrlNoPad s)"
  by (simp add: decode_encode encoded_alphabet)

end
