(* ===== verification/Pagination.thy ===== *)
theory Pagination
  imports Base64Url Messages
begin

text \<open>
  Pagination cursors: those of the task receiver in src/util/tasks.cpp and those of the server's
  list endpoints in src/server/detail/helpers.cpp and list_handler_helpers.cpp. A cursor is the
  base64url text of a prefix and a decimal index. The locale states what paging relies on, that
  a parser reads back the cursors of its own maker; paging through a list then yields the list.
  Sizes are 64-bit, so the end of a page is computed modulo \<open>2 ^ 64\<close>.
\<close>

section \<open>Indexes behind a prefix\<close>

text \<open>The common part of both parsers: prefix, decimal index, nothing after it.\<close>

definition prefixed_index :: "string \<Rightarrow> string \<Rightarrow> nat option" where
  "prefixed_index pre decoded =
     (if \<not> starts_with decoded pre then None
      else
        let indexText = drop (length pre) decoded in
        if indexText = [] then None
        else
          (case stoull indexText of
             None \<Rightarrow> None
           | Some (n, consumed) \<Rightarrow> if consumed = length indexText then Some n else None))"

lemma prefixed_index_print: "n \<le> uint64_max \<Longrightarrow> prefixed_index pre (pre @ to_string_nat n) = Some n"
  by (simp add: prefixed_index_def Let_def)

record pagination_window =
  pw_startIndex :: nat
  pw_endIndex :: nat
  pw_nextCursor :: "string option"

section \<open>Task cursors\<close>

definition kTaskCursorPrefix :: string where
  "kTaskCursorPrefix = ''mcp:v1:tasks:''"

definition makeTaskCursor :: "nat \<Rightarrow> string" where
  "makeTaskCursor i = encodeBase64UrlNoPad (kTaskCursorPrefix @ to_string_nat i)"

definition parseTaskCursor :: "string \<Rightarrow> nat option" where
  "parseTaskCursor cursor =
     (if cursor = [] then None
      else
        (case decodeBase64UrlNoPad cursor of
           None \<Rightarrow> None
         | Some decoded \<Rightarrow> prefixed_index kTaskCursorPrefix decoded))"

text \<open>\<open>paginate\<close> of src/util/tasks.cpp.\<close>

definition paginate :: "string option \<Rightarrow> nat \<Rightarrow> nat \<Rightarrow> pagination_window option" where
  "paginate cursor totalItems pageSize =
     (if pageSize = 0 then None
      else
        let start = (case cursor of
              None \<Rightarrow> Some 0
            | Some c \<Rightarrow>
                (case parseTaskCursor c of
                   None \<Rightarrow> None | Some i \<Rightarrow> if i > totalItems then None else Some i))
        in
        (case start of
           None \<Rightarrow> None
         | Some startIndex \<Rightarrow>
             let endIndex = min ((startIndex + pageSize) mod 2 ^ 64) totalItems in
             Some \<lparr>pw_startIndex = startIndex, pw_endIndex = endIndex,
                   pw_nextCursor = (if endIndex < totalItems then Some (makeTaskCursor endIndex) else None)\<rparr>))"

section \<open>Cursors of the server's list endpoints\<close>

datatype ListEndpoint = kTools | kResources | kResourceTemplates | kPrompts | kTasks

definition kCursorPrefix :: string where
  "kCursorPrefix = ''mcp:v1:''"

fun endpointToCursorLabel :: "ListEndpoint \<Rightarrow> string" where
  "endpointToCursorLabel kTools = ''tools''"
| "endpointToCursorLabel kResources = ''resources''"
| "endpointToCursorLabel kResourceTemplates = ''resource_templates''"
| "endpointToCursorLabel kPrompts = ''prompts''"
| "endpointToCursorLabel kTasks = ''tasks''"

fun endpointName :: "ListEndpoint \<Rightarrow> string" where
  "endpointName kTools = ''tools''"
| "endpointName kResources = ''resources''"
| "endpointName kResourceTemplates = ''resource_templates''"
| "endpointName kPrompts = ''prompts''"
| "endpointName kTasks = ''tasks''"

definition is_alnum :: "char \<Rightarrow> bool" where
  "is_alnum c \<longleftrightarrow> is_digit c \<or> 65 \<le> byte c \<and> byte c \<le> 90 \<or> 97 \<le> byte c \<and> byte c \<le> 122"

definition isValidCursorChar :: "char \<Rightarrow> bool" where
  "isValidCursorChar c \<longleftrightarrow> is_alnum c \<or> c = CHR ''-'' \<or> c = CHR ''_''"

definition endpoint_prefix :: "ListEndpoint \<Rightarrow> string" where
  "endpoint_prefix ep = kCursorPrefix @ endpointToCursorLabel ep @ '':''"

definition makePaginationCursor :: "ListEndpoint \<Rightarrow> nat \<Rightarrow> string" where
  "makePaginationCursor ep i = encodeBase64UrlNoPad (endpoint_prefix ep @ to_string_nat i)"

definition parsePaginationCursor :: "ListEndpoint \<Rightarrow> string \<Rightarrow> nat option" where
  "parsePaginationCursor ep cursor =
     (if cursor = [] then None
      else if \<not> list_all isValidCursorChar cursor then None
      else
        (case decodeBase64UrlNoPad cursor of
           None \<Rightarrow> None
         | Some decoded \<Rightarrow> prefixed_index (endpoint_prefix ep) decoded))"

text \<open>The cursor of a list request, or the error response.\<close>

definition parseCursorFromParams :: "request \<Rightarrow> ListEndpoint \<Rightarrow> response + string option" where
  "parseCursorFromParams req ep =
     (let refuse = (\<lambda>msg. Inl (error_reply (makeInvalidParamsError None (endpointName ep @ msg)) (rq_id req))) in
      case rq_params req of
        None \<Rightarrow> Inr None
      | Some params \<Rightarrow>
          if \<not> is_object params then refuse ''/list requires params to be an object when provided''
          else
            (case jget params ''cursor'' of
               None \<Rightarrow> Inr None
             | Some (JString s) \<Rightarrow> Inr (Some s)
             | Some _ \<Rightarrow> refuse ''/list requires params.cursor to be a string''))"

text \<open>
  \<open>applyPagination\<close>. Its error response carries a default-constructed id, the integer 0, and not
  the id of the request.
\<close>

definition applyPagination ::
  "ListEndpoint \<Rightarrow> string option \<Rightarrow> nat \<Rightarrow> nat \<Rightarrow> response + pagination_window" where
  "applyPagination ep cursor totalItems pageSize =
     (let refuse = Inl (error_reply (makeInvalidParamsError None
            (''Invalid '' @ endpointName ep @ ''/list cursor'')) (IntId 0));
          start = (case cursor of
              None \<Rightarrow> Some 0
            | Some c \<Rightarrow>
                (case parsePaginationCursor ep c of
                   None \<Rightarrow> None | Some i \<Rightarrow> if i > totalItems then None else Some i))
      in
      if pageSize = 0 then refuse
      else
        (case start of
           None \<Rightarrow> refuse
         | Some startIndex \<Rightarrow>
             let endIndex = min ((startIndex + pageSize) mod 2 ^ 64) totalItems in
             Inr \<lparr>pw_startIndex = startIndex, pw_endIndex = endIndex,
                  pw_nextCursor =
                    (if endIndex < totalItems then Some (makePaginationCursor ep endIndex) else None)\<rparr>))"

text \<open>\<open>Server::paginateList\<close> throws instead.\<close>

definition paginateList :: "ListEndpoint \<Rightarrow> string option \<Rightarrow> nat \<Rightarrow> nat \<Rightarrow> string + pagination_window" where
  "paginateList ep cursor totalItems pageSize =
     (if pageSize = 0 then Inl ''Pagination page size must be greater than zero''
      else
        bindE (case cursor of
            None \<Rightarrow> Inr 0
          | Some c \<Rightarrow>
              (case parsePaginationCursor ep c of
                 None \<Rightarrow> Inl ''Invalid pagination cursor''
               | Some i \<Rightarrow> if i > totalItems then Inl ''Invalid pagination cursor'' else Inr i))
          (\<lambda>startIndex.
             let endIndex = min ((startIndex + pageSize) mod 2 ^ 64) totalItems in
             Inr \<lparr>pw_startIndex = startIndex, pw_endIndex = endIndex,
                  pw_nextCursor =
                    (if endIndex < totalItems then Some (makePaginationCursor ep endIndex) else None)\<rparr>))"

text \<open>\<open>buildListResponse\<close>: the items of the window, serialised, and the next cursor.\<close>

definition buildListResponse ::
  "request_id \<Rightarrow> 'a list \<Rightarrow> pagination_window \<Rightarrow> ('a \<Rightarrow> json) \<Rightarrow> string \<Rightarrow> response" where
  "buildListResponse i items w serialize key =
     new_success i
       (jput_opt ''nextCursor'' (map_option JString (pw_nextCursor w))
         (jput key (JArray (map (\<lambda>k. serialize (items ! k)) [pw_startIndex w..<pw_endIndex w])) empty_object))"

section \<open>Paging through a list\<close>

text \<open>One page of a list, and the pages a client collects by following the cursors.\<close>

definition page_of :: "pagination_window \<Rightarrow> 'a list \<Rightarrow> 'a list" where
  "page_of w xs = take (pw_endIndex w - pw_startIndex w) (drop (pw_startIndex w) xs)"

fun collect_pages ::
  "(string option \<Rightarrow> pagination_window option) \<Rightarrow> nat \<Rightarrow> string option \<Rightarrow> 'a list \<Rightarrow> 'a list list option" where
  "collect_pages pager 0 cursor xs = None"
| "collect_pages pager (Suc fuel) cursor xs =
     (case pager cursor of
        None \<Rightarrow> None
      | Some w \<Rightarrow>
          (case pw_nextCursor w of
             None \<Rightarrow> Some [page_of w xs]
           | Some c \<Rightarrow> map_option ((#) (page_of w xs)) (collect_pages pager fuel (Some c) xs)))"

text \<open>
  A pager makes windows of \<open>sz\<close> items over \<open>tot\<close> items, and the cursors it makes lead to
  where they point, as long as the sizes stay within 64 bits.
\<close>

definition window :: "(nat \<Rightarrow> string) \<Rightarrow> nat \<Rightarrow> nat \<Rightarrow> nat \<Rightarrow> pagination_window" where
  "window mk tot sz i =
     \<lparr>pw_startIndex = i, pw_endIndex = min (i + sz) tot,
      pw_nextCursor = (if i + sz < tot then Some (mk (i + sz)) else None)\<rparr>"

locale pager =
  fixes pager :: "nat \<Rightarrow> nat \<Rightarrow> string option \<Rightarrow> pagination_window option"
    and mk :: "nat \<Rightarrow> string"
  assumes first: "0 < sz \<Longrightarrow> tot + sz < 2 ^ 64 \<Longrightarrow> pager tot sz None = Some (window mk tot sz 0)"
    and after: "0 < sz \<Longrightarrow> tot + sz < 2 ^ 64 \<Longrightarrow> i \<le> tot \<Longrightarrow>
      pager tot sz (Some (mk i)) = Some (window mk tot sz i)"
begin

lemma collect_from:
  assumes sz: "0 < sz" "length xs + sz < 2 ^ 64" and "i \<le> length xs" and "length xs - i < fuel"
  shows "\<exists>pages. collect_pages (pager (length xs) sz) fuel (Some (mk i)) xs = Some pages
    \<and> concat pages = drop i xs \<and> (\<forall>p \<in> set pages. length p \<le> sz)"
  using assms(3,4)
proof (induction fuel arbitrary: i)
  case (Suc fuel)
  note after = after [OF sz Suc.prems(1)]
  show ?case
  proof (cases "i + sz < length xs")
    case True
    from Suc.prems True sz have "length xs - (i + sz) < fuel" by simp
    with Suc.IH [of "i + sz"] True obtain pages where
      IH: "collect_pages (pager (length xs) sz) fuel (Some (mk (i + sz))) xs = Some pages"
      "concat pages = drop (i + sz) xs" "\<forall>p \<in> set pages. length p \<le> sz" by auto
    have "take sz (drop i xs) @ drop (i + sz) xs = drop i xs"
      by (metis append_take_drop_id drop_drop add.commute)
    with True IH show ?thesis by (simp add: after window_def page_of_def)
  next
    case False
    with Suc.prems show ?thesis by (simp add: after window_def page_of_def min_def)
  qed
qed simp

lemma collect_all:
  assumes sz: "0 < sz" "length xs + sz < 2 ^ 64" and "length xs < fuel"
  shows "\<exists>pages. collect_pages (pager (length xs) sz) fuel None xs = Some pages \<and> concat pages = xs
    \<and> (\<forall>p \<in> set pages. length p \<le> sz)"
proof -
  obtain f where fuel: "fuel = Suc f" using assms(3) by (cases fuel) auto
  show ?thesis
  proof (cases "sz < length xs")
    case True
    with fuel assms(3) sz have "length xs - sz < f" by simp
    with collect_from [OF sz, of sz f] True obtain pages where
      "collect_pages (pager (length xs) sz) f (Some (mk sz)) xs = Some pages"
      "concat pages = drop sz xs" "\<forall>p \<in> set pages. length p \<le> sz" by auto
    with True fuel show ?thesis by (simp add: first [OF sz] window_def page_of_def)
  next
    case False
    with fuel show ?thesis by (simp add: first [OF sz] window_def page_of_def min_def)
  qed
qed

end

section \<open>Both cursor formats are pagers\<close>

lemma parse_makeTaskCursor: "i \<le> uint64_max \<Longrightarrow> parseTaskCursor (makeTaskCursor i) = Some i"
  by (simp add: parseTaskCursor_def makeTaskCursor_def kTaskCursorPrefix_def decode_encode
      prefixed_index_print del: append_Cons)

lemma base64_cursor_char: "c \<in> set kBase64UrlAlphabet \<Longrightarrow> isValidCursorChar c"
proof -
  have "list_all isValidCursorChar kBase64UrlAlphabet" by code_simp
  then show "c \<in> set kBase64UrlAlphabet \<Longrightarrow> isValidCursorChar c" by (simp add: list_all_iff)
qed

lemma parse_makePaginationCursor:
  "i \<le> uint64_max \<Longrightarrow> parsePaginationCursor ep (makePaginationCursor ep i) = Some i"
  using encoded_alphabet [of "endpoint_prefix ep @ to_string_nat i"] base64_cursor_char
  by (simp add: parsePaginationCursor_def makePaginationCursor_def decode_encode prefixed_index_print
      list_all_iff)

definition endpoint_pager :: "ListEndpoint \<Rightarrow> nat \<Rightarrow> nat \<Rightarrow> string option \<Rightarrow> pagination_window option" where
  "endpoint_pager ep tot sz cursor = (case applyPagination ep cursor tot sz of Inl _ \<Rightarrow> None | Inr w \<Rightarrow> Some w)"

interpretation task_pages: pager "\<lambda>tot sz cursor. paginate cursor tot sz" makeTaskCursor
  by unfold_locales
    (auto simp: paginate_def window_def Let_def parse_makeTaskCursor uint64_max_def min_def)

interpretation endpoint_pages: pager "endpoint_pager ep" "makePaginationCursor ep" for ep
  by unfold_locales
    (auto simp: endpoint_pager_def applyPagination_def window_def Let_def parse_makePaginationCursor
      uint64_max_def min_def)

lemma foreign_prefix:
  assumes "ep \<noteq> ep'"
  shows "prefixed_index (endpoint_prefix ep') (endpoint_prefix ep @ to_string_nat i) = None"
proof -
  have "\<not> starts_with (endpoint_prefix ep @ to_string_nat i) (endpoint_prefix ep')"
    using assms by (cases ep; cases ep') (simp_all add: starts_with_def endpoint_prefix_def kCursorPrefix_def)
  then show ?thesis by (simp add: prefixed_index_def)
qed

text \<open>
  Paging is complete: following the cursors from the first page yields, in a bounded number
  of requests, pages no longer than the page size whose concatenation is the whole list in its
  order, for the task list and for every list endpoint of the server. A cursor made for one
  endpoint is refused by every other.
\<close>

theorem paging_yields_the_list:
  assumes "0 < pageSize" and "length xs + pageSize < 2 ^ 64" and "length xs < fuel"
  shows "(\<exists>pages. collect_pages (\<lambda>c. paginate c (length xs) pageSize) fuel None xs = Some pages
      \<and> concat pages = xs \<and> (\<forall>p \<in> set pages. length p \<le> pageSize))
    \<and> (\<exists>pages. collect_pages (endpoint_pager ep (length xs) pageSize) fuel None xs = Some pages
      \<and> concat pages = xs \<and> (\<forall>p \<in> set pages. length p \<le> pageSize))
    \<and> (ep \<noteq> ep' \<longrightarrow> parsePaginationCursor ep' (makePaginationCursor ep i) = None)"
  using task_pages.collect_all [OF assms] endpoint_pages.collect_all [OF assms] foreign_prefix
  by (auto simp: parsePaginationCursor_def makePaginationCursor_def decode_encode)

theorem paging_yields_the_list_witness:
  "\<exists>pages. collect_pages (\<lambda>c. paginate c 3 2) 4 None [10 :: nat, 20, 30] = Some pages \<and> concat pages = [10, 20, 30]"
  using paging_yields_the_list [of 2 "[10 :: nat, 20, 30]" 4 kTools kTools 0]
  by (auto simp: numeral_3_eq_3)

end
