(* ===== verification/Tasks.thy ===== *)
theory Tasks
  imports Pagination "HOL-Library.List_Lexorder" "HOL-Library.Char_ord"
begin

text \<open>
  Task data of src/util/tasks.cpp and include/mcp/util: statuses and their transitions, JSON,
  task augmentation of requests, and the in-memory task store. The clock and the random bytes of
  task ids are inputs: every operation of the store is given the time it reads (nanoseconds since
  the epoch), and \<open>createTask\<close> the successive results of \<open>cryptoRandomBytes\<close>.
\<close>

section \<open>Statuses\<close>

datatype TaskStatus = kWorking | kInputRequired | kCompleted | kFailed | kCancelled

datatype TaskStoreError =
  kNone | kNotFound | kAccessDenied | kInvalidTransition | kTerminalImmutable | kLimitExceeded

fun toString :: "TaskStatus \<Rightarrow> string" where
  "toString kWorking = ''working''"
| "toString kInputRequired = ''input_required''"
| "toString kCompleted = ''completed''"
| "toString kFailed = ''failed''"
| "toString kCancelled = ''cancelled''"

definition taskStatusFromString :: "string \<Rightarrow> TaskStatus option" where
  "taskStatusFromString s =
     (if s = ''working'' then Some kWorking
      else if s = ''input_required'' then Some kInputRequired
      else if s = ''completed'' then Some kCompleted
      else if s = ''failed'' then Some kFailed
      else if s = ''cancelled'' then Some kCancelled
      else None)"

definition isTerminalTaskStatus :: "TaskStatus \<Rightarrow> bool" where
  "isTerminalTaskStatus s \<longleftrightarrow> s = kCompleted \<or> s = kFailed \<or> s = kCancelled"

definition isValidTaskStatusTransition :: "TaskStatus \<Rightarrow> TaskStatus \<Rightarrow> bool" where
  "isValidTaskStatusTransition a b =
     (if isTerminalTaskStatus a then False
      else if a = kWorking then b = kInputRequired \<or> b = kCompleted \<or> b = kFailed \<or> b = kCancelled
      else if a = kInputRequired then b = kWorking \<or> b = kCompleted \<or> b = kFailed \<or> b = kCancelled
      else False)"

fun taskStoreErrorMessage :: "TaskStoreError \<Rightarrow> string" where
  "taskStoreErrorMessage kNone = ''No task store error''"
| "taskStoreErrorMessage kNotFound = ''Task not found''"
| "taskStoreErrorMessage kAccessDenied = ''Task access denied for current auth context''"
| "taskStoreErrorMessage kInvalidTransition = ''Task status transition is invalid''"
| "taskStoreErrorMessage kTerminalImmutable = ''Task is already in a terminal status''"
| "taskStoreErrorMessage kLimitExceeded = ''Task creation rejected by runtime limits''"

section \<open>Time stamps\<close>

text \<open>
  \<open>gmtime\<close> and \<open>put_time("%Y-%m-%dT%H:%M:%SZ")\<close>: the civil date of a number of days since the
  epoch, counted in eras of 400 years that start on the first of March.
\<close>

definition civil_from_days :: "int \<Rightarrow> int \<times> int \<times> int" where
  "civil_from_days days =
     (let z = days + 719468;
          era = z div 146097;
          doe = z mod 146097;
          yoe = (doe - doe div 1460 + doe div 36524 - doe div 146096) div 365;
          doy = doe - (365 * yoe + yoe div 4 - yoe div 100);
          mp = (5 * doy + 2) div 153;
          d = doy - (153 * mp + 2) div 5 + 1;
          m = (if mp < 10 then mp + 3 else mp - 9)
      in (yoe + era * 400 + (if m \<le> 2 then 1 else 0), m, d))"

definition two_digits :: "int \<Rightarrow> string" where
  "two_digits n = (if n < 10 then ''0'' else []) @ to_string_int n"

definition toIso8601Utc :: "int \<Rightarrow> string" where
  "toIso8601Utc ns =
     (let secs = ns div 1000000000;
          (y, m, d) = civil_from_days (secs div 86400);
          sod = secs mod 86400
      in to_string_int y @ ''-'' @ two_digits m @ ''-'' @ two_digits d @ ''T'' @
         two_digits (sod div 3600) @ '':'' @ two_digits (sod div 60 mod 60) @ '':'' @
         two_digits (sod mod 60) @ ''Z'')"

text \<open>The first second of the epoch, in which the examples live, needs no calendar.\<close>

lemma epoch_text: "toIso8601Utc 0 = ''1970-01-01T00:00:00Z''"
  by code_simp

lemma toIso8601Utc_code [code]:
  "toIso8601Utc ns =
     (if 0 \<le> ns \<and> ns < 1000000000 then ''1970-01-01T00:00:00Z''
      else
        let secs = ns div 1000000000;
            (y, m, d) = civil_from_days (secs div 86400);
            sod = secs mod 86400
        in to_string_int y @ ''-'' @ two_digits m @ ''-'' @ two_digits d @ ''T'' @
           two_digits (sod div 3600) @ '':'' @ two_digits (sod div 60 mod 60) @ '':'' @
           two_digits (sod mod 60) @ ''Z'')"
proof -
  have "toIso8601Utc ns = toIso8601Utc 0" if "0 \<le> ns \<and> ns < 1000000000"
    using that by (simp add: toIso8601Utc_def)
  then show ?thesis
    by (cases "0 \<le> ns \<and> ns < 1000000000") (simp add: epoch_text, simp only: toIso8601Utc_def if_False)
qed

section \<open>Tasks and their JSON\<close>

record task =
  tk_taskId :: string
  tk_status :: TaskStatus
  tk_statusMessage :: "string option"
  tk_createdAt :: string
  tk_lastUpdatedAt :: string
  tk_ttl :: "int64 option"
  tk_pollInterval :: "int64 option"

text \<open>A default-constructed task, as in the error results.\<close>

definition no_task :: task where
  "no_task = \<lparr>tk_taskId = [], tk_status = kWorking, tk_statusMessage = None, tk_createdAt = [],
     tk_lastUpdatedAt = [], tk_ttl = None, tk_pollInterval = None\<rparr>"

record task_create_options =
  tc_ttl :: "int64 option"
  tc_pollInterval :: "int64 option"
  tc_statusMessage :: "string option"
  tc_authContext :: "string option"

record task_record_result =
  tr_error :: TaskStoreError
  tr_errorMessage :: "string option"
  tr_task :: task

record task_terminal_result =
  tt_error :: TaskStoreError
  tt_task :: task
  tt_result :: "json option"
  tt_errorPayload :: "json_rpc_error option"

record task_augmentation =
  ta_requested :: bool
  ta_ttlProvided :: bool
  ta_ttl :: "int64 option"

record create_task_result =
  cr_task :: task
  cr_metadata :: "json option"

definition int64_json :: "int64 \<Rightarrow> json" where
  "int64_json w = JInt (sint w)"

definition taskToJson :: "task \<Rightarrow> json" where
  "taskToJson t =
     jput_opt ''pollInterval'' (map_option int64_json (tk_pollInterval t))
       (jput ''ttl'' (case tk_ttl t of Some w \<Rightarrow> int64_json w | None \<Rightarrow> JNull)
         (jput ''lastUpdatedAt'' (JString (tk_lastUpdatedAt t))
           (jput ''createdAt'' (JString (tk_createdAt t))
             (jput_opt ''statusMessage'' (map_option JString (tk_statusMessage t))
               (jput ''status'' (JString (toString (tk_status t)))
                 (jput ''taskId'' (JString (tk_taskId t)) empty_object))))))"

definition createTaskResultToJson :: "create_task_result \<Rightarrow> json" where
  "createTaskResultToJson r =
     jput_opt ''_meta'' (cr_metadata r) (jput ''task'' (taskToJson (cr_task r)) empty_object)"

definition kRelatedTaskMetadataKey :: string where
  "kRelatedTaskMetadataKey = ''io.modelcontextprotocol/related-task''"

definition injectRelatedTaskMetadata :: "json \<Rightarrow> string \<Rightarrow> json" where
  "injectRelatedTaskMetadata result taskId =
     (if \<not> is_object result then result
      else
        let meta = (case get_object result ''_meta'' of Some m \<Rightarrow> m | None \<Rightarrow> empty_object) in
        jput ''_meta'' (jput kRelatedTaskMetadataKey
          (jput ''taskId'' (JString taskId) empty_object) meta) result)"

text \<open>\<open>parseTaskAugmentation\<close>: the augmentation, or the error message and no augmentation.\<close>

definition no_augmentation :: task_augmentation where
  "no_augmentation = \<lparr>ta_requested = False, ta_ttlProvided = False, ta_ttl = None\<rparr>"

definition parseTaskAugmentation :: "json option \<Rightarrow> string + task_augmentation" where
  "parseTaskAugmentation params =
     (case params of
        None \<Rightarrow> Inr no_augmentation
      | Some p \<Rightarrow>
          if \<not> is_object p then Inl ''Request params must be an object''
          else
            (case jget p ''task'' of
               None \<Rightarrow> Inr no_augmentation
             | Some t \<Rightarrow>
                 if \<not> is_object t then Inl ''params.task must be an object''
                 else
                   (let requested = \<lparr>ta_requested = True, ta_ttlProvided = False, ta_ttl = None\<rparr> in
                    case jget t ''ttl'' of
                      None \<Rightarrow> Inr requested
                    | Some v \<Rightarrow>
                        if is_null v then Inr (requested\<lparr>ta_ttlProvided := True\<rparr>)
                        else if is_int64 v then
                          (if as_integer v < 0
                           then Inl ''params.task.ttl must be greater than or equal to zero''
                           else Inr (requested\<lparr>ta_ttlProvided := True, ta_ttl := Some (word_of_int (as_integer v))\<rparr>))
                        else if is_uint64 v then
                          (if as_integer v > int64_max then Inl ''params.task.ttl is out of range''
                           else Inr (requested\<lparr>ta_ttlProvided := True, ta_ttl := Some (word_of_int (as_integer v))\<rparr>))
                        else Inl ''params.task.ttl must be an integer or null'')))"

section \<open>The in-memory store\<close>

record stored_task =
  st_task :: task
  st_authContext :: "string option"
  st_expiresAt :: "int option"
  st_result :: "json option"
  st_errorPayload :: "json_rpc_error option"
  st_sequence :: nat

record task_store =
  ts_tasks :: "(string, stored_task) umap"
  ts_nextSequence :: nat
  ts_maxTtl :: int64
  ts_maxActive :: nat

definition new_task_store :: "int64 \<Rightarrow> nat \<Rightarrow> task_store" where
  "new_task_store maxTtl maxActive =
     \<lparr>ts_tasks = [], ts_nextSequence = 1, ts_maxTtl = maxTtl, ts_maxActive = maxActive\<rparr>"

definition kUnboundAuthContextKey :: string where
  "kUnboundAuthContextKey = ''__mcp_unbound_auth_context__''"

definition normalizedAuthContextKey :: "string option \<Rightarrow> string" where
  "normalizedAuthContextKey a = (case a of Some s \<Rightarrow> s | None \<Rightarrow> kUnboundAuthContextKey)"

definition checkAccess :: "stored_task \<Rightarrow> string option \<Rightarrow> bool" where
  "checkAccess t a = (case st_authContext t of None \<Rightarrow> True | Some owner \<Rightarrow> a = Some owner)"

definition expired :: "int \<Rightarrow> stored_task \<Rightarrow> bool" where
  "expired now t = (case st_expiresAt t of None \<Rightarrow> False | Some e \<Rightarrow> now \<ge> e)"

definition purgeExpired :: "int \<Rightarrow> task_store \<Rightarrow> task_store" where
  "purgeExpired now s = s\<lparr>ts_tasks := filter (\<lambda>(_, t). \<not> expired now t) (ts_tasks s)\<rparr>"

definition countActive :: "string option \<Rightarrow> task_store \<Rightarrow> nat" where
  "countActive a s =
     length (filter (\<lambda>(_, t). normalizedAuthContextKey (st_authContext t) = normalizedAuthContextKey a
       \<and> \<not> isTerminalTaskStatus (tk_status (st_task t))) (ts_tasks s))"

text \<open>Task ids: two hexadecimal digits per random byte.\<close>

definition hexAlphabet :: string where
  "hexAlphabet = ''0123456789abcdef''"

definition task_id_of :: "nat list \<Rightarrow> string" where
  "task_id_of bytes = concat (map (\<lambda>b. [hexAlphabet ! (b div 16 mod 16), hexAlphabet ! (b mod 16)]) bytes)"

text \<open>The do-while loop: the first drawn id that is not in use, none if the draws run out.\<close>

fun fresh_task_id :: "nat list list \<Rightarrow> task_store \<Rightarrow> string option" where
  "fresh_task_id [] s = None"
| "fresh_task_id (bytes # rest) s =
     (if map_of (ts_tasks s) (task_id_of bytes) = None then Some (task_id_of bytes) else fresh_task_id rest s)"

definition rejected :: "TaskStoreError \<Rightarrow> string option \<Rightarrow> task \<Rightarrow> task_record_result" where
  "rejected e msg t = \<lparr>tr_error = e, tr_errorMessage = msg, tr_task = t\<rparr>"

definition ok_result :: "task \<Rightarrow> task_record_result" where
  "ok_result t = \<lparr>tr_error = kNone, tr_errorMessage = None, tr_task = t\<rparr>"

text \<open>\<open>createTask\<close>; no result stands for the id loop that has not ended.\<close>

definition createTask ::
  "int \<Rightarrow> nat list list \<Rightarrow> task_create_options \<Rightarrow> task_store \<Rightarrow> (task_store \<times> task_record_result) option" where
  "createTask now draws opts s0 =
     (let s = purgeExpired now s0;
          refuse = (\<lambda>msg. Some (s, rejected kLimitExceeded (Some msg) no_task));
          badTtl = (case tc_ttl opts of
              None \<Rightarrow> None
            | Some ttl \<Rightarrow>
                if sint ttl < 0 then Some ''Task ttl must be greater than or equal to zero milliseconds''
                else if sint ttl > sint (ts_maxTtl s)
                then Some (''Task ttl exceeds configured maximum of '' @ to_string_int (sint (ts_maxTtl s)) @
                           '' milliseconds'')
                else None)
      in
      case badTtl of
        Some msg \<Rightarrow> refuse msg
      | None \<Rightarrow>
          if countActive (tc_authContext opts) s \<ge> ts_maxActive s
          then refuse (''Active task limit reached for auth context (max '' @ to_string_nat (ts_maxActive s) @ '')'')
          else
            (case fresh_task_id draws s of
               None \<Rightarrow> None
             | Some taskId \<Rightarrow>
                 let t = \<lparr>tk_taskId = taskId, tk_status = kWorking, tk_statusMessage = tc_statusMessage opts,
                           tk_createdAt = toIso8601Utc now, tk_lastUpdatedAt = toIso8601Utc now,
                           tk_ttl = tc_ttl opts, tk_pollInterval = tc_pollInterval opts\<rparr>;
                     st = \<lparr>st_task = t, st_authContext = tc_authContext opts,
                           st_expiresAt = (case tc_ttl opts of None \<Rightarrow> None
                             | Some ttl \<Rightarrow> Some (now + 1000000 * sint ttl)),
                           st_result = None, st_errorPayload = None, st_sequence = ts_nextSequence s\<rparr>
                 in Some (s\<lparr>ts_tasks := umap_put taskId st (ts_tasks s),
                            ts_nextSequence := ts_nextSequence s + 1\<rparr>, ok_result t)))"

definition getTask :: "int \<Rightarrow> string \<Rightarrow> string option \<Rightarrow> task_store \<Rightarrow> task_store \<times> task_record_result" where
  "getTask now i a s0 =
     (let s = purgeExpired now s0 in
      case map_of (ts_tasks s) i of
        None \<Rightarrow> (s, rejected kNotFound None no_task)
      | Some t \<Rightarrow>
          if \<not> checkAccess t a then (s, rejected kAccessDenied None no_task)
          else (s, ok_result (st_task t)))"

text \<open>The accessible tasks, sorted by their sequence number.\<close>

definition listTasks :: "int \<Rightarrow> string option \<Rightarrow> task_store \<Rightarrow> task_store \<times> task list" where
  "listTasks now a s0 =
     (let s = purgeExpired now s0;
          visible = filter (\<lambda>t. checkAccess t a) (map snd (ts_tasks s))
      in (s, map st_task (sort_key st_sequence visible)))"

text \<open>
  The guards that every mutation shares, in the order of the source, and then the change of the
  stored task.
\<close>

definition mutate_task ::
  "int \<Rightarrow> string \<Rightarrow> string option \<Rightarrow> (TaskStatus \<Rightarrow> bool) \<Rightarrow> (stored_task \<Rightarrow> stored_task) \<Rightarrow> task_store \<Rightarrow>
   task_store \<times> task_record_result" where
  "mutate_task now i a allowed change s0 =
     (let s = purgeExpired now s0 in
      case map_of (ts_tasks s) i of
        None \<Rightarrow> (s, rejected kNotFound None no_task)
      | Some t \<Rightarrow>
          if \<not> checkAccess t a then (s, rejected kAccessDenied None no_task)
          else if isTerminalTaskStatus (tk_status (st_task t))
          then (s, rejected kTerminalImmutable None (st_task t))
          else if \<not> allowed (tk_status (st_task t))
          then (s, rejected kInvalidTransition None (st_task t))
          else
            let t' = change t in
            (s\<lparr>ts_tasks := umap_put i t' (ts_tasks s)\<rparr>, ok_result (st_task t')))"

definition set_status :: "int \<Rightarrow> TaskStatus \<Rightarrow> string option \<Rightarrow> stored_task \<Rightarrow> stored_task" where
  "set_status now status msg t =
     t\<lparr>st_task := (st_task t)\<lparr>tk_status := status, tk_statusMessage := msg,
        tk_lastUpdatedAt := toIso8601Utc now\<rparr>\<rparr>"

definition updateTaskStatus ::
  "int \<Rightarrow> string \<Rightarrow> TaskStatus \<Rightarrow> string option \<Rightarrow> string option \<Rightarrow> task_store \<Rightarrow> task_store \<times> task_record_result" where
  "updateTaskStatus now i status msg a =
     mutate_task now i a (\<lambda>from. isValidTaskStatusTransition from status) (set_status now status msg)"

definition setTaskResult ::
  "int \<Rightarrow> string \<Rightarrow> TaskStatus \<Rightarrow> string option \<Rightarrow> json \<Rightarrow> string option \<Rightarrow> task_store \<Rightarrow>
   task_store \<times> task_record_result" where
  "setTaskResult now i status msg result a =
     mutate_task now i a (\<lambda>from. isTerminalTaskStatus status \<and> isValidTaskStatusTransition from status)
       (\<lambda>t. (set_status now status msg t)\<lparr>st_result := Some result, st_errorPayload := None\<rparr>)"

definition setTaskError ::
  "int \<Rightarrow> string \<Rightarrow> TaskStatus \<Rightarrow> string option \<Rightarrow> json_rpc_error \<Rightarrow> string option \<Rightarrow> task_store \<Rightarrow>
   task_store \<times> task_record_result" where
  "setTaskError now i status msg e a =
     mutate_task now i a (\<lambda>from. isTerminalTaskStatus status \<and> isValidTaskStatusTransition from status)
       (\<lambda>t. (set_status now status msg t)\<lparr>st_errorPayload := Some e, st_result := None\<rparr>)"

definition cancelTask ::
  "int \<Rightarrow> string \<Rightarrow> string option \<Rightarrow> json_rpc_error \<Rightarrow> string option \<Rightarrow> task_store \<Rightarrow>
   task_store \<times> task_record_result" where
  "cancelTask now i msg e a = setTaskError now i kCancelled msg e a"

text \<open>
  One round of the loop of \<open>waitForTaskTerminal\<close>: a result, or nothing when the caller goes to
  sleep until it is notified or the task expires.
\<close>

definition missing_payload_error :: json_rpc_error where
  "missing_payload_error =
     \<lparr>err_code = word_of_int (error_code_value kInternalError),
      err_message = ''Task reached a terminal state without a stored result payload'', err_data = None\<rparr>"

definition pollTaskTerminal ::
  "int \<Rightarrow> string \<Rightarrow> string option \<Rightarrow> task_store \<Rightarrow> task_store \<times> task_terminal_result option" where
  "pollTaskTerminal now i a s0 =
     (let s = purgeExpired now s0;
          failed = (\<lambda>e. (s, Some \<lparr>tt_error = e, tt_task = no_task, tt_result = None, tt_errorPayload = None\<rparr>))
      in
      case map_of (ts_tasks s) i of
        None \<Rightarrow> failed kNotFound
      | Some t \<Rightarrow>
          if \<not> checkAccess t a then failed kAccessDenied
          else if isTerminalTaskStatus (tk_status (st_task t))
          then (s, Some \<lparr>tt_error = kNone, tt_task = st_task t, tt_result = st_result t,
                 tt_errorPayload = (if st_result t = None \<and> st_errorPayload t = None
                   then Some missing_payload_error else st_errorPayload t)\<rparr>)
          else (s, None))"

end
