(* ===== verification/TaskStore.thy ===== *)
theory TaskStore
  imports Tasks
begin

text \<open>
  The in-memory task store as a transition system with the time of each step, its invariant, and
  what it promises: terminal tasks do not change, a task is visible to its owner only, the number
  of active tasks per owner is bounded, and tasks are listed in the order of their creation.
\<close>

section \<open>Facts about purging and counting\<close>

lemma map_of_filter:
  "umap_wf m \<Longrightarrow> map_of (filter (\<lambda>(_, t). P t) m) k =
     (case map_of m k of None \<Rightarrow> None | Some t \<Rightarrow> if P t then Some t else None)"
proof (induction m)
  case (Cons kv m)
  obtain k' t where kv: "kv = (k', t)" by fastforce
  with Cons.prems have wf: "umap_wf m" and no: "k' \<notin> fst ` set m" by (auto simp: umap_wf_def)
  have "map_of m k' = None" using no by (simp add: map_of_eq_None_iff)
  with Cons.IH [OF wf] kv show ?case by (auto split: option.splits)
qed simp

lemma umap_wf_filter: "umap_wf m \<Longrightarrow> umap_wf (filter P m)"
  by (simp add: umap_wf_def distinct_map_filter)

lemma purge_simps [simp]:
  "ts_nextSequence (purgeExpired now s) = ts_nextSequence s" "ts_maxTtl (purgeExpired now s) = ts_maxTtl s"
  "ts_maxActive (purgeExpired now s) = ts_maxActive s"
  by (simp_all add: purgeExpired_def)

lemma purge_lookup:
  "umap_wf (ts_tasks s) \<Longrightarrow> map_of (ts_tasks (purgeExpired now s)) k =
     (case map_of (ts_tasks s) k of None \<Rightarrow> None | Some t \<Rightarrow> if expired now t then None else Some t)"
  by (simp add: purgeExpired_def map_of_filter split: option.split)

lemma purge_wf: "umap_wf (ts_tasks s) \<Longrightarrow> umap_wf (ts_tasks (purgeExpired now s))"
  by (simp add: purgeExpired_def umap_wf_filter)

lemma purge_twice: "purgeExpired now (purgeExpired now s) = purgeExpired now s"
  by (simp add: purgeExpired_def)

lemma length_filter_put:
  "umap_wf m \<Longrightarrow> map_of m k = Some old \<Longrightarrow> (P (k, v) \<longrightarrow> P (k, old)) \<Longrightarrow>
     length (filter P (umap_put k v m)) \<le> length (filter P m)"
proof (induction m)
  case (Cons kv m)
  show ?case
  proof (cases "fst kv = k")
    case True
    with Cons.prems show ?thesis by (cases kv) auto
  next
    case False
    with Cons.prems Cons.IH show ?thesis by (cases kv) (auto simp: umap_wf_def)
  qed
qed simp

section \<open>Steps and invariant\<close>

inductive store_step :: "int \<Rightarrow> task_store \<Rightarrow> task_store \<Rightarrow> bool" where
  create: "createTask now draws opts s = Some (s', r) \<Longrightarrow> store_step now s s'"
| get: "store_step now s (fst (getTask now i a s))"
| list: "store_step now s (fst (listTasks now a s))"
| update: "store_step now s (fst (updateTaskStatus now i status msg a s))"
| set_result: "store_step now s (fst (setTaskResult now i status msg result a s))"
| set_error: "store_step now s (fst (setTaskError now i status msg e a s))"
| cancel: "store_step now s (fst (cancelTask now i msg e a s))"
| poll: "store_step now s (fst (pollTaskTerminal now i a s))"

inductive_cases store_stepE: "store_step now s s'"

definition some_step :: "task_store \<Rightarrow> task_store \<Rightarrow> bool" where
  "some_step s s' \<longleftrightarrow> (\<exists>now. store_step now s s')"

definition fresh_store :: "task_store \<Rightarrow> bool" where
  "fresh_store s \<longleftrightarrow> (\<exists>ttl n. s = new_task_store ttl n)"

definition store_inv :: "task_store \<Rightarrow> bool" where
  "store_inv s \<longleftrightarrow> umap_wf (ts_tasks s)
     \<and> (\<forall>k t. map_of (ts_tasks s) k = Some t \<longrightarrow> tk_taskId (st_task t) = k \<and> st_sequence t < ts_nextSequence s
          \<and> (\<not> isTerminalTaskStatus (tk_status (st_task t)) \<longrightarrow> st_result t = None \<and> st_errorPayload t = None))
     \<and> (\<forall>k k' t t'. map_of (ts_tasks s) k = Some t \<longrightarrow> map_of (ts_tasks s) k' = Some t' \<longrightarrow>
          st_sequence t = st_sequence t' \<longrightarrow> k = k')
     \<and> (\<forall>a. countActive a s \<le> ts_maxActive s)"

lemma store_invD:
  assumes "store_inv s"
  shows "umap_wf (ts_tasks s)"
    "map_of (ts_tasks s) k = Some t \<Longrightarrow> tk_taskId (st_task t) = k"
    "map_of (ts_tasks s) k = Some t \<Longrightarrow> st_sequence t < ts_nextSequence s"
    "map_of (ts_tasks s) k = Some t \<Longrightarrow> map_of (ts_tasks s) k' = Some t' \<Longrightarrow> st_sequence t = st_sequence t' \<Longrightarrow> k = k'"
    "map_of (ts_tasks s) k = Some t \<Longrightarrow> \<not> isTerminalTaskStatus (tk_status (st_task t)) \<Longrightarrow>
       st_result t = None \<and> st_errorPayload t = None"
    "countActive a s \<le> ts_maxActive s"
  using assms unfolding store_inv_def by blast+

lemma store_invI:
  assumes "umap_wf (ts_tasks s)"
    and "\<And>k t. map_of (ts_tasks s) k = Some t \<Longrightarrow> tk_taskId (st_task t) = k"
    and "\<And>k t. map_of (ts_tasks s) k = Some t \<Longrightarrow> st_sequence t < ts_nextSequence s"
    and "\<And>k k' t t'. map_of (ts_tasks s) k = Some t \<Longrightarrow> map_of (ts_tasks s) k' = Some t' \<Longrightarrow>
       st_sequence t = st_sequence t' \<Longrightarrow> k = k'"
    and "\<And>k t. map_of (ts_tasks s) k = Some t \<Longrightarrow> \<not> isTerminalTaskStatus (tk_status (st_task t)) \<Longrightarrow>
       st_result t = None \<and> st_errorPayload t = None"
    and "\<And>a. countActive a s \<le> ts_maxActive s"
  shows "store_inv s"
  using assms unfolding store_inv_def by blast

lemma countActive_purge: "countActive a (purgeExpired now s) \<le> countActive a s"
proof -
  have "length (filter P (filter Q xs)) \<le> length (filter P xs)" for P Q and xs :: "(string \<times> stored_task) list"
    by (induction xs) auto
  then show ?thesis by (simp add: countActive_def purgeExpired_def)
qed

lemma store_inv_purge:
  assumes inv: "store_inv s"
  shows "store_inv (purgeExpired now s)"
proof (rule store_invI)
  have old: "map_of (ts_tasks s) k = Some t" if "map_of (ts_tasks (purgeExpired now s)) k = Some t" for k t
    using that by (simp add: purge_lookup [OF store_invD(1) [OF inv]] split: option.splits if_splits)
  show "umap_wf (ts_tasks (purgeExpired now s))" by (rule purge_wf [OF store_invD(1) [OF inv]])
  fix k t assume t: "map_of (ts_tasks (purgeExpired now s)) k = Some t"
  show "tk_taskId (st_task t) = k" "st_sequence t < ts_nextSequence (purgeExpired now s)"
    using store_invD(2,3) [OF inv old [OF t]] by simp_all
  show "st_result t = None \<and> st_errorPayload t = None" if "\<not> isTerminalTaskStatus (tk_status (st_task t))"
    using store_invD(5) [OF inv old [OF t] that] .
  show "k = k'" if "map_of (ts_tasks (purgeExpired now s)) k' = Some t'" "st_sequence t = st_sequence t'" for k' t'
    using store_invD(4) [OF inv old [OF t] old [OF that(1)] that(2)] .
next
  fix a show "countActive a (purgeExpired now s) \<le> ts_maxActive (purgeExpired now s)"
    using countActive_purge store_invD(6) [OF inv] by (metis le_trans purge_simps(3))
qed

text \<open>A change of a stored task that keeps its identity, owner and place.\<close>

definition keeps_identity :: "stored_task \<Rightarrow> stored_task \<Rightarrow> bool" where
  "keeps_identity t t' \<longleftrightarrow> tk_taskId (st_task t') = tk_taskId (st_task t) \<and> st_authContext t' = st_authContext t
     \<and> st_sequence t' = st_sequence t \<and> st_expiresAt t' = st_expiresAt t"

lemma store_inv_put:
  assumes inv: "store_inv s" and t: "map_of (ts_tasks s) i = Some t" and same: "keeps_identity t t'"
    and active: "\<not> isTerminalTaskStatus (tk_status (st_task t))"
    and payload: "\<not> isTerminalTaskStatus (tk_status (st_task t')) \<Longrightarrow> st_result t' = None \<and> st_errorPayload t' = None"
  shows "store_inv (s\<lparr>ts_tasks := umap_put i t' (ts_tasks s)\<rparr>)"
proof (rule store_invI)
  let ?s = "s\<lparr>ts_tasks := umap_put i t' (ts_tasks s)\<rparr>"
  have seq: "\<exists>u. map_of (ts_tasks s) k = Some u \<and> keeps_identity u v" if "map_of (ts_tasks ?s) k = Some v" for k v
    using that t same by (cases "k = i") (auto simp: umap_simps keeps_identity_def)
  show "umap_wf (ts_tasks ?s)" using store_invD(1) [OF inv] by simp
  fix k v assume v: "map_of (ts_tasks ?s) k = Some v"
  obtain u where u: "map_of (ts_tasks s) k = Some u" "keeps_identity u v" using seq [OF v] by blast
  show "tk_taskId (st_task v) = k" "st_sequence v < ts_nextSequence ?s"
    using store_invD(2,3) [OF inv u(1)] u(2) by (simp_all add: keeps_identity_def)
  show "st_result v = None \<and> st_errorPayload v = None" if "\<not> isTerminalTaskStatus (tk_status (st_task v))"
    using v that payload store_invD(5) [OF inv] by (auto simp: umap_simps split: if_splits)
  show "k = k'" if v': "map_of (ts_tasks ?s) k' = Some v'" and eq: "st_sequence v = st_sequence v'" for k' v'
  proof -
    obtain u' where u': "map_of (ts_tasks s) k' = Some u'" "keeps_identity u' v'" using seq [OF v'] by blast
    from u(2) u'(2) eq have "st_sequence u = st_sequence u'" by (simp add: keeps_identity_def)
    then show ?thesis by (rule store_invD(4) [OF inv u(1) u'(1)])
  qed
next
  fix a
  have "countActive a (s\<lparr>ts_tasks := umap_put i t' (ts_tasks s)\<rparr>) \<le> countActive a s"
    unfolding countActive_def using store_invD(1) [OF inv] t same active
    by (auto intro!: length_filter_put simp: keeps_identity_def)
  with store_invD(6) [OF inv, of a]
  show "countActive a (s\<lparr>ts_tasks := umap_put i t' (ts_tasks s)\<rparr>) \<le>
      ts_maxActive (s\<lparr>ts_tasks := umap_put i t' (ts_tasks s)\<rparr>)" by simp
qed

text \<open>The outcomes of a mutation.\<close>

lemma mutate_cases:
  obtains
    (refused) e t where "mutate_task now i a allowed change s = (purgeExpired now s, rejected e None t)" "e \<noteq> kNone"
  | (changed) t where "map_of (ts_tasks (purgeExpired now s)) i = Some t" "checkAccess t a"
      "\<not> isTerminalTaskStatus (tk_status (st_task t))" "allowed (tk_status (st_task t))"
      "mutate_task now i a allowed change s =
        ((purgeExpired now s)\<lparr>ts_tasks := umap_put i (change t) (ts_tasks (purgeExpired now s))\<rparr>,
         ok_result (st_task (change t)))"
proof (cases "map_of (ts_tasks (purgeExpired now s)) i")
  case None
  then show ?thesis by (intro refused [of kNotFound no_task]) (simp_all add: mutate_task_def)
next
  case (Some t)
  show ?thesis
  proof (cases "checkAccess t a \<and> \<not> isTerminalTaskStatus (tk_status (st_task t)) \<and> allowed (tk_status (st_task t))")
    case True
    with Some show ?thesis by (intro changed [of t]) (simp_all add: mutate_task_def Let_def)
  next
    case False
    with Some show ?thesis
      by (intro refused [of "if \<not> checkAccess t a then kAccessDenied
            else if isTerminalTaskStatus (tk_status (st_task t)) then kTerminalImmutable else kInvalidTransition"
            "if \<not> checkAccess t a then no_task else st_task t"])
        (auto simp: mutate_task_def Let_def)
  qed
qed

lemma mutate_inv:
  assumes "store_inv s" and "\<And>t. keeps_identity t (change t)"
    and "\<And>t. \<not> isTerminalTaskStatus (tk_status (st_task (change t))) \<Longrightarrow>
       st_result t = None \<and> st_errorPayload t = None \<Longrightarrow>
       st_result (change t) = None \<and> st_errorPayload (change t) = None"
  shows "store_inv (fst (mutate_task now i a allowed change s))"
proof (cases rule: mutate_cases [of now i a allowed change s])
  case (refused e t)
  with store_inv_purge [OF assms(1)] show ?thesis by simp
next
  case (changed t)
  note inv = store_inv_purge [OF assms(1), of now]
  have "store_inv ((purgeExpired now s)\<lparr>ts_tasks := umap_put i (change t) (ts_tasks (purgeExpired now s))\<rparr>)"
    using store_inv_put [OF inv changed(1) assms(2) changed(3)] assms(3) [of t]
      store_invD(5) [OF inv changed(1,3)] by blast
  with changed show ?thesis by simp
qed

lemma keeps_identity_change [simp]:
  "keeps_identity t (set_status now status msg t)"
  "keeps_identity t ((set_status now status msg t)\<lparr>st_result := x, st_errorPayload := y\<rparr>)"
  "keeps_identity t ((set_status now status msg t)\<lparr>st_errorPayload := y, st_result := x\<rparr>)"
  by (simp_all add: keeps_identity_def set_status_def)

lemma set_status_payload [simp]:
  "tk_status (st_task (set_status now status msg t)) = status"
  by (simp add: set_status_def)

lemma set_payload_inv:
  assumes inv: "store_inv s" and keeps: "\<And>t. keeps_identity t (change t)"
    and terminal: "\<And>t. tk_status (st_task (change t)) = status"
  shows "store_inv (fst (mutate_task now i a
    (\<lambda>from. isTerminalTaskStatus status \<and> isValidTaskStatusTransition from status) change s))"
proof (cases "isTerminalTaskStatus status")
  case True
  with assms show ?thesis by (intro mutate_inv) simp_all
next
  case False
  show ?thesis
  proof (cases rule: mutate_cases [of now i a
      "\<lambda>from. isTerminalTaskStatus status \<and> isValidTaskStatusTransition from status" change s])
    case (refused e t)
    with store_inv_purge [OF inv] show ?thesis by simp
  next
    case (changed t)
    with False show ?thesis by simp
  qed
qed

text \<open>What may happen to a stored task: it stays, or its status takes a valid transition.\<close>

definition task_moves :: "stored_task \<Rightarrow> stored_task \<Rightarrow> bool" where
  "task_moves t t' \<longleftrightarrow> t' = t \<or> (keeps_identity t t' \<and>
     isValidTaskStatusTransition (tk_status (st_task t)) (tk_status (st_task t')))"

lemma task_moves_refl [simp]: "task_moves t t"
  by (simp add: task_moves_def)

section \<open>Creation\<close>

lemma fresh_task_id_unused: "fresh_task_id draws s = Some i \<Longrightarrow> map_of (ts_tasks s) i = None"
  by (induction draws s rule: fresh_task_id.induct) (auto split: if_splits)

lemma create_cases:
  assumes "createTask now draws opts s = Some (s', r)"
  obtains
    (refused) msg where "s' = purgeExpired now s" "r = rejected kLimitExceeded (Some msg) no_task"
  | (created) i t where "map_of (ts_tasks (purgeExpired now s)) i = None"
      "countActive (tc_authContext opts) (purgeExpired now s) < ts_maxActive s"
      "tk_taskId (st_task t) = i" "tk_status (st_task t) = kWorking" "st_authContext t = tc_authContext opts"
      "st_expiresAt t = (case tc_ttl opts of None \<Rightarrow> None | Some ttl \<Rightarrow> Some (now + 1000000 * sint ttl))"
      "case tc_ttl opts of None \<Rightarrow> True | Some ttl \<Rightarrow> 0 \<le> sint ttl \<and> sint ttl \<le> sint (ts_maxTtl s)"
      "st_result t = None" "st_errorPayload t = None" "st_sequence t = ts_nextSequence s"
      "s' = (purgeExpired now s)\<lparr>ts_tasks := umap_put i t (ts_tasks (purgeExpired now s)),
         ts_nextSequence := ts_nextSequence s + 1\<rparr>" "r = ok_result (st_task t)"
proof -
  let ?p = "purgeExpired now s"
  define bad where "bad = (case tc_ttl opts of
              None \<Rightarrow> None
            | Some ttl \<Rightarrow>
                if sint ttl < 0 then Some ''Task ttl must be greater than or equal to zero milliseconds''
                else if sint ttl > sint (ts_maxTtl ?p)
                then Some (''Task ttl exceeds configured maximum of '' @ to_string_int (sint (ts_maxTtl ?p)) @
                           '' milliseconds'')
                else None)"
  show ?thesis
  proof (cases bad)
    case (Some msg)
    with assms show ?thesis
      by (intro refused [of msg]) (simp_all add: createTask_def Let_def flip: bad_def)
  next
    case None
    then have ttl: "case tc_ttl opts of None \<Rightarrow> True | Some ttl \<Rightarrow> 0 \<le> sint ttl \<and> sint ttl \<le> sint (ts_maxTtl s)"
      by (auto simp: bad_def split: option.splits if_splits)
    show ?thesis
    proof (cases "countActive (tc_authContext opts) ?p \<ge> ts_maxActive s")
      case True
      with None assms show ?thesis
        by (intro refused) (auto simp add: createTask_def Let_def simp flip: bad_def)
    next
      case False
      with None assms obtain i where i: "fresh_task_id draws ?p = Some i"
        by (auto simp: createTask_def Let_def simp flip: bad_def split: option.splits)
      note fresh = fresh_task_id_unused [OF i]
      define t where "t = \<lparr>st_task = \<lparr>tk_taskId = i, tk_status = kWorking, tk_statusMessage = tc_statusMessage opts,
          tk_createdAt = toIso8601Utc now, tk_lastUpdatedAt = toIso8601Utc now, tk_ttl = tc_ttl opts,
          tk_pollInterval = tc_pollInterval opts\<rparr>, st_authContext = tc_authContext opts,
        st_expiresAt = (case tc_ttl opts of None \<Rightarrow> None | Some ttl \<Rightarrow> Some (now + 1000000 * sint ttl)),
        st_result = None, st_errorPayload = None, st_sequence = ts_nextSequence s\<rparr>"
      have "s' = ?p\<lparr>ts_tasks := umap_put i t (ts_tasks ?p), ts_nextSequence := ts_nextSequence s + 1\<rparr>"
        "r = ok_result (st_task t)"
        using None False i assms
        by (simp_all add: createTask_def Let_def t_def flip: bad_def)
      with fresh False ttl show ?thesis
        by (intro created [of i t]) (simp_all add: t_def)
    qed
  qed
qed

lemma create_inv:
  assumes inv: "store_inv s" and step: "createTask now draws opts s = Some (s', r)"
  shows "store_inv s'"
  using step
proof (cases rule: create_cases)
  case (refused msg)
  with store_inv_purge [OF inv] show ?thesis by simp
next
  case (created i t)
  note p = store_inv_purge [OF inv, of now]
  have put: "umap_put i t (ts_tasks (purgeExpired now s)) = ts_tasks (purgeExpired now s) @ [(i, t)]"
    by (rule umap_put_fresh [OF created(1)])
  show ?thesis
  proof (rule store_invI)
    show "umap_wf (ts_tasks s')" using store_invD(1) [OF p] created(11) by simp
    have look: "map_of (ts_tasks s') k = (if k = i then Some t else map_of (ts_tasks (purgeExpired now s)) k)" for k
      using created(11) by (simp add: umap_simps)
    fix k v assume v: "map_of (ts_tasks s') k = Some v"
    show "tk_taskId (st_task v) = k"
      using v look created(3) store_invD(2) [OF p, of k v] by (auto split: if_splits)
    show "st_sequence v < ts_nextSequence s'"
      using v look created(10,11) store_invD(3) [OF p, of k v] by (auto split: if_splits)
    show "st_result v = None \<and> st_errorPayload v = None" if "\<not> isTerminalTaskStatus (tk_status (st_task v))"
      using v look created(8,9) store_invD(5) [OF p, of k v] that by (auto split: if_splits)
    show "k = k'" if v': "map_of (ts_tasks s') k' = Some v'" and eq: "st_sequence v = st_sequence v'" for k' v'
      using v v' look eq created(10) store_invD(3) [OF p, of k v] store_invD(3) [OF p, of k' v']
        store_invD(4) [OF p, of k v k' v'] by (auto split: if_splits)
  next
    fix a
    have "countActive a s' \<le> countActive a (purgeExpired now s) +
        (if normalizedAuthContextKey a = normalizedAuthContextKey (tc_authContext opts) then 1 else 0)"
      using created(5,11) put by (simp add: countActive_def)
    moreover have "countActive a (purgeExpired now s) = countActive (tc_authContext opts) (purgeExpired now s)"
      if "normalizedAuthContextKey a = normalizedAuthContextKey (tc_authContext opts)"
      using that by (simp add: countActive_def)
    ultimately show "countActive a s' \<le> ts_maxActive s'"
      using created(2,11) store_invD(6) [OF p, of a] by (auto split: if_splits)
  qed
qed

lemma store_inv_step: "store_step now s s' \<Longrightarrow> store_inv s \<Longrightarrow> store_inv s'"
proof (induction rule: store_step.induct)
  case (create now draws opts s s' r)
  then show ?case by (blast intro: create_inv)
next
  case (get now s i a)
  then show ?case
    by (simp add: getTask_def Let_def store_inv_purge split: option.split)
next
  case (list now s a)
  then show ?case by (simp add: listTasks_def Let_def store_inv_purge)
next
  case (poll now s i a)
  then show ?case by (simp add: pollTaskTerminal_def Let_def store_inv_purge split: option.split)
next
  case (update now s i status msg a)
  then show ?case
    unfolding updateTaskStatus_def
    by (intro mutate_inv) (simp_all, simp_all add: set_status_def)
next
  case (set_result now s i status msg result a)
  then show ?case
    unfolding setTaskResult_def by (intro set_payload_inv) simp_all
next
  case (set_error now s i status msg e a)
  then show ?case
    unfolding setTaskError_def by (intro set_payload_inv) simp_all
next
  case (cancel now s i msg e a)
  then show ?case
    unfolding cancelTask_def setTaskError_def by (intro set_payload_inv) simp_all
qed

interpretation store: invariant_system fresh_store some_step store_inv
  proof
  fix s assume "fresh_store s"
  then show "store_inv s"
    by (auto simp: fresh_store_def new_task_store_def store_inv_def countActive_def)
qed (auto simp: some_step_def intro: store_inv_step)

section \<open>What a step does to one task\<close>

lemma mutate_effect:
  assumes inv: "store_inv s" and t: "map_of (ts_tasks s) i = Some t" and live: "\<not> expired now t"
    and keeps: "\<And>t. keeps_identity t (change t)"
    and valid: "\<And>t. allowed (tk_status (st_task t)) \<Longrightarrow>
      isValidTaskStatusTransition (tk_status (st_task t)) (tk_status (st_task (change t)))"
  shows "\<exists>t'. map_of (ts_tasks (fst (mutate_task now j a allowed change s))) i = Some t' \<and> task_moves t t'"
proof -
  have p: "map_of (ts_tasks (purgeExpired now s)) i = Some t"
    using purge_lookup [OF store_invD(1) [OF inv], of now i] t live by simp
  show ?thesis
  proof (cases rule: mutate_cases [of now j a allowed change s])
    case (refused e u)
    with p show ?thesis by simp
  next
    case (changed u)
    with p keeps [of u] valid [OF changed(4)] show ?thesis
      by (cases "i = j") (simp_all add: umap_simps task_moves_def)
  qed
qed

lemma step_moves_task:
  assumes "store_step now s s'" and inv: "store_inv s" and t: "map_of (ts_tasks s) i = Some t"
    and live: "\<not> expired now t"
  shows "\<exists>t'. map_of (ts_tasks s') i = Some t' \<and> task_moves t t'"
proof -
  have p: "map_of (ts_tasks (purgeExpired now s)) i = Some t"
    using purge_lookup [OF store_invD(1) [OF inv], of now i] t live by simp
  note effect = mutate_effect [OF inv t live]
  from assms(1) show ?thesis
  proof (cases rule: store_step.cases)
    case (create draws opts r)
    from create(1) show ?thesis
    proof (cases rule: create_cases)
      case (refused msg)
      with p show ?thesis by simp
    next
      case (created k u)
      with p show ?thesis by (cases "i = k") (simp_all add: umap_simps)
    qed
  next
    case (update j status msg a)
    show ?thesis unfolding update updateTaskStatus_def by (intro effect) simp_all
  next
    case (set_result j status msg result a)
    show ?thesis unfolding set_result setTaskResult_def by (intro effect) simp_all
  next
    case (set_error j status msg e a)
    show ?thesis unfolding set_error setTaskError_def by (intro effect) simp_all
  next
    case (cancel j msg e a)
    show ?thesis unfolding cancel cancelTask_def setTaskError_def by (intro effect) simp_all
  qed (use p in \<open>auto simp: getTask_def listTasks_def pollTaskTerminal_def Let_def split: option.split\<close>)
qed

lemma terminal_moves_nowhere: "task_moves t t' \<Longrightarrow> isTerminalTaskStatus (tk_status (st_task t)) \<Longrightarrow> t' = t"
  by (auto simp: task_moves_def isValidTaskStatusTransition_def)

definition step_until :: "int \<Rightarrow> task_store \<Rightarrow> task_store \<Rightarrow> bool" where
  "step_until deadline s s' \<longleftrightarrow> (\<exists>now. now \<le> deadline \<and> store_step now s s')"

lemma expired_mono: "expired now t \<Longrightarrow> now \<le> deadline \<Longrightarrow> expired deadline t"
  by (auto simp: expired_def split: option.splits)

lemma reachable_store_inv: "some_step\<^sup>*\<^sup>* (new_task_store ttl n) s \<Longrightarrow> store_inv s"
  by (rule store.inv_reachable) (auto simp: fresh_store_def)

lemma steps_keep_terminal:
  assumes "(step_until deadline)\<^sup>*\<^sup>* s s'" and "store_inv s" and "map_of (ts_tasks s) i = Some t"
    and "isTerminalTaskStatus (tk_status (st_task t))" and live: "\<not> expired deadline t"
  shows "map_of (ts_tasks s') i = Some t \<and> store_inv s'"
  using assms
proof (induction rule: rtranclp_induct)
  case (step u v)
  then obtain now where now: "now \<le> deadline" "store_step now u v" by (auto simp: step_until_def)
  with live have "\<not> expired now t" using expired_mono by blast
  with step now show ?case
    using step_moves_task [OF now(2), of i t] terminal_moves_nowhere store_inv_step [OF now(2)] by blast
qed simp

section \<open>The list of tasks\<close>

lemma insort_key_append: "f y \<le> f x \<Longrightarrow> \<forall>z \<in> set zs. f z \<le> f x \<Longrightarrow>
  f y < f x \<Longrightarrow> insort_key f y (zs @ [x]) = insort_key f y zs @ [x]"
  by (induction zs) auto

lemma sort_key_last: "\<forall>y \<in> set ys. f y < f x \<Longrightarrow> sort_key f (ys @ [x]) = sort_key f ys @ [x]"
  by (induction ys) (auto intro!: insort_key_append simp: less_imp_le)

lemma purge_put_live:
  assumes "map_of (ts_tasks (purgeExpired now s)) i = None" and "\<not> expired now t"
  shows "ts_tasks (purgeExpired now ((purgeExpired now s)\<lparr>ts_tasks := umap_put i t (ts_tasks (purgeExpired now s)),
      ts_nextSequence := n\<rparr>)) = ts_tasks (purgeExpired now s) @ [(i, t)]"
  using assms by (simp add: umap_put_fresh [OF assms(1)]) (simp add: purgeExpired_def)

section \<open>Properties\<close>

text \<open>
  C7. Tasks are write-once at the end: in a reachable store, a task in a terminal status (and
  with it its result or error payload) is found unchanged after any sequence of operations that
  ends before the task expires.
\<close>

theorem terminal_task_is_immutable:
  assumes "some_step\<^sup>*\<^sup>* (new_task_store ttl n) s" and "map_of (ts_tasks s) i = Some t"
    and "isTerminalTaskStatus (tk_status (st_task t))"
    and "(step_until deadline)\<^sup>*\<^sup>* s s'" and "\<not> expired deadline t"
  shows "map_of (ts_tasks s') i = Some t"
  using steps_keep_terminal [OF assms(4) reachable_store_inv [OF assms(1)] assms(2,3,5)] by blast

text \<open>
  Every operation moves every live task along a valid status transition or leaves it alone;
  its id, owner, expiry and place in the list never change, and no operation removes it.
\<close>

theorem tasks_move_validly:
  assumes "some_step\<^sup>*\<^sup>* (new_task_store ttl n) s" and "store_step now s s'"
    and "map_of (ts_tasks s) i = Some t" and "\<not> expired now t"
  shows "\<exists>t'. map_of (ts_tasks s') i = Some t' \<and> (t' = t \<or> (keeps_identity t t' \<and>
     isValidTaskStatusTransition (tk_status (st_task t)) (tk_status (st_task t'))))"
  using step_moves_task [OF assms(2) reachable_store_inv [OF assms(1)] assms(3,4)]
  by (simp add: task_moves_def)

text \<open>
  C6. A task that belongs to an authorization context is invisible outside of it: any operation
  of a different context on it, polling for its end included, only purges expired tasks and answers
  with access denied, without the task, its result or its error; the list of that context only
  purges too and does not contain the task.
\<close>

theorem foreign_task_is_invisible:
  assumes "some_step\<^sup>*\<^sup>* (new_task_store ttl n) s" and "map_of (ts_tasks s) i = Some t"
    and "\<not> expired now t" and "st_authContext t = Some owner" and "a \<noteq> Some owner"
  shows "getTask now i a s = (purgeExpired now s, rejected kAccessDenied None no_task)
    \<and> updateTaskStatus now i status msg a s = (purgeExpired now s, rejected kAccessDenied None no_task)
    \<and> setTaskResult now i status msg result a s = (purgeExpired now s, rejected kAccessDenied None no_task)
    \<and> setTaskError now i status msg e a s = (purgeExpired now s, rejected kAccessDenied None no_task)
    \<and> cancelTask now i msg e a s = (purgeExpired now s, rejected kAccessDenied None no_task)
    \<and> pollTaskTerminal now i a s = (purgeExpired now s,
        Some \<lparr>tt_error = kAccessDenied, tt_task = no_task, tt_result = None, tt_errorPayload = None\<rparr>)
    \<and> fst (listTasks now a s) = purgeExpired now s \<and> i \<notin> tk_taskId ` set (snd (listTasks now a s))"
proof -
  note inv = reachable_store_inv [OF assms(1)]
  have p: "map_of (ts_tasks (purgeExpired now s)) i = Some t"
    using purge_lookup [OF store_invD(1) [OF inv], of now i] assms(2,3) by simp
  have no: "\<not> checkAccess t a" using assms(4,5) by (simp add: checkAccess_def)
  have refuse: "mutate_task now i a allowed change s = (purgeExpired now s, rejected kAccessDenied None no_task)"
    for allowed change
    using p no by (simp add: mutate_task_def Let_def)
  have list: "i \<notin> tk_taskId ` set (snd (listTasks now a s))"
  proof
    assume "i \<in> tk_taskId ` set (snd (listTasks now a s))"
    then obtain k u where u: "(k, u) \<in> set (ts_tasks (purgeExpired now s))" "checkAccess u a"
      "i = tk_taskId (st_task u)"
      by (auto simp: listTasks_def Let_def)
    note pinv = store_inv_purge [OF inv, of now]
    from u(1) have "map_of (ts_tasks (purgeExpired now s)) k = Some u"
      by (simp add: umap_in_set [OF store_invD(1) [OF pinv]])
    with u(2,3) p no store_invD(2) [OF pinv] show False by fastforce
  qed
  have "fst (listTasks now a s) = purgeExpired now s" by (simp add: listTasks_def Let_def)
  with p no list show ?thesis
    by (simp add: updateTaskStatus_def setTaskResult_def cancelTask_def setTaskError_def refuse
        getTask_def pollTaskTerminal_def Let_def)
qed

text \<open>
  C37. The runtime limit holds: in every reachable store no authorization context has more
  unfinished tasks than the configured maximum.
\<close>

theorem active_tasks_bounded:
  assumes "some_step\<^sup>*\<^sup>* (new_task_store ttl n) s"
  shows "countActive a s \<le> ts_maxActive s"
  using store_invD(6) [OF reachable_store_inv [OF assms]] .

text \<open>
  The list is the order of creation: listing right after a successful \<open>createTask\<close> gives the
  list before it, followed by the new task exactly for those contexts that may access it (a task
  created with a ttl of zero is expired at once).
\<close>

theorem created_task_is_listed_last:
  assumes "some_step\<^sup>*\<^sup>* (new_task_store ttl n) s"
    and "createTask now draws opts s = Some (s', r)" and "tr_error r = kNone" and "tc_ttl opts \<noteq> Some 0"
  shows "snd (listTasks now a s') = snd (listTasks now a s) @
     (if tc_authContext opts = None \<or> tc_authContext opts = a then [tr_task r] else [])"
  using assms(2)
proof (cases rule: create_cases)
  case (refused msg)
  with assms(3) show ?thesis by (simp add: rejected_def)
next
  case (created i t)
  let ?p = "purgeExpired now s"
  let ?visible = "filter (\<lambda>t. checkAccess t a) (map snd (ts_tasks ?p))"
  note pinv = store_inv_purge [OF reachable_store_inv [OF assms(1)], of now]
  have zero: "x = 0" if "sint x = 0" for x :: int64
    using that by (simp add: signed_word_eqI [of x 0])
  have live: "\<not> expired now t"
    using created(6,7) assms(4) zero by (auto simp: expired_def split: option.splits)
  have tasks: "ts_tasks (purgeExpired now s') = ts_tasks ?p @ [(i, t)]"
    unfolding created(11) by (rule purge_put_live [OF created(1) live])
  have older: "\<forall>u \<in> set ?visible. st_sequence u < st_sequence t"
    using created(10) store_invD(3) [OF pinv] umap_in_set [OF store_invD(1) [OF pinv]] by fastforce
  have "snd (listTasks now a s') = map st_task (sort_key st_sequence
      (?visible @ (if checkAccess t a then [t] else [])))"
    using tasks by (simp add: listTasks_def Let_def)
  also have "\<dots> = snd (listTasks now a s) @ (if checkAccess t a then [st_task t] else [])"
    using sort_key_last [OF older] by (simp add: listTasks_def Let_def)
  finally show ?thesis
    using created(5,12) by (auto simp: checkAccess_def ok_result_def split: option.splits)
qed

section \<open>Witnesses\<close>

definition my_task :: task_create_options where
  "my_task = \<lparr>tc_ttl = Some 5000, tc_pollInterval = None, tc_statusMessage = None, tc_authContext = Some ''me''\<rparr>"

definition example_store :: task_store where
  "example_store = (case createTask 0 [[171, 205]] my_task (new_task_store 60000 4) of
     Some (s, r) \<Rightarrow> s | None \<Rightarrow> new_task_store 60000 4)"

definition example_done :: task_store where
  "example_done = fst (setTaskResult 1 ''abcd'' kCompleted None (JInt 42) (Some ''me'') example_store)"

text \<open>Both evaluated once; later evaluations start from here.\<close>

lemma example_store_value [code]: "example_store =
     \<lparr>ts_tasks = [(''abcd'', \<lparr>st_task = \<lparr>tk_taskId = ''abcd'', tk_status = kWorking, tk_statusMessage = None,
       tk_createdAt = ''1970-01-01T00:00:00Z'', tk_lastUpdatedAt = ''1970-01-01T00:00:00Z'', tk_ttl = Some 5000,
       tk_pollInterval = None\<rparr>, st_authContext = Some ''me'', st_expiresAt = Some 5000000000,
       st_result = None, st_errorPayload = None, st_sequence = 1\<rparr>)],
     ts_nextSequence = 2, ts_maxTtl = 60000, ts_maxActive = 4\<rparr>"
  by code_simp

lemma example_done_value [code]: "example_done =
     \<lparr>ts_tasks = [(''abcd'', \<lparr>st_task = \<lparr>tk_taskId = ''abcd'', tk_status = kCompleted, tk_statusMessage = None,
       tk_createdAt = ''1970-01-01T00:00:00Z'', tk_lastUpdatedAt = ''1970-01-01T00:00:00Z'', tk_ttl = Some 5000,
       tk_pollInterval = None\<rparr>, st_authContext = Some ''me'', st_expiresAt = Some 5000000000,
       st_result = Some (JInt 42), st_errorPayload = None, st_sequence = 1\<rparr>)],
     ts_nextSequence = 2, ts_maxTtl = 60000, ts_maxActive = 4\<rparr>"
  by code_simp

lemma example_reachable:
  "some_step\<^sup>*\<^sup>* (new_task_store 60000 4) example_store" "some_step\<^sup>*\<^sup>* (new_task_store 60000 4) example_done"
proof -
  obtain s r where c: "createTask 0 [[171, 205]] my_task (new_task_store 60000 4) = Some (s, r)"
    by (cases "createTask 0 [[171, 205]] my_task (new_task_store 60000 4)") (code_simp, auto)
  then have "some_step (new_task_store 60000 4) example_store"
    using store_step.create [OF c] by (auto simp: some_step_def example_store_def)
  then show a: "some_step\<^sup>*\<^sup>* (new_task_store 60000 4) example_store" by simp
  have "some_step example_store example_done"
    unfolding some_step_def example_done_def by (blast intro: store_step.set_result)
  with a show "some_step\<^sup>*\<^sup>* (new_task_store 60000 4) example_done" by simp
qed

definition stored_and :: "(stored_task \<Rightarrow> bool) \<Rightarrow> string \<Rightarrow> task_store \<Rightarrow> bool" where
  "stored_and P i s \<longleftrightarrow> (case map_of (ts_tasks s) i of None \<Rightarrow> False | Some t \<Rightarrow> P t)"

lemma example_lookup:
  "stored_and (\<lambda>t. tk_status (st_task t) = kCompleted \<and> st_result t = Some (JInt 42)
     \<and> st_expiresAt t = Some 5000000000) ''abcd'' example_done"
  "stored_and (\<lambda>t. st_authContext t = Some ''me'' \<and> st_expiresAt t = Some 5000000000) ''abcd'' example_store"
  by (simp_all add: example_store_value example_done_value stored_and_def)

lemma example_lookupE:
  assumes "stored_and P i s"
  obtains t where "map_of (ts_tasks s) i = Some t" "P t"
  using assms by (auto simp: stored_and_def split: option.splits)

theorem terminal_task_is_immutable_witness:
  "map_of (ts_tasks (fst (cancelTask 2 ''abcd'' None missing_payload_error None example_done))) ''abcd'' =
     map_of (ts_tasks example_done) ''abcd''"
proof -
  obtain t where t: "map_of (ts_tasks example_done) ''abcd'' = Some t" "tk_status (st_task t) = kCompleted"
    "st_expiresAt t = Some 5000000000"
    using example_lookupE [OF example_lookup(1)] by blast
  have "(step_until 2)\<^sup>*\<^sup>* example_done (fst (cancelTask 2 ''abcd'' None missing_payload_error None example_done))"
    by (intro r_into_rtranclp) (auto simp: step_until_def intro: store_step.cancel)
  from terminal_task_is_immutable [OF example_reachable(2) t(1) _ this] t show ?thesis
    by (simp add: isTerminalTaskStatus_def expired_def)
qed

theorem tasks_move_validly_witness:
  "stored_and (\<lambda>t. \<exists>u. map_of (ts_tasks (fst (updateTaskStatus 2 ''abcd'' kInputRequired None (Some ''me'') example_store)))
     ''abcd'' = Some u \<and> (u = t \<or> (keeps_identity t u \<and>
       isValidTaskStatusTransition (tk_status (st_task t)) (tk_status (st_task u))))) ''abcd'' example_store"
proof -
  obtain t where t: "map_of (ts_tasks example_store) ''abcd'' = Some t" "st_expiresAt t = Some 5000000000"
    using example_lookupE [OF example_lookup(2)] by blast
  from tasks_move_validly [OF example_reachable(1) store_step.update [of 2] t(1)] t show ?thesis
    by (simp add: stored_and_def expired_def)
qed

theorem foreign_task_is_invisible_witness:
  "getTask 3 ''abcd'' (Some ''you'') example_store =
     (purgeExpired 3 example_store, rejected kAccessDenied None no_task)"
proof -
  obtain t where t: "map_of (ts_tasks example_store) ''abcd'' = Some t" "st_authContext t = Some ''me''"
    "st_expiresAt t = Some 5000000000"
    using example_lookupE [OF example_lookup(2)] by blast
  from foreign_task_is_invisible [OF example_reachable(1) t(1) _ t(2), of 3 "Some ''you''"] t show ?thesis
    by (simp add: expired_def)
qed

theorem active_tasks_bounded_witness: "countActive (Some ''me'') example_store \<le> ts_maxActive example_store"
  by (rule active_tasks_bounded [OF example_reachable(1)])

theorem created_task_is_listed_last_witness:
  "\<exists>s r. createTask 7 [[171, 205], [1, 2]] my_task example_store = Some (s, r)
     \<and> snd (listTasks 7 (Some ''me'') s) = snd (listTasks 7 (Some ''me'') example_store) @ [tr_task r]"
proof -
  have ok: "case createTask 7 [[171, 205], [1, 2]] my_task example_store of None \<Rightarrow> False
      | Some (s, r) \<Rightarrow> tr_error r = kNone" by code_simp
  obtain s r where c: "createTask 7 [[171, 205], [1, 2]] my_task example_store = Some (s, r)"
    using ok by (cases "createTask 7 [[171, 205], [1, 2]] my_task example_store") auto
  with ok have "tr_error r = kNone" by simp
  from created_task_is_listed_last [OF example_reachable(1) c this, of "Some ''me''"] c show ?thesis
    by (simp add: my_task_def)
qed

end
