(* ===== verification/TaskReceiver.thy ===== *)
theory TaskReceiver
  imports TaskStore
begin

text \<open>
  The task receiver of src/util/tasks.cpp: the operations a server offers on tasks and the
  handlers of tasks/get, tasks/result, tasks/list and tasks/cancel. The receiver works on any
  implementation of the \<open>TaskStore\<close> interface, given as a record of operations on a state of type
  \<open>'s\<close>. The locale states what the receiver relies on; the in-memory store provides it. Calls of
  the status observer are recorded in their order.
\<close>

section \<open>The interface of a store\<close>

record 's task_store_ops =
  op_createTask :: "task_create_options \<Rightarrow> 's \<Rightarrow> ('s \<times> task_record_result) option"
  op_getTask :: "string \<Rightarrow> string option \<Rightarrow> 's \<Rightarrow> 's \<times> task_record_result"
  op_listTasks :: "string option \<Rightarrow> 's \<Rightarrow> 's \<times> task list"
  op_updateTaskStatus :: "string \<Rightarrow> TaskStatus \<Rightarrow> string option \<Rightarrow> string option \<Rightarrow> 's \<Rightarrow> 's \<times> task_record_result"
  op_setTaskResult ::
    "string \<Rightarrow> TaskStatus \<Rightarrow> string option \<Rightarrow> json \<Rightarrow> string option \<Rightarrow> 's \<Rightarrow> 's \<times> task_record_result"
  op_setTaskError ::
    "string \<Rightarrow> TaskStatus \<Rightarrow> string option \<Rightarrow> json_rpc_error \<Rightarrow> string option \<Rightarrow> 's \<Rightarrow> 's \<times> task_record_result"
  op_cancelTask ::
    "string \<Rightarrow> string option \<Rightarrow> json_rpc_error \<Rightarrow> string option \<Rightarrow> 's \<Rightarrow> 's \<times> task_record_result"
  op_pollTerminal :: "string \<Rightarrow> string option \<Rightarrow> 's \<Rightarrow> 's \<times> task_terminal_result option"

text \<open>The in-memory store at a time and with the random bytes that a creation would draw.\<close>

definition in_memory_ops :: "int \<times> nat list list \<Rightarrow> task_store task_store_ops" where
  "in_memory_ops e =
     \<lparr>op_createTask = createTask (fst e) (snd e), op_getTask = getTask (fst e), op_listTasks = listTasks (fst e),
      op_updateTaskStatus = updateTaskStatus (fst e), op_setTaskResult = setTaskResult (fst e),
      op_setTaskError = setTaskError (fst e), op_cancelTask = cancelTask (fst e),
      op_pollTerminal = pollTaskTerminal (fst e)\<rparr>"

section \<open>The receiver\<close>

record 's receiver =
  rv_store :: 's
  rv_defaultPollInterval :: "int64 option"
  rv_listPageSize :: nat
  rv_statusObserver :: bool
  rv_observed :: "(request_context \<times> task) list"

definition new_receiver :: "'s option \<Rightarrow> int64 option \<Rightarrow> nat \<Rightarrow> string + 's receiver" where
  "new_receiver store poll pageSize =
     (case store of
        None \<Rightarrow> Inl ''TaskReceiver requires a non-null TaskStore''
      | Some s \<Rightarrow> Inr \<lparr>rv_store = s, rv_defaultPollInterval = poll, rv_listPageSize = pageSize,
                      rv_statusObserver = False, rv_observed = []\<rparr>)"

definition setStatusObserver :: "bool \<Rightarrow> 's receiver \<Rightarrow> 's receiver" where
  "setStatusObserver present r = r\<lparr>rv_statusObserver := present\<rparr>"

definition authContextForRequest :: "request_context \<Rightarrow> string option" where
  "authContextForRequest c = rc_auth_context c"

definition notifyStatusObserver :: "request_context \<Rightarrow> task_record_result \<Rightarrow> 's receiver \<Rightarrow> 's receiver" where
  "notifyStatusObserver c res r =
     (if \<not> rv_statusObserver r \<or> tr_error res \<noteq> kNone then r
      else r\<lparr>rv_observed := rv_observed r @ [(c, tr_task res)]\<rparr>)"

text \<open>\<open>TaskReceiver::createTask\<close> throws the store's error.\<close>

definition receiver_createTask ::
  "'s task_store_ops \<Rightarrow> request_context \<Rightarrow> task_augmentation \<Rightarrow> string option \<Rightarrow> 's receiver \<Rightarrow>
   ('s receiver \<times> (string + create_task_result)) option" where
  "receiver_createTask ops c aug msg r =
     (let opts = \<lparr>tc_ttl = (if ta_ttlProvided aug then ta_ttl aug else None),
                  tc_pollInterval = rv_defaultPollInterval r, tc_statusMessage = msg,
                  tc_authContext = authContextForRequest c\<rparr>
      in map_option (\<lambda>(s, res).
          (r\<lparr>rv_store := s\<rparr>,
           if tr_error res \<noteq> kNone
           then Inl (case tr_errorMessage res of Some m \<Rightarrow> m | None \<Rightarrow> taskStoreErrorMessage (tr_error res))
           else Inr \<lparr>cr_task = tr_task res, cr_metadata = None\<rparr>))
        (op_createTask ops opts (rv_store r)))"

text \<open>A mutation of the store, reported to the observer.\<close>

definition observed_mutation ::
  "request_context \<Rightarrow> ('s \<Rightarrow> 's \<times> task_record_result) \<Rightarrow> 's receiver \<Rightarrow> 's receiver \<times> task_record_result" where
  "observed_mutation c operation r =
     (let (s, res) = operation (rv_store r) in (notifyStatusObserver c res (r\<lparr>rv_store := s\<rparr>), res))"

definition receiver_updateTaskStatus ::
  "'s task_store_ops \<Rightarrow> request_context \<Rightarrow> string \<Rightarrow> TaskStatus \<Rightarrow> string option \<Rightarrow> 's receiver \<Rightarrow>
   's receiver \<times> task_record_result" where
  "receiver_updateTaskStatus ops c i status msg r =
     observed_mutation c (op_updateTaskStatus ops i status msg (authContextForRequest c)) r"

definition completeTaskWithResponse ::
  "'s task_store_ops \<Rightarrow> request_context \<Rightarrow> string \<Rightarrow> response \<Rightarrow> TaskStatus \<Rightarrow> string option \<Rightarrow> 's receiver \<Rightarrow>
   's receiver \<times> task_record_result" where
  "completeTaskWithResponse ops c i resp successStatus msg r =
     (case resp of
        RSuccess ok \<Rightarrow>
          observed_mutation c (op_setTaskResult ops i successStatus msg (sr_result ok) (authContextForRequest c)) r
      | RError e \<Rightarrow>
          observed_mutation c (op_setTaskError ops i kFailed msg (er_error e) (authContextForRequest c)) r)"

definition defaultCancellationError :: "string option \<Rightarrow> json_rpc_error" where
  "defaultCancellationError msg =
     \<lparr>err_code = word_of_int (error_code_value kInvalidRequest),
      err_message = (case msg of Some m \<Rightarrow> m | None \<Rightarrow> ''Task cancelled''), err_data = None\<rparr>"

definition receiver_cancelTask ::
  "'s task_store_ops \<Rightarrow> request_context \<Rightarrow> string \<Rightarrow> string option \<Rightarrow> json_rpc_error option \<Rightarrow> 's receiver \<Rightarrow>
   's receiver \<times> task_record_result" where
  "receiver_cancelTask ops c i msg err r =
     (let e = (case err of Some e \<Rightarrow> e | None \<Rightarrow> defaultCancellationError msg) in
      observed_mutation c (op_cancelTask ops i msg e (authContextForRequest c)) r)"

section \<open>Request handlers\<close>

definition parseTaskIdFromRequestParams :: "request \<Rightarrow> string + string" where
  "parseTaskIdFromRequestParams req =
     (case rq_params req of
        None \<Rightarrow> Inl ''Request requires params object with string taskId''
      | Some params \<Rightarrow>
          if \<not> is_object params then Inl ''Request requires params object with string taskId''
          else
            (case jget params ''taskId'' of
               Some (JString i) \<Rightarrow> if i = [] then Inl ''Request requires non-empty params.taskId'' else Inr i
             | _ \<Rightarrow> Inl ''Request requires non-empty params.taskId''))"

definition makeInvalidParamsResponse :: "request_id \<Rightarrow> string \<Rightarrow> response" where
  "makeInvalidParamsResponse i msg = error_reply (makeInvalidParamsError None msg) i"

definition handleTasksGetRequest ::
  "'s task_store_ops \<Rightarrow> request_context \<Rightarrow> request \<Rightarrow> 's receiver \<Rightarrow> 's receiver \<times> response" where
  "handleTasksGetRequest ops c req r =
     (case parseTaskIdFromRequestParams req of
        Inl msg \<Rightarrow> (r, makeInvalidParamsResponse (rq_id req) msg)
      | Inr i \<Rightarrow>
          let (s, res) = op_getTask ops i (authContextForRequest c) (rv_store r) in
          (r\<lparr>rv_store := s\<rparr>,
           if tr_error res \<noteq> kNone
           then makeInvalidParamsResponse (rq_id req) ''Failed to retrieve task: Task not found''
           else new_success (rq_id req) (taskToJson (tr_task res))))"

text \<open>No response means that the handler keeps waiting for the task to end.\<close>

definition handleTasksResultRequest ::
  "'s task_store_ops \<Rightarrow> request_context \<Rightarrow> request \<Rightarrow> 's receiver \<Rightarrow> 's receiver \<times> response option" where
  "handleTasksResultRequest ops c req r =
     (case parseTaskIdFromRequestParams req of
        Inl msg \<Rightarrow> (r, Some (makeInvalidParamsResponse (rq_id req) msg))
      | Inr i \<Rightarrow>
          let (s, outcome) = op_pollTerminal ops i (authContextForRequest c) (rv_store r) in
          (r\<lparr>rv_store := s\<rparr>,
           map_option (\<lambda>res.
             if tt_error res \<noteq> kNone
             then makeInvalidParamsResponse (rq_id req) ''Failed to retrieve task: Task not found''
             else
               (case tt_result res of
                  Some result \<Rightarrow> new_success (rq_id req) (injectRelatedTaskMetadata result i)
                | None \<Rightarrow>
                    (case tt_errorPayload res of
                       Some e \<Rightarrow> error_reply e (rq_id req)
                     | None \<Rightarrow> error_reply (makeInternalError None ''Task terminal result is missing payload'')
                         (rq_id req)))) outcome))"

definition handleTasksListRequest ::
  "'s task_store_ops \<Rightarrow> request_context \<Rightarrow> request \<Rightarrow> 's receiver \<Rightarrow> 's receiver \<times> response" where
  "handleTasksListRequest ops c req r =
     (let parsed = (case rq_params req of
            None \<Rightarrow> Inr None
          | Some params \<Rightarrow>
              if \<not> is_object params then Inl ''tasks/list requires params to be an object when provided''
              else
                (case jget params ''cursor'' of
                   None \<Rightarrow> Inr None
                 | Some (JString s) \<Rightarrow> Inr (Some s)
                 | Some _ \<Rightarrow> Inl ''tasks/list requires params.cursor to be a string''))
      in
      case parsed of
        Inl msg \<Rightarrow> (r, makeInvalidParamsResponse (rq_id req) msg)
      | Inr cursor \<Rightarrow>
          let (s, tasks) = op_listTasks ops (authContextForRequest c) (rv_store r) in
          (r\<lparr>rv_store := s\<rparr>,
           (case paginate cursor (length tasks) (rv_listPageSize r) of
              None \<Rightarrow> makeInvalidParamsResponse (rq_id req) ''Invalid tasks/list cursor''
            | Some w \<Rightarrow>
                new_success (rq_id req)
                  (jput_opt ''nextCursor'' (map_option JString (pw_nextCursor w))
                    (jput ''tasks''
                      (JArray (map (\<lambda>k. taskToJson (tasks ! k)) [pw_startIndex w..<pw_endIndex w]))
                      empty_object)))))"

definition handleTasksCancelRequest ::
  "'s task_store_ops \<Rightarrow> request_context \<Rightarrow> request \<Rightarrow> 's receiver \<Rightarrow> 's receiver \<times> response" where
  "handleTasksCancelRequest ops c req r =
     (case parseTaskIdFromRequestParams req of
        Inl msg \<Rightarrow> (r, makeInvalidParamsResponse (rq_id req) msg)
      | Inr i \<Rightarrow>
          let (r', res) =
            receiver_cancelTask ops c i (Some ''The task was cancelled by request.'') None r in
          (r',
           if tr_error res = kTerminalImmutable
           then makeInvalidParamsResponse (rq_id req)
             (''Cannot cancel task: already in terminal status '' @ quote @ toString (tk_status (tr_task res)) @ quote)
           else if tr_error res \<noteq> kNone
           then makeInvalidParamsResponse (rq_id req) ''Failed to cancel task: Task not found''
           else new_success (rq_id req) (taskToJson (tr_task res))))"

section \<open>What the receiver relies on\<close>

text \<open>
  A stored result or error is what waiting for the task then gives, and it is stable: \<open>steps e\<close> are
  the sequences of operations no later than \<open>e\<close>, and \<open>live e i s\<close> says that task \<open>i\<close> of \<open>s\<close> has not
  expired at \<open>e\<close>.
\<close>

definition terminal_outcome :: "task \<Rightarrow> json option \<Rightarrow> json_rpc_error option \<Rightarrow> task_terminal_result" where
  "terminal_outcome t result e = \<lparr>tt_error = kNone, tt_task = t, tt_result = result, tt_errorPayload = e\<rparr>"

locale task_store_contract =
  fixes ops :: "'e \<Rightarrow> 's task_store_ops"
    and sound :: "'s \<Rightarrow> bool"
    and live :: "'e \<Rightarrow> string \<Rightarrow> 's \<Rightarrow> bool"
    and steps :: "'e \<Rightarrow> 's \<Rightarrow> 's \<Rightarrow> bool"
  assumes stored_result: "sound s \<Longrightarrow> op_setTaskResult (ops e) i status msg v a s = (s', res) \<Longrightarrow>
      tr_error res = kNone \<Longrightarrow>
      sound s' \<and> snd (op_pollTerminal (ops e) i a s') = Some (terminal_outcome (tr_task res) (Some v) None)"
    and stored_error: "sound s \<Longrightarrow> op_setTaskError (ops e) i status msg err a s = (s', res) \<Longrightarrow>
      tr_error res = kNone \<Longrightarrow>
      sound s' \<and> snd (op_pollTerminal (ops e) i a s') = Some (terminal_outcome (tr_task res) None (Some err))"
    and stable: "sound s \<Longrightarrow> snd (op_pollTerminal (ops e) i a s) = Some x \<Longrightarrow> tt_error x = kNone \<Longrightarrow>
      live e' i s \<Longrightarrow> steps e' s s' \<Longrightarrow> snd (op_pollTerminal (ops e') i a s') = Some x"
begin

lemma completion_is_delivered:
  assumes "sound (rv_store r)" and "completeTaskWithResponse (ops e) c i resp status msg r = (r', res)"
    and ok: "tr_error res = kNone" and "live e' i (rv_store r')" and "steps e' (rv_store r') (rv_store r'')"
    and req: "parseTaskIdFromRequestParams req = Inr i"
    and c': "authContextForRequest c' = authContextForRequest c"
  shows "snd (handleTasksResultRequest (ops e') c' req r'') = Some (case resp of
      RSuccess s \<Rightarrow> new_success (rq_id req) (injectRelatedTaskMetadata (sr_result s) i)
    | RError f \<Rightarrow> error_reply (er_error f) (rq_id req))"
proof (cases resp)
  case (RSuccess s)
  obtain st where st: "op_setTaskResult (ops e) i status msg (sr_result s) (authContextForRequest c) (rv_store r) = (st, res)"
    "rv_store r' = st"
    using assms(2) RSuccess
    by (auto simp: completeTaskWithResponse_def observed_mutation_def notifyStatusObserver_def
        split: prod.splits if_splits)
  from stored_result [OF assms(1) st(1) ok] st(2)
  have "snd (op_pollTerminal (ops e) i (authContextForRequest c) (rv_store r')) =
      Some (terminal_outcome (tr_task res) (Some (sr_result s)) None)" and "sound (rv_store r')" by auto
  from stable [OF this(2,1) _ assms(4,5)]
  have "snd (op_pollTerminal (ops e') i (authContextForRequest c') (rv_store r'')) =
      Some (terminal_outcome (tr_task res) (Some (sr_result s)) None)" by (simp add: c' terminal_outcome_def)
  then show ?thesis
    using RSuccess req by (auto simp: handleTasksResultRequest_def terminal_outcome_def split: prod.splits)
next
  case (RError f)
  obtain st where st: "op_setTaskError (ops e) i kFailed msg (er_error f) (authContextForRequest c) (rv_store r) = (st, res)"
    "rv_store r' = st"
    using assms(2) RError
    by (auto simp: completeTaskWithResponse_def observed_mutation_def notifyStatusObserver_def
        split: prod.splits if_splits)
  from stored_error [OF assms(1) st(1) ok] st(2)
  have "snd (op_pollTerminal (ops e) i (authContextForRequest c) (rv_store r')) =
      Some (terminal_outcome (tr_task res) None (Some (er_error f)))" and "sound (rv_store r')" by auto
  from stable [OF this(2,1) _ assms(4,5)]
  have "snd (op_pollTerminal (ops e') i (authContextForRequest c') (rv_store r'')) =
      Some (terminal_outcome (tr_task res) None (Some (er_error f)))" by (simp add: c' terminal_outcome_def)
  then show ?thesis
    using RError req by (auto simp: handleTasksResultRequest_def terminal_outcome_def split: prod.splits)
qed

end

section \<open>The in-memory store keeps the contract\<close>

lemma purge_put_lookup:
  assumes "store_inv s" and "map_of (ts_tasks (purgeExpired now s)) i = Some t" and "st_expiresAt t' = st_expiresAt t"
  shows "map_of (ts_tasks (purgeExpired now ((purgeExpired now s)\<lparr>ts_tasks := umap_put i t'
    (ts_tasks (purgeExpired now s))\<rparr>))) i = Some t'"
proof -
  note inv = store_inv_purge [OF assms(1), of now]
  have "\<not> expired now t"
    using assms(2) purge_lookup [OF store_invD(1) [OF assms(1)], of now i] by (auto split: option.splits if_splits)
  with assms(3) have "\<not> expired now t'" by (simp add: expired_def)
  then show ?thesis
    using store_invD(1) [OF inv] by (simp add: purge_lookup umap_simps)
qed

lemma stored_payload_polled:
  assumes inv: "store_inv s" and res: "tr_error res = kNone"
    and step: "mutate_task now i a
      (\<lambda>from. isTerminalTaskStatus status \<and> isValidTaskStatusTransition from status) change s = (s', res)"
    and keeps: "\<And>t. keeps_identity t (change t)" "\<And>t. tk_status (st_task (change t)) = status"
    and payload: "\<And>t. st_result (change t) = v" "\<And>t. st_errorPayload (change t) = err" "v \<noteq> None \<or> err \<noteq> None"
  shows "store_inv s' \<and> snd (pollTaskTerminal now i a s') = Some (terminal_outcome (tr_task res) v err)"
proof (cases rule: mutate_cases [of now i a
    "\<lambda>from. isTerminalTaskStatus status \<and> isValidTaskStatusTransition from status" change s])
  case (refused e t)
  with step res show ?thesis by (auto simp: rejected_def)
next
  case (changed t)
  have "store_inv s'" using set_payload_inv [OF inv keeps, of now i a] step by simp
  moreover have "map_of (ts_tasks (purgeExpired now s')) i = Some (change t)"
    using purge_put_lookup [OF inv changed(1), of "change t"] keeps(1) [of t] changed(5) step
    by (simp add: keeps_identity_def)
  moreover have "checkAccess (change t) a"
    using changed(2) keeps(1) [of t] by (simp add: checkAccess_def keeps_identity_def)
  ultimately show ?thesis
    using changed(4,5) step payload(3)
    by (auto simp: pollTaskTerminal_def Let_def keeps payload terminal_outcome_def ok_result_def)
qed

lemma poll_live:
  assumes "store_inv s" and "map_of (ts_tasks s) i = Some t" and "\<not> expired now t"
  shows "snd (pollTaskTerminal now i a s) =
    (if \<not> checkAccess t a
     then Some \<lparr>tt_error = kAccessDenied, tt_task = no_task, tt_result = None, tt_errorPayload = None\<rparr>
     else if isTerminalTaskStatus (tk_status (st_task t))
     then Some (terminal_outcome (st_task t) (st_result t) (if st_result t = None \<and> st_errorPayload t = None
       then Some missing_payload_error else st_errorPayload t))
     else None)"
  using assms(2,3) purge_lookup [OF store_invD(1) [OF assms(1)], of now i]
  by (simp add: pollTaskTerminal_def Let_def terminal_outcome_def)

definition live_at :: "int \<times> nat list list \<Rightarrow> string \<Rightarrow> task_store \<Rightarrow> bool" where
  "live_at e i s \<longleftrightarrow> stored_and (\<lambda>t. \<not> expired (fst e) t) i s"

definition steps_before :: "int \<times> nat list list \<Rightarrow> task_store \<Rightarrow> task_store \<Rightarrow> bool" where
  "steps_before e s s' \<longleftrightarrow> (step_until (fst e))\<^sup>*\<^sup>* s s'"

lemma poll_stable:
  assumes inv: "store_inv s" and poll: "snd (pollTaskTerminal now i a s) = Some x" and x: "tt_error x = kNone"
    and live: "live_at e' i s" and steps: "steps_before e' s s'"
  shows "snd (pollTaskTerminal (fst e') i a s') = Some x"
proof -
  obtain t where t: "map_of (ts_tasks s) i = Some t" "\<not> expired (fst e') t"
    using live by (auto simp: live_at_def stored_and_def split: option.splits)
  have now: "\<not> expired now t"
  proof
    assume "expired now t"
    with t(1) purge_lookup [OF store_invD(1) [OF inv], of now i] poll x show False
      by (auto simp: pollTaskTerminal_def Let_def)
  qed
  from poll x poll_live [OF inv t(1) now, of a]
  have terminal: "isTerminalTaskStatus (tk_status (st_task t))" and access: "checkAccess t a"
    by (auto split: if_splits)
  from steps_keep_terminal [OF steps [unfolded steps_before_def] inv t(1) terminal t(2)]
  have "map_of (ts_tasks s') i = Some t" "store_inv s'" by auto
  from poll_live [OF this(2,1) t(2), of a] poll poll_live [OF inv t(1) now, of a] show ?thesis by simp
qed

interpretation in_memory: task_store_contract in_memory_ops store_inv live_at steps_before
proof
  fix s e i status msg v a s' res
  assume "store_inv s" "op_setTaskResult (in_memory_ops e) i status msg v a s = (s', res)" "tr_error res = kNone"
  then show "store_inv s' \<and> snd (op_pollTerminal (in_memory_ops e) i a s') =
      Some (terminal_outcome (tr_task res) (Some v) None)"
    using stored_payload_polled [of s res "fst e" i a status _ s' "Some v" None]
    by (simp add: in_memory_ops_def setTaskResult_def)
next
  fix s e i status msg err a s' res
  assume "store_inv s" "op_setTaskError (in_memory_ops e) i status msg err a s = (s', res)" "tr_error res = kNone"
  then show "store_inv s' \<and> snd (op_pollTerminal (in_memory_ops e) i a s') =
      Some (terminal_outcome (tr_task res) None (Some err))"
    using stored_payload_polled [of s res "fst e" i a status _ s' None "Some err"]
    by (simp add: in_memory_ops_def setTaskError_def)
next
  fix s e i a x e' s'
  assume "store_inv s" "snd (op_pollTerminal (in_memory_ops e) i a s) = Some x" "tt_error x = kNone"
    "live_at e' i s" "steps_before e' s s'"
  then show "snd (op_pollTerminal (in_memory_ops e') i a s') = Some x"
    using poll_stable [of s "fst e" i a x e' s'] by (simp add: in_memory_ops_def)
qed

section \<open>Listing through requests\<close>

definition list_request :: "request_id \<Rightarrow> string option \<Rightarrow> request" where
  "list_request i cursor = new_request i ''tasks/list''
     (map_option (\<lambda>c. jput ''cursor'' (JString c) empty_object) cursor)"

text \<open>A client that follows \<open>nextCursor\<close> and collects the tasks of every page.\<close>

fun collect_task_lists ::
  "'s task_store_ops \<Rightarrow> request_context \<Rightarrow> request_id \<Rightarrow> nat \<Rightarrow> string option \<Rightarrow> 's receiver \<Rightarrow> json list option" where
  "collect_task_lists ops c i 0 cursor r = None"
| "collect_task_lists ops c i (Suc fuel) cursor r =
     (case handleTasksListRequest ops c (list_request i cursor) r of
        (r', RSuccess resp) \<Rightarrow>
          (case (jget (sr_result resp) ''tasks'', jget (sr_result resp) ''nextCursor'') of
             (Some (JArray js), None) \<Rightarrow> Some js
           | (Some (JArray js), Some (JString next)) \<Rightarrow>
               map_option ((@) js) (collect_task_lists ops c i fuel (Some next) r')
           | _ \<Rightarrow> None)
      | _ \<Rightarrow> None)"

lemma map_nth_window:
  "b \<le> length xs \<Longrightarrow> map (\<lambda>k. f (xs ! k)) [a..<b] = map f (take (b - a) (drop a xs))"
proof -
  assume b: "b \<le> length xs"
  have "map (\<lambda>k. f (xs ! k)) [a..<b] = map f (map (\<lambda>k. xs ! k) [a..<b])" by simp
  also have "map (\<lambda>k. xs ! k) [a..<b] = take (b - a) (drop a xs)"
    using b by (auto intro!: nth_equalityI)
  finally show ?thesis .
qed

lemma paginate_end: "paginate cursor tot sz = Some w \<Longrightarrow> pw_endIndex w \<le> tot"
  by (auto simp: paginate_def Let_def split: if_splits option.splits)

lemma list_request_params:
  "(case rq_params (list_request i cursor) of None \<Rightarrow> Inr None
    | Some params \<Rightarrow> if \<not> is_object params then Inl m1
      else (case jget params ''cursor'' of None \<Rightarrow> Inr None | Some (JString s) \<Rightarrow> Inr (Some s) | Some _ \<Rightarrow> Inl m2))
   = Inr cursor"
  by (cases cursor) (simp_all add: list_request_def new_request_def)

lemma list_request_page:
  assumes "op_listTasks ops (authContextForRequest c) (rv_store r) = (s, ts)"
    and "paginate cursor (length ts) (rv_listPageSize r) = Some w"
  shows "handleTasksListRequest ops c (list_request i cursor) r =
    (r\<lparr>rv_store := s\<rparr>, new_success (rq_id (list_request i cursor))
       (jput_opt ''nextCursor'' (map_option JString (pw_nextCursor w))
         (jput ''tasks'' (JArray (map taskToJson (page_of w ts))) empty_object)))"
  using assms
  by (simp add: handleTasksListRequest_def list_request_params map_nth_window paginate_end page_of_def)

lemma list_again: "listTasks now a (fst (listTasks now a s)) = listTasks now a s"
  by (simp add: listTasks_def Let_def purge_twice)

lemma collect_lists_pages:
  assumes "listTasks now (authContextForRequest c) (rv_store r) = (s, ts)" and "rv_listPageSize r = sz"
    and "collect_pages (\<lambda>cu. paginate cu (length ts) sz) fuel cursor ts = Some pages"
  shows "collect_task_lists (in_memory_ops (now, draws)) c i fuel cursor r = Some (map taskToJson (concat pages))"
  using assms
proof (induction fuel arbitrary: cursor pages r)
  case (Suc fuel)
  then obtain w where w: "paginate cursor (length ts) sz = Some w" by (auto split: option.splits)
  have ops: "op_listTasks (in_memory_ops (now, draws)) (authContextForRequest c) (rv_store r) = (s, ts)"
    using Suc.prems by (simp add: in_memory_ops_def)
  note page = list_request_page [OF ops, of cursor w i] w Suc.prems(2)
  show ?case
  proof (cases "pw_nextCursor w")
    case None
    with page Suc.prems(3) show ?thesis by (auto simp: new_success_def)
  next
    case (Some nc)
    with w Suc.prems(3) obtain rest where
      rest: "collect_pages (\<lambda>cu. paginate cu (length ts) sz) fuel (Some nc) ts = Some rest"
        "pages = page_of w ts # rest" by auto
    have "listTasks now (authContextForRequest c) (rv_store (r\<lparr>rv_store := s\<rparr>)) = (s, ts)"
      using list_again [of now "authContextForRequest c" "rv_store r"] Suc.prems(1) by simp
    from Suc.IH [OF this _ rest(1)] Suc.prems(2) page Some rest(2) show ?thesis
      by (simp add: new_success_def)
  qed
qed simp

section \<open>Properties\<close>

text \<open>
  C5. A completed task delivers its response: once \<open>completeTaskWithResponse\<close> has succeeded, a
  tasks/result request for the task by the same authorization context, after any operations of
  anybody, is answered with the stored result plus the related-task metadata, or with the stored
  error, as long as the task has not expired.
\<close>

theorem completed_task_delivers_its_response:
  assumes "some_step\<^sup>*\<^sup>* (new_task_store ttl n) (rv_store r)"
    and "completeTaskWithResponse (in_memory_ops e) c i resp status msg r = (r', res)" and "tr_error res = kNone"
    and "live_at e' i (rv_store r')" and "steps_before e' (rv_store r') (rv_store r'')"
    and "parseTaskIdFromRequestParams req = Inr i" and "rc_auth_context c' = rc_auth_context c"
  shows "snd (handleTasksResultRequest (in_memory_ops e') c' req r'') = Some (case resp of
      RSuccess s \<Rightarrow> new_success (rq_id req) (injectRelatedTaskMetadata (sr_result s) i)
    | RError f \<Rightarrow> error_reply (er_error f) (rq_id req))"
  using in_memory.completion_is_delivered [OF reachable_store_inv [OF assms(1)] assms(2-6)] assms(7)
  by (simp add: authContextForRequest_def)

text \<open>A task that a context cannot tell from a missing one.\<close>

definition unknown_to :: "string option \<Rightarrow> string \<Rightarrow> task_store \<Rightarrow> bool" where
  "unknown_to a i s \<longleftrightarrow> (case map_of (ts_tasks s) i of None \<Rightarrow> True | Some t \<Rightarrow> \<not> checkAccess t a)"

text \<open>
  The request handlers are no oracle for task ids: tasks/get, tasks/result and tasks/cancel
  answer a request for a task of another context exactly as one for a task that does not exist,
  only purge the store, and do not call the status observer.
\<close>

theorem handlers_do_not_reveal_tasks:
  assumes "some_step\<^sup>*\<^sup>* (new_task_store ttl n) (rv_store r)"
    and "parseTaskIdFromRequestParams req = Inr i" and "unknown_to (rc_auth_context c) i (rv_store r)"
  shows "handleTasksGetRequest (in_memory_ops (now, draws)) c req r =
      (r\<lparr>rv_store := purgeExpired now (rv_store r)\<rparr>,
       makeInvalidParamsResponse (rq_id req) ''Failed to retrieve task: Task not found'')
    \<and> handleTasksResultRequest (in_memory_ops (now, draws)) c req r =
      (r\<lparr>rv_store := purgeExpired now (rv_store r)\<rparr>,
       Some (makeInvalidParamsResponse (rq_id req) ''Failed to retrieve task: Task not found''))
    \<and> handleTasksCancelRequest (in_memory_ops (now, draws)) c req r =
      (r\<lparr>rv_store := purgeExpired now (rv_store r)\<rparr>,
       makeInvalidParamsResponse (rq_id req) ''Failed to cancel task: Task not found'')"
proof -
  let ?s = "purgeExpired now (rv_store r)"
  note inv = reachable_store_inv [OF assms(1)]
  have hidden: "case map_of (ts_tasks ?s) i of None \<Rightarrow> True | Some t \<Rightarrow> \<not> checkAccess t (rc_auth_context c)"
    using assms(3) by (simp add: unknown_to_def purge_lookup [OF store_invD(1) [OF inv]] split: option.splits)
  then show ?thesis
    using assms(2)
    by (auto simp: handleTasksGetRequest_def handleTasksResultRequest_def handleTasksCancelRequest_def
        receiver_cancelTask_def observed_mutation_def notifyStatusObserver_def in_memory_ops_def
        cancelTask_def setTaskError_def mutate_task_def getTask_def pollTaskTerminal_def
        authContextForRequest_def rejected_def Let_def split: option.splits)
qed

text \<open>
  The task list is complete: a client that sends tasks/list and follows every \<open>nextCursor\<close>
  receives, within one request more than there are tasks, the JSON of exactly the tasks its context
  may access, in the order of their creation.
\<close>

theorem task_list_requests_are_complete:
  assumes "0 < rv_listPageSize r" and "length tasks + rv_listPageSize r < 2 ^ 64" and "length tasks < fuel"
    and "tasks = snd (listTasks now (rc_auth_context c) (rv_store r))"
  shows "collect_task_lists (in_memory_ops (now, draws)) c i fuel None r = Some (map taskToJson tasks)"
proof -
  obtain s where s: "listTasks now (authContextForRequest c) (rv_store r) = (s, tasks)"
    using assms(4) by (cases "listTasks now (rc_auth_context c) (rv_store r)") (auto simp: authContextForRequest_def)
  obtain pages where "collect_pages (\<lambda>cu. paginate cu (length tasks) (rv_listPageSize r)) fuel None tasks = Some pages"
    "concat pages = tasks" using task_pages.collect_all [OF assms(1-3)] by blast
  with collect_lists_pages [OF s refl] show ?thesis by blast
qed

text \<open>
  Cancelling is final: after a successful tasks/cancel the observer has been called with the
  cancelled task, and completing the task later, before it expires, is refused as immutable, changes
  nothing but expired tasks and calls no observer.
\<close>

theorem cancelled_task_is_not_completed:
  assumes "some_step\<^sup>*\<^sup>* (new_task_store ttl n) (rv_store r)"
    and "receiver_cancelTask (in_memory_ops e) c i msg err r = (r', res)" and "tr_error res = kNone"
    and "live_at e' i (rv_store r')" and "rc_auth_context c' = rc_auth_context c"
  shows "tk_status (tr_task res) = kCancelled
    \<and> rv_observed r' = rv_observed r @ (if rv_statusObserver r then [(c, tr_task res)] else [])
    \<and> completeTaskWithResponse (in_memory_ops e') c' i resp status msg' r' =
        (r'\<lparr>rv_store := purgeExpired (fst e') (rv_store r')\<rparr>, rejected kTerminalImmutable None (tr_task res))"
proof -
  let ?a = "rc_auth_context c" and ?now = "fst e"
  define f where "f = (case err of Some x \<Rightarrow> x | None \<Rightarrow> defaultCancellationError msg)"
  define change where
    "change = (\<lambda>t. (set_status ?now kCancelled msg t)\<lparr>st_errorPayload := Some f, st_result := None\<rparr>)"
  note inv = reachable_store_inv [OF assms(1)]
  obtain st where st: "mutate_task ?now i ?a
      (\<lambda>from. isTerminalTaskStatus kCancelled \<and> isValidTaskStatusTransition from kCancelled) change (rv_store r) = (st, res)"
    and r': "r' = notifyStatusObserver c res (r\<lparr>rv_store := st\<rparr>)"
    using assms(2) by (auto simp: receiver_cancelTask_def observed_mutation_def in_memory_ops_def cancelTask_def
        setTaskError_def change_def f_def authContextForRequest_def Let_def split: prod.splits)
  from r' have [simp]: "rv_store r' = st" by (simp add: notifyStatusObserver_def)
  have status: "tk_status (st_task (change t)) = kCancelled" for t by (simp add: change_def)
  have keeps: "keeps_identity t (change t)" for t by (simp add: change_def)
  show ?thesis
  proof (cases rule: mutate_cases [of ?now i ?a
      "\<lambda>from. isTerminalTaskStatus kCancelled \<and> isValidTaskStatusTransition from kCancelled" change "rv_store r"])
    case (refused x t)
    with st assms(3) show ?thesis by (auto simp: rejected_def)
  next
    case (changed t)
    with st have st_eq: "st = (purgeExpired ?now (rv_store r))\<lparr>ts_tasks :=
        umap_put i (change t) (ts_tasks (purgeExpired ?now (rv_store r)))\<rparr>"
      and res: "tr_task res = st_task (change t)" "tr_error res = kNone" by (auto simp: ok_result_def)
    from st_eq have look: "map_of (ts_tasks st) i = Some (change t)" by (simp add: umap_simps)
    have inv': "store_inv st" using set_payload_inv [OF inv keeps status, of ?now i ?a] st by simp
    from assms(4) look have "\<not> expired (fst e') (change t)" by (simp add: live_at_def stored_and_def)
    with look have "map_of (ts_tasks (purgeExpired (fst e') st)) i = Some (change t)"
      by (simp add: purge_lookup [OF store_invD(1) [OF inv']])
    moreover have "checkAccess (change t) (rc_auth_context c')"
      using changed(2) keeps [of t] assms(5) by (simp add: checkAccess_def keeps_identity_def)
    ultimately have "mutate_task (fst e') i (rc_auth_context c') allowed g st =
        (purgeExpired (fst e') st, rejected kTerminalImmutable None (tr_task res))" for allowed g
      by (simp add: mutate_task_def Let_def status isTerminalTaskStatus_def res)
    then have "completeTaskWithResponse (in_memory_ops e') c' i resp status msg' r' =
        (r'\<lparr>rv_store := purgeExpired (fst e') (rv_store r')\<rparr>, rejected kTerminalImmutable None (tr_task res))"
      by (simp add: completeTaskWithResponse_def observed_mutation_def in_memory_ops_def setTaskResult_def
          setTaskError_def authContextForRequest_def notifyStatusObserver_def rejected_def split: response.split)
    with res r' status show ?thesis by (simp add: notifyStatusObserver_def)
  qed
qed

section \<open>Witnesses\<close>

definition my_context :: request_context where
  "my_context = \<lparr>rc_protocol_version = ''2025-11-25'', rc_session_id = None, rc_auth_context = Some ''me''\<rparr>"

definition your_context :: request_context where
  "your_context = my_context\<lparr>rc_auth_context := Some ''you''\<rparr>"

definition example_receiver :: "task_store receiver" where
  "example_receiver = \<lparr>rv_store = example_store, rv_defaultPollInterval = Some 1000, rv_listPageSize = 1,
     rv_statusObserver = True, rv_observed = []\<rparr>"

definition task_request :: "string \<Rightarrow> request" where
  "task_request method = new_request (IntId 9) method (Some (jput ''taskId'' (JString ''abcd'') empty_object))"

definition example_response :: response where
  "example_response = new_success (IntId 3) (jput ''n'' (JInt 5) empty_object)"

definition example_completed :: "task_store receiver" where
  "example_completed =
     fst (completeTaskWithResponse (in_memory_ops (5, [])) my_context ''abcd'' example_response kCompleted None example_receiver)"

definition example_cancelled :: "task_store receiver" where
  "example_cancelled = fst (receiver_cancelTask (in_memory_ops (5, [])) my_context ''abcd'' None None example_receiver)"

lemma example_receiver_reachable: "some_step\<^sup>*\<^sup>* (new_task_store 60000 4) (rv_store example_receiver)"
  by (simp add: example_receiver_def example_reachable)

lemma task_request_id: "parseTaskIdFromRequestParams (task_request method) = Inr ''abcd''"
  by (simp add: parseTaskIdFromRequestParams_def task_request_def new_request_def)

lemma example_completed_value [code]: "example_completed =
    \<lparr>rv_store = \<lparr>ts_tasks = [(''abcd'', \<lparr>st_task = \<lparr>tk_taskId = ''abcd'', tk_status = kCompleted, tk_statusMessage = None,
       tk_createdAt = ''1970-01-01T00:00:00Z'', tk_lastUpdatedAt = ''1970-01-01T00:00:00Z'', tk_ttl = Some 5000,
       tk_pollInterval = None\<rparr>, st_authContext = Some ''me'', st_expiresAt = Some 5000000000,
       st_result = Some (JObject [(''n'', JInt 5)]), st_errorPayload = None, st_sequence = 1\<rparr>)],
     ts_nextSequence = 2, ts_maxTtl = 60000, ts_maxActive = 4\<rparr>,
     rv_defaultPollInterval = Some 1000, rv_listPageSize = 1, rv_statusObserver = True,
     rv_observed = [(my_context, \<lparr>tk_taskId = ''abcd'', tk_status = kCompleted, tk_statusMessage = None,
       tk_createdAt = ''1970-01-01T00:00:00Z'', tk_lastUpdatedAt = ''1970-01-01T00:00:00Z'', tk_ttl = Some 5000,
       tk_pollInterval = None\<rparr>)]\<rparr>"
  by code_simp

lemma example_cancelled_value [code]: "example_cancelled =
    \<lparr>rv_store = \<lparr>ts_tasks = [(''abcd'', \<lparr>st_task = \<lparr>tk_taskId = ''abcd'', tk_status = kCancelled, tk_statusMessage = None,
       tk_createdAt = ''1970-01-01T00:00:00Z'', tk_lastUpdatedAt = ''1970-01-01T00:00:00Z'', tk_ttl = Some 5000,
       tk_pollInterval = None\<rparr>, st_authContext = Some ''me'', st_expiresAt = Some 5000000000,
       st_result = None, st_errorPayload = Some \<lparr>err_code = 4294934696, err_message = ''Task cancelled'', err_data = None\<rparr>, st_sequence = 1\<rparr>)],
     ts_nextSequence = 2, ts_maxTtl = 60000, ts_maxActive = 4\<rparr>,
     rv_defaultPollInterval = Some 1000, rv_listPageSize = 1, rv_statusObserver = True,
     rv_observed = [(my_context, \<lparr>tk_taskId = ''abcd'', tk_status = kCancelled, tk_statusMessage = None,
       tk_createdAt = ''1970-01-01T00:00:00Z'', tk_lastUpdatedAt = ''1970-01-01T00:00:00Z'', tk_ttl = Some 5000,
       tk_pollInterval = None\<rparr>)]\<rparr>"
  by code_simp

lemma example_completed_ok:
  "tr_error (snd (completeTaskWithResponse (in_memory_ops (5, [])) my_context ''abcd'' example_response kCompleted
     None example_receiver)) = kNone \<and> live_at (20, []) ''abcd'' (rv_store example_completed)"
  by code_simp

lemma example_cancelled_ok:
  "tr_error (snd (receiver_cancelTask (in_memory_ops (5, [])) my_context ''abcd'' None None example_receiver)) = kNone
     \<and> live_at (20, []) ''abcd'' (rv_store example_cancelled)"
  by code_simp

theorem completed_task_delivers_its_response_witness:
  "snd (handleTasksResultRequest (in_memory_ops (20, [])) my_context (task_request ''tasks/result'') example_completed) =
     Some (new_success (IntId 9) (injectRelatedTaskMetadata (jput ''n'' (JInt 5) empty_object) ''abcd''))"
proof -
  have "completeTaskWithResponse (in_memory_ops (5, [])) my_context ''abcd'' example_response kCompleted None
      example_receiver = (example_completed, snd (completeTaskWithResponse (in_memory_ops (5, [])) my_context ''abcd''
      example_response kCompleted None example_receiver))"
    by (simp add: example_completed_def)
  from completed_task_delivers_its_response [OF example_receiver_reachable this _ _ _ task_request_id,
      of "(20, [])" example_completed my_context "''tasks/result''"] example_completed_ok
  show ?thesis
    by (simp add: steps_before_def example_response_def new_success_def task_request_def new_request_def)
qed

theorem handlers_do_not_reveal_tasks_witness:
  "snd (handleTasksGetRequest (in_memory_ops (7, [])) your_context (task_request ''tasks/get'') example_receiver) =
     makeInvalidParamsResponse (IntId 9) ''Failed to retrieve task: Task not found''"
proof -
  have "unknown_to (rc_auth_context your_context) ''abcd'' (rv_store example_receiver)" by code_simp
  from handlers_do_not_reveal_tasks [OF example_receiver_reachable task_request_id this, of 7 "[]"]
  show ?thesis by (simp add: task_request_def new_request_def)
qed

lemma example_receiver_sel:
  "rv_store example_receiver = example_store" "rv_listPageSize example_receiver = 1"
  "rc_auth_context my_context = Some ''me''"
  by (simp_all add: example_receiver_def my_context_def)

theorem task_list_requests_are_complete_witness:
  "collect_task_lists (in_memory_ops (7, [])) my_context (IntId 1) 2 None example_receiver =
     Some (map taskToJson (snd (listTasks 7 (Some ''me'') example_store)))"
proof -
  have few: "length (snd (listTasks 7 (Some ''me'') example_store)) < 2" by code_simp
  show ?thesis
    by (rule task_list_requests_are_complete) (use few in \<open>simp_all add: example_receiver_sel\<close>)
qed

theorem cancelled_task_is_not_completed_witness:
  "snd (completeTaskWithResponse (in_memory_ops (20, [])) my_context ''abcd'' example_response kCompleted None
     example_cancelled) = rejected kTerminalImmutable None (tr_task (snd (receiver_cancelTask (in_memory_ops (5, []))
       my_context ''abcd'' None None example_receiver)))"
proof -
  have "receiver_cancelTask (in_memory_ops (5, [])) my_context ''abcd'' None None example_receiver =
      (example_cancelled, snd (receiver_cancelTask (in_memory_ops (5, [])) my_context ''abcd'' None None example_receiver))"
    by (simp add: example_cancelled_def)
  from cancelled_task_is_not_completed [OF example_receiver_reachable this, of "(20, [])" my_context example_response
      kCompleted None] example_cancelled_ok
  show ?thesis by simp
qed

end
