(* ===== verification/Schema.thy ===== *)
theory Schema
  imports Json
begin

text \<open>
  The schema validator of src/schema/validator.cpp: the choice of the JSON schema dialect, the
  validation of an instance against a definition of the pinned MCP schema, of a message against the
  definition of its method, and of a tool's schema. The compiler and the walk of the third-party
  library and the schema document that the build embeds are parameters.
\<close>

section \<open>Parameters\<close>

record validation_diagnostic =
  vd_instanceLocation :: string
  vd_evaluationPath :: string
  vd_schemaLocation :: string
  vd_message :: string

text \<open>
  \<open>sn_versions\<close> are the dialects the library names (drafts 4, 6, 7, 2019-09 and 2020-12);
  \<open>sn_compile\<close> is the exception that compiling a schema throws, if any; \<open>sn_walk\<close> reports the
  diagnostics of an instance and, when it throws, the text of the exception; \<open>sn_pinned\<close> is the
  embedded document after parsing; \<open>sn_dump\<close> prints JSON.
\<close>

record schema_versions =
  draft4 :: string
  draft6 :: string
  draft7 :: string
  draft201909 :: string
  draft202012 :: string

record schema_env =
  sn_versions :: schema_versions
  sn_compile :: "json \<Rightarrow> string \<Rightarrow> string option"
  sn_walk :: "json \<Rightarrow> string \<Rightarrow> json \<Rightarrow> validation_diagnostic list \<times> string option"
  sn_pinned :: "string + json"
  sn_dump :: "json \<Rightarrow> string"

record validation_result =
  vr_valid :: bool
  vr_effectiveDialect :: string
  vr_diagnostics :: "validation_diagnostic list"

definition makeInvalidResult :: "string \<Rightarrow> string \<Rightarrow> string \<Rightarrow> string \<Rightarrow> validation_result" where
  "makeInvalidResult msg instanceLocation evaluationPath schemaLocation =
     \<lparr>vr_valid = False, vr_effectiveDialect = [],
      vr_diagnostics = [\<lparr>vd_instanceLocation = instanceLocation, vd_evaluationPath = evaluationPath,
        vd_schemaLocation = schemaLocation, vd_message = msg\<rparr>]\<rparr>"

definition invalid_result :: "string \<Rightarrow> validation_result" where
  "invalid_result msg = makeInvalidResult msg [] [] []"

section \<open>Dialects\<close>

definition normalizeDialectIdentifier :: "string \<Rightarrow> string" where
  "normalizeDialectIdentifier s = (if s \<noteq> [] \<and> last s = CHR ''#'' then butlast s else s)"

text \<open>The canonical spelling, empty for a dialect that is not supported.\<close>

definition canonicalDialectIdentifier :: "schema_versions \<Rightarrow> string \<Rightarrow> string" where
  "canonicalDialectIdentifier vs s =
     (let n = normalizeDialectIdentifier s in
      if n = normalizeDialectIdentifier (draft4 vs) then draft4 vs
      else if n = normalizeDialectIdentifier (draft6 vs) then draft6 vs
      else if n = normalizeDialectIdentifier (draft7 vs) \<or> n = ''https://json-schema.org/draft-07/schema''
      then draft7 vs
      else if n = normalizeDialectIdentifier (draft201909 vs) then draft201909 vs
      else if n = normalizeDialectIdentifier (draft202012 vs) then draft202012 vs
      else [])"

definition resolveDialect :: "schema_versions \<Rightarrow> json \<Rightarrow> validation_result" where
  "resolveDialect vs schemaObject =
     (case jget schemaObject ''$schema'' of
        None \<Rightarrow> \<lparr>vr_valid = True, vr_effectiveDialect = draft202012 vs, vr_diagnostics = []\<rparr>
      | Some (JString given) \<Rightarrow>
          let d = canonicalDialectIdentifier vs given in
          if d = [] then makeInvalidResult (''Unsupported JSON Schema dialect: '' @ quote @ given @ quote @ ''.'')
            ''/$schema'' ''/$schema'' []
          else \<lparr>vr_valid = True, vr_effectiveDialect = d, vr_diagnostics = []\<rparr>
      | Some _ \<Rightarrow> makeInvalidResult (''JSON Schema '' @ quote @ ''$schema'' @ quote @ '' value must be a string.'')
          ''/$schema'' ''/$schema'' [])"

section \<open>Validation\<close>

text \<open>An exception, of the compiler or of the walk, discards what the walk has reported.\<close>

definition validateAgainstCompiledSchema :: "schema_env \<Rightarrow> json \<Rightarrow> json \<Rightarrow> string \<Rightarrow> validation_result" where
  "validateAgainstCompiledSchema env schemaObject inst dialect =
     (case sn_compile env schemaObject dialect of
        Some msg \<Rightarrow> invalid_result (''Schema compilation failed: '' @ msg)
      | None \<Rightarrow>
          (case sn_walk env schemaObject dialect inst of
             (_, Some msg) \<Rightarrow> invalid_result (''Schema compilation failed: '' @ msg)
           | (ds, None) \<Rightarrow> \<lparr>vr_valid = (ds = []), vr_effectiveDialect = dialect, vr_diagnostics = ds\<rparr>))"

definition kMethodDefinitions :: "(string \<times> string) list" where
  "kMethodDefinitions =
     [(''initialize'', ''InitializeRequest''), (''ping'', ''PingRequest''), (''tools/list'', ''ListToolsRequest''),
      (''tools/call'', ''CallToolRequest''), (''resources/list'', ''ListResourcesRequest''),
      (''resources/read'', ''ReadResourceRequest''), (''resources/templates/list'', ''ListResourceTemplatesRequest''),
      (''resources/subscribe'', ''SubscribeRequest''), (''resources/unsubscribe'', ''UnsubscribeRequest''),
      (''prompts/list'', ''ListPromptsRequest''), (''prompts/get'', ''GetPromptRequest''),
      (''logging/setLevel'', ''SetLevelRequest''), (''completion/complete'', ''CompleteRequest''),
      (''roots/list'', ''ListRootsRequest''), (''sampling/createMessage'', ''CreateMessageRequest''),
      (''elicitation/create'', ''ElicitRequest''), (''tasks/get'', ''GetTaskRequest''),
      (''tasks/result'', ''GetTaskPayloadRequest''), (''tasks/list'', ''ListTasksRequest''),
      (''tasks/cancel'', ''CancelTaskRequest''), (''notifications/initialized'', ''InitializedNotification''),
      (''notifications/cancelled'', ''CancelledNotification''), (''notifications/progress'', ''ProgressNotification''),
      (''notifications/message'', ''LoggingMessageNotification''),
      (''notifications/tools/list_changed'', ''ToolListChangedNotification''),
      (''notifications/resources/list_changed'', ''ResourceListChangedNotification''),
      (''notifications/resources/updated'', ''ResourceUpdatedNotification''),
      (''notifications/prompts/list_changed'', ''PromptListChangedNotification''),
      (''notifications/roots/list_changed'', ''RootsListChangedNotification''),
      (''notifications/tasks/status'', ''TaskStatusNotification''),
      (''notifications/elicitation/complete'', ''ElicitationCompleteNotification'')]"

definition methodDefinitionName :: "string \<Rightarrow> string" where
  "methodDefinitionName m = (case find (\<lambda>(k, _). k = m) kMethodDefinitions of Some (_, d) \<Rightarrow> d | None \<Rightarrow> [])"

definition diagnosticsJson :: "validation_result \<Rightarrow> json" where
  "diagnosticsJson r = JArray (map (\<lambda>d.
     jput ''error'' (JString (vd_message d)) (jput ''schemaLocation'' (JString (vd_schemaLocation d))
      (jput ''evaluationPath'' (JString (vd_evaluationPath d))
      (jput ''instanceLocation'' (JString (vd_instanceLocation d)) empty_object)))) (vr_diagnostics r))"

definition formatDiagnostics :: "schema_env \<Rightarrow> validation_result \<Rightarrow> string" where
  "formatDiagnostics env r = sn_dump env (diagnosticsJson r)"

text \<open>The schema document of the validator, or the exception of its construction.\<close>

definition loadPinnedMcpSchema :: "schema_env \<Rightarrow> string + json" where
  "loadPinnedMcpSchema env =
     (case sn_pinned env of
        Inl msg \<Rightarrow> Inl (''Failed to parse embedded pinned MCP schema: '' @ msg)
      | Inr document \<Rightarrow> Inr document)"

definition definition_schema :: "schema_env \<Rightarrow> json \<Rightarrow> string \<Rightarrow> json" where
  "definition_schema env defs definitionName =
     jput ''$ref'' (JString (''#/$defs/'' @ definitionName)) (jput ''$defs'' defs
       (jput ''$schema'' (JString (draft202012 (sn_versions env))) empty_object))"

definition validateInstance :: "schema_env \<Rightarrow> json \<Rightarrow> json \<Rightarrow> string \<Rightarrow> validation_result" where
  "validateInstance env document inst definitionName =
     (if \<not> is_object document then invalid_result ''Pinned MCP schema document must be a JSON object.''
      else
        (case get_object document ''$defs'' of
           None \<Rightarrow> invalid_result (''Pinned MCP schema document is missing an object '' @ quote @ ''$defs'' @ quote @ ''.'')
         | Some defs \<Rightarrow>
             if \<not> contains defs definitionName
             then invalid_result (''Pinned MCP schema does not contain definition '' @ quote @ ''#/$defs/''
               @ definitionName @ quote @ ''.'')
             else validateAgainstCompiledSchema env (definition_schema env defs definitionName) inst
               (draft202012 (sn_versions env))))"

definition validateMcpMethodMessage :: "schema_env \<Rightarrow> json \<Rightarrow> json \<Rightarrow> validation_result" where
  "validateMcpMethodMessage env document messageJson =
     (if \<not> is_object messageJson then invalid_result ''MCP message must be a JSON object.''
      else
        (case get_string messageJson ''method'' of
           None \<Rightarrow> validateInstance env document messageJson ''JSONRPCMessage''
         | Some m \<Rightarrow>
             validateInstance env document messageJson
               (if methodDefinitionName m \<noteq> [] then methodDefinitionName m
                else if contains messageJson ''id'' then ''JSONRPCRequest'' else ''JSONRPCNotification'')))"

datatype ToolSchemaKind = kInput | kOutput

definition sample_tool :: "ToolSchemaKind \<Rightarrow> json \<Rightarrow> json" where
  "sample_tool kind schemaObject =
     (let base = jput ''inputSchema'' (jput ''type'' (JString ''object'') empty_object)
                   (jput ''name'' (JString ''tool'') empty_object)
      in case kind of
           kInput \<Rightarrow> jput ''inputSchema'' schemaObject base
         | kOutput \<Rightarrow> jput ''outputSchema'' schemaObject base)"

definition validateToolSchema :: "schema_env \<Rightarrow> json \<Rightarrow> json \<Rightarrow> ToolSchemaKind \<Rightarrow> validation_result" where
  "validateToolSchema env document schemaObject kind =
     (if \<not> is_object schemaObject then invalid_result ''Tool schema must be a JSON object.''
      else
        let dialect = resolveDialect (sn_versions env) schemaObject in
        if \<not> vr_valid dialect then dialect
        else
          (case sn_compile env schemaObject (vr_effectiveDialect dialect) of
             Some msg \<Rightarrow>
               (invalid_result (''Schema compilation failed: '' @ msg))\<lparr>vr_effectiveDialect := vr_effectiveDialect dialect\<rparr>
           | None \<Rightarrow>
               (validateInstance env document (sample_tool kind schemaObject) ''Tool'')
                 \<lparr>vr_effectiveDialect := vr_effectiveDialect dialect\<rparr>))"

section \<open>Refusals\<close>

lemma refused_results [simp]:
  "\<not> vr_valid (makeInvalidResult msg i e l)" "\<not> vr_valid (invalid_result msg)"
  by (simp_all add: makeInvalidResult_def invalid_result_def)

end
