(* ===== verification/ServerData.thy ===== *)
theory ServerData
  imports Session TaskReceiver Schema
begin

text \<open>
  Data and helpers of the server, src/server/detail/helpers.cpp and the structs of
  include/mcp/server: definitions of tools, resources and prompts with their JSON, log levels, the
  capability a method needs, and the execution of a tool call between the validation of its input
  and of its output. The JSON schema validator and the handlers are the user's or third-party
  code: an environment says what they answer.
\<close>

section \<open>Methods\<close>

definition kCompletionCompleteMethod :: string where "kCompletionCompleteMethod = ''completion/complete''"
definition kToolsListMethod :: string where "kToolsListMethod = ''tools/list''"
definition kToolsCallMethod :: string where "kToolsCallMethod = ''tools/call''"
definition kResourcesListMethod :: string where "kResourcesListMethod = ''resources/list''"
definition kResourcesReadMethod :: string where "kResourcesReadMethod = ''resources/read''"
definition kResourcesTemplatesListMethod :: string where
  "kResourcesTemplatesListMethod = ''resources/templates/list''"
definition kResourcesSubscribeMethod :: string where "kResourcesSubscribeMethod = ''resources/subscribe''"
definition kResourcesUnsubscribeMethod :: string where "kResourcesUnsubscribeMethod = ''resources/unsubscribe''"
definition kPromptsListMethod :: string where "kPromptsListMethod = ''prompts/list''"
definition kPromptsGetMethod :: string where "kPromptsGetMethod = ''prompts/get''"
definition kTasksGetMethod :: string where "kTasksGetMethod = ''tasks/get''"
definition kTasksResultMethod :: string where "kTasksResultMethod = ''tasks/result''"
definition kTasksListMethod :: string where "kTasksListMethod = ''tasks/list''"
definition kTasksServerCancelMethod :: string where "kTasksServerCancelMethod = ''tasks/cancel''"
definition kToolsListChangedNotificationMethod :: string where
  "kToolsListChangedNotificationMethod = ''notifications/tools/list_changed''"
definition kResourcesUpdatedNotificationMethod :: string where
  "kResourcesUpdatedNotificationMethod = ''notifications/resources/updated''"
definition kResourcesListChangedNotificationMethod :: string where
  "kResourcesListChangedNotificationMethod = ''notifications/resources/list_changed''"
definition kPromptsListChangedNotificationMethod :: string where
  "kPromptsListChangedNotificationMethod = ''notifications/prompts/list_changed''"
definition kTasksStatusNotificationMethod :: string where
  "kTasksStatusNotificationMethod = ''notifications/tasks/status''"

definition kListPageSize :: nat where "kListPageSize = 50"
definition kCompletionMaxValues :: nat where "kCompletionMaxValues = 100"

definition capabilityForMethod :: "string \<Rightarrow> string option" where
  "capabilityForMethod m =
     (if m \<in> {''tools/list'', ''tools/call''} then Some ''tools''
      else if m \<in> {''resources/list'', ''resources/read'', ''resources/templates/list'', ''resources/subscribe'',
        ''resources/unsubscribe''} then Some ''resources''
      else if m \<in> {''prompts/list'', ''prompts/get''} then Some ''prompts''
      else if m = ''completion/complete'' then Some ''completions''
      else if m = ''logging/setLevel'' then Some ''logging''
      else if m \<in> {''tasks/get'', ''tasks/result'', ''tasks/list'', ''tasks/cancel''} then Some ''tasks''
      else None)"

section \<open>Log levels\<close>

datatype LogLevel = kDebug | kInfo | kNotice | kWarning | kError | kCritical | kAlert | kEmergency

definition kLogLevelMappings :: "(string \<times> LogLevel) list" where
  "kLogLevelMappings =
     [(''debug'', kDebug), (''info'', kInfo), (''notice'', kNotice), (''warning'', kWarning), (''error'', kError),
      (''critical'', kCritical), (''alert'', kAlert), (''emergency'', kEmergency)]"

definition logLevelToString :: "LogLevel \<Rightarrow> string" where
  "logLevelToString l = (case find (\<lambda>(_, k). k = l) kLogLevelMappings of Some (n, _) \<Rightarrow> n | None \<Rightarrow> ''debug'')"

definition parseLogLevel :: "string \<Rightarrow> LogLevel option" where
  "parseLogLevel s = map_option snd (find (\<lambda>(n, _). s = n) kLogLevelMappings)"

fun logLevelWeight :: "LogLevel \<Rightarrow> nat" where
  "logLevelWeight kDebug = 0"
| "logLevelWeight kInfo = 1"
| "logLevelWeight kNotice = 2"
| "logLevelWeight kWarning = 3"
| "logLevelWeight kError = 4"
| "logLevelWeight kCritical = 5"
| "logLevelWeight kAlert = 6"
| "logLevelWeight kEmergency = 7"

text \<open>The order by weight; the server forwards a message when its level is not below the configured one.\<close>

instantiation LogLevel :: linorder
begin

definition less_eq_LogLevel :: "LogLevel \<Rightarrow> LogLevel \<Rightarrow> bool" where
  "less_eq_LogLevel a b \<longleftrightarrow> logLevelWeight a \<le> logLevelWeight b"

definition less_LogLevel :: "LogLevel \<Rightarrow> LogLevel \<Rightarrow> bool" where
  "less_LogLevel a b \<longleftrightarrow> logLevelWeight a < logLevelWeight b"

instance
proof
  have inj: "logLevelWeight a = logLevelWeight b \<Longrightarrow> a = b" for a b
    by (cases a; cases b) simp_all
  fix a b c :: LogLevel
  show "a < b \<longleftrightarrow> a \<le> b \<and> \<not> b \<le> a" "a \<le> a" "a \<le> b \<or> b \<le> a"
    by (auto simp: less_eq_LogLevel_def less_LogLevel_def)
  show "a \<le> b \<Longrightarrow> b \<le> c \<Longrightarrow> a \<le> c" by (simp add: less_eq_LogLevel_def)
  show "a \<le> b \<Longrightarrow> b \<le> a \<Longrightarrow> a = b" using inj by (simp add: less_eq_LogLevel_def)
qed

end

lemma parseLogLevel_toString [simp]: "parseLogLevel (logLevelToString l) = Some l"
  by (cases l) (simp_all add: parseLogLevel_def logLevelToString_def kLogLevelMappings_def)

section \<open>Definitions of tools, resources and prompts\<close>

record tool_definition =
  td_name :: string
  td_title :: "string option"
  td_description :: "string option"
  td_icons :: "json option"
  td_inputSchema :: json
  td_outputSchema :: "json option"
  td_annotations :: "json option"
  td_execution :: "json option"
  td_metadata :: "json option"

record resource_definition =
  rd_uri :: string
  rd_name :: string
  rd_title :: "string option"
  rd_description :: "string option"
  rd_icons :: "json option"
  rd_mimeType :: "string option"
  rd_size :: "64 word option"
  rd_annotations :: "json option"
  rd_metadata :: "json option"

record resource_template_definition =
  rt_uriTemplate :: string
  rt_name :: string
  rt_title :: "string option"
  rt_description :: "string option"
  rt_icons :: "json option"
  rt_mimeType :: "string option"
  rt_annotations :: "json option"
  rt_metadata :: "json option"

record prompt_argument =
  pa_name :: string
  pa_title :: "string option"
  pa_description :: "string option"
  pa_required :: "bool option"
  pa_metadata :: "json option"

record prompt_definition =
  pd_name :: string
  pd_title :: "string option"
  pd_description :: "string option"
  pd_icons :: "json option"
  pd_arguments :: "prompt_argument list"
  pd_metadata :: "json option"

text \<open>The serialisers passed to \<open>buildListResponse\<close>.\<close>

definition jput_string :: "string \<Rightarrow> string option \<Rightarrow> json \<Rightarrow> json" where
  "jput_string k v = jput_opt k (map_option JString v)"

definition tool_to_json :: "tool_definition \<Rightarrow> json" where
  "tool_to_json d =
     jput_opt ''_meta'' (td_metadata d) (jput_opt ''execution'' (td_execution d)
      (jput_opt ''annotations'' (td_annotations d) (jput_opt ''outputSchema'' (td_outputSchema d)
      (jput ''inputSchema'' (td_inputSchema d) (jput_opt ''icons'' (td_icons d)
      (jput_string ''description'' (td_description d) (jput_string ''title'' (td_title d)
      (jput ''name'' (JString (td_name d)) empty_object))))))))"

definition resource_to_json :: "resource_definition \<Rightarrow> json" where
  "resource_to_json d =
     jput_opt ''_meta'' (rd_metadata d) (jput_opt ''annotations'' (rd_annotations d)
      (jput_opt ''size'' (map_option (\<lambda>w. JInt (uint w)) (rd_size d)) (jput_string ''mimeType'' (rd_mimeType d)
      (jput_opt ''icons'' (rd_icons d) (jput_string ''description'' (rd_description d)
      (jput_string ''title'' (rd_title d) (jput ''name'' (JString (rd_name d))
      (jput ''uri'' (JString (rd_uri d)) empty_object))))))))"

definition template_to_json :: "resource_template_definition \<Rightarrow> json" where
  "template_to_json d =
     jput_opt ''_meta'' (rt_metadata d) (jput_opt ''annotations'' (rt_annotations d)
      (jput_string ''mimeType'' (rt_mimeType d) (jput_opt ''icons'' (rt_icons d)
      (jput_string ''description'' (rt_description d) (jput_string ''title'' (rt_title d)
      (jput ''name'' (JString (rt_name d)) (jput ''uriTemplate'' (JString (rt_uriTemplate d)) empty_object)))))))"

definition argument_to_json :: "prompt_argument \<Rightarrow> json" where
  "argument_to_json a =
     jput_opt ''_meta'' (pa_metadata a) (jput_opt ''required'' (map_option JBool (pa_required a))
      (jput_string ''description'' (pa_description a) (jput_string ''title'' (pa_title a)
      (jput ''name'' (JString (pa_name a)) empty_object))))"

definition prompt_to_json :: "prompt_definition \<Rightarrow> json" where
  "prompt_to_json d =
     jput_opt ''_meta'' (pd_metadata d)
      ((if pd_arguments d = [] then id
        else jput ''arguments'' (JArray (map argument_to_json (pd_arguments d))))
      (jput_opt ''icons'' (pd_icons d) (jput_string ''description'' (pd_description d)
      (jput_string ''title'' (pd_title d) (jput ''name'' (JString (pd_name d)) empty_object)))))"

section \<open>What handlers and the validator answer\<close>

text \<open>A call of the user's code returns, throws a standard exception, or throws something else.\<close>

datatype 'a outcome = Returns 'a | Throws string | ThrowsUnknown

record tool_call_context =
  tcx_requestContext :: request_context
  tcx_toolName :: string
  tcx_arguments :: json

record call_tool_result =
  ctr_content :: json
  ctr_structuredContent :: "json option"
  ctr_isError :: bool
  ctr_metadata :: "json option"

record resource_read_context =
  rcx_requestContext :: request_context
  rcx_uri :: string

datatype ResourceContentKind = kText | kBlobBase64

record resource_content =
  rcn_uri :: string
  rcn_mimeType :: "string option"
  rcn_kind :: ResourceContentKind
  rcn_value :: string
  rcn_annotations :: "json option"
  rcn_metadata :: "json option"

record prompt_get_context =
  pcx_requestContext :: request_context
  pcx_promptName :: string
  pcx_arguments :: json

record prompt_message =
  pm_role :: string
  pm_content :: json

record prompt_get_result =
  pgr_description :: "string option"
  pgr_messages :: "prompt_message list"
  pgr_metadata :: "json option"

datatype CompletionReferenceType = kPrompt | kResource

record completion_request =
  cq_referenceType :: CompletionReferenceType
  cq_referenceValue :: string
  cq_argumentName :: string
  cq_argumentValue :: string
  cq_contextArguments :: "json option"

record completion_result =
  cp_values :: "string list"
  cp_total :: "nat option"
  cp_hasMore :: "bool option"

text \<open>
  The environment. \<open>ev_validate schema instance\<close> is the walk of the third-party validator: the
  diagnostics it reports and, when it throws, the text of the exception. \<open>ev_schema\<close> and
  \<open>ev_document\<close> are the process's validator, with the schema document it has loaded.
\<close>

record 's server_env =
  ev_tool :: "nat \<Rightarrow> tool_call_context \<Rightarrow> call_tool_result outcome"
  ev_resource :: "nat \<Rightarrow> resource_read_context \<Rightarrow> resource_content list outcome"
  ev_prompt :: "nat \<Rightarrow> prompt_get_context \<Rightarrow> prompt_get_result outcome"
  ev_completion :: "nat \<Rightarrow> completion_request \<Rightarrow> completion_result outcome"
  ev_validate :: "json \<Rightarrow> json \<Rightarrow> validation_diagnostic list \<times> string option"
  ev_schema :: schema_env
  ev_document :: json
  ev_store :: "'s task_store_ops"

text \<open>What is wrong with the schema of a tool, formatted, if anything.\<close>

definition tool_schema_error :: "'s server_env \<Rightarrow> ToolSchemaKind \<Rightarrow> json \<Rightarrow> string option" where
  "tool_schema_error env kind schemaObject =
     (let r = validateToolSchema (ev_schema env) (ev_document env) schemaObject kind in
      if vr_valid r then None else Some (formatDiagnostics (ev_schema env) r))"

section \<open>Responses\<close>

definition makeMethodNotFoundResponse :: "request_id \<Rightarrow> string \<Rightarrow> response" where
  "makeMethodNotFoundResponse i m = error_reply (makeMethodNotFoundError None
     (''Method '' @ quote @ m @ quote @ '' is not available for the negotiated server capabilities.'')) i"

definition makeLifecycleRejectedResponse :: "request_id \<Rightarrow> string \<Rightarrow> response" where
  "makeLifecycleRejectedResponse i m = error_reply (makeInvalidRequestError None
     (''Method '' @ quote @ m @ quote @ '' is not valid before initialization completes.'')) i"

definition makeResourceNotFoundResponse :: "request_id \<Rightarrow> string \<Rightarrow> response" where
  "makeResourceNotFoundResponse i uri = error_reply (makeJsonRpcError kResourceNotFound ''Resource not found''
     (Some (jput ''uri'' (JString uri) empty_object))) i"

definition makePingResponse :: "request_id \<Rightarrow> response" where
  "makePingResponse i = new_success i empty_object"

definition internal_error_reply :: "string \<Rightarrow> request_id \<Rightarrow> response" where
  "internal_error_reply msg i = error_reply (makeInternalError None msg) i"

definition sessionKeyForContext :: "request_context \<Rightarrow> string" where
  "sessionKeyForContext c = (case rc_session_id c of Some s \<Rightarrow> s | None \<Rightarrow> [])"

section \<open>Tool calls\<close>

datatype ToolTaskSupport = kForbidden | kOptional | kRequired

definition parseToolTaskSupport :: "tool_definition \<Rightarrow> ToolTaskSupport" where
  "parseToolTaskSupport d =
     (case td_execution d of
        None \<Rightarrow> kForbidden
      | Some e \<Rightarrow>
          (case get_string e ''taskSupport'' of
             None \<Rightarrow> kForbidden
           | Some v \<Rightarrow> if v = ''optional'' then kOptional else if v = ''required'' then kRequired else kForbidden))"

definition makeTextContentBlock :: "string \<Rightarrow> json" where
  "makeTextContentBlock t = JArray [jput ''text'' (JString t) (jput ''type'' (JString ''text'') empty_object)]"

definition diagnostic_to_json :: "validation_diagnostic \<Rightarrow> json" where
  "diagnostic_to_json d =
     jput ''error'' (JString (vd_message d)) (jput ''schemaLocation'' (JString (vd_schemaLocation d))
      (jput ''evaluationPath'' (JString (vd_evaluationPath d))
      (jput ''instanceLocation'' (JString (vd_instanceLocation d)) empty_object)))"

definition makeSchemaValidationErrorResult :: "string \<Rightarrow> validation_diagnostic list \<Rightarrow> call_tool_result" where
  "makeSchemaValidationErrorResult msg ds =
     \<lparr>ctr_content = makeTextContentBlock msg, ctr_structuredContent = None, ctr_isError = True,
      ctr_metadata = (if ds = [] then None
        else Some (jput ''validationErrors'' (JArray (map diagnostic_to_json ds)) empty_object))\<rparr>"

definition plain_diagnostic :: "string \<Rightarrow> validation_diagnostic" where
  "plain_diagnostic msg =
     \<lparr>vd_instanceLocation = [], vd_evaluationPath = [], vd_schemaLocation = [], vd_message = msg\<rparr>"

definition validateJsonInstanceAgainstSchema ::
  "'s server_env \<Rightarrow> json \<Rightarrow> json \<Rightarrow> bool \<times> validation_diagnostic list" where
  "validateJsonInstanceAgainstSchema env schema inst =
     (if \<not> is_object schema then (False, [plain_diagnostic ''Schema must be an object.''])
      else
        (case ev_validate env schema inst of
           (ds, Some msg) \<Rightarrow> (False, ds @ [plain_diagnostic (''Schema compilation failed: '' @ msg)])
         | (ds, None) \<Rightarrow> (ds = [], ds)))"

definition failed_result :: "call_tool_result \<Rightarrow> string \<Rightarrow> call_tool_result" where
  "failed_result r msg = r\<lparr>ctr_content := makeTextContentBlock msg, ctr_isError := True\<rparr>"

text \<open>The check of the result against the output schema.\<close>

definition check_output :: "'s server_env \<Rightarrow> string \<Rightarrow> tool_definition \<Rightarrow> call_tool_result \<Rightarrow> call_tool_result" where
  "check_output env toolName d r =
     (case td_outputSchema d of
        None \<Rightarrow> r
      | Some schema \<Rightarrow>
          (case ctr_structuredContent r of
             None \<Rightarrow> failed_result r ''Tool output schema requires structuredContent object''
           | Some sc \<Rightarrow>
               if \<not> is_object sc then failed_result r ''Tool output schema requires structuredContent object''
               else
                 (case validateJsonInstanceAgainstSchema env schema sc of
                    (True, _) \<Rightarrow> r
                  | (False, ds) \<Rightarrow>
                      makeSchemaValidationErrorResult
                        (''Tool output validation failed for '' @ quote @ toolName @ quote) ds)))"

text \<open>
  \<open>executeToolCall\<close>: the response and, when the handler was called, the context of the call.
\<close>

definition executeToolCall ::
  "'s server_env \<Rightarrow> request_context \<Rightarrow> request_id \<Rightarrow> string \<Rightarrow> tool_definition \<Rightarrow> nat \<Rightarrow> json \<Rightarrow>
   response \<times> tool_call_context option" where
  "executeToolCall env ctx i toolName d handler arguments =
     (case validateJsonInstanceAgainstSchema env (td_inputSchema d) arguments of
        (False, ds) \<Rightarrow>
          (let e = makeSchemaValidationErrorResult
                     (''Tool input validation failed for '' @ quote @ toolName @ quote) ds
           in (new_success i (jput ''isError'' (JBool True) (jput_opt ''_meta'' (ctr_metadata e)
                 (jput ''content'' (ctr_content e) empty_object))), None))
      | (True, _) \<Rightarrow>
          let call = \<lparr>tcx_requestContext = ctx, tcx_toolName = toolName, tcx_arguments = arguments\<rparr>;
              fresh = \<lparr>ctr_content = JArray [], ctr_structuredContent = None, ctr_isError = False,
                       ctr_metadata = None\<rparr>;
              r0 = (case ev_tool env handler call of
                      Returns r \<Rightarrow> r
                    | Throws msg \<Rightarrow> failed_result fresh (''Tool execution failed: '' @ msg)
                    | ThrowsUnknown \<Rightarrow> failed_result fresh ''Tool execution failed: unknown error'');
              r1 = (if is_array (ctr_content r0) then r0
                    else failed_result r0 ''Tool returned invalid content payload'');
              r2 = check_output env toolName d r1
          in (new_success i (jput_if (ctr_isError r2) ''isError'' (JBool True) (jput_opt ''_meta'' (ctr_metadata r2)
                (jput_opt ''structuredContent'' (ctr_structuredContent r2)
                (jput ''content'' (ctr_content r2) empty_object)))), Some call))"

end
