(* ===== verification/Server.thy ===== *)
theory Server
  imports ServerData
begin

text \<open>
  The server of src/server/server.cpp: the registries of tools, resources, templates and prompts,
  the subscriptions, the log level, and the handlers of every request a server answers, composed
  with the session that gates requests, the router that dispatches them and the task receiver.
  Tool calls that run as tasks on a thread of their own are kept in \<open>sv_background\<close> until that
  thread runs. Handlers are identities; the environment says what they answer.
\<close>

section \<open>State\<close>

record background_call =
  bg_taskId :: string
  bg_toolName :: string
  bg_definition :: tool_definition
  bg_handler :: nat
  bg_arguments :: json
  bg_context :: request_context

record 's server =
  sv_session :: session
  sv_capabilities :: server_capabilities
  sv_serverInfo :: implementation
  sv_instructions :: "string option"
  sv_emitTaskStatus :: bool
  sv_router :: router
  sv_observerSender :: "outbound_sender option"
  sv_completionHandler :: "nat option"
  sv_tools :: "(tool_definition \<times> nat) list"
  sv_resources :: "(resource_definition \<times> nat) list"
  sv_templates :: "resource_template_definition list"
  sv_subscriptions :: "(string \<times> string) list"
  sv_prompts :: "(prompt_definition \<times> nat) list"
  sv_receiver :: "'s receiver"
  sv_logLevel :: LogLevel
  sv_background :: "background_call list"

record 's server_configuration =
  cf_capabilities :: server_capabilities
  cf_serverInfo :: "implementation option"
  cf_instructions :: "string option"
  cf_taskStore :: 's
  cf_defaultTaskPollInterval :: "int64 option"
  cf_emitTaskStatusNotifications :: bool

text \<open>The core methods in the order of their registration; the handler of the k-th is k.\<close>

definition core_methods :: "string list" where
  "core_methods = [kInitializeMethod, kPingMethod, kLoggingSetLevelMethod, kCompletionCompleteMethod,
     kToolsListMethod, kToolsCallMethod, kResourcesListMethod, kResourcesReadMethod,
     kResourcesTemplatesListMethod, kResourcesSubscribeMethod, kResourcesUnsubscribeMethod,
     kPromptsListMethod, kPromptsGetMethod, kTasksGetMethod, kTasksResultMethod, kTasksListMethod,
     kTasksServerCancelMethod]"

text \<open>
  The user's handler \<open>h\<close> is registered with the router under this identity. The wrapper around it
  looks at the capability again; \<open>handleRequest\<close> has refused the request by then if it is missing,
  and the capabilities do not change.
\<close>

definition user_handler :: "nat \<Rightarrow> nat" where
  "user_handler h = length core_methods + h"

definition registerCoreHandlers :: "router \<Rightarrow> router" where
  "registerCoreHandlers r =
     registerNotificationHandler kNotificationInitialized 0
       (foldl (\<lambda>r (k, m). registerRequestHandler m k r) r (enumerate 0 core_methods))"

definition defaultServerInfo :: implementation where
  "defaultServerInfo = new_implementation kDefaultServerName kSdkVersion"

definition default_context :: request_context where
  "default_context = \<lparr>rc_protocol_version = kLatestProtocolVersion, rc_session_id = None, rc_auth_context = None\<rparr>"

text \<open>The constructor; the limit is the default of the router's options.\<close>

definition new_server :: "nat \<Rightarrow> session option \<Rightarrow> 's server_configuration \<Rightarrow> string + 's server" where
  "new_server limit given cf =
     (case given of
        None \<Rightarrow> Inl ''Server requires a non-null session''
      | Some sess \<Rightarrow>
          let info = (case cf_serverInfo cf of Some i \<Rightarrow> i | None \<Rightarrow> defaultServerInfo) in
          (case configureServerInitialization (cf_capabilities cf) info (cf_instructions cf) (setRole kServer sess) of
             (_, Inl (LifecycleError msg)) \<Rightarrow> Inl msg
           | (_, Inl TransportError) \<Rightarrow> Inl []
           | (sess', Inr _) \<Rightarrow>
               Inr \<lparr>sv_session = sess', sv_capabilities = cf_capabilities cf, sv_serverInfo = info,
                    sv_instructions = cf_instructions cf, sv_emitTaskStatus = cf_emitTaskStatusNotifications cf,
                    sv_router = registerCoreHandlers (new_router limit), sv_observerSender = None,
                    sv_completionHandler = None, sv_tools = [], sv_resources = [], sv_templates = [],
                    sv_subscriptions = [], sv_prompts = [],
                    sv_receiver = \<lparr>rv_store = cf_taskStore cf,
                      rv_defaultPollInterval = cf_defaultTaskPollInterval cf, rv_listPageSize = kListPageSize,
                      rv_statusObserver = True, rv_observed = []\<rparr>,
                    sv_logLevel = kDebug, sv_background = []\<rparr>))"

section \<open>Gates and connections\<close>

definition isCoreRequestMethod :: "string \<Rightarrow> bool" where
  "isCoreRequestMethod m \<longleftrightarrow> m = kInitializeMethod \<or> m = kPingMethod"

definition isMethodEnabledByCapability :: "server_capabilities \<Rightarrow> string \<Rightarrow> bool" where
  "isMethodEnabledByCapability caps m =
     (if m = kResourcesSubscribeMethod \<or> m = kResourcesUnsubscribeMethod
      then (case sc_resources caps of None \<Rightarrow> False | Some c \<Rightarrow> resources_subscribe c)
      else if m = kTasksListMethod
      then (case sc_tasks caps of None \<Rightarrow> False | Some c \<Rightarrow> tasks_list c)
      else if m = kTasksServerCancelMethod
      then (case sc_tasks caps of None \<Rightarrow> False | Some c \<Rightarrow> tasks_cancel c)
      else if m = kTasksGetMethod \<or> m = kTasksResultMethod then sc_tasks caps \<noteq> None
      else
        (case capabilityForMethod m of
           None \<Rightarrow> True
         | Some c \<Rightarrow> server_hasCapability caps c))"

definition server_start :: "'s server \<Rightarrow> 's server \<times> (session_error + unit)" where
  "server_start s =
     (let (sess, res) = session_start (setRole kServer (sv_session s)) in (s\<lparr>sv_session := sess\<rparr>, res))"

definition server_stop :: "'s server \<Rightarrow> 's server" where
  "server_stop s = s\<lparr>sv_session := session_stop (sv_session s)\<rparr>"

definition server_registerRequestHandler :: "string \<Rightarrow> nat option \<Rightarrow> 's server \<Rightarrow> string + 's server" where
  "server_registerRequestHandler m handler s =
     (case handler of
        None \<Rightarrow> Inl ''Request handler must not be null''
      | Some h \<Rightarrow>
          if isCoreRequestMethod m then Inl ''Core request handlers are managed by Server''
          else Inr (s\<lparr>sv_router := registerRequestHandler m (user_handler h) (sv_router s)\<rparr>))"

definition server_registerNotificationHandler :: "string \<Rightarrow> nat option \<Rightarrow> 's server \<Rightarrow> string + 's server" where
  "server_registerNotificationHandler m handler s =
     (case handler of
        None \<Rightarrow> Inl ''Notification handler must not be null''
      | Some h \<Rightarrow>
          if m = kNotificationInitialized then Inl ''Core notification handlers are managed by Server''
          else Inr (s\<lparr>sv_router := registerNotificationHandler m (user_handler h) (sv_router s)\<rparr>))"

definition server_setOutboundMessageSender :: "outbound_sender option \<Rightarrow> 's server \<Rightarrow> 's server" where
  "server_setOutboundMessageSender sender s =
     s\<lparr>sv_observerSender := sender, sv_router := setOutboundMessageSender sender (sv_router s)\<rparr>"

definition setCompletionHandler :: "nat option \<Rightarrow> 's server \<Rightarrow> 's server" where
  "setCompletionHandler h s = s\<lparr>sv_completionHandler := h\<rparr>"

definition server_sendNotification :: "request_context \<Rightarrow> notification \<Rightarrow> 's server \<Rightarrow> 's server" where
  "server_sendNotification ctx n s = s\<lparr>sv_router := sendNotification ctx n (sv_router s)\<rparr>"

definition server_sendRequest ::
  "request_context \<Rightarrow> request \<Rightarrow> outbound_options \<Rightarrow> 's server \<Rightarrow> 's server \<times> (session_error + nat)" where
  "server_sendRequest ctx req opts s =
     (let params = (case rq_params req of Some p \<Rightarrow> p | None \<Rightarrow> empty_object) in
      case enforceOutboundRequestLifecycle (rq_method req) params (sv_session s) of
        (sess, Inl e) \<Rightarrow> (s\<lparr>sv_session := sess\<rparr>, Inl e)
      | (sess, Inr _) \<Rightarrow>
          let (r, f) = sendRequest ctx req opts (sv_router s) in
          (s\<lparr>sv_session := sess, sv_router := r\<rparr>, Inr f))"

definition server_handleResponse :: "response \<Rightarrow> 's server \<Rightarrow> 's server \<times> bool" where
  "server_handleResponse resp s =
     (let (r, known) = dispatchResponse resp (sv_router s) in (s\<lparr>sv_router := r\<rparr>, known))"

definition server_handleNotification :: "request_context \<Rightarrow> notification \<Rightarrow> 's server \<Rightarrow> 's server" where
  "server_handleNotification ctx n s =
     (let s' = s\<lparr>sv_router := dispatchNotification ctx n (sv_router s)\<rparr> in
      if map_of (notificationHandlers (sv_router s)) (nt_method n) = Some 0
      then s'\<lparr>sv_session := handleInitializedNotification (sv_session s')\<rparr> else s')"

section \<open>Notifications of the server\<close>

text \<open>
  The status observer of the task receiver: what the receiver has reported is sent, unless status
  notifications are off, the session does not allow them, or there is no sender.
\<close>

definition observer_send :: "request_context \<times> task \<Rightarrow> 's server \<Rightarrow> 's server" where
  "observer_send ct s =
     (case sv_observerSender s of
        Some sender \<Rightarrow>
          if sv_emitTaskStatus s \<and> canSendNotification kTasksStatusNotificationMethod (sv_session s)
          then
            let m = MNotification (new_notification kTasksStatusNotificationMethod (Some (taskToJson (snd ct)))) in
            if sender (fst ct) m then s\<lparr>sv_router := log_event (Sent (fst ct) m) (sv_router s)\<rparr> else s
          else s
      | None \<Rightarrow> s)"

definition with_receiver :: "('s receiver \<Rightarrow> 's receiver \<times> 'a) \<Rightarrow> 's server \<Rightarrow> 's server \<times> 'a" where
  "with_receiver operation s =
     (let (r, x) = operation (sv_receiver s) in
      (fold observer_send (rv_observed r) (s\<lparr>sv_receiver := r\<lparr>rv_observed := []\<rparr>\<rparr>), x))"

definition notify_if :: "bool \<Rightarrow> request_context \<Rightarrow> string \<Rightarrow> json \<Rightarrow> 's server \<Rightarrow> 's server \<times> bool" where
  "notify_if enabled ctx m params s =
     (if \<not> enabled then (s, False)
      else if \<not> canSendNotification m (sv_session s) then (s, False)
      else (server_sendNotification ctx (new_notification m (Some params)) s, True))"

definition notifyToolsListChanged :: "request_context \<Rightarrow> 's server \<Rightarrow> 's server \<times> bool" where
  "notifyToolsListChanged ctx s =
     notify_if (case sc_tools (sv_capabilities s) of None \<Rightarrow> False | Some c \<Rightarrow> tools_listChanged c)
       ctx kToolsListChangedNotificationMethod empty_object s"

definition notifyPromptsListChanged :: "request_context \<Rightarrow> 's server \<Rightarrow> 's server \<times> bool" where
  "notifyPromptsListChanged ctx s =
     notify_if (case sc_prompts (sv_capabilities s) of None \<Rightarrow> False | Some c \<Rightarrow> prompts_listChanged c)
       ctx kPromptsListChangedNotificationMethod empty_object s"

definition notifyResourcesListChanged :: "request_context \<Rightarrow> 's server \<Rightarrow> 's server \<times> bool" where
  "notifyResourcesListChanged ctx s =
     notify_if (case sc_resources (sv_capabilities s) of None \<Rightarrow> False | Some c \<Rightarrow> resources_listChanged c)
       ctx kResourcesListChangedNotificationMethod empty_object s"

definition notifyResourceUpdated :: "string \<Rightarrow> request_context \<Rightarrow> 's server \<Rightarrow> 's server \<times> bool" where
  "notifyResourceUpdated uri ctx s =
     notify_if ((case sc_resources (sv_capabilities s) of None \<Rightarrow> False | Some c \<Rightarrow> resources_subscribe c)
         \<and> (sessionKeyForContext ctx, uri) \<in> set (sv_subscriptions s))
       ctx kResourcesUpdatedNotificationMethod (jput ''uri'' (JString uri) empty_object) s"

definition emitLogMessage ::
  "request_context \<Rightarrow> LogLevel \<Rightarrow> json \<Rightarrow> string option \<Rightarrow> 's server \<Rightarrow> 's server \<times> bool" where
  "emitLogMessage ctx level data logger s =
     (if \<not> server_hasCapability (sv_capabilities s) ''logging'' then (s, False)
      else if logLevelWeight level < logLevelWeight (sv_logLevel s) then (s, False)
      else
        (server_sendNotification ctx (new_notification kNotificationMessage
           (Some (jput ''data'' data (jput_string ''logger'' logger
             (jput ''level'' (JString (logLevelToString level)) empty_object))))) s, True))"

section \<open>Registries\<close>

text \<open>\<open>throwIfDuplicateExists\<close>, for a list and the name of an item.\<close>

definition throwIfDuplicateExists :: "'a list \<Rightarrow> string \<Rightarrow> ('a \<Rightarrow> string) \<Rightarrow> string \<Rightarrow> string + unit" where
  "throwIfDuplicateExists items name nameOf itemType =
     (if name \<in> set (map nameOf items) then Inl (itemType @ '' already registered: '' @ name) else Inr ())"

text \<open>\<open>find_if\<close> and \<open>erase\<close> of the first item with a name: the list without it, if there is one.\<close>

definition erase_named :: "('a \<Rightarrow> string) \<Rightarrow> string \<Rightarrow> 'a list \<Rightarrow> 'a list option" where
  "erase_named nameOf name items =
     (case List.extract (\<lambda>x. nameOf x = name) items of None \<Rightarrow> None | Some (before, _, after) \<Rightarrow> Some (before @ after))"

abbreviation tool_name :: "tool_definition \<times> nat \<Rightarrow> string" where
  "tool_name t \<equiv> td_name (fst t)"

abbreviation resource_uri :: "resource_definition \<times> nat \<Rightarrow> string" where
  "resource_uri t \<equiv> rd_uri (fst t)"

abbreviation prompt_name :: "prompt_definition \<times> nat \<Rightarrow> string" where
  "prompt_name t \<equiv> pd_name (fst t)"

definition registerTool :: "'s server_env \<Rightarrow> tool_definition \<Rightarrow> nat option \<Rightarrow> 's server \<Rightarrow> string + 's server" where
  "registerTool env d handler s =
     (case handler of
        None \<Rightarrow> Inl ''Tool handler must not be null''
      | Some h \<Rightarrow>
          if td_name d = [] then Inl ''Tool name must not be empty''
          else if \<not> is_object (td_inputSchema d) then Inl ''Tool input schema must be a JSON object''
          else
            (case tool_schema_error env kInput (td_inputSchema d) of
               Some msg \<Rightarrow> Inl (''Tool input schema is invalid: '' @ msg)
             | None \<Rightarrow>
                 (case Option.bind (td_outputSchema d) (tool_schema_error env kOutput) of
                    Some msg \<Rightarrow> Inl (''Tool output schema is invalid: '' @ msg)
                  | None \<Rightarrow>
                      bindE (throwIfDuplicateExists (sv_tools s) (td_name d) tool_name ''Tool'')
                        (\<lambda>_. Inr (fst (notifyToolsListChanged default_context
                               (s\<lparr>sv_tools := sv_tools s @ [(d, h)]\<rparr>)))))))"

definition unregisterTool :: "string \<Rightarrow> 's server \<Rightarrow> 's server \<times> bool" where
  "unregisterTool name s =
     (case erase_named tool_name name (sv_tools s) of
        None \<Rightarrow> (s, False)
      | Some ts \<Rightarrow> (fst (notifyToolsListChanged default_context (s\<lparr>sv_tools := ts\<rparr>)), True))"

definition registerResource :: "resource_definition \<Rightarrow> nat option \<Rightarrow> 's server \<Rightarrow> string + 's server" where
  "registerResource d handler s =
     (case handler of
        None \<Rightarrow> Inl ''Resource handler must not be null''
      | Some h \<Rightarrow>
          if rd_uri d = [] then Inl ''Resource URI must not be empty''
          else if rd_name d = [] then Inl ''Resource name must not be empty''
          else
            bindE (throwIfDuplicateExists (sv_resources s) (rd_uri d) resource_uri ''Resource'')
              (\<lambda>_. Inr (fst (notifyResourcesListChanged default_context
                     (s\<lparr>sv_resources := sv_resources s @ [(d, h)]\<rparr>)))))"

definition unregisterResource :: "string \<Rightarrow> 's server \<Rightarrow> 's server \<times> bool" where
  "unregisterResource uri s =
     (case erase_named resource_uri uri (sv_resources s) of
        None \<Rightarrow> (s, False)
      | Some rs \<Rightarrow>
          (fst (notifyResourcesListChanged default_context
             (s\<lparr>sv_resources := rs, sv_subscriptions := filter (\<lambda>(_, u). u \<noteq> uri) (sv_subscriptions s)\<rparr>)), True))"

definition registerResourceTemplate :: "resource_template_definition \<Rightarrow> 's server \<Rightarrow> string + 's server" where
  "registerResourceTemplate d s =
     (if rt_uriTemplate d = [] then Inl ''Resource template URI template must not be empty''
      else if rt_name d = [] then Inl ''Resource template name must not be empty''
      else
        bindE (throwIfDuplicateExists (sv_templates s) (rt_uriTemplate d) rt_uriTemplate ''Resource template'')
          (\<lambda>_. Inr (fst (notifyResourcesListChanged default_context
                 (s\<lparr>sv_templates := sv_templates s @ [d]\<rparr>)))))"

definition unregisterResourceTemplate :: "string \<Rightarrow> 's server \<Rightarrow> 's server \<times> bool" where
  "unregisterResourceTemplate uri s =
     (case erase_named rt_uriTemplate uri (sv_templates s) of
        None \<Rightarrow> (s, False)
      | Some ts \<Rightarrow> (fst (notifyResourcesListChanged default_context (s\<lparr>sv_templates := ts\<rparr>)), True))"

text \<open>The first argument name that occurs again later in the list.\<close>

fun duplicate_argument :: "prompt_argument list \<Rightarrow> string option" where
  "duplicate_argument [] = None"
| "duplicate_argument (a # as) = (if pa_name a \<in> set (map pa_name as) then Some (pa_name a) else duplicate_argument as)"

definition registerPrompt :: "prompt_definition \<Rightarrow> nat option \<Rightarrow> 's server \<Rightarrow> string + 's server" where
  "registerPrompt d handler s =
     (case handler of
        None \<Rightarrow> Inl ''Prompt handler must not be null''
      | Some h \<Rightarrow>
          if pd_name d = [] then Inl ''Prompt name must not be empty''
          else if list_ex (\<lambda>a. pa_name a = []) (pd_arguments d) then Inl ''Prompt argument name must not be empty''
          else
            bindE (throwIfDuplicateExists (sv_prompts s) (pd_name d) prompt_name ''Prompt'')
              (\<lambda>_. case duplicate_argument (pd_arguments d) of
                 Some n \<Rightarrow> Inl (''Prompt argument names must be unique: '' @ n)
               | None \<Rightarrow> Inr (fst (notifyPromptsListChanged default_context
                     (s\<lparr>sv_prompts := sv_prompts s @ [(d, h)]\<rparr>)))))"

definition unregisterPrompt :: "string \<Rightarrow> 's server \<Rightarrow> 's server \<times> bool" where
  "unregisterPrompt name s =
     (case erase_named prompt_name name (sv_prompts s) of
        None \<Rightarrow> (s, False)
      | Some ps \<Rightarrow> (fst (notifyPromptsListChanged default_context (s\<lparr>sv_prompts := ps\<rparr>)), True))"

section \<open>Request handlers\<close>

text \<open>The common part of the list handlers.\<close>

definition list_reply :: "ListEndpoint \<Rightarrow> request \<Rightarrow> 'a list \<Rightarrow> ('a \<Rightarrow> json) \<Rightarrow> string \<Rightarrow> response" where
  "list_reply ep req items serialize key =
     (case parseCursorFromParams req ep of
        Inl e \<Rightarrow> e
      | Inr cursor \<Rightarrow>
          (case applyPagination ep cursor (length items) kListPageSize of
             Inl e \<Rightarrow> e
           | Inr w \<Rightarrow> buildListResponse (rq_id req) items w serialize key))"

definition handleToolsListRequest :: "request \<Rightarrow> 's server \<Rightarrow> response" where
  "handleToolsListRequest req s = list_reply kTools req (map fst (sv_tools s)) tool_to_json ''tools''"

definition handleResourcesListRequest :: "request \<Rightarrow> 's server \<Rightarrow> response" where
  "handleResourcesListRequest req s = list_reply kResources req (map fst (sv_resources s)) resource_to_json ''resources''"

definition handleResourceTemplatesListRequest :: "request \<Rightarrow> 's server \<Rightarrow> response" where
  "handleResourceTemplatesListRequest req s =
     list_reply kResourceTemplates req (sv_templates s) template_to_json ''resourceTemplates''"

definition handlePromptsListRequest :: "request \<Rightarrow> 's server \<Rightarrow> response" where
  "handlePromptsListRequest req s = list_reply kPrompts req (map fst (sv_prompts s)) prompt_to_json ''prompts''"

text \<open>The object in \<open>params\<close> with a string member, as most handlers require it.\<close>

definition required_string ::
  "request \<Rightarrow> string \<Rightarrow> string \<Rightarrow> string \<Rightarrow> response + json \<times> string" where
  "required_string req key noObject noString =
     (case rq_params req of
        None \<Rightarrow> Inl (makeInvalidParamsResponse (rq_id req) noObject)
      | Some params \<Rightarrow>
          if \<not> is_object params then Inl (makeInvalidParamsResponse (rq_id req) noObject)
          else
            (case get_string params key of
               None \<Rightarrow> Inl (makeInvalidParamsResponse (rq_id req) noString)
             | Some v \<Rightarrow> Inr (params, v)))"

text \<open>The optional object \<open>params.arguments\<close>.\<close>

definition optional_arguments :: "json \<Rightarrow> json option" where
  "optional_arguments params =
     (case jget params ''arguments'' of
        None \<Rightarrow> Some empty_object
      | Some a \<Rightarrow> if is_object a then Some a else None)"

text \<open>
  \<open>handleToolsCallRequest\<close>: the response, or nothing while the loop that draws a task id has not
  ended. The call of a tool that runs as a task is left to its thread.
\<close>

definition handleToolsCallRequest ::
  "'s server_env \<Rightarrow> request_context \<Rightarrow> request \<Rightarrow> 's server \<Rightarrow> 's server \<times> response option" where
  "handleToolsCallRequest env ctx req s =
     (let refuse = (\<lambda>msg. (s, Some (makeInvalidParamsResponse (rq_id req) msg))) in
      case required_string req ''name'' ''tools/call requires params object'' ''tools/call requires string params.name'' of
        Inl e \<Rightarrow> (s, Some e)
      | Inr (params, toolName) \<Rightarrow>
      (case optional_arguments params of
         None \<Rightarrow> refuse ''tools/call requires params.arguments to be an object when provided''
       | Some arguments \<Rightarrow>
      (case find (\<lambda>t. tool_name t = toolName) (sv_tools s) of
         None \<Rightarrow> refuse (''Unknown tool: '' @ toolName)
       | Some (d, h) \<Rightarrow>
           let now = (s, Some (fst (executeToolCall env ctx (rq_id req) toolName d h arguments))) in
           if \<not> (case sc_tasks (sv_capabilities s) of None \<Rightarrow> False | Some c \<Rightarrow> tasks_toolsCall c) then now
           else
      (case parseTaskAugmentation (rq_params req) of
         Inl msg \<Rightarrow> refuse msg
       | Inr aug \<Rightarrow>
           let support = parseToolTaskSupport d in
           if \<not> ta_requested aug \<and> support = kRequired
           then (s, Some (error_reply (makeMethodNotFoundError None ''Task augmentation required for this tool'')
             (rq_id req)))
           else if ta_requested aug \<and> support = kForbidden
           then (s, Some (error_reply
             (makeMethodNotFoundError None ''Task augmentation is not supported for this tool'') (rq_id req)))
           else if \<not> ta_requested aug then now
           else
      (case receiver_createTask (ev_store env) ctx aug (Some ''The operation is now in progress.'') (sv_receiver s) of
         None \<Rightarrow> (s, None)
       | Some (r, Inl msg) \<Rightarrow>
           (s\<lparr>sv_receiver := r\<rparr>,
            Some (makeInvalidParamsResponse (rq_id req) (''Task creation rejected: '' @ msg)))
       | Some (r, Inr created) \<Rightarrow>
           (s\<lparr>sv_receiver := r,
              sv_background := sv_background s @ [\<lparr>bg_taskId = tk_taskId (cr_task created), bg_toolName = toolName,
                bg_definition = d, bg_handler = h, bg_arguments = arguments, bg_context = ctx\<rparr>]\<rparr>,
            Some (new_success (rq_id req) (createTaskResultToJson created))))))))"

text \<open>The thread of a tool call that runs as a task.\<close>

definition runBackgroundCall :: "'s server_env \<Rightarrow> background_call \<Rightarrow> 's server \<Rightarrow> 's server" where
  "runBackgroundCall env b s0 =
     (let s = s0\<lparr>sv_background := remove1 b (sv_background s0)\<rparr>;
          resp = fst (executeToolCall env (bg_context b) (StrId (''task-'' @ bg_taskId b)) (bg_toolName b)
                        (bg_definition b) (bg_handler b) (bg_arguments b));
          successStatus = (case resp of
              RSuccess r \<Rightarrow> if get_bool (sr_result r) ''isError'' = Some True then kFailed else kCompleted
            | RError _ \<Rightarrow> kCompleted)
      in fst (with_receiver
           (completeTaskWithResponse (ev_store env) (bg_context b) (bg_taskId b) resp successStatus None) s))"

definition content_to_json :: "string \<Rightarrow> resource_content \<Rightarrow> json" where
  "content_to_json uri c =
     jput (case rcn_kind c of kText \<Rightarrow> ''text'' | kBlobBase64 \<Rightarrow> ''blob'') (JString (rcn_value c))
      (jput_opt ''_meta'' (rcn_metadata c) (jput_opt ''annotations'' (rcn_annotations c)
      (jput_string ''mimeType'' (rcn_mimeType c)
      (jput ''uri'' (JString (if rcn_uri c = [] then uri else rcn_uri c)) empty_object))))"

definition handleResourcesReadRequest ::
  "'s server_env \<Rightarrow> request_context \<Rightarrow> request \<Rightarrow> 's server \<Rightarrow> response" where
  "handleResourcesReadRequest env ctx req s =
     (case required_string req ''uri'' ''resources/read requires params object''
             ''resources/read requires string params.uri'' of
        Inl e \<Rightarrow> e
      | Inr (params, uri) \<Rightarrow>
          (case find (\<lambda>r. resource_uri r = uri) (sv_resources s) of
             None \<Rightarrow> makeResourceNotFoundResponse (rq_id req) uri
           | Some (_, h) \<Rightarrow>
               (case ev_resource env h \<lparr>rcx_requestContext = ctx, rcx_uri = uri\<rparr> of
                  Throws msg \<Rightarrow> internal_error_reply (''resources/read failed: '' @ msg) (rq_id req)
                | ThrowsUnknown \<Rightarrow> internal_error_reply ''resources/read failed: unknown error'' (rq_id req)
                | Returns contents \<Rightarrow>
                    new_success (rq_id req)
                      (jput ''contents'' (JArray (map (content_to_json uri) contents)) empty_object))))"

definition handleResourcesSubscribeRequest ::
  "request_context \<Rightarrow> request \<Rightarrow> 's server \<Rightarrow> 's server \<times> response" where
  "handleResourcesSubscribeRequest ctx req s =
     (case required_string req ''uri'' ''resources/subscribe requires params object''
             ''resources/subscribe requires string params.uri'' of
        Inl e \<Rightarrow> (s, e)
      | Inr (params, uri) \<Rightarrow>
          if uri \<notin> set (map resource_uri (sv_resources s)) then (s, makeResourceNotFoundResponse (rq_id req) uri)
          else
            let sub = (sessionKeyForContext ctx, uri) in
            (if sub \<in> set (sv_subscriptions s) then s
             else s\<lparr>sv_subscriptions := sv_subscriptions s @ [sub]\<rparr>,
             new_success (rq_id req) empty_object))"

definition handleResourcesUnsubscribeRequest ::
  "request_context \<Rightarrow> request \<Rightarrow> 's server \<Rightarrow> 's server \<times> response" where
  "handleResourcesUnsubscribeRequest ctx req s =
     (case required_string req ''uri'' ''resources/unsubscribe requires params object''
             ''resources/unsubscribe requires string params.uri'' of
        Inl e \<Rightarrow> (s, e)
      | Inr (params, uri) \<Rightarrow>
          (s\<lparr>sv_subscriptions := filter (\<lambda>sub. sub \<noteq> (sessionKeyForContext ctx, uri)) (sv_subscriptions s)\<rparr>,
           new_success (rq_id req) empty_object))"

definition message_to_json :: "prompt_message \<Rightarrow> json" where
  "message_to_json m = jput ''content'' (pm_content m) (jput ''role'' (JString (pm_role m)) empty_object)"

text \<open>The members of an object in the order in which the library iterates, by name.\<close>

definition object_range :: "json \<Rightarrow> (string \<times> json) list" where
  "object_range j = (case j of JObject ms \<Rightarrow> sort_key fst ms | _ \<Rightarrow> [])"

text \<open>What is wrong with the arguments of a prompt, if anything.\<close>

definition prompt_argument_error :: "prompt_definition \<Rightarrow> json \<Rightarrow> string option" where
  "prompt_argument_error d arguments =
     (case find (\<lambda>(k, _). k \<notin> set (map pa_name (pd_arguments d))) (object_range arguments) of
        Some (k, _) \<Rightarrow> Some (''prompts/get arguments contains unknown argument: '' @ k)
      | None \<Rightarrow>
          (case find (\<lambda>a. pa_required a = Some True \<and> \<not> contains arguments (pa_name a)) (pd_arguments d) of
             Some a \<Rightarrow> Some (''prompts/get is missing required argument: '' @ pa_name a)
           | None \<Rightarrow> None))"

text \<open>The response, and the context of the call when the handler was called.\<close>

definition handlePromptsGetRequest ::
  "'s server_env \<Rightarrow> request_context \<Rightarrow> request \<Rightarrow> 's server \<Rightarrow> response \<times> prompt_get_context option" where
  "handlePromptsGetRequest env ctx req s =
     (let refuse = (\<lambda>msg. (makeInvalidParamsResponse (rq_id req) msg, None)) in
      case required_string req ''name'' ''prompts/get requires params object''
             ''prompts/get requires string params.name'' of
        Inl e \<Rightarrow> (e, None)
      | Inr (params, promptName) \<Rightarrow>
      (case optional_arguments params of
         None \<Rightarrow> refuse ''prompts/get requires params.arguments to be an object when provided''
       | Some arguments \<Rightarrow>
           if list_ex (\<lambda>(_, v). \<not> is_string v) (object_range arguments)
           then refuse ''prompts/get requires every params.arguments value to be a string''
           else
      (case find (\<lambda>p. prompt_name p = promptName) (sv_prompts s) of
         None \<Rightarrow> refuse (''Unknown prompt: '' @ promptName)
       | Some (d, h) \<Rightarrow>
      (case prompt_argument_error d arguments of
         Some msg \<Rightarrow> refuse msg
       | None \<Rightarrow>
           let call = \<lparr>pcx_requestContext = ctx, pcx_promptName = promptName, pcx_arguments = arguments\<rparr> in
           (case ev_prompt env h call of
              Throws msg \<Rightarrow> internal_error_reply (''prompts/get failed: '' @ msg) (rq_id req)
            | ThrowsUnknown \<Rightarrow> internal_error_reply ''prompts/get failed: unknown error'' (rq_id req)
            | Returns r \<Rightarrow>
                if list_ex (\<lambda>m. (pm_role m \<noteq> ''user'' \<and> pm_role m \<noteq> ''assistant'') \<or> \<not> is_object (pm_content m))
                     (pgr_messages r)
                then internal_error_reply ''Prompt handler returned invalid messages'' (rq_id req)
                else new_success (rq_id req)
                  (jput_opt ''_meta'' (pgr_metadata r)
                    (jput ''messages'' (JArray (map message_to_json (pgr_messages r)))
                      (jput_string ''description''
                        (case pgr_description r of Some t \<Rightarrow> Some t | None \<Rightarrow> pd_description d) empty_object))),
            Some call)))))"

definition handleLoggingSetLevelRequest :: "request \<Rightarrow> 's server \<Rightarrow> 's server \<times> response" where
  "handleLoggingSetLevelRequest req s =
     (case required_string req ''level'' ''logging/setLevel requires params object''
             ''logging/setLevel requires string params.level'' of
        Inl e \<Rightarrow> (s, e)
      | Inr (params, text) \<Rightarrow>
          (case parseLogLevel text of
             None \<Rightarrow> (s, makeInvalidParamsResponse (rq_id req) ''Invalid log level'')
           | Some l \<Rightarrow> (s\<lparr>sv_logLevel := l\<rparr>, new_success (rq_id req) empty_object)))"

text \<open>The completion request in the params, or the message that refuses it.\<close>

definition parse_reference :: "json \<Rightarrow> string + CompletionReferenceType \<times> string" where
  "parse_reference ref =
     (case get_string ref ''type'' of
        None \<Rightarrow> Inl ''completion/complete requires string params.ref.type''
      | Some t \<Rightarrow>
          if t = ''ref/prompt'' then
            (case get_string ref ''name'' of
               None \<Rightarrow> Inl ''ref/prompt requires params.ref.name'' | Some v \<Rightarrow> Inr (kPrompt, v))
          else if t = ''ref/resource'' then
            (case get_string ref ''uri'' of
               None \<Rightarrow> Inl ''ref/resource requires params.ref.uri'' | Some v \<Rightarrow> Inr (kResource, v))
          else Inl ''Unsupported completion reference type'')"

definition parse_completion_request :: "json option \<Rightarrow> string + completion_request" where
  "parse_completion_request given =
     (case given of
        None \<Rightarrow> Inl ''completion/complete requires params object''
      | Some params \<Rightarrow>
          if \<not> is_object params then Inl ''completion/complete requires params object''
          else
      (case get_object params ''ref'' of
         None \<Rightarrow> Inl ''completion/complete requires object params.ref''
       | Some ref \<Rightarrow>
      (case get_object params ''argument'' of
         None \<Rightarrow> Inl ''completion/complete requires object params.argument''
       | Some arg \<Rightarrow>
           bindE (parse_reference ref) (\<lambda>(t, v).
             (case (get_string arg ''name'', get_string arg ''value'') of
                (Some n, Some w) \<Rightarrow>
                  Inr \<lparr>cq_referenceType = t, cq_referenceValue = v, cq_argumentName = n, cq_argumentValue = w,
                    cq_contextArguments = Option.bind (get_object params ''context'') (\<lambda>c. get_object c ''arguments'')\<rparr>
              | _ \<Rightarrow> Inl
                  ''completion/complete requires string params.argument.name and params.argument.value'')))))"

definition completion_to_json :: "completion_result \<Rightarrow> json" where
  "completion_to_json r =
     (let truncated = length (cp_values r) > kCompletionMaxValues;
          hasMore = (case cp_hasMore r of Some b \<Rightarrow> Some (b \<or> truncated)
                     | None \<Rightarrow> if truncated then Some True else None)
      in jput_opt ''hasMore'' (map_option JBool hasMore)
           (jput_opt ''total'' (map_option (\<lambda>n. JInt (int n)) (cp_total r))
             (jput ''values'' (JArray (map JString (take kCompletionMaxValues (cp_values r)))) empty_object)))"

text \<open>No response when the handler throws something that is not a standard exception.\<close>

definition handleCompletionCompleteRequest :: "'s server_env \<Rightarrow> request \<Rightarrow> 's server \<Rightarrow> response option" where
  "handleCompletionCompleteRequest env req s =
     (case parse_completion_request (rq_params req) of
        Inl msg \<Rightarrow> Some (makeInvalidParamsResponse (rq_id req) msg)
      | Inr cq \<Rightarrow>
          (case (case sv_completionHandler s of
                   None \<Rightarrow> Returns \<lparr>cp_values = [], cp_total = None, cp_hasMore = None\<rparr>
                 | Some h \<Rightarrow> ev_completion env h cq) of
             Throws msg \<Rightarrow> Some (internal_error_reply (''completion/complete failed: '' @ msg) (rq_id req))
           | ThrowsUnknown \<Rightarrow> None
           | Returns r \<Rightarrow>
               Some (new_success (rq_id req) (jput ''completion'' (completion_to_json r) empty_object))))"

section \<open>Dispatch\<close>

text \<open>What the body of a core handler does: reply, keep running, or throw.\<close>

datatype handler_reply = Replies response | StillRunning | HandlerFails

definition runCoreHandler ::
  "'s server_env \<Rightarrow> string \<Rightarrow> request_context \<Rightarrow> request \<Rightarrow> 's server \<Rightarrow> 's server \<times> handler_reply" where
  "runCoreHandler env m ctx req s =
     (let pure = (\<lambda>v. (s, Replies v));
          stateful = (\<lambda>(s', v). (s', Replies v));
          waiting = (\<lambda>(s', v). (s', case v of Some x \<Rightarrow> Replies x | None \<Rightarrow> StillRunning))
      in
      if m = kInitializeMethod then
        (case handleInitializeRequest req (sv_session s) of (sess, v) \<Rightarrow> (s\<lparr>sv_session := sess\<rparr>, Replies v))
      else if m = kPingMethod then pure (makePingResponse (rq_id req))
      else if m = kLoggingSetLevelMethod then stateful (handleLoggingSetLevelRequest req s)
      else if m = kCompletionCompleteMethod then
        (s, case handleCompletionCompleteRequest env req s of Some v \<Rightarrow> Replies v | None \<Rightarrow> HandlerFails)
      else if m = kToolsListMethod then pure (handleToolsListRequest req s)
      else if m = kToolsCallMethod then waiting (handleToolsCallRequest env ctx req s)
      else if m = kResourcesListMethod then pure (handleResourcesListRequest req s)
      else if m = kResourcesReadMethod then pure (handleResourcesReadRequest env ctx req s)
      else if m = kResourcesTemplatesListMethod then pure (handleResourceTemplatesListRequest req s)
      else if m = kResourcesSubscribeMethod then stateful (handleResourcesSubscribeRequest ctx req s)
      else if m = kResourcesUnsubscribeMethod then stateful (handleResourcesUnsubscribeRequest ctx req s)
      else if m = kPromptsListMethod then pure (handlePromptsListRequest req s)
      else if m = kPromptsGetMethod then pure (fst (handlePromptsGetRequest env ctx req s))
      else if m = kTasksGetMethod
      then stateful (with_receiver (handleTasksGetRequest (ev_store env) ctx req) s)
      else if m = kTasksResultMethod
      then waiting (with_receiver (handleTasksResultRequest (ev_store env) ctx req) s)
      else if m = kTasksListMethod
      then stateful (with_receiver (handleTasksListRequest (ev_store env) ctx req) s)
      else stateful (with_receiver (handleTasksCancelRequest (ev_store env) ctx req) s))"

text \<open>A future of its own, already set, or one of the router's.\<close>

datatype server_future = ReadyFuture response | RouterFuture nat

text \<open>
  \<open>handleRequest\<close>. A core handler runs at once and its ready future is posted to the completion
  pool; a user's handler stays pending in the router.
\<close>

definition server_handleRequest ::
  "'s server_env \<Rightarrow> request_context \<Rightarrow> request \<Rightarrow> 's server \<Rightarrow> 's server \<times> server_future \<times> response option" where
  "server_handleRequest env ctx req s =
     (if \<not> canHandleRequest (rq_method req) (sv_session s)
      then (s, ReadyFuture (makeLifecycleRejectedResponse (rq_id req) (rq_method req)), None)
      else if \<not> isMethodEnabledByCapability (sv_capabilities s) (rq_method req)
      then (s, ReadyFuture (makeMethodNotFoundResponse (rq_id req) (rq_method req)), None)
      else
        (case dispatchRequest_begin ctx req (sv_router s) of
           (r, f, None) \<Rightarrow> (s\<lparr>sv_router := r\<rparr>, RouterFuture f, None)
         | (r, f, Some h) \<Rightarrow>
             if h < length core_methods then
               (case runCoreHandler env (core_methods ! h) ctx req (s\<lparr>sv_router := r\<rparr>) of
                  (s', Replies v) \<Rightarrow>
                    (s'\<lparr>sv_router := dispatchRequest_end ctx req f Posted (sv_router s')\<rparr>, RouterFuture f, Some v)
                | (s', StillRunning) \<Rightarrow> (s', RouterFuture f, None)
                | (s', HandlerFails) \<Rightarrow>
                    (s'\<lparr>sv_router := dispatchRequest_end ctx req f HandlerThrows (sv_router s')\<rparr>,
                     RouterFuture f, None))
             else (s\<lparr>sv_router := r\<rparr>, RouterFuture f, None)))"

text \<open>The completion job of a core handler's ready future.\<close>

definition server_complete :: "request_context \<Rightarrow> request_id \<Rightarrow> nat \<Rightarrow> response \<Rightarrow> 's server \<Rightarrow> 's server" where
  "server_complete ctx i f v s = s\<lparr>sv_router := runCompletionJob ctx i f (Some v) (sv_router s)\<rparr>"

end
