(* ===== verification/ServerSpec.thy ===== *)
theory ServerSpec
  imports Server RouterPromises
begin

text \<open>
  What the server promises: registered names are unique and subscriptions never dangle, requests
  pass the lifecycle and capability gates before anything happens, tools and prompts are called
  only with validated arguments, results are validated, a tool call that runs as a task delivers
  what the direct call would have, and replies carry the id of their request (but for one case).
\<close>

section \<open>Registries\<close>

lemma erase_named_Some:
  assumes "erase_named nameOf n xs = Some ys"
  obtains us x vs where "xs = us @ x # vs" "ys = us @ vs" "nameOf x = n" "n \<notin> nameOf ` set us"
proof -
  obtain us x vs where e: "List.extract (\<lambda>x. nameOf x = n) xs = Some (us, x, vs)" "ys = us @ vs"
    using assms by (auto simp: erase_named_def split: option.splits)
  from extract_SomeE [OF e(1)] have "xs = us @ x # vs" "nameOf x = n" "n \<notin> nameOf ` set us" by force+
  with that [OF _ e(2)] show ?thesis by blast
qed

lemma erase_named_None: "erase_named nameOf n xs = None \<longleftrightarrow> n \<notin> nameOf ` set xs"
proof -
  have "erase_named nameOf n xs = None \<longleftrightarrow> List.extract (\<lambda>x. nameOf x = n) xs = None"
    by (auto simp: erase_named_def split: option.splits)
  then show ?thesis by (auto simp: extract_None_iff)
qed

lemma erase_named_names:
  assumes "erase_named nameOf n xs = Some ys" and "distinct (map nameOf xs)"
  shows "distinct (map nameOf ys)" and "nameOf ` set ys = nameOf ` set xs - {n}"
proof -
  obtain us x vs where p: "xs = us @ x # vs" "ys = us @ vs" "nameOf x = n"
    using assms(1) by (rule erase_named_Some)
  with assms(2) have "distinct (map nameOf us @ n # map nameOf vs)" by simp
  then have "distinct (map nameOf us @ map nameOf vs)" "n \<notin> nameOf ` set us" "n \<notin> nameOf ` set vs" by auto
  moreover have "nameOf ` set xs - {n} = (nameOf ` set us - {n}) \<union> (nameOf ` set vs - {n})" using p by auto
  ultimately show "distinct (map nameOf ys)" "nameOf ` set ys = nameOf ` set xs - {n}"
    using p(2) by (auto simp: image_Un)
qed

lemma throwIfDuplicateExists_Inr [simp]:
  "bindE (throwIfDuplicateExists items n nameOf ty) f = Inr y \<longleftrightarrow> n \<notin> nameOf ` set items \<and> f () = Inr y"
  by (auto simp: throwIfDuplicateExists_def bindE_def)

text \<open>The part of the state that only registration and subscription change.\<close>

definition registries where
  "registries s = (sv_tools s, sv_resources s, sv_templates s, sv_prompts s, sv_subscriptions s)"

lemma registries_simps [simp]:
  "registries (s\<lparr>sv_session := x1\<rparr>) = registries s" "registries (s\<lparr>sv_router := x2\<rparr>) = registries s"
  "registries (s\<lparr>sv_receiver := x3\<rparr>) = registries s" "registries (s\<lparr>sv_logLevel := x4\<rparr>) = registries s"
  "registries (s\<lparr>sv_background := x5\<rparr>) = registries s" "registries (s\<lparr>sv_completionHandler := x6\<rparr>) = registries s"
  "registries (s\<lparr>sv_observerSender := x7\<rparr>) = registries s"
  by (simp_all add: registries_def)

lemma registries_notify_if [simp]: "registries (fst (notify_if b ctx m p s)) = registries s"
  by (simp add: notify_if_def server_sendNotification_def)

lemma notify_if_frame [simp]:
  "sv_tools (fst (notify_if b ctx m p s)) = sv_tools s" "sv_resources (fst (notify_if b ctx m p s)) = sv_resources s"
  "sv_templates (fst (notify_if b ctx m p s)) = sv_templates s"
  "sv_prompts (fst (notify_if b ctx m p s)) = sv_prompts s"
  "sv_subscriptions (fst (notify_if b ctx m p s)) = sv_subscriptions s"
  by (simp_all add: notify_if_def server_sendNotification_def)

lemma registries_observer_send [simp]: "registries (observer_send ct s) = registries s"
  by (simp add: observer_send_def Let_def split: option.split)

lemma registries_fold_observer [simp]: "registries (fold observer_send cts s) = registries s"
  by (induction cts arbitrary: s) simp_all

lemma receiver_fold_observer [simp]: "sv_receiver (fold observer_send cts s) = sv_receiver s"
  by (induction cts arbitrary: s) (simp_all add: observer_send_def Let_def split: option.split)

lemma registries_with_receiver [simp]: "registries (fst (with_receiver f s)) = registries s"
  by (simp add: with_receiver_def split: prod.split)

lemma registries_background [simp]: "registries (runBackgroundCall env b s) = registries s"
  by (simp add: runBackgroundCall_def Let_def)

text \<open>What a tools/call request does to the server.\<close>

lemma toolsCall_cases:
  obtains
    (stays) v where "handleToolsCallRequest env ctx req s = (s, v)"
  | (refused) r aug msg where "receiver_createTask (ev_store env) ctx aug (Some ''The operation is now in progress.'')
        (sv_receiver s) = Some (r, Inl msg)"
      "handleToolsCallRequest env ctx req s = (s\<lparr>sv_receiver := r\<rparr>,
         Some (makeInvalidParamsResponse (rq_id req) (''Task creation rejected: '' @ msg)))"
  | (created) params toolName arguments d h aug r created where
      "required_string req ''name'' ''tools/call requires params object'' ''tools/call requires string params.name'' =
         Inr (params, toolName)"
      "optional_arguments params = Some arguments" "find (\<lambda>t. tool_name t = toolName) (sv_tools s) = Some (d, h)"
      "parseTaskAugmentation (rq_params req) = Inr aug" "ta_requested aug"
      "receiver_createTask (ev_store env) ctx aug (Some ''The operation is now in progress.'')
        (sv_receiver s) = Some (r, Inr created)"
      "handleToolsCallRequest env ctx req s =
         (s\<lparr>sv_receiver := r,
            sv_background := sv_background s @ [\<lparr>bg_taskId = tk_taskId (cr_task created), bg_toolName = toolName,
              bg_definition = d, bg_handler = h, bg_arguments = arguments, bg_context = ctx\<rparr>]\<rparr>,
          Some (new_success (rq_id req) (createTaskResultToJson created)))"
proof (cases "required_string req ''name'' ''tools/call requires params object'' ''tools/call requires string params.name''")
  case (Inl e)
  then show ?thesis by (intro stays) (simp add: handleToolsCallRequest_def Let_def)
next
  case (Inr pt)
  obtain params toolName where pt: "pt = (params, toolName)" by (cases pt)
  note step = handleToolsCallRequest_def Let_def Inr pt
  show ?thesis
  proof (cases "optional_arguments params")
    case None
    then show ?thesis by (intro stays) (simp add: step)
  next
    case args: (Some arguments)
    show ?thesis
    proof (cases "find (\<lambda>t. tool_name t = toolName) (sv_tools s)")
      case None
      with args show ?thesis by (intro stays) (simp add: step)
    next
      case tool: (Some dh)
      obtain d h where dh: "dh = (d, h)" by (cases dh)
      note step = step args tool dh
      show ?thesis
      proof (cases "(case sc_tasks (sv_capabilities s) of None \<Rightarrow> False | Some c \<Rightarrow> tasks_toolsCall c)")
        case False
        then show ?thesis by (intro stays) (simp add: step)
      next
        case enabled: True
        show ?thesis
        proof (cases "parseTaskAugmentation (rq_params req)")
          case (Inl msg)
          with enabled show ?thesis by (intro stays) (simp add: step)
        next
          case aug: (Inr aug)
          show ?thesis
          proof (cases "ta_requested aug \<and> parseToolTaskSupport d \<noteq> kForbidden")
            case False
            with enabled aug show ?thesis
              by (cases "ta_requested aug"; cases "parseToolTaskSupport d = kRequired")
                (auto intro!: stays simp: step)
          next
            case True
            show ?thesis
            proof (cases "receiver_createTask (ev_store env) ctx aug (Some ''The operation is now in progress.'')
                (sv_receiver s)")
              case None
              with True enabled aug show ?thesis by (intro stays) (simp add: step)
            next
              case (Some rv)
              obtain r v where rv: "rv = (r, v)" by (cases rv)
              show ?thesis
              proof (cases v)
                case (Inl msg)
                with Some rv True enabled aug show ?thesis by (intro refused) (simp_all add: step)
              next
                case (Inr created)
                with Some rv True enabled aug show ?thesis
                  by (intro created [of params toolName arguments d h aug r created]) (simp_all add: step)
              qed
            qed
          qed
        qed
      qed
    qed
  qed
qed

lemma registries_toolsCall [simp]: "registries (fst (handleToolsCallRequest env ctx req s)) = registries s"
  by (cases rule: toolsCall_cases [of env ctx req s]) simp_all

lemmas notify_defs = notifyToolsListChanged_def notifyResourcesListChanged_def notifyPromptsListChanged_def
  notifyResourceUpdated_def

text \<open>The schemas of a tool are objects.\<close>

definition object_schemas :: "tool_definition \<Rightarrow> bool" where
  "object_schemas d \<longleftrightarrow> is_object (td_inputSchema d) \<and> (\<forall>j \<in> set_option (td_outputSchema d). is_object j)"

lemma erase_named_subset: "erase_named nameOf n xs = Some ys \<Longrightarrow> set ys \<subseteq> set xs"
  by (erule erase_named_Some) auto

lemma tool_schema_objects: "tool_schema_error env kind j = None \<Longrightarrow> is_object j"
  by (auto simp: tool_schema_error_def validateToolSchema_def Let_def split: if_splits)

definition registries_ok :: "'s server \<Rightarrow> bool" where
  "registries_ok s \<longleftrightarrow> distinct (map tool_name (sv_tools s)) \<and> distinct (map resource_uri (sv_resources s))
     \<and> distinct (map rt_uriTemplate (sv_templates s)) \<and> distinct (map prompt_name (sv_prompts s))
     \<and> distinct (sv_subscriptions s) \<and> (\<forall>sub \<in> set (sv_subscriptions s). snd sub \<in> resource_uri ` set (sv_resources s))
     \<and> (\<forall>t \<in> set (sv_tools s). object_schemas (fst t))"

lemma registries_ok_same: "registries s' = registries s \<Longrightarrow> registries_ok s' = registries_ok s"
  by (simp add: registries_ok_def registries_def)

lemma registries_subscribe_cases:
  obtains
    (same) v where "handleResourcesSubscribeRequest ctx req s = (s, v)"
  | (added) uri v where "uri \<in> resource_uri ` set (sv_resources s)"
      "(sessionKeyForContext ctx, uri) \<notin> set (sv_subscriptions s)"
      "handleResourcesSubscribeRequest ctx req s =
        (s\<lparr>sv_subscriptions := sv_subscriptions s @ [(sessionKeyForContext ctx, uri)]\<rparr>, v)"
proof (cases "required_string req ''uri'' ''resources/subscribe requires params object''
      ''resources/subscribe requires string params.uri''")
  case (Inl e)
  then show ?thesis by (intro same) (simp add: handleResourcesSubscribeRequest_def)
next
  case (Inr pu)
  obtain params uri where pu: "pu = (params, uri)" by (cases pu)
  note step = handleResourcesSubscribeRequest_def Let_def Inr pu
  show ?thesis
  proof (cases "uri \<in> resource_uri ` set (sv_resources s)")
    case False
    then show ?thesis by (intro same) (simp add: step)
  next
    case True
    show ?thesis
    proof (cases "(sessionKeyForContext ctx, uri) \<in> set (sv_subscriptions s)")
      case sub: True
      with True show ?thesis by (intro same) (simp add: step)
    next
      case False
      with True show ?thesis by (intro added [of uri]) (simp_all add: step)
    qed
  qed
qed

lemma subscribe_ok: "registries_ok s \<Longrightarrow> registries_ok (fst (handleResourcesSubscribeRequest ctx req s))"
  by (cases rule: registries_subscribe_cases [of ctx req s]) (auto simp: registries_ok_def)

lemma unsubscribe_ok: "registries_ok s \<Longrightarrow> registries_ok (fst (handleResourcesUnsubscribeRequest ctx req s))"
  by (auto simp: handleResourcesUnsubscribeRequest_def registries_ok_def split: sum.split)

text \<open>What a registration that succeeds adds.\<close>

lemma register_adds:
  "registerTool env d h s = Inr s' \<Longrightarrow> td_name d \<notin> tool_name ` set (sv_tools s) \<and> object_schemas d
     \<and> (\<exists>k. h = Some k \<and> registries s' =
     (sv_tools s @ [(d, k)], sv_resources s, sv_templates s, sv_prompts s, sv_subscriptions s))"
  "registerResource rd h s = Inr s' \<Longrightarrow> rd_uri rd \<notin> resource_uri ` set (sv_resources s) \<and> (\<exists>k. h = Some k \<and> registries s' =
     (sv_tools s, sv_resources s @ [(rd, k)], sv_templates s, sv_prompts s, sv_subscriptions s))"
  "registerResourceTemplate rt s = Inr s' \<Longrightarrow> rt_uriTemplate rt \<notin> rt_uriTemplate ` set (sv_templates s) \<and> registries s' =
     (sv_tools s, sv_resources s, sv_templates s @ [rt], sv_prompts s, sv_subscriptions s)"
  "registerPrompt pd h s = Inr s' \<Longrightarrow> pd_name pd \<notin> prompt_name ` set (sv_prompts s) \<and> (\<exists>k. h = Some k \<and> registries s' =
     (sv_tools s, sv_resources s, sv_templates s, sv_prompts s @ [(pd, k)], sv_subscriptions s))"
  by (auto simp: registerTool_def registerResource_def registerResourceTemplate_def registerPrompt_def
      notify_defs registries_def object_schemas_def split: option.splits if_splits dest: tool_schema_objects)

lemma registries_ok_iff: "registries_ok s \<longleftrightarrow> (case registries s of (ts, rs, tps, ps, subs) \<Rightarrow>
    distinct (map tool_name ts) \<and> distinct (map resource_uri rs) \<and> distinct (map rt_uriTemplate tps) \<and>
    distinct (map prompt_name ps) \<and> distinct subs \<and> (\<forall>sub \<in> set subs. snd sub \<in> resource_uri ` set rs) \<and>
    (\<forall>t \<in> set ts. object_schemas (fst t)))"
  by (simp add: registries_ok_def registries_def)

lemma register_ok:
  assumes "registries_ok s"
  shows "registerTool env d h s = Inr s' \<Longrightarrow> registries_ok s'"
    and "registerResource rd h s = Inr s' \<Longrightarrow> registries_ok s'"
    and "registerResourceTemplate rt s = Inr s' \<Longrightarrow> registries_ok s'"
    and "registerPrompt pd h s = Inr s' \<Longrightarrow> registries_ok s'"
proof -
  note ok = assms [unfolded registries_ok_def]
  show "registerTool env d h s = Inr s' \<Longrightarrow> registries_ok s'"
    by (drule register_adds(1), elim conjE exE) (use ok in \<open>simp add: registries_ok_iff [of s']\<close>)
  show "registerResource rd h s = Inr s' \<Longrightarrow> registries_ok s'"
    by (drule register_adds(2), elim conjE exE) (use ok in \<open>auto simp: registries_ok_iff [of s']\<close>)
  show "registerResourceTemplate rt s = Inr s' \<Longrightarrow> registries_ok s'"
    by (drule register_adds(3), elim conjE exE) (use ok in \<open>simp add: registries_ok_iff [of s']\<close>)
  show "registerPrompt pd h s = Inr s' \<Longrightarrow> registries_ok s'"
    by (drule register_adds(4), elim conjE exE) (use ok in \<open>simp add: registries_ok_iff [of s']\<close>)
qed

lemma unregister_ok:
  assumes "registries_ok s"
  shows "registries_ok (fst (unregisterTool n s))" "registries_ok (fst (unregisterResource n s))"
    "registries_ok (fst (unregisterResourceTemplate n s))" "registries_ok (fst (unregisterPrompt n s))"
proof -
  note [simp] = notify_defs
  show "registries_ok (fst (unregisterTool n s))"
    using assms erase_named_names [of tool_name n "sv_tools s"]
    by (auto simp: unregisterTool_def registries_ok_def split: option.split) (drule erase_named_subset, force)
  show "registries_ok (fst (unregisterResourceTemplate n s))"
    using assms erase_named_names [of rt_uriTemplate n "sv_templates s"]
    by (auto simp: unregisterResourceTemplate_def registries_ok_def split: option.split)
  show "registries_ok (fst (unregisterPrompt n s))"
    using assms erase_named_names [of prompt_name n "sv_prompts s"]
    by (auto simp: unregisterPrompt_def registries_ok_def split: option.split)
  show "registries_ok (fst (unregisterResource n s))"
  proof (cases "erase_named resource_uri n (sv_resources s)")
    case None
    with assms show ?thesis by (simp add: unregisterResource_def)
  next
    case (Some rs)
    note names = erase_named_names [OF Some]
    from assms Some show ?thesis
      by (auto simp: unregisterResource_def registries_ok_def names)
  qed
qed

lemma ok_if: "registries_ok (fst x) \<Longrightarrow> registries_ok (fst y) \<Longrightarrow> registries_ok (fst (if b then x else y))"
  by simp

lemma runCoreHandler_ok: "registries_ok s \<Longrightarrow> registries_ok (fst (runCoreHandler env m ctx req s))"
proof -
  assume ok: "registries_ok s"
  have same: "registries s' = registries s \<Longrightarrow> registries_ok s'" for s' using ok registries_ok_same by blast
  have logging: "registries (fst (handleLoggingSetLevelRequest req s)) = registries s"
    by (simp add: handleLoggingSetLevelRequest_def split: sum.split prod.split option.split)
  show ?thesis
    unfolding runCoreHandler_def Let_def case_prod_unfold
    by (intro ok_if) (simp_all add: ok same logging subscribe_ok unsubscribe_ok)
qed

lemma handleRequest_ok: "registries_ok s \<Longrightarrow> registries_ok (fst (server_handleRequest env ctx req s))"
proof -
  assume ok: "registries_ok s"
  have same: "registries_ok (u\<lparr>sv_router := r\<rparr>) = registries_ok u" for u :: "'a server" and r
    by (rule registries_ok_same) simp
  have "registries_ok (fst (runCoreHandler env m ctx req (s\<lparr>sv_router := r\<rparr>)))" for m r
    by (rule runCoreHandler_ok) (simp add: same ok)
  then have run: "runCoreHandler env m ctx req (s\<lparr>sv_router := r\<rparr>) = (u, v) \<Longrightarrow> registries_ok u" for m r u v
    by (metis fst_conv)
  show ?thesis
    unfolding server_handleRequest_def using ok
    by (auto simp: same dest: run split: prod.split option.split handler_reply.split)
qed

section \<open>Steps of a server\<close>

text \<open>
  Everything the application, the peer and the threads of the process can do to a server: the last
  three are router steps of its router (timeouts, the user's handlers), operations of the
  application on its task receiver, and the thread of a tool call that runs as a task.
\<close>

inductive server_step :: "'s server_env \<Rightarrow> 's server \<Rightarrow> 's server \<Rightarrow> bool" for env where
  start: "server_step env s (fst (server_start s))"
| stop: "server_step env s (server_stop s)"
| request_handler: "server_registerRequestHandler m h s = Inr s' \<Longrightarrow> server_step env s s'"
| notification_handler: "server_registerNotificationHandler m h s = Inr s' \<Longrightarrow> server_step env s s'"
| sender: "server_step env s (server_setOutboundMessageSender sender s)"
| completion_handler: "server_step env s (setCompletionHandler h s)"
| register_tool: "registerTool env d h s = Inr s' \<Longrightarrow> server_step env s s'"
| unregister_tool: "server_step env s (fst (unregisterTool n s))"
| register_resource: "registerResource rd h s = Inr s' \<Longrightarrow> server_step env s s'"
| unregister_resource: "server_step env s (fst (unregisterResource n s))"
| register_template: "registerResourceTemplate rt s = Inr s' \<Longrightarrow> server_step env s s'"
| unregister_template: "server_step env s (fst (unregisterResourceTemplate n s))"
| register_prompt: "registerPrompt pd h s = Inr s' \<Longrightarrow> server_step env s s'"
| unregister_prompt: "server_step env s (fst (unregisterPrompt n s))"
| tools_changed: "server_step env s (fst (notifyToolsListChanged ctx s))"
| resources_changed: "server_step env s (fst (notifyResourcesListChanged ctx s))"
| prompts_changed: "server_step env s (fst (notifyPromptsListChanged ctx s))"
| resource_updated: "server_step env s (fst (notifyResourceUpdated uri ctx s))"
| log_message: "server_step env s (fst (emitLogMessage ctx level data logger s))"
| request: "server_step env s (fst (server_handleRequest env ctx req s))"
| notification: "server_step env s (server_handleNotification ctx n s)"
| response: "server_step env s (fst (server_handleResponse resp s))"
| send_request: "server_step env s (fst (server_sendRequest ctx req opts s))"
| send_notification: "server_step env s (server_sendNotification ctx n s)"
| router: "router_step (sv_router s) r \<Longrightarrow> server_step env s (s\<lparr>sv_router := r\<rparr>)"
| receiver: "server_step env s (fst (with_receiver (operation :: 's receiver \<Rightarrow> 's receiver \<times> unit) s))"
| background: "b \<in> set (sv_background s) \<Longrightarrow> server_step env s (runBackgroundCall env b s)"

inductive_cases server_stepE: "server_step env s s'"

definition server_start_state :: "'s server \<Rightarrow> bool" where
  "server_start_state s \<longleftrightarrow> (\<exists>limit sess cf. new_server limit sess cf = Inr s)"

lemma registries_frames:
  "registries (fst (server_start s)) = registries s" "registries (server_stop s) = registries s"
  "registries (server_setOutboundMessageSender sender s) = registries s"
  "registries (setCompletionHandler h s) = registries s"
  "registries (fst (emitLogMessage ctx level data logger s)) = registries s"
  "registries (server_handleNotification ctx n s) = registries s"
  "registries (fst (server_handleResponse resp s)) = registries s"
  "registries (fst (server_sendRequest ctx req opts s)) = registries s"
  "registries (server_sendNotification ctx n s) = registries s"
  by (simp_all add: server_start_def server_stop_def server_setOutboundMessageSender_def registries_def
      setCompletionHandler_def emitLogMessage_def server_handleNotification_def server_handleResponse_def
      server_sendRequest_def server_sendNotification_def Let_def split: prod.split sum.split)

lemma registries_handler_frames:
  "server_registerRequestHandler m h s = Inr s' \<Longrightarrow> registries s' = registries s"
  "server_registerNotificationHandler m h s = Inr s' \<Longrightarrow> registries s' = registries s"
  by (auto simp: server_registerRequestHandler_def server_registerNotificationHandler_def
      split: option.splits if_splits)

lemma registries_step:
  assumes "server_step env s s'" and ok: "registries_ok s"
  shows "registries_ok s'"
proof -
  have same: "registries t = registries s \<Longrightarrow> registries_ok t" for t :: "'a server"
    using registries_ok_same ok by blast
  note frames = registries_frames registries_handler_frames
  from assms(1) show ?thesis
  proof (cases rule: server_step.cases)
    case (request ctx req)
    then show ?thesis using handleRequest_ok [OF ok] by simp
  next
    case (register_tool d h)
    then show ?thesis using register_ok(1) [OF ok] by simp
  next
    case (register_resource rd h)
    then show ?thesis using register_ok(2) [OF ok] by simp
  next
    case (register_template rt)
    then show ?thesis using register_ok(3) [OF ok] by simp
  next
    case (register_prompt pd h)
    then show ?thesis using register_ok(4) [OF ok] by simp
  qed (use unregister_ok [OF ok] in \<open>simp_all add: same frames notify_defs\<close>)
qed

lemma new_server_registries: "new_server limit given cf = Inr s \<Longrightarrow> registries s = ([], [], [], [], [])"
proof -
  assume new: "new_server limit given cf = Inr s"
  then obtain sess where given: "given = Some sess" by (cases given) (auto simp: new_server_def)
  define info where "info = (case cf_serverInfo cf of Some i \<Rightarrow> i | None \<Rightarrow> defaultServerInfo)"
  obtain sess' v where conf: "configureServerInitialization (cf_capabilities cf) info (cf_instructions cf)
      (setRole kServer sess) = (sess', v)" by fastforce
  show ?thesis
  proof (cases v)
    case (Inl e)
    with new given conf show ?thesis by (cases e) (auto simp: new_server_def Let_def info_def)
  next
    case (Inr u)
    with new given conf show ?thesis by (auto simp: new_server_def Let_def info_def registries_def)
  qed
qed

text \<open>The environment, with the time in it, may change from step to step.\<close>

definition server_moves :: "'s server \<Rightarrow> 's server \<Rightarrow> bool" where
  "server_moves s s' \<longleftrightarrow> (\<exists>env. server_step env s s')"

interpretation server: invariant_system server_start_state server_moves registries_ok
proof
  fix s :: "'a server" assume "server_start_state s"
  then show "registries_ok s"
    by (auto simp: server_start_state_def registries_ok_iff dest: new_server_registries)
qed (auto simp: server_moves_def intro: registries_step)

text \<open>
  C12. The registries are sets by name and no subscription dangles: in every reachable state of a
  server the names of tools, prompts and templates and the URIs of resources are distinct, a
  subscription is kept once and is for a registered resource, and an update notification is sent
  only for a registered resource to which the session of the context has subscribed.
\<close>

theorem subscriptions_never_dangle:
  assumes "new_server limit sess cf = Inr s0" and "server_moves\<^sup>*\<^sup>* s0 s"
  shows "distinct (map tool_name (sv_tools s)) \<and> distinct (map resource_uri (sv_resources s))
    \<and> distinct (map rt_uriTemplate (sv_templates s)) \<and> distinct (map prompt_name (sv_prompts s))
    \<and> distinct (sv_subscriptions s) \<and> snd ` set (sv_subscriptions s) \<subseteq> resource_uri ` set (sv_resources s)
    \<and> (snd (notifyResourceUpdated uri ctx s) \<longrightarrow>
        uri \<in> resource_uri ` set (sv_resources s) \<and> (sessionKeyForContext ctx, uri) \<in> set (sv_subscriptions s))"
proof -
  have ok: "registries_ok s"
    using server.inv_reachable [OF _ assms(2)] assms(1) by (auto simp: server_start_state_def)
  have sub: "(sessionKeyForContext ctx, uri) \<in> set (sv_subscriptions s)" if "snd (notifyResourceUpdated uri ctx s)"
    using that by (auto simp: notifyResourceUpdated_def notify_if_def split: if_splits)
  have registered: "snd ` set (sv_subscriptions s) \<subseteq> resource_uri ` set (sv_resources s)"
    using ok unfolding registries_ok_def by blast
  with sub have "uri \<in> resource_uri ` set (sv_resources s)" if "snd (notifyResourceUpdated uri ctx s)"
    using that by force
  with sub registered ok show ?thesis unfolding registries_ok_def by blast
qed

section \<open>Gates\<close>

text \<open>
  What the protocol asks of a request, as two tables: the methods that a session takes before it
  operates, with the states for each, and the capability that the server must have declared for a
  group of methods. A method in no group needs none.
\<close>

definition early_methods :: "(string \<times> SessionState set) list" where
  "early_methods =
     [(''initialize'', {kCreated}),
      (''ping'', {kCreated, kInitializing, kInitialized, kStopping, kStopped}),
      (''logging/setLevel'', {kInitialized})]"

definition lifecycle_admits :: "SessionState \<Rightarrow> string \<Rightarrow> bool" where
  "lifecycle_admits st m \<longleftrightarrow> st = kOperating \<or> (\<exists>(n, sts) \<in> set early_methods. n = m \<and> st \<in> sts)"

definition required_capabilities :: "(string list \<times> (server_capabilities \<Rightarrow> bool)) list" where
  "required_capabilities =
     [([''tools/list'', ''tools/call''], \<lambda>c. sc_tools c \<noteq> None),
      ([''resources/list'', ''resources/read'', ''resources/templates/list''], \<lambda>c. sc_resources c \<noteq> None),
      ([''resources/subscribe'', ''resources/unsubscribe''],
         \<lambda>c. \<exists>r. sc_resources c = Some r \<and> resources_subscribe r),
      ([''prompts/list'', ''prompts/get''], \<lambda>c. sc_prompts c \<noteq> None),
      ([''completion/complete''], \<lambda>c. sc_completions c \<noteq> None),
      ([''logging/setLevel''], \<lambda>c. sc_logging c \<noteq> None),
      ([''tasks/get'', ''tasks/result''], \<lambda>c. sc_tasks c \<noteq> None),
      ([''tasks/list''], \<lambda>c. \<exists>t. sc_tasks c = Some t \<and> tasks_list t),
      ([''tasks/cancel''], \<lambda>c. \<exists>t. sc_tasks c = Some t \<and> tasks_cancel t)]"

definition capability_admits :: "server_capabilities \<Rightarrow> string \<Rightarrow> bool" where
  "capability_admits caps m \<longleftrightarrow> (\<forall>(ms, has) \<in> set required_capabilities. m \<in> set ms \<longrightarrow> has caps)"

lemma canHandle_table:
  assumes "se_role s = kServer"
  shows "canHandleRequest m s \<longleftrightarrow> lifecycle_admits (se_state s) m"
  using assms
  by (cases "se_state s")
    (auto simp: canHandleRequest_def lifecycle_admits_def early_methods_def kInitializeMethod_def kPingMethod_def
      kLoggingSetLevelMethod_def)

lemma enabled_table: "isMethodEnabledByCapability caps m \<longleftrightarrow> capability_admits caps m"
proof (cases "m \<in> (\<Union>(ms, _) \<in> set required_capabilities. set ms)")
  case True
  then have "m = ''tools/list'' \<or> m = ''tools/call'' \<or> m = ''resources/list'' \<or> m = ''resources/read''
    \<or> m = ''resources/templates/list'' \<or> m = ''resources/subscribe'' \<or> m = ''resources/unsubscribe''
    \<or> m = ''prompts/list'' \<or> m = ''prompts/get'' \<or> m = ''completion/complete'' \<or> m = ''logging/setLevel''
    \<or> m = ''tasks/get'' \<or> m = ''tasks/result'' \<or> m = ''tasks/list'' \<or> m = ''tasks/cancel''"
    unfolding required_capabilities_def
    by (simp only: list.set UN_insert UN_empty prod.case Un_iff insert_iff empty_iff disj_assoc Un_empty_right simp_thms)
  then show ?thesis
    by (elim disjE) (simp_all add: isMethodEnabledByCapability_def capability_admits_def required_capabilities_def
        kResourcesSubscribeMethod_def kResourcesUnsubscribeMethod_def kTasksListMethod_def kTasksServerCancelMethod_def
        kTasksGetMethod_def kTasksResultMethod_def capabilityForMethod_def server_hasCapability_def split: option.split)
next
  case False
  then have "isMethodEnabledByCapability caps m"
    unfolding required_capabilities_def
    by (simp add: isMethodEnabledByCapability_def kResourcesSubscribeMethod_def
        kResourcesUnsubscribeMethod_def kTasksListMethod_def kTasksServerCancelMethod_def kTasksGetMethod_def
        kTasksResultMethod_def capabilityForMethod_def)
  moreover have "capability_admits caps m" using False by (force simp: capability_admits_def)
  ultimately show ?thesis by simp
qed

lemma dispatched_requests:
  assumes "canHandleRequest (rq_method req) (sv_session s)"
    and "isMethodEnabledByCapability (sv_capabilities s) (rq_method req)"
  shows "\<exists>s' f v. server_handleRequest env ctx req s = (s', RouterFuture f, v)"
  using assms by (auto simp: server_handleRequest_def Let_def split: prod.split option.split handler_reply.split)

text \<open>
  C13. A server dispatches exactly the requests that both tables admit. Before it operates it takes
  \<open>initialize\<close> while it is created, \<open>logging/setLevel\<close> once it is initialized and \<open>ping\<close> at any time;
  from then on every method whose capability it declared, and every method that needs none. Any
  other request leaves the server as it is and is answered at once, under its id, with Invalid
  Request when it comes too early and with Method not found when the capability is missing.
\<close>

theorem gated_requests_change_nothing:
  assumes "se_role (sv_session s) = kServer"
  shows "(lifecycle_admits (se_state (sv_session s)) (rq_method req) \<and> capability_admits (sv_capabilities s) (rq_method req)
      \<longleftrightarrow> (\<exists>s' f v. server_handleRequest env ctx req s = (s', RouterFuture f, v)))
    \<and> (\<not> lifecycle_admits (se_state (sv_session s)) (rq_method req) \<longrightarrow>
        (\<exists>e. server_handleRequest env ctx req s = (s, ReadyFuture (RError e), None)
          \<and> er_id e = Some (rq_id req) \<and> err_code (er_error e) = - 32600))
    \<and> (lifecycle_admits (se_state (sv_session s)) (rq_method req) \<and> \<not> capability_admits (sv_capabilities s) (rq_method req) \<longrightarrow>
        (\<exists>e. server_handleRequest env ctx req s = (s, ReadyFuture (RError e), None)
          \<and> er_id e = Some (rq_id req) \<and> err_code (er_error e) = - 32601))"
proof -
  have early: "server_handleRequest env ctx req s =
      (s, ReadyFuture (makeLifecycleRejectedResponse (rq_id req) (rq_method req)), None)"
    if "\<not> canHandleRequest (rq_method req) (sv_session s)" using that by (simp add: server_handleRequest_def)
  have missing: "server_handleRequest env ctx req s =
      (s, ReadyFuture (makeMethodNotFoundResponse (rq_id req) (rq_method req)), None)"
    if "canHandleRequest (rq_method req) (sv_session s)"
      "\<not> isMethodEnabledByCapability (sv_capabilities s) (rq_method req)"
    using that by (simp add: server_handleRequest_def)
  have answers: "\<exists>e. makeLifecycleRejectedResponse i m = RError e \<and> er_id e = Some i \<and> err_code (er_error e) = - 32600"
    "\<exists>e. makeMethodNotFoundResponse i m = RError e \<and> er_id e = Some i \<and> err_code (er_error e) = - 32601" for i m
    by (simp_all add: makeLifecycleRejectedResponse_def makeMethodNotFoundResponse_def error_reply_def
        makeErrorResponse_def makeInvalidRequestError_def makeMethodNotFoundError_def makeJsonRpcError_def)
  show ?thesis
    unfolding canHandle_table [OF assms, symmetric] enabled_table [symmetric]
    using dispatched_requests [of req s env ctx] early missing answers [of "rq_id req" "rq_method req"] by fastforce
qed

section \<open>Tool calls\<close>

lemma check_output_facts:
  assumes "is_array (ctr_content r)"
  shows "is_array (ctr_content (check_output env n d r))"
    and "\<not> ctr_isError (check_output env n d r) \<Longrightarrow> td_outputSchema d = Some schema \<Longrightarrow>
      \<exists>sc. ctr_structuredContent (check_output env n d r) = Some sc \<and> is_object sc
        \<and> fst (validateJsonInstanceAgainstSchema env schema sc)"
proof -
  note simps = check_output_def failed_result_def makeSchemaValidationErrorResult_def makeTextContentBlock_def
  show "is_array (ctr_content (check_output env n d r))"
    using assms by (auto simp: simps split: option.split prod.split bool.split)
  assume ok: "\<not> ctr_isError (check_output env n d r)" "td_outputSchema d = Some schema"
  show "\<exists>sc. ctr_structuredContent (check_output env n d r) = Some sc \<and> is_object sc
      \<and> fst (validateJsonInstanceAgainstSchema env schema sc)"
  proof (cases "ctr_structuredContent r")
    case None
    with ok show ?thesis by (simp add: simps)
  next
    case (Some sc)
    obtain valid ds where "validateJsonInstanceAgainstSchema env schema sc = (valid, ds)" by fastforce
    with ok Some show ?thesis by (cases valid; cases "is_object sc") (simp_all add: simps)
  qed
qed

lemma result_members [simp]:
  "get_bool (jput_if b ''isError'' (JBool True) (jput_opt ''_meta'' m (jput_opt ''structuredContent'' sc
     (jput ''content'' c empty_object)))) ''isError'' = (if b then Some True else None)"
  "jget (jput_if b ''isError'' (JBool True) (jput_opt ''_meta'' m (jput_opt ''structuredContent'' sc
     (jput ''content'' c empty_object)))) ''structuredContent'' = sc"
  "jget (jput_if b ''isError'' (JBool True) (jput_opt ''_meta'' m (jput_opt ''structuredContent'' sc
     (jput ''content'' c empty_object)))) ''content'' = Some c"
  by (auto simp: get_bool_def jput_if_def orElse_def empty_object_def jget_def jput_def jput_opt_def umap_simps
      split: option.split)

text \<open>
  C11. Tool calls are validated on both sides: the handler is called only with arguments that the
  input schema accepts, the response is always a success response for the request whose content is
  an array, and unless it is flagged as an error its structured content is an object that the
  tool's output schema accepts.
\<close>

theorem tool_calls_are_validated:
  assumes "executeToolCall env ctx i toolName d h arguments = (resp, call)"
  shows "(call = None \<or> fst (validateJsonInstanceAgainstSchema env (td_inputSchema d) arguments)
      \<and> map_option tcx_arguments call = Some arguments)
    \<and> (\<exists>r c. resp = RSuccess r \<and> sr_id r = i \<and> jget (sr_result r) ''content'' = Some c \<and> is_array c
      \<and> (\<forall>schema. td_outputSchema d = Some schema \<and> get_bool (sr_result r) ''isError'' \<noteq> Some True \<longrightarrow>
          (\<exists>sc. jget (sr_result r) ''structuredContent'' = Some sc \<and> is_object sc
            \<and> fst (validateJsonInstanceAgainstSchema env schema sc))))"
proof -
  obtain valid ds where v: "validateJsonInstanceAgainstSchema env (td_inputSchema d) arguments = (valid, ds)"
    by fastforce
  show ?thesis
  proof (cases valid)
    case False
    with assms v show ?thesis
      by (auto simp: executeToolCall_def new_success_def Let_def get_bool_def makeSchemaValidationErrorResult_def
          makeTextContentBlock_def)
  next
    case True
    define call' where "call' = \<lparr>tcx_requestContext = ctx, tcx_toolName = toolName, tcx_arguments = arguments\<rparr>"
    define r0 where "r0 = (case ev_tool env h call' of
        Returns r \<Rightarrow> r
      | Throws msg \<Rightarrow> failed_result \<lparr>ctr_content = JArray [], ctr_structuredContent = None, ctr_isError = False,
          ctr_metadata = None\<rparr> (''Tool execution failed: '' @ msg)
      | ThrowsUnknown \<Rightarrow> failed_result \<lparr>ctr_content = JArray [], ctr_structuredContent = None,
          ctr_isError = False, ctr_metadata = None\<rparr> ''Tool execution failed: unknown error'')"
    define r1 where "r1 = (if is_array (ctr_content r0) then r0
      else failed_result r0 ''Tool returned invalid content payload'')"
    have "is_array (ctr_content r1)" by (simp add: r1_def failed_result_def makeTextContentBlock_def)
    note facts = check_output_facts [OF this, of env toolName d]
    from assms v True have "resp = new_success i
        (jput_if (ctr_isError (check_output env toolName d r1)) ''isError'' (JBool True)
          (jput_opt ''_meta'' (ctr_metadata (check_output env toolName d r1))
          (jput_opt ''structuredContent'' (ctr_structuredContent (check_output env toolName d r1))
          (jput ''content'' (ctr_content (check_output env toolName d r1)) empty_object))))" "call = Some call'"
      by (auto simp: executeToolCall_def Let_def r0_def r1_def call'_def)
    with v True facts show ?thesis by (simp add: new_success_def call'_def)
  qed
qed

section \<open>Prompts\<close>

lemma find_SomeD: "find P xs = Some x \<Longrightarrow> x \<in> set xs \<and> P x"
  by (metis find_Some_iff nth_mem)

lemma object_range_member: "jget j k = Some v \<Longrightarrow> (k, v) \<in> set (object_range j)"
  by (auto simp: jget_def object_range_def split: json.splits dest: map_of_SomeD)

text \<open>
  C38. A prompt's handler is called only for a registered prompt, with string arguments that the
  prompt declares, and with every argument it requires.
\<close>

theorem prompt_handlers_get_declared_arguments:
  assumes "handlePromptsGetRequest env ctx req s = (resp, Some call)"
  shows "\<exists>d h. (d, h) \<in> set (sv_prompts s) \<and> pd_name d = pcx_promptName call
    \<and> (\<forall>k v. jget (pcx_arguments call) k = Some v \<longrightarrow> is_string v \<and> k \<in> pa_name ` set (pd_arguments d))
    \<and> (\<forall>a \<in> set (pd_arguments d). pa_required a = Some True \<longrightarrow> contains (pcx_arguments call) (pa_name a))"
proof -
  obtain params promptName where r: "required_string req ''name'' ''prompts/get requires params object''
      ''prompts/get requires string params.name'' = Inr (params, promptName)"
    using assms by (auto simp: handlePromptsGetRequest_def Let_def split: sum.splits)
  obtain arguments where a: "optional_arguments params = Some arguments"
    using assms r by (auto simp: handlePromptsGetRequest_def Let_def split: option.splits)
  have strings: "\<not> list_ex (\<lambda>(_, v). \<not> is_string v) (object_range arguments)"
    using assms r a by (auto simp: handlePromptsGetRequest_def Let_def split: if_splits)
  obtain d h where f: "find (\<lambda>p. prompt_name p = promptName) (sv_prompts s) = Some (d, h)"
    using assms r a strings by (auto simp: handlePromptsGetRequest_def Let_def split: option.splits)
  have e: "prompt_argument_error d arguments = None"
    using assms r a strings f by (auto simp: handlePromptsGetRequest_def Let_def split: option.splits)
  have call: "pcx_promptName call = promptName" "pcx_arguments call = arguments"
    using assms r a strings f e by (auto simp: handlePromptsGetRequest_def Let_def)
  from find_SomeD [OF f] have d: "(d, h) \<in> set (sv_prompts s)" "pd_name d = promptName" by simp_all
  have known: "k \<in> set (map pa_name (pd_arguments d))" if "(k, v) \<in> set (object_range arguments)" for k v
    using e that by (auto simp: prompt_argument_error_def find_None_iff split: option.splits)
  have required: "contains arguments (pa_name a)" if "a \<in> set (pd_arguments d)" "pa_required a = Some True" for a
    using e that by (auto simp: prompt_argument_error_def find_None_iff split: option.splits)
  have "is_string v \<and> k \<in> pa_name ` set (pd_arguments d)" if "jget arguments k = Some v" for k v
  proof -
    have "(k, v) \<in> set (object_range arguments)" by (rule object_range_member [OF that])
    with strings known [of k v] show ?thesis by (auto simp: list_ex_iff)
  qed
  with d required show ?thesis unfolding call by blast
qed

section \<open>Replies\<close>

lemma reply_ids [simp]:
  "responseId (new_success i v) = Some i" "responseId (error_reply e i) = Some i"
  "responseId (makeInvalidParamsResponse i msg) = Some i" "responseId (makePingResponse i) = Some i"
  "responseId (internal_error_reply msg i) = Some i" "responseId (makeResourceNotFoundResponse i uri) = Some i"
  by (simp_all add: new_success_def error_reply_def makeErrorResponse_def makeInvalidParamsResponse_def
      makePingResponse_def internal_error_reply_def makeResourceNotFoundResponse_def)

lemma required_string_id: "required_string req k m1 m2 = Inl e \<Longrightarrow> responseId e = Some (rq_id req)"
  by (auto simp: required_string_def split: option.splits if_splits)

text \<open>The one reply with a foreign id.\<close>

definition bad_cursor_reply :: "ListEndpoint \<Rightarrow> response" where
  "bad_cursor_reply ep = error_reply (makeInvalidParamsError None (''Invalid '' @ endpointName ep @ ''/list cursor'')) (IntId 0)"

lemma list_reply_id:
  "responseId (list_reply ep req items f key) = Some (rq_id req) \<or> list_reply ep req items f key = bad_cursor_reply ep"
proof (cases "parseCursorFromParams req ep")
  case (Inl e)
  then have "responseId e = Some (rq_id req)"
    by (auto simp: parseCursorFromParams_def Let_def split: option.splits if_splits json.splits)
  with Inl show ?thesis by (simp add: list_reply_def)
next
  case (Inr cursor)
  show ?thesis
  proof (cases "applyPagination ep cursor (length items) kListPageSize")
    case (Inl e)
    then have "e = bad_cursor_reply ep"
      by (auto simp: applyPagination_def bad_cursor_reply_def Let_def split: option.splits if_splits)
    with Inl Inr show ?thesis by (simp add: list_reply_def)
  next
    case (Inr w)
    with \<open>parseCursorFromParams req ep = Inr cursor\<close> show ?thesis
      by (simp add: list_reply_def buildListResponse_def)
  qed
qed

lemma executeToolCall_id [simp]: "responseId (fst (executeToolCall env ctx i n d h a)) = Some i"
  by (simp add: executeToolCall_def Let_def split: prod.split bool.split)

lemma toolsCall_id: "snd (handleToolsCallRequest env ctx req s) = Some v \<Longrightarrow> responseId v = Some (rq_id req)"
  by (auto simp: handleToolsCallRequest_def Let_def dest: required_string_id
      split: sum.splits prod.splits option.splits if_splits)

lemma other_ids:
  "responseId (snd (handleLoggingSetLevelRequest req s)) = Some (rq_id req)"
  "responseId (handleResourcesReadRequest env ctx req s) = Some (rq_id req)"
  "responseId (snd (handleResourcesSubscribeRequest ctx req s)) = Some (rq_id req)"
  "responseId (snd (handleResourcesUnsubscribeRequest ctx req s)) = Some (rq_id req)"
  "responseId (fst (handlePromptsGetRequest env ctx req s)) = Some (rq_id req)"
  by (auto simp: handleLoggingSetLevelRequest_def handleResourcesReadRequest_def handleResourcesSubscribeRequest_def
      handleResourcesUnsubscribeRequest_def handlePromptsGetRequest_def Let_def dest: required_string_id
      split: sum.split prod.split option.split outcome.split)

lemma completion_id: "handleCompletionCompleteRequest env req s = Some v \<Longrightarrow> responseId v = Some (rq_id req)"
  by (auto simp: handleCompletionCompleteRequest_def split: sum.splits option.splits outcome.splits)

lemma initialize_id: "responseId (snd (handleInitializeRequest req s)) = Some (rq_id req)"
  by (auto simp: handleInitializeRequest_def Let_def split: option.split)

lemma receiver_ids:
  "responseId (snd (handleTasksGetRequest ops ctx req r)) = Some (rq_id req)"
  "responseId (snd (handleTasksListRequest ops ctx req r)) = Some (rq_id req)"
  "responseId (snd (handleTasksCancelRequest ops ctx req r)) = Some (rq_id req)"
  "snd (handleTasksResultRequest ops ctx req r) = Some v \<Longrightarrow> responseId v = Some (rq_id req)"
  by (auto simp: handleTasksGetRequest_def handleTasksListRequest_def handleTasksCancelRequest_def
      handleTasksResultRequest_def Let_def split: sum.splits prod.splits option.splits if_splits)

text \<open>A reply that carries the id of its request, or is the one for a bad cursor.\<close>

definition carries_id :: "request \<Rightarrow> handler_reply \<Rightarrow> bool" where
  "carries_id req r \<longleftrightarrow>
     (case r of Replies v \<Rightarrow> responseId v = Some (rq_id req) \<or> (\<exists>ep. v = bad_cursor_reply ep) | _ \<Rightarrow> True)"

lemma carries_id_simps [simp]:
  "carries_id req (Replies v) \<longleftrightarrow> responseId v = Some (rq_id req) \<or> (\<exists>ep. v = bad_cursor_reply ep)"
  "carries_id req StillRunning" "carries_id req HandlerFails"
  "carries_id req (Replies (list_reply ep req items f key))"
  using list_reply_id [of ep req items f key] by (auto simp: carries_id_def)

lemma carries_id_optional:
  assumes "\<And>v. r = Some v \<Longrightarrow> responseId v = Some (rq_id req)"
  shows "carries_id req (case r of Some v \<Rightarrow> Replies v | None \<Rightarrow> StillRunning)"
    and "carries_id req (case r of Some v \<Rightarrow> Replies v | None \<Rightarrow> HandlerFails)"
  using assms by (auto simp: carries_id_def split: option.split)

lemma snd_with_receiver [simp]: "snd (with_receiver f s) = snd (f (sv_receiver s))"
  by (simp add: with_receiver_def split: prod.split)

lemma carries_if:
  "carries_id req (snd x) \<Longrightarrow> carries_id req (snd y) \<Longrightarrow> carries_id req (snd (if b then x else y))"
  by simp

lemma runCoreHandler_id: "carries_id req (snd (runCoreHandler env m ctx req s))"
proof -
  note lists = handleToolsListRequest_def handleResourcesListRequest_def handleResourceTemplatesListRequest_def
    handlePromptsListRequest_def
  note optional = carries_id_optional(1) [OF toolsCall_id] carries_id_optional(1) [OF receiver_ids(4)]
    carries_id_optional(2) [OF completion_id]
  show ?thesis
    unfolding runCoreHandler_def Let_def case_prod_unfold lists
    by (intro carries_if) (simp_all add: other_ids initialize_id receiver_ids optional del: carries_id_simps(1), simp_all add: other_ids initialize_id receiver_ids optional)
qed

text \<open>
  Replies carry the id of their request: whatever \<open>handleRequest\<close> answers, at once or through the
  future of a core handler, has the id of the request, except that an invalid cursor in a list request is
  answered with the id 0.
\<close>

theorem replies_carry_the_request_id:
  assumes "server_handleRequest env ctx req s = (s', fut, reply)"
  shows "(\<forall>v. fut = ReadyFuture v \<longrightarrow> responseId v = Some (rq_id req))
    \<and> (\<forall>v. reply = Some v \<longrightarrow> responseId v = Some (rq_id req) \<or> (\<exists>ep. v = bad_cursor_reply ep))"
proof -
  have "carries_id req (Replies v)" if "runCoreHandler env m ctx req u = (u', Replies v)" for m u u' v
    using runCoreHandler_id [of req env m ctx u] that by simp
  then show ?thesis
    using assms
    by (auto simp: server_handleRequest_def makeLifecycleRejectedResponse_def makeMethodNotFoundResponse_def
        split: if_splits prod.splits option.splits handler_reply.splits)
qed

section \<open>Log messages\<close>

text \<open>
  Logging respects the level: after logging/setLevel with the name of a level, which is answered
  with an empty result, a message is sent exactly when logging is declared and the level of the
  message is at least that level.
\<close>

theorem log_messages_respect_the_level:
  "let (s', v) = handleLoggingSetLevelRequest (new_request i kLoggingSetLevelMethod
         (Some (jput ''level'' (JString (logLevelToString l)) empty_object))) s
   in v = new_success i empty_object
     \<and> (snd (emitLogMessage ctx level data logger s') \<longleftrightarrow>
         server_hasCapability (sv_capabilities s) ''logging'' \<and> l \<le> level)"
  by (simp add: handleLoggingSetLevelRequest_def required_string_def new_request_def get_string_def
      emitLogMessage_def less_eq_LogLevel_def not_less)

section \<open>Tool calls that run as tasks\<close>

lemma executeToolCall_store [simp]:
  "validateJsonInstanceAgainstSchema (env\<lparr>ev_store := ops\<rparr>) = validateJsonInstanceAgainstSchema env"
  "executeToolCall (env\<lparr>ev_store := ops\<rparr>) = executeToolCall env"
proof -
  show v: "validateJsonInstanceAgainstSchema (env\<lparr>ev_store := ops\<rparr>) = validateJsonInstanceAgainstSchema env"
    by (intro ext) (simp add: validateJsonInstanceAgainstSchema_def split: prod.split option.split)
  have "check_output (env\<lparr>ev_store := ops\<rparr>) = check_output env"
    by (intro ext) (simp only: check_output_def v)
  with v show "executeToolCall (env\<lparr>ev_store := ops\<rparr>) = executeToolCall env"
    by (intro ext) (simp add: executeToolCall_def Let_def split: prod.split bool.split)
qed

lemma executeToolCall_result:
  obtains r where "\<And>i. fst (executeToolCall env ctx i n d h a) = new_success i r"
proof
  show "fst (executeToolCall env ctx i n d h a) = new_success i
      (case fst (executeToolCall env ctx (IntId 0) n d h a) of RSuccess r \<Rightarrow> sr_result r)" for i
    by (simp add: executeToolCall_def new_success_def Let_def split: prod.split bool.split)
qed

text \<open>The task is known to the context and has not ended.\<close>

definition pending_for :: "int \<Rightarrow> string \<Rightarrow> string option \<Rightarrow> task_store \<Rightarrow> bool" where
  "pending_for now i a s \<longleftrightarrow> (let res = snd (getTask now i a s) in
     tr_error res = kNone \<and> \<not> isTerminalTaskStatus (tk_status (tr_task res)))"

lemma pending_is_completed:
  assumes "pending_for now i a s" and "status = kCompleted \<or> status = kFailed"
  shows "tr_error (snd (setTaskResult now i status msg v a s)) = kNone"
proof -
  obtain t where "map_of (ts_tasks (purgeExpired now s)) i = Some t" "checkAccess t a"
    "\<not> isTerminalTaskStatus (tk_status (st_task t))"
    using assms(1) by (auto simp: pending_for_def getTask_def Let_def rejected_def ok_result_def
        split: option.splits if_splits)
  moreover then have "isTerminalTaskStatus status \<and> isValidTaskStatusTransition (tk_status (st_task t)) status"
    using assms(2) by (cases "tk_status (st_task t)") (auto simp: isValidTaskStatusTransition_def isTerminalTaskStatus_def)
  ultimately show ?thesis by (simp add: setTaskResult_def mutate_task_def Let_def ok_result_def)
qed

text \<open>
  C10. A tool call that runs as a task delivers what the direct call would have: when tools/call with
  task augmentation has been accepted, and the thread of the call finishes while the task is still
  pending for its context, a tasks/result request of the same authorization context, after any
  operations of anybody on the store and before the task expires, is answered with the result that a
  server without task support would have given for the same request, plus the related-task metadata.
\<close>

theorem task_call_delivers_the_direct_result:
  assumes reach: "some_step\<^sup>*\<^sup>* (new_task_store ttl n) (rv_store (sv_receiver s2))"
    and call: "handleToolsCallRequest env ctx req s = (s1, reply)" "sv_background s1 = sv_background s @ [b]"
    and pending: "pending_for (fst e) (bg_taskId b) (rc_auth_context ctx) (rv_store (sv_receiver s2))"
    and thread: "runBackgroundCall (env\<lparr>ev_store := in_memory_ops e\<rparr>) b s2 = s3"
    and later: "live_at e' (bg_taskId b) (rv_store (sv_receiver s3))"
      "steps_before e' (rv_store (sv_receiver s3)) (rv_store r)"
    and req': "parseTaskIdFromRequestParams req' = Inr (bg_taskId b)" "rc_auth_context ctx' = rc_auth_context ctx"
  shows "\<exists>direct. snd (handleToolsCallRequest env ctx req
        (s\<lparr>sv_capabilities := (sv_capabilities s)\<lparr>sc_tasks := None\<rparr>\<rparr>)) = Some (new_success (rq_id req) direct)
    \<and> snd (handleTasksResultRequest (in_memory_ops e') ctx' req' r) =
        Some (new_success (rq_id req') (injectRelatedTaskMetadata direct (bg_taskId b)))"
proof (cases rule: toolsCall_cases [of env ctx req s])
  case (created params toolName arguments d h aug rc created)
  with call have b: "b = \<lparr>bg_taskId = tk_taskId (cr_task created), bg_toolName = toolName, bg_definition = d,
      bg_handler = h, bg_arguments = arguments, bg_context = ctx\<rparr>" by auto
  obtain direct where direct: "\<And>i. fst (executeToolCall env ctx i toolName d h arguments) = new_success i direct"
    using executeToolCall_result [where env = env and ctx = ctx and n = toolName and d = d and h = h
        and a = arguments] by blast
  have now: "snd (handleToolsCallRequest env ctx req
      (s\<lparr>sv_capabilities := (sv_capabilities s)\<lparr>sc_tasks := None\<rparr>\<rparr>)) = Some (new_success (rq_id req) direct)"
    using created direct by (simp add: handleToolsCallRequest_def Let_def)
  define status where "status = (if get_bool direct ''isError'' = Some True then kFailed else kCompleted)"
  define resp where "resp = new_success (StrId (''task-'' @ bg_taskId b)) direct"
  obtain st res where st: "completeTaskWithResponse (in_memory_ops e) ctx (bg_taskId b) resp status None
      (sv_receiver s2) = (st, res)" by fastforce
  have "s3 = fst (with_receiver (completeTaskWithResponse (in_memory_ops e) ctx (bg_taskId b) resp status None)
      (s2\<lparr>sv_background := remove1 b (sv_background s2)\<rparr>))"
    using thread direct by (simp add: runBackgroundCall_def Let_def b resp_def status_def new_success_def)
  then have s3: "rv_store (sv_receiver s3) = rv_store st"
    using st by (simp add: with_receiver_def)
  have ok: "tr_error res = kNone"
    using st pending_is_completed [OF pending, of status None direct]
    by (auto simp: completeTaskWithResponse_def resp_def new_success_def observed_mutation_def in_memory_ops_def
        authContextForRequest_def status_def split: prod.splits)
  have "snd (handleTasksResultRequest (in_memory_ops e') ctx' req' r) =
      Some (new_success (rq_id req') (injectRelatedTaskMetadata direct (bg_taskId b)))"
    using in_memory.completion_is_delivered [OF reachable_store_inv [OF reach] st ok _ _ req'(1), of e' r ctx']
      later s3 req'(2) by (simp add: authContextForRequest_def resp_def new_success_def)
  with now show ?thesis by blast
qed (use call in auto)

section \<open>Witnesses\<close>

text \<open>A server with a tool, a prompt and a resource.\<close>

definition greet_result :: call_tool_result where
  "greet_result = \<lparr>ctr_content = makeTextContentBlock ''hello'', ctr_structuredContent = None, ctr_isError = False,
     ctr_metadata = None\<rparr>"

definition example_schema :: schema_env where
  "example_schema = \<lparr>sn_versions = \<lparr>draft4 = ''4'', draft6 = ''6'', draft7 = ''7'', draft201909 = ''2019'', draft202012 = ''2020''\<rparr>,
     sn_compile = (\<lambda>_ _. None), sn_walk = (\<lambda>_ _ _. ([], None)), sn_pinned = Inl ''unused'', sn_dump = (\<lambda>_. [])\<rparr>"

definition example_document :: json where
  "example_document = JObject [(''$defs'', JObject [(''Tool'', empty_object), (''ListToolsResult'', empty_object)])]"

definition example_env :: "int \<Rightarrow> task_store server_env" where
  "example_env now =
     \<lparr>ev_tool = (\<lambda>_ _. Returns greet_result), ev_resource = (\<lambda>_ _. Returns []),
      ev_prompt = (\<lambda>_ _. Returns \<lparr>pgr_description = None, pgr_messages = [], pgr_metadata = None\<rparr>),
      ev_completion = (\<lambda>_ _. Throws ''no completions''), ev_validate = (\<lambda>_ _. ([], None)),
      ev_schema = example_schema, ev_document = example_document, ev_store = in_memory_ops (now, [[171, 205]])\<rparr>"

definition example_configuration :: "task_store server_configuration" where
  "example_configuration =
     \<lparr>cf_capabilities = no_server_capabilities\<lparr>sc_logging := Some (), sc_tools := Some \<lparr>tools_listChanged = True\<rparr>,
        sc_resources := Some \<lparr>resources_subscribe = True, resources_listChanged = False\<rparr>,
        sc_tasks := Some \<lparr>tasks_list = True, tasks_cancel = True, tasks_samplingCreateMessage = False,
          tasks_elicitationCreate = False, tasks_toolsCall = True\<rparr>\<rparr>,
      cf_serverInfo = None, cf_instructions = None, cf_taskStore = new_task_store 60000 4,
      cf_defaultTaskPollInterval = None, cf_emitTaskStatusNotifications = True\<rparr>"

definition greet_tool :: tool_definition where
  "greet_tool = \<lparr>td_name = ''greet'', td_title = None, td_description = None, td_icons = None,
     td_inputSchema = empty_object, td_outputSchema = None, td_annotations = None,
     td_execution = Some (jput ''taskSupport'' (JString ''optional'') empty_object), td_metadata = None\<rparr>"

definition greet_prompt :: prompt_definition where
  "greet_prompt = \<lparr>pd_name = ''greet'', pd_title = None, pd_description = None, pd_icons = None,
     pd_arguments = [\<lparr>pa_name = ''who'', pa_title = None, pa_description = None, pa_required = Some True,
       pa_metadata = None\<rparr>], pd_metadata = None\<rparr>"

definition readme_resource :: resource_definition where
  "readme_resource = \<lparr>rd_uri = ''file:///readme'', rd_name = ''readme'', rd_title = None, rd_description = None,
     rd_icons = None, rd_mimeType = None, rd_size = Some 12, rd_annotations = None, rd_metadata = None\<rparr>"

definition new_example :: "task_store server" where
  "new_example = projr (new_server 8 (Some (new_session defaultProtocolVersions 8)) example_configuration)"

definition example_server :: "task_store server" where
  "example_server = projr (registerPrompt greet_prompt (Some 2) (projr (registerResource readme_resource (Some 1)
     (projr (registerTool (example_env 0) greet_tool (Some 0) new_example)))))"

definition greet_call :: request where
  "greet_call = new_request (IntId 7) kToolsCallMethod
     (Some (jput ''task'' empty_object (jput ''name'' (JString ''greet'') empty_object)))"

lemma example_ok:
  "isl (new_server 8 (Some (new_session defaultProtocolVersions 8)) example_configuration) = False"
  "isl (registerTool (example_env 0) greet_tool (Some 0) new_example) = False"
  by code_simp+

definition initialize_call :: request where
  "initialize_call = new_request (IntId 1) kInitializeMethod
     (Some (jput ''clientInfo'' (jput ''version'' (JString ''1'') (jput ''name'' (JString ''c'') empty_object))
       (jput ''capabilities'' empty_object (jput ''protocolVersion'' (JString ''2025-06-18'') empty_object))))"

definition example_running :: "task_store server" where
  "example_running = server_handleNotification default_context (new_notification kNotificationInitialized None)
     (fst (server_handleRequest (example_env 0) default_context initialize_call example_server))"

definition readme_request :: "string \<Rightarrow> request" where
  "readme_request m = new_request (IntId 2) m (Some (jput ''uri'' (JString ''file:///readme'') empty_object))"

definition example_subscribed :: "task_store server" where
  "example_subscribed = fst (server_handleRequest (example_env 0) default_context
     (readme_request kResourcesSubscribeMethod) example_running)"

lemma example_moves: "server_moves\<^sup>*\<^sup>* new_example example_subscribed"
proof -
  let ?s1 = "projr (registerTool (example_env 0) greet_tool (Some 0) new_example)"
  let ?s2 = "projr (registerResource readme_resource (Some 1) ?s1)"
  have ok: "isl (registerResource readme_resource (Some 1) ?s1) = False"
    "isl (registerPrompt greet_prompt (Some 2) ?s2) = False" by code_simp+
  have "registerTool (example_env 0) greet_tool (Some 0) new_example = Inr ?s1"
    "registerResource readme_resource (Some 1) ?s1 = Inr ?s2"
    "registerPrompt greet_prompt (Some 2) ?s2 = Inr example_server"
    using example_ok(2) ok by (simp_all add: example_server_def isl_def projr_def split: sum.splits)
  then have "server_moves new_example ?s1" "server_moves ?s1 ?s2" "server_moves ?s2 example_server"
    unfolding server_moves_def by (blast intro: server_step.intros)+
  moreover have "server_moves example_server (fst (server_handleRequest (example_env 0) default_context
      initialize_call example_server))"
    "server_moves (fst (server_handleRequest (example_env 0) default_context initialize_call example_server))
       example_running" "server_moves example_running example_subscribed"
    unfolding server_moves_def example_running_def example_subscribed_def by (blast intro: server_step.intros)+
  ultimately show ?thesis by (meson converse_rtranclp_into_rtranclp rtranclp.rtrancl_refl)
qed

lemma example_notifies: "snd (notifyResourceUpdated ''file:///readme'' default_context example_subscribed)"
  by code_simp

theorem subscriptions_never_dangle_witness:
  "distinct (map tool_name (sv_tools example_subscribed))
   \<and> ''file:///readme'' \<in> resource_uri ` set (sv_resources example_subscribed)"
proof -
  have "new_server 8 (Some (new_session defaultProtocolVersions 8)) example_configuration = Inr new_example"
    using example_ok(1) by (simp add: new_example_def isl_def projr_def split: sum.splits)
  from subscriptions_never_dangle [OF this example_moves] example_notifies show ?thesis by blast
qed

lemma new_example_gates: "se_role (sv_session new_example) = kServer" "se_state (sv_session new_example) = kCreated"
  by code_simp+

theorem gated_requests_change_nothing_witness:
  "(\<exists>e. server_handleRequest (example_env 0) default_context greet_call new_example =
      (new_example, ReadyFuture (RError e), None) \<and> er_id e = Some (IntId 7) \<and> err_code (er_error e) = - 32600)
   \<and> (\<exists>s' f v. server_handleRequest (example_env 0) default_context (new_request (IntId 9) ''ping'' None) new_example =
      (s', RouterFuture f, v))"
proof -
  have call: "\<not> lifecycle_admits kCreated (rq_method greet_call)" "rq_id greet_call = IntId 7"
    by (simp_all add: lifecycle_admits_def early_methods_def greet_call_def new_request_def kToolsCallMethod_def)
  have ping: "lifecycle_admits kCreated ''ping''" "capability_admits caps ''ping''" for caps
    by (simp_all add: lifecycle_admits_def early_methods_def capability_admits_def required_capabilities_def)
  have asked: "rq_method (new_request (IntId 9) ''ping'' None) = ''ping''" by (simp add: new_request_def)
  show ?thesis
    using gated_requests_change_nothing [OF new_example_gates(1), of greet_call "example_env 0" default_context]
      gated_requests_change_nothing [OF new_example_gates(1), of "new_request (IntId 9) ''ping'' None"
        "example_env 0" default_context]
    unfolding new_example_gates(2) asked using call ping by metis
qed

lemma greet_executes: "executeToolCall (example_env 0) default_context (IntId 7) ''greet'' greet_tool 0 empty_object =
  (new_success (IntId 7) (jput ''content'' (makeTextContentBlock ''hello'') empty_object),
   Some \<lparr>tcx_requestContext = default_context, tcx_toolName = ''greet'', tcx_arguments = empty_object\<rparr>)"
  by code_simp

theorem tool_calls_are_validated_witness:
  "fst (validateJsonInstanceAgainstSchema (example_env 0) (td_inputSchema greet_tool) empty_object)"
  using tool_calls_are_validated [OF greet_executes] by blast

definition prompt_request :: request where
  "prompt_request = new_request (IntId 8) kPromptsGetMethod (Some (jput ''arguments''
     (jput ''who'' (JString ''you'') empty_object) (jput ''name'' (JString ''greet'') empty_object)))"

definition prompt_call :: prompt_get_context where
  "prompt_call = \<lparr>pcx_requestContext = default_context, pcx_promptName = ''greet'',
     pcx_arguments = jput ''who'' (JString ''you'') empty_object\<rparr>"

lemma prompt_is_called: "snd (handlePromptsGetRequest (example_env 0) default_context prompt_request example_server) =
  Some prompt_call"
  by code_simp

theorem prompt_handlers_get_declared_arguments_witness:
  "\<exists>d h. (d, h) \<in> set (sv_prompts example_server) \<and> pd_name d = ''greet''"
  using prompt_handlers_get_declared_arguments [of "example_env 0" default_context prompt_request example_server
      "fst (handlePromptsGetRequest (example_env 0) default_context prompt_request example_server)" prompt_call]
    prompt_is_called by (auto simp: prompt_call_def prod_eq_iff)

definition bad_list_call :: request where
  "bad_list_call = new_request (IntId 3) kToolsListMethod (Some (jput ''cursor'' (JString ''?'') empty_object))"

lemma bad_list_reply:
  "map_option responseId (snd (snd (server_handleRequest (example_env 0) default_context bad_list_call example_running)))
     = Some (Some (IntId 0))"
  by code_simp

text \<open>The exception occurs: a server answers request 3 under the id 0.\<close>

theorem replies_carry_the_request_id_witness:
  "\<exists>v ep. snd (snd (server_handleRequest (example_env 0) default_context bad_list_call example_running)) = Some v
     \<and> responseId v = Some (IntId 0) \<and> rq_id bad_list_call = IntId 3 \<and> v = bad_cursor_reply ep"
proof -
  obtain s f reply where r: "server_handleRequest (example_env 0) default_context bad_list_call example_running =
    (s, f, reply)" by (metis prod.exhaust)
  then obtain v where v: "reply = Some v" "responseId v = Some (IntId 0)" using bad_list_reply by auto
  have i: "rq_id bad_list_call = IntId 3" by (simp add: bad_list_call_def new_request_def)
  with replies_carry_the_request_id [OF r] v r show ?thesis by auto
qed

definition example_called :: "task_store server" where
  "example_called = fst (handleToolsCallRequest (example_env 0) default_context greet_call example_server)"

definition greet_background :: background_call where
  "greet_background = \<lparr>bg_taskId = ''abcd'', bg_toolName = ''greet'', bg_definition = greet_tool, bg_handler = 0,
     bg_arguments = empty_object, bg_context = default_context\<rparr>"

definition example_finished :: "task_store server" where
  "example_finished = runBackgroundCall ((example_env 0)\<lparr>ev_store := in_memory_ops (5, [])\<rparr>) greet_background
     example_called"

definition greet_options :: task_create_options where
  "greet_options = \<lparr>tc_ttl = None, tc_pollInterval = None,
     tc_statusMessage = Some ''The operation is now in progress.'', tc_authContext = None\<rparr>"

lemma example_called_background:
  "sv_background example_server = []" "sv_background example_called = [greet_background]"
  by code_simp+

lemma example_called_store:
  "map_option fst (createTask 0 [[171, 205]] greet_options (new_task_store 60000 4)) =
     Some (rv_store (sv_receiver example_called))"
  by code_simp

lemma example_called_pending:
  "pending_for 5 ''abcd'' None (rv_store (sv_receiver example_called))"
  "live_at (20, []) ''abcd'' (rv_store (sv_receiver example_finished))"
  by code_simp+

theorem task_call_delivers_the_direct_result_witness:
  "\<exists>direct. snd (handleToolsCallRequest (example_env 0) default_context greet_call
      (example_server\<lparr>sv_capabilities := (sv_capabilities example_server)\<lparr>sc_tasks := None\<rparr>\<rparr>)) =
        Some (new_success (rq_id greet_call) direct)
    \<and> snd (handleTasksResultRequest (in_memory_ops (20, [])) default_context (task_request ''tasks/result'')
        (sv_receiver example_finished)) =
        Some (new_success (rq_id (task_request ''tasks/result'')) (injectRelatedTaskMetadata direct ''abcd''))"
proof -
  obtain r where "createTask 0 [[171, 205]] greet_options (new_task_store 60000 4) =
      Some (rv_store (sv_receiver example_called), r)" using example_called_store by auto
  then have "some_step (new_task_store 60000 4) (rv_store (sv_receiver example_called))"
    unfolding some_step_def by (blast intro: store_step.create)
  then have reach: "some_step\<^sup>*\<^sup>* (new_task_store 60000 4) (rv_store (sv_receiver example_called))" ..
  obtain reply where call: "handleToolsCallRequest (example_env 0) default_context greet_call example_server =
      (example_called, reply)" by (cases "handleToolsCallRequest (example_env 0) default_context greet_call
        example_server") (simp add: example_called_def)
  have background: "sv_background example_called = sv_background example_server @ [greet_background]"
    by (simp add: example_called_background)
  have pending: "pending_for (fst (5, [])) (bg_taskId greet_background) (rc_auth_context default_context)
      (rv_store (sv_receiver example_called))"
    using example_called_pending(1) by (simp add: greet_background_def default_context_def)
  show ?thesis
    using task_call_delivers_the_direct_result [OF reach call background pending
        example_finished_def [symmetric], of "(20, [])" "sv_receiver example_finished"
        "task_request ''tasks/result''" default_context]
      example_called_pending(2) task_request_id
    by (simp add: greet_background_def steps_before_def)
qed

end
