(* ===== verification/ResourceContent.thy ===== *)
theory ResourceContent
  imports Server Base64Url
begin

unbundle bit_operations_syntax

text \<open>
  The factories of resource contents in src/server/server.cpp, and the padded standard Base64 of
  src/server/detail/helpers.cpp in which binary contents go over the wire.
\<close>

section \<open>Standard Base64\<close>

definition standard_alphabet :: string where
  "standard_alphabet = ''ABCDEFGHIJKLMNOPQRSTUVWXYZabcdefghijklmnopqrstuvwxyz0123456789+/''"

definition standard_char :: "uint32 \<Rightarrow> char" where
  "standard_char w = standard_alphabet ! unat (w AND 0x3F)"

fun encodeStandardBase64 :: "string \<Rightarrow> string" where
  "encodeStandardBase64 (a # b # c # rest) =
     (let chunk = push_bit 16 (byte_word a) OR push_bit 8 (byte_word b) OR byte_word c in
      [standard_char (drop_bit 18 chunk), standard_char (drop_bit 12 chunk), standard_char (drop_bit 6 chunk),
       standard_char chunk]) @ encodeStandardBase64 rest"
| "encodeStandardBase64 [a] =
     (let chunk = push_bit 16 (byte_word a) in
      [standard_char (drop_bit 18 chunk), standard_char (drop_bit 12 chunk), CHR ''='', CHR ''=''])"
| "encodeStandardBase64 [a, b] =
     (let chunk = push_bit 16 (byte_word a) OR push_bit 8 (byte_word b) in
      [standard_char (drop_bit 18 chunk), standard_char (drop_bit 12 chunk), standard_char (drop_bit 6 chunk),
       CHR ''=''])"
| "encodeStandardBase64 [] = []"

section \<open>Factories\<close>

definition text_content ::
  "string \<Rightarrow> string \<Rightarrow> string option \<Rightarrow> json option \<Rightarrow> json option \<Rightarrow> resource_content" where
  "text_content uri text mime annotations meta =
     \<lparr>rcn_uri = uri, rcn_mimeType = mime, rcn_kind = kText, rcn_value = text, rcn_annotations = annotations,
      rcn_metadata = meta\<rparr>"

definition blobBase64 ::
  "string \<Rightarrow> string \<Rightarrow> string option \<Rightarrow> json option \<Rightarrow> json option \<Rightarrow> resource_content" where
  "blobBase64 uri blob mime annotations meta =
     \<lparr>rcn_uri = uri, rcn_mimeType = mime, rcn_kind = kBlobBase64, rcn_value = blob, rcn_annotations = annotations,
      rcn_metadata = meta\<rparr>"

definition blobBytes ::
  "string \<Rightarrow> string \<Rightarrow> string option \<Rightarrow> json option \<Rightarrow> json option \<Rightarrow> resource_content" where
  "blobBytes uri bytes mime annotations meta = blobBase64 uri (encodeStandardBase64 bytes) mime annotations meta"

section \<open>Agreement with Base64url\<close>

text \<open>The URL-safe character of the same value.\<close>

definition url_safe :: "char \<Rightarrow> char" where
  "url_safe c = (if c = CHR ''+'' then CHR ''-'' else if c = CHR ''/'' then CHR ''_'' else c)"

lemma standard_url_safe: "n < 64 \<Longrightarrow> url_safe (standard_alphabet ! n) = kBase64UrlAlphabet ! n \<and> standard_alphabet ! n \<noteq> CHR ''=''"
proof -
  have "\<forall>n \<in> set [0..<64]. url_safe (standard_alphabet ! n) = kBase64UrlAlphabet ! n \<and> standard_alphabet ! n \<noteq> CHR ''=''"
    by code_simp
  then show "n < 64 \<Longrightarrow> url_safe (standard_alphabet ! n) = kBase64UrlAlphabet ! n \<and> standard_alphabet ! n \<noteq> CHR ''=''"
    by simp
qed

lemma standard_char_url [simp]: "url_safe (standard_char w) = alphabet_char w" "standard_char w \<noteq> CHR ''=''"
  using standard_url_safe [OF unat_mask6 [of w]] by (simp_all add: standard_char_def alphabet_char_def kMask6Bits_def)

lemma standard_is_url:
  "map url_safe (filter (\<lambda>c. c \<noteq> CHR ''='') (encodeStandardBase64 s)) = encodeBase64UrlNoPad s"
proof (induction s rule: encodeStandardBase64.induct)
  case (1 a b c rest)
  then show ?case unfolding encodeStandardBase64.simps encodeBase64UrlNoPad.simps Let_def triple_of_def
    by (simp only: list.map filter.simps filter_append map_append standard_char_url not_False_eq_True if_True
        if_False append.simps)
next
  case (2 a)
  show ?case unfolding encodeStandardBase64.simps encodeBase64UrlNoPad.simps Let_def
    by (simp only: list.map filter.simps standard_char_url not_False_eq_True if_True if_False simp_thms)
next
  case (3 a b)
  show ?case unfolding encodeStandardBase64.simps encodeBase64UrlNoPad.simps Let_def
    by (simp only: list.map filter.simps standard_char_url not_False_eq_True if_True if_False simp_thms)
qed (simp add: encodeBase64UrlNoPad.simps(1))

lemma standard_length: "length (encodeStandardBase64 s) = 4 * ((length s + 2) div 3)"
proof (induction s rule: encodeStandardBase64.induct)
  case (1 a b c rest)
  have "(length (a # b # c # rest) + 2) div 3 = Suc ((length rest + 2) div 3)" by simp
  with 1 show ?case by (simp only: encodeStandardBase64.simps Let_def append.simps list.size) simp
next
  case (2 a)
  show ?case unfolding encodeStandardBase64.simps Let_def by (simp only: list.size) simp
next
  case (3 a b)
  show ?case unfolding encodeStandardBase64.simps Let_def by (simp only: list.size) simp
qed simp

text \<open>
  Binary contents survive: the blob that resources/read sends for the bytes given to
  \<open>blobBytes\<close> has the padded length the source reserves for it, and its characters, without the
  padding and with the URL-safe letters, decode to the bytes.
\<close>

theorem blob_decodes_to_its_bytes:
  "\<exists>blob. jget (content_to_json uri (blobBytes u bytes mime annotations meta)) ''blob'' = Some (JString blob)
     \<and> length blob = (length bytes + 2) div 3 * 4
     \<and> decodeBase64UrlNoPad (map url_safe (filter (\<lambda>c. c \<noteq> CHR ''='') blob)) = Some bytes"
  by (simp add: content_to_json_def blobBytes_def blobBase64_def jput_string_def standard_is_url standard_length
      decode_encode)

end
