(* ===== verification/Sse.thy ===== *)
theory Sse
  imports Prelude
begin

text \<open>
  Server-sent events, include/mcp/http/sse: event ids of a stream and a cursor, the encoder, and the
  line parser, with the agreement of each pair. Strings are the bytes of the source; a cursor is a
  number below \<open>2 ^ 64\<close>, whose overflow the parser checks before each digit.
\<close>

section \<open>Events\<close>

record sse_event =
  sse_name :: "string option"
  sse_id :: "string option"
  sse_retry :: "uint32 option"
  sse_data :: string

definition empty_event :: sse_event where
  "empty_event = \<lparr>sse_name = None, sse_id = None, sse_retry = None, sse_data = []\<rparr>"

record event_id_cursor =
  ec_streamId :: string
  ec_cursor :: nat

definition newline :: char where "newline = CHR 0x0A"
definition carriage :: char where "carriage = CHR 0x0D"

definition isVisibleAscii :: "string \<Rightarrow> bool" where
  "isVisibleAscii v \<longleftrightarrow> v \<noteq> [] \<and> list_all (\<lambda>c. 0x21 \<le> byte c \<and> byte c \<le> 0x7E) v"

definition isValidSseFieldValue :: "string \<Rightarrow> bool" where
  "isValidSseFieldValue v \<longleftrightarrow> list_all (\<lambda>c. c \<noteq> newline \<and> c \<noteq> carriage) v"

section \<open>Event ids\<close>

definition makeEventId :: "string \<Rightarrow> nat \<Rightarrow> string" where
  "makeEventId streamId cursor =
     (if \<not> isVisibleAscii streamId \<or> find_char (CHR '':'') streamId \<noteq> None \<or> cursor = 0 then []
      else streamId @ CHR '':'' # to_string_nat cursor)"

text \<open>The loop over the digits of an unsigned 64-bit number.\<close>

fun parse_digits :: "nat \<Rightarrow> string \<Rightarrow> nat option" where
  "parse_digits acc [] = Some acc"
| "parse_digits acc (c # cs) =
     (if \<not> is_digit c then None
      else if acc > (uint64_max - digit_value c) div 10 then None
      else parse_digits (acc * 10 + digit_value c) cs)"

definition parseEventId :: "string \<Rightarrow> event_id_cursor option" where
  "parseEventId eventId =
     (case rfind_char (CHR '':'') eventId of
        None \<Rightarrow> None
      | Some separator \<Rightarrow>
          if separator = 0 \<or> separator + 1 \<ge> length eventId then None
          else
            let streamId = take separator eventId; cursorText = drop (separator + 1) eventId in
            if \<not> isVisibleAscii streamId \<or> find_char (CHR '':'') streamId \<noteq> None then None
            else
              (case parse_digits 0 cursorText of
                 None \<Rightarrow> None
               | Some cursor \<Rightarrow> if cursor = 0 then None else Some \<lparr>ec_streamId = streamId, ec_cursor = cursor\<rparr>))"

section \<open>Encoder\<close>

text \<open>The lines of a text, as \<open>appendDataLines\<close> and \<open>parseEvents\<close> find them.\<close>

function split_lines :: "string \<Rightarrow> string list" where
  "split_lines s =
     (case find_char newline s of None \<Rightarrow> [s] | Some i \<Rightarrow> take i s # split_lines (drop (i + 1) s))"
  by pat_completeness auto

termination
  by (relation "measure length") (auto dest: find_char_Some)

declare split_lines.simps [simp del]

definition data_line :: "string \<Rightarrow> string" where
  "data_line l = ''data:'' @ (if l = [] then [] else CHR '' '' # l) @ [newline]"

definition appendDataLines :: "string \<Rightarrow> string" where
  "appendDataLines data = (if data = [] then ''data:'' @ [newline] else concat (map data_line (split_lines data)))"

definition field_line :: "string \<Rightarrow> string \<Rightarrow> string" where
  "field_line field v = field @ '': '' @ v @ [newline]"

definition encodeEvent :: "sse_event \<Rightarrow> string" where
  "encodeEvent e =
     (case sse_name e of Some v \<Rightarrow> if isValidSseFieldValue v then field_line ''event'' v else [] | None \<Rightarrow> []) @
     (case sse_id e of Some v \<Rightarrow> if isValidSseFieldValue v then field_line ''id'' v else [] | None \<Rightarrow> []) @
     (case sse_retry e of Some w \<Rightarrow> field_line ''retry'' (to_string_nat (unat w)) | None \<Rightarrow> []) @
     appendDataLines (sse_data e) @ [newline]"

definition encodeEvents :: "sse_event list \<Rightarrow> string" where
  "encodeEvents es = concat (map encodeEvent es)"

section \<open>Parser\<close>

fun retry_digits :: "nat \<Rightarrow> string \<Rightarrow> nat option" where
  "retry_digits parsed [] = Some parsed"
| "retry_digits parsed (c # cs) =
     (if \<not> is_digit c then None
      else if parsed > (uint64_max - digit_value c) div 10 then None
      else if parsed * 10 + digit_value c > 2 ^ 32 - 1 then None
      else retry_digits (parsed * 10 + digit_value c) cs)"

definition parseRetryField :: "string \<Rightarrow> uint32 option" where
  "parseRetryField v = (if v = [] then None else map_option of_nat (retry_digits 0 v))"

text \<open>The events so far, the current event, and whether it has fields.\<close>

type_synonym sse_state = "sse_event list \<times> sse_event \<times> bool"

definition flushParsedEvent :: "sse_event list \<Rightarrow> sse_event \<Rightarrow> bool \<Rightarrow> sse_event list \<times> sse_event" where
  "flushParsedEvent events current hasFields =
     (if \<not> hasFields then (events, current)
      else
        let d = sse_data current;
            current' = (if d \<noteq> [] \<and> last d = newline then current\<lparr>sse_data := butlast d\<rparr> else current)
        in (events @ [current'], empty_event))"

definition parse_line :: "string \<Rightarrow> sse_state \<Rightarrow> sse_state" where
  "parse_line raw st =
     (case st of (events, current, hasFields) \<Rightarrow>
        let line = (if raw \<noteq> [] \<and> last raw = carriage then butlast raw else raw) in
        if line = [] then (case flushParsedEvent events current hasFields of (es, c) \<Rightarrow> (es, c, False))
        else if hd line = CHR '':'' then st
        else
          let separator = find_char (CHR '':'') line;
              field = (case separator of None \<Rightarrow> line | Some i \<Rightarrow> take i line);
              rest = (case separator of None \<Rightarrow> [] | Some i \<Rightarrow> drop (i + 1) line);
              v = (if rest \<noteq> [] \<and> hd rest = CHR '' '' then tl rest else rest)
          in (events,
              (if field = ''event'' then current\<lparr>sse_name := Some v\<rparr>
               else if field = ''id'' then current\<lparr>sse_id := Some v\<rparr>
               else if field = ''retry'' then current\<lparr>sse_retry := parseRetryField v\<rparr>
               else if field = ''data'' then current\<lparr>sse_data := sse_data current @ v @ [newline]\<rparr>
               else current),
              True))"

definition parseEvents :: "string \<Rightarrow> sse_event list" where
  "parseEvents text =
     (case fold parse_line (split_lines text) ([], empty_event, False) of
        (events, current, hasFields) \<Rightarrow> fst (flushParsedEvent events current hasFields))"

section \<open>Numbers\<close>

lemma parse_digits_value:
  "acc \<le> uint64_max \<Longrightarrow> parse_digits acc s =
     (if (\<forall>c \<in> set s. is_digit c) \<and> decimal_value acc s \<le> uint64_max then Some (decimal_value acc s) else None)"
proof (induction s arbitrary: acc)
  case (Cons c cs)
  let ?v = "acc * 10 + digit_value c"
  show ?case
  proof (cases "is_digit c")
    case True
    then have d: "digit_value c \<le> 9" by (auto simp: is_digit_def digit_value_def)
    then have guard: "acc > (uint64_max - digit_value c) div 10 \<longleftrightarrow> ?v > uint64_max"
      using div_less_iff_less_mult [of 10 "uint64_max - digit_value c" acc] by (simp add: uint64_max_def) linarith
    show ?thesis
    proof (cases "?v \<le> uint64_max")
      case True
      with Cons.IH [OF True] \<open>is_digit c\<close> guard show ?thesis by auto
    next
      case False
      with decimal_value_mono [of ?v cs] have "\<not> decimal_value ?v cs \<le> uint64_max" by linarith
      with False \<open>is_digit c\<close> guard show ?thesis by auto
    qed
  qed simp
qed simp

lemma parse_digits_to_string [simp]: "n \<le> uint64_max \<Longrightarrow> parse_digits 0 (to_string_nat n) = Some n"
  by (simp add: parse_digits_value)

lemma unat_lt_exp: "unat w < 2 ^ LENGTH('a)" for w :: "'a::len word"
  by (rule unsigned_less)

lemma retry_digits_value:
  "acc \<le> 2 ^ 32 - 1 \<Longrightarrow> \<forall>c \<in> set s. is_digit c \<Longrightarrow> decimal_value acc s \<le> 2 ^ 32 - 1 \<Longrightarrow>
     retry_digits acc s = Some (decimal_value acc s)"
proof (induction s arbitrary: acc)
  case (Cons c cs)
  let ?v = "acc * 10 + digit_value c"
  have d: "is_digit c" "digit_value c \<le> 9" using Cons.prems(2) by (auto simp: is_digit_def digit_value_def)
  have "?v \<le> 2 ^ 32 - 1" using decimal_value_mono [of ?v cs] Cons.prems(3) by simp
  moreover from this have "\<not> acc > (uint64_max - digit_value c) div 10"
    using d(2) by (simp add: uint64_max_def)
  ultimately show ?case using Cons.IH [of ?v] Cons.prems d(1) by simp
qed simp

lemma parseRetry_to_string [simp]: "parseRetryField (to_string_nat (unat w)) = Some w" for w :: uint32
proof -
  have "unat w \<le> 2 ^ 32 - 1" using unat_lt_exp [of w] by simp
  then have "retry_digits 0 (to_string_nat (unat w)) = Some (unat w)"
    using retry_digits_value [of 0 "to_string_nat (unat w)"] by simp
  then show ?thesis by (simp add: parseRetryField_def)
qed

lemma rfind_char_Some: "rfind_char c s = Some i \<Longrightarrow> i < length s \<and> s ! i = c"
  by (auto simp: rfind_char_def rev_nth dest!: find_char_Some split: option.splits)

lemma colon_no_digit: "is_digit c \<Longrightarrow> c \<noteq> CHR '':''"
  by (auto simp: is_digit_def byte_def)

lemma parse_made_event_id:
  assumes "isVisibleAscii streamId" and "CHR '':'' \<notin> set streamId" and "0 < cursor" and "cursor \<le> uint64_max"
  shows "parseEventId (makeEventId streamId cursor) = Some \<lparr>ec_streamId = streamId, ec_cursor = cursor\<rparr>"
proof -
  have "CHR '':'' \<notin> set (to_string_nat cursor)" using to_string_nat_digits colon_no_digit by blast
  then have "rfind_char (CHR '':'') (makeEventId streamId cursor) = Some (length streamId)"
    using assms by (simp add: makeEventId_def find_char_None rfind_char_split)
  then show ?thesis
    using assms by (simp add: parseEventId_def makeEventId_def find_char_None isVisibleAscii_def)
qed

text \<open>
  Event ids are unambiguous: for a stream id of visible characters without a colon and a positive
  64-bit cursor, parsing the id gives both back; and every text that parses is a valid stream id, a
  colon and the digits of a positive 64-bit cursor.
\<close>

theorem event_ids_roundtrip:
  "(isVisibleAscii streamId \<and> CHR '':'' \<notin> set streamId \<and> 0 < cursor \<and> cursor \<le> uint64_max \<longrightarrow>
     parseEventId (makeEventId streamId cursor) = Some \<lparr>ec_streamId = streamId, ec_cursor = cursor\<rparr>)
   \<and> (parseEventId t = Some e \<longrightarrow> (\<exists>digits. t = ec_streamId e @ CHR '':'' # digits
       \<and> isVisibleAscii (ec_streamId e) \<and> CHR '':'' \<notin> set (ec_streamId e)
       \<and> (\<forall>c \<in> set digits. is_digit c) \<and> decimal_value 0 digits = ec_cursor e
       \<and> 0 < ec_cursor e \<and> ec_cursor e \<le> uint64_max))"
proof (intro conjI impI)
  assume p: "parseEventId t = Some e"
  then obtain i where i: "rfind_char (CHR '':'') t = Some i" by (auto simp: parseEventId_def split: option.splits)
  with p have q: "i \<noteq> 0" "i + 1 < length t" "isVisibleAscii (take i t)" "CHR '':'' \<notin> set (take i t)"
    "parse_digits 0 (drop (i + 1) t) = Some (ec_cursor e)" "ec_streamId e = take i t" "0 < ec_cursor e"
    by (auto simp: parseEventId_def Let_def find_char_None split: if_splits option.splits)
  from rfind_char_Some [OF i] have "t = take i t @ CHR '':'' # drop (i + 1) t"
    using id_take_nth_drop [of i t] by simp
  with q parse_digits_value [of 0 "drop (i + 1) t"]
  show "\<exists>digits. t = ec_streamId e @ CHR '':'' # digits
       \<and> isVisibleAscii (ec_streamId e) \<and> CHR '':'' \<notin> set (ec_streamId e)
       \<and> (\<forall>c \<in> set digits. is_digit c) \<and> decimal_value 0 digits = ec_cursor e
       \<and> 0 < ec_cursor e \<and> ec_cursor e \<le> uint64_max"
    by (intro exI [of _ "drop (i + 1) t"]) (auto split: if_splits)
qed (use parse_made_event_id in blast)

theorem event_ids_roundtrip_witness:
  "parseEventId (makeEventId ''s7'' 42) = Some \<lparr>ec_streamId = ''s7'', ec_cursor = 42\<rparr>
   \<and> (\<exists>digits. ''s12:007'' = ''s12'' @ CHR '':'' # digits \<and> decimal_value 0 digits = 7)"
proof -
  have "isVisibleAscii ''s7'' \<and> CHR '':'' \<notin> set ''s7'' \<and> 0 < (42::nat) \<and> 42 \<le> uint64_max"
    by (simp add: uint64_max_def isVisibleAscii_def byte_def)
  moreover have "parseEventId ''s12:007'' = Some \<lparr>ec_streamId = ''s12'', ec_cursor = 7\<rparr>"
    by (simp add: parseEventId_def rfind_char_def find_char_def isVisibleAscii_def byte_def is_digit_def digit_value_def
        uint64_max_def)
  ultimately show ?thesis
    using event_ids_roundtrip [of "''s7''" 42 "''s12:007''" "\<lparr>ec_streamId = ''s12'', ec_cursor = 7\<rparr>"] by auto
qed

section \<open>Lines\<close>

lemma split_lines_step: "newline \<notin> set l \<Longrightarrow> split_lines (l @ newline # rest) = l # split_lines rest"
  by (subst split_lines.simps) (simp add: find_char_split)

lemma split_lines_last: "newline \<notin> set l \<Longrightarrow> split_lines l = [l]"
  by (subst split_lines.simps) (simp add: iffD2 [OF find_char_None])

lemma split_lines_concat:
  "\<forall>l \<in> set ls. newline \<notin> set l \<Longrightarrow> split_lines (concat (map (\<lambda>l. l @ [newline]) ls) @ rest) = ls @ split_lines rest"
  by (induction ls) (simp_all add: split_lines_step)

lemma split_lines_clean: "l \<in> set (split_lines s) \<Longrightarrow> newline \<notin> set l"
proof (induction s rule: split_lines.induct)
  case (1 s)
  show ?case
  proof (cases "find_char newline s")
    case None
    with "1.prems" show ?thesis by (subst (asm) split_lines.simps) (simp add: find_char_None)
  next
    case (Some i)
    with "1.prems" have "l = take i s \<or> l \<in> set (split_lines (drop (i + 1) s))"
      by (subst (asm) split_lines.simps) simp
    with "1.IH" [OF Some] find_char_Some [OF Some] show ?thesis by auto
  qed
qed

lemma split_lines_join: "concat (map (\<lambda>l. l @ [newline]) (split_lines s)) = s @ [newline]"
proof (induction s rule: split_lines.induct)
  case (1 s)
  show ?case
  proof (cases "find_char newline s")
    case None
    then show ?thesis by (subst split_lines.simps) simp
  next
    case (Some i)
    from find_char_Some [OF Some] have "s = take i s @ newline # drop (i + 1) s"
      using id_take_nth_drop [of i s] by simp
    moreover have "concat (map (\<lambda>l. l @ [newline]) (split_lines s)) =
        take i s @ newline # concat (map (\<lambda>l. l @ [newline]) (split_lines (drop (i + 1) s)))"
      using Some by (subst split_lines.simps) simp
    ultimately show ?thesis using "1.IH" [OF Some] by simp
  qed
qed

section \<open>What is encoded is parsed\<close>

text \<open>The lines of an encoded event, the empty one included.\<close>

definition plain_data_line :: "string \<Rightarrow> string" where
  "plain_data_line l = ''data:'' @ (if l = [] then [] else CHR '' '' # l)"

definition event_lines :: "sse_event \<Rightarrow> string list" where
  "event_lines e =
     (case sse_name e of Some v \<Rightarrow> if isValidSseFieldValue v then [''event: '' @ v] else [] | None \<Rightarrow> []) @
     (case sse_id e of Some v \<Rightarrow> if isValidSseFieldValue v then [''id: '' @ v] else [] | None \<Rightarrow> []) @
     (case sse_retry e of Some w \<Rightarrow> [''retry: '' @ to_string_nat (unat w)] | None \<Rightarrow> []) @
     map plain_data_line (split_lines (sse_data e)) @ [[]]"

lemma data_line_plain: "data_line = (\<lambda>l. plain_data_line l @ [newline])"
  by (intro ext) (simp add: data_line_def plain_data_line_def)

lemma split_lines_empty [simp]: "split_lines [] = [[]]"
  by (simp add: split_lines_last)

lemma encodeEvent_lines: "encodeEvent e = concat (map (\<lambda>l. l @ [newline]) (event_lines e))"
proof -
  have "appendDataLines d = concat (map (\<lambda>l. l @ [newline]) (map plain_data_line (split_lines d)))" for d
    by (simp add: appendDataLines_def comp_def flip: data_line_plain) (simp add: data_line_def)
  then show ?thesis
    by (simp add: encodeEvent_def event_lines_def field_line_def split: option.split)
qed

lemma valid_no_newline: "isValidSseFieldValue v \<Longrightarrow> newline \<notin> set v \<and> carriage \<notin> set v"
  by (auto simp: isValidSseFieldValue_def list_all_iff)

lemma newline_simps [simp]:
  "newline \<noteq> CHR '' ''" "newline \<noteq> CHR '':''" "newline \<noteq> CHR ''d''" "newline \<noteq> CHR ''a''" "newline \<noteq> CHR ''t''"
  "newline \<noteq> CHR ''e''" "newline \<noteq> CHR ''v''" "newline \<noteq> CHR ''n''" "newline \<noteq> CHR ''i''" "newline \<noteq> CHR ''r''"
  "newline \<noteq> CHR ''y''" "newline \<noteq> carriage" "carriage \<noteq> CHR '':''" "\<not> is_digit newline" "\<not> is_digit carriage"
  by (simp_all add: newline_def carriage_def is_digit_def byte_def)

lemma number_no_newline: "newline \<notin> set (to_string_nat n) \<and> carriage \<notin> set (to_string_nat n)"
  using to_string_nat_digits newline_simps(14,15) by blast

lemma event_lines_clean: "l \<in> set (event_lines e) \<Longrightarrow> newline \<notin> set l"
  by (auto simp: event_lines_def plain_data_line_def dest: split_lines_clean valid_no_newline
      split: option.splits if_splits) (use number_no_newline in blast)

lemma encodeEvents_lines: "split_lines (encodeEvents es) = concat (map event_lines es) @ [[]]"
proof -
  have "encodeEvents es = concat (map (\<lambda>l. l @ [newline]) (concat (map event_lines es))) @ []"
    by (induction es) (simp_all add: encodeEvents_def encodeEvent_lines)
  then show ?thesis
    by (simp only:, subst split_lines_concat) (auto dest: event_lines_clean)
qed

text \<open>One line of each field.\<close>

lemma last_no_carriage: "carriage \<notin> set l \<Longrightarrow> l \<noteq> [] \<Longrightarrow> last l \<noteq> carriage"
  by (metis last_in_set)

lemma parse_field_lines:
  "carriage \<notin> set v \<Longrightarrow> parse_line (''event: '' @ v) (es, c, b) = (es, c\<lparr>sse_name := Some v\<rparr>, True)"
  "carriage \<notin> set v \<Longrightarrow> parse_line (''id: '' @ v) (es, c, b) = (es, c\<lparr>sse_id := Some v\<rparr>, True)"
  "carriage \<notin> set v \<Longrightarrow> parse_line (''retry: '' @ v) (es, c, b) = (es, c\<lparr>sse_retry := parseRetryField v\<rparr>, True)"
  "v = [] \<or> last v \<noteq> carriage \<Longrightarrow>
     parse_line (plain_data_line v) (es, c, b) = (es, c\<lparr>sse_data := sse_data c @ v @ [newline]\<rparr>, True)"
proof -
  note simps = parse_line_def Let_def find_char_def carriage_def
  have last: "last (x # v) \<noteq> CHR 0x0D" if "carriage \<notin> set v" "x \<noteq> CHR 0x0D" for x
    using last_no_carriage [OF that(1)] that(2) by (simp add: carriage_def)
  show "carriage \<notin> set v \<Longrightarrow> parse_line (''event: '' @ v) (es, c, b) = (es, c\<lparr>sse_name := Some v\<rparr>, True)"
    "carriage \<notin> set v \<Longrightarrow> parse_line (''id: '' @ v) (es, c, b) = (es, c\<lparr>sse_id := Some v\<rparr>, True)"
    "carriage \<notin> set v \<Longrightarrow> parse_line (''retry: '' @ v) (es, c, b) = (es, c\<lparr>sse_retry := parseRetryField v\<rparr>, True)"
    using last [of "CHR '' ''"] by (simp_all add: simps)
  show "v = [] \<or> last v \<noteq> carriage \<Longrightarrow>
     parse_line (plain_data_line v) (es, c, b) = (es, c\<lparr>sse_data := sse_data c @ v @ [newline]\<rparr>, True)"
    by (cases "v = []") (simp_all add: simps plain_data_line_def)
qed

lemma parse_data_lines:
  "\<forall>l \<in> set ls. l = [] \<or> last l \<noteq> carriage \<Longrightarrow> ls \<noteq> [] \<Longrightarrow>
     fold parse_line (map plain_data_line ls) (es, c, b) =
       (es, c\<lparr>sse_data := sse_data c @ concat (map (\<lambda>l. l @ [newline]) ls)\<rparr>, True)"
proof (induction ls arbitrary: c b)
  case (Cons l ls)
  then show ?case by (cases "ls = []") (simp_all add: parse_field_lines(4))
qed simp

text \<open>
  An event that the encoder keeps: no line breaks in name and id, and no line of the data ends with a
  carriage return, which the parser would take as a part of the line break.
\<close>

definition sse_transmissible :: "sse_event \<Rightarrow> bool" where
  "sse_transmissible e \<longleftrightarrow> (\<forall>v. sse_name e = Some v \<longrightarrow> isValidSseFieldValue v)
     \<and> (\<forall>v. sse_id e = Some v \<longrightarrow> isValidSseFieldValue v)
     \<and> (\<forall>l \<in> set (split_lines (sse_data e)). l = [] \<or> last l \<noteq> carriage)"

lemma parse_optional_lines:
  "\<forall>v. x = Some v \<longrightarrow> isValidSseFieldValue v \<Longrightarrow> sse_name c = None \<Longrightarrow>
     fold parse_line (case x of Some v \<Rightarrow> if isValidSseFieldValue v then [''event: '' @ v] else [] | None \<Rightarrow> [])
       (es, c, b) = (es, c\<lparr>sse_name := x\<rparr>, b \<or> x \<noteq> None)"
  "\<forall>v. x = Some v \<longrightarrow> isValidSseFieldValue v \<Longrightarrow> sse_id c = None \<Longrightarrow>
     fold parse_line (case x of Some v \<Rightarrow> if isValidSseFieldValue v then [''id: '' @ v] else [] | None \<Rightarrow> [])
       (es, c, b) = (es, c\<lparr>sse_id := x\<rparr>, b \<or> x \<noteq> None)"
  "sse_retry c = None \<Longrightarrow>
     fold parse_line (case w of Some w \<Rightarrow> [''retry: '' @ to_string_nat (unat w)] | None \<Rightarrow> []) (es, c, b) =
       (es, c\<lparr>sse_retry := w\<rparr>, b \<or> w \<noteq> None)"
proof -
  show "\<forall>v. x = Some v \<longrightarrow> isValidSseFieldValue v \<Longrightarrow> sse_name c = None \<Longrightarrow>
     fold parse_line (case x of Some v \<Rightarrow> if isValidSseFieldValue v then [''event: '' @ v] else [] | None \<Rightarrow> [])
       (es, c, b) = (es, c\<lparr>sse_name := x\<rparr>, b \<or> x \<noteq> None)"
    using parse_field_lines(1) valid_no_newline by (cases x) (cases c, simp, fastforce)
  show "\<forall>v. x = Some v \<longrightarrow> isValidSseFieldValue v \<Longrightarrow> sse_id c = None \<Longrightarrow>
     fold parse_line (case x of Some v \<Rightarrow> if isValidSseFieldValue v then [''id: '' @ v] else [] | None \<Rightarrow> [])
       (es, c, b) = (es, c\<lparr>sse_id := x\<rparr>, b \<or> x \<noteq> None)"
    using parse_field_lines(2) valid_no_newline by (cases x) (cases c, simp, fastforce)
  show "sse_retry c = None \<Longrightarrow>
     fold parse_line (case w of Some w \<Rightarrow> [''retry: '' @ to_string_nat (unat w)] | None \<Rightarrow> []) (es, c, b) =
       (es, c\<lparr>sse_retry := w\<rparr>, b \<or> w \<noteq> None)"
    using parse_field_lines(3) number_no_newline by (cases w) (cases c, simp, fastforce)
qed

lemma parse_event_lines:
  assumes "sse_transmissible e"
  shows "fold parse_line (event_lines e) (es, empty_event, False) = (es @ [e], empty_event, False)"
proof -
  note clean = assms [unfolded sse_transmissible_def]
  have ne: "split_lines d \<noteq> []" for d by (subst split_lines.simps) (simp split: option.split)
  have data: "fold parse_line (map plain_data_line (split_lines (sse_data e))) (es, c, b) =
      (es, c\<lparr>sse_data := sse_data c @ sse_data e @ [newline]\<rparr>, True)" for c b
    using parse_data_lines [of "split_lines (sse_data e)" es c b] clean ne by (simp add: split_lines_join)
  have "fold parse_line (event_lines e) (es, empty_event, False) =
      parse_line [] (es, \<lparr>sse_name = sse_name e, sse_id = sse_id e, sse_retry = sse_retry e,
        sse_data = sse_data e @ [newline]\<rparr>, True)"
    unfolding event_lines_def fold_append comp_def
    by (subst parse_optional_lines(1), use clean in blast, simp add: empty_event_def)
      (subst parse_optional_lines(2), use clean in blast, simp add: empty_event_def,
       subst parse_optional_lines(3), simp add: empty_event_def, simp add: data empty_event_def)
  then show ?thesis by (simp add: parse_line_def flushParsedEvent_def)
qed

lemma parse_events_lines:
  "\<forall>e \<in> set es. sse_transmissible e \<Longrightarrow>
     fold parse_line (concat (map event_lines es)) (done, empty_event, False) = (done @ es, empty_event, False)"
  by (induction es arbitrary: "done") (simp_all add: parse_event_lines)

text \<open>
  C39. What a server streams is what the client reads: parsing the encoding of a list of events gives
  the same events, with name, id, retry time and every byte of the data, if names and ids have no line
  breaks and no line of the data ends with a carriage return.
\<close>

theorem events_roundtrip:
  assumes "\<forall>e \<in> set es. sse_transmissible e"
  shows "parseEvents (encodeEvents es) = es"
  using parse_events_lines [OF assms, of "[]"]
  by (simp add: parseEvents_def encodeEvents_lines parse_line_def flushParsedEvent_def)

theorem events_roundtrip_witness:
  "let e = \<lparr>sse_name = Some ''message'', sse_id = Some ''s1:7'', sse_retry = Some 1000,
       sse_data = ''a'' @ [newline] @ '' b: '' @ [newline]\<rparr>
   in parseEvents (encodeEvents [e, empty_event, e]) = [e, empty_event, e]"
proof -
  let ?e = "\<lparr>sse_name = Some ''message'', sse_id = Some ''s1:7'', sse_retry = Some 1000,
       sse_data = ''a'' @ [newline] @ '' b: '' @ [newline]\<rparr>"
  have "\<forall>e \<in> set [?e, empty_event, ?e]. sse_transmissible e"
    by (simp add: sse_transmissible_def empty_event_def isValidSseFieldValue_def newline_def carriage_def
        split_lines.simps find_char_def)
  from events_roundtrip [OF this] show ?thesis by simp
qed

end
