(* ===== verification/HttpHeaders.thy ===== *)
theory HttpHeaders
  imports Session Sse
begin

text \<open>
  The ASCII helpers of include/mcp/detail/ascii.hpp, the origin policy of include/mcp/security, the
  header list, the header states of a client and the validation of a request to a server, all of
  include/mcp/transport/http.
\<close>

section \<open>ASCII\<close>

definition isAsciiWhitespace :: "char \<Rightarrow> bool" where
  "isAsciiWhitespace c \<longleftrightarrow> byte c = 0x20 \<or> byte c = 0x09 \<or> byte c = 0x0A \<or> byte c = 0x0B \<or> byte c = 0x0C \<or> byte c = 0x0D"

definition isAsciiControl :: "char \<Rightarrow> bool" where
  "isAsciiControl c \<longleftrightarrow> byte c \<le> 0x1F \<or> byte c = 0x7F"

definition isAsciiUpper :: "char \<Rightarrow> bool" where
  "isAsciiUpper c \<longleftrightarrow> 0x41 \<le> byte c \<and> byte c \<le> 0x5A"

definition isAsciiLower :: "char \<Rightarrow> bool" where
  "isAsciiLower c \<longleftrightarrow> 0x61 \<le> byte c \<and> byte c \<le> 0x7A"

definition toAsciiLower :: "char \<Rightarrow> char" where
  "toAsciiLower c = (if isAsciiUpper c then char_of (byte c + 0x20) else c)"

lemma toAsciiLower_code [code]:
  "toAsciiLower c = (if isAsciiUpper c then ''abcdefghijklmnopqrstuvwxyz'' ! (byte c - 65) else c)"
proof (cases "isAsciiUpper c")
  case True
  have table: "\<forall>n \<in> set [0..<26]. char_of (97 + n) = ''abcdefghijklmnopqrstuvwxyz'' ! n" by code_simp
  obtain n where n: "byte c = 65 + n" "n \<in> set [0..<26]"
    using True that [of "byte c - 65"] by (auto simp: isAsciiUpper_def)
  have "byte c + 0x20 = 97 + n" "byte c - 65 = n" using n(1) by simp_all
  then show ?thesis unfolding toAsciiLower_def if_P [OF True] by (simp only: bspec [OF table n(2)])
qed (simp add: toAsciiLower_def)

definition trimAsciiWhitespace :: "string \<Rightarrow> string" where
  "trimAsciiWhitespace s = rev (dropWhile isAsciiWhitespace (rev (dropWhile isAsciiWhitespace s)))"

definition toLowerAscii :: "string \<Rightarrow> string" where
  "toLowerAscii s = map toAsciiLower s"

definition equalsIgnoreCaseAscii :: "string \<Rightarrow> string \<Rightarrow> bool" where
  "equalsIgnoreCaseAscii left right \<longleftrightarrow>
     length left = length right \<and> list_all (\<lambda>(l, r). toAsciiLower l = toAsciiLower r) (zip left right)"

definition containsAsciiWhitespaceOrControl :: "string \<Rightarrow> bool" where
  "containsAsciiWhitespaceOrControl s \<longleftrightarrow> list_ex (\<lambda>c. isAsciiWhitespace c \<or> isAsciiControl c) s"

text \<open>\<open>std::isalpha\<close> and \<open>std::isalnum\<close> of the default locale.\<close>

definition is_alpha :: "char \<Rightarrow> bool" where
  "is_alpha c \<longleftrightarrow> isAsciiUpper c \<or> isAsciiLower c"

definition is_alnum :: "char \<Rightarrow> bool" where
  "is_alnum c \<longleftrightarrow> is_alpha c \<or> is_digit c"

lemma equalsIgnoreCase_iff [simp]: "equalsIgnoreCaseAscii l r \<longleftrightarrow> toLowerAscii l = toLowerAscii r"
  by (auto simp: equalsIgnoreCaseAscii_def toLowerAscii_def list_all_length list_eq_iff_nth_eq)

section \<open>Origins\<close>

record parsed_origin =
  po_scheme :: string
  po_host :: string
  po_port :: "uint16 option"
  po_ipv6Literal :: bool

record origin_policy =
  op_validateOrigin :: bool
  op_allowRequestsWithoutOrigin :: bool
  op_allowedOrigins :: "string list"
  op_allowedHosts :: "string list"

definition default_origin_policy :: origin_policy where
  "default_origin_policy = \<lparr>op_validateOrigin = True, op_allowRequestsWithoutOrigin = True, op_allowedOrigins = [],
     op_allowedHosts = [''localhost'', ''127.0.0.1'', ''::1'', ''[::1]'']\<rparr>"

definition isValidScheme :: "string \<Rightarrow> bool" where
  "isValidScheme s \<longleftrightarrow> s \<noteq> [] \<and> is_alpha (hd s)
     \<and> list_all (\<lambda>c. is_alnum c \<or> c = CHR ''+'' \<or> c = CHR ''-'' \<or> c = CHR ''.'') s"

definition kMaxTcpPort :: nat where "kMaxTcpPort = 65535"

text \<open>The loop over the digits; the product stays below \<open>2 ^ 32\<close> because of the check in each round.\<close>

fun port_digits :: "nat \<Rightarrow> string \<Rightarrow> nat option" where
  "port_digits port [] = Some port"
| "port_digits port (c # cs) =
     (if port * 10 + digit_value c > kMaxTcpPort then None else port_digits (port * 10 + digit_value c) cs)"

definition parsePort :: "string \<Rightarrow> uint16 option" where
  "parsePort t =
     (if t = [] \<or> \<not> list_all is_digit t then None else map_option of_nat (port_digits 0 t))"

definition parse_authority :: "string \<Rightarrow> string \<Rightarrow> parsed_origin option" where
  "parse_authority scheme authority =
     (if hd authority = CHR ''['' then
        (case find_char (CHR '']'') authority of
           None \<Rightarrow> None
         | Some closing \<Rightarrow>
             if closing \<le> 1 then None
             else
               let host = toLowerAscii (take (closing - 1) (drop 1 authority));
                   remainder = drop (closing + 1) authority;
                   parsed = \<lparr>po_scheme = scheme, po_host = host, po_port = None, po_ipv6Literal = True\<rparr>
               in if remainder = [] then Some parsed
                  else if hd remainder \<noteq> CHR '':'' then None
                  else
                    (case parsePort (tl remainder) of
                       None \<Rightarrow> None | Some p \<Rightarrow> Some (parsed\<lparr>po_port := Some p\<rparr>)))
      else
        (case rfind_char (CHR '':'') authority of
           None \<Rightarrow> Some \<lparr>po_scheme = scheme, po_host = toLowerAscii authority, po_port = None, po_ipv6Literal = False\<rparr>
         | Some sep \<Rightarrow>
             let host = toLowerAscii (take sep authority) in
             if host = [] then None
             else
               (case parsePort (drop (sep + 1) authority) of
                  None \<Rightarrow> None
                | Some p \<Rightarrow> Some \<lparr>po_scheme = scheme, po_host = host, po_port = Some p, po_ipv6Literal = False\<rparr>)))"

definition parseOrigin :: "string \<Rightarrow> parsed_origin option" where
  "parseOrigin origin =
     (let trimmed = trimAsciiWhitespace origin in
      if trimmed = [] \<or> trimmed = ''null'' then None
      else
        (case find_str ''://'' trimmed of
           None \<Rightarrow> None
         | Some sep \<Rightarrow>
             if sep = 0 then None
             else
               let scheme = take sep trimmed in
               if \<not> isValidScheme scheme then None
               else
                 let rest = drop (sep + 3) trimmed;
                     authority = takeWhile (\<lambda>c. c \<notin> {CHR ''/'', CHR ''?'', CHR ''#''}) rest
                 in if authority = [] \<or> find_char (CHR ''@'') authority \<noteq> None then None
                    else parse_authority (toLowerAscii scheme) authority))"

definition normalizeOrigin :: "parsed_origin \<Rightarrow> string" where
  "normalizeOrigin o1 =
     po_scheme o1 @ ''://'' @ (if po_ipv6Literal o1 then ''['' @ po_host o1 @ '']'' else po_host o1)
       @ (case po_port o1 of Some p \<Rightarrow> CHR '':'' # to_string_nat (unat p) | None \<Rightarrow> [])"

definition normalizeHost :: "string \<Rightarrow> string" where
  "normalizeHost host =
     (let trimmed = trimAsciiWhitespace host in
      if length trimmed \<ge> 2 \<and> hd trimmed = CHR ''['' \<and> last trimmed = CHR '']''
      then toLowerAscii (take (length trimmed - 2) (drop 1 trimmed)) else toLowerAscii trimmed)"

definition isOriginAllowed :: "string \<Rightarrow> origin_policy \<Rightarrow> bool" where
  "isOriginAllowed origin policy =
     (if \<not> op_validateOrigin policy then True
      else
        let trimmed = trimAsciiWhitespace origin in
        if trimmed = [] then False
        else if list_ex (\<lambda>a. toLowerAscii (trimAsciiWhitespace a) = toLowerAscii trimmed) (op_allowedOrigins policy)
        then True
        else
          (case parseOrigin trimmed of
             None \<Rightarrow> False
           | Some p \<Rightarrow>
               list_ex (\<lambda>a. case parseOrigin a of Some q \<Rightarrow> normalizeOrigin q = normalizeOrigin p | None \<Rightarrow> False)
                 (op_allowedOrigins policy)
               \<or> list_ex (\<lambda>h. normalizeHost h = po_host p) (op_allowedHosts policy)))"

section \<open>Header lists\<close>

type_synonym header_list = "(string \<times> string) list"

definition kHeaderAccept :: string where "kHeaderAccept = ''Accept''"
definition kHeaderContentType :: string where "kHeaderContentType = ''Content-Type''"
definition kHeaderOrigin :: string where "kHeaderOrigin = ''Origin''"
definition kHeaderLastEventId :: string where "kHeaderLastEventId = ''Last-Event-ID''"
definition kHeaderMcpSessionId :: string where "kHeaderMcpSessionId = ''MCP-Session-Id''"
definition kHeaderMcpProtocolVersion :: string where "kHeaderMcpProtocolVersion = ''MCP-Protocol-Version''"
definition kHeaderAuthorization :: string where "kHeaderAuthorization = ''Authorization''"
definition kHeaderWwwAuthenticate :: string where "kHeaderWwwAuthenticate = ''WWW-Authenticate''"

fun setHeader :: "string \<Rightarrow> string \<Rightarrow> header_list \<Rightarrow> header_list" where
  "setHeader name v [] = [(name, v)]"
| "setHeader name v ((n, w) # hs) =
     (if equalsIgnoreCaseAscii n name then (n, v) # hs else (n, w) # setHeader name v hs)"

definition getHeader :: "header_list \<Rightarrow> string \<Rightarrow> string option" where
  "getHeader hs name = map_option snd (find (\<lambda>(n, _). equalsIgnoreCaseAscii n name) hs)"

lemma getHeader_simps [simp]:
  "getHeader [] name = None"
  "getHeader ((n, v) # hs) name = (if toLowerAscii n = toLowerAscii name then Some v else getHeader hs name)"
  by (simp_all add: getHeader_def)

lemma get_setHeader [simp]:
  "getHeader (setHeader name v hs) name' =
     (if toLowerAscii name' = toLowerAscii name then Some v else getHeader hs name')"
  by (induction name v hs rule: setHeader.induct) auto

interpretation headers: keyed_table getHeader setHeader "\<lambda>a b. toLowerAscii a = toLowerAscii b" "\<lambda>_. True"
  by unfold_locales (auto simp: fun_eq_iff)

section \<open>Session ids and protocol versions\<close>

definition isValidSessionId :: "string \<Rightarrow> bool" where
  "isValidSessionId s \<longleftrightarrow> s \<noteq> [] \<and> list_all (\<lambda>c. 0x21 \<le> byte c \<and> byte c \<le> 0x7E) s"

definition isValidProtocolVersion :: "string \<Rightarrow> bool" where
  "isValidProtocolVersion v \<longleftrightarrow>
     length v = 10 \<and> v ! 4 = CHR ''-'' \<and> v ! 7 = CHR ''-''
     \<and> list_all (\<lambda>k. k = 4 \<or> k = 7 \<or> is_digit (v ! k)) [0..<10]"

definition isSupportedProtocolVersion :: "string \<Rightarrow> string list \<Rightarrow> bool" where
  "isSupportedProtocolVersion v supported \<longleftrightarrow> list_ex (\<lambda>s. s = v) supported"

section \<open>Header states of a client\<close>

record header_state =
  hs_sessionId :: "string option"
  hs_replay :: bool
  hs_negotiatedProtocolVersion :: "string option"

definition new_header_state :: header_state where
  "new_header_state = \<lparr>hs_sessionId = None, hs_replay = False, hs_negotiatedProtocolVersion = None\<rparr>"

definition setNegotiatedProtocolVersion :: "string \<Rightarrow> header_state \<Rightarrow> header_state \<times> bool" where
  "setNegotiatedProtocolVersion version h =
     (let v = trimAsciiWhitespace version in
      if \<not> isValidProtocolVersion v then (h\<lparr>hs_negotiatedProtocolVersion := None\<rparr>, False)
      else (h\<lparr>hs_negotiatedProtocolVersion := Some v\<rparr>, True))"

definition session_capture :: "string option \<Rightarrow> header_state \<Rightarrow> header_state \<times> bool" where
  "session_capture header h =
     (case header of
        None \<Rightarrow> (h\<lparr>hs_sessionId := None, hs_replay := False\<rparr>, True)
      | Some v \<Rightarrow>
          let i = trimAsciiWhitespace v in
          if \<not> isValidSessionId i then (h\<lparr>hs_sessionId := None, hs_replay := False\<rparr>, False)
          else (h\<lparr>hs_sessionId := Some i, hs_replay := True\<rparr>, True))"

definition captureFromInitializeResponse :: "string option \<Rightarrow> string \<Rightarrow> header_state \<Rightarrow> header_state \<times> bool" where
  "captureFromInitializeResponse header version h =
     (case session_capture header h of
        (h', False) \<Rightarrow> (h', False)
      | (h', True) \<Rightarrow> (if version = [] then h' else fst (setNegotiatedProtocolVersion version h'), True))"

definition clear_headers :: "header_state \<Rightarrow> header_state" where
  "clear_headers h = \<lparr>hs_sessionId = None, hs_replay = False, hs_negotiatedProtocolVersion = None\<rparr>"

definition replayToRequestHeaders :: "bool \<Rightarrow> header_state \<Rightarrow> header_list \<Rightarrow> header_list" where
  "replayToRequestHeaders isInitialize h hs =
     (let hs' = (case hs_sessionId h of Some i \<Rightarrow> if hs_replay h then setHeader kHeaderMcpSessionId i hs else hs
                 | None \<Rightarrow> hs)
      in case hs_negotiatedProtocolVersion h of
           Some v \<Rightarrow> if isInitialize then hs' else setHeader kHeaderMcpProtocolVersion v hs'
         | None \<Rightarrow> hs')"

section \<open>Validation of a request\<close>

datatype SessionLookupState = kUnknown | kActive | kExpired | kTerminated

record session_resolution =
  sr_state :: SessionLookupState
  sr_negotiatedProtocolVersion :: "string option"

datatype RequestKind = kInitialize | kOther

record request_validation_options =
  vo_requestKind :: RequestKind
  vo_sessionRequired :: bool
  vo_supportedProtocolVersions :: "string list"
  vo_inferredProtocolVersion :: "string option"
  vo_originPolicy :: origin_policy
  vo_sessionResolver :: "(string \<Rightarrow> session_resolution) option"

record oauth_context =
  oc_taskIsolationKey :: string
  oc_subject :: "string option"
  oc_grantedScopes :: "string list"

record request_validation_result =
  rr_accepted :: bool
  rr_statusCode :: nat
  rr_reason :: string
  rr_sessionId :: "string option"
  rr_effectiveProtocolVersion :: string
  rr_authorizationContext :: "oauth_context option"

definition kStableProtocolVersion :: string where "kStableProtocolVersion = ''2025-06-18''"
definition kFallbackProtocolVersion :: string where "kFallbackProtocolVersion = ''2025-03-26''"
definition kLegacyProtocolVersion :: string where "kLegacyProtocolVersion = ''2024-11-05''"

definition accepted_request :: "string option \<Rightarrow> string \<Rightarrow> request_validation_result" where
  "accepted_request i v = \<lparr>rr_accepted = True, rr_statusCode = 200, rr_reason = [], rr_sessionId = i,
     rr_effectiveProtocolVersion = v, rr_authorizationContext = None\<rparr>"

definition rejectRequest :: "nat \<Rightarrow> string \<Rightarrow> request_validation_result" where
  "rejectRequest status reason = \<lparr>rr_accepted = False, rr_statusCode = status, rr_reason = reason,
     rr_sessionId = None, rr_effectiveProtocolVersion = [], rr_authorizationContext = None\<rparr>"

text \<open>The origin of a request, when it is refused.\<close>

definition origin_rejection :: "header_list \<Rightarrow> origin_policy \<Rightarrow> request_validation_result option" where
  "origin_rejection hs policy =
     (if \<not> op_validateOrigin policy then None
      else
        (case getHeader hs kHeaderOrigin of
           None \<Rightarrow> if op_allowRequestsWithoutOrigin policy then None
                   else Some (rejectRequest 403 ''Origin is required'')
         | Some origin \<Rightarrow> if isOriginAllowed origin policy then None
                   else Some (rejectRequest 403 ''Origin is not allowed'')))"

text \<open>The protocol version of a request of the session, if there is one.\<close>

definition validate_version ::
  "header_list \<Rightarrow> string list \<Rightarrow> string option \<Rightarrow> string option \<Rightarrow> request_validation_result" where
  "validate_version hs supported inferred sessionId =
     (case getHeader hs kHeaderMcpProtocolVersion of
        Some header \<Rightarrow>
          let v = trimAsciiWhitespace header in
          if \<not> isValidProtocolVersion v then rejectRequest 400 ''Invalid MCP-Protocol-Version''
          else if \<not> isSupportedProtocolVersion v supported then rejectRequest 400 ''Unsupported MCP-Protocol-Version''
          else accepted_request sessionId v
      | None \<Rightarrow>
          (case inferred of
             Some i \<Rightarrow>
               let v = trimAsciiWhitespace i in
               if \<not> isValidProtocolVersion v \<or> \<not> isSupportedProtocolVersion v supported
               then rejectRequest 400 ''Inferred protocol version is invalid or unsupported''
               else accepted_request sessionId v
           | None \<Rightarrow> accepted_request sessionId kFallbackProtocolVersion))"

definition validateServerRequest :: "header_list \<Rightarrow> request_validation_options \<Rightarrow> request_validation_result" where
  "validateServerRequest hs opts =
     (case origin_rejection hs (vo_originPolicy opts) of
        Some r \<Rightarrow> r
      | None \<Rightarrow>
          (case getHeader hs kHeaderMcpSessionId of
             None \<Rightarrow>
               if vo_sessionRequired opts \<and> vo_requestKind opts \<noteq> kInitialize
               then rejectRequest 400 ''Missing required MCP-Session-Id''
               else validate_version hs (vo_supportedProtocolVersions opts) (vo_inferredProtocolVersion opts) None
           | Some header \<Rightarrow>
               let i = trimAsciiWhitespace header in
               if \<not> isValidSessionId i then rejectRequest 400 ''Invalid MCP-Session-Id''
               else
                 (case vo_sessionResolver opts of
                    None \<Rightarrow>
                      validate_version hs (vo_supportedProtocolVersions opts) (vo_inferredProtocolVersion opts) (Some i)
                  | Some resolve \<Rightarrow>
                      let res = resolve i in
                      if sr_state res \<in> {kExpired, kTerminated, kUnknown}
                      then rejectRequest 404 ''Session is not active''
                      else validate_version hs (vo_supportedProtocolVersions opts)
                        (case vo_inferredProtocolVersion opts of
                           Some v \<Rightarrow> Some v | None \<Rightarrow> sr_negotiatedProtocolVersion res) (Some i))))"

end
