(* ===== verification/HttpAuthorization.thy ===== *)
theory HttpAuthorization
  imports HttpHeaders
begin

text \<open>
  The authorization side of src/transport/http/server.cpp: bearer tokens, scopes, challenges, the
  protected resource metadata and the authorization of a request. The token verifier and the
  resolver of required scopes are the application's; a verifier that throws answers nothing.
\<close>

section \<open>Requests and responses\<close>

datatype ServerRequestMethod = kGet | kPost | kDelete

record server_request =
  hq_method :: ServerRequestMethod
  hq_path :: string
  hq_headers :: header_list
  hq_body :: string

record sse_stream_response =
  ss_streamId :: string
  ss_events :: "sse_event list"
  ss_terminateStream :: bool

record server_response =
  hr_statusCode :: nat
  hr_headers :: header_list
  hr_body :: string
  hr_sse :: "sse_stream_response option"

definition statusResponse :: "nat \<Rightarrow> server_response" where
  "statusResponse status = \<lparr>hr_statusCode = status, hr_headers = [], hr_body = [], hr_sse = None\<rparr>"

definition jsonResponse :: "nat \<Rightarrow> string \<Rightarrow> server_response" where
  "jsonResponse status body =
     \<lparr>hr_statusCode = status, hr_headers = setHeader kHeaderContentType ''application/json'' [], hr_body = body,
      hr_sse = None\<rparr>"

fun requestMethodToString :: "ServerRequestMethod \<Rightarrow> string" where
  "requestMethodToString kGet = ''GET''"
| "requestMethodToString kPost = ''POST''"
| "requestMethodToString kDelete = ''DELETE''"

section \<open>Paths and cursors\<close>

text \<open>A path with a slash in front and without one at the end.\<close>

definition slashed :: "string \<Rightarrow> string" where
  "slashed path =
     (let p = (if hd path \<noteq> CHR ''/'' then CHR ''/'' # path else path) in
      if length p > 1 \<and> last p = CHR ''/'' then butlast p else p)"

definition normalizeEndpointPath :: "string \<Rightarrow> string" where
  "normalizeEndpointPath path = slashed (if path = [] then ''/mcp'' else path)"

definition kWellKnownOAuthProtectedResourcePath :: string where
  "kWellKnownOAuthProtectedResourcePath = ''/.well-known/oauth-protected-resource''"

definition pathBasedMetadataPathForEndpoint :: "string \<Rightarrow> string" where
  "pathBasedMetadataPathForEndpoint path =
     (let p = normalizeEndpointPath path in
      if p = ''/'' then kWellKnownOAuthProtectedResourcePath else kWellKnownOAuthProtectedResourcePath @ p)"

definition normalizeLegacyEndpointPath :: "string \<Rightarrow> string \<Rightarrow> string" where
  "normalizeLegacyEndpointPath path fallback =
     (let p = trimAsciiWhitespace path in slashed (if p = [] then fallback else p))"

definition parseLegacyCursorValue :: "string \<Rightarrow> nat option" where
  "parseLegacyCursorValue v =
     (let t = trimAsciiWhitespace v in if t = [] then None else parse_digits 0 t)"

section \<open>Bearer tokens and scopes\<close>

datatype bearer_token = kMissing | kInvalid | Present string

definition parseBearerToken :: "header_list \<Rightarrow> bearer_token" where
  "parseBearerToken hs =
     (case getHeader hs kHeaderAuthorization of
        None \<Rightarrow> kMissing
      | Some header \<Rightarrow>
          let t = trimAsciiWhitespace header in
          if t = [] then kInvalid
          else
            (case find_first_if (\<lambda>c. c = CHR '' '' \<or> c = CHR 0x09) t of
               None \<Rightarrow> kInvalid
             | Some sep \<Rightarrow>
                 if \<not> equalsIgnoreCaseAscii (take sep t) ''Bearer'' then kInvalid
                 else
                   let token = trimAsciiWhitespace (drop (sep + 1) t) in
                   if token = [] \<or> list_ex is_space token then kInvalid else Present token))"

definition sanitizeScopeSet :: "string list \<Rightarrow> string list" where
  "sanitizeScopeSet scopes =
     foldl (\<lambda>out s. let n = trimAsciiWhitespace s in if n = [] \<or> n \<in> set out then out else out @ [n]) [] scopes"

definition hasRequiredScopes :: "string list \<Rightarrow> string list \<Rightarrow> bool" where
  "hasRequiredScopes granted required \<longleftrightarrow> list_all (\<lambda>s. s \<in> set granted) required"

fun joinScopeValues :: "string list \<Rightarrow> string" where
  "joinScopeValues [] = []"
| "joinScopeValues [s] = s"
| "joinScopeValues (s # ss) = s @ CHR '' '' # joinScopeValues ss"

definition dquote :: char where "dquote = CHR 0x22"
definition backslash :: char where "backslash = CHR 0x5C"

definition escapeHttpQuotedString :: "string \<Rightarrow> string" where
  "escapeHttpQuotedString v = concat (map (\<lambda>c. if c = backslash \<or> c = dquote then [backslash, c] else [c]) v)"

definition quoted :: "string \<Rightarrow> string" where
  "quoted v = dquote # escapeHttpQuotedString v @ [dquote]"

definition makeUnauthorizedChallenge :: "string \<Rightarrow> string list \<Rightarrow> string" where
  "makeUnauthorizedChallenge url scopes =
     ''Bearer resource_metadata='' @ quoted url @
     (let v = joinScopeValues scopes in if v = [] then [] else '', scope='' @ quoted v)"

definition makeInsufficientScopeChallenge :: "string \<Rightarrow> string list \<Rightarrow> string" where
  "makeInsufficientScopeChallenge url scopes =
     ''Bearer error='' @ [dquote] @ ''insufficient_scope'' @ [dquote] @
     '', scope='' @ quoted (joinScopeValues scopes) @ '', resource_metadata='' @ quoted url"

definition metadataOriginForResource :: "string \<Rightarrow> string option" where
  "metadataOriginForResource resource =
     (if resource = [] \<or> find_char (CHR ''#'') resource \<noteq> None then None
      else
        (case find_str ''://'' resource of
           None \<Rightarrow> None
         | Some sep \<Rightarrow>
             if toLowerAscii (take sep resource) \<noteq> ''https'' then None
             else
               let authorityBegin = sep + 3 in
               if authorityBegin \<ge> length resource then None
               else
                 let authority = takeWhile (\<lambda>c. c \<noteq> CHR ''/'' \<and> c \<noteq> CHR ''?'') (drop authorityBegin resource)
                 in if authority = [] then None else Some (take authorityBegin resource @ authority)))"

section \<open>Options\<close>

record auth_request_context =
  ar_httpMethod :: string
  ar_httpPath :: string
  ar_sessionId :: "string option"

record token_verification_request =
  tv_bearerToken :: string
  tv_expectedAudience :: string
  tv_request :: auth_request_context
  tv_requiredScopes :: "string list"

datatype OAuthTokenVerificationStatus = kValid | kInvalidToken | kInsufficientScope

record token_verification_result =
  tr_status :: OAuthTokenVerificationStatus
  tr_audienceBound :: bool
  tr_authorizationContext :: oauth_context

record authorization_options =
  ao_tokenVerifier :: "(token_verification_request \<Rightarrow> token_verification_result option) option"
  ao_resource :: string
  ao_authorizationServers :: "string list"
  ao_scopesSupported :: "string list"
  ao_publishAtPath :: bool
  ao_publishAtRoot :: bool
  ao_challengeUrl :: "string option"
  ao_requiredScopesResolver :: "(auth_request_context \<Rightarrow> string list) option"
  ao_defaultRequiredScopes :: "string list"

text \<open>What the constructor derives from the options.\<close>

record authorization_configuration =
  ac_options :: authorization_options
  ac_rootMetadataPath :: string
  ac_pathBasedMetadataPath :: string
  ac_metadataBody :: string
  ac_challengeUrl :: string

definition toProtectedResourceMetadataBody :: "(json \<Rightarrow> string) \<Rightarrow> authorization_options \<Rightarrow> string" where
  "toProtectedResourceMetadataBody dump a =
     dump ((if ao_scopesSupported a = [] then id
            else jput ''scopes_supported'' (JArray (map JString (ao_scopesSupported a))))
       (jput ''authorization_servers'' (JArray (map JString (ao_authorizationServers a)))
         (jput ''resource'' (JString (ao_resource a)) empty_object)))"

definition initializeAuthorizationConfiguration ::
  "(json \<Rightarrow> string) \<Rightarrow> string \<Rightarrow> authorization_options \<Rightarrow> string + authorization_configuration" where
  "initializeAuthorizationConfiguration dump endpointPath given =
     (if ao_tokenVerifier given = None then Inl ''HTTP server authorization requires a token verifier''
      else
        let a = given\<lparr>ao_defaultRequiredScopes := sanitizeScopeSet (ao_defaultRequiredScopes given),
                      ao_scopesSupported := sanitizeScopeSet (ao_scopesSupported given)\<rparr>;
            path = pathBasedMetadataPathForEndpoint endpointPath;
            cfg = (\<lambda>url. \<lparr>ac_options = a, ac_rootMetadataPath = kWellKnownOAuthProtectedResourcePath,
                     ac_pathBasedMetadataPath = path, ac_metadataBody = toProtectedResourceMetadataBody dump a,
                     ac_challengeUrl = url\<rparr>)
        in
        if ao_resource a = [] then Inl ''HTTP server authorization requires protected resource metadata.resource''
        else if CHR ''#'' \<in> set (ao_resource a)
        then Inl ''Protected resource metadata.resource must not contain a fragment''
        else if ao_authorizationServers a = []
        then Inl ''HTTP server authorization requires at least one authorization server''
        else if \<not> ao_publishAtPath a \<and> \<not> ao_publishAtRoot a
        then Inl ''HTTP server authorization must publish metadata at path-based and/or root well-known URI''
        else
          (case ao_challengeUrl a of
             Some given_url \<Rightarrow>
               let url = trimAsciiWhitespace given_url in
               if url = [] then Inl ''HTTP server authorization challengeResourceMetadataUrl must not be empty''
               else if metadataOriginForResource url = None
               then Inl (''HTTP server authorization challengeResourceMetadataUrl must be an absolute HTTPS URL ''
                      @ ''without fragments'')
               else Inr (cfg url)
           | None \<Rightarrow>
               (case metadataOriginForResource (ao_resource a) of
                  None \<Rightarrow> Inl (''HTTP server authorization protected resource metadata.resource must be an absolute ''
                      @ ''HTTPS URL without fragments'')
                | Some origin \<Rightarrow>
                    Inr (cfg (origin @ (if ao_publishAtPath a then path else kWellKnownOAuthProtectedResourcePath))))))"

section \<open>Authorization of a request\<close>

definition makeAuthorizationRequestContext :: "server_request \<Rightarrow> string option \<Rightarrow> auth_request_context" where
  "makeAuthorizationRequestContext req i =
     \<lparr>ar_httpMethod = requestMethodToString (hq_method req), ar_httpPath = hq_path req, ar_sessionId = i\<rparr>"

definition resolveRequiredScopes ::
  "authorization_options \<Rightarrow> server_request \<Rightarrow> string option \<Rightarrow> string list" where
  "resolveRequiredScopes a req i =
     sanitizeScopeSet (case ao_requiredScopesResolver a of
        Some f \<Rightarrow> f (makeAuthorizationRequestContext req i) | None \<Rightarrow> ao_defaultRequiredScopes a)"

definition challenge_response :: "nat \<Rightarrow> string \<Rightarrow> server_response" where
  "challenge_response status challenge =
     (statusResponse status)\<lparr>hr_headers := setHeader kHeaderWwwAuthenticate challenge []\<rparr>"

definition unauthorizedResponse :: "authorization_configuration \<Rightarrow> string list \<Rightarrow> server_response" where
  "unauthorizedResponse cfg scopes = challenge_response 401 (makeUnauthorizedChallenge (ac_challengeUrl cfg) scopes)"

definition insufficientScopeResponse :: "authorization_configuration \<Rightarrow> string list \<Rightarrow> server_response" where
  "insufficientScopeResponse cfg scopes =
     challenge_response 403 (makeInsufficientScopeChallenge (ac_challengeUrl cfg) scopes)"

text \<open>The response that refuses the request, or the validation with the authorization context in it.\<close>

definition authorizeRequest ::
  "authorization_configuration option \<Rightarrow> server_request \<Rightarrow> request_validation_result \<Rightarrow>
   server_response + request_validation_result" where
  "authorizeRequest config req validation =
     (case config of
        None \<Rightarrow> Inr validation
      | Some cfg \<Rightarrow>
          let a = ac_options cfg;
              required = resolveRequiredScopes a req (rr_sessionId validation)
          in
          (case parseBearerToken (hq_headers req) of
             Present token \<Rightarrow>
               (case the (ao_tokenVerifier a)
                       \<lparr>tv_bearerToken = token, tv_expectedAudience = ao_resource a,
                        tv_request = makeAuthorizationRequestContext req (rr_sessionId validation),
                        tv_requiredScopes = required\<rparr> of
                  None \<Rightarrow> Inl (unauthorizedResponse cfg required)
                | Some res \<Rightarrow>
                    let c = (tr_authorizationContext res)
                          \<lparr>oc_grantedScopes := sanitizeScopeSet (oc_grantedScopes (tr_authorizationContext res))\<rparr>
                    in
                    if tr_status res = kInvalidToken \<or> \<not> tr_audienceBound res \<or> oc_taskIsolationKey c = []
                    then Inl (unauthorizedResponse cfg required)
                    else if tr_status res = kInsufficientScope \<or> \<not> hasRequiredScopes (oc_grantedScopes c) required
                    then Inl (insufficientScopeResponse cfg required)
                    else Inr (validation\<lparr>rr_authorizationContext := Some c\<rparr>))
           | _ \<Rightarrow> Inl (unauthorizedResponse cfg required)))"

definition handleProtectedResourceMetadataRequest ::
  "authorization_configuration option \<Rightarrow> server_request \<Rightarrow> server_response option" where
  "handleProtectedResourceMetadataRequest config req =
     (case config of
        None \<Rightarrow> None
      | Some cfg \<Rightarrow>
          let isRoot = (hq_path req = ac_rootMetadataPath cfg); isPath = (hq_path req = ac_pathBasedMetadataPath cfg) in
          if \<not> isRoot \<and> \<not> isPath then None
          else if \<not> (isRoot \<and> ao_publishAtRoot (ac_options cfg)) \<and> \<not> (isPath \<and> ao_publishAtPath (ac_options cfg))
          then Some (statusResponse 404)
          else if hq_method req \<noteq> kGet then Some (statusResponse 405)
          else Some (jsonResponse 200 (ac_metadataBody cfg)))"

end
