(* ===== verification/HttpServer.thy ===== *)
theory HttpServer
  imports HttpAuthorization Tasks
begin

text \<open>
  The streamable HTTP server of src/transport/http/server.cpp: sessions, SSE streams with bounded
  buffers and resumption, messages that wait for a stream, and the legacy HTTP+SSE endpoints. The
  source releases its lock while a handler runs; \<open>handleRequest\<close> is split there, so a request is a
  \<open>begin\<close> step, the handler, and an \<open>end\<close> step. The clock is an argument, in milliseconds, read once
  per step; so are the random bytes of a session id. A stream counts its events with an unbounded
  number: a 64-bit counter does not come round.
\<close>

section \<open>State\<close>

text \<open>The third-party JSON parser, schema check and printer that messages go through.\<close>

record http_env =
  he_jsonParse :: "string \<Rightarrow> string + json"
  he_schema :: "json \<Rightarrow> schema_outcome"
  he_dump :: "json \<Rightarrow> string"

definition http_parse :: "http_env \<Rightarrow> string \<Rightarrow> string + message" where
  "http_parse env = parseMessage (he_jsonParse env) (he_schema env)"

definition http_serialize :: "http_env \<Rightarrow> message \<Rightarrow> string + string" where
  "http_serialize env m = serializeMessage (he_dump env) m False"

datatype StreamKind = GetStream | PostStream

record stream_event =
  sx_cursor :: nat
  sx_event :: sse_event

record stream_state =
  st_streamId :: string
  st_sessionId :: "string option"
  st_kind :: StreamKind
  st_nextCursor :: nat
  st_openedAt :: int
  st_terminated :: bool
  st_events :: "stream_event list"

record legacy_buffer =
  lb_nextCursor :: nat
  lb_events :: "stream_event list"

record http_options =
  ho_path :: string
  ho_originPolicy :: origin_policy
  ho_maxMessageSizeBytes :: nat
  ho_maxSseStreamDuration :: int
  ho_maxSseBufferedMessages :: nat
  ho_authorization :: "authorization_options option"
  ho_requireSessionId :: bool
  ho_supportedProtocolVersions :: "string list"
  ho_allowGetSse :: bool
  ho_allowDeleteSession :: bool
  ho_defaultSseRetry :: "uint32 option"
  ho_legacyEnabled :: bool
  ho_legacyPostPath :: string
  ho_legacySsePath :: string

record http_server =
  hv_options :: http_options
  hv_authorization :: "authorization_configuration option"
  hv_legacyPostPath :: string
  hv_legacySsePath :: string
  hv_requestHandler :: bool
  hv_notificationHandler :: bool
  hv_responseHandler :: bool
  hv_nextStreamOrdinal :: nat
  hv_sessions :: "(string, session_resolution) umap"
  hv_streams :: "(string, stream_state) umap"
  hv_streamOrder :: "string list"
  hv_pending :: "(string, message list) umap"
  hv_legacy :: "(string, legacy_buffer) umap"

definition new_http_server :: "http_env \<Rightarrow> http_options \<Rightarrow> string + http_server" where
  "new_http_server env opts =
     (let postPath = normalizeLegacyEndpointPath (ho_legacyPostPath opts) ''/rpc'';
          ssePath = normalizeLegacyEndpointPath (ho_legacySsePath opts) ''/events'';
          path = normalizeEndpointPath (ho_path opts);
          new = (\<lambda>a. \<lparr>hv_options = opts, hv_authorization = a, hv_legacyPostPath = postPath, hv_legacySsePath = ssePath,
            hv_requestHandler = False, hv_notificationHandler = False, hv_responseHandler = False,
            hv_nextStreamOrdinal = 0, hv_sessions = [], hv_streams = [], hv_streamOrder = [], hv_pending = [],
            hv_legacy = []\<rparr>)
      in
      if ho_legacyEnabled opts \<and> (postPath = path \<or> ssePath = path)
      then Inl ''Legacy HTTP+SSE endpoints must not overlap Streamable HTTP endpoint path''
      else if ho_legacyEnabled opts \<and> postPath = ssePath
      then Inl ''Legacy HTTP+SSE POST and SSE endpoint paths must be distinct''
      else
        (case ho_authorization opts of
           None \<Rightarrow> Inr (new None)
         | Some a \<Rightarrow> bindE (initializeAuthorizationConfiguration (he_dump env) (ho_path opts) a) (\<lambda>cfg. Inr (new (Some cfg)))))"

definition sessionKey :: "string option \<Rightarrow> string" where
  "sessionKey i = (case i of Some s \<Rightarrow> s | None \<Rightarrow> [])"

definition setRequestHandler :: "bool \<Rightarrow> http_server \<Rightarrow> http_server" where
  "setRequestHandler present s = s\<lparr>hv_requestHandler := present\<rparr>"

definition setNotificationHandler :: "bool \<Rightarrow> http_server \<Rightarrow> http_server" where
  "setNotificationHandler present s = s\<lparr>hv_notificationHandler := present\<rparr>"

definition setResponseHandler :: "bool \<Rightarrow> http_server \<Rightarrow> http_server" where
  "setResponseHandler present s = s\<lparr>hv_responseHandler := present\<rparr>"

section \<open>Sessions\<close>

definition http_upsertSession ::
  "string \<Rightarrow> SessionLookupState \<Rightarrow> string option \<Rightarrow> http_server \<Rightarrow> http_server" where
  "http_upsertSession i state version s =
     s\<lparr>hv_sessions := umap_put i \<lparr>sr_state = state, sr_negotiatedProtocolVersion = version\<rparr> (hv_sessions s)\<rparr>"

definition http_setSessionState :: "string \<Rightarrow> SessionLookupState \<Rightarrow> http_server \<Rightarrow> http_server \<times> bool" where
  "http_setSessionState i state s =
     (case map_of (hv_sessions s) i of
        None \<Rightarrow> (s, False)
      | Some res \<Rightarrow> (s\<lparr>hv_sessions := umap_put i (res\<lparr>sr_state := state\<rparr>) (hv_sessions s)\<rparr>, True))"

definition sessionResolver :: "http_server \<Rightarrow> string \<Rightarrow> session_resolution" where
  "sessionResolver s i =
     (case map_of (hv_sessions s) i of
        None \<Rightarrow> \<lparr>sr_state = kUnknown, sr_negotiatedProtocolVersion = None\<rparr> | Some res \<Rightarrow> res)"

definition generateSessionId :: "nat list \<Rightarrow> string" where
  "generateSessionId bytes = concat (map (\<lambda>b. [hexAlphabet ! (b div 16), hexAlphabet ! (b mod 16)]) bytes)"

section \<open>Streams\<close>

definition isStreamExpired :: "http_options \<Rightarrow> int \<Rightarrow> stream_state \<Rightarrow> bool" where
  "isStreamExpired opts now st \<longleftrightarrow>
     ho_maxSseStreamDuration opts > 0 \<and> now - st_openedAt st > ho_maxSseStreamDuration opts"

text \<open>The newest events up to the limit.\<close>

definition keep_newest :: "nat \<Rightarrow> 'a list \<Rightarrow> 'a list" where
  "keep_newest limit xs = (if limit = 0 then [] else if length xs \<le> limit then xs else drop (length xs - limit) xs)"

definition applySseBufferLimit :: "http_options \<Rightarrow> stream_state \<Rightarrow> stream_state" where
  "applySseBufferLimit opts st = st\<lparr>st_events := keep_newest (ho_maxSseBufferedMessages opts) (st_events st)\<rparr>"

definition makeEvent :: "string \<Rightarrow> string \<Rightarrow> sse_event" where
  "makeEvent i data = empty_event\<lparr>sse_id := Some i, sse_data := data\<rparr>"

definition append_event :: "http_options \<Rightarrow> string \<Rightarrow> stream_state \<Rightarrow> stream_state" where
  "append_event opts data st =
     (let cursor = st_nextCursor st;
          record = \<lparr>sx_cursor = cursor, sx_event = makeEvent (makeEventId (st_streamId st) cursor) data\<rparr>
      in applySseBufferLimit opts (st\<lparr>st_nextCursor := cursor + 1, st_events := st_events st @ [record]\<rparr>))"

definition appendPrimingEvent :: "http_options \<Rightarrow> stream_state \<Rightarrow> stream_state" where
  "appendPrimingEvent opts st = append_event opts [] st"

definition appendMessageEvent :: "http_env \<Rightarrow> http_options \<Rightarrow> message \<Rightarrow> stream_state \<Rightarrow> string + (stream_state \<times> bool)" where
  "appendMessageEvent env opts m st =
     bindE (http_serialize env m) (\<lambda>data.
       if length data > ho_maxMessageSizeBytes opts then Inr (st, False) else Inr (append_event opts data st, True))"

definition put_stream :: "stream_state \<Rightarrow> http_server \<Rightarrow> http_server" where
  "put_stream st s = s\<lparr>hv_streams := umap_put (st_streamId st) st (hv_streams s)\<rparr>"

definition createStream :: "int \<Rightarrow> string option \<Rightarrow> StreamKind \<Rightarrow> http_server \<Rightarrow> http_server \<times> stream_state" where
  "createStream now i kind s =
     (let n = hv_nextStreamOrdinal s + 1;
          st = appendPrimingEvent (hv_options s)
            \<lparr>st_streamId = CHR ''s'' # to_string_nat n, st_sessionId = i, st_kind = kind, st_nextCursor = 1,
             st_openedAt = now, st_terminated = False, st_events = []\<rparr>
      in (put_stream st (s\<lparr>hv_nextStreamOrdinal := n, hv_streamOrder := hv_streamOrder s @ [st_streamId st]\<rparr>), st))"

definition replayFromCursor :: "nat \<Rightarrow> stream_event list \<Rightarrow> sse_event list" where
  "replayFromCursor cursor records = map sx_event (filter (\<lambda>r. sx_cursor r > cursor) records)"

fun isResponseMessage :: "message \<Rightarrow> bool" where
  "isResponseMessage (MSuccess _) = True"
| "isResponseMessage (MError _) = True"
| "isResponseMessage _ = False"

text \<open>
  \<open>chooseTargetStream\<close> walks over the streams in the order of their creation and terminates the
  expired ones it meets before it stops. The result is the id of the stream.
\<close>

fun choose_stream ::
  "int \<Rightarrow> string option \<Rightarrow> bool \<Rightarrow> string option \<Rightarrow> string list \<Rightarrow> http_server \<Rightarrow> http_server \<times> string option" where
  "choose_stream now i toPost fallback [] s = (s, if toPost then None else fallback)"
| "choose_stream now i toPost fallback (sid # sids) s =
     (case map_of (hv_streams s) sid of
        None \<Rightarrow> choose_stream now i toPost fallback sids s
      | Some st0 \<Rightarrow>
          let expired = isStreamExpired (hv_options s) now st0;
              st = (if expired then st0\<lparr>st_terminated := True\<rparr> else st0);
              s' = (if expired then s\<lparr>hv_streams := umap_put sid st (hv_streams s)\<rparr> else s)
          in
          if st_terminated st \<or> st_sessionId st \<noteq> i then choose_stream now i toPost fallback sids s'
          else if toPost then
            (if st_kind st = PostStream then (s', Some sid) else choose_stream now i toPost fallback sids s')
          else if st_kind st = GetStream then (s', Some sid)
          else choose_stream now i toPost (if fallback = None then Some sid else fallback) sids s')"

definition chooseTargetStream :: "int \<Rightarrow> string option \<Rightarrow> message \<Rightarrow> http_server \<Rightarrow> http_server \<times> string option" where
  "chooseTargetStream now i m s = choose_stream now i (isResponseMessage m) None (hv_streamOrder s) s"

text \<open>The pending messages of a session, up to an exception; messages that are too long are lost.\<close>

fun append_all :: "http_env \<Rightarrow> http_options \<Rightarrow> message list \<Rightarrow> stream_state \<Rightarrow> stream_state \<times> string option" where
  "append_all env opts [] st = (st, None)"
| "append_all env opts (m # ms) st =
     (case appendMessageEvent env opts m st of
        Inl e \<Rightarrow> (st, Some e) | Inr (st', _) \<Rightarrow> append_all env opts ms st')"

definition emitPendingMessages ::
  "http_env \<Rightarrow> stream_state \<Rightarrow> http_server \<Rightarrow> http_server \<times> (string + stream_state)" where
  "emitPendingMessages env st s =
     (let key = sessionKey (st_sessionId st) in
      case map_of (hv_pending s) key of
        None \<Rightarrow> (s, Inr st)
      | Some ms \<Rightarrow>
          (case append_all env (hv_options s) ms st of
             (st', Some e) \<Rightarrow> (put_stream st' s, Inl e)
           | (st', None) \<Rightarrow> (put_stream st' (s\<lparr>hv_pending := umap_erase key (hv_pending s)\<rparr>), Inr st')))"

definition enqueueServerMessage ::
  "http_env \<Rightarrow> int \<Rightarrow> message \<Rightarrow> string option \<Rightarrow> http_server \<Rightarrow> http_server \<times> (string + bool)" where
  "enqueueServerMessage env now m i s0 =
     (case chooseTargetStream now i m s0 of
        (s, Some sid) \<Rightarrow>
          let st = the (map_of (hv_streams s) sid) in
          (case appendMessageEvent env (hv_options s) m st of
             Inl e \<Rightarrow> (s, Inl e)
           | Inr (_, False) \<Rightarrow> (s, Inr False)
           | Inr (st', True) \<Rightarrow>
               (s\<lparr>hv_streams := umap_put sid
                  (if isResponseMessage m \<and> st_kind st' = PostStream then st'\<lparr>st_terminated := True\<rparr> else st')
                  (hv_streams s)\<rparr>, Inr True))
      | (s, None) \<Rightarrow>
          let key = sessionKey i;
              waiting = (case map_of (hv_pending s) key of None \<Rightarrow> [] | Some ms \<Rightarrow> ms);
              s' = (if map_of (hv_pending s) key = None then s\<lparr>hv_pending := umap_put key [] (hv_pending s)\<rparr> else s)
          in
          if length waiting \<ge> ho_maxSseBufferedMessages (hv_options s) then (s', Inr False)
          else (s'\<lparr>hv_pending := umap_put key (waiting @ [m]) (hv_pending s')\<rparr>, Inr True))"

section \<open>Answers\<close>

text \<open>The printer cannot fail on this message, so there is always a body.\<close>

definition makeJsonRpcErrorBody :: "http_env \<Rightarrow> string \<Rightarrow> string" where
  "makeJsonRpcErrorBody env msg =
     (case http_serialize env (MError (makeUnknownIdErrorResponse (makeInvalidRequestError None msg))) of
        Inr body \<Rightarrow> body | Inl _ \<Rightarrow> [])"

lemma makeJsonRpcErrorBody_total:
  "\<exists>body. http_serialize env (MError (makeUnknownIdErrorResponse (makeInvalidRequestError None msg))) = Inr body"
  by (simp add: http_serialize_def serializeMessage_def makeUnknownIdErrorResponse_def makeInvalidRequestError_def
      makeJsonRpcError_def errorResponseToJson_def ensureJsonRpcVersionField_def
      ensureAdditionalPropertiesObject_def bindE_def split: sum.split)

definition json_error :: "http_env \<Rightarrow> nat \<Rightarrow> string \<Rightarrow> server_response" where
  "json_error env status msg = jsonResponse status (makeJsonRpcErrorBody env msg)"

definition event_stream :: "sse_event list \<Rightarrow> sse_stream_response option \<Rightarrow> server_response" where
  "event_stream es sse =
     \<lparr>hr_statusCode = 200, hr_headers = setHeader kHeaderContentType ''text/event-stream'' [],
      hr_body = encodeEvents es, hr_sse = sse\<rparr>"

definition sseResponse :: "stream_state \<Rightarrow> sse_event list \<Rightarrow> bool \<Rightarrow> server_response" where
  "sseResponse st es terminate =
     event_stream es (Some \<lparr>ss_streamId = st_streamId st, ss_events = es, ss_terminateStream = terminate\<rparr>)"

definition legacySseResponse :: "sse_event list \<Rightarrow> server_response" where
  "legacySseResponse es = event_stream es None"

definition makeRetryGuidanceEvent :: "uint32 \<Rightarrow> sse_event" where
  "makeRetryGuidanceEvent ms = empty_event\<lparr>sse_retry := Some ms\<rparr>"

definition rejectValidation :: "http_env \<Rightarrow> request_validation_result \<Rightarrow> server_response" where
  "rejectValidation env v =
     (if rr_reason v = [] then statusResponse (rr_statusCode v) else json_error env (rr_statusCode v) (rr_reason v))"

definition normalizeContentType :: "string \<Rightarrow> string" where
  "normalizeContentType t =
     (let n = toLowerAscii t in
      trimAsciiWhitespace (case find_char (CHR '';'') n of Some i \<Rightarrow> take i n | None \<Rightarrow> n))"

definition toRequestContext :: "request_validation_result \<Rightarrow> request_context" where
  "toRequestContext v =
     \<lparr>rc_protocol_version = rr_effectiveProtocolVersion v, rc_session_id = rr_sessionId v,
      rc_auth_context = map_option oc_taskIsolationKey (rr_authorizationContext v)\<rparr>"

definition isInitializeRequest :: "message \<Rightarrow> bool" where
  "isInitializeRequest m = (case m of MRequest r \<Rightarrow> rq_method r = ''initialize'' | _ \<Rightarrow> False)"

definition extractProtocolVersionFromInitializeResult :: "json \<Rightarrow> string option" where
  "extractProtocolVersionFromInitializeResult result =
     (case get_string result ''protocolVersion'' of
        None \<Rightarrow> None | Some v \<Rightarrow> if isValidProtocolVersion v then Some v else None)"

definition http_validate ::
  "http_server \<Rightarrow> server_request \<Rightarrow> RequestKind \<Rightarrow> bool \<Rightarrow> request_validation_result" where
  "http_validate s req kind sessionRequired =
     validateServerRequest (hq_headers req)
       \<lparr>vo_requestKind = kind, vo_sessionRequired = sessionRequired,
        vo_supportedProtocolVersions = ho_supportedProtocolVersions (hv_options s),
        vo_inferredProtocolVersion = None, vo_originPolicy = ho_originPolicy (hv_options s),
        vo_sessionResolver = Some (sessionResolver s)\<rparr>"

text \<open>Validation and authorization: the refusal, or the validation result.\<close>

definition admit ::
  "http_env \<Rightarrow> http_server \<Rightarrow> server_request \<Rightarrow> RequestKind \<Rightarrow> bool \<Rightarrow> server_response + request_validation_result" where
  "admit env s req kind sessionRequired =
     (let v = http_validate s req kind sessionRequired in
      if \<not> rr_accepted v then Inl (rejectValidation env v) else authorizeRequest (hv_authorization s) req v)"

section \<open>POST\<close>

record streamable_result =
  sz_preResponseMessages :: "message list"
  sz_response :: "response option"
  sz_useSse :: bool
  sz_terminateSseAfterResponse :: bool
  sz_closeSseConnection :: bool
  sz_retryMilliseconds :: "uint32 option"

text \<open>A handler that is called with the lock released.\<close>

datatype http_call =
    NotificationCall request_context notification
  | ResponseCall request_context response
  | RequestCall request_context request request_validation_result "string option"

datatype post_step = Answers server_response | Calls http_call

definition post_accepted :: "http_env \<Rightarrow> string \<Rightarrow> bool \<Rightarrow> server_response" where
  "post_accepted env what accepted =
     (if accepted then statusResponse 202 else json_error env 400 (what @ '' was rejected by server policy''))"

definition handlePost_begin :: "http_env \<Rightarrow> nat list \<Rightarrow> server_request \<Rightarrow> http_server \<Rightarrow> post_step" where
  "handlePost_begin env random req s =
     (case getHeader (hq_headers req) kHeaderContentType of
        None \<Rightarrow> Answers (json_error env 400 ''Missing required Content-Type header. Expected application/json.'')
      | Some contentType \<Rightarrow>
          if normalizeContentType contentType \<noteq> ''application/json''
          then Answers (json_error env 400 ''Invalid Content-Type header. Expected application/json.'')
          else if length (hq_body req) > ho_maxMessageSizeBytes (hv_options s)
          then Answers (json_error env 400 ''Request body exceeds configured max message size.'')
          else
            (case http_parse env (hq_body req) of
               Inl e \<Rightarrow> Answers (json_error env 400 (''Invalid JSON-RPC message: '' @ e))
             | Inr m \<Rightarrow>
                 let kind = (if isInitializeRequest m then kInitialize else kOther);
                     required = ho_requireSessionId (hv_options s)
                 in
                 (case admit env s req kind required of
                    Inl refusal \<Rightarrow> Answers refusal
                  | Inr v \<Rightarrow>
                      let generated = (if kind = kInitialize \<and> required then Some (generateSessionId random) else None);
                          ctx0 = toRequestContext v;
                          ctx = (if generated = None then ctx0 else ctx0\<lparr>rc_session_id := generated\<rparr>)
                      in
                      (case m of
                         MNotification n \<Rightarrow>
                           if hv_notificationHandler s then Calls (NotificationCall ctx n)
                           else Answers (post_accepted env ''Notification'' True)
                       | MSuccess r \<Rightarrow>
                           if hv_responseHandler s then Calls (ResponseCall ctx (RSuccess r))
                           else Answers (post_accepted env ''Response'' True)
                       | MError r \<Rightarrow>
                           if hv_responseHandler s then Calls (ResponseCall ctx (RError r))
                           else Answers (post_accepted env ''Response'' True)
                       | MRequest r \<Rightarrow> Calls (RequestCall ctx r v generated)))))"

text \<open>The messages before the response, until one is too long (\<open>Some False\<close>) or cannot be printed.\<close>

fun append_until ::
  "http_env \<Rightarrow> http_options \<Rightarrow> message list \<Rightarrow> stream_state \<Rightarrow> stream_state \<times> (string + bool)" where
  "append_until env opts [] st = (st, Inr True)"
| "append_until env opts (m # ms) st =
     (case appendMessageEvent env opts m st of
        Inl e \<Rightarrow> (st, Inl e)
      | Inr (st', False) \<Rightarrow> (st', Inr False)
      | Inr (st', True) \<Rightarrow> append_until env opts ms st')"

text \<open>The version that a successful response to initialize names, for a session with a new id.\<close>

definition initialized_version :: "string option \<Rightarrow> response option \<Rightarrow> (string \<times> string) option" where
  "initialized_version generated resp =
     (case (generated, resp) of
        (Some i, Some (RSuccess r)) \<Rightarrow>
          map_option (Pair i) (extractProtocolVersionFromInitializeResult (sr_result r))
      | _ \<Rightarrow> None)"

definition open_session :: "(string \<times> string) option \<Rightarrow> http_server \<Rightarrow> http_server" where
  "open_session iv s = (case iv of Some (i, v) \<Rightarrow> http_upsertSession i kActive (Some v) s | None \<Rightarrow> s)"

definition name_session :: "(string \<times> string) option \<Rightarrow> server_response \<Rightarrow> server_response" where
  "name_session iv resp =
     (case iv of
        Some (i, _) \<Rightarrow> resp\<lparr>hr_headers := setHeader kHeaderMcpSessionId i (hr_headers resp)\<rparr> | None \<Rightarrow> resp)"

text \<open>A response in one JSON body.\<close>

definition post_json_end ::
  "http_env \<Rightarrow> string option \<Rightarrow> response option \<Rightarrow> http_server \<Rightarrow> http_server \<times> (string + server_response)" where
  "post_json_end env generated resp s =
     (case resp of
        None \<Rightarrow> (s, Inr (json_error env 500 ''Request handler did not return a response''))
      | Some r \<Rightarrow>
          let iv = initialized_version generated resp in
          (open_session iv s,
           bindE (http_serialize env (message_of_response r)) (\<lambda>body. Inr (name_session iv (jsonResponse 200 body)))))"

text \<open>A response, and the messages before it, on a new stream.\<close>

definition post_sse_end ::
  "http_env \<Rightarrow> int \<Rightarrow> request_validation_result \<Rightarrow> string option \<Rightarrow> streamable_result \<Rightarrow> http_server \<Rightarrow>
   http_server \<times> (string + server_response)" where
  "post_sse_end env now v generated res s0 =
     (let opts = hv_options s0; (s, st0) = createStream now (rr_sessionId v) PostStream s0 in
      case append_until env opts (sz_preResponseMessages res) st0 of
        (st, Inl e) \<Rightarrow> (put_stream st s, Inl e)
      | (st, Inr False) \<Rightarrow>
          (put_stream (st\<lparr>st_terminated := True\<rparr>) s,
           Inr (json_error env 400 ''SSE message exceeds configured max message size.''))
      | (st1, Inr True) \<Rightarrow>
          (case (case sz_response res of
                   None \<Rightarrow> Inr (st1, True)
                 | Some r \<Rightarrow> map_sum id (\<lambda>(st, ok).
                     (if ok \<and> \<not> sz_terminateSseAfterResponse res then st else st\<lparr>st_terminated := True\<rparr>, ok))
                     (appendMessageEvent env opts (message_of_response r) st1)) of
             Inl e \<Rightarrow> (put_stream st1 s, Inl e)
           | Inr (st, False) \<Rightarrow>
               (put_stream st s, Inr (json_error env 400 ''SSE response exceeds configured max message size.''))
           | Inr (st, True) \<Rightarrow>
               let iv = initialized_version generated (sz_response res);
                   events = replayFromCursor 0 (st_events st) @
                     (case sz_retryMilliseconds res of
                        Some ms \<Rightarrow> if sz_closeSseConnection res \<and> \<not> st_terminated st then [makeRetryGuidanceEvent ms] else []
                      | None \<Rightarrow> [])
               in (open_session iv (put_stream st s),
                   Inr (name_session iv (sseResponse st events (st_terminated st))))))"

definition post_request_end ::
  "http_env \<Rightarrow> int \<Rightarrow> request_validation_result \<Rightarrow> string option \<Rightarrow> streamable_result \<Rightarrow> http_server \<Rightarrow>
   http_server \<times> (string + server_response)" where
  "post_request_end env now v generated res s =
     (if sz_useSse res \<or> sz_preResponseMessages res \<noteq> [] then post_sse_end env now v generated res s
      else post_json_end env generated (sz_response res) s)"

text \<open>The result when no request handler is set.\<close>

definition no_handler_result :: "request \<Rightarrow> streamable_result" where
  "no_handler_result r =
     \<lparr>sz_preResponseMessages = [],
      sz_response = Some (error_reply (makeMethodNotFoundError None ''Method not found'') (rq_id r)),
      sz_useSse = False, sz_terminateSseAfterResponse = True, sz_closeSseConnection = False,
      sz_retryMilliseconds = None\<rparr>"

text \<open>What the handler does: it accepts or not, returns a result, or throws.\<close>

datatype handler_outcome = Accepts bool | Result streamable_result | Raises string

definition handlePost_end ::
  "http_env \<Rightarrow> int \<Rightarrow> http_call \<Rightarrow> handler_outcome \<Rightarrow> http_server \<Rightarrow> http_server \<times> (string + server_response)" where
  "handlePost_end env now call outcome s =
     (case (call, outcome) of
        (_, Raises e) \<Rightarrow> (s, Inl e)
      | (NotificationCall _ _, Accepts b) \<Rightarrow> (s, Inr (post_accepted env ''Notification'' b))
      | (ResponseCall _ _, Accepts b) \<Rightarrow> (s, Inr (post_accepted env ''Response'' b))
      | (RequestCall _ r v generated, Result res) \<Rightarrow>
          post_request_end env now v generated res s
      | _ \<Rightarrow> (s, Inl ''ill-typed outcome''))"

section \<open>GET and DELETE\<close>

definition handleGet :: "http_env \<Rightarrow> int \<Rightarrow> server_request \<Rightarrow> http_server \<Rightarrow> http_server \<times> (string + server_response)" where
  "handleGet env now req s =
     (let opts = hv_options s;
          guidance = (\<lambda>st. case ho_defaultSseRetry opts of
             Some ms \<Rightarrow> if \<not> st_terminated st then [makeRetryGuidanceEvent ms] else [] | None \<Rightarrow> []);
          outside = json_error env 409 ''Last-Event-ID is outside the retained SSE buffer window.''
      in
      if \<not> ho_allowGetSse opts then (s, Inr (statusResponse 405))
      else
        (case admit env s req kOther (ho_requireSessionId opts) of
           Inl refusal \<Rightarrow> (s, Inr refusal)
         | Inr v \<Rightarrow>
             (case getHeader (hq_headers req) kHeaderLastEventId of
                None \<Rightarrow>
                  (case createStream now (rr_sessionId v) GetStream s of
                     (s1, st) \<Rightarrow>
                       (case emitPendingMessages env st s1 of
                          (s2, Inl e) \<Rightarrow> (s2, Inl e)
                        | (s2, Inr st') \<Rightarrow>
                            (s2, Inr (sseResponse st' (replayFromCursor 0 (st_events st') @ guidance st') False))))
              | Some lastEventId \<Rightarrow>
                  (case parseEventId lastEventId of
                     None \<Rightarrow> (s, Inr (json_error env 400 ''Invalid Last-Event-ID''))
                   | Some ec \<Rightarrow>
                       (case map_of (hv_streams s) (ec_streamId ec) of
                          None \<Rightarrow> (s, Inr (statusResponse 404))
                        | Some st \<Rightarrow>
                            if isStreamExpired opts now st
                            then (put_stream (st\<lparr>st_terminated := True\<rparr>) s, Inr (statusResponse 404))
                            else if st_sessionId st \<noteq> rr_sessionId v then (s, Inr (statusResponse 404))
                            else if st_events st \<noteq> []
                              \<and> (ec_cursor ec + 1) mod 2 ^ 64 < sx_cursor (hd (st_events st))
                            then (s, Inr outside)
                            else (s, Inr (sseResponse st
                                (replayFromCursor (ec_cursor ec) (st_events st) @ guidance st) (st_terminated st))))))))"

definition handleDelete :: "http_env \<Rightarrow> server_request \<Rightarrow> http_server \<Rightarrow> http_server \<times> (string + server_response)" where
  "handleDelete env req s =
     (if \<not> ho_allowDeleteSession (hv_options s) then (s, Inr (statusResponse 405))
      else
        (case admit env s req kOther True of
           Inl refusal \<Rightarrow> (s, Inr refusal)
         | Inr v \<Rightarrow>
             (case rr_sessionId v of
                None \<Rightarrow> (s, Inr (json_error env 400 ''Missing required MCP-Session-Id''))
              | Some i \<Rightarrow>
                  (case map_of (hv_sessions s) i of
                     None \<Rightarrow> (s, Inr (statusResponse 404))
                   | Some res \<Rightarrow>
                       (s\<lparr>hv_sessions := umap_put i (res\<lparr>sr_state := kTerminated\<rparr>) (hv_sessions s),
                          hv_streams := map (\<lambda>(k, st). (k, if st_sessionId st = Some i then st\<lparr>st_terminated := True\<rparr>
                            else st)) (hv_streams s),
                          hv_pending := umap_erase i (hv_pending s),
                          hv_legacy := umap_erase i (hv_legacy s)\<rparr>,
                        Inr (statusResponse 204))))))"

section \<open>Legacy HTTP+SSE\<close>

definition legacySessionIdForRequest :: "server_request \<Rightarrow> string option" where
  "legacySessionIdForRequest req =
     (case getHeader (hq_headers req) kHeaderMcpSessionId of
        None \<Rightarrow> None
      | Some header \<Rightarrow> let i = trimAsciiWhitespace header in if isValidSessionId i then Some i else None)"

definition makeLegacyMessageEvent :: "string \<Rightarrow> string \<Rightarrow> sse_event" where
  "makeLegacyMessageEvent i data = empty_event\<lparr>sse_name := Some ''message'', sse_id := Some i, sse_data := data\<rparr>"

definition makeLegacyEndpointEvent :: "string \<Rightarrow> sse_event" where
  "makeLegacyEndpointEvent uri = empty_event\<lparr>sse_name := Some ''endpoint'', sse_data := uri\<rparr>"

definition appendLegacyMessage ::
  "http_env \<Rightarrow> string option \<Rightarrow> message \<Rightarrow> http_server \<Rightarrow> http_server \<times> (string + bool)" where
  "appendLegacyMessage env i m s =
     (case http_serialize env m of
        Inl e \<Rightarrow> (s, Inl e)
      | Inr data \<Rightarrow>
          if length data > ho_maxMessageSizeBytes (hv_options s) then (s, Inr False)
          else
            let key = sessionKey i;
                buffer = (case map_of (hv_legacy s) key of
                  None \<Rightarrow> \<lparr>lb_nextCursor = 1, lb_events = []\<rparr> | Some b \<Rightarrow> b);
                cursor = lb_nextCursor buffer;
                record = \<lparr>sx_cursor = cursor, sx_event = makeLegacyMessageEvent (to_string_nat cursor) data\<rparr>;
                events = keep_newest (ho_maxSseBufferedMessages (hv_options s)) (lb_events buffer @ [record])
            in (s\<lparr>hv_legacy := umap_put key \<lparr>lb_nextCursor = cursor + 1, lb_events = events\<rparr> (hv_legacy s)\<rparr>,
                Inr (events \<noteq> [])))"

text \<open>An exception of the parser or the printer counts as a failure.\<close>

fun append_legacy_texts ::
  "http_env \<Rightarrow> string option \<Rightarrow> string list \<Rightarrow> http_server \<Rightarrow> http_server \<times> bool" where
  "append_legacy_texts env i [] s = (s, True)"
| "append_legacy_texts env i (t # ts) s =
     (if t = [] then append_legacy_texts env i ts s
      else
        (case http_parse env t of
           Inl _ \<Rightarrow> (s, False)
         | Inr m \<Rightarrow>
             (case appendLegacyMessage env i m s of
                (s', Inr True) \<Rightarrow> append_legacy_texts env i ts s'
              | (s', _) \<Rightarrow> (s', False))))"

definition appendLegacyMessagesFromResponse ::
  "http_env \<Rightarrow> string option \<Rightarrow> server_response \<Rightarrow> http_server \<Rightarrow> http_server \<times> bool" where
  "appendLegacyMessagesFromResponse env i resp s =
     (if hr_statusCode resp \<noteq> 200 then (s, True)
      else
        (case hr_sse resp of
           Some sse \<Rightarrow> append_legacy_texts env i (map sse_data (ss_events sse)) s
         | None \<Rightarrow> append_legacy_texts env i [hr_body resp] s))"

definition propagate_header :: "string \<Rightarrow> server_response \<Rightarrow> server_response \<Rightarrow> server_response" where
  "propagate_header name source target =
     (case getHeader (hr_headers source) name of
        Some v \<Rightarrow> target\<lparr>hr_headers := setHeader name v (hr_headers target)\<rparr> | None \<Rightarrow> target)"

definition propagateSessionAndProtocolHeaders :: "server_response \<Rightarrow> server_response \<Rightarrow> server_response" where
  "propagateSessionAndProtocolHeaders source target =
     propagate_header kHeaderMcpProtocolVersion source (propagate_header kHeaderMcpSessionId source target)"

text \<open>The rest of \<open>handleLegacyPost\<close> once the request has been handled as a POST.\<close>

definition legacy_answer ::
  "http_env \<Rightarrow> server_request \<Rightarrow> http_server \<times> (string + server_response) \<Rightarrow>
   http_server \<times> (string + server_response)" where
  "legacy_answer env req outcome =
     (case outcome of
        (s, Inl e) \<Rightarrow> (s, Inl e)
      | (s, Inr modern) \<Rightarrow>
          if hr_statusCode modern \<ge> 400 then (s, Inr modern)
          else
            (case appendLegacyMessagesFromResponse env (legacySessionIdForRequest req) modern s of
               (s', False) \<Rightarrow>
                 (s', Inr (json_error env 400 ''Legacy SSE response exceeds configured message limits.''))
             | (s', True) \<Rightarrow> (s', Inr (propagateSessionAndProtocolHeaders modern (statusResponse 202)))))"

definition handleLegacyGet :: "http_env \<Rightarrow> server_request \<Rightarrow> http_server \<Rightarrow> http_server \<times> (string + server_response)" where
  "handleLegacyGet env req s =
     (case admit env s req kOther (ho_requireSessionId (hv_options s)) of
        Inl refusal \<Rightarrow> (s, Inr refusal)
      | Inr v \<Rightarrow>
          let given = getHeader (hq_headers req) kHeaderLastEventId;
              parsed = (case given of None \<Rightarrow> Some 0 | Some h \<Rightarrow> parseLegacyCursorValue h)
          in
          (case parsed of
             None \<Rightarrow> (s, Inr (json_error env 400 ''Invalid Last-Event-ID''))
           | Some cursor \<Rightarrow>
               let key = sessionKey (rr_sessionId v);
                   buffer = (case map_of (hv_legacy s) key of
                     None \<Rightarrow> \<lparr>lb_nextCursor = 1, lb_events = []\<rparr> | Some b \<Rightarrow> b);
                   s' = s\<lparr>hv_legacy := umap_put key buffer (hv_legacy s)\<rparr>
               in
               if given \<noteq> None \<and> lb_events buffer \<noteq> []
                 \<and> cursor < sx_cursor (hd (lb_events buffer)) \<and> cursor \<noteq> sx_cursor (hd (lb_events buffer)) - 1
               then (s', Inr (json_error env 409 ''Last-Event-ID is outside the retained SSE buffer window.''))
               else (s', Inr (legacySseResponse
                 ((if given = None then [makeLegacyEndpointEvent (hv_legacyPostPath s)] else [])
                  @ replayFromCursor cursor (lb_events buffer))))))"

section \<open>Routing\<close>

text \<open>A request is done, or waits for a handler; \<open>True\<close> marks a legacy POST.\<close>

datatype http_step = Done "string + server_response" | Waits bool http_call

definition post_route ::
  "http_env \<Rightarrow> int \<Rightarrow> nat list \<Rightarrow> bool \<Rightarrow> server_request \<Rightarrow> http_server \<Rightarrow> http_server \<times> http_step" where
  "post_route env now random legacy req s =
     (let finish = (\<lambda>outcome. case (if legacy then legacy_answer env req outcome else outcome) of (s', r) \<Rightarrow> (s', Done r))
      in
      case handlePost_begin env random req s of
        Answers resp \<Rightarrow> finish (s, Inr resp)
      | Calls (RequestCall ctx r v generated) \<Rightarrow>
          if hv_requestHandler s then (s, Waits legacy (RequestCall ctx r v generated))
          else finish (post_request_end env now v generated (no_handler_result r) s)
      | Calls call \<Rightarrow> (s, Waits legacy call))"

definition handleRequest_begin ::
  "http_env \<Rightarrow> int \<Rightarrow> nat list \<Rightarrow> server_request \<Rightarrow> http_server \<Rightarrow> http_server \<times> http_step" where
  "handleRequest_begin env now random req s =
     (let finish = (\<lambda>(s', r). (s', Done r)); status = (\<lambda>code. (s, Done (Inr (statusResponse code)))) in
      case handleProtectedResourceMetadataRequest (hv_authorization s) req of
        Some resp \<Rightarrow> (s, Done (Inr resp))
      | None \<Rightarrow>
          if ho_legacyEnabled (hv_options s) \<and> hq_path req = hv_legacySsePath s then
            (if hq_method req = kGet then finish (handleLegacyGet env req s) else status 405)
          else if ho_legacyEnabled (hv_options s) \<and> hq_path req = hv_legacyPostPath s then
            (if hq_method req = kPost then post_route env now random True req s else status 405)
          else if hq_path req \<noteq> ho_path (hv_options s) then status 404
          else
            (case hq_method req of
               kPost \<Rightarrow> post_route env now random False req s
             | kGet \<Rightarrow> finish (handleGet env now req s)
             | kDelete \<Rightarrow> finish (handleDelete env req s)))"

definition handleRequest_end ::
  "http_env \<Rightarrow> int \<Rightarrow> server_request \<Rightarrow> bool \<Rightarrow> http_call \<Rightarrow> handler_outcome \<Rightarrow> http_server \<Rightarrow>
   http_server \<times> (string + server_response)" where
  "handleRequest_end env now req legacy call outcome s =
     (let result = handlePost_end env now call outcome s in
      if legacy then legacy_answer env req result else result)"

end
