(* ===== verification/HttpSpec.thy ===== *)
theory HttpSpec
  imports HttpServer "HOL-Library.Sublist"
begin

text \<open>
  What the HTTP server promises: its streams keep consecutive events, resumption neither skips nor
  repeats one, a message for the client goes to one place, handlers see admitted requests only, and
  sessions begin and end as the headers say.
\<close>

section \<open>Streams\<close>

definition stream_name :: "nat \<Rightarrow> string" where
  "stream_name n = CHR ''s'' # to_string_nat n"

lemma stream_name_inject [simp]: "stream_name m = stream_name n \<longleftrightarrow> m = n"
  by (simp add: stream_name_def)

lemma digit_visible: "is_digit c \<Longrightarrow> 0x21 \<le> byte c \<and> byte c \<le> 0x7E"
  by (auto simp: is_digit_def)

lemma stream_name_valid: "isVisibleAscii (stream_name n) \<and> CHR '':'' \<notin> set (stream_name n)"
proof -
  have "0x21 \<le> byte c \<and> byte c \<le> 0x7E \<and> c \<noteq> CHR '':''" if "c \<in> set (to_string_nat n)" for c
    using to_string_nat_digits [OF that] digit_visible colon_no_digit by blast
  moreover have "byte (CHR ''s'') = 115" by (simp add: byte_def)
  ultimately show ?thesis by (auto simp: isVisibleAscii_def stream_name_def list_all_iff)
qed

text \<open>
  The abstract view of a stream: a log that belongs to a session, only grows at its end, and is final
  once it is closed.
\<close>

record stream_log =
  sl_session :: "string option"
  sl_kind :: StreamKind
  sl_closed :: bool
  sl_events :: "sse_event list"

definition advances :: "stream_log \<Rightarrow> stream_log \<Rightarrow> bool" where
  "advances a b \<longleftrightarrow> sl_session b = sl_session a \<and> sl_kind b = sl_kind a \<and> prefix (sl_events a) (sl_events b)
     \<and> (sl_closed a \<longrightarrow> b = a)"

lemma advances_refl [simp]: "advances a a"
  by (simp add: advances_def)

lemma advances_trans: "advances a b \<Longrightarrow> advances b c \<Longrightarrow> advances a c"
  by (auto simp: advances_def)

text \<open>
  A stream keeps the newest events of its log, numbered from one, under ids of the stream.
\<close>

definition numbered :: "sse_event list \<Rightarrow> stream_event list" where
  "numbered es = map (\<lambda>k. \<lparr>sx_cursor = k + 1, sx_event = es ! k\<rparr>) [0 ..< length es]"

definition keeps :: "nat \<Rightarrow> stream_log \<Rightarrow> stream_state \<Rightarrow> bool" where
  "keeps limit a st \<longleftrightarrow> st_sessionId st = sl_session a \<and> st_kind st = sl_kind a \<and> st_terminated st = sl_closed a
     \<and> st_nextCursor st = length (sl_events a) + 1 \<and> st_events st = keep_newest limit (numbered (sl_events a))
     \<and> (\<forall>k < length (sl_events a). sse_id (sl_events a ! k) = Some (makeEventId (st_streamId st) (k + 1)))"

lemma numbered_length [simp]: "length (numbered es) = length es"
  by (simp add: numbered_def)

lemma numbered_snoc: "numbered (es @ [e]) = numbered es @ [\<lparr>sx_cursor = length es + 1, sx_event = e\<rparr>]"
  by (simp add: numbered_def nth_append)

lemma keep_newest_again: "keep_newest limit (keep_newest limit xs @ [x]) = keep_newest limit (xs @ [x])"
  by (auto simp: keep_newest_def Suc_diff_le)

lemma replay_numbered: "map sx_event (filter (\<lambda>r. sx_cursor r > c) (drop k (numbered es))) = drop (max k c) es"
proof -
  have "filter (\<lambda>i. c < Suc i) [k ..< n] = [max k c ..< n]" for n
    by (induction n) auto
  moreover have "map ((!) es) [j ..< length es] = drop j es" for j
    by (rule nth_equalityI) simp_all
  ultimately show ?thesis by (simp add: numbered_def drop_map filter_map comp_def)
qed

lemma keep_newest_drop: "0 < limit \<Longrightarrow> keep_newest limit xs = drop (length xs - limit) xs"
  by (simp add: keep_newest_def)

definition event_in :: "stream_state \<Rightarrow> string \<Rightarrow> sse_event" where
  "event_in st data = makeEvent (makeEventId (st_streamId st) (st_nextCursor st)) data"

lemma append_event_keeps:
  assumes "keeps (ho_maxSseBufferedMessages opts) a st"
  shows "keeps (ho_maxSseBufferedMessages opts) (a\<lparr>sl_events := sl_events a @ [event_in st data]\<rparr>) (append_event opts data st)"
  using assms
  by (auto simp: keeps_def append_event_def applySseBufferLimit_def Let_def keep_newest_again numbered_snoc
      event_in_def nth_append makeEvent_def less_Suc_eq)

lemma append_event_frame [simp]:
  "st_streamId (append_event opts data st) = st_streamId st" "st_sessionId (append_event opts data st) = st_sessionId st"
  "st_kind (append_event opts data st) = st_kind st" "st_terminated (append_event opts data st) = st_terminated st"
  "st_openedAt (append_event opts data st) = st_openedAt st"
  by (simp_all add: append_event_def applySseBufferLimit_def Let_def)

lemma appendMessageEvent_cases:
  obtains (fails) e where "appendMessageEvent env opts m st = Inl e"
  | (long) "appendMessageEvent env opts m st = Inr (st, False)"
  | (appended) data where "http_serialize env m = Inr data" "length data \<le> ho_maxMessageSizeBytes opts"
      "appendMessageEvent env opts m st = Inr (append_event opts data st, True)"
proof (cases "http_serialize env m")
  case (Inl e)
  then show ?thesis by (intro fails) (simp add: appendMessageEvent_def)
next
  case (Inr data)
  then show ?thesis
    by (cases "length data > ho_maxMessageSizeBytes opts") (simp_all add: long appended appendMessageEvent_def)
qed

text \<open>A state of a stream that may follow another one: the log advances.\<close>

definition grows :: "nat \<Rightarrow> stream_state \<Rightarrow> stream_state \<Rightarrow> bool" where
  "grows limit st st' \<longleftrightarrow> st_streamId st' = st_streamId st
     \<and> (\<forall>a. keeps limit a st \<longrightarrow> (\<exists>b. advances a b \<and> keeps limit b st'))"

lemma grows_refl [simp]: "grows limit st st"
  by (auto simp: grows_def intro: advances_refl)

lemma grows_trans: "grows limit a b \<Longrightarrow> grows limit b c \<Longrightarrow> grows limit a c"
  unfolding grows_def by (metis advances_trans)

lemma grows_end [simp]: "grows limit st (st\<lparr>st_terminated := True\<rparr>)"
proof -
  have "keeps limit a st \<Longrightarrow> advances a (a\<lparr>sl_closed := True\<rparr>) \<and> keeps limit (a\<lparr>sl_closed := True\<rparr>) (st\<lparr>st_terminated := True\<rparr>)"
    for a by (cases a) (auto simp: keeps_def advances_def)
  then show ?thesis by (auto simp: grows_def)
qed

lemma grows_append:
  assumes "\<not> st_terminated st" and "ho_maxSseBufferedMessages opts = limit"
  shows "grows limit st (append_event opts data st)"
proof -
  have "advances a (a\<lparr>sl_events := sl_events a @ [event_in st data]\<rparr>)" if "keeps limit a st" for a
    using that assms(1) by (simp add: advances_def keeps_def)
  with append_event_keeps [of opts _ st data] assms(2) show ?thesis
    unfolding grows_def by fastforce
qed

lemma appendMessageEvent_grows:
  "appendMessageEvent env opts m st = Inr (st', ok) \<Longrightarrow> \<not> st_terminated st \<Longrightarrow>
     grows (ho_maxSseBufferedMessages opts) st st' \<and> \<not> st_terminated st'"
  by (cases rule: appendMessageEvent_cases [of env opts m st]) (auto simp: grows_append)

lemma append_all_grows:
  "\<not> st_terminated st \<Longrightarrow> grows (ho_maxSseBufferedMessages opts) st (fst (append_all env opts ms st))"
proof (induction ms arbitrary: st)
  case (Cons m ms)
  show ?case
  proof (cases "appendMessageEvent env opts m st")
    case (Inr p)
    obtain st' ok where p: "p = (st', ok)" by (cases p)
    have g: "grows (ho_maxSseBufferedMessages opts) st st'" "\<not> st_terminated st'"
      using appendMessageEvent_grows Inr p Cons.prems by blast+
    from grows_trans [OF g(1) Cons.IH [OF g(2)]] Inr p show ?thesis by simp
  qed simp
qed simp

lemma append_until_grows:
  "\<not> st_terminated st \<Longrightarrow> grows (ho_maxSseBufferedMessages opts) st (fst (append_until env opts ms st))
     \<and> \<not> st_terminated (fst (append_until env opts ms st))"
proof (induction ms arbitrary: st)
  case (Cons m ms)
  show ?case
  proof (cases "appendMessageEvent env opts m st")
    case (Inr p)
    obtain st' ok where p: "p = (st', ok)" by (cases p)
    have g: "grows (ho_maxSseBufferedMessages opts) st st'" "\<not> st_terminated st'"
      using appendMessageEvent_grows Inr p Cons.prems by blast+
    from g grows_trans [OF g(1)] Cons.IH [OF g(2)] Inr p show ?thesis by (cases ok) auto
  qed (use Cons.prems in simp)
qed simp

section \<open>The server refines a family of logs\<close>

abbreviation limit_of :: "http_server \<Rightarrow> nat" where
  "limit_of s \<equiv> ho_maxSseBufferedMessages (hv_options s)"

type_synonym logs = "string \<Rightarrow> stream_log option"

definition http_refines :: "logs \<Rightarrow> http_server \<Rightarrow> bool" where
  "http_refines A s \<longleftrightarrow> umap_wf (hv_streams s)
     \<and> hv_streamOrder s = map (\<lambda>n. stream_name (n + 1)) [0 ..< hv_nextStreamOrdinal s]
     \<and> dom (map_of (hv_streams s)) = set (hv_streamOrder s)
     \<and> (\<forall>sid. rel_option (\<lambda>a st. st_streamId st = sid \<and> keeps (limit_of s) a st) (A sid) (map_of (hv_streams s) sid))"

definition logs_advance :: "logs \<Rightarrow> logs \<Rightarrow> bool" where
  "logs_advance A B \<longleftrightarrow> (\<forall>sid a. A sid = Some a \<longrightarrow> (\<exists>b. B sid = Some b \<and> advances a b))"

lemma logs_advance_refl [simp]: "logs_advance A A"
  by (simp add: logs_advance_def)

lemma logs_advance_trans: "logs_advance A B \<Longrightarrow> logs_advance B C \<Longrightarrow> logs_advance A C"
  unfolding logs_advance_def by (metis advances_trans)

text \<open>A state that may follow another one.\<close>

definition evolves :: "http_server \<Rightarrow> http_server \<Rightarrow> bool" where
  "evolves s s' \<longleftrightarrow> hv_options s' = hv_options s
     \<and> (\<forall>A. http_refines A s \<longrightarrow> (\<exists>B. logs_advance A B \<and> http_refines B s'))"

lemma evolves_trans: "evolves a b \<Longrightarrow> evolves b c \<Longrightarrow> evolves a c"
  unfolding evolves_def
proof (intro conjI allI impI)
  fix A assume ab: "hv_options b = hv_options a \<and> (\<forall>A. http_refines A a \<longrightarrow> (\<exists>B. logs_advance A B \<and> http_refines B b))"
    and bc: "hv_options c = hv_options b \<and> (\<forall>A. http_refines A b \<longrightarrow> (\<exists>B. logs_advance A B \<and> http_refines B c))"
    and "http_refines A a"
  then obtain B where B: "logs_advance A B" "http_refines B b" using ab by meson
  then obtain C where "logs_advance B C" "http_refines C c" using bc by meson
  with logs_advance_trans [OF B(1)] show "\<exists>B. logs_advance A B \<and> http_refines B c" by meson
qed simp

text \<open>The part of the state that the refinement is about.\<close>

definition stream_part where
  "stream_part s = (hv_options s, hv_nextStreamOrdinal s, hv_streams s, hv_streamOrder s)"

lemma evolves_same: "stream_part s' = stream_part s \<Longrightarrow> evolves s s'"
  by (auto simp: evolves_def http_refines_def stream_part_def intro: logs_advance_refl)

lemma evolves_refl [simp]: "evolves s s"
  by (rule evolves_same) simp

lemma refinesD:
  assumes "http_refines A s" and "map_of (hv_streams s) sid = Some st"
  obtains a where "A sid = Some a" "st_streamId st = sid" "keeps (limit_of s) a st"
proof -
  have "rel_option (\<lambda>a st. st_streamId st = sid \<and> keeps (limit_of s) a st) (A sid) (Some st)"
    using assms(1) unfolding http_refines_def assms(2) [symmetric] by blast
  with that show ?thesis by (auto simp: option_rel_Some2)
qed

lemma put_grown:
  assumes "map_of (hv_streams s) sid = Some st" and "grows (limit_of s) st st'"
  shows "evolves s (s\<lparr>hv_streams := umap_put sid st' (hv_streams s)\<rparr>)"
proof -
  have "\<exists>B. logs_advance A B \<and> http_refines B (s\<lparr>hv_streams := umap_put sid st' (hv_streams s)\<rparr>)"
    if ref: "http_refines A s" for A
  proof -
    obtain a where a: "A sid = Some a" "st_streamId st = sid" "keeps (limit_of s) a st"
      using refinesD [OF ref assms(1)] .
    obtain b where b: "advances a b" "keeps (limit_of s) b st'" using assms(2) a(3) by (auto simp: grows_def)
    have "dom (map_of (umap_put sid st' (hv_streams s))) = dom (map_of (hv_streams s))"
      using assms(1) by (auto simp: umap_simps split: if_splits)
    moreover have "st_streamId st' = sid" using assms(2) a(2) by (simp add: grows_def)
    ultimately have "http_refines (A(sid \<mapsto> b)) (s\<lparr>hv_streams := umap_put sid st' (hv_streams s)\<rparr>)"
      using ref b(2) by (simp add: http_refines_def umap_simps)
    moreover have "logs_advance A (A(sid \<mapsto> b))" using a(1) b(1) by (simp add: logs_advance_def)
    ultimately show ?thesis by blast
  qed
  then show ?thesis by (simp add: evolves_def)
qed

lemma put_stream_grown:
  "map_of (hv_streams s) (st_streamId st) = Some st \<Longrightarrow> grows (limit_of s) st st' \<Longrightarrow> evolves s (put_stream st' s)"
  using put_grown [of s "st_streamId st" st st'] by (simp add: put_stream_def grows_def)

lemma created:
  assumes "createStream now i kind s = (s', st)"
  shows "evolves s s'" and "map_of (hv_streams s') (st_streamId st) = Some st" and "hv_options s' = hv_options s"
    and "st_sessionId st = i" and "st_kind st = kind" and "\<not> st_terminated st"
    and "hv_pending s' = hv_pending s" and "hv_sessions s' = hv_sessions s"
proof -
  let ?n = "hv_nextStreamOrdinal s + 1"
  let ?new = "\<lparr>st_streamId = stream_name ?n, st_sessionId = i, st_kind = kind, st_nextCursor = 1, st_openedAt = now,
    st_terminated = False, st_events = []\<rparr>"
  have st: "st = append_event (hv_options s) [] ?new"
    and s': "s' = put_stream st (s\<lparr>hv_nextStreamOrdinal := ?n, hv_streamOrder := hv_streamOrder s @ [stream_name ?n]\<rparr>)"
    using assms by (auto simp: createStream_def appendPrimingEvent_def stream_name_def Let_def)
  let ?a = "\<lparr>sl_session = i, sl_kind = kind, sl_closed = False, sl_events = []\<rparr>"
  have "keeps (limit_of s) ?a ?new" by (simp add: keeps_def numbered_def keep_newest_def)
  then obtain b where b: "keeps (limit_of s) b st" unfolding st by (blast dest: append_event_keeps)
  have "\<exists>B. logs_advance A B \<and> http_refines B s'" if ref: "http_refines A s" for A
  proof -
    have "stream_name ?n \<notin> set (hv_streamOrder s)" using ref by (auto simp: http_refines_def)
    then have fresh: "map_of (hv_streams s) (stream_name ?n) = None"
      using ref by (metis domIff http_refines_def)
    have "rel_option (\<lambda>a st. st_streamId st = stream_name ?n \<and> keeps (limit_of s) a st)
        (A (stream_name ?n)) (map_of (hv_streams s) (stream_name ?n))"
      using ref unfolding http_refines_def by blast
    with fresh have none: "A (stream_name ?n) = None" by (simp add: rel_option_iff split: option.splits)
    have id: "st_streamId st = stream_name ?n" by (simp add: st)
    have "http_refines (A(stream_name ?n \<mapsto> b)) s'"
      using ref b unfolding http_refines_def s' put_stream_def id
      by (simp add: umap_simps update_conv' id atLeast0_lessThan_Suc)
    moreover have "logs_advance A (A(stream_name ?n \<mapsto> b))" using none by (simp add: logs_advance_def)
    ultimately show ?thesis by blast
  qed
  then show "evolves s s'" by (simp add: evolves_def s' put_stream_def)
  show "map_of (hv_streams s') (st_streamId st) = Some st" by (simp add: s' put_stream_def umap_simps)
qed (use assms in \<open>auto simp: createStream_def appendPrimingEvent_def put_stream_def Let_def\<close>)

section \<open>Choosing a stream\<close>

text \<open>Streams may only have been terminated.\<close>

definition ended :: "stream_state \<Rightarrow> stream_state \<Rightarrow> bool" where
  "ended st st' \<longleftrightarrow> st' = st \<or> st' = st\<lparr>st_terminated := True\<rparr>"

definition only_terminates :: "http_server \<Rightarrow> http_server \<Rightarrow> bool" where
  "only_terminates s s' \<longleftrightarrow> (\<exists>m. s' = s\<lparr>hv_streams := m\<rparr> \<and>
     (\<forall>sid. rel_option ended (map_of (hv_streams s) sid) (map_of m sid)))"

lemma ended_trans: "ended a b \<Longrightarrow> ended b c \<Longrightarrow> ended a c"
  by (auto simp: ended_def)

lemma only_terminates_refl [simp]: "only_terminates s s"
  unfolding only_terminates_def
  by (rule exI [of _ "hv_streams s"]) (auto simp: ended_def intro: option.rel_refl)

lemma only_terminates_trans:
  assumes "only_terminates a b" and "only_terminates b c"
  shows "only_terminates a c"
proof -
  obtain m n where m: "b = a\<lparr>hv_streams := m\<rparr>" "\<And>sid. rel_option ended (map_of (hv_streams a) sid) (map_of m sid)"
    and n: "c = b\<lparr>hv_streams := n\<rparr>" "\<And>sid. rel_option ended (map_of (hv_streams b) sid) (map_of n sid)"
    using assms unfolding only_terminates_def by blast
  have "rel_option ended (map_of (hv_streams a) sid) (map_of n sid)" for sid
    using m(2) [of sid] n(2) [of sid] m(1) by (auto simp: option_rel_Some1 rel_option_iff ended_def split: option.splits)
  moreover have "c = a\<lparr>hv_streams := n\<rparr>" using m(1) n(1) by simp
  ultimately show ?thesis unfolding only_terminates_def by blast
qed

lemma only_terminatesD:
  assumes "only_terminates s s'" and "map_of (hv_streams s') sid = Some st'"
  obtains st where "map_of (hv_streams s) sid = Some st" "ended st st'"
proof -
  obtain m where m: "s' = s\<lparr>hv_streams := m\<rparr>" "rel_option ended (map_of (hv_streams s) sid) (map_of m sid)"
    using assms(1) unfolding only_terminates_def by blast
  with assms(2) that show ?thesis by (auto simp: rel_option_iff split: option.splits)
qed

lemma only_terminates_frame:
  assumes "only_terminates s s'"
  shows "hv_options s' = hv_options s" "hv_pending s' = hv_pending s" "hv_streamOrder s' = hv_streamOrder s"
    "hv_sessions s' = hv_sessions s" "hv_nextStreamOrdinal s' = hv_nextStreamOrdinal s"
    "map_of (hv_streams s') sid = None \<longleftrightarrow> map_of (hv_streams s) sid = None"
proof -
  obtain m where m: "s' = s\<lparr>hv_streams := m\<rparr>" "rel_option ended (map_of (hv_streams s) sid) (map_of m sid)"
    using assms unfolding only_terminates_def by blast
  then show "hv_options s' = hv_options s" "hv_pending s' = hv_pending s" "hv_streamOrder s' = hv_streamOrder s"
    "hv_sessions s' = hv_sessions s" "hv_nextStreamOrdinal s' = hv_nextStreamOrdinal s"
    "map_of (hv_streams s') sid = None \<longleftrightarrow> map_of (hv_streams s) sid = None"
    by (auto simp: rel_option_iff split: option.splits)
qed

lemma only_terminates_put:
  "map_of (hv_streams s) sid = Some st \<Longrightarrow>
     only_terminates s (s\<lparr>hv_streams := umap_put sid (st\<lparr>st_terminated := True\<rparr>) (hv_streams s)\<rparr>)"
  unfolding only_terminates_def
  by (rule exI [of _ "umap_put sid (st\<lparr>st_terminated := True\<rparr>) (hv_streams s)"])
    (auto simp: umap_simps ended_def rel_option_iff split: option.split)

definition usable :: "int \<Rightarrow> string option \<Rightarrow> http_server \<Rightarrow> string \<Rightarrow> bool" where
  "usable now i s sid \<longleftrightarrow> (\<exists>st. map_of (hv_streams s) sid = Some st \<and> \<not> st_terminated st
     \<and> \<not> isStreamExpired (hv_options s) now st \<and> st_sessionId st = i)"

definition kind_fits :: "bool \<Rightarrow> http_server \<Rightarrow> string \<Rightarrow> bool" where
  "kind_fits toPost s sid \<longleftrightarrow> (toPost \<longrightarrow> map_option st_kind (map_of (hv_streams s) sid) = Some PostStream)"

lemma usable_put:
  "map_of (hv_streams s) sid = Some st \<Longrightarrow> isStreamExpired (hv_options s) now st \<Longrightarrow>
     usable now i (s\<lparr>hv_streams := umap_put sid (st\<lparr>st_terminated := True\<rparr>) (hv_streams s)\<rparr>) f = usable now i s f"
  by (auto simp: usable_def umap_simps)

lemma choose_stream_facts:
  assumes "choose_stream now i toPost fallback sids s = (s', r)"
    and "\<And>f. fallback = Some f \<Longrightarrow> usable now i s f"
  shows "only_terminates s s' \<and> evolves s s'
    \<and> (\<forall>sid. r = Some sid \<longrightarrow> usable now i s' sid \<and> kind_fits toPost s' sid)
    \<and> (r = None \<longrightarrow> (\<not> toPost \<longrightarrow> fallback = None)
        \<and> (\<forall>sid \<in> set sids. \<not> (usable now i s sid \<and> kind_fits toPost s sid)))"
  using assms
proof (induction sids arbitrary: fallback s)
  case Nil
  then show ?case by (cases toPost) (auto simp: kind_fits_def)
next
  case (Cons sid sids)
  show ?case
  proof (cases "map_of (hv_streams s) sid")
    case None
    with Cons.prems Cons.IH [of fallback s] show ?thesis by (auto simp: usable_def)
  next
    case (Some st)
    define expired where "expired = isStreamExpired (hv_options s) now st"
    define u where "u = (if expired then s\<lparr>hv_streams := umap_put sid (st\<lparr>st_terminated := True\<rparr>) (hv_streams s)\<rparr> else s)"
    define fb where "fb = (if toPost then fallback else if fallback = None then Some sid else fallback)"
    have opts: "hv_options u = hv_options s" by (simp add: u_def)
    have ends: "only_terminates s u" using only_terminates_put [OF Some] by (simp add: u_def)
    have inv: "evolves s u" using put_grown [OF Some grows_end] by (simp add: u_def)
    have same: "usable now i u f = usable now i s f" for f
      using usable_put [OF Some] by (simp add: u_def expired_def)
    have kinds: "kind_fits b u f = kind_fits b s f" for b f
      using Some by (auto simp: kind_fits_def u_def umap_simps)
    have use_sid: "usable now i s sid \<longleftrightarrow> \<not> expired \<and> \<not> st_terminated st \<and> st_sessionId st = i"
      using Some by (auto simp: usable_def expired_def)
    have fits_sid: "kind_fits toPost s sid \<longleftrightarrow> (toPost \<longrightarrow> st_kind st = PostStream)"
      using Some by (simp add: kind_fits_def)
    have step: "choose_stream now i toPost fallback (sid # sids) s =
      (if \<not> usable now i s sid then choose_stream now i toPost fallback sids u
       else if toPost \<and> st_kind st = PostStream \<or> \<not> toPost \<and> st_kind st = GetStream then (u, Some sid)
       else choose_stream now i toPost fb sids u)"
      using Some by (cases "st_kind st") (auto simp: Let_def use_sid u_def expired_def fb_def)
    show ?thesis
    proof (cases "usable now i s sid")
      case False
      with step Cons.prems(1) have "choose_stream now i toPost fallback sids u = (s', r)" by simp
      from Cons.IH [OF this] Cons.prems(2) same have
        "only_terminates u s' \<and> evolves u s' \<and> (\<forall>sid. r = Some sid \<longrightarrow> usable now i s' sid \<and> kind_fits toPost s' sid)
          \<and> (r = None \<longrightarrow> (\<not> toPost \<longrightarrow> fallback = None)
            \<and> (\<forall>sid \<in> set sids. \<not> (usable now i u sid \<and> kind_fits toPost u sid)))" by blast
      with only_terminates_trans [OF ends] evolves_trans [OF inv] False same kinds show ?thesis by simp
    next
      case True
      show ?thesis
      proof (cases "toPost \<and> st_kind st = PostStream \<or> \<not> toPost \<and> st_kind st = GetStream")
        case hit: True
        with step Cons.prems(1) True have "s' = u" "r = Some sid" by auto
        with True hit same kinds fits_sid ends inv show ?thesis by auto
      next
        case False
        with step Cons.prems(1) True have "choose_stream now i toPost fb sids u = (s', r)" by auto
        moreover have "usable now i u f" if "fb = Some f" for f
          using that True same Cons.prems(2) by (auto simp: fb_def split: if_splits)
        ultimately have "only_terminates u s' \<and> evolves u s'
            \<and> (\<forall>sid. r = Some sid \<longrightarrow> usable now i s' sid \<and> kind_fits toPost s' sid)
            \<and> (r = None \<longrightarrow> (\<not> toPost \<longrightarrow> fb = None)
                \<and> (\<forall>sid \<in> set sids. \<not> (usable now i u sid \<and> kind_fits toPost u sid)))"
          by (rule Cons.IH)
        with only_terminates_trans [OF ends] evolves_trans [OF inv] False fits_sid same kinds show ?thesis
          by (cases "st_kind st") (auto simp: fb_def split: if_splits)
      qed
    qed
  qed
qed

lemma choose_stream_usable:
  "choose_stream now i toPost fallback sids s = (s', r) \<Longrightarrow> usable now j s' f = usable now j s f"
proof (induction sids arbitrary: fallback s)
  case (Cons sid sids)
  show ?case
  proof (cases "map_of (hv_streams s) sid")
    case None
    with Cons show ?thesis by simp
  next
    case (Some st)
    show ?thesis
    proof (cases "isStreamExpired (hv_options s) now st")
      case True
      with Cons.prems Some have "choose_stream now i toPost fallback sids
          (s\<lparr>hv_streams := umap_put sid (st\<lparr>st_terminated := True\<rparr>) (hv_streams s)\<rparr>) = (s', r)" by simp
      from Cons.IH [OF this] show ?thesis by (simp add: usable_put [OF Some True])
    next
      case False
      with Cons.prems Some Cons.IH show ?thesis by (auto simp: Let_def split: if_splits)
    qed
  qed
qed simp

lemma chooseTargetStream_facts:
  assumes "chooseTargetStream now i m s = (s', r)"
  shows "only_terminates s s'" and "evolves s s'" and "usable now j s' f = usable now j s f"
    and "r = Some sid \<Longrightarrow> usable now i s' sid \<and> kind_fits (isResponseMessage m) s' sid"
    and "http_refines A s \<Longrightarrow> r = None \<Longrightarrow> \<not> (usable now i s sid \<and> kind_fits (isResponseMessage m) s sid)"
proof -
  note choice = assms [unfolded chooseTargetStream_def]
  note facts = choose_stream_facts [OF choice]
  show "only_terminates s s'" "evolves s s'" "r = Some sid \<Longrightarrow> usable now i s' sid \<and> kind_fits (isResponseMessage m) s' sid"
    using facts by simp_all
  show "usable now j s' f = usable now j s f" by (rule choose_stream_usable [OF choice])
  show "\<not> (usable now i s sid \<and> kind_fits (isResponseMessage m) s sid)" if "http_refines A s" "r = None"
  proof -
    have "usable now i s sid \<Longrightarrow> sid \<in> set (hv_streamOrder s)"
      using that(1) by (force simp: usable_def http_refines_def)
    with facts that(2) show ?thesis by auto
  qed
qed

section \<open>Every operation advances the logs\<close>

definition waiting :: "http_server \<Rightarrow> string option \<Rightarrow> message list" where
  "waiting s i = (case map_of (hv_pending s) (sessionKey i) of None \<Rightarrow> [] | Some ms \<Rightarrow> ms)"

text \<open>What becomes of a message for the client: a stream takes it, it waits, or it is refused.\<close>

lemma enqueue_cases:
  assumes "enqueueServerMessage env now m i s = (s', r)"
  obtains (streamed) u sid st data where "chooseTargetStream now i m s = (u, Some sid)"
      "map_of (hv_streams u) sid = Some st" "\<not> st_terminated st" "http_serialize env m = Inr data" "r = Inr True"
      "s' = u\<lparr>hv_streams := umap_put sid (let st' = append_event (hv_options u) data st in
         if isResponseMessage m then st'\<lparr>st_terminated := True\<rparr> else st') (hv_streams u)\<rparr>"
  | (waits) u where "chooseTargetStream now i m s = (u, None)" "length (waiting u i) < limit_of u" "r = Inr True"
      "s' = u\<lparr>hv_pending := umap_put (sessionKey i) (waiting u i @ [m]) (hv_pending u)\<rparr>"
  | (refused) u sid where "chooseTargetStream now i m s = (u, sid)" "r \<noteq> Inr True"
      "s' = u \<or> s' = u\<lparr>hv_pending := umap_put (sessionKey i) [] (hv_pending u)\<rparr> \<and> map_of (hv_pending u) (sessionKey i) = None"
proof -
  obtain u choice where choose: "chooseTargetStream now i m s = (u, choice)" by fastforce
  show thesis
  proof (cases choice)
    case None
    let ?s1 = "if map_of (hv_pending u) (sessionKey i) = None
      then u\<lparr>hv_pending := umap_put (sessionKey i) [] (hv_pending u)\<rparr> else u"
    have result: "(s', r) = (if length (waiting u i) \<ge> limit_of u then (?s1, Inr False)
       else (?s1\<lparr>hv_pending := umap_put (sessionKey i) (waiting u i @ [m]) (hv_pending ?s1)\<rparr>, Inr True))"
      using assms choose None
      by (cases "map_of (hv_pending u) (sessionKey i)") (auto simp: enqueueServerMessage_def waiting_def Let_def)
    show thesis
    proof (cases "length (waiting u i) \<ge> limit_of u")
      case True
      show thesis by (rule refused [OF choose]) (use result True in \<open>auto split: if_splits\<close>)
    next
      case False
      show thesis by (rule waits) (use result False choose None in \<open>auto split: if_splits\<close>)
    qed
  next
    case (Some sid)
    then obtain st where st: "map_of (hv_streams u) sid = Some st" "\<not> st_terminated st"
      "isResponseMessage m \<longrightarrow> st_kind st = PostStream"
      using chooseTargetStream_facts(4) [OF choose, of sid] by (auto simp: usable_def kind_fits_def)
    show thesis
    proof (cases rule: appendMessageEvent_cases [of env "hv_options u" m st])
      case (appended data)
      with assms choose Some st show thesis
        by (cases "isResponseMessage m"; intro streamed [of u sid st data]; simp add: enqueueServerMessage_def Let_def)
    next
      case (fails e)
      with assms choose Some st have "s' = u" "r = Inl e" by (simp_all add: enqueueServerMessage_def Let_def)
      then show thesis by (intro refused [OF choose]) simp_all
    next
      case long
      with assms choose Some st have "s' = u" "r = Inr False" by (simp_all add: enqueueServerMessage_def Let_def)
      then show thesis by (intro refused [OF choose]) simp_all
    qed
  qed
qed

lemma enqueue_evolves: "evolves s (fst (enqueueServerMessage env now m i s))"
proof -
  obtain s' r where e: "enqueueServerMessage env now m i s = (s', r)" by fastforce
  from e show ?thesis
  proof (cases rule: enqueue_cases)
    case (streamed u sid st data)
    have g: "grows (limit_of u) st (append_event (hv_options u) data st)" using streamed(3) by (simp add: grows_append)
    have "grows (limit_of u) st (let st' = append_event (hv_options u) data st in
         if isResponseMessage m then st'\<lparr>st_terminated := True\<rparr> else st')"
      using g grows_trans [OF g grows_end] by (simp add: Let_def)
    from evolves_trans [OF chooseTargetStream_facts(2) [OF streamed(1)] put_grown [OF streamed(2) this]]
    show ?thesis unfolding e streamed(6) fst_conv .
  next
    case (waits u)
    have "evolves u s'" by (rule evolves_same) (simp add: waits(4) stream_part_def)
    from evolves_trans [OF chooseTargetStream_facts(2) [OF waits(1)] this] show ?thesis by (simp add: e)
  next
    case (refused u sid)
    have "evolves u s'" by (rule evolves_same) (use refused(3) in \<open>auto simp: stream_part_def\<close>)
    from evolves_trans [OF chooseTargetStream_facts(2) [OF refused(1)] this] show ?thesis by (simp add: e)
  qed
qed

lemma emit_facts:
  assumes "map_of (hv_streams s) (st_streamId st) = Some st" and "\<not> st_terminated st"
  shows "evolves s (fst (emitPendingMessages env st s))"
proof (cases "map_of (hv_pending s) (sessionKey (st_sessionId st))")
  case (Some ms)
  obtain st' e where all: "append_all env (hv_options s) ms st = (st', e)" by fastforce
  have g: "grows (limit_of s) st st'" using append_all_grows [OF assms(2), of "hv_options s" env ms] all by simp
  note put = put_stream_grown [OF assms(1) g]
  have "evolves (put_stream st' s) (put_stream st' (s\<lparr>hv_pending := umap_erase k (hv_pending s)\<rparr>))" for k
    by (rule evolves_same) (simp add: stream_part_def put_stream_def)
  from put evolves_trans [OF put this] Some all show ?thesis
    by (cases e) (simp_all add: emitPendingMessages_def Let_def)
qed (simp add: emitPendingMessages_def Let_def)

lemma open_session_part [simp]: "stream_part (open_session iv s) = stream_part s"
  by (auto simp: open_session_def http_upsertSession_def stream_part_def split: option.split)

lemma open_session_evolves: "evolves s t \<Longrightarrow> evolves s (open_session iv t)"
  using evolves_trans evolves_same open_session_part by blast

lemma post_request_end_evolves: "evolves s (fst (post_request_end env now v generated res s))"
proof (cases "sz_useSse res \<or> sz_preResponseMessages res \<noteq> []")
  case False
  then show ?thesis
    by (auto simp: post_request_end_def post_json_end_def Let_def open_session_evolves split: option.split)
next
  case True
  obtain s1 st0 where new: "createStream now (rr_sessionId v) PostStream s = (s1, st0)" by fastforce
  note c = created [OF new]
  obtain st1 o1 where until: "append_until env (hv_options s) (sz_preResponseMessages res) st0 = (st1, o1)" by fastforce
  have g1: "grows (limit_of s1) st0 st1" and open1: "\<not> st_terminated st1"
    using append_until_grows [OF c(6), of "hv_options s" env "sz_preResponseMessages res"] until c(3) by auto
  have put: "evolves s (put_stream st s1)" if "grows (limit_of s1) st0 st" for st
    using evolves_trans [OF c(1) put_stream_grown [OF c(2) that]] .
  have last: "grows (limit_of s1) st0 st" if "appendMessageEvent env (hv_options s) m st1 = Inr (st, ok)" for m st ok
    using grows_trans [OF g1] appendMessageEvent_grows [OF that open1] c(3) by simp
  show ?thesis
  proof (cases o1)
    case (Inr more)
    show ?thesis
    proof (cases more)
      case go: True
      show ?thesis
      proof (cases "sz_response res")
        case None
        from put [OF g1] open_session_evolves show ?thesis
          by (simp add: post_request_end_def post_sse_end_def True new until Inr go None Let_def)
      next
        case (Some r)
        show ?thesis
        proof (cases "appendMessageEvent env (hv_options s) (message_of_response r) st1")
          case (Inl e)
          with put [OF g1] show ?thesis
            by (simp add: post_request_end_def post_sse_end_def True new until Inr go Some Let_def)
        next
          case app: (Inr p)
          obtain st ok where p: "p = (st, ok)" by (cases p)
          note g = last [OF app [unfolded p]]
          from put [OF g] put [OF grows_trans [OF g grows_end]] open_session_evolves show ?thesis
            by (cases ok)
              (simp_all add: post_request_end_def post_sse_end_def True new until Inr go Some app p Let_def)
        qed
      qed
    next
      case False
      with put [OF grows_trans [OF g1 grows_end]] show ?thesis
        by (simp add: post_request_end_def post_sse_end_def True new until Inr Let_def)
    qed
  next
    case (Inl e)
    with put [OF g1] show ?thesis by (simp add: post_request_end_def post_sse_end_def True new until Let_def)
  qed
qed

text \<open>Streams of one session closed at once, as DELETE does.\<close>

definition close_session :: "string \<Rightarrow> stream_state \<Rightarrow> stream_state" where
  "close_session i st = (if st_sessionId st = Some i then st\<lparr>st_terminated := True\<rparr> else st)"

lemma map_of_map_value: "map_of (map (\<lambda>(k, v). (k, f v)) m) k = map_option f (map_of m k)"
  by (induction m) auto

lemma close_session_grows [simp]: "grows limit st (close_session i st)"
  by (simp add: close_session_def)

lemma close_evolves: "evolves s (s\<lparr>hv_streams := map (\<lambda>(k, st). (k, close_session i st)) (hv_streams s)\<rparr>)"
proof -
  let ?m = "map (\<lambda>(k, st). (k, close_session i st)) (hv_streams s)"
  have "\<exists>B. logs_advance A B \<and> http_refines B (s\<lparr>hv_streams := ?m\<rparr>)" if ref: "http_refines A s" for A
  proof -
    have "\<exists>b. rel_option (\<lambda>a st. st_streamId st = sid \<and> keeps (limit_of s) a st) b (map_of ?m sid)
        \<and> rel_option advances (A sid) b" for sid
    proof -
      have "rel_option (\<lambda>a st. st_streamId st = sid \<and> keeps (limit_of s) a st) (A sid) (map_of (hv_streams s) sid)"
        using ref unfolding http_refines_def by blast
      then show ?thesis
      proof (cases rule: option.rel_cases)
        case (Some a st)
        then obtain b where "advances a b" "keeps (limit_of s) b (close_session i st)"
          using close_session_grows [of "limit_of s" st i] by (auto simp: grows_def)
        with Some show ?thesis
          by (intro exI [of _ "Some b"]) (simp add: map_of_map_value close_session_def)
      qed (intro exI [of _ None], simp add: map_of_map_value)
    qed
    then obtain B where B: "\<And>sid. rel_option (\<lambda>a st. st_streamId st = sid \<and> keeps (limit_of s) a st) (B sid) (map_of ?m sid)"
      "\<And>sid. rel_option advances (A sid) (B sid)"
      using choice [of "\<lambda>sid b. rel_option (\<lambda>a st. st_streamId st = sid \<and> keeps (limit_of s) a st) b (map_of ?m sid)
        \<and> rel_option advances (A sid) b"] by blast
    have "map fst ?m = map fst (hv_streams s)" by (simp add: comp_def split_def)
    then have "umap_wf ?m" "dom (map_of ?m) = dom (map_of (hv_streams s))"
      using ref by (simp_all add: umap_wf_def http_refines_def dom_map_of_conv_image_fst flip: set_map del: map_map)
    with ref B(1) have "http_refines B (s\<lparr>hv_streams := ?m\<rparr>)" by (simp add: http_refines_def)
    moreover have "logs_advance A B"
      unfolding logs_advance_def
    proof (intro allI impI)
      fix sid a assume "A sid = Some a"
      then show "\<exists>b. B sid = Some b \<and> advances a b" using B(2) [of sid] by (simp add: option_rel_Some1)
    qed
    ultimately show ?thesis by blast
  qed
  then show ?thesis by (simp add: evolves_def)
qed

lemma handleGet_evolves: "evolves s (fst (handleGet env now req s))"
proof (cases "ho_allowGetSse (hv_options s)")
  case allowed: True
  show ?thesis
  proof (cases "admit env s req kOther (ho_requireSessionId (hv_options s))")
    case (Inr v)
    show ?thesis
    proof (cases "getHeader (hq_headers req) kHeaderLastEventId")
      case None
      obtain s1 st where new: "createStream now (rr_sessionId v) GetStream s = (s1, st)" by fastforce
      note c = created [OF new]
      obtain s2 r where emit: "emitPendingMessages env st s1 = (s2, r)" by fastforce
      have "evolves s s2" using evolves_trans [OF c(1) emit_facts [OF c(2) c(6)]] emit by (metis fst_conv)
      then show ?thesis by (cases r) (simp_all add: handleGet_def Let_def allowed Inr None new emit)
    next
      case (Some h)
      show ?thesis
      proof (cases "parseEventId h")
        case parsed: (Some ec)
        show ?thesis
        proof (cases "map_of (hv_streams s) (ec_streamId ec)")
          case st: (Some st)
          have "evolves s (put_stream (st\<lparr>st_terminated := True\<rparr>) s)" if "st_streamId st = ec_streamId ec"
            using put_stream_grown [of s st] st that by simp
          moreover have "evolves s (put_stream (st\<lparr>st_terminated := True\<rparr>) s)" if "st_streamId st \<noteq> ec_streamId ec"
            using refinesD [OF _ st] that by (auto simp: evolves_def put_stream_def)
          ultimately show ?thesis by (simp add: handleGet_def Let_def allowed Inr Some parsed st) blast
        qed (simp add: handleGet_def Let_def allowed Inr Some parsed)
      qed (simp add: handleGet_def Let_def allowed Inr Some)
    qed
  qed (simp add: handleGet_def Let_def allowed)
qed (simp add: handleGet_def Let_def)

lemma handleDelete_evolves: "evolves s (fst (handleDelete env req s))"
proof -
  have "evolves s (s\<lparr>hv_sessions := u, hv_streams := map (\<lambda>(k, st). (k, close_session i st)) (hv_streams s),
      hv_pending := p, hv_legacy := l\<rparr>)" for u i p l
    by (rule evolves_trans [OF close_evolves [of s i] evolves_same]) (simp add: stream_part_def)
  then show ?thesis
    by (auto simp: handleDelete_def close_session_def split: sum.split option.split)
qed

lemma appendLegacyMessage_part: "stream_part (fst (appendLegacyMessage env i m s)) = stream_part s"
  by (auto simp: appendLegacyMessage_def stream_part_def Let_def split: sum.split)

lemma append_legacy_texts_part: "stream_part (fst (append_legacy_texts env i ts s)) = stream_part s"
proof (induction ts arbitrary: s)
  case (Cons t ts)
  have "stream_part s' = stream_part s" if "appendLegacyMessage env i m s = (s', r)" for m s' r
    using appendLegacyMessage_part [of env i m s] that by simp
  with Cons.IH show ?case by (auto split: sum.split prod.split bool.split)
qed simp

lemma legacy_answer_evolves: "evolves s (fst outcome) \<Longrightarrow> evolves s (fst (legacy_answer env req outcome))"
proof -
  assume ev: "evolves s (fst outcome)"
  obtain s1 r where o1: "outcome = (s1, r)" by (cases outcome)
  have "evolves s (fst (appendLegacyMessagesFromResponse env i resp s1))" for i resp
    using evolves_trans [OF ev evolves_same [OF append_legacy_texts_part]] ev
    by (simp add: appendLegacyMessagesFromResponse_def o1 del: append_legacy_texts.simps split: option.split)
  then have "evolves s s2" if "appendLegacyMessagesFromResponse env i resp s1 = (s2, ok)" for i resp s2 ok
    by (metis that fst_conv)
  with ev show ?thesis by (auto simp: legacy_answer_def o1 split: sum.split prod.split bool.split)
qed

lemma handleLegacyGet_evolves: "evolves s (fst (handleLegacyGet env req s))"
  by (rule evolves_same)
    (auto simp: handleLegacyGet_def stream_part_def Let_def split: sum.split option.split)

lemma post_route_evolves: "evolves s (fst (post_route env now random legacy req s))"
proof -
  have fin: "evolves s (fst (case (if legacy then legacy_answer env req outcome else outcome) of (s', r) \<Rightarrow> (s', Done r)))"
    if "evolves s (fst outcome)" for outcome
    using that legacy_answer_evolves [OF that, of env req] by (simp add: split_def)
  show ?thesis
    by (simp add: post_route_def Let_def fin post_request_end_evolves split: post_step.split http_call.split)
qed

lemma handleRequest_begin_evolves: "evolves s (fst (handleRequest_begin env now random req s))"
proof -
  have "evolves s t" if "handleLegacyGet env req s = (t, r) \<or> handleGet env now req s = (t, r) \<or> handleDelete env req s = (t, r)"
    for t r
    using that handleLegacyGet_evolves [of s env req] handleGet_evolves [of s env now req] handleDelete_evolves [of s env req] by auto
  then show ?thesis
    by (auto simp: handleRequest_begin_def Let_def post_route_evolves split: option.split ServerRequestMethod.split prod.split)
qed

lemma handleRequest_end_evolves: "evolves s (fst (handleRequest_end env now req legacy call outcome s))"
proof -
  have "evolves s (fst (handlePost_end env now call outcome s))"
    by (auto simp: handlePost_end_def post_request_end_evolves split: http_call.split handler_outcome.split)
  then show ?thesis by (simp add: handleRequest_end_def Let_def legacy_answer_evolves)
qed

section \<open>Runs of the server\<close>

text \<open>
  What happens to a server: requests begin and, when their handlers are back, end, in any order; the
  application sends messages, changes sessions and sets handlers.
\<close>

datatype http_move =
    Begins http_env int "nat list" server_request
  | Ends http_env int server_request bool http_call handler_outcome
  | Sends http_env int message "string option"
  | Upserts string SessionLookupState "string option"
  | Sets string SessionLookupState
  | Handlers bool bool bool

fun http_apply :: "http_move \<Rightarrow> http_server \<Rightarrow> http_server" where
  "http_apply (Begins env now random req) s = fst (handleRequest_begin env now random req s)"
| "http_apply (Ends env now req legacy call outcome) s = fst (handleRequest_end env now req legacy call outcome s)"
| "http_apply (Sends env now m i) s = fst (enqueueServerMessage env now m i s)"
| "http_apply (Upserts i state version) s = http_upsertSession i state version s"
| "http_apply (Sets i state) s = fst (http_setSessionState i state s)"
| "http_apply (Handlers a b c) s = setRequestHandler a (setNotificationHandler b (setResponseHandler c s))"

definition http_run :: "http_move list \<Rightarrow> http_server \<Rightarrow> http_server" where
  "http_run moves s = fold http_apply moves s"

lemma http_apply_evolves: "evolves s (http_apply m s)"
proof (cases m)
  case (Upserts i state version)
  then show ?thesis by (simp add: evolves_same stream_part_def http_upsertSession_def)
next
  case (Sets i state)
  then show ?thesis by (auto simp: evolves_same stream_part_def http_setSessionState_def split: option.split)
next
  case (Handlers a b c)
  then show ?thesis
    by (simp add: evolves_same stream_part_def setRequestHandler_def setNotificationHandler_def setResponseHandler_def)
qed (simp_all add: handleRequest_begin_evolves handleRequest_end_evolves enqueue_evolves)

lemma http_run_evolves: "evolves s (http_run moves s)"
  by (induction moves arbitrary: s) (auto simp: http_run_def intro: evolves_trans http_apply_evolves)

lemma new_server_refines: "new_http_server env opts = Inr s \<Longrightarrow> http_refines (\<lambda>_. None) s \<and> hv_options s = opts"
proof -
  assume "new_http_server env opts = Inr s"
  then have "hv_streams s = []" "hv_streamOrder s = []" "hv_nextStreamOrdinal s = 0" "hv_options s = opts"
    by (auto simp: new_http_server_def bindE_def Let_def split: if_splits option.splits sum.splits)
  then show ?thesis by (simp add: http_refines_def)
qed

interpretation http: invariant_system "\<lambda>s. \<exists>env opts. new_http_server env opts = Inr s"
  "\<lambda>s s'. \<exists>m. s' = http_apply m s" "\<lambda>s. \<exists>A. http_refines A s"
proof
  fix s t assume "\<exists>m. t = http_apply m s" "\<exists>A. http_refines A s"
  then show "\<exists>A. http_refines A t" using http_apply_evolves unfolding evolves_def by blast
qed (use new_server_refines in blast)

lemma http_run_steps: "(\<lambda>s s'. \<exists>m. s' = http_apply m s)\<^sup>*\<^sup>* s (http_run moves s)"
  by (induction moves arbitrary: s) (auto simp: http_run_def intro: converse_rtranclp_into_rtranclp)

lemma run_refines:
  assumes "new_http_server env opts = Inr s0"
  obtains A where "http_refines A (http_run moves s0)" "hv_options (http_run moves s0) = opts"
  using new_server_refines [OF assms] http_run_evolves [of s0 moves] that unfolding evolves_def by blast

lemma kept_events:
  assumes "keeps limit a st" and "0 < limit"
  shows "replayFromCursor c (st_events st) = drop (max (length (sl_events a) - limit) c) (sl_events a)"
    and "st_events st = [] \<longleftrightarrow> sl_events a = []"
    and "st_events st \<noteq> [] \<Longrightarrow> sx_cursor (hd (st_events st)) = length (sl_events a) - limit + 1"
proof -
  let ?k = "length (sl_events a) - limit"
  have events: "st_events st = drop ?k (numbered (sl_events a))"
    using assms by (simp add: keeps_def keep_newest_drop)
  then show "replayFromCursor c (st_events st) = drop (max ?k c) (sl_events a)"
    by (simp add: replayFromCursor_def replay_numbered)
  have short: "?k < length (sl_events a)" if "sl_events a \<noteq> []" using that assms(2) by (cases "sl_events a") auto
  then show empty: "st_events st = [] \<longleftrightarrow> sl_events a = []" by (cases "sl_events a = []") (simp add: events numbered_def, simp add: events)
  show "sx_cursor (hd (st_events st)) = ?k + 1" if "st_events st \<noteq> []"
    using that short empty by (simp add: events hd_drop_conv_nth) (simp add: numbered_def)
qed

end
