(* ===== verification/HttpExample.thy ===== *)
theory HttpExample
  imports HttpSpec
begin

text \<open>A concrete HTTP server with one session, on which the properties are instantiated.\<close>

definition sample_env :: http_env where
  "sample_env = \<lparr>he_jsonParse = (\<lambda>_. Inl ''unused''), he_schema = (\<lambda>_. SchemaValid), he_dump = (\<lambda>_. ''{}'')\<rparr>"

definition sample_options :: http_options where
  "sample_options = \<lparr>ho_path = ''/mcp'', ho_originPolicy = default_origin_policy, ho_maxMessageSizeBytes = 100,
     ho_maxSseStreamDuration = 0, ho_maxSseBufferedMessages = 2, ho_authorization = None,
     ho_requireSessionId = True, ho_supportedProtocolVersions = [''2025-06-18''], ho_allowGetSse = True,
     ho_allowDeleteSession = True, ho_defaultSseRetry = None, ho_legacyEnabled = False, ho_legacyPostPath = [],
     ho_legacySsePath = []\<rparr>"

definition sample_http :: http_server where
  "sample_http = \<lparr>hv_options = sample_options, hv_authorization = None, hv_legacyPostPath = ''/rpc'',
     hv_legacySsePath = ''/events'', hv_requestHandler = False, hv_notificationHandler = False,
     hv_responseHandler = False, hv_nextStreamOrdinal = 0, hv_sessions = [], hv_streams = [],
     hv_streamOrder = [], hv_pending = [], hv_legacy = []\<rparr>"

definition sample_get :: "string list \<Rightarrow> server_request" where
  "sample_get resume = \<lparr>hq_method = kGet, hq_path = ''/mcp'',
     hq_headers = (kHeaderMcpSessionId, ''a1'') # map (Pair kHeaderLastEventId) resume, hq_body = []\<rparr>"

definition sample_message :: message where
  "sample_message = MNotification \<lparr>nt_jsonrpc = ''2.0'', nt_method = ''m'', nt_params = None, nt_additional = empty_object\<rparr>"

text \<open>A session, a stream for it with three events, and a message on the way.\<close>

definition sample_past :: "http_move list" where
  "sample_past = [Upserts ''a1'' kActive None, Begins sample_env 0 [] (sample_get []),
     Sends sample_env 1 sample_message (Some ''a1'')]"

lemma new_sample_http: "new_http_server sample_env sample_options = Inr sample_http"
proof -
  have "normalizeLegacyEndpointPath [] ''/rpc'' = ''/rpc'' \<and> normalizeLegacyEndpointPath [] ''/events'' = ''/events''"
    by code_simp
  then show ?thesis by (simp add: new_http_server_def sample_http_def sample_options_def Let_def)
qed

definition sample_event :: "nat \<Rightarrow> stream_event" where
  "sample_event k = \<lparr>sx_cursor = k, sx_event = makeEvent (makeEventId ''s1'' k) (if k = 1 then [] else ''{}'')\<rparr>"

lemma sample_streams:
  "hv_streams (http_run (sample_past @ [Sends sample_env 2 sample_message (Some ''a1'')]) sample_http) =
     [(''s1'', \<lparr>st_streamId = ''s1'', st_sessionId = Some ''a1'', st_kind = GetStream, st_nextCursor = 4,
        st_openedAt = 0, st_terminated = False, st_events = [sample_event 2, sample_event 3]\<rparr>)]"
  by code_simp

end
