(* ===== verification/HttpPromises.thy ===== *)
theory HttpPromises
  imports HttpExample
begin

text \<open>
  The properties of the HTTP server: the streams are append-only logs, resumption neither skips nor
  repeats an event, a message for the client goes to one place and a message that waits is replayed,
  handlers see admitted requests only, a session that has ended answers nothing, and the headers
  that a client replays name the session the server opened.
\<close>

section \<open>Logs and resumption\<close>

text \<open>
  C14. The streams of the server refine append-only logs: whatever requests, handlers and messages
  come, in any order, a stream keeps its session and its kind, an event never changes or moves once it
  has its number, nothing follows in a closed stream, no stream disappears, and the buffer of a stream
  holds the newest events of its log under the ids that belong to them.
\<close>

theorem streams_refine_logs:
  assumes "new_http_server env opts = Inr s0" and "s = http_run past s0" and "s' = http_run future s"
  shows "\<exists>A B. http_refines A s \<and> http_refines B s' \<and> logs_advance A B"
proof -
  obtain A where "http_refines A s" using run_refines [OF assms(1)] assms(2) by metis
  then show ?thesis using http_run_evolves [of s future] assms(3) unfolding evolves_def by blast
qed

theorem streams_refine_logs_witness:
  "\<exists>A B. http_refines A (http_run sample_past sample_http)
     \<and> http_refines B (http_run [Sends sample_env 2 sample_message (Some ''a1'')] (http_run sample_past sample_http))
     \<and> logs_advance A B"
  by (rule streams_refine_logs [OF new_sample_http refl refl])

lemma stream_of_log:
  assumes "http_refines A s" and "A sid = Some a"
  obtains st n where "map_of (hv_streams s) sid = Some st" "st_streamId st = sid" "keeps (limit_of s) a st"
    "sid = stream_name n"
proof -
  have "rel_option (\<lambda>a st. st_streamId st = sid \<and> keeps (limit_of s) a st) (A sid) (map_of (hv_streams s) sid)"
    using assms(1) unfolding http_refines_def by blast
  then obtain st where st: "map_of (hv_streams s) sid = Some st" "st_streamId st = sid" "keeps (limit_of s) a st"
    using assms(2) by (auto simp: option_rel_Some1)
  moreover have "sid \<in> set (hv_streamOrder s)"
    using st(1) assms(1) by (force simp: http_refines_def)
  ultimately show ?thesis using that assms(1) by (auto simp: http_refines_def)
qed

text \<open>
  C15. Resumption neither skips nor repeats an event: a GET that the server admits and that names a
  cursor of a stream is answered with 404 if the stream belongs to another session or has been open
  too long, with 409 if events after the cursor are no longer in the buffer, and otherwise with
  exactly the events of the log after the cursor, in order, and a retry event at most.
\<close>

theorem resumption_replays_the_log:
  assumes "http_refines A s" and "A sid = Some a" and "0 < limit_of s" and "ho_allowGetSse (hv_options s)"
    and "admit env s req kOther (ho_requireSessionId (hv_options s)) = Inr v"
    and "getHeader (hq_headers req) kHeaderLastEventId = Some (makeEventId sid c)" and "0 < c" and "c < uint64_max"
  shows "\<exists>s' resp. handleGet env now req s = (s', Inr resp) \<and>
    (if sl_session a \<noteq> rr_sessionId v \<or> (\<exists>st. map_of (hv_streams s) sid = Some st \<and> isStreamExpired (hv_options s) now st)
     then hr_statusCode resp = 404 \<and> hr_sse resp = None
     else if c < length (sl_events a) - limit_of s then hr_statusCode resp = 409 \<and> hr_sse resp = None
     else hr_statusCode resp = 200 \<and> (\<exists>guidance. (\<forall>e \<in> set guidance. sse_id e = None \<and> sse_data e = [])
       \<and> hr_sse resp = Some \<lparr>ss_streamId = sid, ss_events = drop c (sl_events a) @ guidance,
           ss_terminateStream = sl_closed a\<rparr>))"
proof -
  obtain st n where st: "map_of (hv_streams s) sid = Some st" "st_streamId st = sid" "keeps (limit_of s) a st"
    "sid = stream_name n" using stream_of_log [OF assms(1,2)] .
  note kept = kept_events [OF st(3) assms(3)]
  have parsed: "parseEventId (makeEventId sid c) = Some \<lparr>ec_streamId = sid, ec_cursor = c\<rparr>"
    using parse_made_event_id stream_name_valid [of n] assms(7,8) st(4) by simp
  have next_cursor: "(c + 1) mod 2 ^ 64 = c + 1" using assms(8) by (simp add: uint64_max_def)
  have eqs: "st_sessionId st = sl_session a" "st_terminated st = sl_closed a" using st(3) by (simp_all add: keeps_def)
  have lost: "(st_events st \<noteq> [] \<and> c + 1 < sx_cursor (hd (st_events st))) = (c < length (sl_events a) - limit_of s)"
    using kept(2,3) by (cases "sl_events a = []") auto
  define guidance where "guidance = (case ho_defaultSseRetry (hv_options s) of
     Some ms \<Rightarrow> if \<not> st_terminated st then [makeRetryGuidanceEvent ms] else [] | None \<Rightarrow> [])"
  have quiet: "\<forall>e \<in> set guidance. sse_id e = None \<and> sse_data e = []"
    by (auto simp: guidance_def makeRetryGuidanceEvent_def empty_event_def split: option.splits)
  have get: "handleGet env now req s =
      (if isStreamExpired (hv_options s) now st then (put_stream (st\<lparr>st_terminated := True\<rparr>) s, Inr (statusResponse 404))
       else if sl_session a \<noteq> rr_sessionId v then (s, Inr (statusResponse 404))
       else if c < length (sl_events a) - limit_of s
       then (s, Inr (json_error env 409 ''Last-Event-ID is outside the retained SSE buffer window.''))
       else (s, Inr (sseResponse st (replayFromCursor c (st_events st) @ guidance) (sl_closed a))))"
    using assms(4,5,6) parsed st(1) next_cursor lost
    by (simp add: handleGet_def Let_def eqs guidance_def)
  have "c \<ge> length (sl_events a) - limit_of s \<Longrightarrow> replayFromCursor c (st_events st) = drop c (sl_events a)"
    by (simp add: kept(1) max_absorb2)
  with get st(1,2) quiet show ?thesis
    by (auto simp: statusResponse_def json_error_def jsonResponse_def sseResponse_def event_stream_def)
qed

theorem resumption_replays_the_log_witness:
  "let s = http_run (sample_past @ [Sends sample_env 2 sample_message (Some ''a1'')]) sample_http in
   \<exists>A a s' resp guidance. http_refines A s \<and> A ''s1'' = Some a
     \<and> handleGet sample_env 3 (sample_get [''s1:2'']) s = (s', Inr resp) \<and> hr_statusCode resp = 200
     \<and> hr_sse resp = Some \<lparr>ss_streamId = ''s1'', ss_events = drop 2 (sl_events a) @ guidance, ss_terminateStream = False\<rparr>"
proof -
  define s where "s = http_run (sample_past @ [Sends sample_env 2 sample_message (Some ''a1'')]) sample_http"
  obtain A where A: "http_refines A s" "hv_options s = sample_options"
    using run_refines [OF new_sample_http] unfolding s_def by blast
  note streams = sample_streams [folded s_def]
  have "rel_option (\<lambda>a st. st_streamId st = ''s1'' \<and> keeps (limit_of s) a st) (A ''s1'') (map_of (hv_streams s) ''s1'')"
    using A(1) unfolding http_refines_def by blast
  then obtain a where a: "A ''s1'' = Some a" "sl_session a = Some ''a1''" "length (sl_events a) = 3" "\<not> sl_closed a"
    by (auto simp: streams option_rel_Some2 keeps_def)
  have admitted: "admit sample_env s (sample_get [''s1:2'']) kOther (ho_requireSessionId (hv_options s)) =
      Inr (accepted_request (Some ''a1'') kFallbackProtocolVersion)"
    unfolding s_def by code_simp
  have resume: "getHeader (hq_headers (sample_get [''s1:2''])) kHeaderLastEventId = Some (makeEventId ''s1'' 2)"
    by code_simp
  have "0 < limit_of s" "ho_allowGetSse (hv_options s)" "(0::nat) < 2" "2 < uint64_max"
    by (simp_all add: A(2) sample_options_def uint64_max_def)
  from resumption_replays_the_log [OF A(1) a(1) this(1,2) admitted resume this(3,4), of 3]
  have "\<exists>s' resp guidance. handleGet sample_env 3 (sample_get [''s1:2'']) s = (s', Inr resp) \<and> hr_statusCode resp = 200
     \<and> hr_sse resp = Some \<lparr>ss_streamId = ''s1'', ss_events = drop 2 (sl_events a) @ guidance, ss_terminateStream = False\<rparr>"
    by (auto simp: a A(2) streams sample_options_def accepted_request_def isStreamExpired_def)
  with A(1) a(1) show ?thesis unfolding Let_def s_def [symmetric] by blast
qed

section \<open>Messages for the client\<close>

definition log_events :: "logs \<Rightarrow> string \<Rightarrow> sse_event list" where
  "log_events A sid = (case A sid of None \<Rightarrow> [] | Some a \<Rightarrow> sl_events a)"

lemma advances_same_length:
  "advances a b \<Longrightarrow> length (sl_events b) = length (sl_events a) \<Longrightarrow> sl_events b = sl_events a"
  by (auto simp: advances_def prefix_def)

text \<open>Streams that only end get no event.\<close>

lemma only_terminates_refines:
  assumes "http_refines A s" and "only_terminates s u" and "evolves s u"
  obtains B where "http_refines B u" "logs_advance A B" "\<And>sid. log_events B sid = log_events A sid"
proof -
  obtain B where B: "logs_advance A B" "http_refines B u" using assms(1,3) unfolding evolves_def by blast
  have "log_events B sid = log_events A sid" for sid
  proof (cases "A sid")
    case None
    have "rel_option (\<lambda>a st. st_streamId st = sid \<and> keeps (limit_of s) a st) (A sid) (map_of (hv_streams s) sid)"
      using assms(1) unfolding http_refines_def by blast
    then have "map_of (hv_streams s) sid = None" by (simp add: None)
    then have "map_of (hv_streams u) sid = None" using only_terminates_frame(6) [OF assms(2)] by blast
    moreover have "rel_option (\<lambda>a st. st_streamId st = sid \<and> keeps (limit_of u) a st) (B sid) (map_of (hv_streams u) sid)"
      using B(2) unfolding http_refines_def by blast
    ultimately show ?thesis by (simp add: log_events_def None)
  next
    case (Some a)
    then obtain st n where st: "map_of (hv_streams s) sid = Some st" "keeps (limit_of s) a st"
      using stream_of_log [OF assms(1)] by metis
    obtain b where b: "B sid = Some b" "advances a b" using B(1) Some by (auto simp: logs_advance_def)
    then obtain st' where st': "map_of (hv_streams u) sid = Some st'" "keeps (limit_of u) b st'"
      using stream_of_log [OF B(2)] by metis
    obtain st0 where "map_of (hv_streams s) sid = Some st0" "ended st0 st'"
      using only_terminatesD [OF assms(2) st'(1)] .
    with st st'(2) have "length (sl_events b) = length (sl_events a)" by (auto simp: ended_def keeps_def)
    from advances_same_length [OF b(2) this] Some b(1) show ?thesis by (simp add: log_events_def)
  qed
  with B that show ?thesis by blast
qed

lemma put_keeps:
  assumes "http_refines A s" and "map_of (hv_streams s) sid = Some st" and "st_streamId st' = st_streamId st"
    and "keeps (limit_of s) b st'"
  shows "http_refines (A(sid \<mapsto> b)) (s\<lparr>hv_streams := umap_put sid st' (hv_streams s)\<rparr>)"
proof -
  have "dom (map_of (umap_put sid st' (hv_streams s))) = dom (map_of (hv_streams s))"
    using assms(2) by (auto simp: umap_simps split: if_splits)
  moreover have "st_streamId st' = sid" using refinesD [OF assms(1,2)] assms(3) by metis
  ultimately show ?thesis using assms(1,4) by (simp add: http_refines_def umap_simps)
qed

lemma waiting_same: "hv_pending s = hv_pending t \<Longrightarrow> waiting s = waiting t"
  by (auto simp: waiting_def fun_eq_iff)

text \<open>
  C16. A message that the server accepts for a client goes to exactly one place: either the log of one
  open stream of the session grows by one event with the text of the message, a response only in a
  stream of a POST, and no other log and no list of waiting messages changes; or no stream of the
  session can take it, and it is the last of the messages that wait. A message that is refused
  changes no log and no list.
\<close>

theorem sent_message_goes_to_one_place:
  assumes "http_refines A s" and "enqueueServerMessage env now m i s = (s', r)"
  shows "\<exists>B. http_refines B s' \<and>
    (if r = Inr True then
       (\<exists>sid data. usable now i s sid \<and> (isResponseMessage m \<longrightarrow> kind_fits True s sid)
          \<and> http_serialize env m = Inr data
          \<and> (\<exists>e. sse_data e = data \<and> log_events B sid = log_events A sid @ [e])
          \<and> (\<forall>other. other \<noteq> sid \<longrightarrow> log_events B other = log_events A other) \<and> waiting s' = waiting s)
       \<or> (\<forall>sid. usable now i s sid \<longrightarrow> isResponseMessage m \<and> \<not> kind_fits True s sid)
          \<and> log_events B = log_events A \<and> waiting s' i = waiting s i @ [m]
          \<and> (\<forall>j. sessionKey j \<noteq> sessionKey i \<longrightarrow> waiting s' j = waiting s j)
     else log_events B = log_events A \<and> waiting s' = waiting s)"
  using assms(2)
proof (cases rule: enqueue_cases)
  case (streamed u sid st data)
  note chosen = chooseTargetStream_facts [OF streamed(1)]
  obtain B where B: "http_refines B u" "\<And>sid. log_events B sid = log_events A sid"
    using only_terminates_refines [OF assms(1) chosen(1,2)] by metis
  obtain b where b: "B sid = Some b" "keeps (limit_of u) b st" using refinesD [OF B(1) streamed(2)] by metis
  let ?st' = "let st' = append_event (hv_options u) data st in
      if isResponseMessage m then st'\<lparr>st_terminated := True\<rparr> else st'"
  let ?b' = "b\<lparr>sl_events := sl_events b @ [event_in st data], sl_closed := isResponseMessage m\<rparr>"
  have "keeps (limit_of u) ?b' ?st'"
    using append_event_keeps [OF b(2), of data] streamed(3) b(2) by (auto simp: keeps_def Let_def)
  then have "http_refines (B(sid \<mapsto> ?b')) s'"
    unfolding streamed(6) by (intro put_keeps [OF B(1) streamed(2)]) (simp_all add: Let_def)
  moreover have "log_events (B(sid \<mapsto> ?b')) sid = log_events A sid @ [event_in st data]"
    using B(2) [of sid] b(1) by (simp add: log_events_def)
  moreover have "log_events (B(sid \<mapsto> ?b')) other = log_events A other" if "other \<noteq> sid" for other
    using B(2) [of other] that by (simp add: log_events_def)
  moreover have "usable now i s sid" "isResponseMessage m \<longrightarrow> kind_fits True s sid"
    using chosen(3,4) streamed(2) by (auto simp: kind_fits_def ended_def elim!: only_terminatesD [OF chosen(1)])
  moreover have "waiting s' = waiting s"
    using only_terminates_frame(2) [OF chosen(1)] by (intro waiting_same) (simp add: streamed(6))
  moreover have "sse_data (event_in st data) = data" by (simp add: event_in_def makeEvent_def)
  ultimately show ?thesis using streamed(4,5) by (intro exI [of _ "B(sid \<mapsto> ?b')"]) auto
next
  case (waits u)
  note chosen = chooseTargetStream_facts [OF waits(1)]
  obtain B where B: "http_refines B u" "\<And>sid. log_events B sid = log_events A sid"
    using only_terminates_refines [OF assms(1) chosen(1,2)] by metis
  have "http_refines B s'" using B(1) by (simp add: waits(4) http_refines_def)
  moreover have "waiting s' i = waiting s i @ [m]" "\<And>j. sessionKey j \<noteq> sessionKey i \<Longrightarrow> waiting s' j = waiting s j"
    using waiting_same [OF only_terminates_frame(2) [OF chosen(1)]]
    by (simp_all add: waits(4) waiting_def umap_simps fun_eq_iff)
  moreover have "usable now i s sid \<Longrightarrow> isResponseMessage m \<and> \<not> kind_fits True s sid" for sid
    using chosen(5) [OF assms(1) refl, of sid] by (cases "isResponseMessage m") (auto simp: kind_fits_def)
  ultimately show ?thesis using B(2) waits(3) by (intro exI [of _ B]) (auto simp: fun_eq_iff)
next
  case (refused u sid)
  note chosen = chooseTargetStream_facts [OF refused(1)]
  obtain B where B: "http_refines B u" "\<And>sid. log_events B sid = log_events A sid"
    using only_terminates_refines [OF assms(1) chosen(1,2)] by metis
  have "http_refines B s'" using refused(3) B(1) by (elim disjE conjE) (simp_all add: http_refines_def)
  moreover have "waiting s' = waiting s"
    using only_terminates_frame(2) [OF chosen(1)] refused(3)
    by (elim disjE) (auto simp: waiting_def umap_simps fun_eq_iff)
  ultimately show ?thesis using B(2) refused(2) by (intro exI [of _ B]) (simp add: fun_eq_iff)
qed

theorem sent_message_goes_to_one_place_witness:
  "let s = http_run sample_past sample_http in
   \<exists>A B. http_refines A s
     \<and> http_refines B (fst (enqueueServerMessage sample_env 2 sample_message (Some ''a1'') s))
     \<and> (\<exists>e. sse_data e = ''{}'' \<and> log_events B ''s1'' = log_events A ''s1'' @ [e])"
proof -
  define s where "s = http_run sample_past sample_http"
  obtain A where A: "http_refines A s" using run_refines [OF new_sample_http] unfolding s_def by blast
  obtain s' r where e: "enqueueServerMessage sample_env 2 sample_message (Some ''a1'') s = (s', r)" by fastforce
  have facts: "snd (enqueueServerMessage sample_env 2 sample_message (Some ''a1'') s) = Inr True"
    "map fst (hv_streams s) = [''s1'']" "http_serialize sample_env sample_message = Inr ''{}''"
    "\<not> isResponseMessage sample_message"
    "case map_of (hv_streams s) ''s1'' of Some st \<Rightarrow> \<not> st_terminated st \<and> \<not> isStreamExpired (hv_options s) 2 st
       \<and> st_sessionId st = Some ''a1'' | None \<Rightarrow> False"
    unfolding s_def by code_simp+
  have there: "usable 2 (Some ''a1'') s ''s1''" using facts(5) by (auto simp: usable_def split: option.splits)
  have here: "sid = ''s1''" if "usable 2 (Some ''a1'') s sid" for sid
  proof -
    have "sid \<in> set (map fst (hv_streams s))" using that by (force simp: usable_def dest: map_of_SomeD)
    then show ?thesis by (simp add: facts(2))
  qed
  have r: "r = Inr True" using facts(1) e by simp
  obtain B where B: "http_refines B s'" "(\<exists>sid data. usable 2 (Some ''a1'') s sid
      \<and> http_serialize sample_env sample_message = Inr data
      \<and> (\<exists>e. sse_data e = data \<and> log_events B sid = log_events A sid @ [e]))
      \<or> (\<forall>sid. usable 2 (Some ''a1'') s sid \<longrightarrow> isResponseMessage sample_message)"
    using sent_message_goes_to_one_place [OF A e] unfolding r by (simp only: simp_thms if_True) blast
  from B(2) have "\<exists>e. sse_data e = ''{}'' \<and> log_events B ''s1'' = log_events A ''s1'' @ [e]"
  proof (elim disjE exE conjE)
    fix sid data e assume "usable 2 (Some ''a1'') s sid" "http_serialize sample_env sample_message = Inr data"
      "sse_data e = data" "log_events B sid = log_events A sid @ [e]"
    with here [of sid] facts(3) show ?thesis by (intro exI [of _ e]) simp
  qed (use there facts(4) in blast)
  with A B(1) e show ?thesis unfolding Let_def s_def [symmetric] by auto
qed

end
