(* ===== verification/HttpSessions.thy ===== *)
theory HttpSessions
  imports HttpExample
begin

text \<open>
  Who gets through: what the server has checked before a handler sees a request, that a session that
  has ended answers nothing any more, that the headers a client replays name the session the server
  opened, and that messages which wait reach the first stream of their session.
\<close>

section \<open>Admission\<close>

text \<open>The verifier has accepted the bearer token, with every scope the request needs.\<close>

definition token_accepted ::
  "authorization_configuration \<Rightarrow> server_request \<Rightarrow> string option \<Rightarrow> oauth_context \<Rightarrow> bool" where
  "token_accepted cfg req i c \<longleftrightarrow> (\<exists>token res. parseBearerToken (hq_headers req) = Present token
     \<and> the (ao_tokenVerifier (ac_options cfg))
         \<lparr>tv_bearerToken = token, tv_expectedAudience = ao_resource (ac_options cfg),
          tv_request = makeAuthorizationRequestContext req i,
          tv_requiredScopes = resolveRequiredScopes (ac_options cfg) req i\<rparr> = Some res
     \<and> tr_status res = kValid \<and> tr_audienceBound res \<and> oc_taskIsolationKey c \<noteq> []
     \<and> oc_taskIsolationKey c = oc_taskIsolationKey (tr_authorizationContext res)
     \<and> set (resolveRequiredScopes (ac_options cfg) req i) \<subseteq> set (sanitizeScopeSet (oc_grantedScopes (tr_authorizationContext res))))"

lemma authorizeRequest_Inr:
  assumes "authorizeRequest config req v = Inr v'"
  shows "v' = v\<lparr>rr_authorizationContext := rr_authorizationContext v'\<rparr>"
    and "config = Some cfg \<Longrightarrow> \<exists>c. rr_authorizationContext v' = Some c \<and> token_accepted cfg req (rr_sessionId v) c"
proof -
  show "v' = v\<lparr>rr_authorizationContext := rr_authorizationContext v'\<rparr>"
    using assms by (auto simp: authorizeRequest_def Let_def split: option.splits bearer_token.splits if_splits)
  assume cfg: "config = Some cfg"
  let ?a = "ac_options cfg" and ?i = "rr_sessionId v"
  obtain token where token: "parseBearerToken (hq_headers req) = Present token"
    using assms cfg by (auto simp: authorizeRequest_def Let_def split: bearer_token.splits)
  obtain res where res: "the (ao_tokenVerifier ?a)
         \<lparr>tv_bearerToken = token, tv_expectedAudience = ao_resource ?a,
          tv_request = makeAuthorizationRequestContext req ?i,
          tv_requiredScopes = resolveRequiredScopes ?a req ?i\<rparr> = Some res"
    using assms cfg token by (auto simp: authorizeRequest_def Let_def split: option.splits)
  have "tr_status res = kValid"
    using assms cfg token res
    by (cases "tr_status res") (auto simp: authorizeRequest_def Let_def split: if_splits)
  with assms cfg token res
  show "\<exists>c. rr_authorizationContext v' = Some c \<and> token_accepted cfg req (rr_sessionId v) c"
    by (auto simp: authorizeRequest_def Let_def token_accepted_def hasRequiredScopes_def list_all_iff split: if_splits)
qed

lemma validate_version_accepted:
  assumes "rr_accepted (validate_version hs supported inferred i)"
  shows "\<exists>version. validate_version hs supported inferred i = accepted_request i version
     \<and> (version \<in> set supported \<or> version = kFallbackProtocolVersion \<and> getHeader hs kHeaderMcpProtocolVersion = None \<and> inferred = None)
     \<and> (\<forall>h. getHeader hs kHeaderMcpProtocolVersion = Some h \<longrightarrow> version = trimAsciiWhitespace h)"
  using assms
  by (auto simp: validate_version_def Let_def rejectRequest_def isSupportedProtocolVersion_def list_ex_iff
      split: option.splits if_splits)

text \<open>What an accepted request has shown.\<close>

definition validated :: "http_server \<Rightarrow> header_list \<Rightarrow> RequestKind \<Rightarrow> bool \<Rightarrow> string option \<Rightarrow> string \<Rightarrow> bool" where
  "validated s hs kind required i version \<longleftrightarrow>
     origin_rejection hs (ho_originPolicy (hv_options s)) = None
     \<and> (case getHeader hs kHeaderMcpSessionId of
          None \<Rightarrow> i = None \<and> (required \<longrightarrow> kind = kInitialize)
        | Some h \<Rightarrow> i = Some (trimAsciiWhitespace h) \<and> isValidSessionId (trimAsciiWhitespace h)
            \<and> (\<exists>res. map_of (hv_sessions s) (trimAsciiWhitespace h) = Some res \<and> sr_state res = kActive))
     \<and> (version \<in> set (ho_supportedProtocolVersions (hv_options s))
        \<or> version = kFallbackProtocolVersion \<and> getHeader hs kHeaderMcpProtocolVersion = None)"

lemma http_validate_accepted:
  assumes "rr_accepted (http_validate s req kind required)"
  obtains i version where "http_validate s req kind required = accepted_request i version"
    "validated s (hq_headers req) kind required i version"
proof -
  let ?hs = "hq_headers req" and ?supported = "ho_supportedProtocolVersions (hv_options s)"
  have origin: "origin_rejection ?hs (ho_originPolicy (hv_options s)) = None"
    using assms by (auto simp: http_validate_def validateServerRequest_def origin_rejection_def rejectRequest_def
        split: option.splits if_splits)
  show ?thesis
  proof (cases "getHeader ?hs kHeaderMcpSessionId")
    case None
    with assms origin have v: "http_validate s req kind required = validate_version ?hs ?supported None None"
      and kind: "required \<longrightarrow> kind = kInitialize"
      by (auto simp: http_validate_def validateServerRequest_def rejectRequest_def split: if_splits)
    from validate_version_accepted [OF assms [unfolded v]] that None origin kind v show ?thesis
      by (auto simp: validated_def)
  next
    case (Some h)
    let ?i = "trimAsciiWhitespace h"
    have valid: "isValidSessionId ?i"
      using assms Some origin by (auto simp: http_validate_def validateServerRequest_def rejectRequest_def Let_def split: if_splits)
    have active: "sr_state (sessionResolver s ?i) = kActive"
    proof (cases "sr_state (sessionResolver s ?i)")
    qed (use assms Some origin valid in \<open>auto simp: http_validate_def validateServerRequest_def rejectRequest_def Let_def\<close>)
    then obtain res where res: "map_of (hv_sessions s) ?i = Some res" "sr_state res = kActive" "sessionResolver s ?i = res"
      by (auto simp: sessionResolver_def split: option.splits)
    have v: "http_validate s req kind required =
        validate_version ?hs ?supported (sr_negotiatedProtocolVersion res) (Some ?i)"
      using Some origin valid res by (simp add: http_validate_def validateServerRequest_def Let_def)
    from validate_version_accepted [OF assms [unfolded v]] that Some origin valid res v show ?thesis
      by (auto simp: validated_def)
  qed
qed

lemma admit_Inr:
  assumes "admit env s req kind required = Inr v"
  obtains version where "validated s (hq_headers req) kind required (rr_sessionId v) version"
    "rr_effectiveProtocolVersion v = version"
    "\<And>cfg. hv_authorization s = Some cfg \<Longrightarrow> \<exists>c. rr_authorizationContext v = Some c \<and> token_accepted cfg req (rr_sessionId v) c"
proof -
  let ?v = "http_validate s req kind required"
  have "rr_accepted ?v" and auth: "authorizeRequest (hv_authorization s) req ?v = Inr v"
    using assms by (auto simp: admit_def Let_def split: if_splits)
  then obtain i version where iv: "?v = accepted_request i version" "validated s (hq_headers req) kind required i version"
    using http_validate_accepted by metis
  have v: "v = ?v\<lparr>rr_authorizationContext := rr_authorizationContext v\<rparr>" by (rule authorizeRequest_Inr(1) [OF auth])
  have "rr_sessionId v = i" "rr_effectiveProtocolVersion v = version"
    by (subst v, simp add: iv(1) accepted_request_def)+
  with that iv(2) authorizeRequest_Inr(2) [OF auth] show ?thesis by (simp add: iv(1) accepted_request_def)
qed

fun call_context :: "http_call \<Rightarrow> request_context" where
  "call_context (NotificationCall ctx _) = ctx"
| "call_context (ResponseCall ctx _) = ctx"
| "call_context (RequestCall ctx _ _ _) = ctx"

fun call_message :: "http_call \<Rightarrow> message" where
  "call_message (NotificationCall _ n) = MNotification n"
| "call_message (ResponseCall _ r) = message_of_response r"
| "call_message (RequestCall _ r _ _) = MRequest r"

lemma handlePost_begin_Calls:
  assumes "handlePost_begin env random req s = Calls call"
  obtains m v where "length (hq_body req) \<le> ho_maxMessageSizeBytes (hv_options s)"
    "http_parse env (hq_body req) = Inr m" "call_message call = m"
    "admit env s req (if isInitializeRequest m then kInitialize else kOther) (ho_requireSessionId (hv_options s)) = Inr v"
    "call_context call = (if isInitializeRequest m \<and> ho_requireSessionId (hv_options s)
       then (toRequestContext v)\<lparr>rc_session_id := Some (generateSessionId random)\<rparr> else toRequestContext v)"
  using assms that
  by (auto simp: handlePost_begin_def Let_def
      split: option.splits if_splits sum.splits message.splits)

text \<open>
  C17. A handler sees admitted requests only: when a request makes the server call a handler, the state
  has not changed, the request is a POST within the size limit whose body parses to the message that
  the handler gets, its origin is allowed, the session it names is active (or none is named, and
  none is needed), the protocol version in the context is supported or the fallback, and, with
  authorization, the verifier has accepted its bearer token with every required scope and the
  context carries the key of that authorization.
\<close>

theorem handlers_see_admitted_requests:
  assumes "handleRequest_begin env now random req s = (s', Waits legacy call)"
  shows "s' = s \<and> hq_method req = kPost \<and> length (hq_body req) \<le> ho_maxMessageSizeBytes (hv_options s)
    \<and> http_parse env (hq_body req) = Inr (call_message call)
    \<and> (\<exists>i. validated s (hq_headers req) (if isInitializeRequest (call_message call) then kInitialize else kOther)
            (ho_requireSessionId (hv_options s)) i (rc_protocol_version (call_context call))
        \<and> rc_session_id (call_context call) =
            (if isInitializeRequest (call_message call) \<and> ho_requireSessionId (hv_options s)
             then Some (generateSessionId random) else i)
        \<and> (\<forall>cfg. hv_authorization s = Some cfg \<longrightarrow>
             (\<exists>c. token_accepted cfg req i c \<and> rc_auth_context (call_context call) = Some (oc_taskIsolationKey c))))"
proof -
  have post: "hq_method req = kPost \<and> post_route env now random legacy req s = (s', Waits legacy call)"
    using assms
    by (auto simp: handleRequest_begin_def post_route_def Let_def
        split: option.splits if_splits ServerRequestMethod.splits prod.splits post_step.splits http_call.splits)
  then have start: "handlePost_begin env random req s = Calls call" and same: "s' = s"
    by (auto simp: post_route_def Let_def split: if_splits prod.splits post_step.splits http_call.splits)
  obtain v where v: "length (hq_body req) \<le> ho_maxMessageSizeBytes (hv_options s)"
    "http_parse env (hq_body req) = Inr (call_message call)"
    "admit env s req (if isInitializeRequest (call_message call) then kInitialize else kOther)
       (ho_requireSessionId (hv_options s)) = Inr v"
    "call_context call = (if isInitializeRequest (call_message call) \<and> ho_requireSessionId (hv_options s)
       then (toRequestContext v)\<lparr>rc_session_id := Some (generateSessionId random)\<rparr> else toRequestContext v)"
    using handlePost_begin_Calls [OF start] by metis
  obtain version where version: "validated s (hq_headers req)
       (if isInitializeRequest (call_message call) then kInitialize else kOther)
       (ho_requireSessionId (hv_options s)) (rr_sessionId v) version" "rr_effectiveProtocolVersion v = version"
    "\<And>cfg. hv_authorization s = Some cfg \<Longrightarrow> \<exists>c. rr_authorizationContext v = Some c \<and> token_accepted cfg req (rr_sessionId v) c"
    using admit_Inr [OF v(3)] by metis
  have auth: "\<exists>c. token_accepted cfg req (rr_sessionId v) c \<and> rc_auth_context (call_context call) = Some (oc_taskIsolationKey c)"
    if "hv_authorization s = Some cfg" for cfg
    using version(3) [OF that] by (auto simp: v(4) toRequestContext_def)
  have ctx: "rc_protocol_version (call_context call) = version"
    "rc_session_id (call_context call) = (if isInitializeRequest (call_message call) \<and> ho_requireSessionId (hv_options s)
       then Some (generateSessionId random) else rr_sessionId v)"
    by (simp_all add: v(4) toRequestContext_def version(2))
  show ?thesis
    using post same v(1,2) version(1) auth ctx by (intro conjI exI [of _ "rr_sessionId v"]) simp_all
qed

section \<open>Sessions that have ended\<close>

text \<open>What brings a session back: the application, or an initialize answered under the same id.\<close>

fun revives :: "string \<Rightarrow> http_move \<Rightarrow> bool" where
  "revives i (Upserts j state _) = (j = i \<and> state = kActive)"
| "revives i (Sets j state) = (j = i \<and> state = kActive)"
| "revives i (Ends _ _ _ _ (RequestCall _ _ _ generated) _) = (generated = Some i)"
| "revives i _ = False"

definition inactive :: "string \<Rightarrow> (string, session_resolution) umap \<Rightarrow> bool" where
  "inactive i m \<longleftrightarrow> (\<forall>res. map_of m i = Some res \<longrightarrow> sr_state res \<noteq> kActive)"

lemma emit_sessions: "hv_sessions (fst (emitPendingMessages env st s)) = hv_sessions s"
  by (simp add: emitPendingMessages_def put_stream_def Let_def split: option.split prod.split)

lemma get_sessions: "hv_sessions (fst (handleGet env now req s)) = hv_sessions s"
proof -
  have "hv_sessions s2 = hv_sessions s" if "createStream now i k s = (s1, st)" "emitPendingMessages env st s1 = (s2, r)"
    for i k s1 st s2 r
    using created(8) [OF that(1)] emit_sessions [of env st s1] that(2) by simp
  then show ?thesis
    by (auto simp: handleGet_def put_stream_def Let_def split: option.split sum.split prod.split)
qed

lemma legacy_message_sessions: "hv_sessions (fst (appendLegacyMessage env i m s)) = hv_sessions s"
  by (simp add: appendLegacyMessage_def Let_def split: sum.split)

lemma legacy_texts_sessions: "hv_sessions (fst (append_legacy_texts env i ts s)) = hv_sessions s"
proof (induction ts arbitrary: s)
  case (Cons t ts)
  have "hv_sessions s' = hv_sessions s" if "appendLegacyMessage env i m s = (s', r)" for m s' r
    using legacy_message_sessions [of env i m s] that by simp
  with Cons.IH show ?case by (auto split: sum.split prod.split bool.split)
qed simp

lemma legacy_answer_sessions: "hv_sessions (fst (legacy_answer env req (s, r))) = hv_sessions s"
proof -
  have "hv_sessions (fst (appendLegacyMessagesFromResponse env i resp s)) = hv_sessions s" for i resp
    by (simp add: appendLegacyMessagesFromResponse_def legacy_texts_sessions del: append_legacy_texts.simps split: option.split)
  then have "hv_sessions s2 = hv_sessions s" if "appendLegacyMessagesFromResponse env i resp s = (s2, ok)" for i resp s2 ok
    using that by (metis fst_conv)
  then show ?thesis by (auto simp: legacy_answer_def split: sum.split prod.split bool.split)
qed

text \<open>Only a successful response to initialize changes the sessions, by the one it opens.\<close>

definition opens :: "string option \<Rightarrow> response option \<Rightarrow> http_server \<Rightarrow> http_server \<Rightarrow> bool" where
  "opens generated resp s t \<longleftrightarrow> hv_sessions t = hv_sessions s
     \<or> (\<exists>i version r. generated = Some i \<and> resp = Some (RSuccess r) \<and> hv_sessions t =
          umap_put i \<lparr>sr_state = kActive, sr_negotiatedProtocolVersion = Some version\<rparr> (hv_sessions s))"

lemma opens_same [simp]: "hv_sessions t = hv_sessions s \<Longrightarrow> opens generated resp s t"
  by (simp add: opens_def)

lemma opens_open [simp]:
  "hv_sessions t = hv_sessions s \<Longrightarrow> opens generated resp s (open_session (initialized_version generated resp) t)"
  by (auto simp: opens_def open_session_def initialized_version_def http_upsertSession_def
      split: option.split response.split)

lemma post_request_end_sessions: "opens generated (sz_response res) s (fst (post_request_end env now v generated res s))"
proof (cases "sz_useSse res \<or> sz_preResponseMessages res \<noteq> []")
  case False
  have "hv_sessions (fst (post_json_end env generated None s)) = hv_sessions s" by (simp add: post_json_end_def)
  moreover have "opens generated (Some r) s (fst (post_json_end env generated (Some r) s))" for r
    using opens_open [of s s generated "Some r"] by (simp add: post_json_end_def Let_def)
  ultimately show ?thesis using False by (cases "sz_response res") (simp_all add: post_request_end_def)
next
  case True
  obtain s1 st0 where new: "createStream now (rr_sessionId v) PostStream s = (s1, st0)" by fastforce
  have put: "hv_sessions (put_stream st s1) = hv_sessions s" for st
    using created(8) [OF new] by (simp add: put_stream_def)
  have "opens generated (sz_response res) s (fst (post_sse_end env now v generated res s))"
    unfolding post_sse_end_def new Let_def prod.case
    by (simp add: put opens_open split: sum.split prod.split bool.split)
  with True show ?thesis by (simp add: post_request_end_def)
qed

lemma opens_inactive: "opens generated resp s t \<Longrightarrow> generated \<noteq> Some i \<Longrightarrow> inactive i (hv_sessions s) \<Longrightarrow> inactive i (hv_sessions t)"
  by (auto simp: opens_def inactive_def umap_simps split: if_splits)

lemma enqueue_sessions: "hv_sessions (fst (enqueueServerMessage env now m i s)) = hv_sessions s"
proof -
  obtain s' r where e: "enqueueServerMessage env now m i s = (s', r)" by fastforce
  from e have "hv_sessions s' = hv_sessions s"
    using only_terminates_frame(4) [OF chooseTargetStream_facts(1)]
    by (cases rule: enqueue_cases) auto
  with e show ?thesis by simp
qed

lemma delete_inactive: "inactive i (hv_sessions s) \<Longrightarrow> inactive i (hv_sessions (fst (handleDelete env req s)))"
  by (auto simp: handleDelete_def inactive_def umap_simps split: sum.split option.split)

lemma post_route_inactive:
  assumes "inactive i (hv_sessions s)"
  shows "inactive i (hv_sessions (fst (post_route env now random legacy req s)))"
proof -
  have fin: "inactive i (hv_sessions (fst (case (if legacy then legacy_answer env req outcome else outcome) of (s', r) \<Rightarrow> (s', Done r))))"
    if "inactive i (hv_sessions (fst outcome))" for outcome
    using that legacy_answer_sessions [of env req "fst outcome" "snd outcome"] by (simp add: split_def)
  have "hv_sessions (fst (post_request_end env now v generated (no_handler_result r) s)) = hv_sessions s" for v generated r
    using post_request_end_sessions [of generated "no_handler_result r" s env now v]
    by (auto simp: opens_def no_handler_result_def error_reply_def)
  then show ?thesis
    using assms by (simp add: post_route_def Let_def fin split: post_step.split http_call.split)
qed

lemma apply_inactive:
  assumes "inactive i (hv_sessions s)" and "\<not> revives i m"
  shows "inactive i (hv_sessions (http_apply m s))"
proof (cases m)
  case (Begins env now random req)
  have "inactive i (hv_sessions (fst (handleLegacyGet env req s)))"
    using assms(1) by (auto simp: handleLegacyGet_def inactive_def Let_def split: sum.split option.split)
  moreover have "inactive i (hv_sessions (fst (handleGet env now req s)))" using assms(1) get_sessions by simp
  ultimately show ?thesis
    using assms(1) delete_inactive [OF assms(1), of env req] post_route_inactive [OF assms(1), of env now random _ req] Begins
    by (auto simp: handleRequest_begin_def Let_def split_def split: option.split ServerRequestMethod.split)
next
  case (Ends env now req legacy call outcome)
  have "inactive i (hv_sessions (fst (handlePost_end env now call outcome s)))"
  proof (cases call)
    case (RequestCall ctx r v generated)
    then have "generated \<noteq> Some i" using assms(2) Ends by simp
    then show ?thesis
      using opens_inactive [OF post_request_end_sessions _ assms(1)] assms(1) RequestCall
      by (auto simp: handlePost_end_def split: handler_outcome.split)
  qed (use assms(1) in \<open>auto simp: handlePost_end_def split: handler_outcome.split\<close>)
  then show ?thesis
    using legacy_answer_sessions [of env req "fst (handlePost_end env now call outcome s)" "snd (handlePost_end env now call outcome s)"]
    by (simp add: Ends handleRequest_end_def Let_def)
next
  case (Sends env now msg j)
  then show ?thesis using assms(1) enqueue_sessions by simp
next
  case (Upserts j state version)
  then show ?thesis using assms by (auto simp: http_upsertSession_def inactive_def umap_simps)
next
  case (Sets j state)
  then show ?thesis using assms by (auto simp: http_setSessionState_def inactive_def umap_simps split: option.split)
next
  case (Handlers a b c)
  then show ?thesis
    using assms(1) by (simp add: inactive_def setRequestHandler_def setNotificationHandler_def setResponseHandler_def)
qed

lemma run_inactive:
  "inactive i (hv_sessions s) \<Longrightarrow> \<forall>m \<in> set moves. \<not> revives i m \<Longrightarrow> inactive i (hv_sessions (http_run moves s))"
  unfolding http_run_def by (induction moves arbitrary: s) (simp_all add: apply_inactive)

lemma admit_Inl:
  assumes "admit env s req kind required = Inl resp"
  shows "400 \<le> hr_statusCode resp \<and> hr_sse resp = None"
proof (cases "rr_accepted (http_validate s req kind required)")
  case False
  then have "400 \<le> rr_statusCode (http_validate s req kind required)"
    by (auto simp: http_validate_def validateServerRequest_def validate_version_def origin_rejection_def rejectRequest_def
        accepted_request_def Let_def split: option.splits if_splits)
  with assms False show ?thesis
    by (auto simp: admit_def Let_def rejectValidation_def statusResponse_def json_error_def jsonResponse_def split: if_splits)
next
  case True
  with assms show ?thesis
    by (auto simp: admit_def authorizeRequest_def Let_def unauthorizedResponse_def insufficientScopeResponse_def
        challenge_response_def statusResponse_def split: option.splits bearer_token.splits if_splits)
qed

text \<open>A request of a session that is not active is refused, whatever it asks for.\<close>

lemma admit_refused:
  assumes "inactive i (hv_sessions s)" and "getHeader (hq_headers req) kHeaderMcpSessionId = Some h" and "trimAsciiWhitespace h = i"
  shows "\<exists>resp. admit env s req kind required = Inl resp \<and> 400 \<le> hr_statusCode resp \<and> hr_sse resp = None"
proof (cases "admit env s req kind required")
  case (Inr v)
  with assms show ?thesis by (auto simp: validated_def inactive_def elim!: admit_Inr)
qed (use admit_Inl in auto)

lemma refused_post:
  assumes "\<And>kind required. \<exists>resp. admit env s req kind required = Inl resp \<and> 400 \<le> hr_statusCode resp \<and> hr_sse resp = None"
  shows "\<exists>resp. handlePost_begin env random req s = Answers resp \<and> 400 \<le> hr_statusCode resp \<and> hr_sse resp = None"
proof (cases "http_parse env (hq_body req)")
  case (Inr m)
  obtain resp where "admit env s req (if isInitializeRequest m then kInitialize else kOther)
      (ho_requireSessionId (hv_options s)) = Inl resp" "400 \<le> hr_statusCode resp" "hr_sse resp = None" using assms by blast
  then show ?thesis
    by (auto simp: handlePost_begin_def Inr Let_def json_error_def jsonResponse_def split: option.split)
qed (auto simp: handlePost_begin_def Let_def json_error_def jsonResponse_def split: option.split)

text \<open>
  C18. A session that a client has deleted stays deleted: after a DELETE answered with 204, whatever the
  server does, unless the application makes the session active again or an initialize is answered
  under the same id, every request that names the session is refused with an error status, reaches
  no handler and changes nothing. (The metadata of the authorization is served without a session.)
\<close>

theorem deleted_session_stays_deleted:
  assumes "handleDelete env0 req0 s = (s1, Inr resp0)" and "hr_statusCode resp0 = 204"
    and "getHeader (hq_headers req0) kHeaderMcpSessionId = Some h0"
    and "\<forall>m \<in> set moves. \<not> revives (trimAsciiWhitespace h0) m" and "s2 = http_run moves s1"
    and "getHeader (hq_headers req) kHeaderMcpSessionId = Some h" and "trimAsciiWhitespace h = trimAsciiWhitespace h0"
    and "handleProtectedResourceMetadataRequest (hv_authorization s2) req = None"
  shows "\<exists>resp. handleRequest_begin env now random req s2 = (s2, Done (Inr resp)) \<and> 400 \<le> hr_statusCode resp
     \<and> hr_sse resp = None"
proof -
  let ?i = "trimAsciiWhitespace h0"
  obtain v where admitted: "admit env0 s req0 kOther True = Inr v"
    using assms(1,2) admit_Inl [of env0 s req0 kOther True]
    by (cases "admit env0 s req0 kOther True") (auto simp: handleDelete_def statusResponse_def split: if_splits)
  then have id: "rr_sessionId v = Some ?i" using assms(3) by (auto simp: validated_def elim!: admit_Inr)
  have "inactive ?i (hv_sessions s1)"
    using assms(1,2) admitted id
    by (auto simp: handleDelete_def inactive_def umap_simps statusResponse_def json_error_def jsonResponse_def
        split: if_splits option.splits)
  then have "inactive ?i (hv_sessions s2)" using run_inactive assms(4) unfolding assms(5) by blast
  note refused = admit_refused [OF this assms(6,7)]
  have get: "\<exists>resp. handleGet env now req s2 = (s2, Inr resp) \<and> 400 \<le> hr_statusCode resp \<and> hr_sse resp = None"
    using refused [of env kOther "ho_requireSessionId (hv_options s2)"]
    by (auto simp: handleGet_def Let_def statusResponse_def)
  have delete: "\<exists>resp. handleDelete env req s2 = (s2, Inr resp) \<and> 400 \<le> hr_statusCode resp \<and> hr_sse resp = None"
    using refused [of env kOther True] by (auto simp: handleDelete_def statusResponse_def)
  have legacy: "\<exists>resp. handleLegacyGet env req s2 = (s2, Inr resp) \<and> 400 \<le> hr_statusCode resp \<and> hr_sse resp = None"
    using refused [of env kOther "ho_requireSessionId (hv_options s2)"] by (auto simp: handleLegacyGet_def)
  have post: "\<exists>resp. post_route env now random b req s2 = (s2, Done (Inr resp)) \<and> 400 \<le> hr_statusCode resp \<and> hr_sse resp = None"
    for b using refused_post [of env s2 req random, OF refused] by (auto simp: post_route_def legacy_answer_def Let_def)
  show ?thesis
    using get delete legacy post [of True] post [of False] assms(8)
    by (cases "hq_method req") (auto simp: handleRequest_begin_def Let_def statusResponse_def)
qed

section \<open>The headers of a session\<close>

lemma hex_visible: "b < 256 \<Longrightarrow> 0x21 \<le> byte (hexAlphabet ! (b div 16)) \<and> byte (hexAlphabet ! (b div 16)) \<le> 0x7E
    \<and> 0x21 \<le> byte (hexAlphabet ! (b mod 16)) \<and> byte (hexAlphabet ! (b mod 16)) \<le> 0x7E"
proof -
  assume b: "b < 256"
  have "length hexAlphabet = 16" "\<forall>c \<in> set hexAlphabet. 0x21 \<le> byte c \<and> byte c \<le> 0x7E"
    by (simp_all add: hexAlphabet_def byte_def)
  moreover have "b div 16 < 16" "b mod 16 < 16" using b by auto
  ultimately show ?thesis by (metis nth_mem)
qed

lemma generated_valid:
  "random \<noteq> [] \<Longrightarrow> \<forall>b \<in> set random. b < 256 \<Longrightarrow> isValidSessionId (generateSessionId random)"
  using hex_visible by (cases random) (auto simp: isValidSessionId_def generateSessionId_def list_all_iff)

lemma dropWhile_none: "list_all (\<lambda>c. \<not> P c) xs \<Longrightarrow> dropWhile P xs = xs"
  by (cases xs) auto

lemma trim_visible: "list_all (\<lambda>c. 0x21 \<le> byte c \<and> byte c \<le> 0x7E) v \<Longrightarrow> trimAsciiWhitespace v = v"
proof -
  assume "list_all (\<lambda>c. 0x21 \<le> byte c \<and> byte c \<le> 0x7E) v"
  then have "list_all (\<lambda>c. \<not> isAsciiWhitespace c) v" by (auto simp: list_all_iff isAsciiWhitespace_def)
  then have "dropWhile isAsciiWhitespace v = v" "dropWhile isAsciiWhitespace (rev v) = rev v"
    using dropWhile_none [of isAsciiWhitespace v] dropWhile_none [of isAsciiWhitespace "rev v"] by (simp_all add: list_all_iff)
  then show ?thesis by (simp add: trimAsciiWhitespace_def)
qed

lemma version_visible: "isValidProtocolVersion v \<Longrightarrow> list_all (\<lambda>c. 0x21 \<le> byte c \<and> byte c \<le> 0x7E) v"
proof -
  assume v: "isValidProtocolVersion v"
  have "0x21 \<le> byte (v ! k) \<and> byte (v ! k) \<le> 0x7E" if "k < length v" for k
  proof (cases "k = 4 \<or> k = 7")
    case True
    then show ?thesis using v by (auto simp: isValidProtocolVersion_def byte_def)
  next
    case False
    then have "is_digit (v ! k)" using v that by (auto simp: isValidProtocolVersion_def list_all_iff)
    then show ?thesis by (rule digit_visible)
  qed
  then show ?thesis by (simp add: list_all_length)
qed

text \<open>
  Server and client agree on the session: when the server answers initialize with a session id and a
  protocol version it supports, and the client captures the header of that answer, every later
  request that carries the client's replayed headers, whatever its other headers are, is validated
  as a request of that session with that version, as long as the session stays as it was opened and
  the origin is allowed.
\<close>

theorem replayed_headers_name_the_session:
  assumes "handlePost_end env now (RequestCall ctx r v (Some i)) (Result res) s = (s1, Inr resp)"
    and "i = generateSessionId random" and "random \<noteq> []" and "\<forall>b \<in> set random. b < 256"
    and "hr_statusCode resp = 200" and "sz_response res = Some (RSuccess reply)"
    and "extractProtocolVersionFromInitializeResult (sr_result reply) = Some version"
    and "version \<in> set (ho_supportedProtocolVersions (hv_options s2))"
    and "captureFromInitializeResponse (getHeader (hr_headers resp) kHeaderMcpSessionId) version h = (h', True)"
    and "map_of (hv_sessions s2) i = map_of (hv_sessions s1) i"
    and "hq_headers req = replayToRequestHeaders False h' hs"
    and "origin_rejection (hq_headers req) (ho_originPolicy (hv_options s2)) = None"
  shows "http_validate s2 req kind required = accepted_request (Some i) version"
proof -
  have iv: "initialized_version (Some i) (sz_response res) = Some (i, version)"
    using assms(6,7) by (simp add: initialized_version_def)
  have valid: "isValidSessionId i" using generated_valid assms(2,3,4) by simp
  have valid_version: "isValidProtocolVersion version"
    using assms(7) by (auto simp: extractProtocolVersionFromInitializeResult_def split: option.splits if_splits)
  have trims: "trimAsciiWhitespace i = i" "trimAsciiWhitespace version = version"
    using trim_visible valid version_visible [OF valid_version] by (simp_all add: isValidSessionId_def)
  have answer: "getHeader (hr_headers resp) kHeaderMcpSessionId = Some i
      \<and> map_of (hv_sessions s1) i = Some \<lparr>sr_state = kActive, sr_negotiatedProtocolVersion = Some version\<rparr>"
  proof -
    have opened: "map_of (hv_sessions (open_session (Some (i, version)) t)) i =
        Some \<lparr>sr_state = kActive, sr_negotiatedProtocolVersion = Some version\<rparr>" for t
      by (simp add: open_session_def http_upsertSession_def umap_simps)
    have named: "getHeader (hr_headers (name_session (Some (i, version)) answer)) kHeaderMcpSessionId = Some i" for answer
      by (simp add: name_session_def)
    have "post_request_end env now v (Some i) res s = (s1, Inr resp)" using assms(1) by (simp add: handlePost_end_def)
    then show ?thesis
      using assms(5,6) iv opened named
      by (auto simp: post_request_end_def post_json_end_def post_sse_end_def json_error_def jsonResponse_def bindE_def Let_def
          split: if_splits option.splits sum.splits prod.splits bool.splits)
  qed
  have h': "hs_sessionId h' = Some i" "hs_replay h'" "hs_negotiatedProtocolVersion h' = Some version"
    using assms(9) answer valid valid_version trims
    by (auto simp: captureFromInitializeResponse_def session_capture_def setNegotiatedProtocolVersion_def Let_def
        isValidProtocolVersion_def split: prod.splits bool.splits if_splits)
  have headers: "getHeader (hq_headers req) kHeaderMcpSessionId = Some i"
    "getHeader (hq_headers req) kHeaderMcpProtocolVersion = Some version"
    unfolding assms(11) by (simp_all add: replayToRequestHeaders_def h' kHeaderMcpSessionId_def kHeaderMcpProtocolVersion_def
        toLowerAscii_def toAsciiLower_def isAsciiUpper_def byte_def)
  show ?thesis
    using assms(8,10,12) answer headers trims valid valid_version
    by (simp add: http_validate_def validateServerRequest_def validate_version_def sessionResolver_def
        isSupportedProtocolVersion_def list_ex_iff Let_def)
qed

section \<open>Messages that wait\<close>

lemma created_log:
  assumes "createStream now i kind s = (s', st)"
  shows "\<exists>e. sse_data e = [] \<and> keeps (limit_of s) \<lparr>sl_session = i, sl_kind = kind, sl_closed = False, sl_events = [e]\<rparr> st"
proof -
  let ?new = "\<lparr>st_streamId = CHR ''s'' # to_string_nat (hv_nextStreamOrdinal s + 1), st_sessionId = i, st_kind = kind,
    st_nextCursor = 1, st_openedAt = now, st_terminated = False, st_events = []\<rparr>"
  have "keeps (limit_of s) \<lparr>sl_session = i, sl_kind = kind, sl_closed = False, sl_events = []\<rparr> ?new"
    by (simp add: keeps_def numbered_def keep_newest_def)
  from append_event_keeps [OF this, of "[]"] assms show ?thesis
    by (intro exI [of _ "event_in ?new []"])
      (simp add: createStream_def appendPrimingEvent_def Let_def event_in_def makeEvent_def)
qed

lemma append_all_log:
  assumes "\<forall>m \<in> set ms. \<exists>data. http_serialize env m = Inr data \<and> length data \<le> ho_maxMessageSizeBytes opts"
    and "keeps (ho_maxSseBufferedMessages opts) a st"
  shows "\<exists>st' es. append_all env opts ms st = (st', None) \<and> st_streamId st' = st_streamId st
     \<and> st_sessionId st' = st_sessionId st
     \<and> keeps (ho_maxSseBufferedMessages opts) (a\<lparr>sl_events := sl_events a @ es\<rparr>) st'
     \<and> map sse_data es = map (\<lambda>m. projr (http_serialize env m)) ms"
  using assms
proof (induction ms arbitrary: a st)
  case Nil
  then show ?case by (auto simp: keeps_def)
next
  case (Cons m ms)
  then obtain data where data: "http_serialize env m = Inr data" "length data \<le> ho_maxMessageSizeBytes opts" by auto
  let ?e = "event_in st data"
  have one: "appendMessageEvent env opts m st = Inr (append_event opts data st, True)"
    using data by (simp add: appendMessageEvent_def)
  from Cons.IH [OF _ append_event_keeps [OF Cons.prems(2), of data]] Cons.prems(1)
  obtain st' es where "append_all env opts ms (append_event opts data st) = (st', None)" "st_streamId st' = st_streamId st"
    "st_sessionId st' = st_sessionId st"
    "keeps (ho_maxSseBufferedMessages opts) (a\<lparr>sl_events := (sl_events a @ [?e]) @ es\<rparr>) st'"
    "map sse_data es = map (\<lambda>m. projr (http_serialize env m)) ms" by auto
  with one data(1) show ?case
    by (intro exI [of _ st'] exI [of _ "?e # es"]) (simp add: event_in_def makeEvent_def)
qed

text \<open>No more messages wait than a stream buffers.\<close>

definition pending_bounded :: "nat \<Rightarrow> (string, message list) umap \<Rightarrow> bool" where
  "pending_bounded limit p \<longleftrightarrow> (\<forall>k ms. map_of p k = Some ms \<longrightarrow> length ms \<le> limit)"

lemma pending_bounded_simps [simp]:
  "pending_bounded limit []"
  "pending_bounded limit p \<Longrightarrow> pending_bounded limit (umap_erase k p)"
  "pending_bounded limit p \<Longrightarrow> length ms \<le> limit \<Longrightarrow> pending_bounded limit (umap_put k ms p)"
  by (auto simp: pending_bounded_def umap_simps)

lemma emit_pending:
  "pending_bounded limit (hv_pending s) \<Longrightarrow> pending_bounded limit (hv_pending (fst (emitPendingMessages env st s)))"
  by (simp add: emitPendingMessages_def put_stream_def Let_def split: option.split prod.split)

lemma get_pending:
  assumes "pending_bounded limit (hv_pending s)"
  shows "pending_bounded limit (hv_pending (fst (handleGet env now req s)))"
proof -
  have "pending_bounded limit (hv_pending s2)" if "createStream now i k s = (s1, st)" "emitPendingMessages env st s1 = (s2, r)"
    for i k s1 st s2 r
    using created(7) [OF that(1)] emit_pending [of limit s1 env st] that(2) assms by simp
  then show ?thesis
    using assms by (auto simp: handleGet_def put_stream_def Let_def split: option.split sum.split prod.split)
qed

lemma open_session_pending [simp]: "hv_pending (open_session iv s) = hv_pending s"
  by (simp add: open_session_def http_upsertSession_def split: option.split)

lemma post_request_end_pending: "hv_pending (fst (post_request_end env now v generated res s)) = hv_pending s"
proof (cases "sz_useSse res \<or> sz_preResponseMessages res \<noteq> []")
  case False
  then show ?thesis by (simp add: post_request_end_def post_json_end_def Let_def split: option.split)
next
  case True
  obtain s1 st0 where new: "createStream now (rr_sessionId v) PostStream s = (s1, st0)" by fastforce
  have put: "hv_pending (put_stream st s1) = hv_pending s" for st
    using created(7) [OF new] by (simp add: put_stream_def)
  have "hv_pending (fst (post_sse_end env now v generated res s)) = hv_pending s"
    unfolding post_sse_end_def new Let_def prod.case
    by (simp add: put split: sum.split prod.split bool.split)
  with True show ?thesis by (simp add: post_request_end_def)
qed

lemma legacy_texts_pending: "hv_pending (fst (append_legacy_texts env i ts s)) = hv_pending s"
proof (induction ts arbitrary: s)
  case (Cons t ts)
  have "hv_pending s' = hv_pending s" if "appendLegacyMessage env i m s = (s', r)" for m s' r
  proof -
    have "hv_pending (fst (appendLegacyMessage env i m s)) = hv_pending s"
      by (simp add: appendLegacyMessage_def Let_def split: sum.split)
    with that show ?thesis by simp
  qed
  with Cons.IH show ?case by (auto split: sum.split prod.split bool.split)
qed simp

lemma legacy_answer_pending: "hv_pending (fst (legacy_answer env req (s, r))) = hv_pending s"
proof -
  have "hv_pending (fst (appendLegacyMessagesFromResponse env i resp s)) = hv_pending s" for i resp
    by (simp add: appendLegacyMessagesFromResponse_def legacy_texts_pending del: append_legacy_texts.simps split: option.split)
  then have "hv_pending s2 = hv_pending s" if "appendLegacyMessagesFromResponse env i resp s = (s2, ok)" for i resp s2 ok
    using that by (metis fst_conv)
  then show ?thesis by (auto simp: legacy_answer_def split: sum.split prod.split bool.split)
qed

lemma enqueue_pending:
  assumes "pending_bounded (limit_of s) (hv_pending s)"
  shows "pending_bounded (limit_of s) (hv_pending (fst (enqueueServerMessage env now m i s)))"
proof -
  obtain s' r where e: "enqueueServerMessage env now m i s = (s', r)" by fastforce
  note frame = only_terminates_frame(1,2) [OF chooseTargetStream_facts(1)]
  from e have "pending_bounded (limit_of s) (hv_pending s')"
  proof (cases rule: enqueue_cases)
    case (streamed u sid st data)
    with frame [OF streamed(1)] assms show ?thesis by simp
  next
    case (waits u)
    with frame [OF waits(1)] assms show ?thesis by simp
  next
    case (refused u sid)
    with frame [OF refused(1)] assms show ?thesis by auto
  qed
  with e show ?thesis by simp
qed

lemma apply_pending:
  assumes "pending_bounded (limit_of s) (hv_pending s)"
  shows "pending_bounded (limit_of s) (hv_pending (http_apply m s))"
proof (cases m)
  case (Begins env now random req)
  have fin: "pending_bounded limit (hv_pending (fst (case (if legacy then legacy_answer env req outcome else outcome) of (s', r) \<Rightarrow> (s', Done r))))"
    if "pending_bounded limit (hv_pending (fst outcome))" for outcome legacy limit
    using that legacy_answer_pending [of env req "fst outcome" "snd outcome"] by (simp add: split_def)
  have "pending_bounded (limit_of s) (hv_pending (fst (post_route env now random legacy req s)))" for legacy
    using assms by (simp add: post_route_def Let_def fin post_request_end_pending split: post_step.split http_call.split)
  moreover have "pending_bounded (limit_of s) (hv_pending (fst (handleLegacyGet env req s)))"
    using assms by (auto simp: handleLegacyGet_def Let_def split: sum.split option.split)
  moreover have "pending_bounded (limit_of s) (hv_pending (fst (handleDelete env req s)))"
    using assms by (auto simp: handleDelete_def split: sum.split option.split)
  ultimately show ?thesis
    using assms get_pending [OF assms, of env now req] Begins
    by (auto simp: handleRequest_begin_def Let_def split_def split: option.split ServerRequestMethod.split)
next
  case (Ends env now req legacy call outcome)
  have "hv_pending (fst (handlePost_end env now call outcome s)) = hv_pending s"
    by (simp add: handlePost_end_def post_request_end_pending split: http_call.split handler_outcome.split)
  then show ?thesis
    using assms legacy_answer_pending [of env req "fst (handlePost_end env now call outcome s)" "snd (handlePost_end env now call outcome s)"]
    by (simp add: Ends handleRequest_end_def Let_def)
next
  case (Sends env now msg j)
  with assms enqueue_pending show ?thesis by simp
next
  case (Sets i state)
  then show ?thesis using assms by (simp add: http_setSessionState_def split: option.split)
qed (use assms in \<open>simp_all add: http_upsertSession_def setRequestHandler_def setNotificationHandler_def setResponseHandler_def\<close>)

lemma run_pending:
  assumes "new_http_server env opts = Inr s0"
  shows "pending_bounded (ho_maxSseBufferedMessages opts) (hv_pending (http_run moves s0))"
proof -
  have "hv_options (http_run moves s) = hv_options s" for s
    using http_run_evolves [of s moves] by (simp add: evolves_def)
  then have "pending_bounded (limit_of s) (hv_pending s) \<Longrightarrow> pending_bounded (limit_of s) (hv_pending (http_run moves s))" for s moves
    unfolding http_run_def
  proof (induction moves arbitrary: s)
    case (Cons m moves)
    have "hv_options (http_apply m s) = hv_options s" using http_apply_evolves [of s m] by (simp add: evolves_def)
    with Cons.IH [of "http_apply m s"] Cons.prems apply_pending show ?case by simp
  qed simp
  moreover have "hv_pending s0 = []" "hv_options s0 = opts"
    using assms by (auto simp: new_http_server_def bindE_def Let_def split: if_splits option.splits sum.splits)
  ultimately show ?thesis by (metis pending_bounded_simps(1))
qed

text \<open>
  C19. Messages that wait reach the client: in every reachable state, a GET that opens a stream is
  answered with every message that waits for its session, each once and in the order of their
  arrival, with no other data, and nothing waits afterwards, provided that the messages can be
  printed within the size limit.
\<close>

theorem waiting_messages_reach_the_next_stream:
  assumes "new_http_server env0 opts = Inr s0" and "s = http_run moves s0" and "ho_allowGetSse opts"
    and "admit env s req kOther (ho_requireSessionId opts) = Inr v"
    and "getHeader (hq_headers req) kHeaderLastEventId = None"
    and "\<forall>m \<in> set (waiting s (rr_sessionId v)).
      \<exists>data. http_serialize env m = Inr data \<and> length data \<le> ho_maxMessageSizeBytes opts"
  shows "\<exists>s' resp sid before es rest. handleGet env now req s = (s', Inr resp) \<and> hr_statusCode resp = 200
    \<and> hr_sse resp = Some \<lparr>ss_streamId = sid, ss_events = before @ es @ rest, ss_terminateStream = False\<rparr>
    \<and> map sse_data es = map (\<lambda>m. projr (http_serialize env m)) (waiting s (rr_sessionId v))
    \<and> (\<forall>e \<in> set (before @ rest). sse_data e = []) \<and> waiting s' (rr_sessionId v) = []"
proof -
  let ?i = "rr_sessionId v" and ?limit = "ho_maxSseBufferedMessages opts"
  have opts: "hv_options s = opts" using run_refines [OF assms(1)] assms(2) by metis
  have bounded: "length (waiting s ?i) \<le> ?limit"
    using run_pending [OF assms(1), of moves]
    by (auto simp: assms(2) waiting_def pending_bounded_def split: option.split)
  obtain s1 st where new: "createStream now ?i GetStream s = (s1, st)" by fastforce
  note c = created [OF new]
  obtain e where e: "sse_data e = []"
    "keeps ?limit \<lparr>sl_session = ?i, sl_kind = GetStream, sl_closed = False, sl_events = [e]\<rparr> st"
    using created_log [OF new] opts by auto
  obtain st' es where all: "append_all env opts (waiting s ?i) st = (st', None)" "st_streamId st' = st_streamId st"
    "st_sessionId st' = ?i"
    "keeps ?limit \<lparr>sl_session = ?i, sl_kind = GetStream, sl_closed = False, sl_events = e # es\<rparr> st'"
    "map sse_data es = map (\<lambda>m. projr (http_serialize env m)) (waiting s ?i)"
    using append_all_log [OF assms(6) e(2)] c(4) by auto
  obtain s2 where emit: "emitPendingMessages env st s1 = (s2, Inr st')" "waiting s2 ?i = []"
  proof (cases "map_of (hv_pending s1) (sessionKey ?i)")
    case None
    then have "waiting s ?i = []" using c(7) by (simp add: waiting_def)
    with all(1) have "st' = st" by simp
    with None that show thesis by (simp add: emitPendingMessages_def c(4) waiting_def)
  next
    case (Some ms)
    then have "waiting s ?i = ms" using c(7) by (simp add: waiting_def)
    with all(1) Some that show thesis
      by (simp add: emitPendingMessages_def c(3,4) opts put_stream_def waiting_def umap_simps Let_def)
  qed
  define rest where "rest = (case ho_defaultSseRetry opts of
     Some ms \<Rightarrow> if \<not> st_terminated st' then [makeRetryGuidanceEvent ms] else [] | None \<Rightarrow> [])"
  have quiet: "\<forall>e \<in> set rest. sse_data e = []"
    by (auto simp: rest_def makeRetryGuidanceEvent_def empty_event_def split: option.splits)
  have "handleGet env now req s = (s2, Inr (sseResponse st' (replayFromCursor 0 (st_events st') @ rest) False))"
    using assms(3,4,5) by (simp add: handleGet_def Let_def opts new emit(1) rest_def)
  moreover obtain before where "replayFromCursor 0 (st_events st') = before @ es" "set before \<subseteq> {e}"
  proof (cases "?limit = 0")
    case True
    then have "es = []" using bounded all(5) by (metis le_zero_eq length_0_conv length_map)
    moreover have "st_events st' = []" using all(4) True by (simp add: keeps_def keep_newest_def)
    ultimately show thesis using that [of "[]"] by (simp add: replayFromCursor_def)
  next
    case False
    then have "replayFromCursor 0 (st_events st') = drop (length (e # es) - ?limit) (e # es)"
      using kept_events(1) [OF all(4), of 0] by simp
    moreover have "length es \<le> ?limit" using bounded all(5) by (metis length_map)
    ultimately show thesis using that [of "[e]"] that [of "[]"] False by (cases "length es = ?limit") auto
  qed
  ultimately show ?thesis
    using all(2,5) emit(2) quiet e(1)
    by (intro exI [of _ s2] exI [of _ "sseResponse st' (before @ es @ rest) False"] exI [of _ "st_streamId st'"]
        exI [of _ before] exI [of _ es] exI [of _ rest])
      (auto simp: sseResponse_def event_stream_def)
qed

section \<open>Instances\<close>

definition sample_session :: http_server where
  "sample_session = http_run [Upserts ''a1'' kActive None, Handlers False True False] sample_http"

definition posting_env :: http_env where
  "posting_env = sample_env\<lparr>he_jsonParse :=
     (\<lambda>_. Inr (jput ''method'' (JString ''m'') (jput ''jsonrpc'' (JString ''2.0'') empty_object)))\<rparr>"

definition sample_request :: "ServerRequestMethod \<Rightarrow> server_request" where
  "sample_request verb = \<lparr>hq_method = verb, hq_path = ''/mcp'',
     hq_headers = [(kHeaderMcpSessionId, ''a1''), (kHeaderContentType, ''application/json'')], hq_body = ''{}''\<rparr>"

definition sample_call :: http_call where
  "sample_call = NotificationCall
     \<lparr>rc_protocol_version = kFallbackProtocolVersion, rc_session_id = Some ''a1'', rc_auth_context = None\<rparr>
     \<lparr>nt_jsonrpc = ''2.0'', nt_method = ''m'', nt_params = None, nt_additional = empty_object\<rparr>"

theorem handlers_see_admitted_requests_witness:
  "\<exists>i. validated sample_session (hq_headers (sample_request kPost)) kOther True i kFallbackProtocolVersion
     \<and> rc_session_id (call_context sample_call) = i"
proof -
  let ?first = "handleRequest_begin posting_env 5 [] (sample_request kPost) sample_session"
  have "snd ?first = Waits False sample_call" by code_simp
  then obtain s' where "?first = (s', Waits False sample_call)" by (cases ?first) simp
  from handlers_see_admitted_requests [OF this]
  show ?thesis
    by (auto simp: sample_call_def isInitializeRequest_def sample_session_def http_run_def sample_http_def sample_options_def
        http_upsertSession_def setRequestHandler_def setNotificationHandler_def setResponseHandler_def)
qed

theorem deleted_session_stays_deleted_witness:
  "let s1 = fst (handleDelete sample_env (sample_request kDelete) sample_session);
       s2 = http_run [Sends sample_env 7 sample_message (Some ''a1''), Begins sample_env 8 [] (sample_get [])] s1
   in \<exists>resp. handleRequest_begin posting_env 9 [] (sample_request kPost) s2 = (s2, Done (Inr resp))
     \<and> 400 \<le> hr_statusCode resp \<and> hr_sse resp = None"
proof -
  let ?d = "handleDelete sample_env (sample_request kDelete) sample_session"
  have "case snd ?d of Inr resp \<Rightarrow> hr_statusCode resp = 204 | Inl _ \<Rightarrow> False" by code_simp
  then obtain s1 resp0 where d: "?d = (s1, Inr resp0)" "hr_statusCode resp0 = 204"
    by (cases ?d) (auto split: sum.splits)
  let ?moves = "[Sends sample_env 7 sample_message (Some ''a1''), Begins sample_env 8 [] (sample_get [])]"
  have header: "getHeader (hq_headers (sample_request verb)) kHeaderMcpSessionId = Some ''a1''" for verb
    by (simp add: sample_request_def)
  have s1: "s1 = fst ?d" using d(1) by simp
  have "Option.is_none (hv_authorization (http_run ?moves s1))" unfolding s1 by code_simp
  then have "handleProtectedResourceMetadataRequest (hv_authorization (http_run ?moves s1)) (sample_request kPost) = None"
    by (simp add: Option.is_none_def handleProtectedResourceMetadataRequest_def)
  from deleted_session_stays_deleted [OF d header _ refl header refl this, of posting_env 9 "[]"]
  show ?thesis using d(1) by (simp add: Let_def)
qed

theorem waiting_messages_reach_the_next_stream_witness:
  "let s = http_run [Upserts ''a1'' kActive None, Sends sample_env 1 sample_message (Some ''a1'')] sample_http in
   \<exists>s' resp sid before es rest. handleGet sample_env 2 (sample_get []) s = (s', Inr resp)
     \<and> hr_sse resp = Some \<lparr>ss_streamId = sid, ss_events = before @ es @ rest, ss_terminateStream = False\<rparr>
     \<and> map sse_data es = [''{}'']"
proof -
  let ?moves = "[Upserts ''a1'' kActive None, Sends sample_env 1 sample_message (Some ''a1'')]"
  define s where "s = http_run ?moves sample_http"
  have facts: "waiting s (Some ''a1'') = [sample_message]" "http_serialize sample_env sample_message = Inr ''{}''"
    "admit sample_env s (sample_get []) kOther True = Inr (accepted_request (Some ''a1'') kFallbackProtocolVersion)"
    "getHeader (hq_headers (sample_get [])) kHeaderLastEventId = None"
    unfolding s_def by code_simp+
  have get: "ho_allowGetSse sample_options" "ho_requireSessionId sample_options = True" by (simp_all add: sample_options_def)
  note main = waiting_messages_reach_the_next_stream [OF new_sample_http s_def get(1), unfolded get(2), OF facts(3,4), of 2]
  have "\<forall>m \<in> set (waiting s (rr_sessionId (accepted_request (Some ''a1'') kFallbackProtocolVersion))).
      \<exists>data. http_serialize sample_env m = Inr data \<and> length data \<le> ho_maxMessageSizeBytes sample_options"
    using facts(1,2) by (simp add: accepted_request_def sample_options_def)
  from main [OF this] obtain s' resp sid before es rest where
    "handleGet sample_env 2 (sample_get []) s = (s', Inr resp)"
    "hr_sse resp = Some \<lparr>ss_streamId = sid, ss_events = before @ es @ rest, ss_terminateStream = False\<rparr>"
    "map sse_data es = map (\<lambda>m. projr (http_serialize sample_env m))
       (waiting s (rr_sessionId (accepted_request (Some ''a1'') kFallbackProtocolVersion)))"
    by (elim exE conjE)
  then show ?thesis unfolding Let_def s_def [symmetric]
    by (intro exI conjI) (assumption, assumption, simp add: accepted_request_def facts(1,2))
qed

definition initialize_reply :: success_response where
  "initialize_reply = \<lparr>sr_jsonrpc = ''2.0'', sr_id = IntId 1,
     sr_result = jput ''protocolVersion'' (JString ''2025-06-18'') empty_object, sr_additional = empty_object\<rparr>"

definition initialize_result :: streamable_result where
  "initialize_result = \<lparr>sz_preResponseMessages = [], sz_response = Some (RSuccess initialize_reply), sz_useSse = False,
     sz_terminateSseAfterResponse = True, sz_closeSseConnection = False, sz_retryMilliseconds = None\<rparr>"

definition initialize_http_call :: http_call where
  "initialize_http_call = RequestCall \<lparr>rc_protocol_version = kFallbackProtocolVersion, rc_session_id = None, rc_auth_context = None\<rparr>
     \<lparr>rq_jsonrpc = ''2.0'', rq_id = IntId 1, rq_method = ''initialize'', rq_params = None, rq_additional = empty_object\<rparr>
     (accepted_request None kFallbackProtocolVersion) (Some (generateSessionId [0, 255]))"

theorem replayed_headers_name_the_session_witness:
  "let s1 = fst (handlePost_end sample_env 3 initialize_http_call (Result initialize_result) sample_http);
       h = fst (captureFromInitializeResponse (Some ''00ff'') ''2025-06-18'' new_header_state)
   in http_validate s1 (\<lparr>hq_method = kGet, hq_path = ''/mcp'', hq_headers = replayToRequestHeaders False h [], hq_body = []\<rparr>)
        kOther True = accepted_request (Some ''00ff'') ''2025-06-18''"
proof -
  let ?e = "handlePost_end sample_env 3 initialize_http_call (Result initialize_result) sample_http"
  let ?h = "fst (captureFromInitializeResponse (Some ''00ff'') ''2025-06-18'' new_header_state)"
  let ?req = "\<lparr>hq_method = kGet, hq_path = ''/mcp'', hq_headers = replayToRequestHeaders False ?h [], hq_body = []\<rparr>"
  have "case snd ?e of Inr resp \<Rightarrow> hr_statusCode resp = 200 \<and> getHeader (hr_headers resp) kHeaderMcpSessionId = Some ''00ff''
      | Inl _ \<Rightarrow> False" by code_simp
  then obtain s1 resp where e: "?e = (s1, Inr resp)" "hr_statusCode resp = 200"
    "getHeader (hr_headers resp) kHeaderMcpSessionId = Some ''00ff''" by (cases ?e) (auto split: sum.splits)
  have id: "''00ff'' = generateSessionId [0, 255]" by code_simp
  have captured: "captureFromInitializeResponse (Some ''00ff'') ''2025-06-18'' new_header_state = (?h, True)" by code_simp
  have version: "extractProtocolVersionFromInitializeResult (sr_result initialize_reply) = Some ''2025-06-18''" by code_simp
  have s1: "s1 = fst ?e" using e(1) by simp
  have "''2025-06-18'' \<in> set (ho_supportedProtocolVersions (hv_options s1))" unfolding s1 by code_simp
  moreover have "origin_rejection (hq_headers ?req) (ho_originPolicy (hv_options s1)) = None" unfolding s1 by code_simp
  moreover have "sz_response initialize_result = Some (RSuccess initialize_reply)" by (simp add: initialize_result_def)
  ultimately have "http_validate s1 ?req kOther True = accepted_request (Some ''00ff'') ''2025-06-18''"
    using replayed_headers_name_the_session [where req = ?req and hs = "[]" and kind = kOther and required = True,
        OF e(1) [unfolded initialize_http_call_def id [symmetric]] id _ _ e(2) _ version _
        captured [folded e(3)] refl] by (simp add: e(3))
  then show ?thesis using e(1) by (simp add: Let_def)
qed

end
