(* ===== verification/ClientData.thy ===== *)
theory ClientData
  imports Server
begin

text \<open>
  What a client asks a server for and what it makes of the answers, src/client/client.cpp: the
  parameters of the list, read and call requests, the parsers of tools, resources, templates,
  prompts and contents, the checks of a response, and \<open>forEachPage\<close> and \<open>collectAllPages\<close> of
  include/mcp/client/client.hpp, which follow the cursors of a paged list. A schema validator is
  an environment with the document it has loaded. A thrown exception is a left injection.
\<close>

section \<open>Responses\<close>

datatype client_error = CapabilityError string | RuntimeError string

type_synonym 'a client_result = "client_error + 'a"

type_synonym schema_validator = "schema_env \<times> json"

definition in_quotes :: "string \<Rightarrow> string" where
  "in_quotes s = quote @ s @ quote"

definition ensureValidResultSchema :: "schema_validator \<Rightarrow> json \<Rightarrow> string \<Rightarrow> string \<Rightarrow> unit client_result" where
  "ensureValidResultSchema validate result definitionName m =
     (let r = validateInstance (fst validate) (snd validate) result definitionName in
      if vr_valid r then Inr ()
      else Inl (RuntimeError (''Schema validation failed for '' @ in_quotes m @ '' result: ''
        @ formatDiagnostics (fst validate) r)))"

definition responseToResultOrThrow :: "response \<Rightarrow> string \<Rightarrow> json client_result" where
  "responseToResultOrThrow resp m =
     (case resp of
        RError e \<Rightarrow>
          Inl (RuntimeError (''Request '' @ in_quotes m @ '' failed with code ''
            @ to_string_int (sint (err_code (er_error e)))
            @ (if err_message (er_error e) = [] then [] else '': '' @ err_message (er_error e))))
      | RSuccess r \<Rightarrow> Inr (sr_result r))"

definition parseCursor :: "json \<Rightarrow> string \<Rightarrow> string option client_result" where
  "parseCursor result m =
     (case jget result ''nextCursor'' of
        None \<Rightarrow> Inr None
      | Some (JString s) \<Rightarrow> Inr (Some s)
      | Some _ \<Rightarrow> Inl (RuntimeError (''Invalid '' @ in_quotes m @ '' response: nextCursor must be a string when present'')))"

section \<open>Definitions\<close>

definition parseToolDefinition :: "json \<Rightarrow> tool_definition client_result" where
  "parseToolDefinition j =
     (case (get_string j ''name'', get_object j ''inputSchema'') of
        (Some name, Some schema) \<Rightarrow>
          Inr \<lparr>td_name = name, td_title = get_string j ''title'', td_description = get_string j ''description'',
               td_icons = jget j ''icons'', td_inputSchema = schema, td_outputSchema = get_object j ''outputSchema'',
               td_annotations = jget j ''annotations'', td_execution = jget j ''execution'',
               td_metadata = jget j ''_meta''\<rparr>
      | _ \<Rightarrow> Inl (RuntimeError ''Invalid tools/list response: tool definition is missing required fields''))"

text \<open>A size of either integer kind, converted to 64 unsigned bits.\<close>

definition get_size :: "json \<Rightarrow> string \<Rightarrow> 64 word option" where
  "get_size j k =
     (case jget j k of
        Some v \<Rightarrow> if is_uint64 v \<or> is_int64 v then Some (word_of_int (as_integer v)) else None
      | None \<Rightarrow> None)"

definition parseResourceDefinition :: "json \<Rightarrow> resource_definition client_result" where
  "parseResourceDefinition j =
     (case (get_string j ''uri'', get_string j ''name'') of
        (Some uri, Some name) \<Rightarrow>
          Inr \<lparr>rd_uri = uri, rd_name = name, rd_title = get_string j ''title'',
               rd_description = get_string j ''description'', rd_icons = jget j ''icons'',
               rd_mimeType = get_string j ''mimeType'', rd_size = get_size j ''size'',
               rd_annotations = jget j ''annotations'', rd_metadata = jget j ''_meta''\<rparr>
      | _ \<Rightarrow> Inl (RuntimeError ''Invalid resources/list response: resource definition is missing required fields''))"

definition parseResourceContent :: "json \<Rightarrow> resource_content client_result" where
  "parseResourceContent j =
     (case get_string j ''uri'' of
        None \<Rightarrow> Inl (RuntimeError ''Invalid resources/read response: content is missing required uri field'')
      | Some uri \<Rightarrow>
          let content = (\<lambda>kind v. Inr \<lparr>rcn_uri = uri, rcn_mimeType = get_string j ''mimeType'', rcn_kind = kind,
                rcn_value = v, rcn_annotations = jget j ''annotations'', rcn_metadata = jget j ''_meta''\<rparr>) in
          (case get_string j ''text'' of
             Some v \<Rightarrow> content kText v
           | None \<Rightarrow>
               (case get_string j ''blob'' of
                  Some v \<Rightarrow> content kBlobBase64 v
                | None \<Rightarrow> Inl (RuntimeError
                    ''Invalid resources/read response: content must include either text or blob''))))"

definition parseResourceTemplateDefinition :: "json \<Rightarrow> resource_template_definition client_result" where
  "parseResourceTemplateDefinition j =
     (case (get_string j ''uriTemplate'', get_string j ''name'') of
        (Some uri, Some name) \<Rightarrow>
          Inr \<lparr>rt_uriTemplate = uri, rt_name = name, rt_title = get_string j ''title'',
               rt_description = get_string j ''description'', rt_icons = jget j ''icons'',
               rt_mimeType = get_string j ''mimeType'', rt_annotations = jget j ''annotations'',
               rt_metadata = jget j ''_meta''\<rparr>
      | _ \<Rightarrow> Inl (RuntimeError
          ''Invalid resources/templates/list response: resource template is missing required fields''))"

definition parsePromptArgument :: "json \<Rightarrow> prompt_argument client_result" where
  "parsePromptArgument j =
     (case get_string j ''name'' of
        None \<Rightarrow> Inl (RuntimeError ''Invalid prompts/list response: prompt argument is missing required name field'')
      | Some name \<Rightarrow>
          Inr \<lparr>pa_name = name, pa_title = get_string j ''title'', pa_description = get_string j ''description'',
               pa_required = get_bool j ''required'', pa_metadata = jget j ''_meta''\<rparr>)"

text \<open>A loop that parses every element and stops at the first exception.\<close>

fun parse_all :: "('a \<Rightarrow> 'e + 'b) \<Rightarrow> 'a list \<Rightarrow> 'e + 'b list" where
  "parse_all p [] = Inr []"
| "parse_all p (x # xs) = bindE (p x) (\<lambda>y. bindE (parse_all p xs) (\<lambda>ys. Inr (y # ys)))"

definition parsePromptDefinition :: "json \<Rightarrow> prompt_definition client_result" where
  "parsePromptDefinition j =
     (case get_string j ''name'' of
        None \<Rightarrow> Inl (RuntimeError ''Invalid prompts/list response: prompt definition is missing required name field'')
      | Some name \<Rightarrow>
          bindE (case jget j ''arguments'' of
              None \<Rightarrow> Inr []
            | Some (JArray xs) \<Rightarrow> parse_all parsePromptArgument xs
            | Some _ \<Rightarrow> Inl (RuntimeError
                ''Invalid prompts/list response: prompt arguments must be an array when present''))
            (\<lambda>arguments.
              Inr \<lparr>pd_name = name, pd_title = get_string j ''title'', pd_description = get_string j ''description'',
                   pd_icons = jget j ''icons'', pd_arguments = arguments, pd_metadata = jget j ''_meta''\<rparr>))"

definition parsePromptMessage :: "json \<Rightarrow> prompt_message client_result" where
  "parsePromptMessage j =
     (case (get_string j ''role'', get_object j ''content'') of
        (Some role, Some content) \<Rightarrow> Inr \<lparr>pm_role = role, pm_content = content\<rparr>
      | _ \<Rightarrow> Inl (RuntimeError ''Invalid prompts/get response: message must include role and object content''))"

section \<open>Requests and results\<close>

definition negotiatedServerCapabilities :: "session \<Rightarrow> server_capabilities option" where
  "negotiatedServerCapabilities s = map_option np_serverCapabilities (se_negotiated s)"

definition ensureServerCapabilityAvailable :: "session \<Rightarrow> string \<Rightarrow> string \<Rightarrow> unit client_result" where
  "ensureServerCapabilityAvailable s capabilityName m =
     (case negotiatedServerCapabilities s of
        None \<Rightarrow> Inr ()
      | Some caps \<Rightarrow>
          if server_hasCapability caps capabilityName then Inr ()
          else Inl (CapabilityError (''Server capability '' @ in_quotes capabilityName @ '' is required for method ''
            @ in_quotes m)))"

text \<open>The params of a list request, of a request for a URI and of a call with arguments.\<close>

definition list_params :: "string option \<Rightarrow> json" where
  "list_params cursor = jput_string ''cursor'' cursor empty_object"

definition uri_params :: "string \<Rightarrow> json" where
  "uri_params uri = jput ''uri'' (JString uri) empty_object"

definition call_params :: "string \<Rightarrow> json \<Rightarrow> json" where
  "call_params name arguments = jput ''arguments'' arguments (jput ''name'' (JString name) empty_object)"

text \<open>What every operation does first: the capability check, then the params it sends.\<close>

definition client_asks :: "session \<Rightarrow> string \<Rightarrow> string \<Rightarrow> json \<Rightarrow> (string \<times> json) client_result" where
  "client_asks s capabilityName m params =
     bindE (ensureServerCapabilityAvailable s capabilityName m) (\<lambda>_. Inr (m, params))"

text \<open>The result object of a response, validated, with the array that must be in it.\<close>

definition result_array ::
  "schema_validator \<Rightarrow> string \<Rightarrow> string \<Rightarrow> string \<Rightarrow> response \<Rightarrow> (json \<times> json list) client_result" where
  "result_array validate definitionName m key resp =
     bindE (responseToResultOrThrow resp m) (\<lambda>result.
     bindE (ensureValidResultSchema validate result definitionName m) (\<lambda>_.
       (case get_array result key of
          None \<Rightarrow> Inl (RuntimeError (''Invalid '' @ m @ '' response: '' @ key @ '' must be an array''))
        | Some xs \<Rightarrow> Inr (result, xs))))"

record 'a list_result =
  lr_items :: "'a list"
  lr_nextCursor :: "string option"

definition parse_list ::
  "schema_validator \<Rightarrow> string \<Rightarrow> string \<Rightarrow> string \<Rightarrow> (json \<Rightarrow> 'a client_result) \<Rightarrow> response \<Rightarrow>
   'a list_result client_result" where
  "parse_list validate definitionName m key parse resp =
     bindE (result_array validate definitionName m key resp) (\<lambda>(result, xs).
     bindE (parseCursor result m) (\<lambda>cursor.
     bindE (parse_all parse xs) (\<lambda>items. Inr \<lparr>lr_items = items, lr_nextCursor = cursor\<rparr>)))"

text \<open>Each operation is the request it sends and what it returns for the response it gets.\<close>

definition listTools_request :: "session \<Rightarrow> string option \<Rightarrow> (string \<times> json) client_result" where
  "listTools_request s cursor = client_asks s ''tools'' kToolsListMethod (list_params cursor)"

definition listTools_result :: "schema_validator \<Rightarrow> response \<Rightarrow> tool_definition list_result client_result" where
  "listTools_result validate = parse_list validate ''ListToolsResult'' kToolsListMethod ''tools'' parseToolDefinition"

definition callTool_request :: "session \<Rightarrow> string \<Rightarrow> json \<Rightarrow> (string \<times> json) client_result" where
  "callTool_request s name arguments = client_asks s ''tools'' kToolsCallMethod (call_params name arguments)"

definition callTool_result :: "schema_validator \<Rightarrow> response \<Rightarrow> call_tool_result client_result" where
  "callTool_result validate resp =
     bindE (result_array validate ''CallToolResult'' kToolsCallMethod ''content'' resp) (\<lambda>(result, xs).
       Inr \<lparr>ctr_content = JArray xs, ctr_structuredContent = jget result ''structuredContent'',
            ctr_isError = (get_bool result ''isError'' = Some True), ctr_metadata = jget result ''_meta''\<rparr>)"

definition listResources_request :: "session \<Rightarrow> string option \<Rightarrow> (string \<times> json) client_result" where
  "listResources_request s cursor = client_asks s ''resources'' kResourcesListMethod (list_params cursor)"

definition listResources_result :: "schema_validator \<Rightarrow> response \<Rightarrow> resource_definition list_result client_result" where
  "listResources_result validate =
     parse_list validate ''ListResourcesResult'' kResourcesListMethod ''resources'' parseResourceDefinition"

definition readResource_request :: "session \<Rightarrow> string \<Rightarrow> (string \<times> json) client_result" where
  "readResource_request s uri = client_asks s ''resources'' kResourcesReadMethod (uri_params uri)"

definition readResource_result :: "schema_validator \<Rightarrow> response \<Rightarrow> resource_content list client_result" where
  "readResource_result validate resp =
     bindE (result_array validate ''ReadResourceResult'' kResourcesReadMethod ''contents'' resp)
       (\<lambda>(_, xs). parse_all parseResourceContent xs)"

definition listResourceTemplates_request :: "session \<Rightarrow> string option \<Rightarrow> (string \<times> json) client_result" where
  "listResourceTemplates_request s cursor =
     client_asks s ''resources'' kResourcesTemplatesListMethod (list_params cursor)"

definition listResourceTemplates_result ::
  "schema_validator \<Rightarrow> response \<Rightarrow> resource_template_definition list_result client_result" where
  "listResourceTemplates_result validate =
     parse_list validate ''ListResourceTemplatesResult'' kResourcesTemplatesListMethod ''resourceTemplates''
       parseResourceTemplateDefinition"

definition listPrompts_request :: "session \<Rightarrow> string option \<Rightarrow> (string \<times> json) client_result" where
  "listPrompts_request s cursor = client_asks s ''prompts'' kPromptsListMethod (list_params cursor)"

definition listPrompts_result :: "schema_validator \<Rightarrow> response \<Rightarrow> prompt_definition list_result client_result" where
  "listPrompts_result validate =
     parse_list validate ''ListPromptsResult'' kPromptsListMethod ''prompts'' parsePromptDefinition"

definition getPrompt_request :: "session \<Rightarrow> string \<Rightarrow> json \<Rightarrow> (string \<times> json) client_result" where
  "getPrompt_request s name arguments = client_asks s ''prompts'' kPromptsGetMethod (call_params name arguments)"

definition getPrompt_result :: "schema_validator \<Rightarrow> response \<Rightarrow> prompt_get_result client_result" where
  "getPrompt_result validate resp =
     bindE (result_array validate ''GetPromptResult'' kPromptsGetMethod ''messages'' resp) (\<lambda>(result, xs).
     bindE (parse_all parsePromptMessage xs) (\<lambda>messages.
       Inr \<lparr>pgr_description = get_string result ''description'', pgr_messages = messages,
            pgr_metadata = jget result ''_meta''\<rparr>))"

section \<open>Following cursors\<close>

definition kDefaultMaxPaginationPages :: nat where "kDefaultMaxPaginationPages = 1024"

text \<open>
  \<open>forEachPage\<close>: the callbacks work on a state of their own and may throw; \<open>nextOf\<close> is the
  page's \<open>nextCursor\<close>. One round of the loop fetches one page; the measure is the pages left.
\<close>

definition page_round ::
  "(string option \<Rightarrow> 'w \<Rightarrow> 'w \<times> 'p client_result) \<Rightarrow> ('p \<Rightarrow> 'w \<Rightarrow> 'w \<times> unit client_result) \<Rightarrow>
   string option \<Rightarrow> 'w \<Rightarrow> 'w \<times> 'p client_result" where
  "page_round fetch consume cursor w =
     (case fetch cursor w of
        (w', Inl e) \<Rightarrow> (w', Inl e)
      | (w', Inr page) \<Rightarrow>
          (case consume page w' of (w'', Inl e) \<Rightarrow> (w'', Inl e) | (w'', Inr _) \<Rightarrow> (w'', Inr page)))"

function forEachPage ::
  "(string option \<Rightarrow> 'w \<Rightarrow> 'w \<times> 'p client_result) \<Rightarrow> ('p \<Rightarrow> 'w \<Rightarrow> 'w \<times> unit client_result) \<Rightarrow>
   ('p \<Rightarrow> string option) \<Rightarrow> nat \<Rightarrow> string list \<Rightarrow> nat \<Rightarrow> string option \<Rightarrow> 'w \<Rightarrow> 'w \<times> unit client_result" where
  "forEachPage fetch consume nextOf maxPages seenCursors fetchedPages cursor w =
     (if (\<exists>c \<in> set_option cursor. c \<in> set seenCursors)
      then (w, Inl (RuntimeError ''Pagination cursor cycle detected''))
      else if fetchedPages \<ge> maxPages
      then (w, Inl (RuntimeError ''Pagination exceeded maximum page limit''))
      else
        (case page_round fetch consume cursor w of
           (w', Inl e) \<Rightarrow> (w', Inl e)
         | (w', Inr page) \<Rightarrow>
             (case nextOf page of
                None \<Rightarrow> (w', Inr ())
              | Some c \<Rightarrow> forEachPage fetch consume nextOf maxPages
                  (case cursor of None \<Rightarrow> seenCursors | Some d \<Rightarrow> d # seenCursors)
                  (fetchedPages + 1) (Some c) w')))"
  by pat_completeness auto

termination
  by (relation "measure (\<lambda>(_, _, _, maxPages, _, fetchedPages, _, _). maxPages - fetchedPages)") auto

declare forEachPage.simps [simp del]

definition collectAllPages ::
  "(string option \<Rightarrow> 'w \<Rightarrow> 'w \<times> 'p client_result) \<Rightarrow> ('p \<Rightarrow> 'i list) \<Rightarrow> ('p \<Rightarrow> string option) \<Rightarrow>
   string option \<Rightarrow> nat \<Rightarrow> 'w \<Rightarrow> 'w \<times> 'i list client_result" where
  "collectAllPages fetch extractItems nextOf cursor maxPages w =
     (case forEachPage (\<lambda>c (w, items). (case fetch c w of (w', r) \<Rightarrow> ((w', items), r)))
         (\<lambda>page (w, items). ((w, items @ extractItems page), Inr ())) nextOf maxPages [] 0 cursor (w, []) of
        ((w', _), Inl e) \<Rightarrow> (w', Inl e)
      | ((w', items), Inr _) \<Rightarrow> (w', Inr items))"

end
