(* ===== verification/ClientSpec.thy ===== *)
theory ClientSpec
  imports ClientData ServerSpec ResourceContent
begin

text \<open>
  Client and server together: what a server serialises a client parses back, the page loop ends
  whatever the server answers, and a client that follows the cursors of a list ends with exactly
  the list the server holds.
\<close>

section \<open>Round trips\<close>

lemma get_string_iff: "get_string j k = Some s \<longleftrightarrow> jget j k = Some (JString s)"
  by (auto simp: get_string_def split: option.splits json.splits)

lemma get_object_iff: "get_object j k = Some v \<longleftrightarrow> jget j k = Some v \<and> is_object v"
  by (auto simp: get_object_def split: option.splits)

lemmas parse_defs = get_string_def get_object_def get_bool_def get_array_def get_size_def jput_string_def

lemma size_kind: "is_uint64 (JInt (uint (w :: 64 word)))"
  using uint_lt2p [of w] by (simp add: is_uint64_def uint64_max_def)

text \<open>Reading back an optional member, without a case distinction on it.\<close>

lemma optional_member:
  "(case x of None \<Rightarrow> None | Some v \<Rightarrow> Some v) = x"
  "(case map_option JString t of None \<Rightarrow> None | Some (JString v) \<Rightarrow> Some v | Some _ \<Rightarrow> None) = t"
  "(case map_option JBool b of None \<Rightarrow> None | Some (JBool v) \<Rightarrow> Some v | Some _ \<Rightarrow> None) = b"
  "\<forall>j \<in> set_option x. is_object j \<Longrightarrow>
     (case x of None \<Rightarrow> None | Some v \<Rightarrow> if is_object v then Some v else None) = x"
  by (auto split: option.split)

lemma optional_size:
  "(case map_option (\<lambda>w. JInt (uint w)) x of None \<Rightarrow> None
    | Some v \<Rightarrow> if is_uint64 v \<or> is_int64 v then Some (word_of_int (as_integer v)) else None) = (x :: 64 word option)"
  by (cases x) (simp_all add: size_kind as_integer_def)

text \<open>Members one at a time: a serialiser never writes a member twice.\<close>

lemma written_once:
  "is_object j \<Longrightarrow> jget (jput k v j) k = Some v"
  "is_object j \<Longrightarrow> jget j k = None \<Longrightarrow> jget (jput_opt k ov j) k = ov"
  "is_object j \<Longrightarrow> k' \<noteq> k \<Longrightarrow> jget (jput k v j) k' = jget j k'"
  "is_object j \<Longrightarrow> k' \<noteq> k \<Longrightarrow> jget (jput_opt k ov j) k' = jget j k'"
  by (simp_all split: option.split)

lemmas read_members = parse_defs optional_member optional_size written_once

lemma tool_roundtrip: "object_schemas d \<Longrightarrow> parseToolDefinition (tool_to_json d) = Inr d"
  by (cases d) (simp add: object_schemas_def parseToolDefinition_def tool_to_json_def read_members
      del: jget_put(1) jget_put_opt case_map_option)

lemma resource_roundtrip: "parseResourceDefinition (resource_to_json d) = Inr d"
  by (cases d) (simp add: parseResourceDefinition_def resource_to_json_def read_members
      del: jget_put(1) jget_put_opt case_map_option)

lemma template_roundtrip: "parseResourceTemplateDefinition (template_to_json d) = Inr d"
  by (cases d) (simp add: parseResourceTemplateDefinition_def template_to_json_def read_members
      del: jget_put(1) jget_put_opt case_map_option)

lemma argument_roundtrip: "parsePromptArgument (argument_to_json a) = Inr a"
  by (cases a) (auto simp: parsePromptArgument_def argument_to_json_def parse_defs split: option.splits)

lemma parse_all_map: "(\<And>x. x \<in> set xs \<Longrightarrow> p (f x) = Inr (g x)) \<Longrightarrow> parse_all p (map f xs) = Inr (map g xs)"
  by (induction xs) auto

lemma prompt_roundtrip: "parsePromptDefinition (prompt_to_json d) = Inr d"
  by (cases d) (auto simp: parsePromptDefinition_def prompt_to_json_def parse_defs argument_roundtrip
      parse_all_map [where g = id, simplified] split: option.splits)

lemma content_roundtrip:
  "parseResourceContent (content_to_json uri c) = Inr (c\<lparr>rcn_uri := (if rcn_uri c = [] then uri else rcn_uri c)\<rparr>)"
  by (cases c; cases "rcn_kind c")
    (auto simp: parseResourceContent_def content_to_json_def parse_defs Let_def split: option.splits)

lemma prompt_message_roundtrip: "is_object (pm_content m) \<Longrightarrow> parsePromptMessage (message_to_json m) = Inr m"
  by (cases m) (auto simp: parsePromptMessage_def message_to_json_def parse_defs)

section \<open>Following a list to its end\<close>

text \<open>
  A source of pages: as long as the source is in order, the page after the cursor of an index holds
  the items from there on, and cursors of different indexes differ. \<open>collectAllPages\<close> then collects
  the items exactly if the page limit suffices.
\<close>

abbreviation page_limit_error :: client_error where
  "page_limit_error \<equiv> RuntimeError ''Pagination exceeded maximum page limit''"

locale paged_list =
  fixes fetch :: "'s \<Rightarrow> string option \<Rightarrow> 'w \<Rightarrow> 'w \<times> 'i list_result client_result"
    and items :: "'s \<Rightarrow> 'i list" and in_order :: "'s \<Rightarrow> bool" and sz :: nat and mk :: "nat \<Rightarrow> string"
  assumes size: "0 < sz"
    and page: "in_order s \<Longrightarrow> i \<le> length (items s) \<Longrightarrow> cursor = None \<and> i = 0 \<or> cursor = Some (mk i) \<Longrightarrow>
      \<exists>w'. fetch s cursor w = (w', Inr \<lparr>lr_items = take sz (drop i (items s)),
        lr_nextCursor = (if i + sz < length (items s) then Some (mk (i + sz)) else None)\<rparr>)"
    and distinct_cursors: "in_order s \<Longrightarrow> i < j \<Longrightarrow> j \<le> length (items s) \<Longrightarrow> mk i \<noteq> mk j"
begin

definition walk :: "'s \<Rightarrow> nat \<Rightarrow> string list \<Rightarrow> nat \<Rightarrow> string option \<Rightarrow> 'w \<times> 'i list \<Rightarrow> ('w \<times> 'i list) \<times> unit client_result" where
  "walk s = forEachPage (\<lambda>c (w, acc). (case fetch s c w of (w', r) \<Rightarrow> ((w', acc), r)))
     (\<lambda>page (w, acc). ((w, acc @ lr_items page), Inr ())) lr_nextCursor"

lemma walk_step:
  assumes "in_order s" and "i \<le> length (items s)" and "cursor = None \<and> i = 0 \<or> cursor = Some (mk i)"
    and "\<forall>c \<in> set_option cursor. c \<notin> set seen"
  obtains w' where "walk s maxPages seen k cursor (w, acc) =
    (if k \<ge> maxPages then ((w, acc), Inl page_limit_error)
     else if i + sz < length (items s)
     then walk s maxPages (case cursor of None \<Rightarrow> seen | Some d \<Rightarrow> d # seen) (k + 1) (Some (mk (i + sz)))
       (w', acc @ take sz (drop i (items s)))
     else ((w', acc @ drop i (items s)), Inr ()))"
proof -
  obtain w' where f: "fetch s cursor w = (w', Inr \<lparr>lr_items = take sz (drop i (items s)),
      lr_nextCursor = (if i + sz < length (items s) then Some (mk (i + sz)) else None)\<rparr>)"
    using page [OF assms(1-3)] by blast
  let ?page = "\<lparr>lr_items = take sz (drop i (items s)),
      lr_nextCursor = (if i + sz < length (items s) then Some (mk (i + sz)) else None)\<rparr>"
  have round: "page_round (\<lambda>c (w, acc). (case fetch s c w of (w', r) \<Rightarrow> ((w', acc), r)))
      (\<lambda>page (w, acc). ((w, acc @ lr_items page), Inr ())) cursor (w, acc) = ((w', acc @ take sz (drop i (items s))), Inr ?page)"
    by (simp add: page_round_def f)
  have cycle: "\<not> (\<exists>c \<in> set_option cursor. c \<in> set seen)" using assms(4) by blast
  show ?thesis
    by (rule that [of w'], unfold walk_def, subst forEachPage.simps, unfold round if_not_P [OF cycle])
      (simp only: prod.case sum.case list_result.simps if_True if_False option.case split: if_split, simp)
qed

lemma cursor_is_new:
  assumes "in_order s" and "i \<le> length (items s)" and "cursor = None \<and> i = 0 \<or> cursor = Some (mk i)"
    and "set seen \<subseteq> mk ` {j. j < i}"
  shows "\<forall>c \<in> set_option cursor. c \<notin> set seen"
proof -
  have "mk i \<noteq> mk j" if "j < i" for j
    using distinct_cursors [OF assms(1) that assms(2)] by simp
  then have "mk i \<notin> mk ` {j. j < i}" by blast
  with assms(3,4) show ?thesis by auto
qed

lemma walk_from:
  assumes "in_order s" and "i \<le> length (items s)" and "cursor = None \<and> i = 0 \<or> cursor = Some (mk i)"
    and "set seen \<subseteq> mk ` {j. j < i}"
  shows "if k < maxPages \<and> length (items s) \<le> i + sz * (maxPages - k)
    then \<exists>w'. walk s maxPages seen k cursor (w, acc) = ((w', acc @ drop i (items s)), Inr ())
    else snd (walk s maxPages seen k cursor (w, acc)) = Inl page_limit_error"
  using assms(2-4)
proof (induction "maxPages - k" arbitrary: i cursor seen k w acc)
  case 0
  have fresh: "\<forall>c \<in> set_option cursor. c \<notin> set seen"
    by (rule cursor_is_new [OF assms(1) 0(2-4)])
  have "walk s maxPages seen k cursor (w, acc) = ((w, acc), Inl page_limit_error)"
    by (rule walk_step [OF assms(1) 0(2,3) fresh, of maxPages k w acc]) (use 0(1) in simp)
  with 0(1) show ?case by simp
next
  case (Suc n)
  have fresh: "\<forall>c \<in> set_option cursor. c \<notin> set seen"
    by (rule cursor_is_new [OF assms(1) Suc.prems])
  obtain w' where step: "walk s maxPages seen k cursor (w, acc) =
    (if k \<ge> maxPages then ((w, acc), Inl page_limit_error)
     else if i + sz < length (items s)
     then walk s maxPages (case cursor of None \<Rightarrow> seen | Some d \<Rightarrow> d # seen) (k + 1) (Some (mk (i + sz)))
       (w', acc @ take sz (drop i (items s)))
     else ((w', acc @ drop i (items s)), Inr ()))"
    using walk_step [OF assms(1) Suc.prems(1,2) fresh, of maxPages k w acc] .
  show ?case
  proof (cases "i + sz < length (items s)")
    case False
    moreover have "length (items s) \<le> i + sz * (maxPages - k)"
      using False Suc.hyps(2) by (cases "maxPages - k") auto
    ultimately show ?thesis using step Suc.hyps(2) by auto
  next
    case True
    let ?seen = "case cursor of None \<Rightarrow> seen | Some d \<Rightarrow> d # seen"
    have "set ?seen \<subseteq> mk ` {j. j < i + sz}"
      using Suc.prems(2,3) size by (auto split: option.split)
    then have IH: "if k + 1 < maxPages \<and> length (items s) \<le> i + sz + sz * (maxPages - (k + 1))
      then \<exists>w''. walk s maxPages ?seen (k + 1) (Some (mk (i + sz))) (w', acc @ take sz (drop i (items s))) =
        ((w'', (acc @ take sz (drop i (items s))) @ drop (i + sz) (items s)), Inr ())
      else snd (walk s maxPages ?seen (k + 1) (Some (mk (i + sz))) (w', acc @ take sz (drop i (items s)))) =
        Inl page_limit_error"
      using Suc.hyps(2) True by (intro Suc.hyps(1)) auto
    have parts: "take sz (drop i (items s)) @ drop (i + sz) (items s) = drop i (items s)"
      by (metis append_take_drop_id drop_drop add.commute)
    have "sz * (maxPages - k) = sz + sz * (maxPages - (k + 1))"
      using Suc.hyps(2) by (cases "maxPages - k") auto
    moreover have "k + 1 < maxPages" if "length (items s) \<le> i + sz + sz * (maxPages - (k + 1))"
      using that True by (cases "maxPages - (k + 1)") auto
    ultimately show ?thesis using IH step True Suc.hyps(2) parts by (auto split: if_splits)
  qed
qed

lemma collect_all:
  assumes "in_order s"
  shows "snd (collectAllPages (fetch s) lr_items lr_nextCursor None maxPages w) =
    (if 0 < maxPages \<and> length (items s) \<le> sz * maxPages then Inr (items s) else Inl page_limit_error)"
proof -
  have "collectAllPages (fetch s) lr_items lr_nextCursor None maxPages w =
    (case walk s maxPages [] 0 None (w, []) of ((w', _), Inl e) \<Rightarrow> (w', Inl e) | ((w', xs), Inr _) \<Rightarrow> (w', Inr xs))"
    by (simp add: collectAllPages_def walk_def)
  with walk_from [OF assms, of 0 None "[]" 0 maxPages w "[]"] show ?thesis
    by (cases "walk s maxPages [] 0 None (w, [])") (auto split: if_splits sum.splits)
qed

end

section \<open>The lists of a server are such sources\<close>

text \<open>
  One page: the client builds the request with its next id, the server's handler answers, the client
  reads the answer. The state is the number of requests so far.
\<close>

definition ask_page ::
  "(string option \<Rightarrow> (string \<times> json) client_result) \<Rightarrow> (request \<Rightarrow> response) \<Rightarrow> (response \<Rightarrow> 'a client_result) \<Rightarrow>
   string option \<Rightarrow> nat \<Rightarrow> nat \<times> 'a client_result" where
  "ask_page ask answer read cursor n =
     (n + 1, bindE (ask cursor) (\<lambda>(m, params). read (answer (new_request (IntId (of_nat n)) m (Some params)))))"

definition accepts :: "schema_validator \<Rightarrow> string \<Rightarrow> (request \<Rightarrow> response) \<Rightarrow> bool" where
  "accepts v definitionName answer \<longleftrightarrow> (\<forall>req r. answer req = RSuccess r \<longrightarrow>
     vr_valid (validateInstance (fst v) (snd v) (sr_result r) definitionName))"

lemma list_cursor [simp]:
  "parseCursorFromParams (new_request i m (Some (list_params cursor))) ep = Inr cursor"
  by (cases cursor) (simp_all add: parseCursorFromParams_def new_request_def list_params_def jput_string_def)

lemma new_request_id [simp]: "rq_id (new_request i m params) = i"
  by (simp add: new_request_def)

lemma page_items:
  assumes "a \<le> b" and "b \<le> length xs"
  shows "map (\<lambda>k. f (xs ! k)) [a..<b] = map f (take (b - a) (drop a xs))"
  using assms by (intro nth_equalityI) auto

lemma list_page:
  assumes ask: "ask cursor = Inr (m, list_params cursor)"
    and answer: "\<And>req. answer req = list_reply ep req xs ser key"
    and read: "read = parse_list v dn m key parse"
    and parse: "\<And>x. x \<in> set xs \<Longrightarrow> parse (ser x) = Inr x"
    and accepts: "accepts v dn answer" and fits: "length xs + kListPageSize < 2 ^ 64" and key: "key \<noteq> ''nextCursor''"
    and i: "i \<le> length xs" "cursor = None \<and> i = 0 \<or> cursor = Some (makePaginationCursor ep i)"
  shows "ask_page ask answer read cursor n = (n + 1, Inr \<lparr>lr_items = take kListPageSize (drop i xs),
    lr_nextCursor = (if i + kListPageSize < length xs then Some (makePaginationCursor ep (i + kListPageSize)) else None)\<rparr>)"
proof -
  let ?w = "window (makePaginationCursor ep) (length xs) kListPageSize i"
  have sz: "0 < kListPageSize" by (simp add: kListPageSize_def)
  have "endpoint_pager ep (length xs) kListPageSize cursor = Some ?w"
    using endpoint_pages.first [OF sz fits] endpoint_pages.after [OF sz fits i(1)] i(2) by blast
  then have w: "applyPagination ep cursor (length xs) kListPageSize = Inr ?w"
    by (auto simp: endpoint_pager_def split: sum.splits)
  let ?page = "take kListPageSize (drop i xs)"
  let ?next = "if i + kListPageSize < length xs then Some (makePaginationCursor ep (i + kListPageSize)) else None"
  let ?result = "jput_opt ''nextCursor'' (map_option JString ?next) (jput key (JArray (map ser ?page)) empty_object)"
  have shown: "map (\<lambda>k. ser (xs ! k)) [i..<min (i + kListPageSize) (length xs)] = map ser ?page"
    using page_items [of i "min (i + kListPageSize) (length xs)" xs ser] i(1) by (simp add: min_def)
  have reply: "answer (new_request (IntId (of_nat n)) m (Some (list_params cursor))) =
      new_success (IntId (of_nat n)) ?result"
    by (simp add: answer list_reply_def w buildListResponse_def window_def shown)
  have "vr_valid (validateInstance (fst v) (snd v) ?result dn)"
    using accepts [unfolded accepts_def, rule_format, OF reply [unfolded new_success_def]]
    by (simp only: success_response.simps)
  then have valid: "ensureValidResultSchema v ?result dn m = Inr ()"
    by (simp only: ensureValidResultSchema_def Let_def if_True)
  have array: "get_array ?result key = Some (map ser ?page)"
    using key by (simp add: get_array_def)
  have cursors: "parseCursor ?result m = Inr ?next"
    using key by (simp add: parseCursor_def)
  have items: "parse_all parse (map ser ?page) = Inr ?page"
    by (rule parse_all_map [where g = id, simplified]) (auto intro!: parse dest: in_set_takeD in_set_dropD)
  have "read (new_success (IntId (of_nat n)) ?result) = Inr \<lparr>lr_items = ?page, lr_nextCursor = ?next\<rparr>"
    by (simp only: read parse_list_def result_array_def responseToResultOrThrow_def new_success_def response.case
        success_response.simps bindE_simps valid array option.case prod.case cursors items)
  then show ?thesis by (simp only: ask_page_def ask bindE_simps prod.case reply)
qed

definition may_list :: "session \<Rightarrow> string \<Rightarrow> string \<Rightarrow> schema_validator \<Rightarrow> string \<Rightarrow> (request \<Rightarrow> response) \<Rightarrow> nat \<Rightarrow> bool" where
  "may_list cs capability m v dn answer n \<longleftrightarrow> ensureServerCapabilityAvailable cs capability m = Inr ()
     \<and> accepts v dn answer \<and> n + kListPageSize < 2 ^ 64"

text \<open>The source of a list operation is the validator and the session of a client, and a server.\<close>

type_synonym 's parties = "schema_validator \<times> session \<times> 's server"

definition tools_page :: "'s parties \<Rightarrow> string option \<Rightarrow> nat \<Rightarrow> nat \<times> tool_definition list_result client_result" where
  "tools_page = (\<lambda>(v, cs, sv). ask_page (listTools_request cs) (\<lambda>req. handleToolsListRequest req sv) (listTools_result v))"

definition resources_page :: "'s parties \<Rightarrow> string option \<Rightarrow> nat \<Rightarrow> nat \<times> resource_definition list_result client_result" where
  "resources_page = (\<lambda>(v, cs, sv).
     ask_page (listResources_request cs) (\<lambda>req. handleResourcesListRequest req sv) (listResources_result v))"

definition templates_page ::
  "'s parties \<Rightarrow> string option \<Rightarrow> nat \<Rightarrow> nat \<times> resource_template_definition list_result client_result" where
  "templates_page = (\<lambda>(v, cs, sv). ask_page (listResourceTemplates_request cs)
     (\<lambda>req. handleResourceTemplatesListRequest req sv) (listResourceTemplates_result v))"

definition prompts_page :: "'s parties \<Rightarrow> string option \<Rightarrow> nat \<Rightarrow> nat \<times> prompt_definition list_result client_result" where
  "prompts_page = (\<lambda>(v, cs, sv).
     ask_page (listPrompts_request cs) (\<lambda>req. handlePromptsListRequest req sv) (listPrompts_result v))"

definition tools_listed :: "'s parties \<Rightarrow> bool" where
  "tools_listed = (\<lambda>(v, cs, sv). registries_ok sv \<and> may_list cs ''tools'' kToolsListMethod v ''ListToolsResult''
     (\<lambda>req. handleToolsListRequest req sv) (length (sv_tools sv)))"

definition resources_listed :: "'s parties \<Rightarrow> bool" where
  "resources_listed = (\<lambda>(v, cs, sv). may_list cs ''resources'' kResourcesListMethod v ''ListResourcesResult''
     (\<lambda>req. handleResourcesListRequest req sv) (length (sv_resources sv)))"

definition templates_listed :: "'s parties \<Rightarrow> bool" where
  "templates_listed = (\<lambda>(v, cs, sv). may_list cs ''resources'' kResourcesTemplatesListMethod v
     ''ListResourceTemplatesResult'' (\<lambda>req. handleResourceTemplatesListRequest req sv) (length (sv_templates sv)))"

definition prompts_listed :: "'s parties \<Rightarrow> bool" where
  "prompts_listed = (\<lambda>(v, cs, sv). may_list cs ''prompts'' kPromptsListMethod v ''ListPromptsResult''
     (\<lambda>req. handlePromptsListRequest req sv) (length (sv_prompts sv)))"

lemma cursors_differ:
  assumes "n + kListPageSize < 2 ^ 64" and "i < j" and "j \<le> n"
  shows "makePaginationCursor ep i \<noteq> makePaginationCursor ep j"
  using assms parse_makePaginationCursor [of i ep] parse_makePaginationCursor [of j ep] by (auto simp: uint64_max_def)

lemma list_source:
  assumes fetch: "\<And>v cs sv. fetch (v, cs, sv) =
      ask_page (\<lambda>cursor. client_asks cs capability m (list_params cursor)) (answer sv) (parse_list v dn m key parse)"
    and may: "\<And>v cs sv. in_order (v, cs, sv) \<Longrightarrow> may_list cs capability m v dn (answer sv) (length (items (v, cs, sv)))"
    and answer: "\<And>v cs sv req. answer sv req = list_reply ep req (items (v, cs, sv)) ser key"
    and parse: "\<And>v cs sv x. in_order (v, cs, sv) \<Longrightarrow> x \<in> set (items (v, cs, sv)) \<Longrightarrow> parse (ser x) = Inr x"
    and key: "key \<noteq> ''nextCursor''"
  shows "paged_list fetch items in_order kListPageSize (makePaginationCursor ep)"
proof
  fix s i j and cursor :: "string option" and w :: nat
  assume "in_order s"
  moreover obtain v cs sv where s: "s = (v, cs, sv)" by (cases s)
  ultimately have ok: "in_order (v, cs, sv)" by simp
  note may' = may [OF ok, unfolded may_list_def, folded s]
  show "i < j \<Longrightarrow> j \<le> length (items s) \<Longrightarrow> makePaginationCursor ep i \<noteq> makePaginationCursor ep j"
    using cursors_differ [of "length (items s)" i j ep] may' by blast
  have ask: "client_asks cs capability m (list_params cursor) = Inr (m, list_params cursor)"
    using may' by (simp add: client_asks_def)
  assume i: "i \<le> length (items s)" "cursor = None \<and> i = 0 \<or> cursor = Some (makePaginationCursor ep i)"
  have "ask_page (\<lambda>cursor. client_asks cs capability m (list_params cursor)) (answer sv) (parse_list v dn m key parse)
      cursor w = (w + 1, Inr \<lparr>lr_items = take kListPageSize (drop i (items s)), lr_nextCursor =
        (if i + kListPageSize < length (items s) then Some (makePaginationCursor ep (i + kListPageSize)) else None)\<rparr>)"
  proof (rule list_page [where ask = "\<lambda>cursor. client_asks cs capability m (list_params cursor)", OF ask])
    show "answer sv req = list_reply ep req (items s) ser key" for req by (simp only: s answer)
    show "parse (ser x) = Inr x" if "x \<in> set (items s)" for x using that by (simp only: s parse [OF ok])
  qed (use may' i key in auto)
  then show "\<exists>w'. fetch s cursor w = (w', Inr \<lparr>lr_items = take kListPageSize (drop i (items s)),
     lr_nextCursor = (if i + kListPageSize < length (items s)
       then Some (makePaginationCursor ep (i + kListPageSize)) else None)\<rparr>)"
    by (simp only: s fetch) blast
qed (simp add: kListPageSize_def)

lemma list_requests:
  "listTools_request cs = (\<lambda>cursor. client_asks cs ''tools'' kToolsListMethod (list_params cursor))"
  "listResources_request cs = (\<lambda>cursor. client_asks cs ''resources'' kResourcesListMethod (list_params cursor))"
  "listResourceTemplates_request cs =
     (\<lambda>cursor. client_asks cs ''resources'' kResourcesTemplatesListMethod (list_params cursor))"
  "listPrompts_request cs = (\<lambda>cursor. client_asks cs ''prompts'' kPromptsListMethod (list_params cursor))"
  by (simp_all add: fun_eq_iff listTools_request_def listResources_request_def listResourceTemplates_request_def
      listPrompts_request_def)

lemma listed_tool:
  "registries_ok sv \<Longrightarrow> (d, h) \<in> set (sv_tools sv) \<Longrightarrow> parseToolDefinition (tool_to_json d) = Inr d"
  by (rule tool_roundtrip) (auto simp: registries_ok_def)

interpretation tool_list: paged_list tools_page "\<lambda>(_, _, sv). map fst (sv_tools sv)" tools_listed kListPageSize
  "makePaginationCursor kTools"
  by (rule list_source [where answer = "\<lambda>sv req. handleToolsListRequest req sv" and parse = parseToolDefinition])
    (auto simp: tools_page_def list_requests listTools_result_def tools_listed_def handleToolsListRequest_def
      dest: listed_tool)

interpretation resource_list: paged_list resources_page "\<lambda>(_, _, sv). map fst (sv_resources sv)" resources_listed
  kListPageSize "makePaginationCursor kResources"
  by (rule list_source [where answer = "\<lambda>sv req. handleResourcesListRequest req sv" and parse = parseResourceDefinition])
    (auto simp: resources_page_def list_requests listResources_result_def resources_listed_def
      handleResourcesListRequest_def resource_roundtrip)

interpretation template_list: paged_list templates_page "\<lambda>(_, _, sv). sv_templates sv" templates_listed
  kListPageSize "makePaginationCursor kResourceTemplates"
  by (rule list_source [where answer = "\<lambda>sv req. handleResourceTemplatesListRequest req sv"
        and parse = parseResourceTemplateDefinition])
    (auto simp: templates_page_def list_requests listResourceTemplates_result_def templates_listed_def
      handleResourceTemplatesListRequest_def template_roundtrip)

interpretation prompt_list: paged_list prompts_page "\<lambda>(_, _, sv). map fst (sv_prompts sv)" prompts_listed
  kListPageSize "makePaginationCursor kPrompts"
  by (rule list_source [where answer = "\<lambda>sv req. handlePromptsListRequest req sv" and parse = parsePromptDefinition])
    (auto simp: prompts_page_def list_requests listPrompts_result_def prompts_listed_def
      handlePromptsListRequest_def prompt_roundtrip)

text \<open>
  C20. A paging client ends with what the server holds: in every reachable state of a server, a client
  that collects all pages of a list gets exactly the registered tools, resources, templates or
  prompts, every field of every definition included and in the order of registration, or, if the
  list does not fit into the pages it is willing to fetch, the error that says so. The client may
  use the method, and the pinned schema accepts the server's answers.
\<close>

theorem paging_client_gets_the_registries:
  assumes "new_server limit sess cf = Inr s0" and "server_moves\<^sup>*\<^sup>* s0 sv"
  shows "(may_list cs ''tools'' kToolsListMethod v ''ListToolsResult''
        (\<lambda>req. handleToolsListRequest req sv) (length (sv_tools sv)) \<longrightarrow>
      snd (collectAllPages (tools_page (v, cs, sv)) lr_items lr_nextCursor None maxPages n) =
        (if 0 < maxPages \<and> length (sv_tools sv) \<le> kListPageSize * maxPages
         then Inr (map fst (sv_tools sv)) else Inl page_limit_error))
    \<and> (may_list cs ''resources'' kResourcesListMethod v ''ListResourcesResult''
        (\<lambda>req. handleResourcesListRequest req sv) (length (sv_resources sv)) \<longrightarrow>
      snd (collectAllPages (resources_page (v, cs, sv)) lr_items lr_nextCursor None maxPages n) =
        (if 0 < maxPages \<and> length (sv_resources sv) \<le> kListPageSize * maxPages
         then Inr (map fst (sv_resources sv)) else Inl page_limit_error))
    \<and> (may_list cs ''resources'' kResourcesTemplatesListMethod v ''ListResourceTemplatesResult''
        (\<lambda>req. handleResourceTemplatesListRequest req sv) (length (sv_templates sv)) \<longrightarrow>
      snd (collectAllPages (templates_page (v, cs, sv)) lr_items lr_nextCursor None maxPages n) =
        (if 0 < maxPages \<and> length (sv_templates sv) \<le> kListPageSize * maxPages
         then Inr (sv_templates sv) else Inl page_limit_error))
    \<and> (may_list cs ''prompts'' kPromptsListMethod v ''ListPromptsResult''
        (\<lambda>req. handlePromptsListRequest req sv) (length (sv_prompts sv)) \<longrightarrow>
      snd (collectAllPages (prompts_page (v, cs, sv)) lr_items lr_nextCursor None maxPages n) =
        (if 0 < maxPages \<and> length (sv_prompts sv) \<le> kListPageSize * maxPages
         then Inr (map fst (sv_prompts sv)) else Inl page_limit_error))"
proof -
  have ok: "registries_ok sv"
    using server.inv_reachable [OF _ assms(2)] assms(1) by (auto simp: server_start_state_def)
  note lists = tool_list.collect_all [of "(v, cs, sv)" maxPages n] resource_list.collect_all [of "(v, cs, sv)" maxPages n]
    template_list.collect_all [of "(v, cs, sv)" maxPages n] prompt_list.collect_all [of "(v, cs, sv)" maxPages n]
  show ?thesis
    using lists ok
    by (simp only: tools_listed_def resources_listed_def templates_listed_def prompts_listed_def prod.case length_map
        simp_thms, intro conjI impI) (assumption | drule meta_mp, assumption)+
qed

section \<open>The page loop ends\<close>

definition logged_fetch ::
  "(string option \<Rightarrow> 'w \<Rightarrow> 'w \<times> 'p client_result) \<Rightarrow> string option \<Rightarrow> string option list \<times> 'w \<Rightarrow>
   (string option list \<times> 'w) \<times> 'p client_result" where
  "logged_fetch fetch c = (\<lambda>(asked, w). case fetch c w of (w', r) \<Rightarrow> ((asked @ [c], w'), r))"

definition logged_consume ::
  "('p \<Rightarrow> 'w \<Rightarrow> 'w \<times> unit client_result) \<Rightarrow> 'p \<Rightarrow> string option list \<times> 'w \<Rightarrow>
   (string option list \<times> 'w) \<times> unit client_result" where
  "logged_consume consume p = (\<lambda>(asked, w). case consume p w of (w', r) \<Rightarrow> ((asked, w'), r))"

lemma logged_round:
  obtains w' r where "page_round (logged_fetch fetch) (logged_consume consume) cursor (asked, w) = ((asked @ [cursor], w'), r)"
proof -
  obtain w1 r1 where f: "fetch cursor w = (w1, r1)" by fastforce
  show ?thesis
  proof (cases r1)
    case (Inl e)
    show ?thesis by (rule that [of w1 "Inl e"]) (simp add: page_round_def logged_fetch_def f Inl)
  next
    case (Inr p)
    obtain w2 r2 where "consume p w1 = (w2, r2)" by fastforce
    with f Inr show ?thesis
      by (intro that [of w2 "case r2 of Inl e \<Rightarrow> Inl e | Inr _ \<Rightarrow> Inr p"])
        (simp add: page_round_def logged_fetch_def logged_consume_def split: sum.split)
  qed
qed

lemma logged_loop:
  assumes "distinct asked" and "\<forall>c. Some c \<in> set asked \<longrightarrow> c \<in> set seen" and "None \<in> set asked \<longrightarrow> cursor \<noteq> None"
    and "length asked \<le> k" and "k \<le> maxPages"
  shows "length (fst (fst (forEachPage (logged_fetch fetch) (logged_consume consume) nextOf maxPages seen k cursor (asked, w)))) \<le> maxPages
    \<and> distinct (fst (fst (forEachPage (logged_fetch fetch) (logged_consume consume) nextOf maxPages seen k cursor (asked, w))))"
  using assms
proof (induction "maxPages - k" arbitrary: asked seen cursor k w)
  case 0
  then show ?case by (subst (1 2) forEachPage.simps) simp
next
  case (Suc n)
  obtain w' r where round: "page_round (logged_fetch fetch) (logged_consume consume) cursor (asked, w) =
    ((asked @ [cursor], w'), r)" by (rule logged_round)
  show ?case
  proof (cases "\<exists>c \<in> set_option cursor. c \<in> set seen")
    case True
    with Suc.prems show ?thesis by (subst (1 2) forEachPage.simps) simp
  next
    case False
    with Suc.prems have new: "cursor \<notin> set asked" by (cases cursor) auto
    let ?seen = "case cursor of None \<Rightarrow> seen | Some d \<Rightarrow> d # seen"
    have IH: "length (fst (fst (forEachPage (logged_fetch fetch) (logged_consume consume) nextOf maxPages ?seen (k + 1)
        (Some c) (asked @ [cursor], w')))) \<le> maxPages
      \<and> distinct (fst (fst (forEachPage (logged_fetch fetch) (logged_consume consume) nextOf maxPages ?seen (k + 1)
        (Some c) (asked @ [cursor], w'))))" for c
      using Suc.hyps(2) Suc.prems new by (intro Suc.hyps(1)) (auto split: option.split)
    have stop: "length (asked @ [cursor]) \<le> maxPages \<and> distinct (asked @ [cursor])"
      using Suc.hyps(2) Suc.prems new by simp
    from False Suc.hyps(2) have "\<not> maxPages \<le> k" by simp
    with False IH stop show ?thesis
      by (subst (1 2) forEachPage.simps) (cases r; simp add: round split: option.split)
  qed
qed

text \<open>
  C21. The page loop ends: whatever the server answers and whatever the callbacks do, \<open>forEachPage\<close>
  returns after at most the given number of pages, and it never asks for the same cursor twice.
\<close>

theorem page_loop_ends:
  "case forEachPage (logged_fetch fetch) (logged_consume consume) nextOf maxPages [] 0 cursor ([], w) of
     ((asked, _), _) \<Rightarrow> length asked \<le> maxPages \<and> distinct asked"
  using logged_loop [of "[]" "[]" cursor 0 maxPages fetch consume nextOf w] by (simp add: split_def)

text \<open>
  C40. The client reads what the server writes: the parsers of the client give back every tool whose
  schemas are objects, every resource, template and prompt, every message with an object as content,
  and every content with the URI of the request in place of an empty one.
\<close>

theorem definitions_survive_the_wire:
  "(object_schemas d \<longrightarrow> parseToolDefinition (tool_to_json d) = Inr d)
   \<and> parseResourceDefinition (resource_to_json rd) = Inr rd
   \<and> parseResourceTemplateDefinition (template_to_json td) = Inr td
   \<and> parsePromptDefinition (prompt_to_json pd) = Inr pd
   \<and> (is_object (pm_content msg) \<longrightarrow> parsePromptMessage (message_to_json msg) = Inr msg)
   \<and> parseResourceContent (content_to_json uri c) = Inr (c\<lparr>rcn_uri := (if rcn_uri c = [] then uri else rcn_uri c)\<rparr>)"
  using tool_roundtrip resource_roundtrip template_roundtrip prompt_roundtrip prompt_message_roundtrip content_roundtrip
  by blast

section \<open>Witnesses\<close>

definition tool_server :: "task_store server" where
  "tool_server = projr (registerTool (example_env 0) greet_tool (Some 0) new_example)"

lemma tool_server:
  "new_server 8 (Some (new_session defaultProtocolVersions 8)) example_configuration = Inr new_example"
  "server_moves new_example tool_server" "sv_tools tool_server = [(greet_tool, 0)]"
proof -
  show new: "new_server 8 (Some (new_session defaultProtocolVersions 8)) example_configuration = Inr new_example"
    using example_ok(1) by (simp add: new_example_def isl_def projr_def split: sum.splits)
  have reg: "registerTool (example_env 0) greet_tool (Some 0) new_example = Inr tool_server"
    using example_ok(2) by (simp add: tool_server_def isl_def projr_def split: sum.splits)
  then show "server_moves new_example tool_server"
    unfolding server_moves_def by (blast intro: server_step.register_tool)
  show "sv_tools tool_server = [(greet_tool, 0)]"
    using register_adds(1) [OF reg] new_server_registries [OF new] by (auto simp: registries_def)
qed

lemma example_accepts: "accepts (example_schema, example_document) ''ListToolsResult'' answer"
  by (simp add: accepts_def example_schema_def example_document_def validateInstance_def get_object_def jget_def
      contains_def validateAgainstCompiledSchema_def)

theorem paging_client_gets_the_registries_witness:
  "snd (collectAllPages (tools_page ((example_schema, example_document), new_session [] 8, tool_server))
     lr_items lr_nextCursor None 1 0) = Inr [greet_tool]"
proof -
  have may: "may_list (new_session [] 8) ''tools'' kToolsListMethod (example_schema, example_document) ''ListToolsResult''
      (\<lambda>req. handleToolsListRequest req tool_server) (length (sv_tools tool_server))"
    by (simp add: may_list_def example_accepts tool_server(3) kListPageSize_def ensureServerCapabilityAvailable_def
        negotiatedServerCapabilities_def new_session_def)
  from paging_client_gets_the_registries [OF tool_server(1) r_into_rtranclp [where r = server_moves, OF tool_server(2)], THEN conjunct1,
      THEN mp, OF may, of 1 0]
  show ?thesis by (simp add: tool_server(3) kListPageSize_def)
qed

theorem definitions_survive_the_wire_witness: "parseToolDefinition (tool_to_json greet_tool) = Inr greet_tool"
proof -
  have "object_schemas greet_tool" by (simp add: object_schemas_def greet_tool_def)
  then show ?thesis
    using definitions_survive_the_wire [of greet_tool readme_resource
        "\<lparr>rt_uriTemplate = [], rt_name = [], rt_title = None, rt_description = None, rt_icons = None,
           rt_mimeType = None, rt_annotations = None, rt_metadata = None\<rparr>" greet_prompt
        "\<lparr>pm_role = [], pm_content = empty_object\<rparr>" "[]" "text_content [] [] None None None"] by blast
qed

end
