(* ===== verification/ClientChecks.thy ===== *)
theory ClientChecks
  imports ClientData HttpHeaders
begin

text \<open>
  What a client looks at before it lets a request of the server reach a handler of the user,
  src/client/client.cpp: the schema and the answer of a form, the URL of an elicitation and how it
  is shown (include/mcp/client/url_elicitation_utils.hpp), and the messages of a sampling request,
  where uses of tools and their results have to pair up.
\<close>

section \<open>Data\<close>

datatype ElicitationAction = kAccept | kDecline | kCancel

record root_entry =
  re_uri :: string
  re_name :: "string option"
  re_metadata :: "json option"

record form_request =
  fq_message :: string
  fq_requestedSchema :: json
  fq_metadata :: "json option"

record form_result =
  fr_action :: ElicitationAction
  fr_content :: "json option"

record url_request =
  uq_elicitationId :: string
  uq_message :: string
  uq_url :: string
  uq_metadata :: "json option"

record url_display =
  ud_fullUrl :: string
  ud_domain :: string

fun toActionString :: "ElicitationAction \<Rightarrow> string" where
  "toActionString kAccept = ''accept''"
| "toActionString kDecline = ''decline''"
| "toActionString kCancel = ''cancel''"

section \<open>Forms\<close>

definition validateFormSchemaPrimitiveProperty :: "json \<Rightarrow> bool" where
  "validateFormSchemaPrimitiveProperty p \<longleftrightarrow>
     is_object p \<and> \<not> contains p ''properties'' \<and> \<not> contains p ''items'' \<and> \<not> contains p ''additionalProperties''
   \<and> (case get_string p ''type'' of
        None \<Rightarrow> False
      | Some t \<Rightarrow> t = ''string'' \<or> t = ''integer'' \<or> t = ''number'' \<or> t = ''boolean'')"

definition validateFormRequestedSchema :: "json \<Rightarrow> string option" where
  "validateFormRequestedSchema params =
     (case get_object params ''requestedSchema'' of
        None \<Rightarrow> Some ''elicitation/create form mode requires object params.requestedSchema''
      | Some schema \<Rightarrow>
          if get_string schema ''type'' \<noteq> Some ''object''
          then Some (''elicitation/create form mode requires requestedSchema.type to be '' @ in_quotes ''object'')
          else
            (case get_object schema ''properties'' of
               None \<Rightarrow> Some ''elicitation/create form mode requires requestedSchema.properties to be an object''
             | Some properties \<Rightarrow>
                 if \<not> list_all (\<lambda>(_, p). validateFormSchemaPrimitiveProperty p) (object_range properties)
                 then Some ''elicitation/create form mode only supports flat primitive properties''
                 else if contains schema ''required'' \<and> get_array schema ''required'' = None
                 then Some ''elicitation/create form mode requires requestedSchema.required to be an array when present''
                 else None))"

definition is_double :: "json \<Rightarrow> bool" where
  "is_double j = (case j of JDouble _ \<Rightarrow> True | _ \<Rightarrow> False)"

definition is_bool :: "json \<Rightarrow> bool" where
  "is_bool j = (case j of JBool _ \<Rightarrow> True | _ \<Rightarrow> False)"

definition validateFormContentValue :: "json \<Rightarrow> bool" where
  "validateFormContentValue v \<longleftrightarrow>
     is_string v \<or> is_int64 v \<or> is_uint64 v \<or> is_double v \<or> is_bool v \<or> is_null v"

definition validateFormResultContent :: "json \<Rightarrow> bool" where
  "validateFormResultContent content \<longleftrightarrow>
     is_object content \<and> list_all (\<lambda>(_, v). validateFormContentValue v) (object_range content)"

section \<open>URLs\<close>

text \<open>\<open>std::isspace\<close> and \<open>std::iscntrl\<close> of the default locale.\<close>

definition containsSpaceOrControl :: "string \<Rightarrow> bool" where
  "containsSpaceOrControl s \<longleftrightarrow> list_ex (\<lambda>c. is_space c \<or> isAsciiControl c) s"

definition kMaxValidPort :: uint32 where "kMaxValidPort = 65535"

text \<open>The loop of \<open>isValidPort\<close>: it leaves early, before the 32 bits can overflow.\<close>

fun port_loop :: "uint32 \<Rightarrow> string \<Rightarrow> bool" where
  "port_loop port [] = True"
| "port_loop port (c # cs) =
     (if \<not> is_digit c then False
      else
        let port' = port * 10 + word_of_nat (digit_value c) in
        if port' > kMaxValidPort then False else port_loop port' cs)"

definition isValidPort :: "string \<Rightarrow> bool" where
  "isValidPort s \<longleftrightarrow> s \<noteq> [] \<and> port_loop 0 s"

text \<open>The scheme and the authority of a URL; the authority ends before the first of three characters.\<close>

definition split_url :: "string \<Rightarrow> (string \<times> string) option" where
  "split_url url =
     (case find_str ''://'' url of
        None \<Rightarrow> None
      | Some n \<Rightarrow>
          if n = 0 then None
          else Some (take n url, takeWhile (\<lambda>c. c \<notin> set ''/?#'') (drop (n + 3) url)))"

definition valid_authority :: "string \<Rightarrow> bool" where
  "valid_authority a =
     (if a = [] \<or> CHR ''@'' \<in> set a then False
      else if hd a = CHR ''['' then
        (case find_char CHR '']'' a of
           None \<Rightarrow> False
         | Some n \<Rightarrow>
             if n \<le> 1 then False
             else
               let r = drop (n + 1) a in
               if r = [] then True else if hd r \<noteq> CHR '':'' then False else isValidPort (tl r))
      else if CHR ''['' \<in> set a \<or> CHR '']'' \<in> set a then False
      else
        (case find_char CHR '':'' a of
           None \<Rightarrow> a \<noteq> []
         | Some n \<Rightarrow>
             if rfind_char CHR '':'' a \<noteq> Some n then False
             else if take n a = [] then False
             else isValidPort (drop (n + 1) a)))"

definition isValidAbsoluteUrlForElicitation :: "string \<Rightarrow> bool" where
  "isValidAbsoluteUrlForElicitation url =
     (if url = [] \<or> containsSpaceOrControl url then False
      else
        (case split_url url of
           None \<Rightarrow> False
         | Some (scheme, a) \<Rightarrow>
             is_alpha (hd scheme)
             \<and> list_all (\<lambda>c. is_alnum c \<or> c = CHR ''+'' \<or> c = CHR ''-'' \<or> c = CHR ''.'') scheme
             \<and> valid_authority a))"

text \<open>The characters that \<open>formatUrlForConsent\<close> trims: blank, tab, carriage return and line feed.\<close>

definition consent_space :: "char \<Rightarrow> bool" where
  "consent_space c \<longleftrightarrow> byte c = 0x20 \<or> byte c = 0x09 \<or> byte c = 0x0D \<or> byte c = 0x0A"

definition consent_host :: "string \<Rightarrow> string option" where
  "consent_host a =
     (if hd a = CHR ''['' then
        (case find_char CHR '']'' a of
           None \<Rightarrow> None
         | Some n \<Rightarrow> if n \<le> 1 then None else Some (take (n - 1) (drop 1 a)))
      else
        (case rfind_char CHR '':'' a of
           None \<Rightarrow> Some a
         | Some n \<Rightarrow> if take n a = [] then None else Some (take n a)))"

definition formatUrlForConsent :: "string \<Rightarrow> url_display option" where
  "formatUrlForConsent url =
     (let trimmed = rev (dropWhile consent_space (rev (dropWhile consent_space url))) in
      if trimmed = [] then None
      else
        (case split_url trimmed of
           None \<Rightarrow> None
         | Some (_, a) \<Rightarrow>
             if a = [] \<or> CHR ''@'' \<in> set a then None
             else map_option (\<lambda>host. \<lparr>ud_fullUrl = trimmed, ud_domain = host\<rparr>) (consent_host a)))"

definition isFileUri :: "string \<Rightarrow> bool" where
  "isFileUri uri \<longleftrightarrow> starts_with uri ''file://''"

section \<open>Sampling\<close>

definition contentType :: "json \<Rightarrow> string option" where
  "contentType b = get_string b ''type''"

text \<open>The blocks that \<open>enumerateContentBlocks\<close> visits; nothing when the content is neither kind.\<close>

definition enumerateContentBlocks :: "json \<Rightarrow> json list option" where
  "enumerateContentBlocks content =
     (case content of JObject _ \<Rightarrow> Some [content] | JArray bs \<Rightarrow> Some bs | _ \<Rightarrow> None)"

definition message_blocks :: "json \<Rightarrow> json list option" where
  "message_blocks m = Option.bind (jget m ''content'') enumerateContentBlocks"

definition messageContainsOnlyToolResults :: "json \<Rightarrow> bool" where
  "messageContainsOnlyToolResults m =
     (case message_blocks m of
        None \<Rightarrow> False
      | Some bs \<Rightarrow>
          list_ex (\<lambda>b. contentType b = Some ''tool_result'') bs
          \<and> \<not> list_ex (\<lambda>b. contentType b \<noteq> Some ''tool_result'') bs)"

text \<open>A missing or non-string id counts as the empty string.\<close>

definition block_id :: "string \<Rightarrow> json \<Rightarrow> string" where
  "block_id key b = (case get_string b key of None \<Rightarrow> [] | Some i \<Rightarrow> i)"

definition collectToolUseIds :: "json \<Rightarrow> string list" where
  "collectToolUseIds m =
     (case message_blocks m of
        None \<Rightarrow> []
      | Some bs \<Rightarrow> map (block_id ''id'') (filter (\<lambda>b. contentType b = Some ''tool_use'') bs))"

definition collectToolResultIds :: "json \<Rightarrow> string list" where
  "collectToolResultIds m =
     (if \<not> messageContainsOnlyToolResults m then []
      else (case message_blocks m of None \<Rightarrow> [] | Some bs \<Rightarrow> map (block_id ''toolUseId'') bs))"

definition balanced_at :: "json list \<Rightarrow> nat \<Rightarrow> bool" where
  "balanced_at ms k =
     (case get_string (ms ! k) ''role'' of
        None \<Rightarrow> False
      | Some role \<Rightarrow>
          (if role = ''user'' \<and> messageContainsOnlyToolResults (ms ! k) then
             if k = 0 then False
             else
               get_string (ms ! (k - 1)) ''role'' = Some ''assistant''
               \<and> collectToolUseIds (ms ! (k - 1)) \<noteq> []
               \<and> length (collectToolResultIds (ms ! k)) = length (collectToolUseIds (ms ! (k - 1)))
               \<and> sort (collectToolUseIds (ms ! (k - 1))) = sort (collectToolResultIds (ms ! k))
           else True)
          \<and> (if role = ''assistant'' \<and> collectToolUseIds (ms ! k) \<noteq> [] then
               if k + 1 \<ge> length ms then False
               else get_string (ms ! (k + 1)) ''role'' = Some ''user''
                 \<and> messageContainsOnlyToolResults (ms ! (k + 1))
             else True))"

definition hasBalancedToolUseSequence :: "json \<Rightarrow> bool" where
  "hasBalancedToolUseSequence messages =
     (case messages of JArray ms \<Rightarrow> list_all (balanced_at ms) [0..<length ms] | _ \<Rightarrow> False)"

definition message_error :: "json \<Rightarrow> string option" where
  "message_error m =
     (case get_string m ''role'' of
        None \<Rightarrow> Some ''sampling/createMessage messages must include string role''
      | Some role \<Rightarrow>
          if role \<noteq> ''user'' \<and> role \<noteq> ''assistant''
          then Some (''sampling/createMessage messages must use role '' @ in_quotes ''user'' @ '' or ''
            @ in_quotes ''assistant'')
          else if role = ''user'' \<and> \<not> messageContainsOnlyToolResults m
            \<and> (case message_blocks m of None \<Rightarrow> False
               | Some bs \<Rightarrow> list_ex (\<lambda>b. contentType b = Some ''tool_result'') bs)
          then Some ''sampling/createMessage user messages with tool_result must contain only tool_result blocks''
          else None)"

definition sampling_tools_enabled :: "client_capabilities option \<Rightarrow> bool" where
  "sampling_tools_enabled caps =
     (case Option.bind caps cc_sampling of None \<Rightarrow> False | Some c \<Rightarrow> sampling_tools c)"

definition validateSamplingRequestSemantics :: "client_capabilities option \<Rightarrow> json \<Rightarrow> string option" where
  "validateSamplingRequestSemantics caps params =
     (if \<not> is_object params then Some ''sampling/createMessage requires object params''
      else
        (case get_array params ''messages'' of
           None \<Rightarrow> Some ''sampling/createMessage requires array params.messages''
         | Some ms \<Rightarrow>
             if (contains params ''tools'' \<or> contains params ''toolChoice'') \<and> \<not> sampling_tools_enabled caps
             then Some ''sampling/createMessage tools and toolChoice require negotiated sampling.tools capability''
             else
               (case find (\<lambda>m. message_error m \<noteq> None) ms of
                  Some m \<Rightarrow> message_error m
                | None \<Rightarrow>
                    if \<not> hasBalancedToolUseSequence (JArray ms)
                    then Some ''sampling/createMessage tool_use and tool_result blocks must be balanced in sequence''
                    else None)))"

end
