(* ===== verification/ClientCore.thy ===== *)
theory ClientCore
  imports ClientChecks Handshake
begin

text \<open>
  The client of src/client/client.cpp: its state, the handlers of the requests a server sends it
  (ping, roots/list, sampling/createMessage, elicitation/create, tasks), the notification that ends
  a URL elicitation, and its own requests, notifications, responses, start and stop. Handlers and
  callbacks of the user are identities; the environment says what they answer, and \<open>cl_calls\<close>
  records their calls. Work posted to the client's thread pools waits in the state until a step
  runs it.
\<close>

section \<open>State\<close>

definition kRootsListMethod :: string where "kRootsListMethod = ''roots/list''"
definition kSamplingCreateMessageMethod :: string where "kSamplingCreateMessageMethod = ''sampling/createMessage''"
definition kElicitationCreateMethod :: string where "kElicitationCreateMethod = ''elicitation/create''"
definition kRootsListChangedNotificationMethod :: string where
  "kRootsListChangedNotificationMethod = ''notifications/roots/list_changed''"
definition kElicitationCompleteNotificationMethod :: string where
  "kElicitationCompleteNotificationMethod = ''notifications/elicitation/complete''"

text \<open>A transport runs or not; \<open>start\<close> and \<open>send\<close> return or throw, \<open>stop\<close> does not throw.\<close>

record client_transport =
  ct_running :: bool
  ct_starts :: bool
  ct_accepts :: "message \<Rightarrow> bool"

datatype handler_call =
  RootsCalled nat request_context
| SamplingCalled nat request_context json
| FormCalled nat request_context form_request
| UrlCalled nat request_context url_request "ElicitationAction outcome"
| UrlCompleted nat request_context string
| CallbackCalled nat response

text \<open>
  Work of the async pool: a sampling handler that runs as a task, an elicitation that runs as a
  task, the same worker while it waits for the answer in a future, and the wait of
  \<open>sendRequestAsync\<close>.
\<close>

datatype client_work =
  SamplingWork nat request_context string json
| ElicitationWork request_context string request
| AnswerWork request_context string nat
| CallbackWork nat nat

record client =
  cl_session :: session
  cl_router :: router
  cl_transport :: "client_transport option"
  cl_configuration :: client_configuration
  cl_rootsProvider :: "nat option"
  cl_samplingHandler :: "nat option"
  cl_formHandler :: "nat option"
  cl_urlHandler :: "nat option"
  cl_completionHandler :: "nat option"
  cl_pendingUrlElicitationIds :: "string set"
  cl_receiver :: "task_store receiver"
  cl_asyncWorkPool :: bool
  cl_asyncWorkEnabled :: bool
  cl_callbackDispatchPool :: bool
  cl_callbackDispatchEnabled :: bool
  cl_pendingInitializeRequestId :: "request_id option"
  cl_nextRequestId :: int64
  cl_work :: "client_work list"
  cl_callbacks :: "(nat \<times> response) list"
  cl_ready :: "(request_context \<times> request_id \<times> nat \<times> response) list"
  cl_waiting :: "(request_context \<times> nat) list"
  cl_calls :: "handler_call list"

text \<open>What the user's code answers, the schema validator, and the time and random draws of the store.\<close>

record client_env =
  cv_roots :: "nat \<Rightarrow> request_context \<Rightarrow> root_entry list outcome"
  cv_sampling :: "nat \<Rightarrow> request_context \<Rightarrow> json \<Rightarrow> json option outcome"
  cv_form :: "nat \<Rightarrow> request_context \<Rightarrow> form_request \<Rightarrow> form_result outcome"
  cv_url :: "nat \<Rightarrow> request_context \<Rightarrow> url_request \<Rightarrow> ElicitationAction outcome"
  cv_schema :: schema_validator
  cv_store :: "int \<times> nat list list"

text \<open>The core methods in the order of their registration; the handler of the k-th is k.\<close>

definition client_methods :: "string list" where
  "client_methods = [kPingMethod, kRootsListMethod, kSamplingCreateMessageMethod, kElicitationCreateMethod,
     kTasksGetMethod, kTasksResultMethod, kTasksListMethod, kTasksServerCancelMethod]"

definition client_user_handler :: "nat \<Rightarrow> nat" where
  "client_user_handler h = length client_methods + h"

definition registerClientHandlers :: "router \<Rightarrow> router" where
  "registerClientHandlers r =
     registerNotificationHandler kElicitationCompleteNotificationMethod 0
       (foldl (\<lambda>r (k, m). registerRequestHandler m k r) r (enumerate 0 client_methods))"

definition kDefaultTaskPollIntervalMs :: int64 where "kDefaultTaskPollIntervalMs = 1000"
definition kDefaultTaskListPageSize :: nat where "kDefaultTaskListPageSize = 50"
definition kDefaultMaxTaskTtlMilliseconds :: int64 where "kDefaultMaxTaskTtlMilliseconds = 24 * 60 * 60 * 1000"
definition kDefaultMaxConcurrentTasksPerAuthContext :: nat where "kDefaultMaxConcurrentTasksPerAuthContext = 128"

definition no_configuration :: client_configuration where
  "no_configuration = \<lparr>ci_protocolVersion = None, ci_capabilities = None, ci_clientInfo = None\<rparr>"

definition new_client :: "nat \<Rightarrow> session option \<Rightarrow> string + client" where
  "new_client limit given =
     (case given of
        None \<Rightarrow> Inl ''Client requires a non-null session''
      | Some sess \<Rightarrow>
          Inr \<lparr>cl_session = setRole kClient sess, cl_router = registerClientHandlers (new_router limit),
               cl_transport = None, cl_configuration = no_configuration, cl_rootsProvider = None,
               cl_samplingHandler = None, cl_formHandler = None, cl_urlHandler = None,
               cl_completionHandler = None, cl_pendingUrlElicitationIds = {},
               cl_receiver = \<lparr>rv_store = new_task_store kDefaultMaxTaskTtlMilliseconds
                   kDefaultMaxConcurrentTasksPerAuthContext,
                 rv_defaultPollInterval = Some kDefaultTaskPollIntervalMs,
                 rv_listPageSize = kDefaultTaskListPageSize, rv_statusObserver = True, rv_observed = []\<rparr>,
               cl_asyncWorkPool = True, cl_asyncWorkEnabled = True, cl_callbackDispatchPool = True,
               cl_callbackDispatchEnabled = True, cl_pendingInitializeRequestId = None, cl_nextRequestId = 1,
               cl_work = [], cl_callbacks = [], cl_ready = [], cl_waiting = [], cl_calls = []\<rparr>)"

section \<open>Small operations\<close>

definition negotiatedClientCapabilities :: "client \<Rightarrow> client_capabilities option" where
  "negotiatedClientCapabilities c = map_option np_clientCapabilities (se_negotiated (cl_session c))"

definition log_call :: "handler_call \<Rightarrow> client \<Rightarrow> client" where
  "log_call e c = c\<lparr>cl_calls := cl_calls c @ [e]\<rparr>"

text \<open>\<open>dispatchOutboundMessage\<close>: the transport is the one attached at the time of the call.\<close>

definition client_sender :: "client \<Rightarrow> outbound_sender" where
  "client_sender c =
     (\<lambda>_ m. case cl_transport c of None \<Rightarrow> False | Some t \<Rightarrow> ct_running t \<and> ct_accepts t m)"

definition on_router :: "(router \<Rightarrow> router \<times> 'a) \<Rightarrow> client \<Rightarrow> client \<times> 'a" where
  "on_router f c =
     (let (r, x) = f (setOutboundMessageSender (Some (client_sender c)) (cl_router c)) in
      (c\<lparr>cl_router := r\<rparr>, x))"

definition client_dispatchOutboundMessage :: "message \<Rightarrow> client \<Rightarrow> client \<times> (string + unit)" where
  "client_dispatchOutboundMessage m c =
     (case cl_transport c of
        None \<Rightarrow> (c, Inl ''Client transport is not attached'')
      | Some t \<Rightarrow>
          if \<not> ct_running t then (c, Inl ''Client transport must be running before sending messages'')
          else if ct_accepts t m
          then (c\<lparr>cl_router := log_event (Sent default_context m) (cl_router c)\<rparr>, Inr ())
          else (c, Inl []))"

definition postManagedTask :: "client_work \<Rightarrow> client \<Rightarrow> client \<times> bool" where
  "postManagedTask w c =
     (if \<not> cl_asyncWorkEnabled c \<or> \<not> cl_asyncWorkPool c then (c, False)
      else (c\<lparr>cl_work := cl_work c @ [w]\<rparr>, True))"

definition postCallbackTask :: "nat \<times> response \<Rightarrow> client \<Rightarrow> client \<times> bool" where
  "postCallbackTask w c =
     (if \<not> cl_callbackDispatchEnabled c \<or> \<not> cl_callbackDispatchPool c then (c, False)
      else (c\<lparr>cl_callbacks := cl_callbacks c @ [w]\<rparr>, True))"

text \<open>The status observer of the task receiver; an exception of the session is only reported.\<close>

definition client_observer_send :: "request_context \<times> task \<Rightarrow> client \<Rightarrow> client" where
  "client_observer_send ct c =
     (if Option.bind (negotiatedClientCapabilities c) cc_tasks = None then c
      else if \<not> canSendNotification kTasksStatusNotificationMethod (cl_session c) then c
      else c\<lparr>cl_session := fst (session_sendNotification kTasksStatusNotificationMethod
               (Some (taskToJson (snd ct))) (cl_session c))\<rparr>)"

definition with_task_receiver ::
  "(task_store receiver \<Rightarrow> task_store receiver \<times> 'a) \<Rightarrow> client \<Rightarrow> client \<times> 'a" where
  "with_task_receiver operation c =
     (let (r, x) = operation (cl_receiver c) in
      (fold client_observer_send (rv_observed r) (c\<lparr>cl_receiver := r\<lparr>rv_observed := []\<rparr>\<rparr>), x))"

definition setRootsProvider :: "nat option \<Rightarrow> client \<Rightarrow> client" where
  "setRootsProvider h c = c\<lparr>cl_rootsProvider := h\<rparr>"

definition clearRootsProvider :: "client \<Rightarrow> client" where
  "clearRootsProvider c = c\<lparr>cl_rootsProvider := None\<rparr>"

definition setSamplingCreateMessageHandler :: "nat option \<Rightarrow> client \<Rightarrow> client" where
  "setSamplingCreateMessageHandler h c = c\<lparr>cl_samplingHandler := h\<rparr>"

definition clearSamplingCreateMessageHandler :: "client \<Rightarrow> client" where
  "clearSamplingCreateMessageHandler c = c\<lparr>cl_samplingHandler := None\<rparr>"

definition setFormElicitationHandler :: "nat option \<Rightarrow> client \<Rightarrow> client" where
  "setFormElicitationHandler h c = c\<lparr>cl_formHandler := h\<rparr>"

definition clearFormElicitationHandler :: "client \<Rightarrow> client" where
  "clearFormElicitationHandler c = c\<lparr>cl_formHandler := None\<rparr>"

definition setUrlElicitationHandler :: "nat option \<Rightarrow> client \<Rightarrow> client" where
  "setUrlElicitationHandler h c = c\<lparr>cl_urlHandler := h\<rparr>"

definition clearUrlElicitationHandler :: "client \<Rightarrow> client" where
  "clearUrlElicitationHandler c = c\<lparr>cl_urlHandler := None\<rparr>"

definition setUrlElicitationCompletionHandler :: "nat option \<Rightarrow> client \<Rightarrow> client" where
  "setUrlElicitationCompletionHandler h c = c\<lparr>cl_completionHandler := h\<rparr>"

definition clearUrlElicitationCompletionHandler :: "client \<Rightarrow> client" where
  "clearUrlElicitationCompletionHandler c = c\<lparr>cl_completionHandler := None\<rparr>"

definition setInitializeConfiguration :: "client_configuration \<Rightarrow> client \<Rightarrow> client" where
  "setInitializeConfiguration cfg c = c\<lparr>cl_configuration := cfg\<rparr>"

definition client_registerRequestHandler :: "string \<Rightarrow> nat \<Rightarrow> client \<Rightarrow> client" where
  "client_registerRequestHandler m h c =
     c\<lparr>cl_router := registerRequestHandler m (client_user_handler h) (cl_router c)\<rparr>"

definition client_registerNotificationHandler :: "string \<Rightarrow> nat \<Rightarrow> client \<Rightarrow> client" where
  "client_registerNotificationHandler m h c =
     c\<lparr>cl_router := registerNotificationHandler m (client_user_handler h) (cl_router c)\<rparr>"

section \<open>Roots\<close>

definition reason_data :: "string \<Rightarrow> json" where
  "reason_data reason = jput ''reason'' (JString reason) empty_object"

definition makeRootsUnsupportedResponse :: "request_id \<Rightarrow> string \<Rightarrow> response" where
  "makeRootsUnsupportedResponse i reason =
     error_reply (makeMethodNotFoundError (Some (reason_data reason)) ''Roots not supported'') i"

definition makeSamplingUnsupportedResponse :: "request_id \<Rightarrow> string \<Rightarrow> response" where
  "makeSamplingUnsupportedResponse i reason =
     error_reply (makeMethodNotFoundError (Some (reason_data reason)) ''Sampling not supported'') i"

definition makeSamplingInvalidParamsResponse :: "request_id \<Rightarrow> string \<Rightarrow> response" where
  "makeSamplingInvalidParamsResponse i msg = error_reply (makeInvalidParamsError None msg) i"

definition makeElicitationUnsupportedResponse :: "request_id \<Rightarrow> string \<Rightarrow> response" where
  "makeElicitationUnsupportedResponse i reason =
     error_reply (makeMethodNotFoundError (Some (reason_data reason)) ''Elicitation not supported'') i"

definition makeElicitationInvalidParamsResponse :: "request_id \<Rightarrow> string \<Rightarrow> response" where
  "makeElicitationInvalidParamsResponse i msg = error_reply (makeInvalidParamsError None msg) i"

definition root_to_json :: "root_entry \<Rightarrow> json" where
  "root_to_json e =
     jput_opt ''_meta'' (re_metadata e) (jput_string ''name'' (re_name e)
      (jput ''uri'' (JString (re_uri e)) empty_object))"

definition handleRootsListRequest ::
  "client_env \<Rightarrow> request_context \<Rightarrow> request \<Rightarrow> client \<Rightarrow> client \<times> handler_reply" where
  "handleRootsListRequest env ctx req c =
     (if Option.bind (negotiatedClientCapabilities c) cc_roots = None
      then (c, Replies (makeRootsUnsupportedResponse (rq_id req) ''Client does not have roots capability''))
      else
        (case cl_rootsProvider c of
           None \<Rightarrow> (c, Replies (makeRootsUnsupportedResponse (rq_id req)
             ''Client does not have a registered roots provider''))
         | Some h \<Rightarrow>
             (log_call (RootsCalled h ctx) c,
              case cv_roots env h ctx of
                Throws msg \<Rightarrow> Replies (internal_error_reply (''roots/list failed: '' @ msg) (rq_id req))
              | ThrowsUnknown \<Rightarrow> HandlerFails
              | Returns roots \<Rightarrow>
                  if list_ex (\<lambda>e. \<not> isFileUri (re_uri e)) roots
                  then Replies (internal_error_reply
                    ''roots/list provider returned invalid root URI; expected file://'' (rq_id req))
                  else Replies (new_success (rq_id req)
                    (jput ''roots'' (JArray (map root_to_json roots)) empty_object)))))"

section \<open>Sampling\<close>

definition rejection_error :: json_rpc_error where
  "rejection_error = \<lparr>err_code = -1, err_message = ''User rejected sampling request'', err_data = None\<rparr>"

definition error_text :: "client_error \<Rightarrow> string" where
  "error_text e = (case e of CapabilityError m \<Rightarrow> m | RuntimeError m \<Rightarrow> m)"

text \<open>\<open>effectiveParams\<close>: the params without the member that asks for a task.\<close>

definition without_task :: "json \<Rightarrow> json" where
  "without_task p = (if is_object p \<and> contains p ''task'' then jdel ''task'' p else p)"

definition sampling_params :: "request \<Rightarrow> json" where
  "sampling_params req = without_task (case rq_params req of Some p \<Rightarrow> p | None \<Rightarrow> empty_object)"

text \<open>The answer of the handler as the response of a request and as the response of a task.\<close>

definition sampling_reply :: "schema_validator \<Rightarrow> request_id \<Rightarrow> json option outcome \<Rightarrow> handler_reply" where
  "sampling_reply validate i answer =
     (case answer of
        Throws msg \<Rightarrow> Replies (internal_error_reply (''sampling/createMessage failed: '' @ msg) i)
      | ThrowsUnknown \<Rightarrow> HandlerFails
      | Returns None \<Rightarrow> Replies (error_reply rejection_error i)
      | Returns (Some result) \<Rightarrow>
          (case ensureValidResultSchema validate result ''CreateMessageResult'' kSamplingCreateMessageMethod of
             Inl _ \<Rightarrow> HandlerFails
           | Inr _ \<Rightarrow> Replies (new_success i result)))"

definition sampling_task_response :: "schema_validator \<Rightarrow> json option outcome \<Rightarrow> response option" where
  "sampling_task_response validate answer =
     (case answer of
        Throws msg \<Rightarrow> Some (internal_error_reply (''sampling/createMessage failed: '' @ msg) (IntId 0))
      | ThrowsUnknown \<Rightarrow> None
      | Returns None \<Rightarrow> Some (error_reply rejection_error (IntId 0))
      | Returns (Some result) \<Rightarrow>
          (case ensureValidResultSchema validate result ''CreateMessageResult'' kSamplingCreateMessageMethod of
             Inl e \<Rightarrow> Some (internal_error_reply (''sampling/createMessage failed: '' @ error_text e) (IntId 0))
           | Inr _ \<Rightarrow> Some (new_success (IntId 0) result)))"

definition kStoppingMessage :: string where
  "kStoppingMessage = ''Task cancelled because client is stopping.''"

text \<open>
  The common end of both task requests: the task exists, its worker is posted or, when the client is
  stopping, the task is cancelled. The request is answered with the task as it was created.
\<close>

definition start_task ::
  "client_env \<Rightarrow> request_context \<Rightarrow> request_id \<Rightarrow> create_task_result \<Rightarrow> client_work \<Rightarrow> client \<Rightarrow>
   client \<times> handler_reply" where
  "start_task env ctx i created w c =
     (let (c1, posted) = postManagedTask w c;
          c2 = (if posted then c1
                else fst (with_task_receiver (receiver_cancelTask (in_memory_ops (cv_store env)) ctx
                  (tk_taskId (cr_task created)) (Some kStoppingMessage) None) c1))
      in (c2, Replies (new_success i (createTaskResultToJson created))))"

definition create_client_task ::
  "client_env \<Rightarrow> request_context \<Rightarrow> request_id \<Rightarrow> task_augmentation \<Rightarrow> (string \<Rightarrow> client_work) \<Rightarrow> client \<Rightarrow>
   client \<times> handler_reply" where
  "create_client_task env ctx i aug w c =
     (case receiver_createTask (in_memory_ops (cv_store env)) ctx aug (Some ''The operation is now in progress.'')
             (cl_receiver c) of
        None \<Rightarrow> (c, StillRunning)
      | Some (r, Inl msg) \<Rightarrow>
          (c\<lparr>cl_receiver := r\<rparr>, Replies (makeInvalidParamsResponse i (''Task creation rejected: '' @ msg)))
      | Some (r, Inr created) \<Rightarrow>
          start_task env ctx i created (w (tk_taskId (cr_task created))) (c\<lparr>cl_receiver := r\<rparr>))"

definition samplingTaskSupported :: "client_capabilities option \<Rightarrow> bool" where
  "samplingTaskSupported caps =
     (case Option.bind caps cc_tasks of None \<Rightarrow> False | Some t \<Rightarrow> tasks_samplingCreateMessage t)"

definition handleSamplingRequest ::
  "client_env \<Rightarrow> request_context \<Rightarrow> request \<Rightarrow> client \<Rightarrow> client \<times> handler_reply" where
  "handleSamplingRequest env ctx req c =
     (let caps = negotiatedClientCapabilities c;
          i = rq_id req;
          params = sampling_params req in
      if Option.bind caps cc_sampling = None
      then (c, Replies (makeSamplingUnsupportedResponse i ''Client does not have sampling capability''))
      else
        (case cl_samplingHandler c of
           None \<Rightarrow> (c, Replies (makeSamplingUnsupportedResponse i
             ''Client does not have a registered sampling/createMessage handler''))
         | Some h \<Rightarrow>
        (case (if samplingTaskSupported caps then parseTaskAugmentation (rq_params req) else Inr no_augmentation) of
           Inl msg \<Rightarrow> (c, Replies (makeSamplingInvalidParamsResponse i msg))
         | Inr aug \<Rightarrow>
        (case validateSamplingRequestSemantics caps params of
           Some msg \<Rightarrow> (c, Replies (makeSamplingInvalidParamsResponse i msg))
         | None \<Rightarrow>
             if ta_requested aug
             then create_client_task env ctx i aug (\<lambda>taskId. SamplingWork h ctx taskId params) c
             else (log_call (SamplingCalled h ctx params) c,
                   sampling_reply (cv_schema env) i (cv_sampling env h ctx params))))))"

section \<open>Elicitation\<close>

definition form_reply :: "schema_validator \<Rightarrow> request_id \<Rightarrow> form_result outcome \<Rightarrow> handler_reply" where
  "form_reply validate i answer =
     (case answer of
        Throws msg \<Rightarrow> Replies (internal_error_reply (''elicitation/create form handling failed: '' @ msg) i)
      | ThrowsUnknown \<Rightarrow> HandlerFails
      | Returns r \<Rightarrow>
          if fr_action r = kAccept
            \<and> (case fr_content r of None \<Rightarrow> True | Some content \<Rightarrow> \<not> validateFormResultContent content)
          then Replies (internal_error_reply
            ''elicitation/create form handler returned invalid accept content; expected flat primitive object'' i)
          else if fr_action r \<noteq> kAccept \<and> fr_content r \<noteq> None
          then Replies (internal_error_reply
            (''elicitation/create form handler must omit content unless action is '' @ in_quotes ''accept'') i)
          else
            let result = jput_opt ''content'' (fr_content r)
              (jput ''action'' (JString (toActionString (fr_action r))) empty_object) in
            (case ensureValidResultSchema validate result ''ElicitResult'' kElicitationCreateMethod of
               Inl _ \<Rightarrow> HandlerFails
             | Inr _ \<Rightarrow> Replies (new_success i result)))"

definition elicit_form ::
  "client_env \<Rightarrow> request_context \<Rightarrow> request_id \<Rightarrow> elicitation_capability \<Rightarrow> json \<Rightarrow> client \<Rightarrow>
   client \<times> handler_reply" where
  "elicit_form env ctx i cap params c =
     (if \<not> elicitation_form cap
      then (c, Replies (makeElicitationInvalidParamsResponse i
        (''Server requested unsupported elicitation mode '' @ in_quotes ''form'')))
      else
        (case cl_formHandler c of
           None \<Rightarrow> (c, Replies (makeElicitationUnsupportedResponse i
             ''Client does not have a registered form elicitation handler''))
         | Some h \<Rightarrow>
        (case get_string params ''message'' of
           None \<Rightarrow> (c, Replies (makeElicitationInvalidParamsResponse i
             ''elicitation/create form mode requires string params.message''))
         | Some msg \<Rightarrow>
        (case validateFormRequestedSchema params of
           Some err \<Rightarrow> (c, Replies (makeElicitationInvalidParamsResponse i err))
         | None \<Rightarrow>
             let q = \<lparr>fq_message = msg, fq_requestedSchema = member params ''requestedSchema'',
                      fq_metadata = jget params ''_meta''\<rparr> in
             (log_call (FormCalled h ctx q) c, form_reply (cv_schema env) i (cv_form env h ctx q))))))"

text \<open>\<open>pendingUrlElicitationIds_\<close> gets the id once the action has been validated as a result.\<close>

definition url_reply ::
  "schema_validator \<Rightarrow> request_id \<Rightarrow> string \<Rightarrow> ElicitationAction outcome \<Rightarrow> client \<Rightarrow> client \<times> handler_reply" where
  "url_reply validate i elicitationId answer c =
     (case answer of
        Throws msg \<Rightarrow> (c, Replies (internal_error_reply (''elicitation/create url handling failed: '' @ msg) i))
      | ThrowsUnknown \<Rightarrow> (c, HandlerFails)
      | Returns action \<Rightarrow>
          let result = jput ''action'' (JString (toActionString action)) empty_object in
          (case ensureValidResultSchema validate result ''ElicitResult'' kElicitationCreateMethod of
             Inl _ \<Rightarrow> (c, HandlerFails)
           | Inr _ \<Rightarrow>
               (if action = kAccept
                then c\<lparr>cl_pendingUrlElicitationIds := insert elicitationId (cl_pendingUrlElicitationIds c)\<rparr>
                else c,
                Replies (new_success i result))))"

definition elicit_url ::
  "client_env \<Rightarrow> request_context \<Rightarrow> request_id \<Rightarrow> elicitation_capability \<Rightarrow> json \<Rightarrow> client \<Rightarrow>
   client \<times> handler_reply" where
  "elicit_url env ctx i cap params c =
     (if \<not> elicitation_url cap
      then (c, Replies (makeElicitationInvalidParamsResponse i
        (''Server requested unsupported elicitation mode '' @ in_quotes ''url'')))
      else
        (case cl_urlHandler c of
           None \<Rightarrow> (c, Replies (makeElicitationUnsupportedResponse i
             ''Client does not have a registered URL elicitation handler''))
         | Some h \<Rightarrow>
        (case get_string params ''message'' of
           None \<Rightarrow> (c, Replies (makeElicitationInvalidParamsResponse i
             ''elicitation/create url mode requires string params.message''))
         | Some msg \<Rightarrow>
        (case get_string params ''url'' of
           None \<Rightarrow> (c, Replies (makeElicitationInvalidParamsResponse i
             ''elicitation/create url mode requires string params.url''))
         | Some url \<Rightarrow>
        (case get_string params ''elicitationId'' of
           None \<Rightarrow> (c, Replies (makeElicitationInvalidParamsResponse i
             ''elicitation/create url mode requires string params.elicitationId''))
         | Some elicitationId \<Rightarrow>
             if \<not> isValidAbsoluteUrlForElicitation url
             then (c, Replies (makeElicitationInvalidParamsResponse i
               ''elicitation/create url mode requires a valid absolute URL''))
             else
               let q = \<lparr>uq_elicitationId = elicitationId, uq_message = msg, uq_url = url,
                        uq_metadata = jget params ''_meta''\<rparr>;
                   answer = cv_url env h ctx q in
               url_reply (cv_schema env) i elicitationId answer (log_call (UrlCalled h ctx q answer) c))))))"

definition elicitationTaskSupported :: "client_capabilities option \<Rightarrow> bool" where
  "elicitationTaskSupported caps =
     (case Option.bind caps cc_tasks of None \<Rightarrow> False | Some t \<Rightarrow> tasks_elicitationCreate t)"

text \<open>The request a task worker dispatches in place of the one that asked for the task.\<close>

definition elicitation_task_request :: "request \<Rightarrow> string \<Rightarrow> request" where
  "elicitation_task_request req taskId =
     req\<lparr>rq_id := StrId (''elicitation-task-'' @ taskId), rq_params := map_option without_task (rq_params req)\<rparr>"

definition handleElicitationRequest ::
  "client_env \<Rightarrow> request_context \<Rightarrow> request \<Rightarrow> client \<Rightarrow> client \<times> handler_reply" where
  "handleElicitationRequest env ctx req c =
     (let caps = negotiatedClientCapabilities c;
          i = rq_id req;
          params = (case rq_params req of Some p \<Rightarrow> p | None \<Rightarrow> empty_object) in
      case Option.bind caps cc_elicitation of
        None \<Rightarrow> (c, Replies (makeElicitationUnsupportedResponse i ''Client does not have elicitation capability''))
      | Some cap \<Rightarrow>
          if \<not> is_object params
          then (c, Replies (makeElicitationInvalidParamsResponse i ''elicitation/create requires object params''))
          else
            (case (if elicitationTaskSupported caps then parseTaskAugmentation (rq_params req)
                   else Inr no_augmentation) of
               Inl msg \<Rightarrow> (c, Replies (makeElicitationInvalidParamsResponse i msg))
             | Inr aug \<Rightarrow>
                 if ta_requested aug
                 then create_client_task env ctx i aug
                   (\<lambda>taskId. ElicitationWork ctx taskId (elicitation_task_request req taskId)) c
                 else if contains params ''mode'' \<and> get_string params ''mode'' = None
                 then (c, Replies (makeElicitationInvalidParamsResponse i
                   ''elicitation/create params.mode must be a string when present''))
                 else
                   let mode = (case get_string params ''mode'' of Some m \<Rightarrow> m | None \<Rightarrow> ''form'') in
                   if mode = ''form'' then elicit_form env ctx i cap params c
                   else if mode = ''url'' then elicit_url env ctx i cap params c
                   else (c, Replies (makeElicitationInvalidParamsResponse i
                     (''elicitation/create mode must be '' @ in_quotes ''form'' @ '' or '' @ in_quotes ''url'')))))"

text \<open>The handler of \<open>notifications/elicitation/complete\<close>.\<close>

definition handleElicitationComplete :: "request_context \<Rightarrow> notification \<Rightarrow> client \<Rightarrow> client" where
  "handleElicitationComplete ctx n c =
     (case Option.bind (nt_params n) (\<lambda>p. get_string p ''elicitationId'') of
        None \<Rightarrow> c
      | Some elicitationId \<Rightarrow>
          if elicitationId \<notin> cl_pendingUrlElicitationIds c then c
          else
            let c' = c\<lparr>cl_pendingUrlElicitationIds := cl_pendingUrlElicitationIds c - {elicitationId}\<rparr> in
            (case cl_completionHandler c of
               None \<Rightarrow> c'
             | Some h \<Rightarrow> log_call (UrlCompleted h ctx elicitationId) c'))"

end
