(* ===== verification/ClientDispatch.thy ===== *)
theory ClientDispatch
  imports ClientCore
begin

text \<open>
  What a client does with messages, and what its user calls, src/client/client.cpp: the dispatch of
  requests, notifications and responses, its own requests, the work of its thread pools, attaching
  a transport, start and stop; and the steps of a client.
\<close>

section \<open>Requests of the server\<close>

definition tasks_unsupported :: "client \<Rightarrow> (tasks_capability \<Rightarrow> bool) \<Rightarrow> bool" where
  "tasks_unsupported c needs =
     (case Option.bind (negotiatedClientCapabilities c) cc_tasks of None \<Rightarrow> True | Some t \<Rightarrow> \<not> needs t)"

definition method_not_found_reply :: "request_id \<Rightarrow> string \<Rightarrow> handler_reply" where
  "method_not_found_reply i msg = Replies (error_reply (makeMethodNotFoundError None msg) i)"

definition runClientHandler ::
  "client_env \<Rightarrow> string \<Rightarrow> request_context \<Rightarrow> request \<Rightarrow> client \<Rightarrow> client \<times> handler_reply" where
  "runClientHandler env m ctx req c =
     (let i = rq_id req;
          ops = in_memory_ops (cv_store env);
          stateful = (\<lambda>(c', v). (c', Replies v));
          waiting = (\<lambda>(c', v). (c', case v of Some x \<Rightarrow> Replies x | None \<Rightarrow> StillRunning))
      in
      if m = kPingMethod then (c, Replies (new_success i empty_object))
      else if m = kRootsListMethod then handleRootsListRequest env ctx req c
      else if m = kSamplingCreateMessageMethod then handleSamplingRequest env ctx req c
      else if m = kElicitationCreateMethod then handleElicitationRequest env ctx req c
      else if m = kTasksGetMethod then
        if tasks_unsupported c (\<lambda>_. True)
        then (c, method_not_found_reply i ''Tasks are not supported by this client'')
        else stateful (with_task_receiver (handleTasksGetRequest ops ctx req) c)
      else if m = kTasksResultMethod then
        if tasks_unsupported c (\<lambda>_. True)
        then (c, method_not_found_reply i ''Tasks are not supported by this client'')
        else waiting (with_task_receiver (handleTasksResultRequest ops ctx req) c)
      else if m = kTasksListMethod then
        if tasks_unsupported c tasks_list
        then (c, method_not_found_reply i ''tasks/list is not supported by this client'')
        else stateful (with_task_receiver (handleTasksListRequest ops ctx req) c)
      else
        if tasks_unsupported c tasks_cancel
        then (c, method_not_found_reply i ''tasks/cancel is not supported by this client'')
        else stateful (with_task_receiver (handleTasksCancelRequest ops ctx req) c))"

text \<open>
  \<open>handleRequest\<close>: the future of the response. The ready future of a core handler waits in
  \<open>cl_ready\<close> for the completion job of the router; a user's handler stays pending in the router.
\<close>

definition client_handleRequest :: "client_env \<Rightarrow> request_context \<Rightarrow> request \<Rightarrow> client \<Rightarrow> client \<times> nat" where
  "client_handleRequest env ctx req c =
     (case on_router (dispatchRequest_begin ctx req) c of
        (c1, f, None) \<Rightarrow> (c1, f)
      | (c1, f, Some h) \<Rightarrow>
          if h < length client_methods then
            (case runClientHandler env (client_methods ! h) ctx req c1 of
               (c2, Replies v) \<Rightarrow>
                 (c2\<lparr>cl_router := dispatchRequest_end ctx req f Posted (cl_router c2),
                     cl_ready := cl_ready c2 @ [(ctx, rq_id req, f, v)]\<rparr>, f)
             | (c2, StillRunning) \<Rightarrow> (c2, f)
             | (c2, HandlerFails) \<Rightarrow>
                 (c2\<lparr>cl_router := dispatchRequest_end ctx req f HandlerThrows (cl_router c2)\<rparr>, f))
          else (c1, f))"

text \<open>The completion job of a core handler.\<close>

definition client_complete :: "request_context \<times> request_id \<times> nat \<times> response \<Rightarrow> client \<Rightarrow> client" where
  "client_complete j c =
     (case j of (ctx, i, f, v) \<Rightarrow>
        c\<lparr>cl_router := runCompletionJob ctx i f (Some v) (cl_router c), cl_ready := remove1 j (cl_ready c)\<rparr>)"

text \<open>The value of a future, once it has one.\<close>

definition future_value :: "client \<Rightarrow> nat \<Rightarrow> response option" where
  "future_value c f = (if f < length (promises (cl_router c)) then promises (cl_router c) ! f else None)"

section \<open>Notifications and responses of the server\<close>

definition client_handleNotification :: "request_context \<Rightarrow> notification \<Rightarrow> client \<Rightarrow> client" where
  "client_handleNotification ctx n c =
     (let c1 = (if nt_method n = kNotificationInitialized
                then c\<lparr>cl_session := handleInitializedNotification (cl_session c)\<rparr> else c);
          c2 = c1\<lparr>cl_router := dispatchNotification ctx n (cl_router c1)\<rparr>
      in if map_of (notificationHandlers (cl_router c1)) (nt_method n) = Some 0
         then handleElicitationComplete ctx n c2 else c2)"

definition isPendingInitializeResponse :: "response \<Rightarrow> client \<Rightarrow> bool" where
  "isPendingInitializeResponse resp c =
     (case responseId resp of
        None \<Rightarrow> False
      | Some i \<Rightarrow> cl_pendingInitializeRequestId c = Some i)"

definition client_dispatchResponse :: "response \<Rightarrow> client \<Rightarrow> client \<times> bool" where
  "client_dispatchResponse resp = on_router (dispatchResponse resp)"

text \<open>
  \<open>handleResponse\<close>: the response of \<open>initialize\<close> goes to the session first when it is a success and
  to the router first when it is an error. Only a lifecycle error of the session is caught, so an
  exception of the transport keeps the response from the router.
\<close>

definition client_handleResponse :: "response \<Rightarrow> client \<Rightarrow> client \<times> (session_error + bool)" where
  "client_handleResponse resp c =
     (let initializeResponse = isPendingInitializeResponse resp c;
          c1 = (if initializeResponse then c\<lparr>cl_pendingInitializeRequestId := None\<rparr> else c);
          accept = (\<lambda>c. case handleInitializeResponse resp (cl_session c) of
                          (sess, r) \<Rightarrow> (c\<lparr>cl_session := sess\<rparr>, r));
          dispatch = client_dispatchResponse resp
      in
      if \<not> initializeResponse then (let (c2, known) = dispatch c1 in (c2, Inr known))
      else
        (case resp of
           RSuccess _ \<Rightarrow>
             (case accept c1 of
                (c2, Inr _) \<Rightarrow> (let (c3, known) = dispatch c2 in (c3, Inr known))
              | (c2, Inl (LifecycleError msg)) \<Rightarrow> (fst (dispatch c2), Inl (LifecycleError msg))
              | (c2, Inl TransportError) \<Rightarrow> (c2, Inl TransportError))
         | RError _ \<Rightarrow>
             (let (c2, known) = dispatch c1; (c3, r) = accept c2 in
              (c3, case r of Inl e \<Rightarrow> Inl e | Inr _ \<Rightarrow> Inr known))))"

text \<open>
  \<open>handleMessage\<close>: a request is handled and its thread then waits in \<open>cl_waiting\<close> for the response,
  which it sends.
\<close>

definition client_handleMessage ::
  "client_env \<Rightarrow> request_context \<Rightarrow> message \<Rightarrow> client \<Rightarrow> client \<times> (session_error + unit)" where
  "client_handleMessage env ctx m c =
     (let answered = (\<lambda>resp. case client_handleResponse resp c of (c', r) \<Rightarrow> (c', map_sum id (\<lambda>_. ()) r)) in
      case m of
        MRequest req \<Rightarrow>
          (let (c', f) = client_handleRequest env ctx req c in
           (c'\<lparr>cl_waiting := cl_waiting c' @ [(ctx, f)]\<rparr>, Inr ()))
      | MNotification n \<Rightarrow> (client_handleNotification ctx n c, Inr ())
      | MSuccess s \<Rightarrow> answered (RSuccess s)
      | MError e \<Rightarrow> answered (RError e))"

fun response_message :: "response \<Rightarrow> message" where
  "response_message (RSuccess s) = MSuccess s"
| "response_message (RError e) = MError e"

definition client_answer :: "request_context \<times> nat \<Rightarrow> client \<Rightarrow> client \<times> (string + unit)" where
  "client_answer w c =
     (case future_value c (snd w) of
        None \<Rightarrow> (c, Inr ())
      | Some resp \<Rightarrow>
          client_dispatchOutboundMessage (response_message resp) (c\<lparr>cl_waiting := remove1 w (cl_waiting c)\<rparr>))"

section \<open>Requests and notifications of the client\<close>

text \<open>
  \<open>sendRequest\<close> up to the hand-over to the transport: what it throws, or the future, whether the
  request went into flight, and whether it is \<open>initialize\<close>.
\<close>

definition client_sendRequest_begin ::
  "string \<Rightarrow> json \<Rightarrow> int \<Rightarrow> bool \<Rightarrow> client \<Rightarrow> client \<times> (session_error + nat \<times> bool \<times> bool)" where
  "client_sendRequest_begin m params timeout cancelOnTimeout c =
     (let i = IntId (cl_nextRequestId c);
          c1 = c\<lparr>cl_nextRequestId := cl_nextRequestId c + 1\<rparr>;
          isInitialize = (m = kInitializeMethod);
          params' = (if isInitialize
                     then applyInitializeDefaults (cl_configuration c) (se_supported (cl_session c)) (Some params)
                     else params)
      in
      case enforceOutboundRequestLifecycle m params' (cl_session c1) of
        (sess, Inl e) \<Rightarrow> (c1\<lparr>cl_session := sess\<rparr>, Inl e)
      | (sess, Inr _) \<Rightarrow>
          let c2 = c1\<lparr>cl_session := sess,
                      cl_pendingInitializeRequestId :=
                        (if isInitialize then Some i else cl_pendingInitializeRequestId c1)\<rparr>;
              (c3, f, flying) = on_router (sendRequest_begin default_context (new_request i m (Some params'))
                \<lparr>oo_timeout = timeout, oo_cancel_on_timeout = cancelOnTimeout, oo_on_progress = None\<rparr>) c2
          in (c3, Inr (f, flying, isInitialize)))"

text \<open>
  The rest: the hand-over, then a look at the future of \<open>initialize\<close>. When it is ready and nobody
  has handled it yet, the session gets it here.
\<close>

definition client_sendRequest_end ::
  "in_flight_request option \<Rightarrow> nat \<Rightarrow> bool \<Rightarrow> client \<Rightarrow> client \<times> (session_error + nat)" where
  "client_sendRequest_end g f isInitialize c =
     (let c1 = (case g of
            None \<Rightarrow> c
          | Some q \<Rightarrow> fst (on_router (\<lambda>r. (sendRequest_end q r, ())) c))
      in
      if \<not> isInitialize then (c1, Inr f)
      else
        (case future_value c1 f of
           None \<Rightarrow> (c1, Inr f)
         | Some resp \<Rightarrow>
             if cl_pendingInitializeRequestId c1 = None then (c1, Inr f)
             else
               (case handleInitializeResponse resp (cl_session c1) of
                  (sess, r) \<Rightarrow>
                    (c1\<lparr>cl_pendingInitializeRequestId := None, cl_session := sess\<rparr>,
                     if r = Inl TransportError then Inl TransportError else Inr f))))"

text \<open>The whole operation without anything in between.\<close>

definition client_sendRequest ::
  "string \<Rightarrow> json \<Rightarrow> int \<Rightarrow> bool \<Rightarrow> client \<Rightarrow> client \<times> (session_error + nat)" where
  "client_sendRequest m params timeout cancelOnTimeout c =
     (case client_sendRequest_begin m params timeout cancelOnTimeout c of
        (c1, Inl e) \<Rightarrow> (c1, Inl e)
      | (c1, Inr (f, flying, isInitialize)) \<Rightarrow>
          client_sendRequest_end (if flying then Some (hd (sendCalls (cl_router c1))) else None) f isInitialize c1)"

definition client_initialize :: "int \<Rightarrow> bool \<Rightarrow> client \<Rightarrow> client \<times> (session_error + nat)" where
  "client_initialize = client_sendRequest kInitializeMethod empty_object"

text \<open>The timer of an outbound request.\<close>

definition client_timeout :: "request_id \<Rightarrow> client \<Rightarrow> client" where
  "client_timeout i c = fst (on_router (\<lambda>r. (handleRequestTimeout i r, ())) c)"

definition client_sendNotification :: "string \<Rightarrow> json option \<Rightarrow> client \<Rightarrow> client \<times> (session_error + unit)" where
  "client_sendNotification m params c =
     (case session_sendNotification m params (cl_session c) of (sess, r) \<Rightarrow> (c\<lparr>cl_session := sess\<rparr>, r))"

definition notifyRootsListChanged :: "client \<Rightarrow> client \<times> (session_error + bool)" where
  "notifyRootsListChanged c =
     (if \<not> (case Option.bind (negotiatedClientCapabilities c) cc_roots of
               None \<Rightarrow> False | Some k \<Rightarrow> roots_listChanged k)
      then (c, Inr False)
      else if \<not> canSendNotification kRootsListChangedNotificationMethod (cl_session c) then (c, Inr False)
      else
        (case client_sendNotification kRootsListChangedNotificationMethod (Some empty_object) c of
           (c', Inl e) \<Rightarrow> (c', Inl e)
         | (c', Inr _) \<Rightarrow> (c', Inr True)))"

text \<open>
  \<open>sendRequestAsync\<close> posts a wait for the future of its request; the wait ends by handing the
  response to the pool for callbacks.
\<close>

definition sendRequestAsync ::
  "string \<Rightarrow> json \<Rightarrow> nat \<Rightarrow> int \<Rightarrow> bool \<Rightarrow> client \<Rightarrow> client \<times> (session_error + unit)" where
  "sendRequestAsync m params callback timeout cancelOnTimeout c =
     (case client_sendRequest m params timeout cancelOnTimeout c of
        (c1, Inl e) \<Rightarrow> (c1, Inl e)
      | (c1, Inr f) \<Rightarrow> (fst (postManagedTask (CallbackWork f callback) c1), Inr ()))"

section \<open>Work of the pools\<close>

definition finish_task :: "client_env \<Rightarrow> request_context \<Rightarrow> string \<Rightarrow> response \<Rightarrow> client \<Rightarrow> client" where
  "finish_task env ctx taskId resp c =
     fst (with_task_receiver
       (completeTaskWithResponse (in_memory_ops (cv_store env)) ctx taskId resp kCompleted None) c)"

text \<open>
  One piece of work. The worker of an elicitation dispatches its request to the client again and
  then waits for the answer; a wait whose future has no value yet goes on.
\<close>

definition runClientWork :: "client_env \<Rightarrow> client_work \<Rightarrow> client \<Rightarrow> client" where
  "runClientWork env w c0 =
     (let c = c0\<lparr>cl_work := remove1 w (cl_work c0)\<rparr> in
      case w of
        SamplingWork h ctx taskId params \<Rightarrow>
          (let c1 = log_call (SamplingCalled h ctx params) c in
           case sampling_task_response (cv_schema env) (cv_sampling env h ctx params) of
             None \<Rightarrow> c1
           | Some resp \<Rightarrow> finish_task env ctx taskId resp c1)
      | ElicitationWork ctx taskId req \<Rightarrow>
          (let (c1, f) = client_handleRequest env ctx req c in
           c1\<lparr>cl_work := cl_work c1 @ [AnswerWork ctx taskId f]\<rparr>)
      | AnswerWork ctx taskId f \<Rightarrow>
          (case future_value c f of None \<Rightarrow> c0 | Some resp \<Rightarrow> finish_task env ctx taskId resp c)
      | CallbackWork f callback \<Rightarrow>
          (if \<not> cl_asyncWorkEnabled c then c
           else
             (case future_value c f of
                None \<Rightarrow> c0
              | Some resp \<Rightarrow> fst (postCallbackTask (callback, resp) c))))"

definition runCallback :: "nat \<times> response \<Rightarrow> client \<Rightarrow> client" where
  "runCallback w c =
     log_call (CallbackCalled (fst w) (snd w)) (c\<lparr>cl_callbacks := remove1 w (cl_callbacks c)\<rparr>)"

section \<open>Transport, start and stop\<close>

definition client_attachTransport :: "client_transport option \<Rightarrow> client \<Rightarrow> client \<times> (string + unit)" where
  "client_attachTransport given c =
     (case given of
        None \<Rightarrow> (c, Inl ''Client transport must not be null'')
      | Some t \<Rightarrow>
          (c\<lparr>cl_transport := Some t, cl_session := attachTransport (Some (ct_accepts t)) (cl_session c)\<rparr>, Inr ()))"

definition client_start :: "client \<Rightarrow> client \<times> (session_error + unit)" where
  "client_start c =
     (case session_start (setRole kClient (cl_session c)) of
        (sess, Inl e) \<Rightarrow> (c\<lparr>cl_session := sess\<rparr>, Inl e)
      | (sess, Inr _) \<Rightarrow>
          let c1 = c\<lparr>cl_session := sess\<rparr> in
          (case cl_transport c of
             None \<Rightarrow> (c1, Inr ())
           | Some t \<Rightarrow>
               if ct_running t then (c1, Inr ())
               else if ct_starts t then (c1\<lparr>cl_transport := Some (t\<lparr>ct_running := True\<rparr>)\<rparr>, Inr ())
               else (c1, Inl TransportError)))"

text \<open>
  \<open>stop\<close>: the pools are taken and stopped, which drops the work that has not begun; a pool is joined,
  except the callback pool when a callback stops the client. After that the transport and the
  session stop. A worker of the async pool must not call it.
\<close>

datatype stop_caller = OtherThread | AsyncWorker | CallbackWorker

fun has_begun :: "client_work \<Rightarrow> bool" where
  "has_begun (AnswerWork _ _ _) = True"
| "has_begun _ = False"

definition client_stop_begin :: "stop_caller \<Rightarrow> client \<Rightarrow> client \<times> (string + unit)" where
  "client_stop_begin caller c =
     (if cl_asyncWorkPool c \<and> caller = AsyncWorker
      then (c, Inl ''Client::stop() cannot be called from an internal async worker thread'')
      else
        (c\<lparr>cl_asyncWorkEnabled := False, cl_callbackDispatchEnabled := False, cl_asyncWorkPool := False,
           cl_callbackDispatchPool := (cl_callbackDispatchPool c \<and> caller = CallbackWorker),
           cl_work := filter has_begun (cl_work c), cl_callbacks := []\<rparr>, Inr ()))"

definition client_stop_end :: "client \<Rightarrow> client" where
  "client_stop_end c =
     c\<lparr>cl_transport := map_option (\<lambda>t. t\<lparr>ct_running := False\<rparr>) (cl_transport c),
       cl_session := session_stop (cl_session c)\<rparr>"

section \<open>Steps\<close>

text \<open>
  What can happen to a client: calls of its user, messages of the server, and the threads of its
  pools, of its router and of handlers that the user has registered. Every step may see another environment: handlers need not answer twice
  the same, and time goes on. The second half of a request is done by the thread that made the call.
\<close>

inductive client_step :: "client \<Rightarrow> client \<Rightarrow> bool" where
  step_message: "client_step c (fst (client_handleMessage env ctx m c))"
| step_request: "client_step c (fst (client_handleRequest env ctx req c))"
| step_complete: "j \<in> set (cl_ready c) \<Longrightarrow> client_step c (client_complete j c)"
| step_answer: "w \<in> set (cl_waiting c) \<Longrightarrow> client_step c (fst (client_answer w c))"
| step_work: "w \<in> set (cl_work c) \<Longrightarrow> client_step c (runClientWork env w c)"
| step_callback: "k \<in> set (cl_callbacks c) \<Longrightarrow> client_step c (runCallback k c)"
| step_send_begin: "client_step c (fst (client_sendRequest_begin m params timeout cancel c))"
| step_send_end: "client_step c (fst (client_sendRequest_end g f isInitialize c))"
| step_async: "client_step c (fst (sendRequestAsync m params callback timeout cancel c))"
| step_notify: "client_step c (fst (client_sendNotification m nparams c))"
| step_roots_changed: "client_step c (fst (notifyRootsListChanged c))"
| step_roots: "client_step c (setRootsProvider h c)"
| step_sampling: "client_step c (setSamplingCreateMessageHandler h c)"
| step_form: "client_step c (setFormElicitationHandler h c)"
| step_url: "client_step c (setUrlElicitationHandler h c)"
| step_url_complete: "client_step c (setUrlElicitationCompletionHandler h c)"
| step_configuration: "client_step c (setInitializeConfiguration cfg c)"
| step_handler: "client_step c (client_registerRequestHandler method k c)"
| step_notification_handler: "client_step c (client_registerNotificationHandler method k c)"
| step_attach: "client_step c (fst (client_attachTransport t c))"
| step_start: "client_step c (fst (client_start c))"
| step_stop: "client_step c (fst (client_stop_begin caller c))"
| step_stopped: "\<forall>w \<in> set (cl_work c). \<not> has_begun w \<Longrightarrow> client_step c (client_stop_end c)"
| step_timeout: "client_step c (client_timeout i c)"
| step_user_end: "client_step c (c\<lparr>cl_router := dispatchRequest_end ctx req f outcome (cl_router c)\<rparr>)"
| step_user_job: "client_step c (c\<lparr>cl_router := runCompletionJob ctx i f answer (cl_router c)\<rparr>)"

end
