(* ===== verification/ClientChecksSpec.thy ===== *)
theory ClientChecksSpec
  imports ClientChecks "HOL-Library.Multiset"
begin

text \<open>
  What the checks of ClientChecks accept: ports are decimal numbers up to 65535, an accepted URL is
  shown with its own host, and a balanced list of messages is a conversation in which every message
  that uses tools is followed by the results of exactly these uses.
\<close>

section \<open>Ports\<close>

lemma port_loop_iff:
  "port_loop p s \<longleftrightarrow> (\<forall>c \<in> set s. is_digit c) \<and> (s = [] \<or> decimal_value (unat p) s \<le> 65535)"
  if "p \<le> kMaxValidPort" for p
  using that
proof (induction s arbitrary: p)
  case (Cons c cs)
  have p: "unat p \<le> 65535" using Cons.prems by (simp add: kMaxValidPort_def word_le_nat_alt)
  show ?case
  proof (cases "is_digit c")
    case True
    then have d: "digit_value c \<le> 9" unfolding is_digit_def digit_value_def by linarith
    have u: "unat (p * 10 + word_of_nat (digit_value c)) = unat p * 10 + digit_value c"
      using p d by (simp add: unat_word_ariths unat_of_nat take_bit_nat_eq_self_iff)
    show ?thesis
    proof (cases "p * 10 + word_of_nat (digit_value c) \<le> kMaxValidPort")
      case small: True
      have "unat p * 10 + digit_value c \<le> 65535"
        using small u by (simp add: kMaxValidPort_def word_le_nat_alt)
      then show ?thesis using True small Cons.IH [OF small] u
        by (auto simp: Let_def not_less decimal_value_simps mult.commute)
    next
      case False
      then have "unat p * 10 + digit_value c > 65535"
        using u by (simp add: kMaxValidPort_def word_le_nat_alt not_le)
      moreover have "unat p * 10 + digit_value c \<le> decimal_value (unat p * 10 + digit_value c) cs"
        by (rule decimal_value_mono)
      ultimately show ?thesis using True False by (simp add: Let_def not_le mult.commute)
    qed
  qed simp
qed simp

text \<open>
  A port is accepted exactly when it is a non-empty string of decimal digits whose value is at
  most 65535: leaving the loop early keeps the 32-bit accumulator from overflowing.
\<close>

theorem accepted_ports:
  "isValidPort s \<longleftrightarrow> s \<noteq> [] \<and> (\<forall>c \<in> set s. is_digit c) \<and> decimal_value 0 s \<le> 65535"
  using port_loop_iff [of 0 s] by (auto simp: isValidPort_def)

section \<open>URLs\<close>

lemma find_str_split: "find_str needle s = Some n \<Longrightarrow> s = take n s @ needle @ drop (n + length needle) s"
proof (induction s arbitrary: n)
  case (Cons c cs)
  show ?case
  proof (cases "take (length needle) (c # cs) = needle")
    case True
    then have "n = 0" using Cons.prems by simp
    then show ?thesis using True by (metis add_0 append_Nil append_take_drop_id take_0)
  next
    case False
    then obtain k where "find_str needle cs = Some k" "n = Suc k"
      using Cons.prems by (auto split: if_splits)
    with Cons.IH [of k] show ?thesis by simp
  qed
qed (auto split: if_splits)

lemma split_url_Some:
  assumes "split_url url = Some (scheme, a)"
  obtains rest where "url = scheme @ ''://'' @ a @ rest" "scheme \<noteq> []"
    "rest = [] \<or> hd rest \<in> set ''/?#''" "\<forall>c \<in> set a. c \<notin> set ''/?#''"
proof -
  obtain n where n: "find_str ''://'' url = Some n" "n \<noteq> 0" "scheme = take n url"
    "a = takeWhile (\<lambda>c. c \<notin> set ''/?#'') (drop (n + 3) url)"
    using assms by (auto simp: split_url_def split: option.splits if_splits)
  let ?rest = "dropWhile (\<lambda>c. c \<notin> set ''/?#'') (drop (n + 3) url)"
  have url: "url = take n url @ ''://'' @ drop (n + 3) url" using find_str_split [OF n(1)] by (simp add: numeral_3_eq_3)
  then have "take n url \<noteq> []" using n(2) by (cases url) auto
  moreover have "url = scheme @ ''://'' @ a @ ?rest" using url n(3,4) by (metis takeWhile_dropWhile_id)
  moreover have "?rest = [] \<or> hd ?rest \<in> set ''/?#''"
    using hd_dropWhile [of "\<lambda>c. c \<notin> set ''/?#''" "drop (n + 3) url"] by blast
  moreover have "\<forall>c \<in> set a. c \<notin> set ''/?#''" using n(4) set_takeWhileD by fast
  ultimately show ?thesis using that n(3) by blast
qed

definition port_part :: "string \<Rightarrow> bool" where
  "port_part s \<longleftrightarrow> s = [] \<or> (\<exists>p. s = CHR '':'' # p \<and> isValidPort p)"

text \<open>An accepted authority, and the host that is shown for it.\<close>

lemma authority_host:
  assumes "valid_authority a"
  obtains host port where "consent_host a = Some host" "host \<noteq> []" "port_part port"
    "a = host @ port \<or> a = CHR ''['' # host @ CHR '']'' # port" "CHR ''@'' \<notin> set host"
proof (cases "hd a = CHR ''[''")
  case True
  obtain n where n: "find_char CHR '']'' a = Some n" "1 < n" "CHR ''@'' \<notin> set a" "a \<noteq> []"
    "drop (n + 1) a = [] \<or> hd (drop (n + 1) a) = CHR '':'' \<and> isValidPort (tl (drop (n + 1) a))"
    using assms True by (auto simp: valid_authority_def Let_def not_le split: option.splits if_splits)
  have i: "n < length a" "a ! n = CHR '']''" using find_char_Some [OF n(1)] by simp_all
  let ?host = "take (n - 1) (drop 1 a)" let ?port = "drop (n + 1) a"
  have a: "a = CHR ''['' # drop 1 a" using True n(4) by (cases a) auto
  moreover have "drop 1 a = ?host @ CHR '']'' # ?port"
  proof -
    have k: "n - 1 < length (drop 1 a)" "drop 1 a ! (n - 1) = CHR '']''" "drop (Suc (n - 1)) (drop 1 a) = ?port"
      using i n(2) by simp_all
    then show ?thesis using id_take_nth_drop [OF k(1)] by simp
  qed
  ultimately have whole: "a = CHR ''['' # ?host @ CHR '']'' # ?port" by (rule trans [OF _ arg_cong])
  have port: "port_part ?port" using n(5) by (cases ?port) (auto simp: port_part_def)
  have "?host \<noteq> []" using n(2) i by simp
  moreover have "consent_host a = Some ?host" using True n(1,2) by (simp add: consent_host_def)
  moreover have "CHR ''@'' \<notin> set ?host" using n(3) by (auto dest: in_set_takeD in_set_dropD)
  ultimately show ?thesis using that port whole by blast
next
  case False
  with assms have a: "a \<noteq> []" "CHR ''@'' \<notin> set a" by (auto simp: valid_authority_def split: if_splits)
  show ?thesis
  proof (cases "find_char CHR '':'' a")
    case None
    then have "find_char CHR '':'' (rev a) = None" by (simp add: find_char_None)
    then have "rfind_char CHR '':'' a = None" by (simp add: rfind_char_def)
    then have "consent_host a = Some a" using False by (simp add: consent_host_def)
    then show ?thesis using that [of a "[]"] a by (simp add: port_part_def)
  next
    case (Some n)
    with assms False have n: "rfind_char CHR '':'' a = Some n" "take n a \<noteq> []" "isValidPort (drop (n + 1) a)"
      by (auto simp: valid_authority_def split: if_splits)
    have i: "n < length a" "a ! n = CHR '':''" using find_char_Some [OF Some] by simp_all
    have "a = take n a @ CHR '':'' # drop (n + 1) a" using id_take_nth_drop [OF i(1)] i(2) by simp
    moreover have "consent_host a = Some (take n a)" using False n by (simp add: consent_host_def)
    moreover have "CHR ''@'' \<notin> set (take n a)" using a(2) by (auto dest: in_set_takeD)
    ultimately show ?thesis
      using that [of "take n a" "CHR '':'' # drop (n + 1) a"] n by (auto simp: port_part_def)
  qed
qed

lemma no_space_trimmed:
  "\<not> containsSpaceOrControl url \<Longrightarrow> rev (dropWhile consent_space (rev (dropWhile consent_space url))) = url"
proof -
  assume "\<not> containsSpaceOrControl url"
  then have no: "\<not> consent_space c" if "c \<in> set url" for c
    using that by (auto simp: containsSpaceOrControl_def list_ex_iff consent_space_def is_space_def)
  have "dropWhile consent_space s = s" if "set s \<subseteq> set url" for s
    using that no by (cases s) auto
  from this [of url] this [of "rev url"] show ?thesis by simp
qed

text \<open>
  C34. A URL that the client accepts for an elicitation is shown to the user unchanged and with the
  host it leads to: it consists of a scheme, the host that is displayed, in brackets or not, an optional
  port up to 65535 and a rest that begins with a slash, a question mark or a hash, and it has no
  user part in which another host could be hidden.
\<close>

theorem accepted_urls_show_their_host:
  assumes "isValidAbsoluteUrlForElicitation url"
  shows "\<exists>scheme host port rest.
      formatUrlForConsent url = Some \<lparr>ud_fullUrl = url, ud_domain = host\<rparr>
    \<and> (url = scheme @ ''://'' @ host @ port @ rest \<or> url = scheme @ ''://['' @ host @ '']'' @ port @ rest)
    \<and> scheme \<noteq> [] \<and> list_all (\<lambda>c. is_alnum c \<or> c \<in> set ''+-.'') scheme
    \<and> host \<noteq> [] \<and> (\<forall>c \<in> set host. c \<notin> set ''@/?#'')
    \<and> (port = [] \<or> (\<exists>p. port = CHR '':'' # p \<and> isValidPort p))
    \<and> (rest = [] \<or> hd rest \<in> set ''/?#'')"
proof -
  obtain scheme a where s: "split_url url = Some (scheme, a)" "valid_authority a"
    "list_all (\<lambda>c. is_alnum c \<or> c = CHR ''+'' \<or> c = CHR ''-'' \<or> c = CHR ''.'') scheme" "\<not> containsSpaceOrControl url"
    "url \<noteq> []"
    using assms by (auto simp: isValidAbsoluteUrlForElicitation_def split: option.splits if_splits)
  obtain rest where url: "url = scheme @ ''://'' @ a @ rest" "scheme \<noteq> []" "rest = [] \<or> hd rest \<in> set ''/?#''"
    "\<forall>c \<in> set a. c \<notin> set ''/?#''" by (rule split_url_Some [OF s(1)])
  obtain host port where h: "consent_host a = Some host" "host \<noteq> []" "port_part port"
    "a = host @ port \<or> a = CHR ''['' # host @ CHR '']'' # port" "CHR ''@'' \<notin> set host"
    by (rule authority_host [OF s(2)])
  have "a \<noteq> []" "CHR ''@'' \<notin> set a" using s(2) by (auto simp: valid_authority_def split: if_splits)
  then have shown: "formatUrlForConsent url = Some \<lparr>ud_fullUrl = url, ud_domain = host\<rparr>"
    using s(1,5) h(1) by (simp add: formatUrlForConsent_def no_space_trimmed [OF s(4)])
  have whole: "url = scheme @ ''://'' @ host @ port @ rest \<or> url = scheme @ ''://['' @ host @ '']'' @ port @ rest"
    using url(1) h(4) by auto
  have "set host \<subseteq> set a" using h(4) by (elim disjE) (simp, fastforce)
  then have host: "\<forall>c \<in> set host. c \<notin> set ''@/?#''" using url(4) h(5) by fastforce
  have scheme: "list_all (\<lambda>c. is_alnum c \<or> c \<in> set ''+-.'') scheme" using s(3) by (simp add: list_all_iff)
  show ?thesis
    by (rule exI [of _ scheme], rule exI [of _ host], rule exI [of _ port], rule exI [of _ rest],
        intro conjI shown whole url(2) scheme h(2) host h(3) [unfolded port_part_def] url(3))
qed

section \<open>Conversations\<close>

definition asks :: "json \<Rightarrow> bool" where
  "asks m \<longleftrightarrow> get_string m ''role'' = Some ''assistant'' \<and> collectToolUseIds m \<noteq> []"

definition answers :: "json \<Rightarrow> bool" where
  "answers m \<longleftrightarrow> get_string m ''role'' = Some ''user'' \<and> messageContainsOnlyToolResults m"

text \<open>
  The grammar of conversations: messages that neither use tools nor bring results, and exchanges of
  an assistant's message that uses tools and a user's message with the results of these uses.
\<close>

inductive conversation :: "json list \<Rightarrow> bool" where
  nothing: "conversation []"
| plain: "get_string m ''role'' \<noteq> None \<Longrightarrow> \<not> asks m \<Longrightarrow> \<not> answers m \<Longrightarrow> conversation ms \<Longrightarrow> conversation (m # ms)"
| exchange: "asks a \<Longrightarrow> answers r \<Longrightarrow> mset (collectToolUseIds a) = mset (collectToolResultIds r) \<Longrightarrow>
    conversation ms \<Longrightarrow> conversation (a # r # ms)"

inductive_cases conversation_Cons: "conversation (m # ms)"

text \<open>What the loop asks of one message, given the one before and the ones after.\<close>

definition fits :: "json option \<Rightarrow> json \<Rightarrow> json list \<Rightarrow> bool" where
  "fits prev m rest \<longleftrightarrow>
     get_string m ''role'' \<noteq> None
   \<and> (answers m \<longrightarrow> (\<exists>a. prev = Some a \<and> asks a \<and> mset (collectToolUseIds a) = mset (collectToolResultIds m)))
   \<and> (asks m \<longrightarrow> (\<exists>r rs. rest = r # rs \<and> answers r))"

fun fits_all :: "json option \<Rightarrow> json list \<Rightarrow> bool" where
  "fits_all prev [] = True"
| "fits_all prev (m # ms) = (fits prev m ms \<and> fits_all (Some m) ms)"

lemma sorted_lists_equal: "length ys = length xs \<and> sort xs = sort ys \<longleftrightarrow> mset xs = mset (ys :: string list)"
  by (metis mset_eq_length mset_sort properties_for_sort sorted_sort)

lemma user_assistant [simp]:
  "asks m \<Longrightarrow> \<not> answers m" "answers m \<Longrightarrow> \<not> asks m"
  by (auto simp: asks_def answers_def)

lemma balanced_at_fits:
  "balanced_at (pre @ m # rest) (length pre) \<longleftrightarrow> fits (if pre = [] then None else Some (last pre)) m rest"
proof -
  have before: "(pre @ m # rest) ! (length pre - 1) = last pre" if "pre \<noteq> []"
    using that by (simp add: nth_append last_conv_nth)
  have after: "(pre @ m # rest) ! (length pre + 1) = hd rest" if "rest \<noteq> []"
    using that by (cases rest) (simp_all add: nth_append)
  show ?thesis
  proof (cases "get_string m ''role''")
    case (Some role)
    consider (answers) "answers m" | (asks) "asks m" | (plain) "\<not> answers m" "\<not> asks m" by blast
    then show ?thesis
    proof cases
      case answers
      then show ?thesis
        using before by (cases "pre = []") (auto simp: balanced_at_def fits_def answers_def asks_def
            sorted_lists_equal [symmetric])
    next
      case asks
      then show ?thesis
        using after by (cases rest) (auto simp: balanced_at_def fits_def answers_def asks_def)
    qed (auto simp: balanced_at_def fits_def answers_def asks_def Some)
  qed (simp add: balanced_at_def fits_def)
qed

lemma balanced_fits_all:
  "list_all (balanced_at (pre @ ms)) [length pre..<length (pre @ ms)]
   \<longleftrightarrow> fits_all (if pre = [] then None else Some (last pre)) ms"
proof (induction ms arbitrary: pre)
  case (Cons m ms)
  have "[length pre..<length (pre @ m # ms)] = length pre # [length (pre @ [m])..<length ((pre @ [m]) @ ms)]"
    by (simp add: upt_conv_Cons del: upt_Suc)
  then show ?case using Cons.IH [of "pre @ [m]"] by (simp add: balanced_at_fits)
qed simp

lemma conversation_asks:
  "asks a \<Longrightarrow> conversation (a # ms) \<longleftrightarrow>
     (\<exists>r rs. ms = r # rs \<and> answers r \<and> mset (collectToolUseIds a) = mset (collectToolResultIds r) \<and> conversation rs)"
  by (blast elim: conversation_Cons intro: conversation.exchange)

lemma conversation_plain:
  "\<not> asks m \<Longrightarrow> conversation (m # ms) \<longleftrightarrow> get_string m ''role'' \<noteq> None \<and> \<not> answers m \<and> conversation ms"
  by (blast elim: conversation_Cons intro: conversation.plain)

lemma fits_asks:
  "asks a \<Longrightarrow> fits prev a ms \<longleftrightarrow> (\<exists>r rs. ms = r # rs \<and> answers r)"
  by (auto simp: fits_def asks_def answers_def)

lemma fits_answer:
  "asks a \<Longrightarrow> answers r \<Longrightarrow> fits (Some a) r ms \<longleftrightarrow> mset (collectToolUseIds a) = mset (collectToolResultIds r)"
  by (auto simp: fits_def answers_def asks_def)

lemma fits_conversation:
  "\<forall>a. prev = Some a \<longrightarrow> \<not> asks a \<Longrightarrow> fits_all prev ms \<longleftrightarrow> conversation ms"
proof (induction "length ms" arbitrary: prev ms rule: less_induct)
  case less
  show ?case
  proof (cases ms)
    case (Cons m rest)
    show ?thesis
    proof (cases "asks m")
      case asks: True
      show ?thesis
      proof (cases "\<exists>r rs. rest = r # rs \<and> answers r")
        case True
        then obtain r rs where r: "rest = r # rs" "answers r" by blast
        then have "fits_all (Some r) rs \<longleftrightarrow> conversation rs" using Cons by (intro less.hyps) auto
        then show ?thesis using Cons asks r by (simp add: conversation_asks fits_asks fits_answer)
      next
        case False
        then show ?thesis using Cons asks by (auto simp: conversation_asks fits_asks)
      qed
    next
      case False
      then have "fits_all (Some m) rest \<longleftrightarrow> conversation rest" using Cons by (intro less.hyps) auto
      moreover have "fits prev m rest \<longleftrightarrow> get_string m ''role'' \<noteq> None \<and> \<not> answers m"
        using False less.prems by (auto simp: fits_def)
      ultimately show ?thesis using False Cons by (simp add: conversation_plain)
    qed
  qed (simp add: conversation.intros)
qed

lemma balanced_messages:
  "hasBalancedToolUseSequence (JArray ms) \<longleftrightarrow> conversation ms"
  using balanced_fits_all [of "[]" ms] fits_conversation [of None ms] by (simp add: hasBalancedToolUseSequence_def)

text \<open>
  C33. The loop over neighbouring messages that checks a sampling request accepts exactly the
  conversations of the grammar: each message of the assistant that uses tools is directly followed by
  a message of the user with nothing but results, for exactly the uses asked for, counted with
  multiplicity, and no results come without uses.
\<close>

theorem balanced_messages_are_conversations:
  "hasBalancedToolUseSequence messages \<longleftrightarrow> (\<exists>ms. messages = JArray ms \<and> conversation ms)"
proof (cases messages)
  case (JArray ms)
  then show ?thesis by (simp add: balanced_messages)
qed (simp_all add: hasBalancedToolUseSequence_def)

theorem accepted_urls_show_their_host_witness:
  "\<exists>scheme host port rest.
      formatUrlForConsent ''https://[::1]:8443/login'' = Some \<lparr>ud_fullUrl = ''https://[::1]:8443/login'', ud_domain = host\<rparr>
    \<and> (''https://[::1]:8443/login'' = scheme @ ''://'' @ host @ port @ rest
       \<or> ''https://[::1]:8443/login'' = scheme @ ''://['' @ host @ '']'' @ port @ rest) \<and> host \<noteq> []"
proof -
  have "isValidAbsoluteUrlForElicitation ''https://[::1]:8443/login''" by code_simp
  from accepted_urls_show_their_host [OF this] show ?thesis by blast
qed

end
