(* ===== verification/ClientPromises.thy ===== *)
theory ClientPromises
  imports ClientDispatch ClientChecksSpec ServerSpec
begin

text \<open>
  What holds of a client in every run: the handlers of its user see validated requests only, a URL
  elicitation is reported complete at most once for each time the user's handler accepted it, and what leaves
  the client as a result has been checked.
\<close>

section \<open>Validated requests\<close>

definition sampling_valid :: "json \<Rightarrow> bool" where
  "sampling_valid p \<longleftrightarrow>
     is_object p \<and> \<not> contains p ''task''
   \<and> (\<exists>ms. jget p ''messages'' = Some (JArray ms) \<and> conversation ms
       \<and> (\<forall>m \<in> set ms. get_string m ''role'' \<in> {Some ''user'', Some ''assistant''}))"

definition flat_form :: "json \<Rightarrow> bool" where
  "flat_form schema \<longleftrightarrow>
     get_string schema ''type'' = Some ''object''
   \<and> (\<exists>ps. jget schema ''properties'' = Some (JObject ps)
       \<and> (\<forall>kp \<in> set ps. validateFormSchemaPrimitiveProperty (snd kp)))"

definition call_valid :: "handler_call \<Rightarrow> bool" where
  "call_valid e \<longleftrightarrow>
     (case e of
        SamplingCalled _ _ p \<Rightarrow> sampling_valid p
      | FormCalled _ _ q \<Rightarrow> flat_form (fq_requestedSchema q)
      | UrlCalled _ _ q _ \<Rightarrow> isValidAbsoluteUrlForElicitation (uq_url q)
      | _ \<Rightarrow> True)"

definition work_valid :: "client_work \<Rightarrow> bool" where
  "work_valid w \<longleftrightarrow> (case w of SamplingWork _ _ _ p \<Rightarrow> sampling_valid p | _ \<Rightarrow> True)"

lemma call_valid_simps [simp]:
  "call_valid (RootsCalled h ctx)" "call_valid (SamplingCalled h ctx p) = sampling_valid p"
  "call_valid (FormCalled h ctx q) = flat_form (fq_requestedSchema q)"
  "call_valid (UrlCalled h ctx u answer) = isValidAbsoluteUrlForElicitation (uq_url u)"
  "call_valid (UrlCompleted h ctx i)" "call_valid (CallbackCalled h resp)"
  "work_valid (SamplingWork h ctx i p) = sampling_valid p" "work_valid (ElicitationWork ctx i req)"
  "work_valid (AnswerWork ctx i f)" "work_valid (CallbackWork f h)"
  by (simp_all add: call_valid_def work_valid_def)

lemma get_array_Some: "get_array j k = Some xs \<longleftrightarrow> jget j k = Some (JArray xs)"
  by (auto simp: get_array_def split: option.splits json.splits)

lemma not_object_jget: "\<not> is_object j \<Longrightarrow> jget j k = None"
  by (cases j) (simp_all add: jget_def is_object_def)

lemma message_role: "message_error m = None \<Longrightarrow> get_string m ''role'' \<in> {Some ''user'', Some ''assistant''}"
  by (simp add: message_error_def split: option.splits if_splits)

lemma validated_sampling:
  assumes "validateSamplingRequestSemantics caps (sampling_params req) = None"
  shows "sampling_valid (sampling_params req)"
proof -
  obtain ms where p: "is_object (sampling_params req)" "jget (sampling_params req) ''messages'' = Some (JArray ms)"
    "find (\<lambda>m. message_error m \<noteq> None) ms = None" "hasBalancedToolUseSequence (JArray ms)"
    using assms by (auto simp: validateSamplingRequestSemantics_def get_array_Some find_Some_iff
        split: if_splits option.splits)
  have "get_string m ''role'' \<in> {Some ''user'', Some ''assistant''}" if "m \<in> set ms" for m
    using p(3) that message_role by (auto simp: find_None_iff)
  moreover have "\<not> contains (sampling_params req) ''task''"
    by (auto simp: sampling_params_def without_task_def contains_def not_object_jget)
  ultimately show ?thesis using p balanced_messages by (auto simp: sampling_valid_def)
qed

lemma object_range_set: "jget j k = Some v \<Longrightarrow> (k, v) \<in> set (object_range j)"
  by (auto simp: object_range_def jget_def split: json.splits dest: map_of_SomeD)

lemma validated_form:
  assumes "validateFormRequestedSchema params = None"
  shows "flat_form (member params ''requestedSchema'')"
proof -
  obtain schema ps where s: "get_object params ''requestedSchema'' = Some schema" "get_string schema ''type'' = Some ''object''"
    "get_object schema ''properties'' = Some ps"
    "list_all (\<lambda>(_, p). validateFormSchemaPrimitiveProperty p) (object_range ps)"
    using assms by (auto simp: validateFormRequestedSchema_def split: if_splits option.splits)
  then have "member params ''requestedSchema'' = schema" "jget schema ''properties'' = Some ps" "is_object ps"
    by (auto simp: get_object_def member_def split: option.splits if_splits json.splits)
  with s show ?thesis by (cases ps) (auto simp: flat_form_def object_range_def list_all_iff)
qed

section \<open>The invariant\<close>

text \<open>How often the user's URL handler answered with accept for an id, and how often the id was reported complete.\<close>

definition acceptances :: "string \<Rightarrow> handler_call list \<Rightarrow> nat" where
  "acceptances i calls =
     length (filter (\<lambda>e. case e of UrlCalled _ _ q answer \<Rightarrow> uq_elicitationId q = i \<and> answer = Returns kAccept | _ \<Rightarrow> False)
       calls)"

definition completions :: "string \<Rightarrow> handler_call list \<Rightarrow> nat" where
  "completions i calls = length (filter (\<lambda>e. case e of UrlCompleted _ _ j \<Rightarrow> j = i | _ \<Rightarrow> False) calls)"

definition accounted :: "client \<Rightarrow> bool" where
  "accounted c \<longleftrightarrow>
     (\<forall>i. completions i (cl_calls c) + of_bool (i \<in> cl_pendingUrlElicitationIds c) \<le> acceptances i (cl_calls c))"

definition client_inv :: "client \<Rightarrow> bool" where
  "client_inv c \<longleftrightarrow> list_all call_valid (cl_calls c) \<and> list_all work_valid (cl_work c) \<and> accounted c"

text \<open>Most fields do not matter.\<close>

lemma inv_fields [simp]:
  "client_inv (d\<lparr>cl_session := x1\<rparr>) = client_inv d" "client_inv (d\<lparr>cl_router := x2\<rparr>) = client_inv d"
  "client_inv (d\<lparr>cl_transport := x3\<rparr>) = client_inv d" "client_inv (d\<lparr>cl_configuration := x4\<rparr>) = client_inv d"
  "client_inv (d\<lparr>cl_receiver := x5\<rparr>) = client_inv d" "client_inv (d\<lparr>cl_pendingInitializeRequestId := x6\<rparr>) = client_inv d"
  "client_inv (d\<lparr>cl_nextRequestId := x7\<rparr>) = client_inv d" "client_inv (d\<lparr>cl_callbacks := x8\<rparr>) = client_inv d"
  "client_inv (d\<lparr>cl_ready := x9\<rparr>) = client_inv d" "client_inv (d\<lparr>cl_waiting := x10\<rparr>) = client_inv d"
  "client_inv (d\<lparr>cl_rootsProvider := x11\<rparr>) = client_inv d" "client_inv (d\<lparr>cl_samplingHandler := x11\<rparr>) = client_inv d"
  "client_inv (d\<lparr>cl_formHandler := x11\<rparr>) = client_inv d" "client_inv (d\<lparr>cl_urlHandler := x11\<rparr>) = client_inv d"
  "client_inv (d\<lparr>cl_completionHandler := x11\<rparr>) = client_inv d" "client_inv (d\<lparr>cl_asyncWorkPool := x12\<rparr>) = client_inv d"
  "client_inv (d\<lparr>cl_asyncWorkEnabled := x12\<rparr>) = client_inv d" "client_inv (d\<lparr>cl_callbackDispatchPool := x12\<rparr>) = client_inv d"
  "client_inv (d\<lparr>cl_callbackDispatchEnabled := x12\<rparr>) = client_inv d"
  by (simp_all add: client_inv_def accounted_def)

lemma on_router_inv [simp]: "client_inv (fst (on_router f d)) = client_inv d"
  by (simp add: on_router_def split: prod.split)

lemma observer_inv [simp]: "client_inv (client_observer_send ct d) = client_inv d"
  by (simp add: client_observer_send_def)

lemma fold_observer_inv [simp]: "client_inv (fold client_observer_send cts d) = client_inv d"
  by (induction cts arbitrary: d) simp_all

lemma receiver_inv [simp]: "client_inv (fst (with_task_receiver f d)) = client_inv d"
  by (simp add: with_task_receiver_def split: prod.split)

lemma work_inv: "client_inv c \<Longrightarrow> list_all work_valid ws \<Longrightarrow> client_inv (c\<lparr>cl_work := ws\<rparr>)"
  by (simp add: client_inv_def accounted_def)

lemma client_inv_work: "client_inv c \<Longrightarrow> list_all work_valid (cl_work c)"
  by (simp add: client_inv_def)

lemma post_inv: "client_inv c \<Longrightarrow> work_valid w \<Longrightarrow> client_inv (fst (postManagedTask w c))"
  by (simp add: postManagedTask_def work_inv client_inv_work)

lemma callback_inv [simp]: "client_inv (fst (postCallbackTask w d)) = client_inv d"
  by (simp add: postCallbackTask_def)

text \<open>The accounts, when the pending ids and the log change together.\<close>

lemma accounted_D:
  "client_inv c \<Longrightarrow> completions j (cl_calls c) + of_bool (j \<in> cl_pendingUrlElicitationIds c) \<le> acceptances j (cl_calls c)"
  by (simp add: client_inv_def accounted_def)

lemma accounts_inv:
  assumes "client_inv c" "list_all call_valid es"
    "\<And>j. completions j (cl_calls c @ es) + of_bool (j \<in> p) \<le> acceptances j (cl_calls c @ es)"
  shows "client_inv (c\<lparr>cl_pendingUrlElicitationIds := p, cl_calls := cl_calls c @ es\<rparr>)"
  using assms by (simp add: client_inv_def accounted_def)

lemma log_inv:
  assumes "client_inv c" "call_valid e" "\<forall>h ctx i. e \<noteq> UrlCompleted h ctx i"
  shows "client_inv (log_call e c)"
proof -
  have "completions j (cl_calls c @ [e]) = completions j (cl_calls c)" for j
    using assms(3) by (cases e) (simp_all add: completions_def)
  moreover have "acceptances j (cl_calls c) \<le> acceptances j (cl_calls c @ [e])" for j
    by (simp add: acceptances_def)
  ultimately have account: "completions j (cl_calls c @ [e]) + of_bool (j \<in> cl_pendingUrlElicitationIds c)
      \<le> acceptances j (cl_calls c @ [e])" for j
    using accounted_D [OF assms(1), of j] by (metis le_trans)
  have "client_inv (c\<lparr>cl_pendingUrlElicitationIds := cl_pendingUrlElicitationIds c, cl_calls := cl_calls c @ [e]\<rparr>)"
    by (rule accounts_inv [OF assms(1) _ account]) (simp add: assms(2))
  moreover have "c\<lparr>cl_pendingUrlElicitationIds := cl_pendingUrlElicitationIds c, cl_calls := cl_calls c @ [e]\<rparr> = log_call e c"
    by (cases c) (simp add: log_call_def)
  ultimately show ?thesis by simp
qed

lemma same_calls [simp]:
  "c\<lparr>cl_pendingUrlElicitationIds := p, cl_calls := cl_calls c\<rparr> = c\<lparr>cl_pendingUrlElicitationIds := p\<rparr>"
  by (cases c) simp

text \<open>The URL handler was called; its id may become pending when it answered with accept.\<close>

lemma url_called_inv:
  assumes "client_inv c" "isValidAbsoluteUrlForElicitation (uq_url q)"
    and "p = cl_pendingUrlElicitationIds c
      \<or> answer = Returns kAccept \<and> p = insert (uq_elicitationId q) (cl_pendingUrlElicitationIds c)"
  shows "client_inv ((log_call (UrlCalled h ctx q answer) c)\<lparr>cl_pendingUrlElicitationIds := p\<rparr>)"
proof -
  have "completions j (cl_calls c @ [UrlCalled h ctx q answer]) + of_bool (j \<in> p)
      \<le> acceptances j (cl_calls c @ [UrlCalled h ctx q answer])" for j
    using accounted_D [OF assms(1), of j] assms(3)
    by (cases "j \<in> cl_pendingUrlElicitationIds c") (auto simp: acceptances_def completions_def)
  from accounts_inv [OF assms(1) _ this] have "client_inv (c\<lparr>cl_pendingUrlElicitationIds := p,
      cl_calls := cl_calls c @ [UrlCalled h ctx q answer]\<rparr>)" using assms(2) by simp
  moreover have "(log_call (UrlCalled h ctx q answer) c)\<lparr>cl_pendingUrlElicitationIds := p\<rparr> =
      c\<lparr>cl_pendingUrlElicitationIds := p, cl_calls := cl_calls c @ [UrlCalled h ctx q answer]\<rparr>"
    by (cases c) (simp add: log_call_def)
  ultimately show ?thesis by simp
qed

lemma complete_inv:
  assumes "client_inv c"
  shows "client_inv (handleElicitationComplete ctx n c)"
proof (cases "\<exists>i. Option.bind (nt_params n) (\<lambda>p. get_string p ''elicitationId'') = Some i \<and> i \<in> cl_pendingUrlElicitationIds c")
  case True
  then obtain i where i: "Option.bind (nt_params n) (\<lambda>p. get_string p ''elicitationId'') = Some i"
    "i \<in> cl_pendingUrlElicitationIds c" by blast
  let ?es = "case cl_completionHandler c of None \<Rightarrow> [] | Some h \<Rightarrow> [UrlCompleted h ctx i]"
  have "completions j (cl_calls c @ ?es) + of_bool (j \<in> cl_pendingUrlElicitationIds c - {i})
      \<le> acceptances j (cl_calls c @ ?es)" for j
    using accounted_D [OF assms, of j] i(2)
    by (cases "j = i") (auto simp: acceptances_def completions_def split: option.split)
  moreover have "list_all call_valid ?es" by (simp split: option.split)
  ultimately have "client_inv (c\<lparr>cl_pendingUrlElicitationIds := cl_pendingUrlElicitationIds c - {i},
      cl_calls := cl_calls c @ ?es\<rparr>)" by (intro accounts_inv [OF assms])
  then show ?thesis
    using i by (cases "cl_completionHandler c") (simp_all add: handleElicitationComplete_def log_call_def Let_def)
qed (use assms in \<open>auto simp: handleElicitationComplete_def split: option.split\<close>)

section \<open>Every operation keeps it\<close>

lemma start_task_inv: "client_inv c \<Longrightarrow> work_valid w \<Longrightarrow> client_inv (fst (start_task env ctx i created w c))"
  using post_inv [of c w] by (simp add: start_task_def case_prod_unfold Let_def)

lemma create_task_inv:
  "client_inv c \<Longrightarrow> (\<And>t. work_valid (w t)) \<Longrightarrow> client_inv (fst (create_client_task env ctx i aug w c))"
  by (auto simp: create_client_task_def intro: start_task_inv split: option.split sum.split)

lemma handleSampling_inv: "client_inv c \<Longrightarrow> client_inv (fst (handleSamplingRequest env ctx req c))"
  by (auto simp: handleSamplingRequest_def Let_def validated_sampling split: option.split sum.split
      intro: log_inv create_task_inv)

lemma elicit_form_inv: "client_inv c \<Longrightarrow> client_inv (fst (elicit_form env ctx i cap params c))"
  by (auto simp: elicit_form_def Let_def validated_form split: option.split intro: log_inv)

lemma url_reply_inv:
  assumes "client_inv c" "isValidAbsoluteUrlForElicitation (uq_url q)"
  shows "client_inv (fst (url_reply v i (uq_elicitationId q) answer (log_call (UrlCalled h ctx q answer) c)))"
proof -
  have keep: "client_inv (log_call (UrlCalled h ctx q answer) c)"
    using url_called_inv [OF assms disjI1 [OF refl]] by (simp add: log_call_def)
  have accept: "client_inv ((log_call (UrlCalled h ctx q (Returns kAccept)) c)
      \<lparr>cl_pendingUrlElicitationIds := insert (uq_elicitationId q)
         (cl_pendingUrlElicitationIds (log_call (UrlCalled h ctx q (Returns kAccept)) c))\<rparr>)"
    using url_called_inv [OF assms disjI2, of "Returns kAccept"] by (simp add: log_call_def)
  show ?thesis using keep accept by (auto simp: url_reply_def Let_def split: outcome.split sum.split)
qed

lemma elicit_url_inv:
  assumes "client_inv c"
  shows "client_inv (fst (elicit_url env ctx i cap params c))"
  using assms url_reply_inv [OF assms, of "\<lparr>uq_elicitationId = eid, uq_message = msg, uq_url = url, uq_metadata = m\<rparr>" for eid msg url m]
  by (auto simp: elicit_url_def Let_def split: option.split)

lemma handleElicitation_inv: "client_inv c \<Longrightarrow> client_inv (fst (handleElicitationRequest env ctx req c))"
  unfolding handleElicitationRequest_def Let_def if_distrib [of fst] option.case_distrib [of fst] sum.case_distrib [of fst]
  by (simp add: elicit_form_inv elicit_url_inv create_task_inv split: option.split sum.split cong: if_cong)

lemma handleRoots_inv: "client_inv c \<Longrightarrow> client_inv (fst (handleRootsListRequest env ctx req c))"
  by (auto simp: handleRootsListRequest_def split: option.split intro: log_inv)

lemma runClientHandler_inv: "client_inv c \<Longrightarrow> client_inv (fst (runClientHandler env m ctx req c))"
  unfolding runClientHandler_def Let_def
  by (simp add: handleRoots_inv handleSampling_inv handleElicitation_inv if_distrib [of fst] case_prod_unfold
      cong: if_cong)

lemma handleRequest_inv:
  assumes "client_inv c"
  shows "client_inv (fst (client_handleRequest env ctx req c))"
proof -
  obtain c1 f h where d: "on_router (dispatchRequest_begin ctx req) c = (c1, f, h)" by (metis prod_cases3)
  have c1: "client_inv c1" using assms on_router_inv [of "dispatchRequest_begin ctx req" c] d by simp
  have "client_inv c2" if "runClientHandler env m ctx req c1 = (c2, r)" for m c2 r
    using that runClientHandler_inv [OF c1] by (metis fst_conv)
  then show ?thesis using c1 d
    by (auto simp: client_handleRequest_def split: option.split prod.split handler_reply.split)
qed

lemma complete_job_inv [simp]: "client_inv (client_complete j c) = client_inv c"
  by (simp add: client_complete_def split: prod.split)

lemma handleNotification_inv: "client_inv c \<Longrightarrow> client_inv (client_handleNotification ctx n c)"
  by (simp add: client_handleNotification_def Let_def complete_inv)

lemma dispatchResponse_inv [simp]: "client_inv (fst (client_dispatchResponse resp d)) = client_inv d"
  by (simp add: client_dispatchResponse_def)

lemma handleResponse_inv: "client_inv c \<Longrightarrow> client_inv (fst (client_handleResponse resp c))"
  by (simp add: client_handleResponse_def Let_def case_prod_unfold
      split: response.split sum.split session_error.split)

lemma handleMessage_inv: "client_inv c \<Longrightarrow> client_inv (fst (client_handleMessage env ctx m c))"
  using handleRequest_inv [of c env ctx] handleResponse_inv [of c]
  by (simp add: client_handleMessage_def Let_def handleNotification_inv case_prod_unfold split: message.split)

lemma outbound_inv [simp]: "client_inv (fst (client_dispatchOutboundMessage m c)) = client_inv c"
  by (simp add: client_dispatchOutboundMessage_def split: option.split)

lemma answer_inv [simp]: "client_inv (fst (client_answer w c)) = client_inv c"
  by (simp add: client_answer_def split: option.split)

lemma send_begin_inv [simp]: "client_inv (fst (client_sendRequest_begin m params timeout cancel c)) = client_inv c"
  by (simp add: client_sendRequest_begin_def Let_def case_prod_unfold split: sum.split)

lemma send_end_inv [simp]: "client_inv (fst (client_sendRequest_end g f i c)) = client_inv c"
  by (simp add: client_sendRequest_end_def Let_def case_prod_unfold split: option.split)

lemma sendRequest_inv [simp]: "client_inv (fst (client_sendRequest m params timeout cancel c)) = client_inv c"
  using send_begin_inv [of m params timeout cancel c]
  by (simp add: client_sendRequest_def case_prod_unfold del: send_begin_inv split: sum.split)

lemma sendAsync_inv: "client_inv c \<Longrightarrow> client_inv (fst (sendRequestAsync m params k timeout cancel c))"
  using sendRequest_inv [of m params timeout cancel c]
  by (simp add: sendRequestAsync_def case_prod_unfold post_inv del: sendRequest_inv split: sum.split)

lemma notification_inv [simp]: "client_inv (fst (client_sendNotification m params c)) = client_inv c"
  by (simp add: client_sendNotification_def case_prod_unfold)

lemma roots_changed_inv [simp]: "client_inv (fst (notifyRootsListChanged c)) = client_inv c"
  using notification_inv [of kRootsListChangedNotificationMethod "Some empty_object" c]
  by (simp add: notifyRootsListChanged_def case_prod_unfold del: notification_inv split: sum.split)

lemma runWork_inv:
  assumes "client_inv c" "w \<in> set (cl_work c)"
  shows "client_inv (runClientWork env w c)"
proof -
  have less: "client_inv (c\<lparr>cl_work := remove1 w (cl_work c)\<rparr>)"
    using client_inv_work [OF assms(1)] notin_set_remove1 by (intro work_inv [OF assms(1)]) (auto simp: list_all_iff)
  have w: "work_valid w" using client_inv_work [OF assms(1)] assms(2) by (simp add: list_all_iff)
  show ?thesis
  proof (cases w)
    case (SamplingWork h ctx t p)
    then have "client_inv (log_call (SamplingCalled h ctx p) (c\<lparr>cl_work := remove1 w (cl_work c)\<rparr>))"
      using less w by (intro log_inv) simp_all
    then show ?thesis using SamplingWork by (simp add: runClientWork_def finish_task_def Let_def split: option.split)
  next
    case (ElicitationWork ctx t req)
    let ?r = "client_handleRequest env ctx req (c\<lparr>cl_work := remove1 w (cl_work c)\<rparr>)"
    have "client_inv (fst ?r)" by (rule handleRequest_inv [OF less])
    then have "client_inv ((fst ?r)\<lparr>cl_work := cl_work (fst ?r) @ [AnswerWork ctx t (snd ?r)]\<rparr>)"
      using client_inv_work by (intro work_inv) simp_all
    then show ?thesis using ElicitationWork by (simp add: runClientWork_def case_prod_unfold Let_def)
  next
    case (AnswerWork ctx t f)
    then show ?thesis using less assms(1) by (simp add: runClientWork_def finish_task_def Let_def split: option.split)
  next
    case (CallbackWork f k)
    then show ?thesis using less assms(1) by (simp add: runClientWork_def Let_def split: option.split)
  qed
qed

lemma stop_inv: "client_inv c \<Longrightarrow> client_inv (fst (client_stop_begin caller c))"
  using client_inv_work [of c] by (auto simp: client_stop_begin_def intro!: work_inv simp: list_all_iff)

lemma client_step_inv: "client_step c c' \<Longrightarrow> client_inv c \<Longrightarrow> client_inv c'"
proof (induction rule: client_step.induct)
  case (step_callback k c)
  then show ?case by (auto simp: runCallback_def intro: log_inv)
next
  case (step_attach c t)
  then show ?case by (simp add: client_attachTransport_def split: option.split)
next
  case (step_start c)
  then show ?case by (simp add: client_start_def case_prod_unfold Let_def split: option.split sum.split)
qed (simp_all add: handleMessage_inv handleRequest_inv runWork_inv sendAsync_inv stop_inv client_stop_end_def
    client_timeout_def setRootsProvider_def setSamplingCreateMessageHandler_def setFormElicitationHandler_def
    setUrlElicitationHandler_def setUrlElicitationCompletionHandler_def setInitializeConfiguration_def
    client_registerRequestHandler_def client_registerNotificationHandler_def)

definition fresh_client :: "client \<Rightarrow> bool" where
  "fresh_client c \<longleftrightarrow> (\<exists>limit given. new_client limit given = Inr c)"

lemma fresh_inv: "fresh_client c \<Longrightarrow> client_inv c"
  by (auto simp: fresh_client_def new_client_def client_inv_def accounted_def acceptances_def completions_def
      split: option.splits)

interpretation client_runs: invariant_system fresh_client client_step client_inv
  by unfold_locales (erule fresh_inv, erule (1) client_step_inv)

text \<open>
  C22. Whatever the server sends and however calls and threads interleave, the handlers of the user
  get validated requests only: a sampling handler gets an object without a task member whose messages have the
  role of a user or an assistant and form a conversation in the sense of the grammar; a form handler
  gets the schema of a flat object; and a URL handler gets an absolute URL that the checks accept.
\<close>

theorem handlers_get_validated_requests:
  assumes "fresh_client c0" "client_step\<^sup>*\<^sup>* c0 c" "e \<in> set (cl_calls c)"
  shows "case e of
      SamplingCalled _ _ p \<Rightarrow> is_object p \<and> \<not> contains p ''task''
        \<and> (\<exists>ms. jget p ''messages'' = Some (JArray ms) \<and> conversation ms
             \<and> (\<forall>m \<in> set ms. get_string m ''role'' \<in> {Some ''user'', Some ''assistant''}))
    | FormCalled _ _ q \<Rightarrow> flat_form (fq_requestedSchema q)
    | UrlCalled _ _ q _ \<Rightarrow> isValidAbsoluteUrlForElicitation (uq_url q)
    | _ \<Rightarrow> True"
  using client_runs.inv_reachable [OF assms(1,2)] assms(3)
  by (cases e) (auto simp: client_inv_def list_all_iff sampling_valid_def dest!: bspec)

text \<open>
  C23. The completion handler of URL elicitations is called for an id at most as often as the user's
  URL handler has been called with this id before and answered with accept: notifications for ids
  that were declined or cancelled, never asked for or already completed are ignored, in every
  interleaving. The log records what the handler was asked and what it answered, whatever the
  client makes of the answer.
\<close>

theorem completions_follow_acceptances:
  assumes "fresh_client c0" "client_step\<^sup>*\<^sup>* c0 c"
  shows "completions i (cl_calls c) \<le> acceptances i (cl_calls c)"
  using accounted_D [OF client_runs.inv_reachable [OF assms], of i] by simp

section \<open>Checked results\<close>

lemma reply_simps [simp]:
  "error_reply e i \<noteq> RSuccess r" "new_success i v = RSuccess r \<longleftrightarrow> r = \<lparr>sr_jsonrpc = kJsonRpcVersion, sr_id = i,
     sr_result = v, sr_additional = empty_object\<rparr>"
  by (auto simp: error_reply_def new_success_def)

lemma unsupported_simps [simp]:
  "makeRootsUnsupportedResponse i m \<noteq> RSuccess r" "makeSamplingUnsupportedResponse i m \<noteq> RSuccess r"
  "makeSamplingInvalidParamsResponse i m \<noteq> RSuccess r" "makeElicitationUnsupportedResponse i m \<noteq> RSuccess r"
  "makeElicitationInvalidParamsResponse i m \<noteq> RSuccess r" "internal_error_reply m i \<noteq> RSuccess r"
  "makeInvalidParamsResponse i m \<noteq> RSuccess r"
  by (simp_all add: makeRootsUnsupportedResponse_def makeSamplingUnsupportedResponse_def
      makeSamplingInvalidParamsResponse_def makeElicitationUnsupportedResponse_def
      makeElicitationInvalidParamsResponse_def internal_error_reply_def makeInvalidParamsResponse_def)

lemma created_checked:
  "create_client_task env ctx i aug w c = (c', Replies (RSuccess r)) \<Longrightarrow>
     \<exists>created. sr_result r = createTaskResultToJson created"
  by (auto simp: create_client_task_def start_task_def Let_def case_prod_unfold split: option.splits sum.splits prod.splits)

lemma roots_checked:
  "handleRootsListRequest env ctx req c = (c', Replies (RSuccess r)) \<Longrightarrow>
     \<exists>es. sr_result r = jput ''roots'' (JArray (map root_to_json es)) empty_object
       \<and> (\<forall>e \<in> set es. starts_with (re_uri e) ''file://'')"
  by (auto simp: handleRootsListRequest_def isFileUri_def list_ex_iff
      split: if_splits option.splits outcome.splits)

lemma sampling_checked:
  "handleSamplingRequest env ctx req c = (c', Replies (RSuccess r)) \<Longrightarrow>
     (\<exists>created. sr_result r = createTaskResultToJson created)
     \<or> ensureValidResultSchema (cv_schema env) (sr_result r) ''CreateMessageResult'' kSamplingCreateMessageMethod = Inr ()"
  by (auto simp: handleSamplingRequest_def Let_def sampling_reply_def dest: created_checked
      split: if_splits option.splits sum.splits outcome.splits)

definition elicit_checked :: "client_env \<Rightarrow> json \<Rightarrow> bool" where
  "elicit_checked env j \<longleftrightarrow>
     ensureValidResultSchema (cv_schema env) j ''ElicitResult'' kElicitationCreateMethod = Inr ()
   \<and> (\<forall>content. jget j ''content'' = Some content \<longrightarrow>
        get_string j ''action'' = Some ''accept'' \<and> validateFormResultContent content)"

lemma action_result:
  "get_string (jput_opt ''content'' v (jput ''action'' (JString a) empty_object)) ''action'' = Some a"
  "jget (jput_opt ''content'' v (jput ''action'' (JString a) empty_object)) ''content'' = v"
  "jget (jput ''action'' (JString a) empty_object) ''content'' = None"
  by (cases v; simp add: get_string_def jput_opt_def jput_def empty_object_def jget_def umap_put_apply)+

lemma form_checked: "form_reply (cv_schema env) i answer = Replies (RSuccess r) \<Longrightarrow> elicit_checked env (sr_result r)"
  by (auto simp: form_reply_def elicit_checked_def Let_def action_result
      split: outcome.splits if_splits sum.splits option.splits)

lemma url_checked: "url_reply (cv_schema env) i eid answer c = (c', Replies (RSuccess r)) \<Longrightarrow> elicit_checked env (sr_result r)"
  by (auto simp: url_reply_def elicit_checked_def Let_def action_result
      split: outcome.splits sum.splits)

lemma elicitation_checked:
  assumes "handleElicitationRequest env ctx req c = (c', Replies (RSuccess r))"
  shows "(\<exists>created. sr_result r = createTaskResultToJson created) \<or> elicit_checked env (sr_result r)"
proof -
  have form: "elicit_form env ctx i cap params c = (c', Replies (RSuccess r)) \<Longrightarrow> elicit_checked env (sr_result r)"
    for i cap params
    by (auto simp: elicit_form_def Let_def dest: form_checked split: if_splits option.splits)
  have url: "elicit_url env ctx i cap params c = (c', Replies (RSuccess r)) \<Longrightarrow> elicit_checked env (sr_result r)"
    for i cap params
    by (auto simp: elicit_url_def Let_def dest: url_checked split: if_splits option.splits)
  show ?thesis
    using assms unfolding handleElicitationRequest_def Let_def
    by (auto dest: created_checked form url split: if_splits option.splits sum.splits)
qed

lemma handler_of_method:
  "runClientHandler env kRootsListMethod ctx req c = handleRootsListRequest env ctx req c"
  "runClientHandler env kSamplingCreateMessageMethod ctx req c = handleSamplingRequest env ctx req c"
  "runClientHandler env kElicitationCreateMethod ctx req c = handleElicitationRequest env ctx req c"
  by (simp_all add: runClientHandler_def kRootsListMethod_def kSamplingCreateMessageMethod_def
      kElicitationCreateMethod_def kPingMethod_def)

text \<open>
  C35. What a client gives a server as a result has been checked: roots are file URIs; the answer to a
  sampling request is a task or valid for the schema of CreateMessageResult; the answer to an
  elicitation is a task or valid for the schema of ElicitResult, and it has content only when the
  user accepted, and then a flat object of primitive values.
\<close>

theorem client_results_are_checked:
  assumes "runClientHandler env m ctx req c = (c', Replies (RSuccess r))"
  shows "(m = kRootsListMethod \<longrightarrow>
      (\<exists>es. sr_result r = jput ''roots'' (JArray (map root_to_json es)) empty_object
         \<and> (\<forall>e \<in> set es. starts_with (re_uri e) ''file://'')))
    \<and> (m = kSamplingCreateMessageMethod \<longrightarrow>
        (\<exists>created. sr_result r = createTaskResultToJson created)
        \<or> ensureValidResultSchema (cv_schema env) (sr_result r) ''CreateMessageResult'' m = Inr ())
    \<and> (m = kElicitationCreateMethod \<longrightarrow>
        (\<exists>created. sr_result r = createTaskResultToJson created)
        \<or> ensureValidResultSchema (cv_schema env) (sr_result r) ''ElicitResult'' m = Inr ()
          \<and> (\<forall>content. jget (sr_result r) ''content'' = Some content \<longrightarrow>
               get_string (sr_result r) ''action'' = Some ''accept'' \<and> validateFormResultContent content))"
proof (intro conjI impI)
  assume m: "m = kRootsListMethod"
  show "\<exists>es. sr_result r = jput ''roots'' (JArray (map root_to_json es)) empty_object
      \<and> (\<forall>e \<in> set es. starts_with (re_uri e) ''file://'')"
    using assms unfolding m handler_of_method by (rule roots_checked)
next
  assume m: "m = kSamplingCreateMessageMethod"
  show "(\<exists>created. sr_result r = createTaskResultToJson created)
      \<or> ensureValidResultSchema (cv_schema env) (sr_result r) ''CreateMessageResult'' m = Inr ()"
    using assms unfolding m handler_of_method by (rule sampling_checked)
next
  assume m: "m = kElicitationCreateMethod"
  show "(\<exists>created. sr_result r = createTaskResultToJson created)
      \<or> ensureValidResultSchema (cv_schema env) (sr_result r) ''ElicitResult'' m = Inr ()
        \<and> (\<forall>content. jget (sr_result r) ''content'' = Some content \<longrightarrow>
             get_string (sr_result r) ''action'' = Some ''accept'' \<and> validateFormResultContent content)"
    using assms unfolding m handler_of_method by (rule elicitation_checked [unfolded elicit_checked_def])
qed

section \<open>Witnesses\<close>

definition client_document :: json where
  "client_document = JObject [(''$defs'', JObject [(''ElicitResult'', empty_object), (''CreateMessageResult'', empty_object)])]"

definition able_capabilities :: client_capabilities where
  "able_capabilities = \<lparr>cc_roots = Some \<lparr>roots_listChanged = True\<rparr>,
     cc_sampling = Some \<lparr>sampling_context = False, sampling_tools = True\<rparr>,
     cc_elicitation = Some \<lparr>elicitation_form = True, elicitation_url = True\<rparr>,
     cc_tasks = Some \<lparr>tasks_list = True, tasks_cancel = True, tasks_samplingCreateMessage = True,
       tasks_elicitationCreate = True, tasks_toolsCall = False\<rparr>, cc_experimental = None\<rparr>"

definition able_session :: session where
  "able_session = (new_session defaultProtocolVersions 64)\<lparr>se_state := kOperating,
     se_negotiated := Some \<lparr>np_protocolVersion = kLatestProtocolVersion, np_clientCapabilities = able_capabilities,
       np_serverCapabilities = no_server_capabilities, np_clientInfo = new_implementation kDefaultClientName kSdkVersion,
       np_serverInfo = new_implementation kDefaultServerName kSdkVersion, np_instructions = None\<rparr>\<rparr>"

definition able_client :: client where
  "able_client = (case new_client 64 (Some able_session) of Inr c \<Rightarrow> c)"

definition able_env :: "client_env" where
  "able_env = \<lparr>cv_roots = (\<lambda>_ _. Returns []), cv_sampling = (\<lambda>_ _ _. Returns (Some empty_object)),
     cv_form = (\<lambda>_ _ _. Throws ''no form''), cv_url = (\<lambda>_ _ _. Returns kAccept),
     cv_schema = (example_schema, client_document), cv_store = (0, [])\<rparr>"

definition tool_messages :: "json list" where
  "tool_messages =
     [JObject [(''role'', JString ''assistant''),
        (''content'', JObject [(''type'', JString ''tool_use''), (''id'', JString ''a'')])],
      JObject [(''role'', JString ''user''),
        (''content'', JArray [JObject [(''type'', JString ''tool_result''), (''toolUseId'', JString ''a'')]])]]"

definition sampling_request :: request where
  "sampling_request = new_request (IntId 7) kSamplingCreateMessageMethod
     (Some (JObject [(''messages'', JArray tool_messages)]))"

definition url_elicitation :: request where
  "url_elicitation = new_request (IntId 8) kElicitationCreateMethod
     (Some (JObject [(''mode'', JString ''url''), (''message'', JString ''sign in''),
        (''url'', JString ''https://example.com:8443/login?x''), (''elicitationId'', JString ''e1'')]))"

definition url_completed :: notification where
  "url_completed = new_notification kElicitationCompleteNotificationMethod
     (Some (JObject [(''elicitationId'', JString ''e1'')]))"

definition asked_client :: client where
  "asked_client = fst (client_handleRequest able_env default_context sampling_request
     (setSamplingCreateMessageHandler (Some 1) able_client))"

definition elicited_client :: client where
  "elicited_client = fst (client_handleRequest able_env default_context url_elicitation
     (setUrlElicitationCompletionHandler (Some 3) (setUrlElicitationHandler (Some 2) asked_client)))"

definition finished_client :: client where
  "finished_client = fst (client_handleMessage able_env default_context (MNotification url_completed) elicited_client)"

lemma finished_calls:
  "cl_calls finished_client =
     [SamplingCalled 1 default_context (JObject [(''messages'', JArray tool_messages)]),
      UrlCalled 2 default_context \<lparr>uq_elicitationId = ''e1'', uq_message = ''sign in'',
        uq_url = ''https://example.com:8443/login?x'', uq_metadata = None\<rparr> (Returns kAccept),
      UrlCompleted 3 default_context ''e1'']"
  by code_simp

lemma finished_run: "fresh_client able_client" "client_step\<^sup>*\<^sup>* able_client finished_client"
proof -
  show "fresh_client able_client"
    unfolding fresh_client_def by (rule exI [of _ 64], rule exI [of _ "Some able_session"])
      (simp add: able_client_def new_client_def)
  have step: "client_step\<^sup>*\<^sup>* able_client d \<Longrightarrow> client_step d e \<Longrightarrow> client_step\<^sup>*\<^sup>* able_client e" for d e
    by (rule rtranclp.rtrancl_into_rtrancl)
  have "client_step\<^sup>*\<^sup>* able_client (setSamplingCreateMessageHandler (Some 1) able_client)"
    by (rule step [OF rtranclp.rtrancl_refl step_sampling])
  from step [OF this step_request] have "client_step\<^sup>*\<^sup>* able_client asked_client"
    unfolding asked_client_def .
  from step [OF step [OF this step_url] step_url_complete] have "client_step\<^sup>*\<^sup>* able_client
      (setUrlElicitationCompletionHandler (Some 3) (setUrlElicitationHandler (Some 2) asked_client))" .
  from step [OF this step_request] have "client_step\<^sup>*\<^sup>* able_client elicited_client"
    unfolding elicited_client_def .
  from step [OF this step_message] show "client_step\<^sup>*\<^sup>* able_client finished_client"
    unfolding finished_client_def .
qed

text \<open>The sampling handler of the example was given a conversation of two messages.\<close>

theorem handlers_get_validated_requests_witness:
  "\<exists>ms. jget (JObject [(''messages'', JArray tool_messages)]) ''messages'' = Some (JArray ms) \<and> conversation ms"
proof -
  have "SamplingCalled 1 default_context (JObject [(''messages'', JArray tool_messages)]) \<in> set (cl_calls finished_client)"
    by (simp add: finished_calls)
  from handlers_get_validated_requests [OF finished_run this] show ?thesis by auto
qed

theorem completions_follow_acceptances_witness:
  "completions ''e1'' (cl_calls finished_client) = 1 \<and> 1 \<le> acceptances ''e1'' (cl_calls finished_client)"
  using completions_follow_acceptances [OF finished_run, of "''e1''"]
  by (simp add: completions_def finished_calls)

definition file_roots :: client_env where
  "file_roots = able_env\<lparr>cv_roots := (\<lambda>_ _. Returns [\<lparr>re_uri = ''file:///tmp'', re_name = None, re_metadata = None\<rparr>])\<rparr>"

theorem client_results_are_checked_witness:
  "\<exists>es. jput ''roots'' (JArray [JObject [(''uri'', JString ''file:///tmp'')]]) empty_object
      = jput ''roots'' (JArray (map root_to_json es)) empty_object
    \<and> (\<forall>e \<in> set es. starts_with (re_uri e) ''file://'')"
proof -
  let ?r = "runClientHandler file_roots kRootsListMethod default_context (new_request (IntId 1) kRootsListMethod None)
    (setRootsProvider (Some 0) able_client)"
  have "snd ?r = Replies (new_success (IntId 1)
      (jput ''roots'' (JArray [JObject [(''uri'', JString ''file:///tmp'')]]) empty_object))"
    by (simp add: handler_of_method handleRootsListRequest_def negotiatedClientCapabilities_def able_client_def
        new_client_def setRole_def able_session_def able_capabilities_def setRootsProvider_def file_roots_def able_env_def
        isFileUri_def starts_with_def root_to_json_def jput_string_def jput_opt_def jput_def empty_object_def
        new_request_def)
  then have "?r = (fst ?r, Replies (RSuccess \<lparr>sr_jsonrpc = kJsonRpcVersion, sr_id = IntId 1,
      sr_result = jput ''roots'' (JArray [JObject [(''uri'', JString ''file:///tmp'')]]) empty_object,
      sr_additional = empty_object\<rparr>))"
    by (cases ?r) (simp add: new_success_def)
  from client_results_are_checked [OF this] show ?thesis by simp
qed

end
