(* ===== verification/ClientHandshake.thy ===== *)
theory ClientHandshake
  imports ClientDispatch ServerSpec
begin

text \<open>
  The handshake of a client object with a server object through their routers refines the handshake
  of the two sessions in Handshake.
\<close>

text \<open>
  The client calls \<open>initialize\<close>; the server handles the request that the client has sent; the client
  handles the message with the answer; when that does not throw, it has sent
  \<open>notifications/initialized\<close>, which the server handles.
\<close>

definition shake_hands ::
  "client_env \<Rightarrow> 's server_env \<Rightarrow> request_context \<Rightarrow> client \<Rightarrow> 's server \<Rightarrow>
   (client \<times> 's server \<times> nat \<times> (session_error + unit)) option" where
  "shake_hands cenv env ctx c s =
     (case client_initialize 0 True c of
        (c1, Inr f) \<Rightarrow>
          (case last (events (cl_router c1)) of
             Sent _ (MRequest q) \<Rightarrow>
               (case server_handleRequest env ctx q s of
                  (s1, _, Some v) \<Rightarrow>
                    (case client_handleMessage cenv ctx (response_message v) c1 of
                       (c2, Inr _) \<Rightarrow>
                         Some (c2, server_handleNotification ctx (new_notification kNotificationInitialized None) s1,
                           f, Inr ())
                     | (c2, Inl e) \<Rightarrow> Some (c2, s1, f, Inl e))
                | _ \<Rightarrow> None)
           | _ \<Rightarrow> None)
      | _ \<Rightarrow> None)"

definition ready_objects :: "client \<Rightarrow> 's server \<Rightarrow> bool" where
  "ready_objects c s \<longleftrightarrow>
     ready_client (cl_session c) \<and> ready_server (sv_session s)
   \<and> (\<exists>limit. 0 < limit \<and> cl_router c = registerClientHandlers (new_router limit))
   \<and> (\<exists>limit. 0 < limit \<and> sv_router s = registerCoreHandlers (new_router limit))
   \<and> (\<exists>t. cl_transport c = Some t \<and> ct_running t \<and> (\<forall>m. ct_accepts t m))"

lemma defaults_of_empty: "applyInitializeDefaults cfg vs (Some empty_object) = applyInitializeDefaults cfg vs None"
  by (simp add: applyInitializeDefaults_def empty_object_def is_object_def)

lemma client_router_fields:
  "inFlightRequests (registerClientHandlers r) = inFlightRequests r"
  "seenOutboundRequestIds (registerClientHandlers r) = seenOutboundRequestIds r"
  "maxConcurrentInFlightRequests (registerClientHandlers r) = maxConcurrentInFlightRequests r"
  "requestIdsByProgressToken (registerClientHandlers r) = requestIdsByProgressToken r"
  "promises (registerClientHandlers r) = promises r" "sendCalls (registerClientHandlers r) = sendCalls r"
  "events (registerClientHandlers r) = events r"
  by (simp_all add: registerClientHandlers_def registerNotificationHandler_def registerRequestHandler_def
      client_methods_def)

text \<open>The first request of a router without requests in flight, sent to a transport that takes it.\<close>

lemma first_request:
  assumes "inFlightRequests r = []" "seenOutboundRequestIds r = {}" "0 < maxConcurrentInFlightRequests r"
    "requestIdsByProgressToken r = []" "promises r = []" "oo_timeout opts \<le> 0"
    "outboundMessageSender r = Some sender" "sender ctx (MRequest req)"
  obtains r1 g where "sendRequest_begin ctx req opts r = (r1, 0, True)" "hd (sendCalls r1) = g"
    "if_request g = req" "if_context g = ctx" "if_promise g = 0" "outboundMessageSender r1 = Some sender"
    "last (events (sendRequest_end g r1)) = Sent ctx (MRequest req)" "promises (sendRequest_end g r1) = [None]"
    "map_of (inFlightRequests (sendRequest_end g r1)) (rq_id req) = Some g"
proof -
  let ?g = "\<lparr>if_context = ctx, if_request = req, if_cancel_on_timeout = oo_cancel_on_timeout opts,
    if_progress_callback = oo_on_progress opts, if_progress_token = extractProgressToken req,
    if_task_augmented = isTaskAugmentedRequest req, if_task_id = None, if_last_observed = None, if_promise = 0,
    if_timer = False\<rparr>"
  let ?t = "case extractProgressToken req of None \<Rightarrow> [] | Some t \<Rightarrow> [(t, rq_id req)]"
  let ?r = "r\<lparr>promises := [None], seenOutboundRequestIds := {rq_id req}, inFlightRequests := [(rq_id req, ?g)],
    requestIdsByProgressToken := ?t, sendCalls := ?g # sendCalls r\<rparr>"
  have "addInFlightRequest ?g (r\<lparr>promises := [None]\<rparr>) = (r\<lparr>promises := [None], seenOutboundRequestIds := {rq_id req},
      inFlightRequests := [(rq_id req, ?g)], requestIdsByProgressToken := ?t\<rparr>, None)"
    using assms(1-4) by (cases "extractProgressToken req") (simp_all add: addInFlightRequest_def Let_def)
  then have "sendRequest_begin ctx req opts r = (?r, 0, True)"
    using assms(5,6) by (simp add: sendRequest_begin_def new_promise_def armRequestTimeout_def Let_def)
  then show ?thesis
    using that [of ?r ?g] assms(7,8)
    by (simp add: sendRequest_end_def dispatchOutboundMessage_def log_event_def Let_def)
qed

text \<open>The first request of a client: what it looks like and what is left of it in the client.\<close>

lemma client_initializes:
  assumes router: "cl_router c = registerClientHandlers (new_router limit)" "0 < limit"
    and transport: "cl_transport c = Some t" "ct_running t" "\<forall>m. ct_accepts t m"
    and i: "i = IntId (cl_nextRequestId c)"
    and p: "p = applyInitializeDefaults (cl_configuration c) (se_supported (cl_session c)) None"
    and sess: "session_sendRequest kInitializeMethod p (cl_session c) = (sess, Inr resp)"
  obtains c1 g where "client_initialize 0 True c = (c1, Inr 0)" "cl_session c1 = sess"
    "last (events (cl_router c1)) = Sent default_context (MRequest (new_request i kInitializeMethod (Some p)))"
    "cl_pendingInitializeRequestId c1 = Some i"
    "map_of (inFlightRequests (cl_router c1)) i = Some g" "if_promise g = 0" "promises (cl_router c1) = [None]"
proof -
  let ?req = "new_request i kInitializeMethod (Some p)"
  let ?opts = "\<lparr>oo_timeout = 0, oo_cancel_on_timeout = True, oo_on_progress = None\<rparr>"
  let ?c = "c\<lparr>cl_nextRequestId := cl_nextRequestId c + 1, cl_session := sess, cl_pendingInitializeRequestId := Some i\<rparr>"
  have enforce: "enforceOutboundRequestLifecycle kInitializeMethod p (cl_session c) = (sess, Inr ())"
    using sess by (auto simp: session_sendRequest_def split: prod.splits sum.splits)
  have sender: "client_sender d = (\<lambda>_ _. True)" if "cl_transport d = Some t" for d
    using that transport by (simp add: client_sender_def)
  let ?r = "setOutboundMessageSender (Some (\<lambda>_ _. True)) (cl_router c)"
  have r: "inFlightRequests ?r = []" "seenOutboundRequestIds ?r = {}" "0 < maxConcurrentInFlightRequests ?r"
    "requestIdsByProgressToken ?r = []" "promises ?r = []" "outboundMessageSender ?r = Some (\<lambda>_ _. True)"
    using router(2) by (simp_all add: router(1) setOutboundMessageSender_def client_router_fields)
      (simp_all add: new_router_def)
  obtain r1 g where sent: "sendRequest_begin default_context ?req ?opts ?r = (r1, 0, True)" "hd (sendCalls r1) = g"
    "if_promise g = 0" "outboundMessageSender r1 = Some (\<lambda>_ _. True)"
    "last (events (sendRequest_end g r1)) = Sent default_context (MRequest ?req)"
    "promises (sendRequest_end g r1) = [None]"
    "map_of (inFlightRequests (sendRequest_end g r1)) (rq_id ?req) = Some g"
    by (rule first_request [OF r(1-5) _ r(6), where opts = ?opts and ctx = default_context and req = ?req]) simp_all
  have "client_sendRequest_begin kInitializeMethod empty_object 0 True c =
      (?c\<lparr>cl_router := r1\<rparr>, Inr (0, True, True))"
    using enforce sent(1) sender [of ?c] transport(1)
    by (simp add: client_sendRequest_begin_def Let_def defaults_of_empty p [symmetric] i [symmetric] on_router_def)
  moreover have "setOutboundMessageSender (Some (\<lambda>_ _. True)) r1 = r1"
    using sent(4) by (simp add: setOutboundMessageSender_def)
  ultimately have "client_initialize 0 True c = (?c\<lparr>cl_router := sendRequest_end g r1\<rparr>, Inr 0)"
    using sent(2,6) sender [of "?c\<lparr>cl_router := r1\<rparr>"] transport(1)
    by (simp add: client_initialize_def client_sendRequest_def client_sendRequest_end_def on_router_def
        future_value_def Let_def)
  then show ?thesis using that [of "?c\<lparr>cl_router := sendRequest_end g r1\<rparr>" g] sent
    by (simp add: new_request_def)
qed

text \<open>A fresh router accepts a request for a registered method.\<close>

lemma first_dispatch:
  assumes "seenRequestIdsBySender r = (\<lambda>_. {})" "map_of (requestHandlers r) (rq_method req) = Some h"
    "\<not> shuttingDown r" "completionPool r" "inboundRequestsBySender r = []" "inboundTokensBySender r = []"
    "0 < maxConcurrentInFlightRequests r"
  shows "snd (snd (dispatchRequest_begin ctx req r)) = Some h
    \<and> notificationHandlers (fst (dispatchRequest_begin ctx req r)) = notificationHandlers r"
  using assms
  by (cases "extractProgressToken req")
    (simp_all add: dispatchRequest_begin_def markInboundRequestActive_def new_promise_def total_entries_def
      new_inbound_def find2_def log_event_def Let_def)

lemma server_router_fields:
  "seenRequestIdsBySender (registerCoreHandlers r) = seenRequestIdsBySender r"
  "shuttingDown (registerCoreHandlers r) = shuttingDown r" "completionPool (registerCoreHandlers r) = completionPool r"
  "inboundRequestsBySender (registerCoreHandlers r) = inboundRequestsBySender r"
  "inboundTokensBySender (registerCoreHandlers r) = inboundTokensBySender r"
  "maxConcurrentInFlightRequests (registerCoreHandlers r) = maxConcurrentInFlightRequests r"
  "map_of (requestHandlers (registerCoreHandlers (new_router limit))) kInitializeMethod = Some 0"
  "map_of (notificationHandlers (registerCoreHandlers r)) kNotificationInitialized = Some 0"
  by (simp_all add: registerCoreHandlers_def registerNotificationHandler_def registerRequestHandler_def
      core_methods_def new_router_def umap_put_apply kInitializeMethod_def kPingMethod_def
      kLoggingSetLevelMethod_def kCompletionCompleteMethod_def kToolsListMethod_def kToolsCallMethod_def
      kResourcesListMethod_def kResourcesReadMethod_def kResourcesTemplatesListMethod_def
      kResourcesSubscribeMethod_def kResourcesUnsubscribeMethod_def kPromptsListMethod_def kPromptsGetMethod_def
      kTasksGetMethod_def kTasksResultMethod_def kTasksListMethod_def kTasksServerCancelMethod_def)

lemma dispatch_end_handlers:
  "notificationHandlers (dispatchRequest_end ctx req f outcome r) = notificationHandlers r"
  by (simp add: dispatchRequest_end_def completeInboundRequest_def setPromiseValueNoThrow_def Let_def
      split: handler_outcome.split option.split)

text \<open>The server's answer to \<open>initialize\<close> is the session's.\<close>

lemma server_initializes:
  assumes "ready_server (sv_session s)" "sv_router s = registerCoreHandlers (new_router limit)" "0 < limit"
    and "rq_method req = kInitializeMethod"
  obtains s1 f where "server_handleRequest env ctx req s =
      (s1, f, Some (snd (handleInitializeRequest req (sv_session s))))"
    "sv_session s1 = fst (handleInitializeRequest req (sv_session s))"
    "notificationHandlers (sv_router s1) = notificationHandlers (sv_router s)"
proof -
  obtain r f h where d: "dispatchRequest_begin ctx req (sv_router s) = (r, f, h)" by (metis prod_cases3)
  have "map_of (requestHandlers (sv_router s)) (rq_method req) = Some 0"
    using assms(2,4) by (simp add: server_router_fields)
  from first_dispatch [OF _ this, of ctx] assms(2,3) d
  have h: "h = Some 0" "notificationHandlers r = notificationHandlers (sv_router s)"
    by (simp_all add: server_router_fields, simp_all add: new_router_def)
  obtain sess v where v: "handleInitializeRequest req (sv_session s) = (sess, v)" by fastforce
  have gates: "canHandleRequest (rq_method req) (sv_session s)"
    "isMethodEnabledByCapability (sv_capabilities s) (rq_method req)"
    using assms(1) by (simp_all add: canHandleRequest_def ready_server_def assms(4) isMethodEnabledByCapability_def
        capabilityForMethod_def kInitializeMethod_def kResourcesSubscribeMethod_def kResourcesUnsubscribeMethod_def
        kTasksListMethod_def kTasksServerCancelMethod_def kTasksGetMethod_def kTasksResultMethod_def)
  have body: "runCoreHandler env (core_methods ! 0) ctx req (s\<lparr>sv_router := r\<rparr>) =
      (s\<lparr>sv_router := r, sv_session := sess\<rparr>, Replies v)"
    using v by (simp add: runCoreHandler_def core_methods_def)
  have len: "0 < length core_methods" by (simp add: core_methods_def)
  show ?thesis
    using that [of "s\<lparr>sv_session := sess, sv_router := dispatchRequest_end ctx req f Posted r\<rparr>" "RouterFuture f"]
      d h gates body len v
    by (simp add: server_handleRequest_def dispatch_end_handlers)
qed

lemma future_session [simp]: "future_value (c\<lparr>cl_session := x\<rparr>) f = future_value c f"
  by (simp add: future_value_def)

text \<open>What the client does with the answer to its pending request.\<close>

lemma client_takes_answer:
  assumes "cl_pendingInitializeRequestId c = Some i" "responseId v = Some i"
    and "map_of (inFlightRequests (cl_router c)) i = Some g" "if_promise g = 0" "promises (cl_router c) = [None]"
    and take: "handleInitializeResponse v (cl_session c) = (sess, out)" "out \<noteq> Inl TransportError"
  obtains c2 where "client_handleMessage cenv ctx (response_message v) c = (c2, out)"
    "cl_session c2 = sess" "future_value c2 0 = Some v" "cl_pendingInitializeRequestId c2 = None"
proof -
  have answered: "future_value (fst (client_dispatchResponse v d)) 0 = Some v"
    "cl_session (fst (client_dispatchResponse v d)) = cl_session d"
    "cl_pendingInitializeRequestId (fst (client_dispatchResponse v d)) = cl_pendingInitializeRequestId d"
    if "cl_router d = cl_router c" for d
    using that assms(2-5)
    by (simp_all add: client_dispatchResponse_def on_router_def dispatchResponse_def popInFlightRequest_def
        setOutboundMessageSender_def setPromiseValueNoThrow_def set_cell_def future_value_def Let_def
        split: option.split)
  have pending: "isPendingInitializeResponse v c" using assms(1,2) by (simp add: isPendingInitializeResponse_def)
  let ?c1 = "c\<lparr>cl_pendingInitializeRequestId := None\<rparr>"
  let ?message = "client_handleMessage cenv ctx (response_message v) c"
  have "snd ?message = out \<and> cl_session (fst ?message) = sess \<and> future_value (fst ?message) 0 = Some v
      \<and> cl_pendingInitializeRequestId (fst ?message) = None"
  proof (cases v)
    case (RSuccess r)
    note d = answered [of "?c1\<lparr>cl_session := sess\<rparr>"]
    consider "out = Inr ()" | msg where "out = Inl (LifecycleError msg)"
      using take(2) by (cases out) (auto, metis session_error.exhaust)
    then show ?thesis using take(1) pending d
      by cases (simp_all add: RSuccess client_handleMessage_def client_handleResponse_def Let_def case_prod_unfold)
  next
    case (RError e)
    note d = answered [of ?c1]
    show ?thesis using take pending d
      by (cases out) (simp_all add: RError client_handleMessage_def client_handleResponse_def Let_def case_prod_unfold)
  qed
  then show ?thesis using that [of "fst ?message"] by (metis prod.collapse)
qed

text \<open>The initialize request that a client's configuration asks for, under its next id.\<close>

definition initialize_request :: "client \<Rightarrow> request" where
  "initialize_request c = new_request (IntId (cl_nextRequestId c)) kInitializeMethod
     (Some (applyInitializeDefaults (cl_configuration c) (se_supported (cl_session c)) None))"

text \<open>
  C24. When a fresh client connects to a fresh server, what the two objects do with each other's
  messages, through their routers, is the handshake of their two sessions: the sessions end as in
  \<open>run_handshake\<close>, with the same outcome, the future of \<open>initialize\<close> has exactly the answer that
  the server's session gives to the client's initialize request, and the client no longer waits
  for one.
\<close>

theorem objects_shake_hands_as_sessions_do:
  assumes "ready_objects c s"
  shows "\<exists>c' s' f outcome.
      shake_hands cenv env ctx c s = Some (c', s', f, outcome)
    \<and> run_handshake (cl_configuration c) (IntId (cl_nextRequestId c)) (cl_session c) (sv_session s) =
        (cl_session c', sv_session s', outcome)
    \<and> future_value c' f = Some (snd (handleInitializeRequest (initialize_request c) (sv_session s)))
    \<and> responseId (snd (handleInitializeRequest (initialize_request c) (sv_session s))) =
        Some (IntId (cl_nextRequestId c))
    \<and> cl_pendingInitializeRequestId c' = None"
proof -
  obtain limit limit' t where ready: "ready_client (cl_session c)" "ready_server (sv_session s)"
    "cl_router c = registerClientHandlers (new_router limit)" "0 < limit"
    "sv_router s = registerCoreHandlers (new_router limit')" "0 < limit'"
    "cl_transport c = Some t" "ct_running t" "\<forall>m. ct_accepts t m"
    using assms by (auto simp: ready_objects_def)
  let ?i = "IntId (cl_nextRequestId c)"
  define p where "p = applyInitializeDefaults (cl_configuration c) (se_supported (cl_session c)) None"
  define req where "req = new_request ?i kInitializeMethod (Some p)"
  obtain sess where send: "session_sendRequest kInitializeMethod p (cl_session c) = (sess, Inr placeholder_response)"
    using client_sends [OF ready(1), of p] p_def by blast
  obtain c1 g where c1: "client_initialize 0 True c = (c1, Inr 0)" "cl_session c1 = sess"
    "last (events (cl_router c1)) = Sent default_context (MRequest req)" "cl_pendingInitializeRequestId c1 = Some ?i"
    "map_of (inFlightRequests (cl_router c1)) ?i = Some g" "if_promise g = 0" "promises (cl_router c1) = [None]"
    using client_initializes [OF ready(3,4,7-9) refl p_def send] unfolding req_def by metis
  obtain server v where answer: "handleInitializeRequest req (sv_session s) = (server, v)" by fastforce
  obtain s1 f where s1: "server_handleRequest env ctx req s = (s1, f, Some v)" "sv_session s1 = server"
    "notificationHandlers (sv_router s1) = notificationHandlers (sv_router s)"
    using server_initializes [OF ready(2,5,6), of req env ctx] answer by (auto simp: req_def new_request_def)
  obtain sess' out where take: "handleInitializeResponse v sess = (sess', out)" by fastforce
  obtain version where version: "selectServerProtocolVersion (case ci_protocolVersion (cl_configuration c) of Some u \<Rightarrow> u
      | None \<Rightarrow> latestSupportedVersion (se_supported (cl_session c))) (se_supported (sv_session s)) = Some version"
    using selected_exists ready(2) unfolding ready_server_def by blast
  note sent = client_sends [OF ready(1) p_def, of "sv_session s" version]
    and answered = server_answers [OF ready(2) version p_def, of ?i, folded req_def]
  have the_answer: "snd (handleInitializeRequest (initialize_request c) (sv_session s)) = v"
    using answer by (simp add: initialize_request_def req_def p_def)
  have id: "responseId v = Some ?i" using answer answered by (auto simp: new_success_def)
  have no_error: "out \<noteq> Inl TransportError"
    using client_takes [OF ready(1,2) refl refl, where v = version and cfg = "cl_configuration c" and i = ?i] take answer answered send sent
    by (cases "version \<in> set (se_supported (cl_session c))") auto
  obtain c2 where c2: "client_handleMessage cenv ctx (response_message v) c1 = (c2, out)"
    "cl_session c2 = sess'" "future_value c2 0 = Some v" "cl_pendingInitializeRequestId c2 = None"
    using client_takes_answer [OF c1(4) id c1(5-7), of sess' out cenv ctx] take no_error c1(2) by metis
  have initialized: "sv_session (server_handleNotification ctx (new_notification kNotificationInitialized None) s1) =
      handleInitializedNotification server"
    using s1 ready(5) by (simp add: server_handleNotification_def new_notification_def server_router_fields Let_def)
  have run: "run_handshake (cl_configuration c) ?i (cl_session c) (sv_session s) =
      (sess', case out of Inr _ \<Rightarrow> handleInitializedNotification server | Inl _ \<Rightarrow> server, out)"
    using send answer take by (simp add: run_handshake_def p_def [symmetric] req_def [symmetric] Let_def)
  show ?thesis
  proof (cases out)
    case (Inl e)
    then show ?thesis using c1(1,3) s1(1,2) c2 run id the_answer by (simp add: shake_hands_def)
  next
    case (Inr u)
    then show ?thesis using c1(1,3) s1(1) c2 run id the_answer initialized by (simp add: shake_hands_def)
  qed
qed

section \<open>Witness\<close>

definition greeting_client :: client where
  "greeting_client = fst (client_start (fst (client_attachTransport
     (Some \<lparr>ct_running = False, ct_starts = True, ct_accepts = (\<lambda>_. True)\<rparr>)
     (projr (new_client 8 (Some (new_session defaultProtocolVersions 8)))))))"

definition greeting_env :: client_env where
  "greeting_env = \<lparr>cv_roots = (\<lambda>_ _. Returns []), cv_sampling = (\<lambda>_ _ _. Returns None),
     cv_form = (\<lambda>_ _ _. Throws ''no form''), cv_url = (\<lambda>_ _ _. Returns kDecline),
     cv_schema = (example_schema, example_document), cv_store = (0, [])\<rparr>"

lemma greeting_objects: "ready_objects greeting_client new_example"
  by (auto simp: ready_objects_def greeting_client_def client_attachTransport_def client_start_def new_client_def
      session_start_def setRole_def new_session_def attachTransport_def ready_client_def ready_server_def
      new_example_def new_server_def configureServerInitialization_def example_configuration_def
      defaultProtocolVersions_def server_expressible_def experimental_ok_def no_server_capabilities_def)
    (rule exI [of _ 8], simp)+

theorem objects_shake_hands_as_sessions_do_witness:
  "\<exists>c' s' f outcome.
      shake_hands greeting_env (example_env 0) default_context greeting_client new_example = Some (c', s', f, outcome)
    \<and> run_handshake no_configuration (IntId 1) (cl_session greeting_client) (sv_session new_example) =
        (cl_session c', sv_session s', outcome)
    \<and> future_value c' f = Some (snd (handleInitializeRequest (initialize_request greeting_client) (sv_session new_example)))"
proof -
  have "cl_configuration greeting_client = no_configuration" "cl_nextRequestId greeting_client = 1"
    by (simp_all add: greeting_client_def client_attachTransport_def client_start_def new_client_def
        session_start_def setRole_def new_session_def attachTransport_def)
  with objects_shake_hands_as_sessions_do [OF greeting_objects, of greeting_env "example_env 0" default_context]
  show ?thesis by fastforce
qed

end
