(* ===== verification/Url.thy ===== *)
theory Url
  imports HttpHeaders
begin

text \<open>
  The parser of absolute URLs, include/mcp/detail/url.hpp and parsed_absolute_url.hpp.
\<close>

record parsed_url =
  pu_scheme :: string
  pu_host :: string
  pu_port :: uint16
  pu_path :: string
  pu_query :: "string option"
  pu_ipv6Literal :: bool
  pu_hasExplicitPort :: bool
  pu_hasQuery :: bool

definition isWhitespaceOrControl :: "char \<Rightarrow> bool" where
  "isWhitespaceOrControl c \<longleftrightarrow> byte c \<le> 0x20 \<or> byte c = 0x7F"

definition kMaxPort :: uint32 where "kMaxPort = 65535"

text \<open>The loop of \<open>url_parsePort\<close> over 32 bits; it leaves before they can overflow.\<close>

fun port_value :: "uint32 \<Rightarrow> string \<Rightarrow> uint32 option" where
  "port_value port [] = Some port"
| "port_value port (c # cs) =
     (if \<not> is_digit c then None
      else
        let port' = port * 10 + word_of_nat (digit_value c) in
        if port' > kMaxPort then None else port_value port' cs)"

definition url_parsePort :: "string \<Rightarrow> uint16 option" where
  "url_parsePort s = (if s = [] then None else map_option ucast (port_value 0 s))"

definition getDefaultPort :: "string \<Rightarrow> uint16" where
  "getDefaultPort scheme =
     (if scheme = ''http'' then 80
      else if scheme = ''https'' then 443
      else if scheme = ''ftp'' then 21
      else if scheme = ''ftps'' then 990
      else if scheme = ''ws'' then 80
      else if scheme = ''wss'' then 443
      else 0)"

definition valid_scheme :: "string \<Rightarrow> bool" where
  "valid_scheme s =
     (case s of
        [] \<Rightarrow> True
      | c # cs \<Rightarrow>
          is_alpha c \<and> list_all (\<lambda>d. is_alnum d \<or> d = CHR ''+'' \<or> d = CHR ''-'' \<or> d = CHR ''.'') cs)"

text \<open>The host, the port after it, and whether the host was in brackets.\<close>

definition parse_host_port :: "string \<Rightarrow> (string \<times> uint16 option \<times> bool) option" where
  "parse_host_port a =
     (if hd a = CHR ''['' then
        (case find_char CHR '']'' a of
           None \<Rightarrow> None
         | Some n \<Rightarrow>
             let content = take (n - 1) (drop 1 a) in
             if content = [] then None
             else if n + 1 < length a then
               if a ! (n + 1) \<noteq> CHR '':'' then None
               else map_option (\<lambda>p. (content, Some p, True)) (url_parsePort (drop (n + 2) a))
             else Some (content, None, True))
      else
        (case find_char CHR '':'' a of
           None \<Rightarrow> Some (a, None, False)
         | Some n \<Rightarrow> map_option (\<lambda>p. (take n a, Some p, False)) (url_parsePort (drop (n + 1) a))))"

text \<open>What follows the authority: the path and the query; a fragment is dropped.\<close>

definition parse_path_query :: "string \<Rightarrow> string \<times> string option" where
  "parse_path_query tail =
     (let no_fragment = takeWhile (\<lambda>c. c \<noteq> CHR ''#'') in
      case tail of
        [] \<Rightarrow> (''/'', None)
      | c # cs \<Rightarrow>
          if c = CHR ''?'' then (''/'', Some (no_fragment cs))
          else if c = CHR ''#'' then (''/'', None)
          else
            (case find_char CHR ''?'' tail of
               None \<Rightarrow> (no_fragment tail, None)
             | Some n \<Rightarrow> (no_fragment (take n tail), Some (no_fragment (drop (n + 1) tail)))))"

definition parseAbsoluteUrl :: "string \<Rightarrow> parsed_url option" where
  "parseAbsoluteUrl url =
     (if list_ex isWhitespaceOrControl url then None
      else
        (case find_str ''://'' url of
           None \<Rightarrow> None
         | Some n \<Rightarrow>
             if n = 0 \<or> \<not> valid_scheme (take n url) then None
             else
               let remainder = drop (n + 3) url;
                   authority = takeWhile (\<lambda>c. c \<notin> set ''/?#'') remainder;
                   tail = dropWhile (\<lambda>c. c \<notin> set ''/?#'') remainder
               in
               if remainder = [] \<or> authority = [] \<or> CHR ''@'' \<in> set authority then None
               else
                 (case parse_host_port authority of
                    None \<Rightarrow> None
                  | Some (host, port, ipv6) \<Rightarrow>
                      if host = [] then None
                      else
                        let scheme = toLowerAscii (take n url); (path, query) = parse_path_query tail in
                        Some \<lparr>pu_scheme = scheme, pu_host = toLowerAscii host,
                          pu_port = (case port of Some p \<Rightarrow> p | None \<Rightarrow> getDefaultPort scheme),
                          pu_path = path, pu_query = query, pu_ipv6Literal = ipv6,
                          pu_hasExplicitPort = (port \<noteq> None), pu_hasQuery = (query \<noteq> None)\<rparr>)))"

end
