(* ===== verification/Discovery.thy ===== *)
theory Discovery
  imports Url HttpAuthorization
begin

text \<open>
  The discovery of an authorization server by a client, src/auth/protected_resource_metadata.cpp:
  the URLs it accepts, the challenges of a server, the addresses it refuses to connect to, the
  redirects it follows and the metadata it reads.

  The HTTP fetcher, the resolver and the address parser of Boost.Asio are parameters. The fetcher and
  the resolver are given the log of what was resolved and fetched before, so that two calls with the
  same argument may be answered differently.
\<close>

section \<open>Errors\<close>

datatype AuthorizationDiscoveryErrorCode =
    kInvalidInput | kSecurityPolicyViolation | kNetworkFailure | kMetadataValidation | kNotFound

text \<open>An \<open>AuthorizationDiscoveryError\<close>, or another exception of the fetcher or the resolver.\<close>

datatype discovery_failure = DiscoveryError AuthorizationDiscoveryErrorCode string | OtherException string

section \<open>URLs\<close>

record discovery_url =
  du_scheme :: string
  du_host :: string
  du_port :: string
  du_path :: string
  du_query :: "string option"
  du_hasExplicitPort :: bool
  du_ipv6Literal :: bool

definition startsWithIgnoreCase :: "string \<Rightarrow> string \<Rightarrow> bool" where
  "startsWithIgnoreCase value prefix \<longleftrightarrow>
     length prefix \<le> length value \<and> equalsIgnoreCaseAscii (take (length prefix) value) prefix"

definition endsWithIgnoreCase :: "string \<Rightarrow> string \<Rightarrow> bool" where
  "endsWithIgnoreCase value suffix \<longleftrightarrow>
     length suffix \<le> length value \<and> equalsIgnoreCaseAscii (drop (length value - length suffix) value) suffix"

definition isTokenCharacter :: "char \<Rightarrow> bool" where
  "isTokenCharacter c \<longleftrightarrow> is_alnum c \<or> c \<in> set (''!#$%&'' @ [CHR 0x27] @ ''*+-.^_'' @ [CHR 0x60] @ ''|~'')"

definition extractExplicitPortText :: "string \<Rightarrow> bool \<Rightarrow> string" where
  "extractExplicitPortText rawUrl ipv6 =
     (case find_str ''://'' rawUrl of
        None \<Rightarrow> []
      | Some n \<Rightarrow>
          let authority = takeWhile (\<lambda>c. c \<notin> set ''/?#'') (drop (n + 3) rawUrl) in
          if authority = [] then []
          else if ipv6 then
            (case find_char (CHR '']'') authority of
               None \<Rightarrow> []
             | Some closing \<Rightarrow>
                 if length authority \<le> closing + 1 \<or> authority ! (closing + 1) \<noteq> CHR '':'' then []
                 else drop (closing + 2) authority)
          else
            (case rfind_char (CHR '':'') authority of
               None \<Rightarrow> []
             | Some sep \<Rightarrow> drop (sep + 1) authority))"

definition defaultPortForScheme :: "string \<Rightarrow> string" where
  "defaultPortForScheme scheme =
     (if scheme = ''https'' then ''443'' else if scheme = ''http'' then ''80'' else [])"

definition parse_discovery_url :: "string \<Rightarrow> bool \<Rightarrow> discovery_failure + discovery_url" where
  "parse_discovery_url rawUrl allowQuery =
     (let trimmed = trimAsciiWhitespace rawUrl in
      if trimmed = [] then Inl (DiscoveryError kInvalidInput ''URL must not be empty'')
      else if containsAsciiWhitespaceOrControl trimmed
      then Inl (DiscoveryError kInvalidInput ''URL must not include whitespace or control characters'')
      else if find_char (CHR ''#'') trimmed \<noteq> None
      then Inl (DiscoveryError kInvalidInput ''URL fragments are not allowed'')
      else
        (case parseAbsoluteUrl trimmed of
           None \<Rightarrow> Inl (DiscoveryError kInvalidInput ''URL must be absolute and include a scheme'')
         | Some u \<Rightarrow>
             let port =
               (if pu_hasExplicitPort u then
                  let text = extractExplicitPortText trimmed (pu_ipv6Literal u) in
                  if text \<noteq> [] then text else to_string_nat (unat (pu_port u))
                else defaultPortForScheme (pu_scheme u))
             in
             if port = [] then Inl (DiscoveryError kInvalidInput ''URL port is not valid for this scheme'')
             else if \<not> allowQuery \<and> pu_hasQuery u
             then Inl (DiscoveryError kInvalidInput ''URL query components are not allowed'')
             else
               Inr \<lparr>du_scheme = pu_scheme u, du_host = pu_host u, du_port = port,
                 du_path = (if pu_path u = [] then ''/'' else pu_path u), du_query = pu_query u,
                 du_hasExplicitPort = pu_hasExplicitPort u, du_ipv6Literal = pu_ipv6Literal u\<rparr>))"

definition originForUrl :: "discovery_url \<Rightarrow> string" where
  "originForUrl u =
     du_scheme u @ ''://'' @ (if du_ipv6Literal u then ''['' @ du_host u @ '']'' else du_host u)
       @ (if du_hasExplicitPort u \<or> du_port u \<noteq> defaultPortForScheme (du_scheme u) then CHR '':'' # du_port u else [])"

definition normalize_path :: "string \<Rightarrow> string" where
  "normalize_path path = slashed (if path = [] then ''/'' else path)"

definition query_text :: "string option \<Rightarrow> string" where
  "query_text query = (case query of Some q \<Rightarrow> CHR ''?'' # q | None \<Rightarrow> [])"

definition canonicalIssuerIdentifier :: "discovery_url \<Rightarrow> string" where
  "canonicalIssuerIdentifier u =
     originForUrl u @ (if normalize_path (du_path u) \<noteq> ''/'' then normalize_path (du_path u) else [])"

definition canonicalResourceIdentifier :: "discovery_url \<Rightarrow> string" where
  "canonicalResourceIdentifier u =
     originForUrl u @ (if normalize_path (du_path u) \<noteq> ''/'' then normalize_path (du_path u) else [])
       @ query_text (du_query u)"

definition serializeUrl :: "discovery_url \<Rightarrow> string" where
  "serializeUrl u = originForUrl u @ (if du_path u = [] then ''/'' else du_path u) @ query_text (du_query u)"

section \<open>Challenges\<close>

record bearer_challenge =
  bc_resourceMetadata :: "string option"
  bc_scope :: "string option"
  bc_error :: "string option"
  bc_parameters :: "(string \<times> string) list"

definition no_challenge :: bearer_challenge where
  "no_challenge = \<lparr>bc_resourceMetadata = None, bc_scope = None, bc_error = None, bc_parameters = []\<rparr>"

text \<open>The parts of a header value; a comma in a quoted string does not end a part.\<close>

fun split_commas :: "bool \<Rightarrow> bool \<Rightarrow> string \<Rightarrow> string \<Rightarrow> string list" where
  "split_commas inQuotes escaped part [] = [part]"
| "split_commas inQuotes escaped part (c # cs) =
     (let inQuotes' = (if c = dquote \<and> \<not> escaped then \<not> inQuotes else inQuotes) in
      if c = CHR '','' \<and> \<not> inQuotes' then part # split_commas inQuotes' False [] cs
      else split_commas inQuotes' (inQuotes' \<and> c = backslash \<and> \<not> escaped) (part @ [c]) cs)"

definition splitOnCommasOutsideQuotes :: "string \<Rightarrow> string list" where
  "splitOnCommasOutsideQuotes value = split_commas False False [] value"

definition parseTokenPrefix :: "string \<Rightarrow> string \<times> string" where
  "parseTokenPrefix value = (takeWhile isTokenCharacter value, dropWhile isTokenCharacter value)"

fun quoted_rest :: "bool \<Rightarrow> string \<Rightarrow> string \<Rightarrow> string option" where
  "quoted_rest escaped decoded [] = None"
| "quoted_rest escaped decoded (c # cs) =
     (if escaped then quoted_rest False (decoded @ [c]) cs
      else if c = backslash then quoted_rest True decoded cs
      else if c = dquote then (if trimAsciiWhitespace cs \<noteq> [] then None else Some decoded)
      else quoted_rest False (decoded @ [c]) cs)"

definition parseQuotedValue :: "string \<Rightarrow> string option" where
  "parseQuotedValue value =
     (case value of [] \<Rightarrow> None | c # cs \<Rightarrow> if c \<noteq> dquote then None else quoted_rest False [] cs)"

definition set_parameter :: "string \<Rightarrow> string \<Rightarrow> bearer_challenge \<Rightarrow> bearer_challenge" where
  "set_parameter name value challenge =
     (let c = challenge\<lparr>bc_parameters := bc_parameters challenge @ [(name, value)]\<rparr> in
      if name = ''resource_metadata'' then c\<lparr>bc_resourceMetadata := Some value\<rparr>
      else if name = ''scope'' then c\<lparr>bc_scope := Some value\<rparr>
      else if name = ''error'' then c\<lparr>bc_error := Some value\<rparr>
      else c)"

definition parseBearerParameter :: "string \<Rightarrow> bearer_challenge \<Rightarrow> bearer_challenge" where
  "parseBearerParameter parameterValue challenge =
     (let trimmed = trimAsciiWhitespace parameterValue in
      if trimmed = [] then challenge
      else
        (case find_char (CHR ''='') trimmed of
           None \<Rightarrow> challenge
         | Some sep \<Rightarrow>
             let name = trimAsciiWhitespace (take sep trimmed);
                 encoded = trimAsciiWhitespace (drop (sep + 1) trimmed)
             in
             if name = [] \<or> encoded = [] then challenge
             else if hd encoded = dquote then
               (case parseQuotedValue encoded of
                  None \<Rightarrow> challenge
                | Some value \<Rightarrow> set_parameter (toLowerAscii name) value challenge)
             else set_parameter (toLowerAscii name) encoded challenge))"

text \<open>
  One part of a header value. The flag says that the last challenge is a bearer challenge of this
  header value, which takes the parameters that follow.
\<close>

definition challenge_part :: "string \<Rightarrow> bearer_challenge list \<times> bool \<Rightarrow> bearer_challenge list \<times> bool" where
  "challenge_part part = (\<lambda>(challenges, active).
     (let trimmed = trimAsciiWhitespace part in
      if trimmed = [] then (challenges, active)
      else
        let (token, rest) = parseTokenPrefix trimmed in
        if token = [] then (challenges, active)
        else
          let remainder = trimAsciiWhitespace rest in
          if remainder \<noteq> [] \<and> hd remainder \<noteq> CHR ''='' then
            if \<not> equalsIgnoreCaseAscii token ''Bearer'' then (challenges, False)
            else (challenges @ [parseBearerParameter remainder no_challenge], True)
          else if active
          then (butlast challenges @ [parseBearerParameter trimmed (last challenges)], True)
          else (challenges, False)))"

definition parseBearerWwwAuthenticateChallenges :: "string list \<Rightarrow> bearer_challenge list" where
  "parseBearerWwwAuthenticateChallenges headerValues =
     foldl (\<lambda>challenges value. fst (foldl (\<lambda>s part. challenge_part part s) (challenges, False)
                                     (splitOnCommasOutsideQuotes value))) [] headerValues"

definition firstResourceMetadataChallenge :: "bearer_challenge list \<Rightarrow> bearer_challenge option" where
  "firstResourceMetadataChallenge challenges =
     find (\<lambda>c. case bc_resourceMetadata c of Some m \<Rightarrow> trimAsciiWhitespace m \<noteq> [] | None \<Rightarrow> False) challenges"

section \<open>Scopes\<close>

function scope_words :: "string list \<Rightarrow> string \<Rightarrow> string list" where
  "scope_words found s =
     (let rest = dropWhile is_space s in
      if rest = [] then found
      else
        let scope = takeWhile (\<lambda>c. \<not> is_space c) rest in
        scope_words (if scope \<in> set found then found else found @ [scope]) (dropWhile (\<lambda>c. \<not> is_space c) rest))"
  by pat_completeness auto
termination
proof (relation "measure (\<lambda>(found, s). length s)", goal_cases)
  case 1
  then show ?case by simp
next
  case (2 found s rest scope)
  obtain c cs where rest: "rest = c # cs" using 2(2) by (meson list.exhaust)
  then have "\<not> is_space c" using hd_dropWhile [of is_space s] unfolding 2(1) [symmetric] by simp
  then have "length (dropWhile (\<lambda>c. \<not> is_space c) rest) < length rest"
    by (simp add: rest less_Suc_eq_le length_dropWhile_le)
  also have "\<dots> \<le> length s" unfolding 2(1) by (rule length_dropWhile_le)
  finally show ?case by simp
qed

declare scope_words.simps [simp del]

definition parseScopeString :: "string \<Rightarrow> string list" where
  "parseScopeString text = scope_words [] text"

definition sanitize_scopes :: "string list \<Rightarrow> string list" where
  "sanitize_scopes scopes =
     foldl (\<lambda>out scope. let t = trimAsciiWhitespace scope in if t = [] \<or> t \<in> set out then out else out @ [t]) [] scopes"

section \<open>Addresses\<close>

text \<open>
  An address as \<open>to_uint\<close> and \<open>to_bytes\<close> of Boost.Asio present it: 32 bits, or 16 bytes, the first of
  them the most significant. What Boost.Asio says of an address is a parameter.
\<close>

type_synonym address_v6 = "128 word"

datatype ip_address = V4 uint32 | V6 address_v6

record asio_env =
  make_address :: "string \<Rightarrow> ip_address option"
  is_loopback :: "address_v6 \<Rightarrow> bool"
  is_unspecified :: "address_v6 \<Rightarrow> bool"
  is_multicast :: "address_v6 \<Rightarrow> bool"
  is_v4_mapped :: "address_v6 \<Rightarrow> bool"

definition v6_byte :: "address_v6 \<Rightarrow> nat \<Rightarrow> 8 word" where
  "v6_byte a i = ucast (drop_bit (8 * (15 - i)) a)"

definition isBlockedIpv4 :: "uint32 \<Rightarrow> bool" where
  "isBlockedIpv4 value =
     (let octet0 = drop_bit 24 (value AND 0xFF000000);
          octet1 = drop_bit 16 (value AND 0x00FF0000);
          octet2 = drop_bit 8 (value AND 0x0000FF00)
      in
      if octet0 = 0 \<or> octet0 = 10 \<or> octet0 = 127 then True
      else if octet0 = 100 \<and> octet1 \<ge> 64 \<and> octet1 \<le> 127 then True
      else if octet0 = 169 \<and> octet1 = 254 then True
      else if octet0 = 172 \<and> octet1 \<ge> 16 \<and> octet1 \<le> 31 then True
      else if octet0 = 192 \<and> octet1 = 168 then True
      else if octet0 = 192 \<and> octet1 = 0 \<and> (octet2 = 0 \<or> octet2 = 2) then True
      else if octet0 = 198 \<and> (octet1 = 18 \<or> octet1 = 19 \<or> (octet1 = 51 \<and> octet2 = 100)) then True
      else if octet0 = 203 \<and> octet1 = 0 \<and> octet2 = 113 then True
      else octet0 \<ge> 224)"

definition isBlockedIpv6 :: "asio_env \<Rightarrow> address_v6 \<Rightarrow> bool" where
  "isBlockedIpv6 asio a =
     (if is_loopback asio a \<or> is_unspecified asio a \<or> is_multicast asio a then True
      else if is_v4_mapped asio a then
        isBlockedIpv4 (push_bit 24 (ucast (v6_byte a 12)) OR push_bit 16 (ucast (v6_byte a 13))
          OR push_bit 8 (ucast (v6_byte a 14)) OR ucast (v6_byte a 15))
      else if v6_byte a 0 AND 0xFE = 0xFC then True
      else if v6_byte a 0 = 0xFE \<and> v6_byte a 1 AND 0xC0 = 0x80 then True
      else v6_byte a 0 = 0x20 \<and> v6_byte a 1 = 0x01 \<and> v6_byte a 2 = 0x0D \<and> v6_byte a 3 = 0xB8)"

fun isBlockedAddress :: "asio_env \<Rightarrow> ip_address \<Rightarrow> bool" where
  "isBlockedAddress asio (V4 a) = isBlockedIpv4 a"
| "isBlockedAddress asio (V6 a) = isBlockedIpv6 asio a"

section \<open>Fetching\<close>

record security_policy =
  sp_requireHttps :: bool
  sp_requireSameOriginRedirects :: bool
  sp_allowPrivateAndLocalAddresses :: bool
  sp_maxRedirects :: nat

definition default_security_policy :: security_policy where
  "default_security_policy = \<lparr>sp_requireHttps = True, sp_requireSameOriginRedirects = True,
     sp_allowPrivateAndLocalAddresses = False, sp_maxRedirects = 4\<rparr>"

record discovery_request =
  dq_method :: string
  dq_url :: string
  dq_headers :: "(string \<times> string) list"

record discovery_response =
  dr_statusCode :: uint16
  dr_headers :: "(string \<times> string) list"
  dr_body :: string

datatype discovery_event = Resolved string | Fetched string

type_synonym http_fetcher = "discovery_event list \<Rightarrow> discovery_request \<Rightarrow> discovery_failure + discovery_response"
type_synonym dns_resolver = "discovery_event list \<Rightarrow> string \<Rightarrow> discovery_failure + string list"

type_synonym 'a logged = "(discovery_failure + 'a) \<times> discovery_event list"

text \<open>One computation after another: a failure ends both, the log is kept.\<close>

definition and_then :: "'a logged \<Rightarrow> ('a \<Rightarrow> discovery_event list \<Rightarrow> 'b logged) \<Rightarrow> 'b logged" where
  "and_then r f = (case r of (Inl e, past) \<Rightarrow> (Inl e, past) | (Inr x, past) \<Rightarrow> f x past)"

definition isRedirectStatusCode :: "uint16 \<Rightarrow> bool" where
  "isRedirectStatusCode status \<longleftrightarrow> status = 301 \<or> status = 302 \<or> status = 303 \<or> status = 307 \<or> status = 308"

definition headerValue :: "(string \<times> string) list \<Rightarrow> string \<Rightarrow> string option" where
  "headerValue headers name =
     map_option snd (find (\<lambda>h. equalsIgnoreCaseAscii (trimAsciiWhitespace (fst h)) name) headers)"

definition resolveRedirectUrl :: "discovery_url \<Rightarrow> string \<Rightarrow> discovery_failure + string" where
  "resolveRedirectUrl current location =
     (let t = trimAsciiWhitespace location in
      if t = []
      then Inl (DiscoveryError kNetworkFailure ''Redirect response is missing a non-empty Location header'')
      else if find_str ''://'' t \<noteq> None then Inr t
      else if startsWithIgnoreCase t ''//'' then Inr (du_scheme current @ '':'' @ t)
      else if hd t = CHR ''/'' then Inr (originForUrl current @ t)
      else
        let base = (if du_path current = [] then ''/'' else du_path current);
            directory = (case rfind_char (CHR ''/'') base of None \<Rightarrow> ''/'' | Some n \<Rightarrow> take (n + 1) base)
        in Inr (originForUrl current @ directory @ t))"

fun check_resolved :: "asio_env \<Rightarrow> string list \<Rightarrow> discovery_failure + unit" where
  "check_resolved asio [] = Inr ()"
| "check_resolved asio (t # ts) =
     (case make_address asio t of
        None \<Rightarrow> Inl (DiscoveryError kNetworkFailure ''Discovery DNS resolver returned an invalid address value'')
      | Some a \<Rightarrow>
          if isBlockedAddress asio a
          then Inl (DiscoveryError kSecurityPolicyViolation
                 ''Discovery DNS resolver returned a blocked private or local address'')
          else check_resolved asio ts)"

definition validateHostAddressability ::
  "asio_env \<Rightarrow> dns_resolver \<Rightarrow> security_policy \<Rightarrow> discovery_url \<Rightarrow> discovery_event list \<Rightarrow> unit logged" where
  "validateHostAddressability asio resolver policy url past =
     (if sp_allowPrivateAndLocalAddresses policy then (Inr (), past)
      else if du_host url = ''localhost'' \<or> endsWithIgnoreCase (du_host url) ''.localhost''
      then (Inl (DiscoveryError kSecurityPolicyViolation ''Discovery host resolves to localhost''), past)
      else
        (case make_address asio (du_host url) of
           Some a \<Rightarrow>
             if isBlockedAddress asio a
             then (Inl (DiscoveryError kSecurityPolicyViolation
                     ''Discovery URL resolves to a blocked private or local address''), past)
             else (Inr (), past)
         | None \<Rightarrow>
             and_then (resolver past (du_host url), past @ [Resolved (du_host url)]) (\<lambda>addresses past.
               if addresses = []
               then (Inl (DiscoveryError kNetworkFailure ''Discovery DNS resolution produced no addresses''), past)
               else (check_resolved asio addresses, past))))"

text \<open>One request of the loop of \<open>executeDiscoveryGet\<close>, after the checks of its URL.\<close>

definition discovery_fetch ::
  "asio_env \<Rightarrow> http_fetcher \<Rightarrow> dns_resolver \<Rightarrow> security_policy \<Rightarrow> discovery_url \<Rightarrow> discovery_event list \<Rightarrow>
   discovery_response logged" where
  "discovery_fetch asio fetcher resolver policy url past =
     (if sp_requireHttps policy \<and> du_scheme url \<noteq> ''https''
      then (Inl (DiscoveryError kSecurityPolicyViolation ''Discovery URLs must use HTTPS''), past)
      else
        and_then (validateHostAddressability asio resolver policy url past) (\<lambda>_ past.
          (fetcher past \<lparr>dq_method = ''GET'', dq_url = serializeUrl url, dq_headers = []\<rparr>,
           past @ [Fetched (serializeUrl url)])))"

text \<open>Where a redirect leads, if the policy allows it.\<close>

definition redirect_target ::
  "security_policy \<Rightarrow> nat \<Rightarrow> discovery_url \<Rightarrow> discovery_response \<Rightarrow> discovery_failure + discovery_url" where
  "redirect_target policy redirects current response =
     (if redirects \<ge> sp_maxRedirects policy
      then Inl (DiscoveryError kSecurityPolicyViolation ''Discovery redirect limit exceeded'')
      else
        (case headerValue (dr_headers response) ''Location'' of
           None \<Rightarrow> Inl (DiscoveryError kNetworkFailure ''Discovery redirect response did not include a Location header'')
         | Some location \<Rightarrow>
             bindE (resolveRedirectUrl current location) (\<lambda>target.
             bindE (parse_discovery_url target True) (\<lambda>url.
               if sp_requireHttps policy \<and> du_scheme url \<noteq> ''https''
               then Inl (DiscoveryError kSecurityPolicyViolation ''Discovery redirect downgraded away from HTTPS'')
               else if sp_requireSameOriginRedirects policy \<and> originForUrl url \<noteq> originForUrl current
               then Inl (DiscoveryError kSecurityPolicyViolation ''Discovery redirect changed origin'')
               else Inr url))))"

lemma redirect_target_limit: "redirect_target policy redirects current response = Inr url \<Longrightarrow> redirects < sp_maxRedirects policy"
  by (simp add: redirect_target_def split: if_splits)

function discovery_loop ::
  "asio_env \<Rightarrow> http_fetcher \<Rightarrow> dns_resolver \<Rightarrow> security_policy \<Rightarrow> nat \<Rightarrow> discovery_url \<Rightarrow> discovery_event list \<Rightarrow>
   discovery_response logged" where
  "discovery_loop asio fetcher resolver policy redirects url past =
     (case discovery_fetch asio fetcher resolver policy url past of
        (Inl e, past) \<Rightarrow> (Inl e, past)
      | (Inr response, past) \<Rightarrow>
          if \<not> isRedirectStatusCode (dr_statusCode response) then (Inr response, past)
          else
            (case redirect_target policy redirects url response of
               Inl e \<Rightarrow> (Inl e, past)
             | Inr target \<Rightarrow> discovery_loop asio fetcher resolver policy (redirects + 1) target past))"
  by pat_completeness auto
termination
  by (relation "measure (\<lambda>(asio, fetcher, resolver, policy, redirects, url, past). sp_maxRedirects policy - redirects)")
     (auto dest: redirect_target_limit)

declare discovery_loop.simps [simp del]

definition executeDiscoveryGet ::
  "asio_env \<Rightarrow> http_fetcher \<Rightarrow> dns_resolver \<Rightarrow> security_policy \<Rightarrow> string \<Rightarrow> discovery_event list \<Rightarrow>
   discovery_response logged" where
  "executeDiscoveryGet asio fetcher resolver policy initialUrl past =
     (case parse_discovery_url initialUrl True of
        Inl e \<Rightarrow> (Inl e, past)
      | Inr url \<Rightarrow> discovery_loop asio fetcher resolver policy 0 url past)"

section \<open>Metadata\<close>

record resource_metadata =
  rm_resource :: string
  rm_authorizationServers :: "string list"
  rm_scopesSupported :: "string list option"

record server_metadata =
  sm_issuer :: string
  sm_authorizationEndpoint :: "string option"
  sm_tokenEndpoint :: "string option"
  sm_registrationEndpoint :: "string option"
  sm_codeChallengeMethods :: "string list"
  sm_clientIdDocumentSupported :: bool

definition metadata_error :: "string \<Rightarrow> discovery_failure + 'a" where
  "metadata_error message = Inl (DiscoveryError kMetadataValidation message)"

text \<open>\<open>parse\<close> is the JSON parser, \<open>Inl\<close> what it throws.\<close>

definition parseJsonObject :: "(string \<Rightarrow> string + json) \<Rightarrow> string \<Rightarrow> string \<Rightarrow> discovery_failure + json" where
  "parseJsonObject parse document context =
     (case parse document of
        Inl what \<Rightarrow> metadata_error (''Failed to parse '' @ context @ '': '' @ what)
      | Inr j \<Rightarrow> if is_object j then Inr j else metadata_error (context @ '' must be a JSON object''))"

fun string_items :: "string \<Rightarrow> string list \<Rightarrow> json list \<Rightarrow> discovery_failure + string list" where
  "string_items field found [] = Inr found"
| "string_items field found (item # items) =
     (case item of
        JString s \<Rightarrow>
          let t = trimAsciiWhitespace s in
          string_items field (if t = [] \<or> t \<in> set found then found else found @ [t]) items
      | _ \<Rightarrow> metadata_error (field @ '' entries must be strings''))"

definition parseStringArray :: "json \<Rightarrow> string \<Rightarrow> discovery_failure + string list" where
  "parseStringArray value field =
     (case value of JArray items \<Rightarrow> string_items field [] items | _ \<Rightarrow> metadata_error (field @ '' must be an array''))"

definition parseOptionalString :: "json \<Rightarrow> string \<Rightarrow> discovery_failure + string option" where
  "parseOptionalString value field =
     (case jget value field of
        None \<Rightarrow> Inr None
      | Some (JString s) \<Rightarrow> (let t = trimAsciiWhitespace s in Inr (if t = [] then None else Some t))
      | Some _ \<Rightarrow> metadata_error (field @ '' must be a string when present''))"

definition parseProtectedResourceMetadata ::
  "(string \<Rightarrow> string + json) \<Rightarrow> string \<Rightarrow> discovery_failure + resource_metadata" where
  "parseProtectedResourceMetadata parse document =
     bindE (parseJsonObject parse document ''Protected resource metadata'') (\<lambda>j.
       (case jget j ''resource'' of
          Some (JString given) \<Rightarrow>
            let resource = trimAsciiWhitespace given in
            if resource = [] then metadata_error ''Protected resource metadata.resource must not be empty''
            else
              bindE (parse_discovery_url resource True) (\<lambda>url.
                if du_scheme url \<noteq> ''https''
                then metadata_error ''Protected resource metadata.resource must use HTTPS''
                else
                  (case jget j ''authorization_servers'' of
                     None \<Rightarrow> metadata_error
                       ''Protected resource metadata.authorization_servers must be present for MCP authorization''
                   | Some servers \<Rightarrow>
                       bindE (parseStringArray servers ''authorization_servers'') (\<lambda>issuers.
                         if issuers = []
                         then metadata_error
                           ''Protected resource metadata.authorization_servers must contain at least one issuer''
                         else
                           let metadata = \<lparr>rm_resource = canonicalResourceIdentifier url,
                                 rm_authorizationServers = issuers, rm_scopesSupported = None\<rparr>
                           in
                           (case jget j ''scopes_supported'' of
                              None \<Rightarrow> Inr metadata
                            | Some v \<Rightarrow>
                                bindE (parseStringArray v ''scopes_supported'') (\<lambda>given.
                                  let scopes = sanitize_scopes given in
                                  Inr (if scopes = [] then metadata
                                       else metadata\<lparr>rm_scopesSupported := Some scopes\<rparr>))))))
        | _ \<Rightarrow> metadata_error ''Protected resource metadata.resource must be a string''))"

definition parseAuthorizationServerMetadata ::
  "(string \<Rightarrow> string + json) \<Rightarrow> string \<Rightarrow> discovery_failure + server_metadata" where
  "parseAuthorizationServerMetadata parse document =
     bindE (parseJsonObject parse document ''Authorization server metadata'') (\<lambda>j.
       (case jget j ''issuer'' of
          Some (JString given) \<Rightarrow>
            let issuer = trimAsciiWhitespace given in
            if issuer = [] then metadata_error ''Authorization server metadata.issuer must not be empty''
            else
              bindE (parse_discovery_url issuer False) (\<lambda>url.
                if du_scheme url \<noteq> ''https'' then metadata_error ''Authorization server metadata.issuer must use HTTPS''
                else
                  bindE (parseOptionalString j ''authorization_endpoint'') (\<lambda>authorization.
                  bindE (parseOptionalString j ''token_endpoint'') (\<lambda>token.
                  bindE (parseOptionalString j ''registration_endpoint'') (\<lambda>registration.
                  bindE (case jget j ''code_challenge_methods_supported'' of
                           None \<Rightarrow> Inr []
                         | Some v \<Rightarrow> parseStringArray v ''code_challenge_methods_supported'') (\<lambda>methods.
                    let metadata = (\<lambda>supported. Inr \<lparr>sm_issuer = canonicalIssuerIdentifier url,
                          sm_authorizationEndpoint = authorization, sm_tokenEndpoint = token,
                          sm_registrationEndpoint = registration, sm_codeChallengeMethods = methods,
                          sm_clientIdDocumentSupported = supported\<rparr>)
                    in
                    (case jget j ''client_id_metadata_document_supported'' of
                       None \<Rightarrow> metadata False
                     | Some (JBool b) \<Rightarrow> metadata b
                     | Some _ \<Rightarrow> metadata_error (''Authorization server metadata.''
                         @ ''client_id_metadata_document_supported must be a boolean when present'')))))))
        | _ \<Rightarrow> metadata_error ''Authorization server metadata.issuer must be a string''))"

section \<open>Discovery\<close>

definition buildPathBasedProtectedResourceMetadataUrl :: "discovery_url \<Rightarrow> string" where
  "buildPathBasedProtectedResourceMetadataUrl url =
     (let path = normalize_path (du_path url) in
      if path = ''/'' then originForUrl url @ ''/.well-known/oauth-protected-resource''
      else originForUrl url @ ''/.well-known/oauth-protected-resource'' @ path)"

definition buildRootProtectedResourceMetadataUrl :: "discovery_url \<Rightarrow> string" where
  "buildRootProtectedResourceMetadataUrl url = originForUrl url @ ''/.well-known/oauth-protected-resource''"

fun select_issuer :: "string list \<Rightarrow> discovery_failure + string" where
  "select_issuer [] =
     metadata_error ''Protected resource metadata did not contain a usable HTTPS authorization server issuer''"
| "select_issuer (candidate # candidates) =
     (case parse_discovery_url candidate False of
        Inl (DiscoveryError _ _) \<Rightarrow> select_issuer candidates
      | Inl e \<Rightarrow> Inl e
      | Inr url \<Rightarrow>
          if du_scheme url \<noteq> ''https'' then select_issuer candidates else Inr (canonicalIssuerIdentifier url))"

definition selectAuthorizationServer :: "resource_metadata \<Rightarrow> discovery_failure + string" where
  "selectAuthorizationServer metadata = select_issuer (rm_authorizationServers metadata)"

definition buildAuthorizationServerMetadataCandidateUrls :: "string \<Rightarrow> discovery_failure + string list" where
  "buildAuthorizationServerMetadataCandidateUrls issuer =
     bindE (parse_discovery_url issuer False) (\<lambda>url.
       let path = normalize_path (du_path url) in
       Inr (if path = ''/''
            then [originForUrl url @ ''/.well-known/oauth-authorization-server'',
                  originForUrl url @ ''/.well-known/openid-configuration'']
            else [originForUrl url @ ''/.well-known/oauth-authorization-server'' @ path,
                  originForUrl url @ ''/.well-known/openid-configuration'' @ path,
                  originForUrl url @ path @ ''/.well-known/openid-configuration'']))"

definition selectScopesForAuthorization :: "bearer_challenge list \<Rightarrow> resource_metadata \<Rightarrow> string list option" where
  "selectScopesForAuthorization challenges metadata =
     (let offered = (\<lambda>c. case bc_scope c of None \<Rightarrow> [] | Some text \<Rightarrow> sanitize_scopes (parseScopeString text)) in
      (case find (\<lambda>c. offered c \<noteq> []) challenges of
         Some c \<Rightarrow> Some (offered c)
       | None \<Rightarrow>
           (case rm_scopesSupported metadata of
              None \<Rightarrow> None
            | Some scopes \<Rightarrow> if sanitize_scopes scopes = [] then None else Some (sanitize_scopes scopes))))"

text \<open>What the discovery runs with: the request, with the fetcher and the resolver it chose.\<close>

record discovery_env =
  de_asio :: asio_env
  de_parse :: "string \<Rightarrow> string + json"
  de_fetcher :: http_fetcher
  de_resolver :: dns_resolver
  de_policy :: security_policy

record discovery_result =
  ds_bearerChallenges :: "bearer_challenge list"
  ds_selectedBearerChallenge :: "bearer_challenge option"
  ds_resourceMetadataUrl :: string
  ds_resourceMetadata :: resource_metadata
  ds_selectedServer :: string
  ds_serverMetadataUrl :: string
  ds_serverMetadata :: server_metadata
  ds_selectedScopes :: "string list option"

definition discovery_get :: "discovery_env \<Rightarrow> string \<Rightarrow> discovery_event list \<Rightarrow> discovery_response logged" where
  "discovery_get d url past = executeDiscoveryGet (de_asio d) (de_fetcher d) (de_resolver d) (de_policy d) url past"

text \<open>The two loops over candidate URLs: the URL that answered, and its metadata.\<close>

fun probe_resource ::
  "discovery_env \<Rightarrow> string list \<Rightarrow> discovery_event list \<Rightarrow> (string \<times> resource_metadata) logged" where
  "probe_resource d [] past =
     (Inl (DiscoveryError kNotFound
        ''Protected resource metadata could not be discovered from RFC9728 well-known URLs''), past)"
| "probe_resource d (url # urls) past =
     and_then (discovery_get d url past) (\<lambda>response past.
       if dr_statusCode response = 404 then probe_resource d urls past
       else if dr_statusCode response \<noteq> 200
       then (Inl (DiscoveryError kNetworkFailure
              ''Protected resource metadata fetch failed while probing RFC9728 well-known URLs''), past)
       else (bindE (parseProtectedResourceMetadata (de_parse d) (dr_body response)) (\<lambda>m. Inr (url, m)), past))"

fun probe_issuer ::
  "discovery_env \<Rightarrow> string \<Rightarrow> string list \<Rightarrow> discovery_event list \<Rightarrow> (string \<times> server_metadata) logged" where
  "probe_issuer d issuer [] past =
     (Inl (DiscoveryError kNotFound
        ''Authorization server metadata discovery failed for every RFC8414/OIDC candidate endpoint''), past)"
| "probe_issuer d issuer (url # urls) past =
     and_then (discovery_get d url past) (\<lambda>response past.
       if dr_statusCode response = 404 then probe_issuer d issuer urls past
       else if dr_statusCode response \<noteq> 200 then probe_issuer d issuer urls past
       else
         (case parseAuthorizationServerMetadata (de_parse d) (dr_body response) of
            Inl (DiscoveryError _ _) \<Rightarrow> probe_issuer d issuer urls past
          | Inl e \<Rightarrow> (Inl e, past)
          | Inr m \<Rightarrow> if sm_issuer m \<noteq> issuer then probe_issuer d issuer urls past else (Inr (url, m), past)))"

definition resource_metadata_for ::
  "discovery_env \<Rightarrow> discovery_url \<Rightarrow> bearer_challenge list \<Rightarrow> discovery_event list \<Rightarrow>
   (string \<times> resource_metadata) logged" where
  "resource_metadata_for d endpoint challenges past =
     (case firstResourceMetadataChallenge challenges of
        Some c \<Rightarrow>
          let url = trimAsciiWhitespace (the (bc_resourceMetadata c)) in
          if url = []
          then (Inl (DiscoveryError kInvalidInput ''WWW-Authenticate resource_metadata must not be empty''), past)
          else
            and_then (discovery_get d url past) (\<lambda>response past.
              if dr_statusCode response \<noteq> 200
              then (Inl (DiscoveryError kNotFound
                     ''Protected resource metadata fetch failed using WWW-Authenticate resource_metadata URL''), past)
              else (bindE (parseProtectedResourceMetadata (de_parse d) (dr_body response)) (\<lambda>m. Inr (url, m)), past))
      | None \<Rightarrow>
          probe_resource d [buildPathBasedProtectedResourceMetadataUrl endpoint,
            buildRootProtectedResourceMetadataUrl endpoint] past)"

definition discoverAuthorizationMetadata ::
  "discovery_env \<Rightarrow> string \<Rightarrow> string list \<Rightarrow> discovery_event list \<Rightarrow> discovery_result logged" where
  "discoverAuthorizationMetadata d mcpEndpointUrl wwwAuthenticate past =
     (if trimAsciiWhitespace mcpEndpointUrl = []
      then (Inl (DiscoveryError kInvalidInput ''Authorization discovery requires a non-empty MCP endpoint URL''), past)
      else
        and_then (parse_discovery_url mcpEndpointUrl True, past) (\<lambda>endpoint past.
        if sp_requireHttps (de_policy d) \<and> du_scheme endpoint \<noteq> ''https''
        then (Inl (DiscoveryError kSecurityPolicyViolation
               ''Authorization discovery requires an HTTPS MCP endpoint URL''), past)
        else
          let challenges = parseBearerWwwAuthenticateChallenges wwwAuthenticate;
              selected =
                (case firstResourceMetadataChallenge challenges of
                   Some c \<Rightarrow> Some c
                 | None \<Rightarrow> (case challenges of [] \<Rightarrow> None | c # _ \<Rightarrow> Some c))
          in
          and_then (resource_metadata_for d endpoint challenges past) (\<lambda>(resourceUrl, resource) past.
          if rm_resource resource \<noteq> canonicalResourceIdentifier endpoint
          then (metadata_error ''Protected resource metadata.resource does not match the MCP endpoint URL'', past)
          else
            and_then (selectAuthorizationServer resource, past) (\<lambda>issuer past.
            and_then (buildAuthorizationServerMetadataCandidateUrls issuer, past) (\<lambda>candidates past.
            and_then (probe_issuer d issuer candidates past) (\<lambda>(serverUrl, server) past.
              (Inr \<lparr>ds_bearerChallenges = challenges, ds_selectedBearerChallenge = selected,
                 ds_resourceMetadataUrl = resourceUrl, ds_resourceMetadata = resource, ds_selectedServer = issuer,
                 ds_serverMetadataUrl = serverUrl, ds_serverMetadata = server,
                 ds_selectedScopes = selectScopesForAuthorization challenges resource\<rparr>, past)))))))"

end
