(* ===== verification/DiscoverySpec.thy ===== *)
theory DiscoverySpec
  imports Discovery "HOL-Library.Sublist"
begin

text \<open>
  What the discovery of an authorization server promises: which URLs it fetches and how many, what the
  metadata it returns says, which addresses it blocks and how it reads the challenges of the server.
\<close>

section \<open>Steps of the log\<close>

text \<open>
  A host that may be connected to: not a name of this machine, and an address that is not blocked, or
  a name that the resolver was asked for last and answered with addresses that are not blocked.
\<close>

definition public_addresses :: "asio_env \<Rightarrow> string list \<Rightarrow> bool" where
  "public_addresses asio ts \<longleftrightarrow> list_all (\<lambda>t. case make_address asio t of Some a \<Rightarrow> \<not> isBlockedAddress asio a | None \<Rightarrow> False) ts"

definition public_host :: "discovery_env \<Rightarrow> string \<Rightarrow> discovery_event list \<Rightarrow> bool" where
  "public_host d host past \<longleftrightarrow>
     host \<noteq> ''localhost'' \<and> \<not> endsWithIgnoreCase host ''.localhost'' \<and>
     (case make_address (de_asio d) host of
        Some a \<Rightarrow> \<not> isBlockedAddress (de_asio d) a
      | None \<Rightarrow>
          past \<noteq> [] \<and> last past = Resolved host \<and>
          (case de_resolver d (butlast past) host of
             Inl _ \<Rightarrow> False
           | Inr addresses \<Rightarrow> addresses \<noteq> [] \<and> public_addresses (de_asio d) addresses))"

definition vetted :: "discovery_env \<Rightarrow> discovery_url \<Rightarrow> discovery_event list \<Rightarrow> bool" where
  "vetted d url past \<longleftrightarrow>
     (sp_requireHttps (de_policy d) \<longrightarrow> du_scheme url = ''https'') \<and>
     (sp_allowPrivateAndLocalAddresses (de_policy d) \<or> public_host d (du_host url) past)"

lemma check_resolved_public: "check_resolved asio ts = Inr () \<longleftrightarrow> public_addresses asio ts"
  by (induction ts) (auto simp: public_addresses_def split: option.splits)

lemma and_then_cases:
  assumes "and_then r f = (res, past)"
  obtains (fails) e where "r = (Inl e, past)" "res = Inl e"
  | (goes_on) x mid where "r = (Inr x, mid)" "f x mid = (res, past)"
  using assms by (auto simp: and_then_def split: prod.splits sum.splits)

lemma validate_steps:
  assumes "validateHostAddressability (de_asio d) (de_resolver d) (de_policy d) url past = (res, past')"
  shows "past' = past \<or> past' = past @ [Resolved (du_host url)]"
    and "res = Inr () \<Longrightarrow> sp_allowPrivateAndLocalAddresses (de_policy d) \<or> public_host d (du_host url) past'"
  using assms
  by (auto simp: validateHostAddressability_def public_host_def and_then_def check_resolved_public
      split: if_splits option.splits sum.splits)

lemma fetch_steps:
  assumes "discovery_fetch (de_asio d) (de_fetcher d) (de_resolver d) (de_policy d) url past = (res, past')"
  obtains (refused) e where "res = Inl e" "past' = past \<or> past' = past @ [Resolved (du_host url)]"
  | (sent) mid where "past' = mid @ [Fetched (serializeUrl url)]" "mid = past \<or> mid = past @ [Resolved (du_host url)]"
      "vetted d url mid"
proof (cases "sp_requireHttps (de_policy d) \<and> du_scheme url \<noteq> ''https''")
  case True
  then show ?thesis using assms refused by (auto simp: discovery_fetch_def)
next
  case False
  then have "and_then (validateHostAddressability (de_asio d) (de_resolver d) (de_policy d) url past)
      (\<lambda>_ past. (de_fetcher d past \<lparr>dq_method = ''GET'', dq_url = serializeUrl url, dq_headers = []\<rparr>,
        past @ [Fetched (serializeUrl url)])) = (res, past')"
    using assms by (simp only: discovery_fetch_def if_False)
  then show ?thesis
  proof (cases rule: and_then_cases)
    case (fails e)
    then show ?thesis using refused validate_steps(1) by blast
  next
    case (goes_on x mid)
    then have "vetted d url mid" using False validate_steps(2) [of d url past "Inr ()" mid] by (auto simp: vetted_def)
    then show ?thesis using sent [of mid] goes_on validate_steps(1) [of d url past "Inr x" mid] by auto
  qed
qed

text \<open>A statement about the log that every resolution and every fetch of a vetted URL keeps.\<close>

locale discovery_log =
  fixes d :: discovery_env and P :: "discovery_event list \<Rightarrow> bool"
  assumes resolved: "P past \<Longrightarrow> P (past @ [Resolved host])"
    and fetched: "P past \<Longrightarrow> vetted d url past \<Longrightarrow> P (past @ [Fetched (serializeUrl url)])"
begin

lemma after_and_then:
  assumes "P (snd r)" and "\<And>x mid. r = (Inr x, mid) \<Longrightarrow> P mid \<Longrightarrow> P (snd (f x mid))"
  shows "P (snd (and_then r f))"
  using assms by (cases r) (auto simp: and_then_def split: sum.splits)

lemma after_fetch:
  assumes "discovery_fetch (de_asio d) (de_fetcher d) (de_resolver d) (de_policy d) url past = (res, past')" "P past"
  shows "P past'"
  using assms(1)
proof (cases rule: fetch_steps)
  case (refused e)
  then show ?thesis using assms(2) resolved by auto
next
  case (sent mid)
  then show ?thesis using assms(2) resolved fetched by metis
qed

lemma after_loop:
  "P past \<Longrightarrow> P (snd (discovery_loop (de_asio d) (de_fetcher d) (de_resolver d) (de_policy d) redirects url past))"
proof (induction "sp_maxRedirects (de_policy d) - redirects" arbitrary: redirects url past rule: less_induct)
  case less
  obtain res mid where fetch:
    "discovery_fetch (de_asio d) (de_fetcher d) (de_resolver d) (de_policy d) url past = (res, mid)" by fastforce
  then have "P mid" using after_fetch less.prems by blast
  moreover have "P (snd (discovery_loop (de_asio d) (de_fetcher d) (de_resolver d) (de_policy d) (redirects + 1) target mid))"
    if "redirect_target (de_policy d) redirects url response = Inr target" for target response
    using less.hyps [of "redirects + 1" mid target] redirect_target_limit [OF that] \<open>P mid\<close> by simp
  ultimately show ?case
    by (subst discovery_loop.simps) (simp add: fetch split: sum.splits)
qed

lemma after_get: "P past \<Longrightarrow> P (snd (discovery_get d url past))"
  by (auto simp: discovery_get_def executeDiscoveryGet_def after_loop split: sum.splits)

lemma after_probe_resource: "P past \<Longrightarrow> P (snd (probe_resource d urls past))"
proof (induction urls arbitrary: past)
  case (Cons url urls)
  show ?case unfolding probe_resource.simps
    by (rule after_and_then) (use Cons after_get in \<open>auto split: sum.splits\<close>)
qed simp

lemma after_probe_issuer: "P past \<Longrightarrow> P (snd (probe_issuer d issuer urls past))"
proof (induction urls arbitrary: past)
  case (Cons url urls)
  show ?case unfolding probe_issuer.simps
    by (rule after_and_then) (use Cons after_get in \<open>auto split: sum.splits discovery_failure.splits\<close>)
qed simp

lemma after_resource: "P past \<Longrightarrow> P (snd (resource_metadata_for d endpoint challenges past))"
  by (auto simp: resource_metadata_for_def Let_def intro!: after_probe_resource after_and_then after_get split: option.splits)

lemma after_discovery: "P past \<Longrightarrow> P (snd (discoverAuthorizationMetadata d url headers past))"
  by (auto simp: discoverAuthorizationMetadata_def Let_def intro!: after_and_then after_resource after_probe_issuer
      split: prod.splits)

end

definition log_vetted :: "discovery_env \<Rightarrow> discovery_event list \<Rightarrow> bool" where
  "log_vetted d past \<longleftrightarrow>
     (\<forall>i < length past. \<forall>u. past ! i = Fetched u \<longrightarrow> (\<exists>url. u = serializeUrl url \<and> vetted d url (take i past)))"

lemma log_vetted_snoc:
  "log_vetted d (past @ [e]) \<longleftrightarrow>
     log_vetted d past \<and> (\<forall>u. e = Fetched u \<longrightarrow> (\<exists>url. u = serializeUrl url \<and> vetted d url past))"
  by (auto simp: log_vetted_def nth_append less_Suc_eq)

interpretation vetting: discovery_log d "log_vetted d" for d
  by unfold_locales (auto simp: log_vetted_snoc)

interpretation extending: discovery_log d "prefix start" for d start
  by unfold_locales (auto intro: prefix_prefix)

section \<open>How much is fetched, and from where\<close>

definition fetched_urls :: "discovery_event list \<Rightarrow> string list" where
  "fetched_urls past = concat (map (\<lambda>e. case e of Fetched u \<Rightarrow> [u] | Resolved _ \<Rightarrow> []) past)"

lemma fetched_urls_simps [simp]:
  "fetched_urls [] = []" "fetched_urls (past @ past') = fetched_urls past @ fetched_urls past'"
  "fetched_urls (Fetched u # past) = u # fetched_urls past" "fetched_urls (Resolved host # past) = fetched_urls past"
  by (simp_all add: fetched_urls_def)

text \<open>What one \<open>GET\<close> fetches: from where it starts on, at most a number of URLs, all of an origin.\<close>

definition fetches_of :: "discovery_env \<Rightarrow> nat \<Rightarrow> string \<Rightarrow> discovery_event list \<Rightarrow> bool" where
  "fetches_of d n origin new \<longleftrightarrow>
     length (fetched_urls new) \<le> n \<and>
     (sp_requireSameOriginRedirects (de_policy d) \<longrightarrow>
        (\<forall>u \<in> set (fetched_urls new). \<exists>url. u = serializeUrl url \<and> originForUrl url = origin))"

lemma fetch_fetches:
  assumes "discovery_fetch (de_asio d) (de_fetcher d) (de_resolver d) (de_policy d) url past = (res, past')"
  shows "\<exists>new. past' = past @ new \<and> fetches_of d 1 (originForUrl url) new"
  using assms by (cases rule: fetch_steps) (auto simp: fetches_of_def)

lemma redirect_target_origin:
  "redirect_target policy redirects url response = Inr target \<Longrightarrow> sp_requireSameOriginRedirects policy \<Longrightarrow>
   originForUrl target = originForUrl url"
  by (auto simp: redirect_target_def bindE_def split: if_splits option.splits sum.splits)

lemma fetches_of_append:
  "fetches_of d m origin new \<Longrightarrow> fetches_of d n origin' new' \<Longrightarrow>
   (sp_requireSameOriginRedirects (de_policy d) \<Longrightarrow> origin' = origin) \<Longrightarrow> fetches_of d (m + n) origin (new @ new')"
  by (auto simp: fetches_of_def)

lemma fetches_of_mono: "fetches_of d m origin new \<Longrightarrow> m \<le> n \<Longrightarrow> fetches_of d n origin new"
  by (auto simp: fetches_of_def)

lemma loop_fetches:
  "redirects \<le> sp_maxRedirects (de_policy d) \<Longrightarrow>
   discovery_loop (de_asio d) (de_fetcher d) (de_resolver d) (de_policy d) redirects url past = (res, past') \<Longrightarrow>
   \<exists>new. past' = past @ new \<and> fetches_of d (Suc (sp_maxRedirects (de_policy d) - redirects)) (originForUrl url) new"
proof (induction "sp_maxRedirects (de_policy d) - redirects" arbitrary: redirects url past rule: less_induct)
  case less
  obtain ans mid where fetch:
    "discovery_fetch (de_asio d) (de_fetcher d) (de_resolver d) (de_policy d) url past = (ans, mid)" by fastforce
  then obtain new where new: "mid = past @ new" "fetches_of d 1 (originForUrl url) new" using fetch_fetches by blast
  consider (stops) "past' = mid"
    | (follows) response target where "redirect_target (de_policy d) redirects url response = Inr target"
        "discovery_loop (de_asio d) (de_fetcher d) (de_resolver d) (de_policy d) (redirects + 1) target mid = (res, past')"
    using less.prems(2) by (subst (asm) discovery_loop.simps) (auto simp: fetch split: sum.splits if_splits)
  then show ?case
  proof cases
    case stops
    then show ?thesis using new fetches_of_mono by fastforce
  next
    case follows
    note below = redirect_target_limit [OF follows(1)]
    then obtain new' where new': "past' = mid @ new'"
        "fetches_of d (Suc (sp_maxRedirects (de_policy d) - (redirects + 1))) (originForUrl target) new'"
      using less.hyps [OF diff_less_mono2 _ follows(2)] by auto
    have "fetches_of d (1 + Suc (sp_maxRedirects (de_policy d) - (redirects + 1))) (originForUrl url) (new @ new')"
      by (rule fetches_of_append [OF new(2) new'(2)]) (rule redirect_target_origin [OF follows(1)])
    then show ?thesis using new(1) new'(1) fetches_of_mono below by fastforce
  qed
qed

text \<open>C30. One \<open>GET\<close> of the discovery fetches at most the configured number of redirects and one more
  URL, and when redirects must keep the origin, all of them have the origin of the first.\<close>

theorem redirects_stay_on_their_origin:
  fixes d :: discovery_env
  assumes "executeDiscoveryGet (de_asio d) (de_fetcher d) (de_resolver d) (de_policy d) text past = (res, past')"
  shows "\<exists>new. past' = past @ new \<and> length (fetched_urls new) \<le> sp_maxRedirects (de_policy d) + 1 \<and>
     (sp_requireSameOriginRedirects (de_policy d) \<longrightarrow>
        (\<forall>u \<in> set (fetched_urls new). \<exists>first url.
           parse_discovery_url text True = Inr first \<and> u = serializeUrl url \<and> originForUrl url = originForUrl first))"
proof (cases "parse_discovery_url text True")
  case (Inl e)
  then show ?thesis using assms by (simp add: executeDiscoveryGet_def)
next
  case (Inr first)
  then have "discovery_loop (de_asio d) (de_fetcher d) (de_resolver d) (de_policy d) 0 first past = (res, past')"
    using assms by (simp add: executeDiscoveryGet_def)
  from loop_fetches [OF _ this] show ?thesis using Inr by (auto simp: fetches_of_def)
qed

lemma get_fetches:
  fixes d :: discovery_env
  shows "length (fetched_urls (snd (discovery_get d text past)))
     \<le> length (fetched_urls past) + (sp_maxRedirects (de_policy d) + 1)"
proof (cases "parse_discovery_url text True")
  case (Inl e)
  then show ?thesis by (simp add: discovery_get_def executeDiscoveryGet_def)
next
  case (Inr first)
  obtain res past' where "discovery_loop (de_asio d) (de_fetcher d) (de_resolver d) (de_policy d) 0 first past = (res, past')"
    by fastforce
  with loop_fetches [OF _ this] Inr show ?thesis
    by (auto simp: discovery_get_def executeDiscoveryGet_def fetches_of_def)
qed

text \<open>The fetches of two computations, one after the other.\<close>

lemma and_then_fetches:
  assumes "length (fetched_urls (snd r)) \<le> m"
    and "\<And>x mid. r = (Inr x, mid) \<Longrightarrow> length (fetched_urls mid) \<le> m \<Longrightarrow> length (fetched_urls (snd (f x mid))) \<le> n"
    and "m \<le> n"
  shows "length (fetched_urls (snd (and_then r f))) \<le> n"
  using assms by (cases r) (auto simp: and_then_def split: sum.splits)

lemma probe_resource_fetches:
  "length (fetched_urls (snd (probe_resource d urls past)))
     \<le> length (fetched_urls past) + length urls * (sp_maxRedirects (de_policy d) + 1)"
proof (induction urls arbitrary: past)
  case (Cons url urls)
  have tail: "length (fetched_urls (snd (probe_resource d urls mid)))
      \<le> length (fetched_urls past) + length (url # urls) * (sp_maxRedirects (de_policy d) + 1)"
    if "length (fetched_urls mid) \<le> length (fetched_urls past) + (sp_maxRedirects (de_policy d) + 1)" for mid
    using Cons [of mid] that by simp
  show ?case unfolding probe_resource.simps
    by (rule and_then_fetches [OF get_fetches]) (use tail in \<open>auto split: sum.splits\<close>)
qed simp

lemma probe_issuer_fetches:
  "length (fetched_urls (snd (probe_issuer d issuer urls past)))
     \<le> length (fetched_urls past) + length urls * (sp_maxRedirects (de_policy d) + 1)"
proof (induction urls arbitrary: past)
  case (Cons url urls)
  have tail: "length (fetched_urls (snd (probe_issuer d issuer urls mid)))
      \<le> length (fetched_urls past) + length (url # urls) * (sp_maxRedirects (de_policy d) + 1)"
    if "length (fetched_urls mid) \<le> length (fetched_urls past) + (sp_maxRedirects (de_policy d) + 1)" for mid
    using Cons [of mid] that by simp
  show ?case unfolding probe_issuer.simps
    by (rule and_then_fetches [OF get_fetches]) (use tail in \<open>auto split: sum.splits discovery_failure.splits\<close>)
qed simp

lemma resource_fetches:
  "length (fetched_urls (snd (resource_metadata_for d endpoint challenges past)))
     \<le> length (fetched_urls past) + 2 * (sp_maxRedirects (de_policy d) + 1)"
proof (cases "firstResourceMetadataChallenge challenges")
  case None
  then show ?thesis using probe_resource_fetches [of d "[buildPathBasedProtectedResourceMetadataUrl endpoint,
      buildRootProtectedResourceMetadataUrl endpoint]" past]
    by (simp add: resource_metadata_for_def)
next
  case (Some c)
  then show ?thesis
    by (auto simp: resource_metadata_for_def Let_def intro!: and_then_fetches [OF get_fetches])
qed

lemma candidates_number:
  "buildAuthorizationServerMetadataCandidateUrls issuer = Inr urls \<Longrightarrow> length urls \<le> 3"
  by (auto simp: buildAuthorizationServerMetadataCandidateUrls_def bindE_def Let_def split: sum.splits if_splits)

lemma issuer_fetches:
  assumes "buildAuthorizationServerMetadataCandidateUrls issuer = Inr urls"
  shows "length (fetched_urls (snd (probe_issuer d issuer urls past)))
     \<le> length (fetched_urls past) + 3 * (sp_maxRedirects (de_policy d) + 1)"
proof -
  have "length urls * (sp_maxRedirects (de_policy d) + 1) \<le> 3 * (sp_maxRedirects (de_policy d) + 1)"
    using candidates_number [OF assms] by (rule mult_le_mono1)
  then show ?thesis using probe_issuer_fetches [of d issuer urls past] by linarith
qed

text \<open>Whatever the servers and the resolver answer, the loops of a discovery end, and it fetches at
  most five times the configured number of redirects and one more URL: two tries for the metadata of
  the resource, three for those of the server.\<close>

theorem discovery_is_bounded:
  "case discoverAuthorizationMetadata d endpoint headers [] of (res, past) \<Rightarrow>
     length (fetched_urls past) \<le> 5 * (sp_maxRedirects (de_policy d) + 1)"
proof -
  let ?k = "sp_maxRedirects (de_policy d) + 1"
  have "length (fetched_urls (snd (discoverAuthorizationMetadata d endpoint headers []))) \<le> 5 * ?k"
  proof (cases "parse_discovery_url endpoint True")
    case (Inl e)
    then show ?thesis by (auto simp: discoverAuthorizationMetadata_def and_then_def)
  next
    case (Inr url)
    let ?r = "resource_metadata_for d url (parseBearerWwwAuthenticateChallenges headers) []"
    have r: "length (fetched_urls (snd ?r)) \<le> 2 * ?k" using resource_fetches [of d url _ "[]"] by simp
    have issuer: "length (fetched_urls (snd (probe_issuer d issuer urls mid))) \<le> 5 * ?k"
      if "length (fetched_urls mid) \<le> 2 * ?k" "buildAuthorizationServerMetadataCandidateUrls issuer = Inr urls" for mid issuer urls
      using issuer_fetches [OF that(2), of d mid] that(1) by linarith
    show ?thesis unfolding discoverAuthorizationMetadata_def Inr Let_def
      by (auto simp: and_then_def [of "(_ :: _ + _, [])"] and_then_def [of "(_ :: _ + string, _)"]
            and_then_def [of "(_ :: _ + string list, _)"]
          intro!: and_then_fetches [OF r] and_then_fetches [OF issuer] split: sum.splits prod.splits)
  qed
  then show ?thesis by (simp add: case_prod_beta)
qed

section \<open>What is fetched\<close>

text \<open>C25. Every URL that a discovery fetches, redirects included, was checked right before: it is an
  HTTPS URL when the policy requires one, and unless the policy allows local addresses its host is not
  a name of this machine and is an address that is not blocked, or a name for which the resolver had
  just answered one or more addresses, none of them blocked.\<close>

theorem discovery_fetches_checked_urls:
  fixes d :: discovery_env
  assumes "discoverAuthorizationMetadata d endpoint headers [] = (res, before @ Fetched u # after)"
  shows "\<exists>url. u = serializeUrl url \<and> (sp_requireHttps (de_policy d) \<longrightarrow> du_scheme url = ''https'') \<and>
     (sp_allowPrivateAndLocalAddresses (de_policy d) \<or>
        du_host url \<noteq> ''localhost'' \<and> \<not> endsWithIgnoreCase (du_host url) ''.localhost'' \<and>
        (case make_address (de_asio d) (du_host url) of
           Some a \<Rightarrow> \<not> isBlockedAddress (de_asio d) a
         | None \<Rightarrow> \<exists>earlier addresses. before = earlier @ [Resolved (du_host url)]
             \<and> de_resolver d earlier (du_host url) = Inr addresses \<and> addresses \<noteq> []
             \<and> (\<forall>t \<in> set addresses. \<exists>a. make_address (de_asio d) t = Some a \<and> \<not> isBlockedAddress (de_asio d) a)))"
proof -
  have "log_vetted d (before @ Fetched u # after)"
    using vetting.after_discovery [of d "[]" endpoint headers] assms by (simp add: log_vetted_def)
  then obtain url where url: "u = serializeUrl url" "vetted d url before"
    unfolding log_vetted_def by (force dest: spec [of _ "length before"])
  have "\<exists>earlier addresses. before = earlier @ [Resolved h] \<and> de_resolver d earlier h = Inr addresses \<and> addresses \<noteq> []
      \<and> (\<forall>t \<in> set addresses. \<exists>a. make_address (de_asio d) t = Some a \<and> \<not> isBlockedAddress (de_asio d) a)"
    if "before \<noteq> []" "last before = Resolved h" "de_resolver d (butlast before) h = Inr addresses"
      "addresses \<noteq> []" "public_addresses (de_asio d) addresses" for h addresses
    using that append_butlast_last_id [of before] by (intro exI [of _ "butlast before"] exI [of _ addresses])
      (auto simp: public_addresses_def list_all_iff split: option.splits)
  then show ?thesis using url
    by (intro exI [of _ url]) (auto simp: vetted_def public_host_def split: option.splits sum.splits)
qed

section \<open>What is returned\<close>

text \<open>A document that was fetched: the body of an answer with status 200 to a request for the URL.\<close>

definition document_at :: "discovery_env \<Rightarrow> string \<Rightarrow> string \<Rightarrow> bool" where
  "document_at d url body \<longleftrightarrow>
     (\<exists>past past' response. discovery_get d url past = (Inr response, past') \<and> dr_statusCode response = 200 \<and>
        dr_body response = body)"

lemma bindE_pair:
  assumes "bindE (f body) (\<lambda>m. Inr (url', m)) = Inr (url, m)"
  shows "url = url' \<and> f body = Inr m"
  using assms by (auto simp: bindE_def split: sum.splits)

lemma document_atI:
  "discovery_get d url past = (Inr response, past') \<Longrightarrow> dr_statusCode response = 200 \<Longrightarrow> document_at d url (dr_body response)"
  by (auto simp: document_at_def)

lemma probe_issuer_result:
  "probe_issuer d issuer urls past = (Inr (url, m), past') \<Longrightarrow>
   url \<in> set urls \<and> sm_issuer m = issuer \<and>
     (\<exists>body. document_at d url body \<and> parseAuthorizationServerMetadata (de_parse d) body = Inr m)"
proof (induction urls arbitrary: past)
  case (Cons u urls)
  then show ?case unfolding probe_issuer.simps
    by (elim and_then_cases)
      (auto dest: Cons.IH intro: document_atI split: if_splits sum.splits discovery_failure.splits)
qed simp

lemma probe_resource_result:
  "probe_resource d urls past = (Inr (url, m), past') \<Longrightarrow>
   \<exists>body. document_at d url body \<and> parseProtectedResourceMetadata (de_parse d) body = Inr m"
proof (induction urls arbitrary: past)
  case (Cons u urls)
  then show ?case unfolding probe_resource.simps
    by (elim and_then_cases)
      (auto dest: Cons.IH dest!: bindE_pair intro: document_atI split: if_splits)
qed simp

lemma resource_metadata_result:
  assumes "resource_metadata_for d endpoint challenges past = (Inr (url, m), past')"
  shows "\<exists>body. document_at d url body \<and> parseProtectedResourceMetadata (de_parse d) body = Inr m"
  using assms unfolding resource_metadata_for_def Let_def
  by (auto simp del: probe_resource.simps dest!: bindE_pair dest: probe_resource_result
      elim!: and_then_cases split: option.splits if_splits) (metis document_atI)

lemma select_issuer_result:
  "select_issuer candidates = Inr issuer \<Longrightarrow>
   \<exists>candidate url. candidate \<in> set candidates \<and> parse_discovery_url candidate False = Inr url \<and>
     du_scheme url = ''https'' \<and> issuer = canonicalIssuerIdentifier url"
  by (induction candidates) (auto simp: metadata_error_def split: sum.splits discovery_failure.splits if_splits)

text \<open>C26. What a discovery returns is about the endpoint it was asked for: both metadata were read from
  bodies of answers with status 200, the resource they name is the canonical form of the endpoint, the
  selected server is the canonical form of an HTTPS issuer that the resource names, and the metadata of
  the server, fetched from a well-known URL of that issuer, name the same issuer.\<close>

theorem discovered_metadata_match_the_endpoint:
  fixes d :: discovery_env
  assumes "discoverAuthorizationMetadata d text headers [] = (Inr r, past)"
  shows "\<exists>endpoint candidate issuer candidates resource_body server_body.
     parse_discovery_url text True = Inr endpoint \<and>
     (sp_requireHttps (de_policy d) \<longrightarrow> du_scheme endpoint = ''https'') \<and>
     document_at d (ds_resourceMetadataUrl r) resource_body \<and>
     parseProtectedResourceMetadata (de_parse d) resource_body = Inr (ds_resourceMetadata r) \<and>
     rm_resource (ds_resourceMetadata r) = canonicalResourceIdentifier endpoint \<and>
     candidate \<in> set (rm_authorizationServers (ds_resourceMetadata r)) \<and>
     parse_discovery_url candidate False = Inr issuer \<and> du_scheme issuer = ''https'' \<and>
     ds_selectedServer r = canonicalIssuerIdentifier issuer \<and>
     buildAuthorizationServerMetadataCandidateUrls (ds_selectedServer r) = Inr candidates \<and>
     ds_serverMetadataUrl r \<in> set candidates \<and>
     document_at d (ds_serverMetadataUrl r) server_body \<and>
     parseAuthorizationServerMetadata (de_parse d) server_body = Inr (ds_serverMetadata r) \<and>
     sm_issuer (ds_serverMetadata r) = ds_selectedServer r"
  using assms unfolding discoverAuthorizationMetadata_def Let_def
  by (auto simp: selectAuthorizationServer_def metadata_error_def split: if_splits prod.splits elim!: and_then_cases
      dest!: resource_metadata_result probe_issuer_result select_issuer_result) blast+

end
