(* ===== verification/DiscoveryServer.thy ===== *)
theory DiscoveryServer
  imports DiscoverySpec
begin

text \<open>
  The blocked addresses as a table of networks, and the two ends of the discovery together: the client
  reads the challenges of the HTTP server back, and finds the metadata that the server publishes.
\<close>

section \<open>Blocked addresses\<close>

text \<open>The networks in the notation of RFC 6890: an address and the length of its prefix.\<close>

definition ipv4 :: "nat \<Rightarrow> nat \<Rightarrow> nat \<Rightarrow> nat \<Rightarrow> nat" where
  "ipv4 a b c d = ((a * 256 + b) * 256 + c) * 256 + d"

definition blocked_networks :: "(nat \<times> nat) list" where
  "blocked_networks =
     [(ipv4 0 0 0 0, 8), (ipv4 10 0 0 0, 8), (ipv4 127 0 0 0, 8), (ipv4 100 64 0 0, 10), (ipv4 169 254 0 0, 16),
      (ipv4 172 16 0 0, 12), (ipv4 192 168 0 0, 16), (ipv4 192 0 0 0, 24), (ipv4 192 0 2 0, 24), (ipv4 198 18 0 0, 15),
      (ipv4 198 51 100 0, 24), (ipv4 203 0 113 0, 24), (ipv4 224 0 0 0, 3)]"

definition in_network :: "nat \<Rightarrow> nat \<times> nat \<Rightarrow> bool" where
  "in_network n = (\<lambda>(net, len). n div 2 ^ (32 - len) = net div 2 ^ (32 - len))"

lemma octets:
  fixes v :: uint32
  shows "unat (drop_bit 24 (v AND 0xFF000000)) = unat v div 16777216"
    and "unat (drop_bit 16 (v AND 0x00FF0000)) = unat v div 65536 mod 256"
    and "unat (drop_bit 8 (v AND 0x0000FF00)) = unat v div 256 mod 256"
proof -
  have masks: "(0xFF000000 :: uint32) = push_bit 24 (mask 8)" "(0x00FF0000 :: uint32) = push_bit 16 (mask 8)"
    "(0x0000FF00 :: uint32) = push_bit 8 (mask 8)"
    by (simp_all add: mask_numeral push_bit_numeral_minus_1)
  have cut: "unat (drop_bit n (v AND push_bit n (mask 8))) = unat v div 2 ^ n mod 256" if "n + 8 \<le> 32" for n
  proof -
    have "drop_bit n (v AND push_bit n (mask 8)) = take_bit 8 (drop_bit n v)"
      using that by (auto intro!: bit_eqI simp: bit_simps)
    then have "unat (drop_bit n (v AND push_bit n (mask 8))) = unat (take_bit 8 (drop_bit n v))" by (rule arg_cong)
    also have "\<dots> = take_bit 8 (drop_bit n (unat v))"
    proof -
      have "unat v < 2 ^ LENGTH(32)" by (rule unsigned_less)
      then have "unat v < 2 ^ 32" by simp
      then have "take_bit 32 (unat v) = unat v" by (rule take_bit_nat_eq_self)
      then show ?thesis unfolding unsigned_take_bit_eq unsigned_drop_bit_eq by simp
    qed
    finally show ?thesis by (simp only: take_bit_eq_mod drop_bit_eq_div) simp
  qed
  have "unat v < 2 ^ LENGTH(32)" by (rule unsigned_less)
  then have "unat v div 16777216 < 256" by (simp add: less_mult_imp_div_less)
  then show "unat (drop_bit 24 (v AND 0xFF000000)) = unat v div 16777216"
    using cut [of 24] unfolding masks by simp
  show "unat (drop_bit 16 (v AND 0x00FF0000)) = unat v div 65536 mod 256" using cut [of 16] unfolding masks by simp
  show "unat (drop_bit 8 (v AND 0x0000FF00)) = unat v div 256 mod 256" using cut [of 8] unfolding masks by simp
qed

lemma blocked_octets:
  "isBlockedIpv4 v \<longleftrightarrow>
     (let a = unat v div 16777216; b = unat v div 65536 mod 256; c = unat v div 256 mod 256 in
      a = 0 \<or> a = 10 \<or> a = 127 \<or> a = 100 \<and> 64 \<le> b \<and> b \<le> 127 \<or> a = 169 \<and> b = 254 \<or> a = 172 \<and> 16 \<le> b \<and> b \<le> 31
      \<or> a = 192 \<and> b = 168 \<or> a = 192 \<and> b = 0 \<and> (c = 0 \<or> c = 2) \<or> a = 198 \<and> (b = 18 \<or> b = 19 \<or> b = 51 \<and> c = 100)
      \<or> a = 203 \<and> b = 0 \<and> c = 113 \<or> 224 \<le> a)"
proof -
  have if_or: "(if P then True else Q) \<longleftrightarrow> P \<or> Q" for P Q by simp
  show ?thesis
    unfolding isBlockedIpv4_def Let_def if_or word_unat_eq_iff word_le_nat_alt octets by (simp add: disj_assoc)
qed

lemma network_divs:
  "(\<exists>b \<in> set blocked_networks. in_network n b) \<longleftrightarrow>
     n div 16777216 = 0 \<or> n div 16777216 = 10 \<or> n div 16777216 = 127 \<or> n div 4194304 = 401 \<or> n div 65536 = 43518
     \<or> n div 1048576 = 2753 \<or> n div 65536 = 49320 \<or> n div 256 = 12582912 \<or> n div 256 = 12582914
     \<or> n div 131072 = 25353 \<or> n div 256 = 12989284 \<or> n div 256 = 13303921 \<or> n div 536870912 = 7"
  by (simp add: blocked_networks_def in_network_def ipv4_def)

lemma network_octets:
  assumes "n < 2 ^ 32"
  shows "(\<exists>b \<in> set blocked_networks. in_network n b) \<longleftrightarrow>
     (let a = n div 16777216; b = n div 65536 mod 256; c = n div 256 mod 256 in
      a = 0 \<or> a = 10 \<or> a = 127 \<or> a = 100 \<and> 64 \<le> b \<and> b \<le> 127 \<or> a = 169 \<and> b = 254 \<or> a = 172 \<and> 16 \<le> b \<and> b \<le> 31
      \<or> a = 192 \<and> b = 168 \<or> a = 192 \<and> b = 0 \<and> (c = 0 \<or> c = 2) \<or> a = 198 \<and> (b = 18 \<or> b = 19 \<or> b = 51 \<and> c = 100)
      \<or> a = 203 \<and> b = 0 \<and> c = 113 \<or> 224 \<le> a)"
proof -
  define a b c where "a = n div 16777216" "b = n div 65536 mod 256" "c = n div 256 mod 256"
  have two: "n div 65536 = a * 256 + b" by (simp add: a_b_c_def div_mult2_eq [of n 65536 256, simplified])
  have "n div 256 div 256 = n div 65536" by (simp add: div_mult2_eq [of n 256 256, simplified])
  then have three: "n div 256 = (a * 256 + b) * 256 + c" using two a_b_c_def(3) by (metis div_mult_mod_eq)
  have small: "a < 256" "b < 256" "c < 256" using assms by (simp_all add: a_b_c_def less_mult_imp_div_less)
  have four: "n div 4194304 = (a * 256 + b) div 64" "n div 1048576 = (a * 256 + b) div 16"
    "n div 131072 = (a * 256 + b) div 2"
    using div_mult2_eq [of n 65536 64] div_mult2_eq [of n 65536 16] div_mult2_eq [of n 65536 2] two by simp_all
  have one: "n div 536870912 = a div 32" using div_mult2_eq [of n 16777216 32] a_b_c_def(1) by simp
  have div_iff: "x div k = q \<longleftrightarrow> q * k \<le> x \<and> x < (q + 1) * k" if "0 < k" for x k q :: nat
  proof -
    have "x div k = q \<longleftrightarrow> q \<le> x div k \<and> x div k < q + 1" by auto
    then show ?thesis using that by (simp only: less_eq_div_iff_mult_less_eq div_less_iff_less_mult)
  qed
  have within: "x * 256 + lo \<le> a * 256 + b \<and> a * 256 + b < x * 256 + (hi + 1) \<longleftrightarrow> a = x \<and> lo \<le> b \<and> b \<le> hi"
    if "hi < 256" for x lo hi
    using small that by (cases a x rule: linorder_cases) auto
  have ranges: "(a * 256 + b) div 64 = 401 \<longleftrightarrow> a = 100 \<and> 64 \<le> b \<and> b \<le> 127"
    using within [of 127 100 64] unfolding div_iff [OF zero_less_numeral] by simp
  have ranges2: "(a * 256 + b) div 16 = 2753 \<longleftrightarrow> a = 172 \<and> 16 \<le> b \<and> b \<le> 31"
    using within [of 31 172 16] unfolding div_iff [OF zero_less_numeral] by simp
  have "18 \<le> b \<and> b \<le> 19 \<longleftrightarrow> b = 18 \<or> b = 19" by auto
  then have ranges3: "(a * 256 + b) div 2 = 25353 \<longleftrightarrow> a = 198 \<and> (b = 18 \<or> b = 19)"
    using within [of 19 198 18] unfolding div_iff [OF zero_less_numeral] by simp
  have ranges4: "a div 32 = 7 \<longleftrightarrow> 224 \<le> a"
    using small(1) unfolding div_iff [OF zero_less_numeral] by simp
  have pair: "x * 256 + y = q \<longleftrightarrow> x = q div 256 \<and> y = q mod 256" if "y < 256" for x y q :: nat
    using that div_mult_mod_eq [of q 256] by auto
  have points: "a * 256 + b = 43518 \<longleftrightarrow> a = 169 \<and> b = 254" "a * 256 + b = 49320 \<longleftrightarrow> a = 192 \<and> b = 168"
    "(a * 256 + b) * 256 + c = 12582912 \<longleftrightarrow> a = 192 \<and> b = 0 \<and> c = 0"
    "(a * 256 + b) * 256 + c = 12582914 \<longleftrightarrow> a = 192 \<and> b = 0 \<and> c = 2"
    "(a * 256 + b) * 256 + c = 12989284 \<longleftrightarrow> a = 198 \<and> b = 51 \<and> c = 100"
    "(a * 256 + b) * 256 + c = 13303921 \<longleftrightarrow> a = 203 \<and> b = 0 \<and> c = 113"
    using pair [OF small(3), of "a * 256 + b"] by (simp_all only: pair [OF small(2)]) simp_all
  have low: "(a * 256 + b) mod 256 = b" "((a * 256 + b) * 256 + c) mod 256 = c" using small by (simp_all only: mod_mult_self3 mod_less)
  show ?thesis
    unfolding network_divs four one two three low a_b_c_def(1) [symmetric] ranges ranges2 ranges3 ranges4 points Let_def
    by (simp only: conj_disj_distribL disj_assoc conj_assoc)
qed

text \<open>C29. The IPv4 addresses that the discovery refuses to connect to are exactly those of thirteen
  networks: this host, private, shared, loopback, link-local, protocol, documentation, benchmarking,
  multicast and reserved addresses, up to the broadcast address.\<close>

theorem blocked_addresses_are_the_networks:
  "isBlockedIpv4 v \<longleftrightarrow> (\<exists>network \<in> set blocked_networks. in_network (unat v) network)"
proof -
  have "unat v < 2 ^ LENGTH(32)" by (rule unsigned_less)
  then show ?thesis unfolding blocked_octets by (subst network_octets) simp_all
qed

section \<open>Challenges\<close>

lemma split_commas_quoted:
  "split_commas True False part (escapeHttpQuotedString v @ dquote # rest) =
   split_commas False False (part @ escapeHttpQuotedString v @ [dquote]) rest"
proof (induction v arbitrary: part)
  case (Cons c v)
  then show ?case by (auto simp: escapeHttpQuotedString_def dquote_def backslash_def)
qed (simp add: escapeHttpQuotedString_def dquote_def backslash_def)

lemma split_commas_plain:
  "dquote \<notin> set s \<Longrightarrow> CHR '','' \<notin> set s \<Longrightarrow> split_commas False False part (s @ rest) = split_commas False False (part @ s) rest"
  by (induction s arbitrary: part) auto

lemma quoted_rest_escaped:
  "quoted_rest False decoded (escapeHttpQuotedString v @ [dquote]) = Some (decoded @ v)"
proof (induction v arbitrary: decoded)
  case (Cons c v)
  then show ?case by (auto simp: escapeHttpQuotedString_def dquote_def backslash_def)
qed (simp add: escapeHttpQuotedString_def dquote_def backslash_def trimAsciiWhitespace_def)

lemma parseQuotedValue_quoted: "parseQuotedValue (quoted v) = Some v"
  by (simp add: parseQuotedValue_def quoted_def quoted_rest_escaped)

lemma trim_ends: "\<not> isAsciiWhitespace c \<Longrightarrow> \<not> isAsciiWhitespace c' \<Longrightarrow> trimAsciiWhitespace (c # s @ [c']) = c # s @ [c']"
  by (simp add: trimAsciiWhitespace_def)

lemma quote_not_space: "\<not> isAsciiWhitespace dquote"
  by (simp add: isAsciiWhitespace_def dquote_def byte_def)

lemma trim_quoted: "trimAsciiWhitespace (quoted v) = quoted v"
  unfolding quoted_def by (rule trim_ends) (rule quote_not_space)+

lemma split_commas_quote: "split_commas False False part (quoted v @ rest) = split_commas False False (part @ quoted v) rest"
  using split_commas_quoted [of "part @ [dquote]" v rest] by (simp add: quoted_def dquote_def backslash_def)

definition plain :: "string \<Rightarrow> bool" where
  "plain s \<longleftrightarrow> dquote \<notin> set s \<and> CHR '','' \<notin> set s"

lemma split_last: "plain s \<Longrightarrow> split_commas False False [] (s @ quoted v) = [s @ quoted v]"
  using split_commas_plain [of s "[]" "quoted v"] split_commas_quote [of s v "[]"] by (simp add: plain_def)

lemma split_more:
  "plain s \<Longrightarrow> split_commas False False [] (s @ quoted v @ CHR '','' # rest) = (s @ quoted v) # split_commas False False [] rest"
  using split_commas_plain [of s "[]" "quoted v @ CHR '','' # rest"] split_commas_quote [of s v "CHR '','' # rest"]
  by (simp add: plain_def dquote_def)

lemma plain_prefixes:
  "plain ''Bearer resource_metadata=''" "plain '' scope=''" "plain ''Bearer error=''" "plain '' resource_metadata=''"
  by (simp_all add: plain_def dquote_def)

lemma split_unauthorized:
  "splitOnCommasOutsideQuotes (makeUnauthorizedChallenge url scopes) =
     (''Bearer resource_metadata='' @ quoted url) #
     (if joinScopeValues scopes = [] then [] else ['' scope='' @ quoted (joinScopeValues scopes)])"
proof (cases "joinScopeValues scopes = []")
  case True
  then show ?thesis
    by (simp only: splitOnCommasOutsideQuotes_def makeUnauthorizedChallenge_def Let_def True simp_thms if_True append_Nil2
        split_last [OF plain_prefixes(1)])
next
  case False
  show ?thesis
    by (simp only: splitOnCommasOutsideQuotes_def makeUnauthorizedChallenge_def Let_def False if_False append_Cons append_Nil
        split_more [OF plain_prefixes(1), simplified append_Cons append_Nil]
        split_last [OF plain_prefixes(2), simplified append_Cons append_Nil])
qed

lemma quoted_insufficient: "quoted ''insufficient_scope'' = [dquote] @ ''insufficient_scope'' @ [dquote]"
  by (simp add: quoted_def escapeHttpQuotedString_def backslash_def dquote_def)

lemma split_insufficient:
  "splitOnCommasOutsideQuotes (makeInsufficientScopeChallenge url scopes) =
     [''Bearer error='' @ quoted ''insufficient_scope'', '' scope='' @ quoted (joinScopeValues scopes),
      '' resource_metadata='' @ quoted url]"
proof -
  have shape: "makeInsufficientScopeChallenge url scopes =
      ''Bearer error='' @ quoted ''insufficient_scope'' @ CHR '','' # ('' scope='' @ quoted (joinScopeValues scopes) @
      CHR '','' # ('' resource_metadata='' @ quoted url))"
    by (simp only: makeInsufficientScopeChallenge_def quoted_insufficient append_Cons append_Nil append_assoc)
  show ?thesis
    by (simp only: splitOnCommasOutsideQuotes_def shape split_more [OF plain_prefixes(3)] split_more [OF plain_prefixes(2)]
        split_last [OF plain_prefixes(4)])
qed

lemma token_not_special:
  "isTokenCharacter c \<Longrightarrow> \<not> isAsciiWhitespace c" "\<not> isTokenCharacter (CHR '' '')" "\<not> isTokenCharacter (CHR ''='')"
  "isAsciiWhitespace (CHR '' '')" "\<not> isAsciiWhitespace (CHR ''='')"
proof -
  show "\<not> isTokenCharacter (CHR '' '')" "\<not> isTokenCharacter (CHR ''='')"
    "isAsciiWhitespace (CHR '' '')" "\<not> isAsciiWhitespace (CHR ''='')" by code_simp+
  assume "isTokenCharacter c"
  then consider "is_alnum c" | "c \<in> set (''!#$%&'' @ [CHR 0x27] @ ''*+-.^_'' @ [CHR 0x60] @ ''|~'')"
    unfolding isTokenCharacter_def by blast
  then show "\<not> isAsciiWhitespace c"
  proof cases
    case 1
    then have "48 \<le> byte c" by (auto simp: is_alnum_def is_alpha_def isAsciiUpper_def isAsciiLower_def is_digit_def)
    then show ?thesis unfolding isAsciiWhitespace_def by linarith
  next
    case 2
    have "\<forall>c \<in> set (''!#$%&'' @ [CHR 0x27] @ ''*+-.^_'' @ [CHR 0x60] @ ''|~''). \<not> isAsciiWhitespace c" by code_simp
    then show ?thesis using 2 by (rule bspec)
  qed
qed

lemma trim_self: "(\<And>c. c \<in> set s \<Longrightarrow> \<not> isAsciiWhitespace c) \<Longrightarrow> trimAsciiWhitespace s = s"
proof -
  have keep: "(\<And>c. c \<in> set t \<Longrightarrow> \<not> isAsciiWhitespace c) \<Longrightarrow> dropWhile isAsciiWhitespace t = t" for t
    by (cases t) auto
  assume "\<And>c. c \<in> set s \<Longrightarrow> \<not> isAsciiWhitespace c"
  then show ?thesis using keep [of s] keep [of "rev s"] by (simp add: trimAsciiWhitespace_def)
qed

text \<open>A parameter of a challenge, as the server writes it.\<close>

lemma parameter_back:
  assumes "name \<noteq> []" "\<forall>c \<in> set name. isTokenCharacter c"
  shows "parseBearerParameter (name @ CHR ''='' # quoted v) challenge = set_parameter (toLowerAscii name) v challenge"
proof -
  have token: "\<not> isAsciiWhitespace c" "c \<noteq> CHR ''=''" if "isTokenCharacter c" for c
    using that token_not_special(1,3) by auto
  obtain c cs where name: "name = c # cs" using assms(1) by (cases name) auto
  have ends: "trimAsciiWhitespace (name @ CHR ''='' # quoted v) = name @ CHR ''='' # quoted v"
    using trim_ends [OF token(1) quote_not_space, of c "cs @ CHR ''='' # dquote # escapeHttpQuotedString v"] assms(2)
    by (simp add: name quoted_def)
  have "trimAsciiWhitespace name = name"
    using assms(2) token(1) by (intro trim_self) auto
  moreover have "find_char (CHR ''='') (name @ CHR ''='' # quoted v) = Some (length name)"
    using assms(2) token(2) by (induction name) (auto simp: find_char_def)
  ultimately show ?thesis
    using assms(1) ends trim_quoted [of v] parseQuotedValue_quoted [of v]
    by (simp add: parseBearerParameter_def quoted_def [of v] Let_def)
qed

lemma challenge_names:
  "\<forall>c \<in> set ''resource_metadata''. isTokenCharacter c" "\<forall>c \<in> set ''scope''. isTokenCharacter c"
  "\<forall>c \<in> set ''error''. isTokenCharacter c" "\<forall>c \<in> set ''Bearer''. isTokenCharacter c"
  by code_simp+

lemma lower_names: "toLowerAscii ''resource_metadata'' = ''resource_metadata''" "toLowerAscii ''scope'' = ''scope''"
  "toLowerAscii ''error'' = ''error''" "toLowerAscii ''Bearer'' = ''bearer''"
  by code_simp+

lemma trim_to_quote:
  "\<not> isAsciiWhitespace c \<Longrightarrow> trimAsciiWhitespace (c # s @ quoted v) = c # s @ quoted v"
  using trim_ends [OF _ quote_not_space, of c "s @ dquote # escapeHttpQuotedString v"] by (simp add: quoted_def)

lemma trim_space: "trimAsciiWhitespace (CHR '' '' # s) = trimAsciiWhitespace s"
  by (simp add: trimAsciiWhitespace_def token_not_special)

lemma scheme_part:
  assumes "\<forall>c \<in> set name. isTokenCharacter c" "name \<noteq> []"
  shows "challenge_part (''Bearer '' @ name @ CHR ''='' # quoted v) (challenges, active) =
    (challenges @ [set_parameter (toLowerAscii name) v no_challenge], True)"
proof -
  obtain c cs where name: "name = c # cs" using assms(2) by (cases name) auto
  have c: "\<not> isAsciiWhitespace c" "c \<noteq> CHR ''=''" using assms(1) token_not_special by (auto simp: name)
  let ?v = "name @ CHR ''='' # quoted v"
  have t: "trimAsciiWhitespace (''Bearer '' @ ?v) = ''Bearer'' @ CHR '' '' # ?v"
    using trim_to_quote [of "CHR ''B''" "''earer '' @ name @ [CHR ''='']" v] by (simp add: isAsciiWhitespace_def byte_def)
  have p: "parseTokenPrefix (''Bearer'' @ CHR '' '' # ?v) = (''Bearer'', CHR '' '' # ?v)"
    unfolding parseTokenPrefix_def using challenge_names(4) token_not_special(2)
    by (simp only: takeWhile_append2 dropWhile_append2) simp
  have r: "trimAsciiWhitespace (CHR '' '' # ?v) = ?v" "hd ?v \<noteq> CHR ''=''"
    using trim_to_quote [OF c(1), of "cs @ [CHR ''='']" v] c(2) by (simp_all add: trim_space name)
  show ?thesis
    by (simp add: challenge_part_def t p r(1) parameter_back [OF assms(2,1)] lower_names del: append_Cons)
       (use r(2) in \<open>simp add: parameter_back [OF assms(2,1)]\<close>)
qed

lemma parameter_part:
  assumes "\<forall>c \<in> set name. isTokenCharacter c" "name \<noteq> []"
  shows "challenge_part (CHR '' '' # name @ CHR ''='' # quoted v) (challenges @ [c], True) =
    (challenges @ [set_parameter (toLowerAscii name) v c], True)"
proof -
  obtain x xs where name: "name = x # xs" using assms(2) by (cases name) auto
  have x: "\<not> isAsciiWhitespace x" using assms(1) token_not_special by (auto simp: name)
  let ?v = "name @ CHR ''='' # quoted v"
  have t: "trimAsciiWhitespace (CHR '' '' # ?v) = ?v"
    using trim_to_quote [OF x, of "xs @ [CHR ''='']" v] by (simp add: trim_space name)
  have p: "parseTokenPrefix ?v = (name, CHR ''='' # quoted v)"
    unfolding parseTokenPrefix_def using assms(1) token_not_special(3) by (simp add: takeWhile_append2 dropWhile_append2)
  have r: "trimAsciiWhitespace (CHR ''='' # quoted v) = CHR ''='' # quoted v"
    using trim_to_quote [of "CHR ''=''" "[]" v] by (simp add: token_not_special)
  show ?thesis
    using assms(2) by (simp add: challenge_part_def t p r parameter_back [OF assms(2,1)])
qed

lemma set_parameters:
  "set_parameter ''resource_metadata'' v c = c\<lparr>bc_resourceMetadata := Some v, bc_parameters := bc_parameters c @ [(''resource_metadata'', v)]\<rparr>"
  "set_parameter ''scope'' v c = c\<lparr>bc_scope := Some v, bc_parameters := bc_parameters c @ [(''scope'', v)]\<rparr>"
  "set_parameter ''error'' v c = c\<lparr>bc_error := Some v, bc_parameters := bc_parameters c @ [(''error'', v)]\<rparr>"
  by (simp_all add: set_parameter_def)

lemmas parts_back =
  scheme_part [OF challenge_names(1), simplified lower_names] scheme_part [OF challenge_names(3), simplified lower_names]
  parameter_part [OF challenge_names(1), simplified lower_names] parameter_part [OF challenge_names(2), simplified lower_names]

lemma challenges_back:
  "parseBearerWwwAuthenticateChallenges [makeUnauthorizedChallenge url scopes] =
     [let scope = joinScopeValues scopes in
      \<lparr>bc_resourceMetadata = Some url, bc_scope = (if scope = [] then None else Some scope), bc_error = None,
       bc_parameters = (''resource_metadata'', url) # (if scope = [] then [] else [(''scope'', scope)])\<rparr>] \<and>
   parseBearerWwwAuthenticateChallenges [makeInsufficientScopeChallenge url scopes] =
     [\<lparr>bc_resourceMetadata = Some url, bc_scope = Some (joinScopeValues scopes), bc_error = Some ''insufficient_scope'',
       bc_parameters = [(''error'', ''insufficient_scope''), (''scope'', joinScopeValues scopes),
         (''resource_metadata'', url)]\<rparr>]"
proof
  have first: "challenge_part (''Bearer resource_metadata='' @ quoted url) ([], False) =
      ([set_parameter ''resource_metadata'' url no_challenge], True)"
    using parts_back(1) [of url "[]" False] by simp
  have scope: "challenge_part ('' scope='' @ quoted v) ([c], True) = ([set_parameter ''scope'' v c], True)" for v c
    using parts_back(4) [of v "[]" c] by simp
  show "parseBearerWwwAuthenticateChallenges [makeUnauthorizedChallenge url scopes] =
     [let scope = joinScopeValues scopes in
      \<lparr>bc_resourceMetadata = Some url, bc_scope = (if scope = [] then None else Some scope), bc_error = None,
       bc_parameters = (''resource_metadata'', url) # (if scope = [] then [] else [(''scope'', scope)])\<rparr>]"
    by (simp add: parseBearerWwwAuthenticateChallenges_def split_unauthorized first scope set_parameters no_challenge_def
        Let_def del: append_Cons)
  have error: "challenge_part (''Bearer error='' @ quoted v) ([], False) = ([set_parameter ''error'' v no_challenge], True)" for v
    using parts_back(2) [of v "[]" False] by simp
  have url: "challenge_part ('' resource_metadata='' @ quoted url) ([c], True) =
      ([set_parameter ''resource_metadata'' url c], True)" for c
    using parts_back(3) [of url "[]" c] by simp
  show "parseBearerWwwAuthenticateChallenges [makeInsufficientScopeChallenge url scopes] =
     [\<lparr>bc_resourceMetadata = Some url, bc_scope = Some (joinScopeValues scopes), bc_error = Some ''insufficient_scope'',
       bc_parameters = [(''error'', ''insufficient_scope''), (''scope'', joinScopeValues scopes),
         (''resource_metadata'', url)]\<rparr>]"
    by (simp add: parseBearerWwwAuthenticateChallenges_def split_insufficient error scope url set_parameters no_challenge_def
        del: append_Cons)
qed

text \<open>C28. The client reads the challenges of the server back, whatever the URL and the scopes contain:
  one bearer challenge with the metadata URL, the scopes and the error that the server put into it.\<close>

theorem client_reads_the_challenges:
  "parseBearerWwwAuthenticateChallenges [makeUnauthorizedChallenge url scopes] =
     [let scope = joinScopeValues scopes in
      \<lparr>bc_resourceMetadata = Some url, bc_scope = (if scope = [] then None else Some scope), bc_error = None,
       bc_parameters = (''resource_metadata'', url) # (if scope = [] then [] else [(''scope'', scope)])\<rparr>] \<and>
   parseBearerWwwAuthenticateChallenges [makeInsufficientScopeChallenge url scopes] =
     [\<lparr>bc_resourceMetadata = Some url, bc_scope = Some (joinScopeValues scopes), bc_error = Some ''insufficient_scope'',
       bc_parameters = [(''error'', ''insufficient_scope''), (''scope'', joinScopeValues scopes),
         (''resource_metadata'', url)]\<rparr>]"
  by (rule challenges_back)

section \<open>Scopes\<close>

lemma scope_words_space: "scope_words found (CHR '' '' # s) = scope_words found s"
  by (subst (1 2) scope_words.simps) (simp add: is_space_def byte_def)

lemma scope_words_word:
  assumes "w \<noteq> []" "\<forall>c \<in> set w. \<not> is_space c" "w \<notin> set found" "rest = [] \<or> is_space (hd rest)"
  shows "scope_words found (w @ rest) = scope_words (found @ [w]) rest"
proof -
  obtain c cs where w: "w = c # cs" using assms(1) by (cases w) auto
  have "dropWhile is_space (w @ rest) = w @ rest" using assms(2) by (simp add: w)
  moreover have "takeWhile (\<lambda>c. \<not> is_space c) (w @ rest) = w" "dropWhile (\<lambda>c. \<not> is_space c) (w @ rest) = rest"
    using assms(2,4) by (cases rest; simp add: takeWhile_append dropWhile_append)+
  ultimately show ?thesis using assms(1,3) by (subst scope_words.simps) (simp add: Let_def)
qed

lemma scope_words_empty: "scope_words found [] = found"
  by (subst scope_words.simps) simp

lemma scope_words_join:
  "\<forall>w \<in> set scopes. w \<noteq> [] \<and> (\<forall>c \<in> set w. \<not> is_space c) \<Longrightarrow> distinct (found @ scopes) \<Longrightarrow>
   scope_words found (joinScopeValues scopes) = found @ scopes"
proof (induction scopes arbitrary: found rule: joinScopeValues.induct)
  case 1
  then show ?case by (simp add: scope_words_empty)
next
  case (2 w)
  then show ?case using scope_words_word [of w found "[]"] by (simp add: scope_words_empty)
next
  case (3 w v ws)
  have "is_space (CHR '' '')" by (simp add: is_space_def byte_def)
  then show ?case
    using "3.IH" [of "found @ [w]"] "3.prems" scope_words_word [of w found "CHR '' '' # joinScopeValues (v # ws)"]
    by (simp add: scope_words_space)
qed

lemma sanitize_idle:
  "\<forall>w \<in> set scopes. w \<noteq> [] \<and> (\<forall>c \<in> set w. \<not> is_space c) \<Longrightarrow> distinct scopes \<Longrightarrow> sanitize_scopes scopes = scopes"
proof -
  have same: "isAsciiWhitespace c \<longleftrightarrow> is_space c" for c by (auto simp: isAsciiWhitespace_def is_space_def)
  have "\<forall>w \<in> set ws. w \<noteq> [] \<and> (\<forall>c \<in> set w. \<not> is_space c) \<Longrightarrow> distinct (out @ ws) \<Longrightarrow>
      foldl (\<lambda>out scope. let t = trimAsciiWhitespace scope in if t = [] \<or> t \<in> set out then out else out @ [t]) out ws = out @ ws" for out ws
  proof (induction ws arbitrary: out)
    case (Cons w ws)
    then have "trimAsciiWhitespace w = w" by (intro trim_self) (auto simp: same)
    then show ?case using Cons.IH [of "out @ [w]"] Cons.prems by simp
  qed simp
  then show "\<forall>w \<in> set scopes. w \<noteq> [] \<and> (\<forall>c \<in> set w. \<not> is_space c) \<Longrightarrow> distinct scopes \<Longrightarrow> sanitize_scopes scopes = scopes"
    by (simp add: sanitize_scopes_def)
qed

lemma required_scopes_back:
  assumes "scopes \<noteq> []" "distinct scopes" "\<forall>w \<in> set scopes. w \<noteq> [] \<and> (\<forall>c \<in> set w. \<not> is_space c)"
  shows "selectScopesForAuthorization
      (parseBearerWwwAuthenticateChallenges [makeUnauthorizedChallenge url scopes]) metadata = Some scopes"
proof -
  have words: "sanitize_scopes (parseScopeString (joinScopeValues scopes)) = scopes"
    using assms scope_words_join [of scopes "[]"] sanitize_idle [of scopes] by (simp add: parseScopeString_def)
  then have "joinScopeValues scopes \<noteq> []" using assms(1) by (auto simp: parseScopeString_def scope_words_empty sanitize_scopes_def)
  then show ?thesis
    using words assms(1) by (simp add: challenges_back selectScopesForAuthorization_def Let_def)
qed

section \<open>The published metadata\<close>

definition published_metadata :: "authorization_options \<Rightarrow> json" where
  "published_metadata a =
     (if ao_scopesSupported a = [] then id else jput ''scopes_supported'' (JArray (map JString (ao_scopesSupported a))))
       (jput ''authorization_servers'' (JArray (map JString (ao_authorizationServers a)))
         (jput ''resource'' (JString (ao_resource a)) empty_object))"

lemma string_items_sanitize:
  "string_items field found (map JString ts) =
     Inr (foldl (\<lambda>out s. let t = trimAsciiWhitespace s in if t = [] \<or> t \<in> set out then out else out @ [t]) found ts)"
  by (induction ts arbitrary: found) (simp_all add: Let_def)

lemma parseStringArray_strings: "parseStringArray (JArray (map JString ts)) field = Inr (sanitize_scopes ts)"
  by (simp add: parseStringArray_def string_items_sanitize sanitize_scopes_def)

lemma trim_trim: "trimAsciiWhitespace (trimAsciiWhitespace s) = trimAsciiWhitespace s"
proof -
  have idem: "dropWhile P (dropWhile P t) = dropWhile P t" for P :: "char \<Rightarrow> bool" and t by (induction t) auto
  have front: "dropWhile P (rev (dropWhile P (rev (dropWhile P t)))) = rev (dropWhile P (rev (dropWhile P t)))"
    for P :: "char \<Rightarrow> bool" and t
  proof (cases "rev (dropWhile P (rev (dropWhile P t)))")
    case (Cons c cs)
    then have "dropWhile P (rev (dropWhile P t)) \<noteq> []" "last (dropWhile P (rev (dropWhile P t))) = c"
      by (metis list.distinct(1) rev.simps(1), metis hd_rev list.sel(1))
    moreover have "last (dropWhile P xs) = last xs" if "dropWhile P xs \<noteq> []" for xs
      using that by (metis last_appendR takeWhile_dropWhile_id)
    ultimately have "last (rev (dropWhile P t)) = c" "dropWhile P t \<noteq> []" by force+
    then have "hd (dropWhile P t) = c" by (simp add: last_rev)
    then have "\<not> P c" using hd_dropWhile \<open>dropWhile P t \<noteq> []\<close> by metis
    then show ?thesis unfolding Cons by simp
  next
    case Nil
    then show ?thesis by (simp only: dropWhile.simps)
  qed
  show ?thesis unfolding trimAsciiWhitespace_def front rev_rev_ident idem ..
qed

lemma parse_trimmed: "parse_discovery_url (trimAsciiWhitespace s) q = parse_discovery_url s q"
  by (simp add: parse_discovery_url_def trim_trim)

lemma parse_nonempty: "parse_discovery_url s q = Inr u \<Longrightarrow> trimAsciiWhitespace s \<noteq> []"
  by (auto simp: parse_discovery_url_def)

lemma published_read:
  assumes "parse document = Inr (published_metadata a)"
    and "parse_discovery_url (ao_resource a) True = Inr u" "du_scheme u = ''https''"
    and "sanitize_scopes (ao_authorizationServers a) \<noteq> []"
  shows "parseProtectedResourceMetadata parse document =
     Inr \<lparr>rm_resource = canonicalResourceIdentifier u, rm_authorizationServers = sanitize_scopes (ao_authorizationServers a),
       rm_scopesSupported = (if sanitize_scopes (sanitize_scopes (ao_scopesSupported a)) = [] then None
         else Some (sanitize_scopes (sanitize_scopes (ao_scopesSupported a))))\<rparr>"
proof -
  have "is_object (published_metadata a)" by (simp add: published_metadata_def)
  then have "parseJsonObject parse document what = Inr (published_metadata a)" for what
    using assms(1) by (simp add: parseJsonObject_def)
  then show ?thesis
    using assms(2-4) parse_nonempty [OF assms(2)]
    by (auto simp: parseProtectedResourceMetadata_def published_metadata_def bindE_def parse_trimmed Let_def
        parseStringArray_strings sanitize_scopes_def)
qed

lemma parsed_not_blank:
  assumes "discovery_get d url past = (Inr answer, past')"
  shows "trimAsciiWhitespace url \<noteq> []"
  using assms by (auto simp: discovery_get_def executeDiscoveryGet_def parse_nonempty split: sum.splits)

text \<open>C27. The discovery of a client finds what the server publishes. After the 401 answer of a server
  with an authorization, the client asks for the URL of the challenge, trimmed of white space; when it is answered with
  the body that the server serves at its well-known path, what it learns is the resource of the server in
  canonical form, its authorization servers and its scopes, trimmed and without duplicates, and
  the scopes it will ask for are those the request required.\<close>

theorem client_finds_the_published_metadata:
  fixes d :: discovery_env
  assumes configured: "initializeAuthorizationConfiguration dump path given = Inr cfg"
    and refused: "getHeader (hr_headers (unauthorizedResponse cfg scopes)) kHeaderWwwAuthenticate = Some challenge"
    and served: "handleProtectedResourceMetadataRequest (Some cfg) req = Some response" "hr_statusCode response = 200"
    and fetched: "discovery_get d (trimAsciiWhitespace (ac_challengeUrl cfg)) past = (Inr answer, past')"
      "dr_statusCode answer = 200" "dr_body answer = hr_body response"
    and parsed: "de_parse d (dump (published_metadata (ac_options cfg))) = Inr (published_metadata (ac_options cfg))"
    and resource: "parse_discovery_url (ao_resource given) True = Inr url" "du_scheme url = ''https''"
    and issuers: "sanitize_scopes (ao_authorizationServers given) \<noteq> []"
    and words: "scopes \<noteq> []" "distinct scopes" "\<forall>w \<in> set scopes. w \<noteq> [] \<and> (\<forall>c \<in> set w. \<not> is_space c)"
  shows "\<exists>metadata. resource_metadata_for d endpoint (parseBearerWwwAuthenticateChallenges [challenge]) past
      = (Inr (trimAsciiWhitespace (ac_challengeUrl cfg), metadata), past') \<and>
     rm_resource metadata = canonicalResourceIdentifier url \<and>
     rm_authorizationServers metadata = sanitize_scopes (ao_authorizationServers given) \<and>
     selectScopesForAuthorization (parseBearerWwwAuthenticateChallenges [challenge]) metadata = Some scopes"
proof -
  have challenge: "challenge = makeUnauthorizedChallenge (ac_challengeUrl cfg) scopes"
    using refused by (simp add: unauthorizedResponse_def challenge_response_def)
  have options: "ac_options cfg = given\<lparr>ao_defaultRequiredScopes := sanitizeScopeSet (ao_defaultRequiredScopes given),
      ao_scopesSupported := sanitizeScopeSet (ao_scopesSupported given)\<rparr>"
    "ac_metadataBody cfg = dump (published_metadata (ac_options cfg))"
    using configured
    by (auto simp: initializeAuthorizationConfiguration_def Let_def toProtectedResourceMetadataBody_def published_metadata_def
        split: if_splits option.splits)
  have body: "hr_body response = ac_metadataBody cfg"
    using served by (auto simp: handleProtectedResourceMetadataRequest_def Let_def statusResponse_def jsonResponse_def
        split: if_splits)
  have blank: "trimAsciiWhitespace (ac_challengeUrl cfg) \<noteq> []"
    using parsed_not_blank [OF fetched(1)] by (simp add: trim_trim)
  obtain metadata where metadata: "parseProtectedResourceMetadata (de_parse d) (dr_body answer) = Inr metadata"
      "rm_resource metadata = canonicalResourceIdentifier url"
      "rm_authorizationServers metadata = sanitize_scopes (ao_authorizationServers given)"
    using published_read [of "de_parse d" "dr_body answer" "ac_options cfg" url] parsed resource issuers fetched(3)
    by (auto simp: body options)
  moreover have "resource_metadata_for d endpoint (parseBearerWwwAuthenticateChallenges [challenge]) past
      = (Inr (trimAsciiWhitespace (ac_challengeUrl cfg), metadata), past')"
    using blank fetched(1,2) metadata(1)
    by (simp add: resource_metadata_for_def challenge challenges_back firstResourceMetadataChallenge_def Let_def and_then_def
        bindE_def)
  ultimately show ?thesis
    using required_scopes_back [OF words] by (auto simp: challenge)
qed

end
