(* ===== verification/DiscoveryExample.thy ===== *)
theory DiscoveryExample
  imports DiscoveryServer
begin

text \<open>
  A discovery on concrete servers: the properties of the discovery applied to a server whose metadata
  is behind a redirect and to its authorization server.
\<close>

definition example_resource_document :: json where
  "example_resource_document =
     JObject [(''resource'', JString ''https://a.b/mcp''), (''authorization_servers'', JArray [JString ''https://i.s''])]"

definition example_server_document :: json where
  "example_server_document = JObject [(''issuer'', JString ''https://i.s/''), (''token_endpoint'', JString ''https://i.s/t'')]"

definition example_reply :: "uint16 \<Rightarrow> (string \<times> string) list \<Rightarrow> string \<Rightarrow> discovery_failure + discovery_response" where
  "example_reply status headers body = Inr \<lparr>dr_statusCode = status, dr_headers = headers, dr_body = body\<rparr>"

definition example_discovery :: discovery_env where
  "example_discovery =
     \<lparr>de_asio = \<lparr>make_address = (\<lambda>s. if s = ''8.8.8.8'' then Some (V4 0x08080808) else None), is_loopback = (\<lambda>_. False),
        is_unspecified = (\<lambda>_. False), is_multicast = (\<lambda>_. False), is_v4_mapped = (\<lambda>_. False)\<rparr>,
      de_parse = (\<lambda>s. if s = ''R'' then Inr example_resource_document
        else if s = ''S'' then Inr example_server_document else Inl ''syntax error''),
      de_fetcher = (\<lambda>past req.
        if dq_url req = ''https://a.b/.well-known/oauth-protected-resource/mcp'' then example_reply 302 [(''Location'', ''/r'')] []
        else if dq_url req = ''https://a.b/r'' then example_reply 200 [] ''R''
        else if dq_url req = ''https://i.s/.well-known/oauth-authorization-server'' then example_reply 200 [] ''S''
        else example_reply 404 [] []),
      de_resolver = (\<lambda>past host. Inr [''8.8.8.8'']),
      de_policy = default_security_policy\<rparr>"

definition example_log :: "discovery_event list" where
  "example_log =
     [Resolved ''a.b'', Fetched ''https://a.b/.well-known/oauth-protected-resource/mcp'', Resolved ''a.b'',
      Fetched ''https://a.b/r'', Resolved ''i.s'', Fetched ''https://i.s/.well-known/oauth-authorization-server'']"

definition example_result :: discovery_result where
  "example_result =
     \<lparr>ds_bearerChallenges = [], ds_selectedBearerChallenge = None,
      ds_resourceMetadataUrl = ''https://a.b/.well-known/oauth-protected-resource/mcp'',
      ds_resourceMetadata = \<lparr>rm_resource = ''https://a.b/mcp'', rm_authorizationServers = [''https://i.s''],
        rm_scopesSupported = None\<rparr>,
      ds_selectedServer = ''https://i.s'',
      ds_serverMetadataUrl = ''https://i.s/.well-known/oauth-authorization-server'',
      ds_serverMetadata = \<lparr>sm_issuer = ''https://i.s'', sm_authorizationEndpoint = None,
        sm_tokenEndpoint = Some ''https://i.s/t'', sm_registrationEndpoint = None, sm_codeChallengeMethods = [],
        sm_clientIdDocumentSupported = False\<rparr>,
      ds_selectedScopes = None\<rparr>"

lemma example_discovers:
  "discoverAuthorizationMetadata example_discovery ''https://a.b/mcp'' [] [] = (Inr example_result, example_log)"
  by code_simp

text \<open>The properties of the discovery, at this discovery.\<close>

lemma discovery_fetches_checked_urls_witness:
  "\<exists>url. ''https://a.b/r'' = serializeUrl url \<and> du_scheme url = ''https'' \<and>
     (case make_address (de_asio example_discovery) (du_host url) of
        Some a \<Rightarrow> \<not> isBlockedAddress (de_asio example_discovery) a
      | None \<Rightarrow> last (take 3 example_log) = Resolved (du_host url))"
proof -
  have run: "discoverAuthorizationMetadata example_discovery ''https://a.b/mcp'' [] [] =
      (Inr example_result, take 3 example_log @ Fetched ''https://a.b/r'' # drop 4 example_log)"
    unfolding example_discovers by (simp add: example_log_def)
  have "sp_requireHttps (de_policy example_discovery)" "\<not> sp_allowPrivateAndLocalAddresses (de_policy example_discovery)"
    by (simp_all add: example_discovery_def default_security_policy_def)
  with discovery_fetches_checked_urls [OF run] show ?thesis
    by (elim exE) (rule exI, auto split: option.splits)
qed

lemma discovered_metadata_match_the_endpoint_witness:
  "\<exists>body. parseProtectedResourceMetadata (de_parse example_discovery) body = Inr (ds_resourceMetadata example_result) \<and>
     document_at example_discovery (ds_resourceMetadataUrl example_result) body"
  using discovered_metadata_match_the_endpoint [OF example_discovers] by blast

lemma example_get:
  "discovery_get example_discovery ''https://a.b/.well-known/oauth-protected-resource/mcp'' [] =
     (example_reply 200 [] ''R'', take 4 example_log)"
  by code_simp

lemma redirects_stay_on_their_origin_witness:
  "\<exists>new. take 4 example_log = [] @ new \<and> length (fetched_urls new) \<le> 5"
  using redirects_stay_on_their_origin [OF example_get [unfolded discovery_get_def]]
  by (auto simp: example_discovery_def default_security_policy_def)

definition example_authorization :: authorization_options where
  "example_authorization =
     \<lparr>ao_tokenVerifier = Some (\<lambda>_. None), ao_resource = ''https://a.b/mcp'', ao_authorizationServers = [''https://i.s''],
      ao_scopesSupported = [], ao_publishAtPath = True, ao_publishAtRoot = False, ao_challengeUrl = None,
      ao_requiredScopesResolver = None, ao_defaultRequiredScopes = []\<rparr>"

definition example_configuration :: authorization_configuration where
  "example_configuration =
     \<lparr>ac_options = example_authorization, ac_rootMetadataPath = kWellKnownOAuthProtectedResourcePath,
      ac_pathBasedMetadataPath = ''/.well-known/oauth-protected-resource/mcp'', ac_metadataBody = ''R'',
      ac_challengeUrl = ''https://a.b/.well-known/oauth-protected-resource/mcp''\<rparr>"

definition example_metadata_request :: server_request where
  "example_metadata_request =
     \<lparr>hq_method = kGet, hq_path = ''/.well-known/oauth-protected-resource/mcp'', hq_headers = [], hq_body = []\<rparr>"

lemma example_configured:
  "initializeAuthorizationConfiguration (\<lambda>_. ''R'') ''/mcp'' example_authorization = Inr example_configuration"
proof -
  have "metadataOriginForResource ''https://a.b/mcp'' = Some ''https://a.b''"
    "pathBasedMetadataPathForEndpoint ''/mcp'' = ''/.well-known/oauth-protected-resource/mcp''" by code_simp+
  then show ?thesis
    by (simp add: initializeAuthorizationConfiguration_def example_authorization_def example_configuration_def
        sanitizeScopeSet_def toProtectedResourceMetadataBody_def Let_def)
qed

lemma example_served:
  "handleProtectedResourceMetadataRequest (Some example_configuration) example_metadata_request = Some (jsonResponse 200 ''R'')"
  by code_simp

definition example_endpoint :: discovery_url where
  "example_endpoint =
     \<lparr>du_scheme = ''https'', du_host = ''a.b'', du_port = ''443'', du_path = ''/mcp'', du_query = None,
       du_hasExplicitPort = False, du_ipv6Literal = False\<rparr>"

lemma example_resource_url: "parse_discovery_url ''https://a.b/mcp'' True = Inr example_endpoint"
  by code_simp

lemma client_finds_the_published_metadata_witness:
  "\<exists>metadata. resource_metadata_for example_discovery example_endpoint
      (parseBearerWwwAuthenticateChallenges [makeUnauthorizedChallenge (ac_challengeUrl example_configuration) [''s'']]) []
    = (Inr (''https://a.b/.well-known/oauth-protected-resource/mcp'', metadata), take 4 example_log) \<and>
    rm_authorizationServers metadata = [''https://i.s'']"
proof -
  have url: "trimAsciiWhitespace (ac_challengeUrl example_configuration) = ''https://a.b/.well-known/oauth-protected-resource/mcp''"
    by code_simp
  have issuers: "sanitize_scopes (ao_authorizationServers example_authorization) = [''https://i.s'']" by code_simp
  have refused: "getHeader (hr_headers (unauthorizedResponse example_configuration [''s''])) kHeaderWwwAuthenticate =
      Some (makeUnauthorizedChallenge (ac_challengeUrl example_configuration) [''s''])"
    by (simp add: unauthorizedResponse_def challenge_response_def)
  have get: "discovery_get example_discovery (trimAsciiWhitespace (ac_challengeUrl example_configuration)) [] =
      (Inr \<lparr>dr_statusCode = 200, dr_headers = [], dr_body = ''R''\<rparr>, take 4 example_log)"
    using example_get by (simp only: url example_reply_def)
  have parsed: "de_parse example_discovery ''R'' = Inr (published_metadata (ac_options example_configuration))" by code_simp
  have resource: "parse_discovery_url (ao_resource example_authorization) True = Inr example_endpoint"
    using example_resource_url by (simp add: example_authorization_def)
  show ?thesis
    using client_finds_the_published_metadata [OF example_configured refused example_served _ get _ _ parsed resource]
    by (auto simp: jsonResponse_def url issuers is_space_def byte_def example_endpoint_def)
qed

end
