(* ===== verification/OAuthClient.thy ===== *)
theory OAuthClient
  imports Discovery Base64Url
begin

text \<open>
  The OAuth client of src/auth/oauth_client.cpp: PKCE, the authorization URL and the token request,
  token requests that follow redirects, the token storage and requests that step up their scopes.

  The helpers of this file that are the same as those of protected_resource_metadata.cpp
  (\<open>originForUrl\<close>, \<open>serializeUrl\<close>, \<open>extractExplicitPortText\<close>, \<open>headerValue\<close>, \<open>parseScopeString\<close>,
  \<open>sanitizeScopeSet\<close> and the status codes) are taken from there. SHA-256, the random bytes and the
  callbacks of the application are parameters; a callback is given the log of the calls before it.
\<close>

section \<open>Errors and URLs\<close>

datatype OAuthClientErrorCode =
    kInvalidInput | kMetadataValidation | kSecurityPolicyViolation | kCryptoFailure | kNetworkFailure

text \<open>An \<open>OAuthClientError\<close>, or another exception of a callback.\<close>

datatype oauth_failure = OAuthError OAuthClientErrorCode string | CallbackException string

record oauth_url =
  ou_url :: discovery_url
  ou_serialized :: string
  ou_hasQuery :: bool

definition invalid_input :: "string \<Rightarrow> oauth_failure + 'a" where
  "invalid_input message = Inl (OAuthError kInvalidInput message)"

definition policy_violation :: "string \<Rightarrow> oauth_failure + 'a" where
  "policy_violation message = Inl (OAuthError kSecurityPolicyViolation message)"

definition invalid_metadata :: "string \<Rightarrow> oauth_failure + 'a" where
  "invalid_metadata message = Inl (OAuthError kMetadataValidation message)"

definition network_failure :: "string \<Rightarrow> oauth_failure + 'a" where
  "network_failure message = Inl (OAuthError kNetworkFailure message)"

definition parse_oauth_url :: "string \<Rightarrow> string \<Rightarrow> oauth_failure + oauth_url" where
  "parse_oauth_url rawUrl field =
     (let trimmed = trimAsciiWhitespace rawUrl in
      if trimmed = [] then invalid_input (field @ '' must not be empty'')
      else if containsAsciiWhitespaceOrControl trimmed
      then invalid_input (field @ '' must not include whitespace or control characters'')
      else if find_char (CHR ''#'') trimmed \<noteq> None then invalid_input (field @ '' must not include URL fragments'')
      else
        (case parseAbsoluteUrl trimmed of
           None \<Rightarrow> invalid_input (field @ '' must be an absolute URL'')
         | Some u \<Rightarrow>
             let port =
               (if pu_hasExplicitPort u then
                  let text = extractExplicitPortText trimmed (pu_ipv6Literal u) in
                  if text \<noteq> [] then text else to_string_nat (unat (pu_port u))
                else defaultPortForScheme (pu_scheme u))
             in
             if port = [] then invalid_input (field @ '' port is not valid for this scheme'')
             else
               Inr \<lparr>ou_url = \<lparr>du_scheme = pu_scheme u, du_host = pu_host u, du_port = port,
                   du_path = (if pu_path u = [] then ''/'' else pu_path u), du_query = pu_query u,
                   du_hasExplicitPort = pu_hasExplicitPort u, du_ipv6Literal = pu_ipv6Literal u\<rparr>,
                 ou_serialized = trimmed, ou_hasQuery = pu_hasQuery u\<rparr>))"

definition oauth_resolveRedirectUrl :: "discovery_url \<Rightarrow> string \<Rightarrow> oauth_failure + string" where
  "oauth_resolveRedirectUrl current location =
     (let t = trimAsciiWhitespace location in
      if t = [] then network_failure ''Redirect response is missing a non-empty Location header''
      else if find_str ''://'' t \<noteq> None then Inr t
      else if length t \<ge> 2 \<and> t ! 0 = CHR ''/'' \<and> t ! 1 = CHR ''/'' then Inr (du_scheme current @ '':'' @ t)
      else if hd t = CHR ''/'' then Inr (originForUrl current @ t)
      else
        let base = (if du_path current = [] then ''/'' else du_path current);
            directory = (case rfind_char (CHR ''/'') base of None \<Rightarrow> ''/'' | Some n \<Rightarrow> take (n + 1) base)
        in Inr (originForUrl current @ directory @ t))"

definition methodAllowsBodyOnRedirectRewrite :: "string \<Rightarrow> bool" where
  "methodAllowsBodyOnRedirectRewrite m \<longleftrightarrow>
     toLowerAscii (trimAsciiWhitespace m) \<in> set [''post'', ''put'', ''patch'', ''delete'']"

section \<open>Parameters\<close>

definition isUnreservedUriCharacter :: "char \<Rightarrow> bool" where
  "isUnreservedUriCharacter c \<longleftrightarrow> is_alnum c \<or> c \<in> set ''-._~''"

definition toHexByte :: "char \<Rightarrow> string" where
  "toHexByte c = [''0123456789ABCDEF'' ! (byte c div 16 mod 16), ''0123456789ABCDEF'' ! (byte c mod 16)]"

definition percentEncodeComponent :: "string \<Rightarrow> string" where
  "percentEncodeComponent value =
     concat (map (\<lambda>c. if isUnreservedUriCharacter c then [c] else CHR ''%'' # toHexByte c) value)"

definition isReservedAuthorizationQueryParameter :: "string \<Rightarrow> bool" where
  "isReservedAuthorizationQueryParameter name \<longleftrightarrow>
     toLowerAscii name \<in> set [''client_id'', ''code_challenge'', ''code_challenge_method'', ''redirect_uri'', ''resource'',
       ''response_type'', ''scope'', ''state'']"

definition isReservedTokenBodyParameter :: "string \<Rightarrow> bool" where
  "isReservedTokenBodyParameter name \<longleftrightarrow>
     toLowerAscii name \<in> set [''client_id'', ''code'', ''code_verifier'', ''grant_type'', ''redirect_uri'', ''resource'']"

definition isSensitiveTokenParameter :: "string \<Rightarrow> bool" where
  "isSensitiveTokenParameter name \<longleftrightarrow>
     toLowerAscii name \<in> set [''access_token'', ''id_token'', ''refresh_token'', ''token'']"

definition joinScopes :: "string list \<Rightarrow> string option" where
  "joinScopes scopes =
     (let joined = foldl (\<lambda>out scope. let t = trimAsciiWhitespace scope in
            if t = [] then out else (if out \<noteq> [] then out @ '' '' else out) @ t) [] scopes
      in if joined = [] then None else Some joined)"

definition mergeScopes :: "string list \<Rightarrow> string list \<Rightarrow> string list" where
  "mergeScopes base required =
     foldl (\<lambda>merged scope. if scope \<in> set merged then merged else merged @ [scope]) (sanitize_scopes base)
       (sanitize_scopes required)"

definition canonicalScopeSetKey :: "string list \<Rightarrow> string" where
  "canonicalScopeSetKey scopes =
     foldl (\<lambda>key scope. (if key \<noteq> [] then key @ '' '' else key) @ scope) [] (sort (sanitize_scopes scopes))"

definition normalizeResourceKey :: "string \<Rightarrow> string" where
  "normalizeResourceKey value =
     (let t = trimAsciiWhitespace value in
      if t = [] then []
      else (case parse_oauth_url t ''resource'' of Inr u \<Rightarrow> serializeUrl (ou_url u) | Inl _ \<Rightarrow> t))"

definition collectHeaderValues :: "(string \<times> string) list \<Rightarrow> string \<Rightarrow> string list" where
  "collectHeaderValues headers name =
     map snd (filter (\<lambda>h. equalsIgnoreCaseAscii (trimAsciiWhitespace (fst h)) name) headers)"

definition requireNonEmptyTokenValue :: "string \<Rightarrow> string \<Rightarrow> oauth_failure + string" where
  "requireNonEmptyTokenValue value field =
     (let t = trimAsciiWhitespace value in if t = [] then invalid_input (field @ '' must not be empty'') else Inr t)"

text \<open>The URL so far, and whether it has a query.\<close>

definition appendQueryParameter :: "string \<Rightarrow> string \<Rightarrow> string \<times> bool \<Rightarrow> string \<times> bool" where
  "appendQueryParameter name value = (\<lambda>(url, hasQuery).
     (url @ (if hasQuery then ''&'' else ''?'') @ percentEncodeComponent name @ ''='' @ percentEncodeComponent value, True))"

definition appendFormParameter :: "string \<Rightarrow> string \<Rightarrow> string \<Rightarrow> string" where
  "appendFormParameter name value body =
     body @ (if body \<noteq> [] then ''&'' else []) @ percentEncodeComponent name @ ''='' @ percentEncodeComponent value"

section \<open>PKCE\<close>

definition kPkceVerifierMinLength :: nat where "kPkceVerifierMinLength = 43"
definition kPkceVerifierMaxLength :: nat where "kPkceVerifierMaxLength = 128"

definition validateAuthorizationServerPkceS256Support :: "server_metadata \<Rightarrow> oauth_failure + unit" where
  "validateAuthorizationServerPkceS256Support m =
     (if sm_codeChallengeMethods m = []
      then invalid_metadata (''Authorization server metadata must include code_challenge_methods_supported ''
        @ ''and advertise S256 for MCP OAuth'')
      else if \<not> list_ex (\<lambda>t. toLowerAscii t = toLowerAscii ''S256'') (sm_codeChallengeMethods m)
      then invalid_metadata ''Authorization server metadata does not support PKCE S256''
      else Inr ())"

definition validateRedirectUriForAuthorizationCodeFlow :: "string \<Rightarrow> oauth_failure + unit" where
  "validateRedirectUriForAuthorizationCodeFlow redirectUri =
     bindE (parse_oauth_url redirectUri ''redirect_uri'') (\<lambda>u.
       if du_scheme (ou_url u) = ''https'' then Inr ()
       else if du_scheme (ou_url u) = ''http'' \<and> du_host (ou_url u) = ''localhost'' then Inr ()
       else policy_violation ''redirect_uri must use HTTPS or be an http://localhost loopback URL'')"

record pkce_code_pair =
  pk_codeVerifier :: string
  pk_codeChallenge :: string
  pk_codeChallengeMethod :: string

text \<open>\<open>random\<close> are the bytes that \<open>cryptoRandomBytes\<close> gives, \<open>sha256\<close> is the digest of OpenSSL.\<close>

definition generatePkceCodePair ::
  "(nat \<Rightarrow> string) \<Rightarrow> (string \<Rightarrow> string option) \<Rightarrow> nat \<Rightarrow> oauth_failure + pkce_code_pair" where
  "generatePkceCodePair random sha256 verifierEntropyBytes =
     (if verifierEntropyBytes = 0 then invalid_input ''verifierEntropyBytes must be greater than zero''
      else
        let codeVerifier = encodeBase64UrlNoPad (random verifierEntropyBytes) in
        if length codeVerifier < kPkceVerifierMinLength \<or> length codeVerifier > kPkceVerifierMaxLength
        then invalid_input (''PKCE verifier length must be between 43 and 128 characters; ''
          @ ''adjust verifierEntropyBytes accordingly'')
        else
          (case sha256 codeVerifier of
             None \<Rightarrow> Inl (OAuthError kCryptoFailure ''Failed to compute SHA-256 digest for PKCE challenge'')
           | Some digest \<Rightarrow>
               Inr \<lparr>pk_codeVerifier = codeVerifier, pk_codeChallenge = encodeBase64UrlNoPad digest,
                 pk_codeChallengeMethod = ''S256''\<rparr>))"

section \<open>The authorization URL\<close>

record authorization_url_request =
  au_metadata :: server_metadata
  au_clientId :: string
  au_redirectUri :: string
  au_state :: string
  au_codeChallenge :: string
  au_scopes :: "string list option"
  au_resource :: string
  au_additionalParameters :: "(string \<times> string) list"

text \<open>The loop over the additional parameters.\<close>

fun append_additional_query :: "(string \<times> string) list \<Rightarrow> string \<times> bool \<Rightarrow> oauth_failure + (string \<times> bool)" where
  "append_additional_query [] url = Inr url"
| "append_additional_query ((given, value) # ps) url =
     bindE (requireNonEmptyTokenValue given ''additional authorization parameter name'') (\<lambda>name.
       if isReservedAuthorizationQueryParameter name
       then invalid_input (''additional authorization parameter name conflicts with a reserved OAuth parameter: '' @ name)
       else if isSensitiveTokenParameter name
       then policy_violation (''Refusing to include token-like parameter in authorization URL query: '' @ name)
       else append_additional_query ps (appendQueryParameter name value url))"

definition buildAuthorizationUrl :: "authorization_url_request \<Rightarrow> oauth_failure + string" where
  "buildAuthorizationUrl req =
     bindE (validateAuthorizationServerPkceS256Support (au_metadata req)) (\<lambda>_.
       (case sm_authorizationEndpoint (au_metadata req) of
          None \<Rightarrow> invalid_metadata (''Authorization server metadata does not include authorization_endpoint ''
            @ ''required for authorization code flow'')
        | Some endpoint \<Rightarrow>
            bindE (parse_oauth_url endpoint ''authorization_endpoint'') (\<lambda>e.
            if du_scheme (ou_url e) \<noteq> ''https'' then policy_violation ''authorization_endpoint must use HTTPS''
            else
              bindE (validateRedirectUriForAuthorizationCodeFlow (au_redirectUri req)) (\<lambda>_.
              bindE (requireNonEmptyTokenValue (au_clientId req) ''client_id'') (\<lambda>clientId.
              bindE (requireNonEmptyTokenValue (au_state req) ''state'') (\<lambda>state.
              bindE (requireNonEmptyTokenValue (au_codeChallenge req) ''code_challenge'') (\<lambda>codeChallenge.
              bindE (requireNonEmptyTokenValue (au_resource req) ''resource'') (\<lambda>resource.
              bindE (parse_oauth_url resource ''resource'') (\<lambda>_.
                let required = fold (\<lambda>(name, value). appendQueryParameter name value)
                      [(''response_type'', ''code''), (''client_id'', clientId), (''redirect_uri'', au_redirectUri req),
                       (''state'', state), (''code_challenge'', codeChallenge), (''code_challenge_method'', ''S256''),
                       (''resource'', resource)] (ou_serialized e, ou_hasQuery e);
                    scoped =
                      (case Option.bind (au_scopes req) joinScopes of
                         Some scope \<Rightarrow> appendQueryParameter ''scope'' scope required
                       | None \<Rightarrow> required)
                in bindE (append_additional_query (au_additionalParameters req) scoped) (\<lambda>(url, _). Inr url)))))))))) "

section \<open>The token request\<close>

record token_exchange_request =
  tx_metadata :: server_metadata
  tx_clientId :: string
  tx_redirectUri :: string
  tx_authorizationCode :: string
  tx_codeVerifier :: string
  tx_resource :: string
  tx_additionalParameters :: "(string \<times> string) list"

text \<open>Requests to a token endpoint and to a protected resource have the same members.\<close>

record oauth_request =
  oq_method :: string
  oq_url :: string
  oq_headers :: "(string \<times> string) list"
  oq_body :: string

record oauth_response =
  or_statusCode :: uint16
  or_headers :: "(string \<times> string) list"
  or_body :: string

fun append_additional_form :: "(string \<times> string) list \<Rightarrow> string \<Rightarrow> oauth_failure + string" where
  "append_additional_form [] body = Inr body"
| "append_additional_form ((given, value) # ps) body =
     bindE (requireNonEmptyTokenValue given ''additional token parameter name'') (\<lambda>name.
       if isReservedTokenBodyParameter name
       then invalid_input (''additional token parameter name conflicts with a reserved OAuth parameter: '' @ name)
       else if isSensitiveTokenParameter name
       then policy_violation (''Refusing to include token-like parameter in token request parameters: '' @ name)
       else append_additional_form ps (appendFormParameter name value body))"

definition buildTokenExchangeHttpRequest :: "token_exchange_request \<Rightarrow> oauth_failure + oauth_request" where
  "buildTokenExchangeHttpRequest req =
     bindE (validateAuthorizationServerPkceS256Support (tx_metadata req)) (\<lambda>_.
       (case sm_tokenEndpoint (tx_metadata req) of
          None \<Rightarrow> invalid_metadata ''Authorization server metadata does not include token_endpoint required for code exchange''
        | Some endpoint \<Rightarrow>
            bindE (parse_oauth_url endpoint ''token_endpoint'') (\<lambda>e.
            if du_scheme (ou_url e) \<noteq> ''https'' then policy_violation ''token_endpoint must use HTTPS''
            else
              bindE (validateRedirectUriForAuthorizationCodeFlow (tx_redirectUri req)) (\<lambda>_.
              bindE (requireNonEmptyTokenValue (tx_clientId req) ''client_id'') (\<lambda>clientId.
              bindE (requireNonEmptyTokenValue (tx_authorizationCode req) ''authorization_code'') (\<lambda>code.
              bindE (requireNonEmptyTokenValue (tx_codeVerifier req) ''code_verifier'') (\<lambda>codeVerifier.
              bindE (requireNonEmptyTokenValue (tx_resource req) ''resource'') (\<lambda>resource.
              bindE (parse_oauth_url resource ''resource'') (\<lambda>_.
              if length codeVerifier < kPkceVerifierMinLength \<or> length codeVerifier > kPkceVerifierMaxLength
              then invalid_input ''code_verifier length must be between 43 and 128 characters''
              else
                let body = fold (\<lambda>(name, value). appendFormParameter name value)
                      [(''grant_type'', ''authorization_code''), (''code'', code), (''redirect_uri'', tx_redirectUri req),
                       (''client_id'', clientId), (''code_verifier'', codeVerifier), (''resource'', resource)] []
                in
                bindE (append_additional_form (tx_additionalParameters req) body) (\<lambda>body.
                  Inr \<lparr>oq_method = ''POST'', oq_url = ou_serialized e,
                    oq_headers = [(''Content-Type'', ''application/x-www-form-urlencoded''), (''Accept'', ''application/json'')],
                    oq_body = body\<rparr>))))))))))"

section \<open>Token requests with redirects\<close>

record oauth_policy =
  op_requireHttps :: bool
  op_requireSameOriginRedirects :: bool
  op_maxRedirects :: nat

definition default_oauth_policy :: oauth_policy where
  "default_oauth_policy = \<lparr>op_requireHttps = True, op_requireSameOriginRedirects = True, op_maxRedirects = 2\<rparr>"

type_synonym token_executor = "oauth_request list \<Rightarrow> oauth_request \<Rightarrow> oauth_failure + oauth_response"

definition without_authorization :: "(string \<times> string) list \<Rightarrow> (string \<times> string) list" where
  "without_authorization headers =
     filter (\<lambda>h. \<not> equalsIgnoreCaseAscii (trimAsciiWhitespace (fst h)) ''Authorization'') headers"

definition toTokenRequest :: "oauth_request \<Rightarrow> oauth_request" where
  "toTokenRequest req =
     (let m = trimAsciiWhitespace (oq_method req) in req\<lparr>oq_method := (if m = [] then ''POST'' else m)\<rparr>)"

text \<open>The request and the URL after a redirect, if the policy allows it.\<close>

definition token_redirect ::
  "oauth_policy \<Rightarrow> nat \<Rightarrow> oauth_request \<Rightarrow> discovery_url \<Rightarrow> oauth_response \<Rightarrow>
   oauth_failure + (oauth_request \<times> discovery_url)" where
  "token_redirect policy redirects req current response =
     (if redirects \<ge> op_maxRedirects policy then policy_violation ''Token endpoint redirect limit exceeded''
      else
        (case headerValue (or_headers response) ''Location'' of
           None \<Rightarrow> network_failure ''Token endpoint redirect response is missing a Location header''
         | Some location \<Rightarrow>
             bindE (oauth_resolveRedirectUrl current location) (\<lambda>target.
             bindE (parse_oauth_url target ''token endpoint redirect URL'') (\<lambda>u.
               let url = ou_url u; sameOrigin = (originForUrl current = originForUrl url) in
               if op_requireHttps policy \<and> du_scheme url \<noteq> ''https''
               then policy_violation ''Token endpoint redirect downgraded away from HTTPS''
               else if op_requireSameOriginRedirects policy \<and> \<not> sameOrigin
               then policy_violation ''Token endpoint redirect changed origin''
               else
                 let headers = (if \<not> sameOrigin then without_authorization (oq_headers req) else oq_headers req) in
                 if (or_statusCode response = 301 \<or> or_statusCode response = 302 \<or> or_statusCode response = 303)
                   \<and> methodAllowsBodyOnRedirectRewrite (oq_method req)
                 then policy_violation (''Refusing to follow token endpoint redirects that can rewrite a ''
                   @ ''credential-bearing request method'')
                 else Inr (req\<lparr>oq_headers := headers, oq_url := serializeUrl url\<rparr>, url)))))"

lemma token_redirect_limit: "token_redirect policy redirects req current response = Inr followed \<Longrightarrow> redirects < op_maxRedirects policy"
  by (simp add: token_redirect_def policy_violation_def split: if_splits)

function token_loop ::
  "token_executor \<Rightarrow> oauth_policy \<Rightarrow> nat \<Rightarrow> oauth_request \<Rightarrow> discovery_url \<Rightarrow> oauth_request list \<Rightarrow>
   (oauth_failure + oauth_response) \<times> oauth_request list" where
  "token_loop executor policy redirects req current past =
     (case executor past req of
        Inl e \<Rightarrow> (Inl e, past @ [req])
      | Inr response \<Rightarrow>
          if \<not> isRedirectStatusCode (or_statusCode response) then (Inr response, past @ [req])
          else
            (case token_redirect policy redirects req current response of
               Inl e \<Rightarrow> (Inl e, past @ [req])
             | Inr (req', url) \<Rightarrow> token_loop executor policy (redirects + 1) req' url (past @ [req])))"
  by pat_completeness auto
termination
  by (relation "measure (\<lambda>(executor, policy, redirects, req, current, past). op_maxRedirects policy - redirects)")
     (auto dest: token_redirect_limit)

declare token_loop.simps [simp del]

definition executeTokenRequestWithPolicy ::
  "token_executor option \<Rightarrow> oauth_policy \<Rightarrow> oauth_request \<Rightarrow> (oauth_failure + oauth_response) \<times> oauth_request list" where
  "executeTokenRequestWithPolicy executor policy given =
     (case executor of
        None \<Rightarrow> (invalid_input ''Token request execution requires a non-null request executor'', [])
      | Some f \<Rightarrow>
          let req = toTokenRequest given in
          (case parse_oauth_url (oq_url req) ''token request URL'' of
             Inl e \<Rightarrow> (Inl e, [])
           | Inr u \<Rightarrow>
               if op_requireHttps policy \<and> du_scheme (ou_url u) \<noteq> ''https''
               then (policy_violation ''Token endpoint interactions must use HTTPS'', [])
               else token_loop f policy 0 req (ou_url u) []))"

section \<open>Token storage\<close>

record access_token =
  at_value :: string
  at_scopes :: "string list"

text \<open>\<open>OAuthTokenStorage\<close>: the state of a storage and its two operations, which may throw.\<close>

record 'w token_storage =
  ts_load :: "'w \<Rightarrow> string \<Rightarrow> oauth_failure + access_token option"
  ts_save :: "'w \<Rightarrow> string \<Rightarrow> access_token \<Rightarrow> oauth_failure + 'w"

type_synonym memory_tokens = "(string, access_token) umap"

definition storage_load :: "memory_tokens \<Rightarrow> string \<Rightarrow> access_token option" where
  "storage_load tokens resource =
     (let key = normalizeResourceKey resource in if key = [] then None else map_of tokens key)"

definition storage_save :: "memory_tokens \<Rightarrow> string \<Rightarrow> access_token \<Rightarrow> oauth_failure + memory_tokens" where
  "storage_save tokens resource token =
     (let key = normalizeResourceKey resource in
      if key = [] then invalid_input ''Token storage resource key must not be empty''
      else Inr (umap_put key token tokens))"

definition memory_storage :: "memory_tokens token_storage" where
  "memory_storage = \<lparr>ts_load = (\<lambda>tokens resource. Inr (storage_load tokens resource)), ts_save = storage_save\<rparr>"

section \<open>Step-up authorization\<close>

record step_up_request =
  su_resource :: string
  su_requestedScopes :: "string list"
  su_resourceMetadataUrl :: "string option"

datatype step_up_event = Requested oauth_request | Authorized step_up_request

record step_up_execution =
  se_request :: oauth_request
  se_resource :: string
  se_initialScopes :: "string list"
  se_executor :: "(step_up_event list \<Rightarrow> oauth_request \<Rightarrow> oauth_failure + oauth_response) option"
  se_authorizer :: "(step_up_event list \<Rightarrow> step_up_request \<Rightarrow> oauth_failure + access_token) option"
  se_maxStepUpAttempts :: nat

definition withBearerAuthorization :: "oauth_request \<Rightarrow> access_token option \<Rightarrow> oauth_request" where
  "withBearerAuthorization req token =
     (let headers = without_authorization (oq_headers req) in
      req\<lparr>oq_headers := (case token of
            Some t \<Rightarrow> if at_value t \<noteq> [] then headers @ [(''Authorization'', ''Bearer '' @ at_value t)] else headers
          | None \<Rightarrow> headers)\<rparr>)"

text \<open>
  What a response asks for: the challenge for more scopes, the scopes to ask for, where the attempt is
  counted and the key it is counted under; nothing when the loop ends.
\<close>

definition step_up_target ::
  "step_up_execution \<Rightarrow> string \<Rightarrow> access_token option \<Rightarrow> oauth_response \<Rightarrow>
   (string list \<times> string option \<times> string \<times> string) option" where
  "step_up_target x resource token response =
     (let headers = collectHeaderValues (or_headers response) ''WWW-Authenticate'' in
      if headers = [] then None
      else
        (case find (\<lambda>c. case bc_error c of Some e \<Rightarrow> equalsIgnoreCaseAscii (trimAsciiWhitespace e) ''insufficient_scope''
                    | None \<Rightarrow> False) (parseBearerWwwAuthenticateChallenges headers) of
           None \<Rightarrow> None
         | Some challenge \<Rightarrow>
             (case bc_scope challenge of
                None \<Rightarrow> None
              | Some text \<Rightarrow>
                  let required = sanitize_scopes (parseScopeString text);
                      base = (case token of Some t \<Rightarrow> mergeScopes (se_initialScopes x) (at_scopes t)
                              | None \<Rightarrow> se_initialScopes x);
                      target = mergeScopes base required;
                      key = canonicalScopeSetKey target
                  in
                  if required = [] \<or> key = [] then None
                  else
                    (case Option.bind (bc_resourceMetadata challenge) (\<lambda>m. let n = normalizeResourceKey m in
                              if n = [] then None else Some n) of
                       Some m \<Rightarrow> Some (target, Some m, m, key)
                     | None \<Rightarrow> Some (target, None, resource, key)))))"

function step_up_loop ::
  "(step_up_event list \<Rightarrow> oauth_request \<Rightarrow> oauth_failure + oauth_response) \<Rightarrow>
   (step_up_event list \<Rightarrow> step_up_request \<Rightarrow> oauth_failure + access_token) \<Rightarrow> 'w token_storage \<Rightarrow> step_up_execution \<Rightarrow>
   string \<Rightarrow> nat \<Rightarrow> (string \<times> string) set \<Rightarrow> access_token option \<Rightarrow> oauth_response \<Rightarrow> 'w \<Rightarrow> step_up_event list \<Rightarrow>
   (oauth_failure + oauth_response) \<times> 'w \<times> step_up_event list" where
  "step_up_loop executor authorizer storage x resource attempts attempted token response w past =
     (if or_statusCode response \<noteq> 403 \<or> attempts \<ge> se_maxStepUpAttempts x then (Inr response, w, past)
      else
        (case step_up_target x resource token response of
           None \<Rightarrow> (Inr response, w, past)
         | Some (target, metadataUrl, tracking, key) \<Rightarrow>
             if (tracking, key) \<in> attempted then (Inr response, w, past)
             else
               let ask = \<lparr>su_resource = resource, su_requestedScopes = target, su_resourceMetadataUrl = metadataUrl\<rparr>;
                   asked = past @ [Authorized ask]
               in
               (case bindE (authorizer past ask) (\<lambda>t.
                       bindE (requireNonEmptyTokenValue (at_value t) ''step-up access token'') (\<lambda>value.
                         let t' = \<lparr>at_value = value, at_scopes = sanitize_scopes (at_scopes t)\<rparr> in
                         bindE (ts_save storage w resource t') (\<lambda>w'. Inr (t', w')))) of
                  Inl e \<Rightarrow> (Inl e, w, asked)
                | Inr (t', w') \<Rightarrow>
                    let req = withBearerAuthorization (se_request x) (Some t') in
                    (case executor asked req of
                       Inl e \<Rightarrow> (Inl e, w', asked @ [Requested req])
                     | Inr response' \<Rightarrow>
                         step_up_loop executor authorizer storage x resource (attempts + 1)
                           (insert (tracking, key) attempted) (Some t') response' w' (asked @ [Requested req])))))"
  by pat_completeness auto
termination
  by (relation "measure (\<lambda>(executor, authorizer, storage, x, resource, attempts, attempted, token, response, w, past).
        se_maxStepUpAttempts x - attempts)") auto

declare step_up_loop.simps [simp del]

definition executeProtectedResourceRequestWithStepUp ::
  "'w token_storage \<Rightarrow> step_up_execution \<Rightarrow> 'w \<Rightarrow> (oauth_failure + oauth_response) \<times> 'w \<times> step_up_event list" where
  "executeProtectedResourceRequestWithStepUp storage x w =
     (case se_executor x of
        None \<Rightarrow> (invalid_input ''Step-up execution requires a non-null request executor'', w, [])
      | Some executor \<Rightarrow>
          (case se_authorizer x of
             None \<Rightarrow> (invalid_input ''Step-up execution requires a non-null authorizer callback'', w, [])
           | Some authorizer \<Rightarrow>
               let resource = normalizeResourceKey (se_resource x) in
               if resource = []
               then (invalid_input ''Step-up execution requires a non-empty resource identifier'', w, [])
               else
                 (case ts_load storage w resource of
                    Inl e \<Rightarrow> (Inl e, w, [])
                  | Inr token \<Rightarrow>
                      let req = withBearerAuthorization (se_request x) token in
                      (case executor [] req of
                         Inl e \<Rightarrow> (Inl e, w, [Requested req])
                       | Inr response \<Rightarrow>
                           step_up_loop executor authorizer storage x resource 0 {} token response w [Requested req]))))"

end
