(* ===== verification/OAuthSpec.thy ===== *)
theory OAuthSpec
  imports OAuthClient DiscoveryServer
begin

text \<open>
  What the OAuth client promises: the parameters it sends, where its credentials go and how it asks
  for more scopes.
\<close>

section \<open>Forms\<close>

text \<open>The reader of \<open>application/x-www-form-urlencoded\<close> text at the other end.\<close>

fun split_on :: "char \<Rightarrow> string \<Rightarrow> string list" where
  "split_on d [] = [[]]"
| "split_on d (c # cs) =
     (if c = d then [] # split_on d cs else (case split_on d cs of [] \<Rightarrow> [[c]] | p # ps \<Rightarrow> (c # p) # ps))"

definition hex_value :: "char \<Rightarrow> nat" where
  "hex_value c = (case find_char c ''0123456789ABCDEF'' of Some n \<Rightarrow> n | None \<Rightarrow> 0)"

fun percent_decode :: "string \<Rightarrow> string" where
  "percent_decode [] = []"
| "percent_decode (c # cs) =
     (if c = CHR ''%''
      then (case cs of h # l # rest \<Rightarrow> char_of (16 * hex_value h + hex_value l) # percent_decode rest | _ \<Rightarrow> [c])
      else (if c = CHR ''+'' then CHR '' '' else c) # percent_decode cs)"

definition decode_parameter :: "string \<Rightarrow> string \<times> string" where
  "decode_parameter p =
     (percent_decode (takeWhile (\<lambda>c. c \<noteq> CHR ''='') p), percent_decode (tl (dropWhile (\<lambda>c. c \<noteq> CHR ''='') p)))"

definition decode_form :: "string \<Rightarrow> (string \<times> string) list" where
  "decode_form text = (if text = [] then [] else map decode_parameter (split_on (CHR ''&'') text))"

lemma split_on_nonempty [simp]: "split_on d s \<noteq> []"
  by (induction s) (auto split: list.splits)

lemma split_on_append: "split_on d (s @ d # t) = split_on d s @ split_on d t"
  by (induction s) (auto split: list.splits)

lemma split_on_whole: "d \<notin> set s \<Longrightarrow> split_on d s = [s]"
  by (induction s) auto

lemma hex_digits: "\<forall>n \<in> set [0..<16]. hex_value (''0123456789ABCDEF'' ! n) = n"
  by code_simp

lemma hex_byte: "char_of (16 * hex_value (''0123456789ABCDEF'' ! (byte c div 16 mod 16)) +
    hex_value (''0123456789ABCDEF'' ! (byte c mod 16))) = c"
proof -
  have digit: "n < 16 \<Longrightarrow> hex_value (''0123456789ABCDEF'' ! n) = n" for n using hex_digits by simp
  have "byte c < 256" by (simp add: byte_def)
  then have "byte c div 16 mod 16 = byte c div 16" by (simp add: less_mult_imp_div_less)
  then have "16 * (byte c div 16 mod 16) + byte c mod 16 = byte c" by simp
  then show ?thesis by (simp only: digit [OF mod_less_divisor] zero_less_numeral byte_def char_of_char)
qed

lemma unreserved_plain: "isUnreservedUriCharacter c \<Longrightarrow> c \<notin> set ''%&=+''"
proof -
  assume c: "isUnreservedUriCharacter c"
  have "\<forall>d \<in> set ''%&=+''. \<not> isUnreservedUriCharacter d" by code_simp
  then show ?thesis using c by blast
qed

lemma percent_back: "percent_decode (percentEncodeComponent v) = v"
proof (induction v)
  case (Cons c v)
  then show ?case
    using unreserved_plain [of c] hex_byte [of c] by (auto simp: percentEncodeComponent_def toHexByte_def)
qed (simp add: percentEncodeComponent_def)

lemma encoded_plain: "CHR ''&'' \<notin> set (percentEncodeComponent v)" "CHR ''='' \<notin> set (percentEncodeComponent v)"
proof -
  have digits: "\<forall>n \<in> set [0..<16]. ''0123456789ABCDEF'' ! n \<notin> set ''&=''" by code_simp
  have two: "x \<notin> S \<Longrightarrow> y \<notin> S \<Longrightarrow> set [x, y] \<inter> S = {}" for x y :: char and S by auto
  have hex: "set (toHexByte c) \<inter> set ''&='' = {}" for c
    unfolding toHexByte_def by (intro two bspec [OF digits]) simp_all
  have "set (percentEncodeComponent v) \<inter> set ''&='' = {}"
  proof (induction v)
    case (Cons c v)
    have "set (percentEncodeComponent (c # v)) =
        (if isUnreservedUriCharacter c then {c} else insert (CHR ''%'') (set (toHexByte c))) \<union> set (percentEncodeComponent v)"
      by (simp add: percentEncodeComponent_def)
    moreover have "CHR ''%'' \<notin> set ''&=''" by simp
    moreover have "isUnreservedUriCharacter c \<Longrightarrow> c \<notin> set ''&=''" using unreserved_plain [of c] by simp
    ultimately show ?case using Cons.IH hex [of c] by (simp add: Int_Un_distrib2 del: list.set)
  qed (simp add: percentEncodeComponent_def)
  then show "CHR ''&'' \<notin> set (percentEncodeComponent v)" "CHR ''='' \<notin> set (percentEncodeComponent v)" by auto
qed

definition form_parameter :: "string \<Rightarrow> string \<Rightarrow> string" where
  "form_parameter name value = percentEncodeComponent name @ CHR ''='' # percentEncodeComponent value"

lemma decode_form_parameter:
  "decode_parameter (form_parameter name value) = (name, value)" "CHR ''&'' \<notin> set (form_parameter name value)"
  "form_parameter name value \<noteq> []"
proof -
  have plain: "\<And>c. c \<in> set (percentEncodeComponent name) \<Longrightarrow> c \<noteq> CHR ''=''" using encoded_plain(2) [of name] by metis
  have t: "takeWhile (\<lambda>c. c \<noteq> CHR ''='') (percentEncodeComponent name @ CHR ''='' # rest) = percentEncodeComponent name"
    and t': "dropWhile (\<lambda>c. c \<noteq> CHR ''='') (percentEncodeComponent name @ CHR ''='' # rest) = CHR ''='' # rest" for rest
    by (subst takeWhile_append2 dropWhile_append2, erule plain, simp)+
  show "decode_parameter (form_parameter name value) = (name, value)"
    by (simp add: decode_parameter_def form_parameter_def t t' percent_back)
  show "CHR ''&'' \<notin> set (form_parameter name value)" "form_parameter name value \<noteq> []"
    using encoded_plain by (auto simp: form_parameter_def)
qed

text \<open>A parameter that is appended is read after those before it, whatever its name and value contain.\<close>

lemma decode_append:
  "decode_form (appendFormParameter name value body) = decode_form body @ [(name, value)]"
  "appendFormParameter name value body \<noteq> []"
proof -
  have "appendFormParameter name value body = (if body = [] then [] else body @ ''&'') @ form_parameter name value"
    by (simp add: appendFormParameter_def form_parameter_def)
  then show "decode_form (appendFormParameter name value body) = decode_form body @ [(name, value)]"
    "appendFormParameter name value body \<noteq> []"
    using decode_form_parameter [of name "value"] by (auto simp: decode_form_def split_on_append split_on_whole)
qed

lemma decode_fold:
  "decode_form (fold (\<lambda>(name, value). appendFormParameter name value) ps body) = decode_form body @ ps"
  by (induction ps arbitrary: body) (auto simp: decode_append)

lemma decode_additional:
  "append_additional_form ps body = Inr body' \<Longrightarrow>
   decode_form body' = decode_form body @ map (\<lambda>(n, v). (trimAsciiWhitespace n, v)) ps \<and>
   (\<forall>(n, v) \<in> set ps. trimAsciiWhitespace n \<noteq> [] \<and> \<not> isReservedTokenBodyParameter (trimAsciiWhitespace n)
      \<and> \<not> isSensitiveTokenParameter (trimAsciiWhitespace n))"
proof (induction ps body rule: append_additional_form.induct)
  case (2 n v ps body)
  then show ?case
    by (auto simp: bindE_def requireNonEmptyTokenValue_def invalid_input_def policy_violation_def Let_def decode_append
        split: if_splits)
qed simp

text \<open>The text after the endpoint of an authorization URL is such a form too.\<close>

lemma append_query_form:
  assumes "body \<noteq> []"
  shows "appendQueryParameter name v (url @ sep @ body, True) = (url @ sep @ appendFormParameter name v body, True)"
  using assms by (simp add: appendQueryParameter_def appendFormParameter_def)

lemma fold_query_form:
  "body \<noteq> [] \<Longrightarrow>
   fold (\<lambda>(name, value). appendQueryParameter name value) ps (url @ sep @ body, True) =
     (url @ sep @ fold (\<lambda>(name, value). appendFormParameter name value) ps body, True)"
  by (induction ps arbitrary: body) (auto simp: append_query_form decode_append)

lemma query_form:
  "fold (\<lambda>(name, value). appendQueryParameter name value) (p # ps) (url, hasQuery) =
     (url @ (if hasQuery then ''&'' else ''?'') @ fold (\<lambda>(name, value). appendFormParameter name value) (p # ps) [], True)"
proof -
  obtain name v where p: "p = (name, v)" by (cases p)
  have "appendQueryParameter name v (url, hasQuery) =
      (url @ (if hasQuery then ''&'' else ''?'') @ appendFormParameter name v [], True)"
    by (simp add: appendQueryParameter_def appendFormParameter_def)
  then show ?thesis by (simp add: p fold_query_form decode_append)
qed

lemma additional_query_form:
  "append_additional_query ps (url @ sep @ body, True) = Inr r \<Longrightarrow> body \<noteq> [] \<Longrightarrow>
   (\<exists>body'. r = (url @ sep @ body', True) \<and> decode_form body' = decode_form body @ map (\<lambda>(n, v). (trimAsciiWhitespace n, v)) ps) \<and>
   (\<forall>(n, v) \<in> set ps. trimAsciiWhitespace n \<noteq> [] \<and> \<not> isReservedAuthorizationQueryParameter (trimAsciiWhitespace n)
      \<and> \<not> isSensitiveTokenParameter (trimAsciiWhitespace n))"
proof (induction ps arbitrary: body)
  case (Cons p ps)
  obtain n v where p: "p = (n, v)" by (cases p)
  let ?n = "trimAsciiWhitespace n"
  from Cons.prems have checks: "?n \<noteq> []" "\<not> isReservedAuthorizationQueryParameter ?n" "\<not> isSensitiveTokenParameter ?n"
    "append_additional_query ps (url @ sep @ appendFormParameter ?n v body, True) = Inr r"
    by (auto simp: p bindE_def requireNonEmptyTokenValue_def invalid_input_def policy_violation_def Let_def append_query_form
        split: if_splits)
  show ?case using Cons.IH [OF checks(4)] checks(1-3) by (auto simp: p decode_append)
qed auto

text \<open>The values that are sent trimmed are not empty then.\<close>

lemma nonempty_value: "requireNonEmptyTokenValue v field = Inr t \<longleftrightarrow> t = trimAsciiWhitespace v \<and> t \<noteq> []"
  by (auto simp: requireNonEmptyTokenValue_def invalid_input_def Let_def)

text \<open>C31. A token request that is built is a POST to the HTTPS token endpoint of a server that supports
  S256, with a verifier of 43 to 128 characters. A reader of its form gets exactly the parameters of the
  code flow and the additional ones, in order, whatever characters the values contain, and no additional
  parameter repeats one of the flow or is a token.\<close>

theorem token_request_carries_its_parameters:
  assumes "buildTokenExchangeHttpRequest req = Inr r"
  shows "oq_method r = ''POST'' \<and>
     (\<exists>endpoint u. sm_tokenEndpoint (tx_metadata req) = Some endpoint \<and> parse_oauth_url endpoint ''token_endpoint'' = Inr u \<and>
        du_scheme (ou_url u) = ''https'' \<and> oq_url r = trimAsciiWhitespace endpoint) \<and>
     (\<exists>m \<in> set (sm_codeChallengeMethods (tx_metadata req)). toLowerAscii m = ''s256'') \<and>
     length (trimAsciiWhitespace (tx_codeVerifier req)) \<in> {43..128} \<and>
     decode_form (oq_body r) =
       [(''grant_type'', ''authorization_code''), (''code'', trimAsciiWhitespace (tx_authorizationCode req)),
        (''redirect_uri'', tx_redirectUri req), (''client_id'', trimAsciiWhitespace (tx_clientId req)),
        (''code_verifier'', trimAsciiWhitespace (tx_codeVerifier req)), (''resource'', trimAsciiWhitespace (tx_resource req))]
       @ map (\<lambda>(n, v). (trimAsciiWhitespace n, v)) (tx_additionalParameters req) \<and>
     (\<forall>(n, v) \<in> set (tx_additionalParameters req). \<not> isReservedTokenBodyParameter (trimAsciiWhitespace n)
        \<and> \<not> isSensitiveTokenParameter (trimAsciiWhitespace n))"
proof -
  have s256: "toLowerAscii ''S256'' = ''s256''" by code_simp
  have serialized: "parse_oauth_url endpoint field = Inr u \<Longrightarrow> ou_serialized u = trimAsciiWhitespace endpoint" for endpoint field u
    by (auto simp: parse_oauth_url_def invalid_input_def Let_def split: if_splits option.splits)
  let ?flow = "[(''grant_type'', ''authorization_code''), (''code'', trimAsciiWhitespace (tx_authorizationCode req)),
        (''redirect_uri'', tx_redirectUri req), (''client_id'', trimAsciiWhitespace (tx_clientId req)),
        (''code_verifier'', trimAsciiWhitespace (tx_codeVerifier req)), (''resource'', trimAsciiWhitespace (tx_resource req))]"
  obtain endpoint u body where built: "sm_tokenEndpoint (tx_metadata req) = Some endpoint"
      "parse_oauth_url endpoint ''token_endpoint'' = Inr u" "du_scheme (ou_url u) = ''https''"
      "validateAuthorizationServerPkceS256Support (tx_metadata req) = Inr ()"
      "length (trimAsciiWhitespace (tx_codeVerifier req)) \<in> {43..128}"
      "append_additional_form (tx_additionalParameters req)
         (fold (\<lambda>(name, value). appendFormParameter name value) ?flow []) = Inr body"
      "r = \<lparr>oq_method = ''POST'', oq_url = ou_serialized u,
         oq_headers = [(''Content-Type'', ''application/x-www-form-urlencoded''), (''Accept'', ''application/json'')],
         oq_body = body\<rparr>"
    using assms unfolding buildTokenExchangeHttpRequest_def bindE_Inr nonempty_value Let_def
    by (auto simp: invalid_metadata_def policy_violation_def invalid_input_def bindE_Inr nonempty_value kPkceVerifierMinLength_def
        kPkceVerifierMaxLength_def split: option.splits if_splits simp del: fold.simps)
  have "decode_form (oq_body r) = ?flow @ map (\<lambda>(n, v). (trimAsciiWhitespace n, v)) (tx_additionalParameters req)"
    using decode_additional [OF built(6)] unfolding decode_fold built(7) by (simp add: decode_form_def)
  moreover have "\<exists>m \<in> set (sm_codeChallengeMethods (tx_metadata req)). toLowerAscii m = ''s256''"
    using built(4) by (auto simp: validateAuthorizationServerPkceS256Support_def invalid_metadata_def s256 list_ex_iff split: if_splits)
  ultimately show ?thesis
    using built(1-3,5) serialized [OF built(2)] decode_additional [OF built(6)] by (auto simp: built(7))
qed

text \<open>An authorization URL that is built is the HTTPS authorization endpoint of a server that supports
  S256, followed by a form from which a reader gets exactly the parameters of the code flow, the scopes and
  the additional parameters, in order, whatever characters the values contain; the challenge method is S256, and
  no additional parameter repeats one of the flow or is a token.\<close>

theorem authorization_url_carries_its_parameters:
  assumes "buildAuthorizationUrl req = Inr url"
  shows "\<exists>endpoint u form. sm_authorizationEndpoint (au_metadata req) = Some endpoint \<and>
     parse_oauth_url endpoint ''authorization_endpoint'' = Inr u \<and> du_scheme (ou_url u) = ''https'' \<and>
     url = trimAsciiWhitespace endpoint @ (if ou_hasQuery u then ''&'' else ''?'') @ form \<and>
     decode_form form =
       [(''response_type'', ''code''), (''client_id'', trimAsciiWhitespace (au_clientId req)),
        (''redirect_uri'', au_redirectUri req), (''state'', trimAsciiWhitespace (au_state req)),
        (''code_challenge'', trimAsciiWhitespace (au_codeChallenge req)), (''code_challenge_method'', ''S256''),
        (''resource'', trimAsciiWhitespace (au_resource req))]
       @ (case Option.bind (au_scopes req) joinScopes of Some scope \<Rightarrow> [(''scope'', scope)] | None \<Rightarrow> [])
       @ map (\<lambda>(n, v). (trimAsciiWhitespace n, v)) (au_additionalParameters req) \<and>
     (\<forall>(n, v) \<in> set (au_additionalParameters req). \<not> isReservedAuthorizationQueryParameter (trimAsciiWhitespace n)
        \<and> \<not> isSensitiveTokenParameter (trimAsciiWhitespace n))"
proof -
  have serialized: "parse_oauth_url endpoint field = Inr u \<Longrightarrow> ou_serialized u = trimAsciiWhitespace endpoint" for endpoint field u
    by (auto simp: parse_oauth_url_def invalid_input_def Let_def split: if_splits option.splits)
  define flow where "flow = [(''response_type'', ''code''), (''client_id'', trimAsciiWhitespace (au_clientId req)),
        (''redirect_uri'', au_redirectUri req), (''state'', trimAsciiWhitespace (au_state req)),
        (''code_challenge'', trimAsciiWhitespace (au_codeChallenge req)), (''code_challenge_method'', ''S256''),
        (''resource'', trimAsciiWhitespace (au_resource req))]"
  define scope where "scope = (case Option.bind (au_scopes req) joinScopes of Some scope \<Rightarrow> [(''scope'', scope)] | None \<Rightarrow> [])"
  obtain endpoint u q where built: "sm_authorizationEndpoint (au_metadata req) = Some endpoint"
      "parse_oauth_url endpoint ''authorization_endpoint'' = Inr u" "du_scheme (ou_url u) = ''https''"
      "append_additional_query (au_additionalParameters req)
         (case Option.bind (au_scopes req) joinScopes of
            Some scope \<Rightarrow> appendQueryParameter ''scope'' scope
              (fold (\<lambda>(name, value). appendQueryParameter name value) flow (ou_serialized u, ou_hasQuery u))
          | None \<Rightarrow> fold (\<lambda>(name, value). appendQueryParameter name value) flow (ou_serialized u, ou_hasQuery u)) = Inr (url, q)"
    using assms unfolding buildAuthorizationUrl_def bindE_Inr nonempty_value Let_def
    by (auto simp: invalid_metadata_def policy_violation_def bindE_Inr nonempty_value flow_def
        split: option.splits if_splits simp del: fold.simps)
  let ?sep = "if ou_hasQuery u then ''&'' else ''?''"
  obtain p ps where flow: "flow = p # ps" by (simp add: flow_def)
  let ?body = "fold (\<lambda>(name, value). appendFormParameter name value) (flow @ scope) []"
  have body: "?body \<noteq> []" using decode_fold [of "flow @ scope" "[]"] by (auto simp: decode_form_def flow)
  have "(case Option.bind (au_scopes req) joinScopes of
            Some scope \<Rightarrow> appendQueryParameter ''scope'' scope
              (fold (\<lambda>(name, value). appendQueryParameter name value) flow (ou_serialized u, ou_hasQuery u))
          | None \<Rightarrow> fold (\<lambda>(name, value). appendQueryParameter name value) flow (ou_serialized u, ou_hasQuery u))
      = fold (\<lambda>(name, value). appendQueryParameter name value) (flow @ scope) (ou_serialized u, ou_hasQuery u)"
    by (simp add: scope_def split: option.splits)
  also have "\<dots> = (ou_serialized u @ ?sep @ ?body, True)"
    unfolding flow append_Cons by (rule query_form)
  finally have "append_additional_query (au_additionalParameters req) (ou_serialized u @ ?sep @ ?body, True) = Inr (url, q)"
    using built(4) by simp
  note additional_query_form [OF this body]
  moreover have "decode_form ?body = flow @ scope" unfolding decode_fold by (simp add: decode_form_def)
  ultimately obtain form where form: "url = ou_serialized u @ ?sep @ form"
      "decode_form form = flow @ scope @ map (\<lambda>(n, v). (trimAsciiWhitespace n, v)) (au_additionalParameters req)"
      "\<forall>(n, v) \<in> set (au_additionalParameters req). \<not> isReservedAuthorizationQueryParameter (trimAsciiWhitespace n)
        \<and> \<not> isSensitiveTokenParameter (trimAsciiWhitespace n)"
    by auto
  show ?thesis
    unfolding flow_def [symmetric] scope_def [symmetric]
    using built(1-3) form serialized [OF built(2)] by (intro exI [of _ endpoint] exI [of _ u] exI [of _ form]) simp
qed

section \<open>Redirects of token requests\<close>

text \<open>Whether a header is an Authorization header.\<close>

definition authorization_header :: "string \<times> string \<Rightarrow> bool" where
  "authorization_header h \<longleftrightarrow> toLowerAscii (trimAsciiWhitespace (fst h)) = ''authorization''"

lemma without_authorization_headers:
  "set (without_authorization hs) = {h \<in> set hs. \<not> authorization_header h}"
  "without_authorization (without_authorization hs) = without_authorization hs"
proof -
  have "toLowerAscii ''Authorization'' = ''authorization''" by code_simp
  then have "equalsIgnoreCaseAscii (trimAsciiWhitespace (fst h)) ''Authorization'' = authorization_header h" for h :: "string \<times> string"
    by (simp add: authorization_header_def equalsIgnoreCase_iff)
  then show "set (without_authorization hs) = {h \<in> set hs. \<not> authorization_header h}"
    "without_authorization (without_authorization hs) = without_authorization hs"
    by (auto simp: without_authorization_def)
qed

text \<open>A request of the loop: where it goes, and what it carries of the given one.\<close>

definition sent_as_given :: "oauth_policy \<Rightarrow> oauth_request \<Rightarrow> discovery_url \<Rightarrow> oauth_request \<Rightarrow> discovery_url \<Rightarrow> bool" where
  "sent_as_given policy first start r url \<longleftrightarrow>
     oq_method r = oq_method first \<and> oq_body r = oq_body first \<and>
     (oq_headers r = oq_headers first \<and> originForUrl url = originForUrl start
      \<or> oq_headers r = without_authorization (oq_headers first)) \<and>
     (op_requireHttps policy \<longrightarrow> du_scheme url = ''https'') \<and>
     (op_requireSameOriginRedirects policy \<longrightarrow> originForUrl url = originForUrl start)"

text \<open>An answer that is followed: a redirect that does not ask for another method.\<close>

definition followed_answer :: "string \<Rightarrow> uint16 \<Rightarrow> bool" where
  "followed_answer m status \<longleftrightarrow>
     status \<in> (if toLowerAscii (trimAsciiWhitespace m) \<in> {''post'', ''put'', ''patch'', ''delete''}
       then {307, 308} else {301, 302, 303, 307, 308})"

lemma token_redirect_facts:
  assumes "token_redirect policy redirects req current response = Inr (req', url)"
  shows "req' = req\<lparr>oq_headers := (if originForUrl current = originForUrl url then oq_headers req
      else without_authorization (oq_headers req)), oq_url := serializeUrl url\<rparr>"
    "op_requireHttps policy \<longrightarrow> du_scheme url = ''https''"
    "op_requireSameOriginRedirects policy \<longrightarrow> originForUrl url = originForUrl current"
    "\<not> ((or_statusCode response = 301 \<or> or_statusCode response = 302 \<or> or_statusCode response = 303)
       \<and> methodAllowsBodyOnRedirectRewrite (oq_method req))"
  using assms [unfolded token_redirect_def Let_def]
  by (auto simp: policy_violation_def network_failure_def bindE_Inr split: if_splits option.splits)

lemma token_redirect_sent:
  assumes "token_redirect policy redirects req current response = Inr (req', url)"
    and "sent_as_given policy first start req current" and "isRedirectStatusCode (or_statusCode response)"
  shows "sent_as_given policy first start req' url" "oq_url req' = serializeUrl url"
    "followed_answer (oq_method first) (or_statusCode response)"
proof -
  note facts = token_redirect_facts [OF assms(1)]
  show "oq_url req' = serializeUrl url" using facts(1) by simp
  show "sent_as_given policy first start req' url"
  proof -
    have sent: "oq_method req = oq_method first" "oq_body req = oq_body first"
        "op_requireSameOriginRedirects policy \<longrightarrow> originForUrl current = originForUrl start"
      and headers: "oq_headers req = oq_headers first \<and> originForUrl current = originForUrl start
          \<or> oq_headers req = without_authorization (oq_headers first)"
      using assms(2) by (simp_all add: sent_as_given_def)
    have "without_authorization (oq_headers req) = without_authorization (oq_headers first)"
      using headers without_authorization_headers(2) by metis
    then have "oq_headers req' = oq_headers first \<and> originForUrl url = originForUrl start
        \<or> oq_headers req' = without_authorization (oq_headers first)"
      using headers by (cases "originForUrl current = originForUrl url") (simp_all add: facts(1))
    moreover have "op_requireSameOriginRedirects policy \<longrightarrow> originForUrl url = originForUrl start"
      using sent(3) facts(3) by simp
    ultimately show ?thesis using sent(1,2) facts(2) by (simp add: sent_as_given_def facts(1))
  qed
  have "oq_method req = oq_method first" using assms(2) by (simp add: sent_as_given_def)
  then show "followed_answer (oq_method first) (or_statusCode response)"
    using facts(4) assms(3)
    by (simp add: followed_answer_def isRedirectStatusCode_def methodAllowsBodyOnRedirectRewrite_def) blast
qed

lemma token_loop_sends:
  assumes "token_loop executor policy redirects req current past = (res, sent)"
    and "sent_as_given policy first start req current" and "redirects \<le> op_maxRedirects policy"
  shows "\<exists>rest. sent = past @ req # rest \<and> length rest \<le> op_maxRedirects policy - redirects \<and>
     (\<forall>r \<in> set rest. \<exists>url. oq_url r = serializeUrl url \<and> sent_as_given policy first start r url) \<and>
     (\<forall>i < length rest. \<exists>answer. executor (take (length past + i) sent) (sent ! (length past + i)) = Inr answer
        \<and> followed_answer (oq_method first) (or_statusCode answer))"
  using assms
proof (induction "op_maxRedirects policy - redirects" arbitrary: redirects req current past rule: less_induct)
  case less
  consider (stops) "sent = past @ [req]"
    | (follows) response req' url where "executor past req = Inr response" "isRedirectStatusCode (or_statusCode response)"
        "token_redirect policy redirects req current response = Inr (req', url)"
        "token_loop executor policy (redirects + 1) req' url (past @ [req]) = (res, sent)"
    using less.prems(1) by (subst (asm) token_loop.simps) (auto split: sum.splits if_splits)
  then show ?case
  proof cases
    case follows
    note below = token_redirect_limit [OF follows(3)] and step = token_redirect_sent [OF follows(3) less.prems(2) follows(2)]
    obtain rest where rest: "sent = (past @ [req]) @ req' # rest" "length rest \<le> op_maxRedirects policy - (redirects + 1)"
        "\<forall>r \<in> set rest. \<exists>url. oq_url r = serializeUrl url \<and> sent_as_given policy first start r url"
        "\<forall>i < length rest. \<exists>answer. executor (take (length (past @ [req]) + i) sent) (sent ! (length (past @ [req]) + i)) = Inr answer
           \<and> followed_answer (oq_method first) (or_statusCode answer)"
      using less.hyps [OF diff_less_mono2 follows(4) step(1)] below by auto
    have "\<exists>answer. executor (take (length past + i) sent) (sent ! (length past + i)) = Inr answer
        \<and> followed_answer (oq_method first) (or_statusCode answer)" if "i < length (req' # rest)" for i
      using that rest(4) follows(1) step(3) by (cases i) (simp_all add: rest(1))
    then show ?thesis using rest(1-3) step(1,2) below by (intro exI [of _ "req' # rest"]) auto
  qed simp
qed

text \<open>C32. The credentials of a token request stay where the policy allows them: the first request goes to
  the given URL, at most the configured number of redirects follow, and each has the method, the body and
  the headers of the given one, without the Authorization header once it has left the origin. Only a
  redirect is followed, and for a request with a body only one that keeps method and body, 307 or 308.
  With the policy that requires it, all URLs are HTTPS URLs and have the origin of the given one.\<close>

theorem token_credentials_stay_with_the_endpoint:
  assumes "executeTokenRequestWithPolicy (Some executor) policy given = (res, sent)" and "sent \<noteq> []"
  shows "\<exists>start rest. parse_oauth_url (oq_url given) ''token request URL'' = Inr start \<and> sent = toTokenRequest given # rest \<and>
     length rest \<le> op_maxRedirects policy \<and>
     (op_requireHttps policy \<longrightarrow> du_scheme (ou_url start) = ''https'') \<and>
     (\<forall>r \<in> set rest. oq_method r = oq_method (toTokenRequest given) \<and> oq_body r = oq_body given \<and>
        set (oq_headers r) \<subseteq> set (oq_headers given) \<and>
        (\<forall>h \<in> set (oq_headers given). \<not> authorization_header h \<longrightarrow> h \<in> set (oq_headers r)) \<and>
        (\<exists>url. oq_url r = serializeUrl url \<and> (op_requireHttps policy \<longrightarrow> du_scheme url = ''https'') \<and>
           (op_requireSameOriginRedirects policy \<longrightarrow> originForUrl url = originForUrl (ou_url start)) \<and>
           (originForUrl url \<noteq> originForUrl (ou_url start) \<longrightarrow> (\<forall>h \<in> set (oq_headers r). \<not> authorization_header h)))) \<and>
     (\<forall>i < length rest. \<exists>answer. executor (take i sent) (sent ! i) = Inr answer \<and>
        followed_answer (oq_method (toTokenRequest given)) (or_statusCode answer))"
proof -
  have same: "oq_url (toTokenRequest given) = oq_url given" "oq_body (toTokenRequest given) = oq_body given"
    "oq_headers (toTokenRequest given) = oq_headers given" by (simp_all add: toTokenRequest_def Let_def)
  obtain start where start: "parse_oauth_url (oq_url given) ''token request URL'' = Inr start"
      "op_requireHttps policy \<longrightarrow> du_scheme (ou_url start) = ''https''"
      "token_loop executor policy 0 (toTokenRequest given) (ou_url start) [] = (res, sent)"
    using assms by (auto simp: executeTokenRequestWithPolicy_def Let_def same split: sum.splits if_splits)
  then have "sent_as_given policy (toTokenRequest given) (ou_url start) (toTokenRequest given) (ou_url start)"
    by (simp add: sent_as_given_def)
  from token_loop_sends [OF start(3) this] obtain rest where rest: "sent = toTokenRequest given # rest"
      "length rest \<le> op_maxRedirects policy"
      "\<forall>r \<in> set rest. \<exists>url. oq_url r = serializeUrl url \<and> sent_as_given policy (toTokenRequest given) (ou_url start) r url"
      "\<forall>i < length rest. \<exists>answer. executor (take i sent) (sent ! i) = Inr answer \<and>
         followed_answer (oq_method (toTokenRequest given)) (or_statusCode answer)" by auto
  have carried: "oq_method r = oq_method (toTokenRequest given) \<and> oq_body r = oq_body given \<and>
        set (oq_headers r) \<subseteq> set (oq_headers given) \<and>
        (\<forall>h \<in> set (oq_headers given). \<not> authorization_header h \<longrightarrow> h \<in> set (oq_headers r)) \<and>
        (\<exists>url. oq_url r = serializeUrl url \<and> (op_requireHttps policy \<longrightarrow> du_scheme url = ''https'') \<and>
           (op_requireSameOriginRedirects policy \<longrightarrow> originForUrl url = originForUrl (ou_url start)) \<and>
           (originForUrl url \<noteq> originForUrl (ou_url start) \<longrightarrow> (\<forall>h \<in> set (oq_headers r). \<not> authorization_header h)))"
    if r: "r \<in> set rest" for r
  proof -
    obtain url where url: "oq_url r = serializeUrl url" "sent_as_given policy (toTokenRequest given) (ou_url start) r url"
      using rest(3) r by blast
    then have parts: "oq_method r = oq_method (toTokenRequest given)" "oq_body r = oq_body given"
        "op_requireHttps policy \<longrightarrow> du_scheme url = ''https''"
        "op_requireSameOriginRedirects policy \<longrightarrow> originForUrl url = originForUrl (ou_url start)"
      and headers: "oq_headers r = oq_headers given \<and> originForUrl url = originForUrl (ou_url start)
          \<or> oq_headers r = without_authorization (oq_headers given)"
      by (simp_all add: sent_as_given_def same)
    have "set (oq_headers r) \<subseteq> set (oq_headers given)"
      "\<forall>h \<in> set (oq_headers given). \<not> authorization_header h \<longrightarrow> h \<in> set (oq_headers r)"
      "originForUrl url \<noteq> originForUrl (ou_url start) \<longrightarrow> (\<forall>h \<in> set (oq_headers r). \<not> authorization_header h)"
      using headers by (elim disjE conjE; simp add: without_authorization_headers(1))+
    with parts url(1) show ?thesis by blast
  qed
  show ?thesis using start(1,2) rest(1,2,4) carried by blast
qed

section \<open>Witnesses\<close>

text \<open>A server that supports S256, a code exchange with it, and a token endpoint that has moved to another origin.\<close>

definition moved_server :: server_metadata where
  "moved_server = \<lparr>sm_issuer = ''https://i.s'', sm_authorizationEndpoint = Some ''https://i.s/a'',
     sm_tokenEndpoint = Some ''https://i.s/t'', sm_registrationEndpoint = None, sm_codeChallengeMethods = [''s256''],
     sm_clientIdDocumentSupported = False\<rparr>"

definition example_exchange :: token_exchange_request where
  "example_exchange = \<lparr>tx_metadata = moved_server, tx_clientId = '' me&you '', tx_redirectUri = ''http://localhost:80/c'',
     tx_authorizationCode = ''c=1'', tx_codeVerifier = replicate 43 (CHR ''v''), tx_resource = ''https://a.b/mcp'',
     tx_additionalParameters = [(''x y'', ''100%'')]\<rparr>"

definition example_token_request :: oauth_request where
  "example_token_request = projr (buildTokenExchangeHttpRequest example_exchange)"

definition moved_endpoint :: token_executor where
  "moved_endpoint past req = Inr
     (if past = []
      then \<lparr>or_statusCode = 307, or_headers = [(''location'', ''https://o.s/t'')], or_body = []\<rparr>
      else \<lparr>or_statusCode = 200, or_headers = [], or_body = ''{}''\<rparr>)"

definition authorized_post :: oauth_request where
  "authorized_post = \<lparr>oq_method = ''POST'', oq_url = ''https://i.s/t'',
     oq_headers = [(''authorization'', ''Basic x''), (''Accept'', ''*'')], oq_body = ''code=1''\<rparr>"

lemma example_is_built: "isl (buildTokenExchangeHttpRequest example_exchange) = False"
  by code_simp

theorem token_request_carries_its_parameters_witness:
  "(''client_id'', ''me&you'') \<in> set (decode_form (oq_body example_token_request))
   \<and> (''x y'', ''100%'') \<in> set (decode_form (oq_body example_token_request))"
proof -
  have "buildTokenExchangeHttpRequest example_exchange = Inr example_token_request"
    using example_is_built by (cases "buildTokenExchangeHttpRequest example_exchange") (simp_all add: example_token_request_def)
  note token_request_carries_its_parameters [OF this]
  moreover have "trimAsciiWhitespace '' me&you '' = ''me&you''" "trimAsciiWhitespace ''x y'' = ''x y''" by code_simp+
  ultimately show ?thesis by (simp add: example_exchange_def)
qed

lemma example_moves_on:
  "length (snd (executeTokenRequestWithPolicy (Some moved_endpoint)
     (default_oauth_policy\<lparr>op_requireSameOriginRedirects := False\<rparr>) authorized_post)) = 2"
  by code_simp

text \<open>With a policy that lets a redirect leave the origin, the body is sent on.\<close>

theorem token_credentials_stay_with_the_endpoint_witness:
  "\<exists>second. snd (executeTokenRequestWithPolicy (Some moved_endpoint)
       (default_oauth_policy\<lparr>op_requireSameOriginRedirects := False\<rparr>) authorized_post) =
     [toTokenRequest authorized_post, second] \<and> oq_body second = ''code=1''"
proof -
  let ?run = "executeTokenRequestWithPolicy (Some moved_endpoint)
    (default_oauth_policy\<lparr>op_requireSameOriginRedirects := False\<rparr>) authorized_post"
  have two: "length (snd ?run) = 2" by (rule example_moves_on)
  then have "snd ?run \<noteq> []" by auto
  from token_credentials_stay_with_the_endpoint [OF prod.collapse [symmetric] this]
  obtain rest where rest: "snd ?run = toTokenRequest authorized_post # rest"
    "\<forall>r \<in> set rest. oq_body r = oq_body authorized_post" by blast
  with two obtain second where "rest = [second]" by (auto simp: length_Suc_conv numeral_2_eq_2)
  with rest show ?thesis by (simp add: authorized_post_def)
qed

end
