(* ===== verification/StepUp.thy ===== *)
theory StepUp
  imports OAuthSpec
begin

text \<open>
  Step-up authorization: what a client sends and asks for while a resource answers that its scopes do
  not suffice.
\<close>

section \<open>The log\<close>

definition sent_requests :: "step_up_event list \<Rightarrow> oauth_request list" where
  "sent_requests past = concat (map (\<lambda>e. case e of Requested r \<Rightarrow> [r] | Authorized _ \<Rightarrow> []) past)"

definition asked_for :: "step_up_event list \<Rightarrow> step_up_request list" where
  "asked_for past = concat (map (\<lambda>e. case e of Authorized a \<Rightarrow> [a] | Requested _ \<Rightarrow> []) past)"

lemma log_simps [simp]:
  "sent_requests [] = []" "sent_requests (past @ past') = sent_requests past @ sent_requests past'"
  "sent_requests (Requested r # past) = r # sent_requests past" "sent_requests (Authorized a # past) = sent_requests past"
  "asked_for [] = []" "asked_for (past @ past') = asked_for past @ asked_for past'"
  "asked_for (Requested r # past) = asked_for past" "asked_for (Authorized a # past) = a # asked_for past"
  by (simp_all add: sent_requests_def asked_for_def)

text \<open>What an attempt is counted under: the resource or its metadata, and the sorted scopes.\<close>

definition attempt_key :: "step_up_request \<Rightarrow> string \<times> string" where
  "attempt_key a =
     ((case su_resourceMetadataUrl a of Some m \<Rightarrow> m | None \<Rightarrow> su_resource a), canonicalScopeSetKey (su_requestedScopes a))"

lemma mergeScopes_set: "set (mergeScopes base required) = set (sanitize_scopes base) \<union> set (sanitize_scopes required)"
proof -
  have "set (foldl (\<lambda>merged scope. if scope \<in> set merged then merged else merged @ [scope]) out ws) = set out \<union> set ws"
    for out ws :: "string list" by (induction ws arbitrary: out) auto
  then show ?thesis by (simp add: mergeScopes_def)
qed

lemma sanitize_set: "set (sanitize_scopes scopes) = {t \<in> trimAsciiWhitespace ` set scopes. t \<noteq> []}"
proof -
  have "set (foldl (\<lambda>out scope. let t = trimAsciiWhitespace scope in if t = [] \<or> t \<in> set out then out else out @ [t]) out ws)
      = set out \<union> {t \<in> trimAsciiWhitespace ` set ws. t \<noteq> []}" for out ws
    by (induction ws arbitrary: out) (auto simp: Let_def)
  then show ?thesis by (simp add: sanitize_scopes_def)
qed

lemma step_up_target_key:
  assumes "step_up_target x resource token response = Some (target, metadataUrl, tracking, key)"
  shows "attempt_key \<lparr>su_resource = resource, su_requestedScopes = target, su_resourceMetadataUrl = metadataUrl\<rparr> = (tracking, key)"
    and "set (sanitize_scopes (se_initialScopes x)) \<subseteq> set target"
proof -
  define base where "base = (case token of Some t \<Rightarrow> mergeScopes (se_initialScopes x) (at_scopes t) | None \<Rightarrow> se_initialScopes x)"
  have "set (sanitize_scopes (se_initialScopes x)) \<subseteq> set (sanitize_scopes (mergeScopes (se_initialScopes x) s))" for s
    unfolding sanitize_set mergeScopes_set
  proof
    fix t assume "t \<in> {t \<in> trimAsciiWhitespace ` set (se_initialScopes x). t \<noteq> []}"
    moreover from this have "trimAsciiWhitespace t = t" by (auto simp: trim_trim)
    ultimately show "t \<in> {t \<in> trimAsciiWhitespace ` ({t \<in> trimAsciiWhitespace ` set (se_initialScopes x). t \<noteq> []} \<union>
        {t \<in> trimAsciiWhitespace ` set s. t \<noteq> []}). t \<noteq> []}" by (metis (no_types, lifting) UnI1 image_eqI mem_Collect_eq)
  qed
  then have "set (sanitize_scopes (se_initialScopes x)) \<subseteq> set (sanitize_scopes base)"
    by (simp add: base_def split: option.splits)
  moreover have "\<exists>r. target = mergeScopes base r"
    using assms unfolding step_up_target_def base_def [symmetric] Let_def by (auto split: option.splits if_splits)
  ultimately show "set (sanitize_scopes (se_initialScopes x)) \<subseteq> set target" by (auto simp: mergeScopes_set)
  show "attempt_key \<lparr>su_resource = resource, su_requestedScopes = target, su_resourceMetadataUrl = metadataUrl\<rparr> = (tracking, key)"
    using assms by (auto simp: step_up_target_def Let_def attempt_key_def split: option.splits if_splits)
qed

text \<open>The steps of the loop: it ends, it fails, or it asks, sends and goes on.\<close>

lemma step_up_cases:
  assumes "step_up_loop executor authorizer storage x resource attempts attempted token response w past = (res, w', past')"
  obtains (ends) "past' = past"
  | (asks) ask r where "attempts < se_maxStepUpAttempts x" "attempt_key ask \<notin> attempted" "su_resource ask = resource"
      "set (sanitize_scopes (se_initialScopes x)) \<subseteq> set (su_requestedScopes ask)"
      "past' = past @ [Authorized ask] \<or> past' = past @ [Authorized ask, Requested r]"
      "\<exists>t. r = withBearerAuthorization (se_request x) (Some t)"
  | (goes_on) ask t response' w'' where "attempts < se_maxStepUpAttempts x" "attempt_key ask \<notin> attempted"
      "su_resource ask = resource" "set (sanitize_scopes (se_initialScopes x)) \<subseteq> set (su_requestedScopes ask)"
      "step_up_loop executor authorizer storage x resource (attempts + 1) (insert (attempt_key ask) attempted) (Some t)
         response' w'' (past @ [Authorized ask, Requested (withBearerAuthorization (se_request x) (Some t))]) = (res, w', past')"
proof (cases "or_statusCode response \<noteq> 403 \<or> attempts \<ge> se_maxStepUpAttempts x")
  case True
  then show ?thesis using assms ends by (subst (asm) step_up_loop.simps) simp
next
  case below: False
  show ?thesis
  proof (cases "step_up_target x resource token response")
    case None
    then show ?thesis using assms below ends by (subst (asm) step_up_loop.simps) simp
  next
    case (Some found)
    obtain target metadataUrl tracking key where found: "found = (target, metadataUrl, tracking, key)" by (cases found)
    let ?ask = "\<lparr>su_resource = resource, su_requestedScopes = target, su_resourceMetadataUrl = metadataUrl\<rparr>"
    note target = step_up_target_key [OF Some [unfolded found]]
    show ?thesis
    proof (cases "(tracking, key) \<in> attempted")
      case True
      then show ?thesis using assms below Some found ends by (subst (asm) step_up_loop.simps) simp
    next
      case False
      define granted where "granted = bindE (authorizer past ?ask) (\<lambda>t.
          bindE (requireNonEmptyTokenValue (at_value t) ''step-up access token'') (\<lambda>value.
            let t' = \<lparr>at_value = value, at_scopes = sanitize_scopes (at_scopes t)\<rparr> in
            bindE (ts_save storage w resource t') (\<lambda>w'. Inr (t', w'))))"
      note fresh = False below Some found target granted_def [symmetric]
      show ?thesis
      proof (cases granted)
        case (Inl e)
        then show ?thesis
          using assms fresh asks [of ?ask "withBearerAuthorization (se_request x) (Some undefined)"]
          by (subst (asm) step_up_loop.simps) auto
      next
        case (Inr g)
        obtain t' w1 where g: "g = (t', w1)" by (cases g)
        let ?r = "withBearerAuthorization (se_request x) (Some t')"
        show ?thesis
        proof (cases "executor (past @ [Authorized ?ask]) ?r")
          case (Inl e)
          then show ?thesis
            using assms fresh Inr g asks [of ?ask ?r] by (subst (asm) step_up_loop.simps) auto
        next
          case (Inr response')
          then show ?thesis
            using assms fresh \<open>granted = Inr g\<close> g goes_on [of ?ask t' response' w1]
            by (subst (asm) step_up_loop.simps) auto
        qed
      qed
    qed
  qed
qed

lemma step_up_log:
  "step_up_loop executor authorizer storage x resource attempts attempted token response w past = (res, w', past') \<Longrightarrow>
   \<exists>new. past' = past @ new \<and>
     (\<forall>r \<in> set (sent_requests new). \<exists>t. r = withBearerAuthorization (se_request x) t) \<and>
     (\<forall>a \<in> set (asked_for new). su_resource a = resource \<and> set (sanitize_scopes (se_initialScopes x)) \<subseteq> set (su_requestedScopes a)) \<and>
     length (sent_requests new) \<le> length (asked_for new) \<and> length (asked_for new) \<le> se_maxStepUpAttempts x - attempts \<and>
     distinct (map attempt_key (asked_for new)) \<and> attempt_key ` set (asked_for new) \<inter> attempted = {}"
proof (induction "se_maxStepUpAttempts x - attempts" arbitrary: attempts attempted token response w past rule: less_induct)
  case less
  from less.prems show ?case
  proof (cases rule: step_up_cases)
    case (goes_on ask t response' w'')
    obtain new where new: "past' = (past @ [Authorized ask, Requested (withBearerAuthorization (se_request x) (Some t))]) @ new"
      "\<forall>r \<in> set (sent_requests new). \<exists>t. r = withBearerAuthorization (se_request x) t"
      "\<forall>a \<in> set (asked_for new). su_resource a = resource \<and> set (sanitize_scopes (se_initialScopes x)) \<subseteq> set (su_requestedScopes a)"
      "length (sent_requests new) \<le> length (asked_for new)" "length (asked_for new) \<le> se_maxStepUpAttempts x - (attempts + 1)"
      "distinct (map attempt_key (asked_for new))" "attempt_key ` set (asked_for new) \<inter> insert (attempt_key ask) attempted = {}"
      using less.hyps [OF diff_less_mono2 goes_on(5)] goes_on(1) by auto
    show ?thesis
      using new goes_on(1-4)
      by (intro exI [of _ "Authorized ask # Requested (withBearerAuthorization (se_request x) (Some t)) # new"]) auto
  next
    case (asks ask r)
    then show ?thesis by auto
  qed simp
qed

text \<open>However a resource answers, a step-up execution asks for more scopes at most the configured number of
  times, for the resource it was given, never twice for the same scopes at the same place and never for
  less than the initial scopes; and it sends at most one more request than it asks, each the given request
  with nothing changed but its Authorization header.\<close>

theorem step_up_is_bounded:
  assumes "executeProtectedResourceRequestWithStepUp storage x w = (res, w', past)"
  shows "length (asked_for past) \<le> se_maxStepUpAttempts x \<and> length (sent_requests past) \<le> length (asked_for past) + 1 \<and>
     distinct (map attempt_key (asked_for past)) \<and>
     (\<forall>a \<in> set (asked_for past). su_resource a = normalizeResourceKey (se_resource x) \<and>
        set (sanitize_scopes (se_initialScopes x)) \<subseteq> set (su_requestedScopes a)) \<and>
     (\<forall>r \<in> set (sent_requests past). oq_url r = oq_url (se_request x) \<and> oq_method r = oq_method (se_request x) \<and>
        oq_body r = oq_body (se_request x) \<and>
        without_authorization (oq_headers r) = without_authorization (oq_headers (se_request x)))"
proof -
  have auth: "toLowerAscii (trimAsciiWhitespace ''Authorization'') = toLowerAscii ''Authorization''" by code_simp
  have bearer: "oq_url (withBearerAuthorization r t) = oq_url r \<and> oq_method (withBearerAuthorization r t) = oq_method r \<and>
      oq_body (withBearerAuthorization r t) = oq_body r \<and>
      without_authorization (oq_headers (withBearerAuthorization r t)) = without_authorization (oq_headers r)" for r t
    by (auto simp: withBearerAuthorization_def without_authorization_def Let_def auth split: option.splits)
  have goal: ?thesis if found: "\<exists>t new. past = Requested (withBearerAuthorization (se_request x) t) # new \<and>
     (\<forall>r \<in> set (sent_requests new). \<exists>t. r = withBearerAuthorization (se_request x) t) \<and>
     (\<forall>a \<in> set (asked_for new). su_resource a = normalizeResourceKey (se_resource x) \<and>
        set (sanitize_scopes (se_initialScopes x)) \<subseteq> set (su_requestedScopes a)) \<and>
     length (sent_requests new) \<le> length (asked_for new) \<and> length (asked_for new) \<le> se_maxStepUpAttempts x \<and>
     distinct (map attempt_key (asked_for new))"
  proof -
    obtain t new where new: "past = Requested (withBearerAuthorization (se_request x) t) # new"
        "\<forall>r \<in> set (sent_requests new). \<exists>t. r = withBearerAuthorization (se_request x) t"
      and rest: "\<forall>a \<in> set (asked_for new). su_resource a = normalizeResourceKey (se_resource x) \<and>
          set (sanitize_scopes (se_initialScopes x)) \<subseteq> set (su_requestedScopes a)"
        "length (sent_requests new) \<le> length (asked_for new)" "length (asked_for new) \<le> se_maxStepUpAttempts x"
        "distinct (map attempt_key (asked_for new))"
      using found by blast
    have "\<forall>r \<in> set (sent_requests past). \<exists>t. r = withBearerAuthorization (se_request x) t" using new by auto
    then have "\<forall>r \<in> set (sent_requests past). oq_url r = oq_url (se_request x) \<and> oq_method r = oq_method (se_request x) \<and>
        oq_body r = oq_body (se_request x) \<and>
        without_authorization (oq_headers r) = without_authorization (oq_headers (se_request x))"
      using bearer by metis
    then show ?thesis using rest by (simp add: new(1))
  qed
  consider "past = []" | t where "past = [Requested (withBearerAuthorization (se_request x) t)]"
    | executor authorizer t response where "step_up_loop executor authorizer storage x (normalizeResourceKey (se_resource x)) 0 {} t
        response w [Requested (withBearerAuthorization (se_request x) t)] = (res, w', past)"
    using assms by (auto simp: executeProtectedResourceRequestWithStepUp_def Let_def split: option.splits sum.splits if_splits)
  then show ?thesis
  proof cases
    case 3
    from step_up_log [OF this] show ?thesis by (intro goal) auto
  qed (simp_all add: bearer)
qed

end
