(* ===== verification/Spec2Isabelle.thy ===== *)
theory Spec2Isabelle
  imports RouterReplies Notifications Handshake Pagination TaskReceiver ServerSpec ResourceContent
    HttpPromises HttpSessions ClientSpec ClientPromises ClientHandshake DiscoveryExample OAuthSpec StepUp
begin

text \<open>
  A verification development for the C++ SDK of the Model Context Protocol. Paths are relative to
  the root of the repository.

  The program. A peer (client or server) exchanges JSON-RPC messages with another one over a
  transport. Messages are parsed and printed by src/jsonrpc/messages.cpp. The router,
  src/jsonrpc/router.cpp, matches responses to requests, runs request handlers, enforces limits,
  times requests out, and keeps track of progress and cancellation. The session,
  src/lifecycle/session.cpp, is the lifecycle state machine with the initialize handshake; the
  initialize parameters and results go through src/detail/initialize_codec.cpp. Long-running
  requests become tasks, kept by src/util/tasks.cpp; lists are paged with base64url cursors.
  Servers (src/server), clients (src/client) and transports (src/transport) are built on these. A
  client that is refused by an HTTP server finds out where to authorize itself and asks for tokens
  with src/auth.

  Theories and what they model.
  - Prelude: byte strings, decimal printing and \<open>stoull\<close>, errors as sums, hash maps as association
    lists in insertion order (\<open>umap\<close>), the locale of keyed tables and the locale of transition
    systems with an invariant.
  - Json: JSON values of jsoncons (objects keep the order of insertion; doubles are rationals,
    infinities or NaN; integers are the 64-bit ranges of the source), member access and update.
  - Messages: src/jsonrpc/messages.cpp, response_factories.cpp and the message structs of
    include/mcp/jsonrpc. The text parser and printer of jsoncons are parameters.
    Notifications: include/mcp/util/progress.hpp and cancellation.hpp.
  - NestedTable, Router: the two-level tables and every operation of src/jsonrpc/router.cpp as a
    function on the record \<open>router\<close>. RouterInv: the step relation and normal forms of the
    operations; RouterSafety, RouterPromises: the invariant; RouterSpec, RouterReplies: the
    properties.
  - Codec: src/detail/initialize_codec.cpp. Session: src/lifecycle/session.cpp. SessionSpec: its
    step relation, invariant and properties. Handshake: the client's initialize parameters of
    src/client/client.cpp and the whole handshake of two sessions.
  - Base64Url: include/mcp/detail/base64url.hpp on 32-bit words. Pagination: the cursors and pagers
    of src/util/tasks.cpp, src/server/detail/helpers.cpp and list_handler_helpers.cpp.
  - Tasks: task data and the in-memory store of src/util/tasks.cpp; TaskStore: its step relation,
    invariant and properties; TaskReceiver: the receiver on any store, given as a record of
    operations, with the contract it needs as a locale.
  - ServerData: the definition and result structs of include/mcp/server, log levels, and the tool
    execution of src/server/detail/helpers.cpp. Server: src/server/server.cpp, its registries,
    notifications and request handlers, composed with session, router and task receiver.
    ServerSpec: the steps of a server, the invariant of its registries and its properties.
    ResourceContent: the resource content factories and standard Base64. Schema: the validator of
    src/schema/validator.cpp around the third-party one.
  - ClientData: the feature calls of src/client/client.cpp, their parsers, and the page loop of
    include/mcp/client/client.hpp. ClientSpec: client and server together. ClientChecks: the checks
    of requests that reach a client and include/mcp/client/url_elicitation_utils.hpp;
    ClientChecksSpec: the grammar of conversations and the shape of accepted URLs. ClientCore: the
    state of a client, its handlers for roots, sampling and elicitation; ClientDispatch: messages,
    outbound calls and the work of its thread pools, src/client/client.cpp. ClientPromises: the steps
    of a client, their invariant and its properties. ClientHandshake: a client object and a server
    object that exchange the initialize handshake through their routers.
  - Sse: the encoder, the parser and the event ids of include/mcp/http/sse. HttpHeaders:
    include/mcp/detail/ascii.hpp, the origin policy of include/mcp/security, header lists, the header
    states of a client and request validation, include/mcp/transport/http. HttpAuthorization and
    HttpServer: src/transport/http/server.cpp. HttpSpec: streams as append-only logs and the
    refinement; HttpPromises and HttpSessions: the properties of streams and of sessions, on the
    server of HttpExample.
  - Url: include/mcp/detail/url.hpp. Discovery: src/auth/protected_resource_metadata.cpp, the
    discovery of authorization servers; DiscoverySpec: what it fetches and what it returns;
    DiscoveryServer: with the challenges and the metadata of the HTTP server; DiscoveryExample: the
    witnesses. OAuthClient: src/auth/oauth_client.cpp; OAuthSpec: its authorization URLs and token
    requests as a reader decodes them, and where redirects take them; StepUp: the log of a step-up.

  How code becomes definitions. A class is a record, a method a function on it that returns the
  new record and its result; a thrown exception is \<open>Inl\<close>, an absent optional is \<open>None\<close>. Time and
  random bytes are arguments. \<open>createTask\<close> is given one time although the source reads the clock
  for purging and again for the new task. The time at which a task expires is computed in unbounded
  integers, where the source's chrono arithmetic could overflow for times to live near the end of its
  range. Handlers, senders and observers are called through the record: the model logs the call,
  because their bodies are the user's; the call of a client's URL handler is logged with what the
  handler answered. A future is an index into
  the list \<open>promises\<close> of the router, each entry empty or set.

  Concurrency. The router is used from many threads. One step of \<open>router_step\<close> is the work between
  two moments at which the source holds no lock and calls foreign code: \<open>dispatchRequest\<close> and
  \<open>sendRequest\<close> are split around the handler and the transport, and the completion job is a step of
  its own, so every interleaving of those is covered. Popping an in-flight request and setting its
  promise is one step; the two halves of \<open>handleRequestTimeout\<close> exist as definitions too
  (\<open>timeout_pop\<close>, \<open>timeout_finish\<close>). Session and task store run each operation under their mutex,
  so an operation is a step; \<open>handleInitializeResponse\<close> is one too, although the source releases the
  mutex before it sends notifications/initialized. The HTTP server holds its lock except while a handler runs: a request is
  a begin step and an end step (\<open>handleRequest_begin\<close>, \<open>handleRequest_end\<close>), and a run is a list
  of such steps, messages and session changes in any order. A step reads the clock once; a stream
  counts its events with an unbounded number, because a 64-bit counter does not come round.

  Bounds and fuel. \<open>collect_pages\<close> and \<open>collect_task_lists\<close> take the number of requests a client is
  willing to send; one more than the number of items is proved to be enough. The loop that draws
  task ids takes the list of draws and has no result when they run out. Waiting for a task is one
  round of the loop, without a result when the source goes to sleep. Sizes are 64-bit where they
  can overflow, as in the end of a page.

  What the lemmas show. Router: no promise is lost and no tracked request owns a settled one, shutdown
  settles all, limits and progress indexes hold, a handler runs at most once per request id, and what each message does.
  Session: the lifecycle edges, the agreement of the gates with what is enforced, and that a
  handshake ends in agreement or in the initial state. Tasks: terminal tasks are immutable, access
  is by authorization context, the active limit holds, and what was completed is delivered. Server:
  requests pass two gates, which are those of two tables, by state and by capability, subscriptions never dangle, tools and prompts see validated arguments,
  and a tool call that runs as a task delivers what the direct call would have. HTTP server: streams
  refine logs, resumption loses and repeats nothing, a message for the client goes to one place and
  waiting ones reach the next stream, handlers see admitted requests only, and a deleted session
  stays deleted. Client and server: a client that follows the cursors of a list gets what the server
  has registered, the page loop always ends, definitions survive the wire, and the two objects shake
  hands as their sessions do. Client: handlers see validated requests only, completions of URL
  elicitations follow acceptances by the user's handler, and results are checked before they leave.
  Authorization: every URL that is fetched was checked, redirects stay where the policy allows,
  discovered metadata match the endpoint and are those that the modelled server publishes, token
  requests carry their parameters to the endpoint, and step-ups end. Round trips: messages,
  notifications, capabilities, cursors, binary contents, event ids, event streams.

  Interfaces. \<open>keyed_table\<close> and \<open>erasable_table\<close> (hash maps, nested tables, JSON objects, header
  lists), \<open>invariant_system\<close> (router, session, task store, server, HTTP server, client), \<open>pager\<close> (both cursor formats),
  \<open>paged_list\<close> (the four lists of a server as a client sees them), \<open>discovery_log\<close> (what the steps of
  a discovery do to its log) and \<open>task_store_contract\<close> (the in-memory store) are locales interpreted on
  the model.

  Parameters of the server. \<open>server_env\<close> says what the user's handlers, the JSON schema validator and
  the task store do. The thread of a tool call that runs as a task is an entry of \<open>sv_background\<close>
  until its step. A core handler answers at once, so its future is ready when the router posts the
  completion job (\<open>server_complete\<close>).

  Parameters of the client. \<open>client_env\<close> says what the user's handlers answer, what the schema
  validator is, and the clock and random bytes of the task store. Work of the thread pools waits in
  \<open>cl_work\<close> until a step runs it. The transport is a record of what starting and sending do.

  Parameters of the authorization client. \<open>discovery_env\<close> has the fetcher, the resolver, the address
  functions of Boost and the JSON parser; fetcher, resolver and the executors and authorizers of
  oauth_client.cpp are given the log of the calls before them, so that they may answer differently
  each time. SHA-256 and random bytes are arguments. Redirect and step-up loops end by the limits of
  their policies, which is the measure of their recursion. The default token storage is
  \<open>memory_storage\<close> on an empty table.

  Not modelled: the HTTP client and the runtime, the stdio transport and its inbound loop, the runners,
  client registration and the loopback receiver, the subprocess transport with \<open>connectStdio\<close> and
  \<open>connectHttp\<close>, and the default fetcher and resolver. Sockets, TLS, processes, timers and the
  operating system's randomness are inputs or left out; the JSON schema validator and the JSON text
  format are third-party code.
\<close>

end
